(* ===== verification/Prelude.thy ===== *)
theory Prelude
  imports Main "HOL-Library.Char_ord" "HOL-Library.List_Lexorder"
begin

text \<open>
  The prelude of the development: programs with exceptions over an explicit
  state, a small program logic for them, list-backed database tables, and the
  fixed-point money arithmetic of the code.

  A program is a function from the state to a result (\<open>Inl\<close> an exception that was
  raised, \<open>Inr\<close> the value that was returned) and the state it leaves behind.
  The state survives an exception, as the process and its database connection do;
  undoing writes is the business of a transaction block and is modelled separately.
\<close>

section \<open>Programs\<close>

type_synonym ('s, 'e, 'a) prog = "'s \<Rightarrow> ('e + 'a) \<times> 's"

definition ret :: "'a \<Rightarrow> ('s, 'e, 'a) prog" where
  "ret x = (\<lambda>s. (Inr x, s))"

definition raise :: "'e \<Rightarrow> ('s, 'e, 'a) prog" where
  "raise e = (\<lambda>s. (Inl e, s))"

definition bnd :: "('s, 'e, 'a) prog \<Rightarrow> ('a \<Rightarrow> ('s, 'e, 'b) prog) \<Rightarrow> ('s, 'e, 'b) prog" where
  "bnd m f = (\<lambda>s. case m s of (Inl e, t) \<Rightarrow> (Inl e, t) | (Inr x, t) \<Rightarrow> f x t)"

definition gets :: "('s \<Rightarrow> 'a) \<Rightarrow> ('s, 'e, 'a) prog" where
  "gets f = (\<lambda>s. (Inr (f s), s))"

definition modifies :: "('s \<Rightarrow> 's) \<Rightarrow> ('s, 'e, unit) prog" where
  "modifies f = (\<lambda>s. (Inr (), f s))"

definition try_except :: "('s, 'e, 'a) prog \<Rightarrow> ('e \<Rightarrow> ('s, 'e, 'a) prog) \<Rightarrow> ('s, 'e, 'a) prog" where
  "try_except m h = (\<lambda>s. case m s of (Inl e, t) \<Rightarrow> h e t | (Inr x, t) \<Rightarrow> (Inr x, t))"

definition whenever :: "bool \<Rightarrow> ('s, 'e, unit) prog \<Rightarrow> ('s, 'e, unit) prog" where
  "whenever c m = (if c then m else ret ())"

text \<open>\<open>raise_if c e\<close> is the guard \<open>if c: raise e\<close>.\<close>

definition raise_if :: "bool \<Rightarrow> 'e \<Rightarrow> ('s, 'e, unit) prog" where
  "raise_if c e = (if c then raise e else ret ())"

text \<open>A lookup that raises when there is no row.\<close>

definition get_or_raise :: "'e \<Rightarrow> 'a option \<Rightarrow> ('s, 'e, 'a) prog" where
  "get_or_raise e x = (case x of None \<Rightarrow> raise e | Some a \<Rightarrow> ret a)"

primrec for_each :: "'x list \<Rightarrow> ('x \<Rightarrow> ('s, 'e, unit) prog) \<Rightarrow> ('s, 'e, unit) prog" where
  "for_each [] f = ret ()"
| "for_each (x # xs) f = bnd (f x) (\<lambda>_. for_each xs f)"

primrec for_collect :: "'x list \<Rightarrow> ('x \<Rightarrow> ('s, 'e, 'y) prog) \<Rightarrow> ('s, 'e, 'y list) prog" where
  "for_collect [] f = ret []"
| "for_collect (x # xs) f = bnd (f x) (\<lambda>y. bnd (for_collect xs f) (\<lambda>ys. ret (y # ys)))"

named_theorems run \<open>evaluation of programs on a state\<close>

lemma run_ret [run, simp]: "ret x s = (Inr x, s)"
  by (simp add: ret_def)

lemma run_raise [run, simp]: "raise e s = (Inl e, s)"
  by (simp add: raise_def)

lemma run_gets [run, simp]: "gets f s = (Inr (f s), s)"
  by (simp add: gets_def)

lemma run_modifies [run, simp]: "modifies f s = (Inr (), f s)"
  by (simp add: modifies_def)

lemma run_bnd [run]:
  "bnd m f s = (case m s of (Inl e, t) \<Rightarrow> (Inl e, t) | (Inr x, t) \<Rightarrow> f x t)"
  by (simp add: bnd_def)

lemma run_try_except [run]:
  "try_except m h s = (case m s of (Inl e, t) \<Rightarrow> h e t | (Inr x, t) \<Rightarrow> (Inr x, t))"
  by (simp add: try_except_def)

lemma run_whenever [run]: "whenever c m s = (if c then m s else (Inr (), s))"
  by (simp add: whenever_def)

lemma run_raise_if [run]: "raise_if c e s = (if c then (Inl e, s) else (Inr (), s))"
  by (simp add: raise_if_def)

lemma run_get_or_raise [run]:
  "get_or_raise e x s = (case x of None \<Rightarrow> (Inl e, s) | Some a \<Rightarrow> (Inr a, s))"
  by (simp add: get_or_raise_def split: option.split)

lemma bnd_ret [simp]: "bnd (ret x) f = f x"
  by (simp add: fun_eq_iff run)

lemma bnd_raise [simp]: "bnd (raise e) f = raise e"
  by (simp add: fun_eq_iff run)

lemma bnd_assoc: "bnd (bnd m f) g = bnd m (\<lambda>x. bnd (f x) g)"
  by (auto simp: fun_eq_iff run split: prod.split sum.split)

lemma bnd_Inr: "m s = (Inr x, t) \<Longrightarrow> bnd m f s = f x t"
  by (simp add: run)

lemma bnd_Inl: "m s = (Inl e, t) \<Longrightarrow> bnd m f s = (Inl e, t)"
  by (simp add: run)

lemma bnd_gets [simp]: "bnd (gets f) g s = g (f s) s"
  by (simp add: run)

lemma bnd_modifies [simp]: "bnd (modifies f) g s = g () (f s)"
  by (simp add: run)

text \<open>Inversion of a sequence that returned: both halves returned.\<close>

lemma bnd_InrE:
  assumes "bnd m f s = (Inr y, u)"
  obtains x t where "m s = (Inr x, t)" and "f x t = (Inr y, u)"
  using assms by (auto simp: run split: prod.splits sum.splits)

lemma bnd_InlE:
  assumes "bnd m f s = (Inl e, u)"
  obtains (first) "m s = (Inl e, u)"
    | (second) x t where "m s = (Inr x, t)" and "f x t = (Inl e, u)"
  using assms by (auto simp: run split: prod.splits sum.splits)

lemma raise_if_InrD: "raise_if c e s = (Inr u, t) \<Longrightarrow> \<not> c \<and> t = s"
  by (auto simp: run split: if_splits)

lemma get_or_raise_InrD: "get_or_raise e x s = (Inr a, t) \<Longrightarrow> x = Some a \<and> t = s"
  by (auto simp: run split: option.splits)

text \<open>The same as equivalences, to take the whole run of a returning program apart.\<close>

named_theorems returns \<open>when a program returns, construct by construct\<close>

lemma bnd_returns [returns]:
  "bnd m f s = (Inr y, u) \<longleftrightarrow> (\<exists>x t. m s = (Inr x, t) \<and> f x t = (Inr y, u))"
  by (auto simp: run split: prod.splits sum.splits)

lemma ret_returns [returns]: "ret x s = (Inr y, u) \<longleftrightarrow> y = x \<and> u = s"
  by auto

lemma raise_returns [returns]: "raise e s = (Inr y, u) \<longleftrightarrow> False"
  by simp

lemma gets_returns [returns]: "gets f s = (Inr y, u) \<longleftrightarrow> y = f s \<and> u = s"
  by auto

lemma modifies_returns [returns]: "modifies f s = (Inr y, u) \<longleftrightarrow> u = f s"
  by auto

lemma whenever_returns [returns]:
  "whenever c m s = (Inr y, u) \<longleftrightarrow> (if c then m s = (Inr (), u) else u = s)"
  by (auto simp: run)

lemma raise_if_returns [returns]: "raise_if c e s = (Inr y, u) \<longleftrightarrow> \<not> c \<and> u = s"
  by (auto simp: run)

lemma get_or_raise_returns [returns]: "get_or_raise e x s = (Inr y, u) \<longleftrightarrow> x = Some y \<and> u = s"
  by (auto simp: run split: option.splits)

lemma try_except_returns [returns]:
  "try_except m h s = (Inr y, u) \<longleftrightarrow>
     m s = (Inr y, u) \<or> (\<exists>e t. m s = (Inl e, t) \<and> h e t = (Inr y, u))"
  by (auto simp: run split: prod.splits sum.splits)

named_theorems raises \<open>when a program raises, construct by construct\<close>

lemma bnd_raises [raises]:
  "bnd m f s = (Inl e, u) \<longleftrightarrow>
     m s = (Inl e, u) \<or> (\<exists>x t. m s = (Inr x, t) \<and> f x t = (Inl e, u))"
  by (auto simp: run split: prod.splits sum.splits)

lemma ret_raises [raises]: "ret x s = (Inl e, u) \<longleftrightarrow> False"
  by simp

lemma raise_raises [raises]: "raise e s = (Inl e', u) \<longleftrightarrow> e' = e \<and> u = s"
  by auto

lemma gets_raises [raises]: "gets f s = (Inl e, u) \<longleftrightarrow> False"
  by simp

lemma modifies_raises [raises]: "modifies f s = (Inl e, u) \<longleftrightarrow> False"
  by simp

lemma whenever_raises [raises]: "whenever c m s = (Inl e, u) \<longleftrightarrow> c \<and> m s = (Inl e, u)"
  by (auto simp: run)

lemma raise_if_raises [raises]: "raise_if c e s = (Inl e', u) \<longleftrightarrow> c \<and> e' = e \<and> u = s"
  by (auto simp: run)

lemma get_or_raise_raises [raises]:
  "get_or_raise e x s = (Inl e', u) \<longleftrightarrow> x = None \<and> e' = e \<and> u = s"
  by (auto simp: run split: option.splits)

lemma try_except_raises [raises]:
  "try_except m h s = (Inl e', u) \<longleftrightarrow> (\<exists>e t. m s = (Inl e, t) \<and> h e t = (Inl e', u))"
  by (auto simp: run split: prod.splits sum.splits)

section \<open>Invariants and triples\<close>

text \<open>
  \<open>valid P m Q E\<close>: started where \<open>P\<close> holds, a return satisfies \<open>Q\<close> and an
  exception satisfies \<open>E\<close>. Programs always end (every loop of the code is bounded), so this
  is total correctness. \<open>keeps I m\<close>: the invariant \<open>I\<close> survives, exception or not.
\<close>

definition valid ::
  "('s \<Rightarrow> bool) \<Rightarrow> ('s, 'e, 'a) prog \<Rightarrow> ('a \<Rightarrow> 's \<Rightarrow> bool) \<Rightarrow> ('e \<Rightarrow> 's \<Rightarrow> bool) \<Rightarrow> bool" where
  "valid P m Q E \<longleftrightarrow>
     (\<forall>s. P s \<longrightarrow> (case m s of (Inl e, t) \<Rightarrow> E e t | (Inr x, t) \<Rightarrow> Q x t))"

definition keeps :: "('s \<Rightarrow> bool) \<Rightarrow> ('s, 'e, 'a) prog \<Rightarrow> bool" where
  "keeps I m \<longleftrightarrow> (\<forall>s. I s \<longrightarrow> I (snd (m s)))"

named_theorems keeps_intros \<open>one preservation rule per program construct\<close>

lemma keepsI: "(\<And>s. I s \<Longrightarrow> I (snd (m s))) \<Longrightarrow> keeps I m"
  by (simp add: keeps_def)

lemma keepsD: "keeps I m \<Longrightarrow> I s \<Longrightarrow> I (snd (m s))"
  by (simp add: keeps_def)

lemma keeps_run: "keeps I m \<Longrightarrow> I s \<Longrightarrow> m s = (r, t) \<Longrightarrow> I t"
  by (metis keepsD snd_conv)

lemma keeps_valid: "keeps I m \<longleftrightarrow> valid I m (\<lambda>_. I) (\<lambda>_. I)"
  by (simp add: keeps_def valid_def split_def split: sum.split)

lemma valid_bnd:
  assumes "valid P m R E" and "\<And>x. valid (R x) (f x) Q E"
  shows "valid P (bnd m f) Q E"
  using assms unfolding valid_def run_bnd
  by (fastforce split: prod.splits sum.splits)

lemma valid_weaken:
  assumes "valid P m Q E" and "\<And>s. P' s \<Longrightarrow> P s"
    and "\<And>x s. Q x s \<Longrightarrow> Q' x s" and "\<And>e s. E e s \<Longrightarrow> E' e s"
  shows "valid P' m Q' E'"
  using assms unfolding valid_def by (fastforce split: prod.splits sum.splits)

lemma keeps_ret [keeps_intros]: "keeps I (ret x)"
  by (simp add: keeps_def)

lemma keeps_raise [keeps_intros]: "keeps I (raise e)"
  by (simp add: keeps_def)

lemma keeps_gets [keeps_intros]: "keeps I (gets f)"
  by (simp add: keeps_def)

lemma keeps_modifies: "(\<And>s. I s \<Longrightarrow> I (f s)) \<Longrightarrow> keeps I (modifies f)"
  by (simp add: keeps_def)

lemma keeps_bnd [keeps_intros]:
  assumes "keeps I m" and "\<And>x. keeps I (f x)"
  shows "keeps I (bnd m f)"
  using assms unfolding keeps_def run_bnd
  by (auto split: prod.splits sum.splits)

lemma keeps_bnd_returned:
  assumes "keeps I m" and "\<And>s x t. m s = (Inr x, t) \<Longrightarrow> keeps I (f x)"
  shows "keeps I (bnd m f)"
proof (rule keepsI)
  fix s assume s: "I s"
  show "I (snd (bnd m f s))"
  proof (cases "m s")
    case (Pair r t)
    then have "I t" using assms(1) s by (metis keeps_run)
    then show ?thesis using assms(2) Pair by (cases r) (auto simp: run_bnd keepsD)
  qed
qed

lemma keeps_try_except [keeps_intros]:
  assumes "keeps I m" and "\<And>e. keeps I (h e)"
  shows "keeps I (try_except m h)"
  using assms unfolding keeps_def run_try_except
  by (auto split: prod.splits sum.splits)

lemma keeps_whenever [keeps_intros]: "(c \<Longrightarrow> keeps I m) \<Longrightarrow> keeps I (whenever c m)"
  by (simp add: whenever_def keeps_ret)

lemma keeps_raise_if [keeps_intros]: "keeps I (raise_if c e)"
  by (simp add: raise_if_def keeps_ret keeps_raise)

lemma keeps_get_or_raise [keeps_intros]: "keeps I (get_or_raise e x)"
  by (simp add: get_or_raise_def keeps_ret keeps_raise split: option.split)

lemma keeps_if [keeps_intros]:
  "(c \<Longrightarrow> keeps I m) \<Longrightarrow> (\<not> c \<Longrightarrow> keeps I n) \<Longrightarrow> keeps I (if c then m else n)"
  by simp

lemma keeps_option [keeps_intros]:
  "(x = None \<Longrightarrow> keeps I m) \<Longrightarrow> (\<And>a. x = Some a \<Longrightarrow> keeps I (f a)) \<Longrightarrow>
   keeps I (case x of None \<Rightarrow> m | Some a \<Rightarrow> f a)"
  by (cases x) auto

lemma keeps_prod [keeps_intros]:
  "(\<And>a b. x = (a, b) \<Longrightarrow> keeps I (f a b)) \<Longrightarrow> keeps I (case x of (a, b) \<Rightarrow> f a b)"
  by (cases x) auto

lemma keeps_let [keeps_intros]: "keeps I (f x) \<Longrightarrow> keeps I (Let x f)"
  by simp

lemma keeps_for_each [keeps_intros]:
  "(\<And>x. x \<in> set xs \<Longrightarrow> keeps I (f x)) \<Longrightarrow> keeps I (for_each xs f)"
  by (induction xs) (auto intro!: keeps_intros)

lemma keeps_for_collect [keeps_intros]:
  "(\<And>x. x \<in> set xs \<Longrightarrow> keeps I (f x)) \<Longrightarrow> keeps I (for_collect xs f)"
  by (induction xs) (auto intro!: keeps_intros)

lemma keeps_conj: "keeps I m \<Longrightarrow> keeps J m \<Longrightarrow> keeps (\<lambda>s. I s \<and> J s) m"
  by (simp add: keeps_def)

text \<open>
  \<open>settles I m\<close>: the invariant holds again whenever \<open>m\<close> returns; what an exception
  leaves half done is for the enclosing transaction to undo.
\<close>

definition settles :: "('s \<Rightarrow> bool) \<Rightarrow> ('s, 'e, 'a) prog \<Rightarrow> bool" where
  "settles I m \<longleftrightarrow> valid I m (\<lambda>_. I) (\<lambda>_ _. True)"

named_theorems settles_intros \<open>one rule per program construct, for returns only\<close>

lemma settlesI: "(\<And>s x t. I s \<Longrightarrow> m s = (Inr x, t) \<Longrightarrow> I t) \<Longrightarrow> settles I m"
  by (fastforce simp: settles_def valid_def split: prod.splits sum.splits)

lemma settlesD: "settles I m \<Longrightarrow> I s \<Longrightarrow> m s = (Inr x, t) \<Longrightarrow> I t"
  by (fastforce simp: settles_def valid_def split: prod.splits sum.splits)

lemma keeps_settles: "keeps I m \<Longrightarrow> settles I m"
  by (metis keeps_run settlesI)

lemma settles_bnd [settles_intros]:
  "settles I m \<Longrightarrow> (\<And>x. settles I (f x)) \<Longrightarrow> settles I (bnd m f)"
  by (rule settlesI) (auto elim!: bnd_InrE dest: settlesD)

lemma settles_bnd_state:
  assumes "settles I m" and "\<And>s x t. I s \<Longrightarrow> m s = (Inr x, t) \<Longrightarrow> I t \<Longrightarrow> R x t"
    and "\<And>x. settles (\<lambda>t. I t \<and> R x t) (f x)"
  shows "settles I (bnd m f)"
  by (rule settlesI) (use assms in \<open>blast elim: bnd_InrE dest: settlesD\<close>)

lemma settles_whenever [settles_intros]: "(c \<Longrightarrow> settles I m) \<Longrightarrow> settles I (whenever c m)"
  by (simp add: whenever_def keeps_settles keeps_ret)

lemma settles_if [settles_intros]:
  "(c \<Longrightarrow> settles I m) \<Longrightarrow> (\<not> c \<Longrightarrow> settles I n) \<Longrightarrow> settles I (if c then m else n)"
  by simp

lemma settles_option [settles_intros]:
  "(x = None \<Longrightarrow> settles I m) \<Longrightarrow> (\<And>a. x = Some a \<Longrightarrow> settles I (f a)) \<Longrightarrow>
   settles I (case x of None \<Rightarrow> m | Some a \<Rightarrow> f a)"
  by (cases x) auto

lemma settles_prod [settles_intros]:
  "(\<And>a b. x = (a, b) \<Longrightarrow> settles I (f a b)) \<Longrightarrow> settles I (case x of (a, b) \<Rightarrow> f a b)"
  by (cases x) auto

lemma settles_let [settles_intros]: "settles I (f x) \<Longrightarrow> settles I (Let x f)"
  by simp

lemma settles_for_each [settles_intros]:
  "(\<And>x. x \<in> set xs \<Longrightarrow> settles I (f x)) \<Longrightarrow> settles I (for_each xs f)"
  by (induction xs) (auto intro: settles_bnd keeps_settles keeps_ret)

lemma settles_for_collect [settles_intros]:
  "(\<And>x. x \<in> set xs \<Longrightarrow> settles I (f x)) \<Longrightarrow> settles I (for_collect xs f)"
  by (induction xs) (auto intro!: settles_bnd intro: keeps_settles keeps_ret)

text \<open>A loop over distinct things, each of which it finds as the loop's snapshot had it.\<close>

lemma settles_for_each_snapshot:
  assumes step: "\<And>x xs s t. I s \<Longrightarrow> R (x # xs) s \<Longrightarrow> f x s = (Inr (), t) \<Longrightarrow> I t \<and> R xs t"
    and "I s" and "R xs s" and "for_each xs f s = (Inr (), t)"
  shows "I t"
  using assms(2-)
  by (induction xs arbitrary: s) (auto elim!: bnd_InrE dest: step)

text \<open>\<open>effect_free m\<close>: the same result from every state, which stays as it is.\<close>

definition effect_free :: "('s, 'e, 'a) prog \<Rightarrow> bool" where
  "effect_free m \<longleftrightarrow> (\<exists>r. \<forall>s. m s = (r, s))"

lemma effect_free_ret: "effect_free (ret x)"
  by (simp add: effect_free_def)

lemma effect_free_raise: "effect_free (raise e)"
  by (simp add: effect_free_def)

lemma effect_free_raise_if: "(\<not> c \<Longrightarrow> effect_free m) \<Longrightarrow> effect_free (bnd (raise_if c e) (\<lambda>_. m))"
  by (simp add: effect_free_def raise_if_def)

lemma effect_freeE:
  assumes "effect_free m"
  obtains r where "\<And>s. m s = (r, s)"
  using assms unfolding effect_free_def by blast

text \<open>\<open>fails E m\<close>: every exception that \<open>m\<close> raises is one of \<open>E\<close>.\<close>

definition fails :: "('e \<Rightarrow> bool) \<Rightarrow> ('s, 'e, 'a) prog \<Rightarrow> bool" where
  "fails E m \<longleftrightarrow> (\<forall>s e t. m s = (Inl e, t) \<longrightarrow> E e)"

named_theorems fails_intros \<open>which exceptions a program raises, construct by construct\<close>

lemma failsD: "fails E m \<Longrightarrow> m s = (Inl e, t) \<Longrightarrow> E e"
  by (auto simp: fails_def)

lemma fails_ret [fails_intros]: "fails E (ret x)"
  by (simp add: fails_def)

lemma fails_raise [fails_intros]: "E e \<Longrightarrow> fails E (raise e)"
  by (simp add: fails_def)

lemma fails_gets [fails_intros]: "fails E (gets f)"
  by (simp add: fails_def)

lemma fails_modifies [fails_intros]: "fails E (modifies f)"
  by (simp add: fails_def)

lemma fails_bnd [fails_intros]:
  assumes "fails E m" and "\<And>x. fails E (f x)"
  shows "fails E (bnd m f)"
  using assms unfolding fails_def bnd_raises by blast

lemma fails_whenever [fails_intros]: "(c \<Longrightarrow> fails E m) \<Longrightarrow> fails E (whenever c m)"
  by (cases c) (simp_all add: fails_def whenever_raises)

lemma fails_raise_if [fails_intros]: "(c \<Longrightarrow> E e) \<Longrightarrow> fails E (raise_if c e)"
  by (simp add: fails_def raise_if_raises)

lemma fails_get_or_raise [fails_intros]: "E e \<Longrightarrow> fails E (get_or_raise e x)"
  by (simp add: fails_def get_or_raise_raises)

lemma fails_try_except [fails_intros]:
  assumes "\<And>e. fails E (h e)"
  shows "fails E (try_except m h)"
  using assms unfolding fails_def try_except_raises by blast

lemma fails_if [fails_intros]:
  "(c \<Longrightarrow> fails E m) \<Longrightarrow> (\<not> c \<Longrightarrow> fails E n) \<Longrightarrow> fails E (if c then m else n)"
  by simp

lemma fails_option [fails_intros]:
  "(x = None \<Longrightarrow> fails E m) \<Longrightarrow> (\<And>a. x = Some a \<Longrightarrow> fails E (f a)) \<Longrightarrow>
   fails E (case x of None \<Rightarrow> m | Some a \<Rightarrow> f a)"
  by (cases x) auto

lemma fails_prod [fails_intros]:
  "(\<And>a b. x = (a, b) \<Longrightarrow> fails E (f a b)) \<Longrightarrow> fails E (case x of (a, b) \<Rightarrow> f a b)"
  by (cases x) auto

lemma fails_let [fails_intros]: "fails E (f x) \<Longrightarrow> fails E (Let x f)"
  by simp

lemma fails_for_each [fails_intros]:
  "(\<And>x. x \<in> set xs \<Longrightarrow> fails E (f x)) \<Longrightarrow> fails E (for_each xs f)"
  by (induction xs) (auto intro: fails_intros)

lemma fails_for_collect [fails_intros]:
  "(\<And>x. x \<in> set xs \<Longrightarrow> fails E (f x)) \<Longrightarrow> fails E (for_collect xs f)"
  by (induction xs) (auto intro!: fails_intros)

section \<open>Tables\<close>

text \<open>
  A table is the list of its rows in order of creation. \<open>upd_rows P f\<close> is an SQL update of
  the rows that satisfy \<open>P\<close>.
\<close>

definition upd_rows :: "('a \<Rightarrow> bool) \<Rightarrow> ('a \<Rightarrow> 'a) \<Rightarrow> 'a list \<Rightarrow> 'a list" where
  "upd_rows P f rs = map (\<lambda>r. if P r then f r else r) rs"

lemma upd_rows_Nil [simp]: "upd_rows P f [] = []"
  by (simp add: upd_rows_def)

lemma upd_rows_Cons [simp]: "upd_rows P f (r # rs) = (if P r then f r else r) # upd_rows P f rs"
  by (simp add: upd_rows_def)

lemma length_upd_rows [simp]: "length (upd_rows P f rs) = length rs"
  by (simp add: upd_rows_def)

lemma map_upd_rows: "(\<And>r. P r \<Longrightarrow> k (f r) = k r) \<Longrightarrow> map k (upd_rows P f rs) = map k rs"
  by (simp add: upd_rows_def)

lemma upd_rows_none: "(\<And>r. r \<in> set rs \<Longrightarrow> \<not> P r) \<Longrightarrow> upd_rows P f rs = rs"
  by (induction rs) auto

lemma set_upd_rows: "set (upd_rows P f rs) = (\<lambda>r. if P r then f r else r) ` set rs"
  by (simp add: upd_rows_def)

text \<open>The sum of a column over the rows that a filter selects.\<close>

definition sum_where :: "('a \<Rightarrow> int) \<Rightarrow> ('a \<Rightarrow> bool) \<Rightarrow> 'a list \<Rightarrow> int" where
  "sum_where q P rs = sum_list (map q (filter P rs))"

lemma sum_where_Nil [simp]: "sum_where q P [] = 0"
  by (simp add: sum_where_def)

lemma sum_where_Cons [simp]:
  "sum_where q P (r # rs) = (if P r then q r else 0) + sum_where q P rs"
  by (simp add: sum_where_def)

lemma sum_where_append [simp]: "sum_where q P (rs @ ts) = sum_where q P rs + sum_where q P ts"
  by (simp add: sum_where_def)

lemma sum_where_nonneg: "(\<And>r. r \<in> set rs \<Longrightarrow> P r \<Longrightarrow> 0 \<le> q r) \<Longrightarrow> 0 \<le> sum_where q P rs"
  by (induction rs) auto

lemma sum_where_ge_member:
  assumes "\<And>r. r \<in> set rs \<Longrightarrow> P r \<Longrightarrow> 0 \<le> q r" and "x \<in> set rs" and "P x"
  shows "q x \<le> sum_where q P rs"
  using assms
proof (induction rs)
  case (Cons r rs)
  have "0 \<le> sum_where q P rs" using Cons.prems(1) by (intro sum_where_nonneg) auto
  moreover have "P r \<Longrightarrow> 0 \<le> q r" using Cons.prems(1) by simp
  ultimately show ?case using Cons by (cases "x = r") fastforce+
qed simp

lemma sum_where_cong:
  "(\<And>r. r \<in> set rs \<Longrightarrow> P r = R r) \<Longrightarrow> sum_where q P rs = sum_where q R rs"
  by (simp add: sum_where_def cong: filter_cong)

text \<open>Changing the one row with a given key moves the sum by that row's contribution.\<close>

lemma sum_where_upd_key:
  assumes "distinct (map k rs)" and "r \<in> set rs" and "\<And>x. k (f x) = k x"
  shows "sum_where q P (upd_rows (\<lambda>x. k x = k r) f rs) =
         sum_where q P rs - (if P r then q r else 0) + (if P (f r) then q (f r) else 0)"
  using assms
proof (induction rs)
  case (Cons x xs)
  show ?case
  proof (cases "x = r")
    case True
    have "upd_rows (\<lambda>y. k y = k r) f xs = xs"
      using Cons.prems(1) True by (intro upd_rows_none) (auto simp: image_iff)
    then show ?thesis using True by simp
  next
    case False
    then have "r \<in> set xs" and "k x \<noteq> k r"
      using Cons.prems by (auto simp: image_iff)
    then show ?thesis using Cons by auto
  qed
qed simp

lemma find_SomeD: "find P xs = Some x \<Longrightarrow> x \<in> set xs \<and> P x"
  by (auto simp: find_Some_iff)

lemma find_upd_rows:
  assumes "\<And>r. k (f r) = k r"
  shows "find (\<lambda>r. k r = i) (upd_rows (\<lambda>r. k r = j) f rs) =
         map_option (\<lambda>r. if i = j then f r else r) (find (\<lambda>r. k r = i) rs)"
  using assms by (induction rs) auto

lemma find_append: "find P (xs @ ys) = (case find P xs of None \<Rightarrow> find P ys | Some x \<Rightarrow> Some x)"
  by (induction xs) auto

lemma find_distinct_key:
  "distinct (map k rs) \<Longrightarrow> r \<in> set rs \<Longrightarrow> find (\<lambda>x. k x = k r) rs = Some r"
  by (induction rs) (auto simp: image_iff)

text \<open>The last row that satisfies a filter: \<open>.order_by("-created_at").first()\<close>.\<close>

definition latest :: "('a \<Rightarrow> bool) \<Rightarrow> 'a list \<Rightarrow> 'a option" where
  "latest P rs = find P (rev rs)"

lemma latest_Nil [simp]: "latest P [] = None"
  by (simp add: latest_def)

lemma latest_snoc [simp]: "latest P (rs @ [r]) = (if P r then Some r else latest P rs)"
  by (simp add: latest_def)

lemma latest_SomeD: "latest P rs = Some r \<Longrightarrow> r \<in> set rs \<and> P r"
  by (auto simp: latest_def dest: find_SomeD)

section \<open>Fixed-point money\<close>

text \<open>
  A \<open>DecimalField(decimal_places=2)\<close> is an integer number of hundredths. A quotient
  brought back to two places by \<open>quantize(Decimal("0.01"))\<close> is rounded half to even, the
  default of Python's decimal context.
\<close>

type_synonym money = int

definition round_half_even :: "int \<Rightarrow> int \<Rightarrow> int" where
  "round_half_even n d =
     (let q = n div d; r = n mod d in
      if 2 * r < d then q else if d < 2 * r then q + 1
      else if even q then q else q + 1)"

lemma round_half_even_cases:
  "round_half_even n d = n div d \<and> 2 * (n mod d) \<le> d \<or>
   round_half_even n d = n div d + 1 \<and> d \<le> 2 * (n mod d)"
  by (auto simp: round_half_even_def Let_def)

lemma round_half_even_bounds:
  assumes "0 < d"
  shows "2 * n - d \<le> 2 * (d * round_half_even n d) \<and> 2 * (d * round_half_even n d) \<le> 2 * n + d"
proof -
  obtain q r where q: "q = n div d" and r: "r = n mod d" by simp
  have n: "n = d * q + r" unfolding q r by simp
  have "0 \<le> r" and "r < d" unfolding r using assms by auto
  with round_half_even_cases [of n d] show ?thesis
    unfolding q [symmetric] r [symmetric] by (auto simp: n distrib_left)
qed

lemma round_half_even_nonneg: "0 < d \<Longrightarrow> 0 \<le> n \<Longrightarrow> 0 \<le> round_half_even n d"
  by (simp add: round_half_even_def Let_def pos_imp_zdiv_nonneg_iff)

lemma div_less_of_less_mult: "0 < d \<Longrightarrow> n < d * m \<Longrightarrow> n div d < m" for n d m :: int
proof (rule ccontr)
  assume d: "0 < d" and n: "n < d * m" and "\<not> n div d < m"
  then have "d * m \<le> d * (n div d)" by (intro mult_left_mono) auto
  also have "\<dots> \<le> n" using d by (simp add: mult_div_mod_eq [symmetric] le_add_same_cancel1
      minus_mod_eq_mult_div [symmetric])
  finally show False using n by simp
qed

lemma round_half_even_le:
  assumes "0 < d" and "n \<le> d * m"
  shows "round_half_even n d \<le> m"
proof (cases "n = d * m")
  case True
  then show ?thesis using assms(1) by (simp add: round_half_even_def Let_def)
next
  case False
  then have "n div d < m" using assms by (intro div_less_of_less_mult) auto
  then show ?thesis by (auto simp: round_half_even_def Let_def)
qed

text \<open>\<open>int(x)\<close> and \<open>x // k\<close> on a Python Decimal truncate toward zero.\<close>

definition trunc_div :: "int \<Rightarrow> int \<Rightarrow> int" where
  "trunc_div a b = (if 0 \<le> a then a div b else - ((- a) div b))"

definition int_of_money :: "money \<Rightarrow> int" where
  "int_of_money m = trunc_div m 100"

lemma int_of_money_nonneg: "0 \<le> m \<Longrightarrow> int_of_money m = m div 100"
  by (simp add: int_of_money_def trunc_div_def)

section \<open>Strings\<close>

text \<open>\<open>str.lower()\<close> and \<open>str.upper()\<close> on ASCII letters.\<close>

definition lower_char :: "char \<Rightarrow> char" where
  "lower_char c = (let n = of_char c :: nat in if 65 \<le> n \<and> n \<le> 90 then char_of (n + 32) else c)"

definition upper_char :: "char \<Rightarrow> char" where
  "upper_char c = (let n = of_char c :: nat in if 97 \<le> n \<and> n \<le> 122 then char_of (n - 32) else c)"

definition str_lower :: "string \<Rightarrow> string" where
  "str_lower s = map lower_char s"

definition str_upper :: "string \<Rightarrow> string" where
  "str_upper s = map upper_char s"

text \<open>\<open>str.strip()\<close> on ASCII white space.\<close>

definition is_space :: "char \<Rightarrow> bool" where
  "is_space c \<longleftrightarrow> (let n = of_char c :: nat in n = 32 \<or> 9 \<le> n \<and> n \<le> 13 \<or> 28 \<le> n \<and> n \<le> 31)"

definition str_strip :: "string \<Rightarrow> string" where
  "str_strip s = rev (dropWhile is_space (rev (dropWhile is_space s)))"

text \<open>The decimal digits of a natural number, and the number a string of digits stands for.\<close>

fun digits :: "nat \<Rightarrow> string" where
  "digits n = (if n < 10 then [char_of (48 + n)] else digits (n div 10) @ [char_of (48 + n mod 10)])"

declare digits.simps [simp del]

definition is_digit :: "char \<Rightarrow> bool" where
  "is_digit c \<longleftrightarrow> 48 \<le> (of_char c :: nat) \<and> (of_char c :: nat) \<le> 57"

definition digits_value :: "string \<Rightarrow> nat" where
  "digits_value s = foldl (\<lambda>v c. 10 * v + (of_char c - 48)) 0 s"

definition parse_nat :: "string \<Rightarrow> nat option" where
  "parse_nat s = (if s \<noteq> [] \<and> list_all is_digit s then Some (digits_value s) else None)"

lemma digits_value_snoc: "digits_value (s @ [c]) = 10 * digits_value s + (of_char c - 48)"
  by (simp add: digits_value_def)

lemma of_char_digit: "n < 10 \<Longrightarrow> (of_char (char_of (48 + n :: nat)) :: nat) = 48 + n"
  by simp

lemma is_digit_digit: "n < 10 \<Longrightarrow> is_digit (char_of (48 + n :: nat))"
  by (simp add: is_digit_def)

lemma digits_ne [simp]: "digits n \<noteq> []"
  by (subst digits.simps) simp

lemma digits_all: "list_all is_digit (digits n)"
proof (induction n rule: digits.induct)
  case (1 n)
  then show ?case
    by (subst digits.simps) (simp add: is_digit_digit del: char_of_def)
qed

lemma digits_value_digits: "digits_value (digits n) = n"
proof (induction n rule: digits.induct)
  case (1 n)
  show ?case
  proof (cases "n < 10")
    case True
    then show ?thesis by (subst digits.simps) (simp add: digits_value_def)
  next
    case False
    with 1 show ?thesis
      by (subst digits.simps) (simp add: digits_value_snoc)
  qed
qed

lemma parse_nat_digits [simp]: "parse_nat (digits n) = Some n"
  by (simp add: parse_nat_def digits_all digits_value_digits)

text \<open>Times are microseconds since an epoch, dates are day numbers.\<close>

type_synonym timestamp = int
type_synonym date = int

definition minutes :: "int \<Rightarrow> int" where
  "minutes m = m * 60000000"

end
