(* ===== verification/GrowthModels.thy ===== *)
theory GrowthModels
  imports Prelude
begin

text \<open>
  The rows of \<open>apps/growth/models.py\<close>, \<open>apps/growth/models_revenue.py\<close> and
  \<open>apps/loyalty/models.py\<close>: coupons and their redemptions, promotion rules, referrals, loyalty accounts,
  abandoned-cart trackers, revenue attribution, customer value profiles and segments, collected in
  one record that is a component of the database.
\<close>

datatype tier = TIER_NORMAL | TIER_SILVER | TIER_GOLD

datatype discount_type = DT_PERCENTAGE | DT_FIXED

datatype campaign_type = CT_GENERAL | CT_FIRST_ORDER | CT_SEASONAL | CT_ABANDONED_CART

datatype rule_type = RT_WEEKEND_DISCOUNT | RT_VIP_DISCOUNT | RT_BUY_X_GET_Y | RT_CATEGORY_DISCOUNT

datatype referral_status = RF_PENDING | RF_COMPLETED | RF_REWARDED

datatype tracker_status = TR_ACTIVE | TR_REMINDED | TR_RECOVERED | TR_EXPIRED

datatype loyalty_tx_type = LT_EARN | LT_REDEEM | LT_ADJUST

datatype source_type = SRC_SMS | SRC_COUPON | SRC_REFERRAL | SRC_PROMOTION

datatype revenue_tier = REV_LOW | REV_MEDIUM | REV_HIGH

datatype frequency_tag = FREQ_NEW | FREQ_OCCASIONAL | FREQ_REGULAR | FREQ_LOYAL

datatype segment_code = SEG_NEW | SEG_ACTIVE | SEG_VIP | SEG_AT_RISK | SEG_DORMANT

datatype growth_event_type =
    GE_PRODUCT_VIEW | GE_ADD_TO_CART | GE_CHECKOUT_START | GE_CHECKOUT_COMPLETE | GE_SMS_SENT
  | GE_SMS_CONVERSION

record coupon =
  cpn_id :: nat
  cpn_code :: string
  cpn_discount_type :: discount_type
  cpn_value :: money
  cpn_campaign :: campaign_type
  cpn_min_order :: money
  cpn_max_discount :: "money option"
  cpn_limit_global :: "int option"
  cpn_limit_per_user :: int
  cpn_usage_count :: int
  cpn_valid_from :: "timestamp option"
  cpn_valid_until :: "timestamp option"
  cpn_is_active :: bool

text \<open>The window shared by \<open>Coupon.is_valid_now\<close> and \<open>PromotionRule.is_valid_now\<close>\<close>

definition in_window :: "timestamp \<Rightarrow> timestamp option \<Rightarrow> timestamp option \<Rightarrow> bool" where
  "in_window t from until \<longleftrightarrow>
     (case from of Some f \<Rightarrow> f \<le> t | None \<Rightarrow> True) \<and>
     (case until of Some u \<Rightarrow> t \<le> u | None \<Rightarrow> True)"

definition coupon_valid_now :: "timestamp \<Rightarrow> coupon \<Rightarrow> bool" where
  "coupon_valid_now t c \<longleftrightarrow>
     cpn_is_active c \<and> in_window t (cpn_valid_from c) (cpn_valid_until c) \<and>
     (case cpn_limit_global c of Some l \<Rightarrow> cpn_usage_count c < l | None \<Rightarrow> True)"

record redemption =
  rd_coupon :: nat
  rd_user :: "nat option"
  rd_order :: nat
  rd_discount :: money

text \<open>
  The JSON configuration of a rule, one optional field per key that the code reads; a percentage is
  in hundredths of a percent.
\<close>

record rule_config =
  cfg_weekdays :: "nat list option"
  cfg_percent :: "int option"
  cfg_tiers :: "tier list option"
  cfg_category_slugs :: "string list option"
  cfg_buy_qty :: "int option"
  cfg_buy_category_slugs :: "string list option"
  cfg_free_item_value :: "money option"

record promotion_rule =
  pr_id :: nat
  pr_name :: string
  pr_type :: rule_type
  pr_config :: rule_config
  pr_priority :: int
  pr_valid_from :: "timestamp option"
  pr_valid_until :: "timestamp option"
  pr_is_active :: bool

definition rule_valid_now :: "timestamp \<Rightarrow> promotion_rule \<Rightarrow> bool" where
  "rule_valid_now t r \<longleftrightarrow> pr_is_active r \<and> in_window t (pr_valid_from r) (pr_valid_until r)"

record referral_code =
  rc_id :: nat
  rc_user :: nat
  rc_code :: string
  rc_is_active :: bool

record referral =
  rf_id :: nat
  rf_referrer :: nat
  rf_referred :: nat
  rf_code :: nat
  rf_first_order :: "nat option"
  rf_status :: referral_status
  rf_points :: int
  rf_discount :: money
  rf_rewarded_at :: "timestamp option"

record loyalty_account =
  la_points :: int
  la_lifetime_points :: int
  la_lifetime_spend :: money
  la_tier :: tier

definition new_account :: loyalty_account where
  "new_account = \<lparr>la_points = 0, la_lifetime_points = 0, la_lifetime_spend = 0, la_tier = TIER_NORMAL\<rparr>"

record loyalty_tx =
  lt_account :: nat
  lt_type :: loyalty_tx_type
  lt_points :: int
  lt_balance_after :: int
  lt_order :: "nat option"

record tracker =
  tr_id :: nat
  tr_user :: "nat option"
  tr_phone :: string
  tr_session_key :: string
  tr_item_count :: int
  tr_subtotal :: money
  tr_last_activity :: timestamp
  tr_reminder_count :: int
  tr_last_reminder :: "timestamp option"
  tr_status :: tracker_status
  tr_recovered_order :: "nat option"
  tr_funnel_step :: int
  tr_offered_coupon :: "nat option"
  tr_sms_tracked :: bool

record attribution =
  at_order :: nat
  at_source :: source_type
  at_source_id :: string
  at_label :: string
  at_amount :: money

record clv_profile =
  clv_revenue :: money
  clv_order_count :: int
  clv_avg_order :: money
  clv_score :: money
  clv_tier :: revenue_tier
  clv_frequency :: frequency_tag
  clv_last_order :: "timestamp option"

record growth_event =
  ge_type :: growth_event_type
  ge_user :: "nat option"
  ge_cart :: "nat option"
  ge_order :: "nat option"

record segment =
  seg_id :: nat
  seg_code :: segment_code
  seg_is_active :: bool

text \<open>
  Trackers, accounts and profiles are unique per cart or user; a referral is unique per referred
  user and a redemption per order, which the code looks up as rows.
\<close>

record growth =
  g_coupons :: "coupon list"
  g_redemptions :: "redemption list"
  g_rules :: "promotion_rule list"
  g_referral_codes :: "referral_code list"
  g_referrals :: "referral list"
  g_accounts :: "nat \<rightharpoonup> loyalty_account"
  g_transactions :: "loyalty_tx list"
  g_trackers :: "nat \<rightharpoonup> tracker"
  g_attributions :: "attribution list"
  g_profiles :: "nat \<rightharpoonup> clv_profile"
  g_events :: "growth_event list"
  g_segments :: "segment list"
  g_memberships :: "(nat \<times> nat) list"

definition empty_growth :: growth where
  "empty_growth = \<lparr>g_coupons = [], g_redemptions = [], g_rules = [], g_referral_codes = [],
     g_referrals = [], g_accounts = Map.empty, g_transactions = [], g_trackers = Map.empty,
     g_attributions = [], g_profiles = Map.empty, g_events = [], g_segments = [],
     g_memberships = []\<rparr>"

end
