(* ===== verification/Models.thy ===== *)
theory Models
  imports GrowthModels
begin

text \<open>
  The data of the program: the enumerations and models of the Django apps as datatypes and
  records, the exceptions as values, the whole database with the message broker as one state
  record, and the transaction block. Primary keys are natural numbers; a nullable foreign key is
  an option; a table with a natural unique key (\<open>OneToOneField\<close>, \<open>UniqueConstraint\<close>)
  is a map from that key, every other table the list of its rows in order of creation.
\<close>

section \<open>Enumerations\<close>

text \<open>\<open>apps/products/models.py\<close>, \<open>apps/inventory/models.py\<close>\<close>

datatype availability = AV_AVAILABLE | AV_OUT_OF_STOCK | AV_COMING_SOON

datatype reservation_status = R_ACTIVE | R_CONFIRMED | R_RELEASED | R_EXPIRED

text \<open>\<open>apps/orders/models.py\<close>\<close>

datatype order_status =
    S_PENDING_PAYMENT | S_AWAITING_PAYMENT | S_PAID | S_CONFIRMED_BY_SHOP | S_PREPARING
  | S_PACKAGED | S_OUT_FOR_DELIVERY | S_DELIVERED | S_CANCELLED | S_REFUNDED

datatype order_payment_status =
    PS_PENDING_PAYMENT | PS_PAID | PS_COD_PENDING | PS_COD_CONFIRMED | PS_CASH_RECEIVED
  | PS_FAILED | PS_REFUND_REQUESTED | PS_REFUND_PROCESSED

datatype payment_method = PM_COD | PM_ONLINE | PM_CASH | PM_COUNTER_CARD

datatype fulfillment_type = FT_PICKUP | FT_COURIER | FT_EXPRESS | FT_COD

text \<open>\<open>apps/payments/models.py\<close>\<close>

datatype provider = PV_ZARINPAL | PV_STRIPE | PV_COD | PV_CASH | PV_COUNTER_CARD

datatype payment_state =
    P_PENDING | P_PROCESSING | P_SUCCEEDED | P_FAILED | P_CANCELLED | P_REFUNDED

text \<open>\<open>apps/core/models.py\<close>\<close>

datatype task_status = T_PENDING | T_STARTED | T_SUCCESS | T_FAILURE | T_RETRY | T_DEAD

section \<open>Exceptions\<close>

datatype exn_class =
    InsufficientStockError | CapacityExceededError
  | ProductUnavailableError | InvalidQuantityError | CheckoutAlreadyInProgress
  | CartMutationBlocked
  | EmptyCartError | CheckoutError
  | InvalidTransitionError | UndeliverableAddressError | MinimumOrderError
  | PaymentError | PaymentConfigurationError | PaymentProviderError
  | WebhookVerificationError | WebhookProcessingError | PaymentAmountMismatchError
  | CouponError | ReferralError
  | DoesNotExist | MultipleObjectsReturned | IntegrityError | ProtectedError | DatabaseError
  | TransactionManagementError
  | ValueError | KeyError | AttributeError | TypeError | ZeroDivisionError
  | SMSConfigurationError | SMSDeliveryError | RuntimeError | SMTPException

text \<open>
  A message is a constant text, a format with its arguments, or \<open>str(exc)\<close> of another
  exception. Persian texts are named, not spelled.
\<close>

datatype arg = AInt int | AStr string | ADate date

datatype exn = Exn exn_class message
  and message = Text string | Fmt string "arg list" | StrOf exn

fun class_of :: "exn \<Rightarrow> exn_class" where
  "class_of (Exn c m) = c"

text \<open>\<open>except PaymentError\<close> also catches the subclasses of \<open>apps/payments/exceptions.py\<close>.\<close>

fun is_payment_error :: "exn_class \<Rightarrow> bool" where
  "is_payment_error PaymentError = True"
| "is_payment_error PaymentConfigurationError = True"
| "is_payment_error PaymentProviderError = True"
| "is_payment_error WebhookVerificationError = True"
| "is_payment_error WebhookProcessingError = True"
| "is_payment_error PaymentAmountMismatchError = True"
| "is_payment_error c = False"

section \<open>Rows\<close>

datatype json =
    JNull | JBool bool | JInt int | JStr string | JList "json list" | JObj "(string \<times> json) list"

type_synonym dict = "(string \<times> json) list"

definition dict_set :: "string \<Rightarrow> json \<Rightarrow> dict \<Rightarrow> dict" where
  "dict_set k v d = (if map_of d k = None then d @ [(k, v)]
     else map (\<lambda>(k', v'). if k' = k then (k', v) else (k', v')) d)"

lemma map_of_dict_set [simp]: "map_of (dict_set k v d) = (map_of d)(k \<mapsto> v)"
proof (cases "map_of d k")
  case None
  then show ?thesis by (auto simp: dict_set_def map_add_def fun_eq_iff split: option.split)
next
  case (Some w)
  have "map_of (map (\<lambda>(k', v'). if k' = k then (k', v) else (k', v')) d) j =
        (if j = k then map_option (\<lambda>_. v) (map_of d k) else map_of d j)" for j
    by (induction d) auto
  with Some show ?thesis by (auto simp: dict_set_def fun_eq_iff)
qed

record category =
  cat_name :: string
  cat_slug :: string

record product =
  prod_id :: nat
  prod_category :: nat
  prod_name :: string
  prod_price :: money
  prod_availability :: availability
  prod_is_featured :: bool

definition is_available :: "product \<Rightarrow> bool" where
  "is_available p \<longleftrightarrow> prod_availability p = AV_AVAILABLE"

record inventory =
  inv_track_stock :: bool
  inv_stock :: int
  inv_reserved :: int
  inv_low_stock_threshold :: int
  inv_allow_preorder :: bool

definition available_quantity :: "inventory \<Rightarrow> int" where
  "available_quantity i =
     (if \<not> inv_track_stock i then 999999 else max 0 (inv_stock i - inv_reserved i))"

record capacity =
  cap_max :: int
  cap_reserved :: int
  cap_fulfilled :: int

definition available_units :: "capacity \<Rightarrow> int" where
  "available_units c = max 0 (cap_max c - cap_reserved c - cap_fulfilled c)"

record reservation =
  res_id :: nat
  res_product :: nat
  res_order :: "nat option"
  res_cart :: "nat option"
  res_quantity :: int
  res_date :: date
  res_status :: reservation_status
  res_expires_at :: "timestamp option"

record user =
  user_id :: nat
  user_email :: string
  user_first_name :: string
  user_last_name :: string
  user_phone :: string
  user_is_active :: bool

record cart =
  cart_id :: nat
  cart_user :: "nat option"
  cart_session_key :: "string option"
  cart_coupon_code :: string
  cart_referral_code :: string
  cart_active_order :: "nat option"

record cart_item =
  ci_id :: nat
  ci_cart :: nat
  ci_product :: nat
  ci_quantity :: int

record order =
  ord_id :: nat
  ord_number :: string
  ord_daily_sequence :: "int option"
  ord_daily_sequence_date :: "date option"
  ord_user :: "nat option"
  ord_status :: order_status
  ord_payment_status :: order_payment_status
  ord_payment_method :: payment_method
  ord_delivery_type :: fulfillment_type
  ord_email :: string
  ord_phone :: string
  ord_first_name :: string
  ord_last_name :: string
  ord_address_line1 :: string
  ord_address_line2 :: string
  ord_city :: string
  ord_state :: string
  ord_postal_code :: string
  ord_country :: string
  ord_delivery_zone :: "nat option"
  ord_delivery_fee :: money
  ord_fulfillment_date :: "date option"
  ord_subtotal :: money
  ord_discount :: money
  ord_promotion_discount :: money
  ord_total :: money
  ord_coupon :: "nat option"
  ord_referral_code :: string
  ord_notes :: string
  ord_created_at :: timestamp

definition is_cod :: "order \<Rightarrow> bool" where
  "is_cod od \<longleftrightarrow> ord_payment_method od = PM_COD"

definition is_counter_payment :: "order \<Rightarrow> bool" where
  "is_counter_payment od \<longleftrightarrow> ord_payment_method od \<in> {PM_CASH, PM_COUNTER_CARD}"

record order_item =
  oi_id :: nat
  oi_order :: nat
  oi_product :: nat
  oi_product_name :: string
  oi_unit_price :: money
  oi_quantity :: int
  oi_line_total :: money
  oi_fulfillment_date :: "date option"

text \<open>\<open>apps/delivery/models.py\<close>: the audit log of status changes\<close>

record status_log =
  log_order :: nat
  log_from :: order_status
  log_to :: order_status
  log_note :: message
  log_actor :: string

record payment =
  pay_id :: nat
  pay_order :: nat
  pay_provider :: provider
  pay_status :: payment_state
  pay_amount :: money
  pay_currency :: string
  pay_provider_payment_id :: string
  pay_session_id :: string
  pay_checkout_url :: string
  pay_failure_message :: message
  pay_metadata :: dict
  pay_created_at :: timestamp

definition has_active_zarinpal_checkout :: "payment \<Rightarrow> bool" where
  "has_active_zarinpal_checkout p \<longleftrightarrow>
     pay_provider p = PV_ZARINPAL \<and> pay_status p = P_PROCESSING \<and>
     pay_session_id p \<noteq> [] \<and> pay_checkout_url p \<noteq> []"

record payment_event =
  ev_id :: nat
  ev_provider :: provider
  ev_event_id :: string
  ev_event_type :: string
  ev_payload :: dict
  ev_processed :: bool
  ev_error :: message
  ev_processed_at :: "timestamp option"

text \<open>\<open>DeliveryZone\<close>\<close>

record delivery_zone =
  dz_id :: nat
  dz_name :: string
  dz_cities :: "string list"
  dz_states :: "string list"
  dz_delivery_fee :: money
  dz_express_fee :: money
  dz_min_order :: money
  dz_free_threshold :: "money option"
  dz_is_active :: bool
  dz_sort_order :: int

section \<open>Background tasks\<close>

text \<open>
  The order lifecycle events of \<open>apps/orders/events.py\<close>, each dict of the code a
  constructor for its \<open>kind\<close>, and the rows of \<open>BackgroundTaskLog\<close>. The key of a
  lifecycle task is the tuple of the components its f-string joins with colons.
\<close>

record sms_context =
  ctx_name :: string
  ctx_order_number :: string
  ctx_total :: int
  ctx_status :: "order_status option"

datatype event =
    SmsEvent string string sms_context "nat option" nat
  | AbandonedCartRecovered nat
  | LoyaltyAward nat
  | GrowthFinalize nat
  | AnalyticsTouch nat string

datatype task_key =
    LifecycleKey nat "order_payment_status option" order_payment_status
      "order_status option" order_status "string list"
  | TaskId string

record task_log =
  tl_key :: task_key
  tl_task_name :: string
  tl_status :: task_status

text \<open>The keyword arguments of the tasks that the code sends, one constructor per task.\<close>

datatype task_args =
    Lifecycle_Args nat "event list"
  | Order_Arg nat
  | Analytics_Args nat string
  | Event_Sms_Args string string dict "nat option" "nat option" string
  | Template_Sms_Args string string dict "nat option" "nat option" dict string
  | Retry_Sms_Args
  | Raw_Sms_Args string string string "nat option" "nat option" dict string

record task_message =
  msg_task :: string
  msg_key :: task_key
  msg_queue :: string
  msg_args :: task_args

section \<open>Notifications\<close>

text \<open>\<open>apps/notifications/models.py\<close>; a template is unique per code.\<close>

datatype sms_category = CAT_ORDER | CAT_PAYMENT | CAT_MARKETING | CAT_ABANDONED_CART

record sms_template =
  tpl_category :: sms_category
  tpl_body :: string
  tpl_is_active :: bool

datatype sms_status = SMS_PENDING | SMS_SENT | SMS_FAILED | SMS_SKIPPED

record sms_log =
  sl_id :: nat
  sl_provider :: string
  sl_template :: string
  sl_recipient :: string
  sl_message :: string
  sl_status :: sms_status
  sl_provider_id :: string
  sl_error :: message
  sl_user :: "nat option"
  sl_order :: "nat option"
  sl_metadata :: dict
  sl_created_at :: timestamp

text \<open>\<open>PromotionCampaign\<close>\<close>

record campaign =
  cp_id :: nat
  cp_message :: string
  cp_segment :: "nat option"
  cp_sent :: bool
  cp_sent_count :: int
  cp_sent_at :: "timestamp option"

section \<open>The state\<close>

record world =
  products :: "nat \<rightharpoonup> product"
  categories :: "nat \<rightharpoonup> category"
  inventories :: "nat \<rightharpoonup> inventory"
  capacities :: "nat \<times> date \<rightharpoonup> capacity"
  reservations :: "reservation list"
  users :: "nat \<rightharpoonup> user"
  carts :: "cart list"
  cart_items :: "cart_item list"
  orders :: "order list"
  order_items :: "order_item list"
  status_logs :: "status_log list"
  payments :: "payment list"
  payment_events :: "payment_event list"
  task_logs :: "task_log list"
  delivery_zones :: "delivery_zone list"
  growth :: growth
  sms_templates :: "string \<rightharpoonup> sms_template"
  sms_logs :: "sms_log list"
  campaigns :: "campaign list"
  next_pk :: nat
  broker :: "task_message list"

definition empty_world :: world where
  "empty_world = \<lparr>products = Map.empty, categories = Map.empty, inventories = Map.empty,
     capacities = Map.empty, reservations = [], users = Map.empty, carts = [], cart_items = [],
     orders = [], order_items = [], status_logs = [], payments = [], payment_events = [],
     task_logs = [], delivery_zones = [], growth = empty_growth,
     sms_templates = Map.empty, sms_logs = [], campaigns = [], next_pk = 1, broker = []\<rparr>"

type_synonym 'a P = "(world, exn, 'a) prog"

text \<open>
  \<open>@transaction.atomic\<close>: an exception undoes every write of the block and goes on to the
  caller. Messages already sent to the broker are not part of the transaction and stay sent.
\<close>

definition atomic :: "'a P \<Rightarrow> 'a P" where
  "atomic m = (\<lambda>w. case m w of (Inl e, v) \<Rightarrow> (Inl e, w\<lparr>broker := broker v\<rparr>)
                            | (Inr x, v) \<Rightarrow> (Inr x, v))"

lemma run_atomic [run]:
  "atomic m w = (case m w of (Inl e, v) \<Rightarrow> (Inl e, w\<lparr>broker := broker v\<rparr>)
                           | (Inr x, v) \<Rightarrow> (Inr x, v))"
  by (simp add: atomic_def)

lemma atomic_Inr [simp]: "atomic m w = (Inr x, v) \<longleftrightarrow> m w = (Inr x, v)"
  by (auto simp: run split: prod.splits sum.splits)

lemma atomic_Inl: "atomic m w = (Inl e, v) \<Longrightarrow> \<exists>u. m w = (Inl e, u) \<and> v = w\<lparr>broker := broker u\<rparr>"
  by (auto simp: run split: prod.splits sum.splits)

text \<open>An invariant of the tables does not look at the broker.\<close>

definition of_tables :: "(world \<Rightarrow> bool) \<Rightarrow> bool" where
  "of_tables I \<longleftrightarrow> (\<forall>w b. I (w\<lparr>broker := b\<rparr>) = I w)"

lemma of_tablesD: "of_tables I \<Longrightarrow> I (w\<lparr>broker := b\<rparr>) = I w"
  by (simp add: of_tables_def)

lemma keeps_atomic: "of_tables I \<Longrightarrow> keeps I m \<Longrightarrow> keeps I (atomic m)"
  by (auto simp: keeps_def run of_tables_def split: prod.split sum.split)

lemma settles_atomic: "settles I m \<Longrightarrow> settles I (atomic m)"
  by (rule settlesI) (auto dest: settlesD)

lemma keeps_atomic_settles: "of_tables I \<Longrightarrow> settles I m \<Longrightarrow> keeps I (atomic m)"
proof (rule keepsI)
  fix w assume I: "of_tables I" and m: "settles I m" and w: "I w"
  obtain r v where "m w = (r, v)" by fastforce
  then show "I (snd (atomic m w))"
    using I m w by (cases r) (auto simp: run of_tablesD dest: settlesD)
qed

lemma fails_atomic [fails_intros]: "fails E m \<Longrightarrow> fails E (atomic m)"
  unfolding fails_def by (blast dest: atomic_Inl)

lemma settles_atomic_keeps: "of_tables I \<Longrightarrow> settles I (atomic m) \<Longrightarrow> keeps I (atomic m)"
  by (rule keeps_atomic_settles) (auto simp: settles_def valid_def split: prod.splits sum.splits
      dest: atomic_Inr [THEN iffD2])

text \<open>A new primary key.\<close>

definition fresh_pk :: "nat P" where
  "fresh_pk = bnd (gets next_pk) (\<lambda>k. bnd (modifies (\<lambda>w. w\<lparr>next_pk := Suc k\<rparr>)) (\<lambda>_. ret k))"

lemma run_fresh_pk [run]: "fresh_pk w = (Inr (next_pk w), w\<lparr>next_pk := Suc (next_pk w)\<rparr>)"
  by (simp add: fresh_pk_def)

lemma keeps_fresh_pk_if: "(\<And>w. I w \<Longrightarrow> I (w\<lparr>next_pk := Suc (next_pk w)\<rparr>)) \<Longrightarrow> keeps I fresh_pk"
  by (rule keepsI) (simp add: run_fresh_pk)

text \<open>A \<open>PositiveIntegerField\<close> carries a CHECK constraint that its value is not negative.\<close>

definition check_positive :: "int \<Rightarrow> unit P" where
  "check_positive n = raise_if (n < 0) (Exn IntegrityError (Text ''check constraint''))"

lemma run_check_positive [run]:
  "check_positive n w =
     (if n < 0 then (Inl (Exn IntegrityError (Text ''check constraint'')), w) else (Inr (), w))"
  by (simp add: check_positive_def run)

lemma keeps_check_positive [keeps_intros]: "keeps I (check_positive n)"
  by (simp add: check_positive_def keeps_raise_if)

lemma fails_check_positive [fails_intros]:
  "(\<And>m. E (Exn IntegrityError m)) \<Longrightarrow> fails E (check_positive n)"
  by (simp add: check_positive_def fails_intros)

lemma fails_fresh_pk [fails_intros]: "fails E fresh_pk"
  by (simp add: fails_def run_fresh_pk)

section \<open>Settings, clock and the outside world\<close>

text \<open>
  What a request reads besides the database: the clock (one reading per operation), the settings of
  \<open>config/settings/base.py\<close>, random tokens, and the answers of the payment gateways, which are
  services outside the repository and so parameters of the model.
\<close>

datatype http =
    Http_Transport string               \<comment> \<open>\<open>requests.RequestException\<close> with its text\<close>
  | Http_Error int string               \<comment> \<open>\<open>not response.ok\<close>: the status code and the body's text\<close>
  | Http_Invalid_Json string            \<comment> \<open>a body that does not decode, with its text\<close>
  | Http_Errors_Object                  \<comment> \<open>a JSON body whose \<open>errors\<close> is a non-empty object\<close>
  | Http_Json "string option list" "int option" "string option" "int option"
      \<comment> \<open>\<open>message\<close> of each of the list \<open>errors\<close>; \<open>code\<close>, \<open>authority\<close> and \<open>ref_id\<close> of \<open>data\<close>\<close>

text \<open>The body of a callback: nothing, bytes that do not decode, or a JSON object.\<close>

datatype payload = No_Payload | Bad_Payload | Json_Payload dict

datatype stripe_answer = Stripe_Error string | Stripe_Session string string "string option"

datatype stripe_verified = Stripe_Bad_Signature | Stripe_Bad_Payload | Stripe_Event string string dict

record env =
  now :: timestamp
  today :: date
  local_date_of :: "timestamp \<Rightarrow> date"
  date_part :: string
  order_tokens :: "string list"
  cart_reservation_minutes :: int
  default_payment_provider :: provider
  online_payment_currency :: string
  stripe_enabled :: bool
  stripe_secret_key :: string
  stripe_webhook_secret :: string
  zarinpal_merchant_id :: string
  zarinpal_sandbox :: bool
  zarinpal_callback_url :: string
  payment_success_url :: string
  zarinpal_request :: "nat \<Rightarrow> int \<Rightarrow> http"
  zarinpal_verify :: "string \<Rightarrow> int \<Rightarrow> http"
  stripe_create :: "nat \<Rightarrow> stripe_answer"
  stripe_construct :: "payload \<Rightarrow> string \<Rightarrow> stripe_verified"
  weekday :: nat
  loyalty_gold_threshold :: int
  loyalty_silver_threshold :: int
  loyalty_points_per_1000 :: int
  referral_reward_points :: int
  referral_onboarding_coupon :: string
  referral_tokens :: "string list"

end
