(* ===== verification/StateMachine.thy ===== *)
theory StateMachine
  imports Models
begin

text \<open>
  \<open>apps/delivery/state_machine.py\<close>: the table of allowed order status changes, the guard
  built on it, and what the table alone gives: a rank that every change increases, so that a
  status history cannot cycle, and the final statuses.
\<close>

fun ALLOWED_TRANSITIONS :: "order_status \<Rightarrow> order_status set" where
  "ALLOWED_TRANSITIONS S_PENDING_PAYMENT = {S_PAID, S_CONFIRMED_BY_SHOP, S_CANCELLED}"
| "ALLOWED_TRANSITIONS S_AWAITING_PAYMENT = {S_PREPARING, S_CANCELLED}"
| "ALLOWED_TRANSITIONS S_PAID = {S_CONFIRMED_BY_SHOP, S_CANCELLED, S_REFUNDED}"
| "ALLOWED_TRANSITIONS S_CONFIRMED_BY_SHOP = {S_PREPARING, S_CANCELLED, S_REFUNDED}"
| "ALLOWED_TRANSITIONS S_PREPARING = {S_PACKAGED, S_CANCELLED, S_REFUNDED}"
| "ALLOWED_TRANSITIONS S_PACKAGED = {S_OUT_FOR_DELIVERY, S_CANCELLED, S_REFUNDED}"
| "ALLOWED_TRANSITIONS S_OUT_FOR_DELIVERY = {S_DELIVERED, S_CANCELLED, S_REFUNDED}"
| "ALLOWED_TRANSITIONS S_DELIVERED = {S_REFUNDED}"
| "ALLOWED_TRANSITIONS S_CANCELLED = {}"
| "ALLOWED_TRANSITIONS S_REFUNDED = {}"

definition TERMINAL_STATUSES :: "order_status set" where
  "TERMINAL_STATUSES = {S_CANCELLED, S_REFUNDED, S_DELIVERED}"

text \<open>The text-choice values of \<open>Order.Status\<close>.\<close>

fun status_value :: "order_status \<Rightarrow> string" where
  "status_value S_PENDING_PAYMENT = ''pending_payment''"
| "status_value S_AWAITING_PAYMENT = ''awaiting_payment''"
| "status_value S_PAID = ''paid''"
| "status_value S_CONFIRMED_BY_SHOP = ''confirmed_by_shop''"
| "status_value S_PREPARING = ''preparing''"
| "status_value S_PACKAGED = ''packaged''"
| "status_value S_OUT_FOR_DELIVERY = ''out_for_delivery''"
| "status_value S_DELIVERED = ''delivered''"
| "status_value S_CANCELLED = ''cancelled''"
| "status_value S_REFUNDED = ''refunded''"

fun STATUS_TO_SMS_EVENT :: "order_status \<Rightarrow> string option" where
  "STATUS_TO_SMS_EVENT S_AWAITING_PAYMENT = Some ''order_created''"
| "STATUS_TO_SMS_EVENT S_CONFIRMED_BY_SHOP = Some ''order_confirmed_by_shop''"
| "STATUS_TO_SMS_EVENT S_PREPARING = Some ''order_preparing''"
| "STATUS_TO_SMS_EVENT S_PACKAGED = Some ''order_packaged''"
| "STATUS_TO_SMS_EVENT S_OUT_FOR_DELIVERY = Some ''order_out_for_delivery''"
| "STATUS_TO_SMS_EVENT S_DELIVERED = Some ''delivered''"
| "STATUS_TO_SMS_EVENT S_CANCELLED = Some ''order_cancelled''"
| "STATUS_TO_SMS_EVENT S_REFUNDED = Some ''refund_processed''"
| "STATUS_TO_SMS_EVENT _ = None"

definition can_transition :: "order \<Rightarrow> order_status \<Rightarrow> bool" where
  "can_transition od new \<longleftrightarrow> ord_status od = new \<or> new \<in> ALLOWED_TRANSITIONS (ord_status od)"

definition cannot_transition :: "order \<Rightarrow> order_status \<Rightarrow> message" where
  "cannot_transition od new =
     Fmt ''Cannot transition order {} from '{}' to '{}'.''
       [AStr (ord_number od), AStr (status_value (ord_status od)), AStr (status_value new)]"

definition validate_transition :: "order \<Rightarrow> order_status \<Rightarrow> unit P" where
  "validate_transition od new =
     raise_if (\<not> can_transition od new) (Exn InvalidTransitionError (cannot_transition od new))"

lemma run_validate_transition [run]:
  "validate_transition od new w =
     (if can_transition od new then (Inr (), w)
      else (Inl (Exn InvalidTransitionError (cannot_transition od new)), w))"
  by (simp add: validate_transition_def run)

lemma keeps_validate_transition [keeps_intros]: "keeps I (validate_transition od new)"
  by (simp add: validate_transition_def keeps_raise_if)

section \<open>Histories of statuses\<close>

text \<open>
  The change relation of the table, its rank, and the sequences of changes an order can go
  through.
\<close>

inductive status_step :: "order_status \<Rightarrow> order_status \<Rightarrow> bool" where
  step: "t \<in> ALLOWED_TRANSITIONS s \<Longrightarrow> status_step s t"

inductive_simps status_step_iff: "status_step s t"

inductive_cases status_step_cancelledE: "status_step S_CANCELLED t"
inductive_cases status_step_refundedE: "status_step S_REFUNDED t"

fun status_rank :: "order_status \<Rightarrow> nat" where
  "status_rank S_PENDING_PAYMENT = 0"
| "status_rank S_PAID = 1"
| "status_rank S_CONFIRMED_BY_SHOP = 2"
| "status_rank S_AWAITING_PAYMENT = 2"
| "status_rank S_PREPARING = 3"
| "status_rank S_PACKAGED = 4"
| "status_rank S_OUT_FOR_DELIVERY = 5"
| "status_rank S_DELIVERED = 6"
| "status_rank S_CANCELLED = 7"
| "status_rank S_REFUNDED = 7"

lemma status_rank_le: "status_rank s \<le> 7"
  by (cases s) auto

lemma status_step_rank: "status_step s t \<Longrightarrow> status_rank s < status_rank t"
  by (cases s) (auto simp: status_step_iff)

fun status_history :: "order_status list \<Rightarrow> bool" where
  "status_history [] = True"
| "status_history [s] = True"
| "status_history (s # t # ts) = (status_step s t \<and> status_history (t # ts))"

lemma status_history_rank:
  "status_history (s # ts) \<Longrightarrow> status_rank s + length ts \<le> 7"
proof (induction ts arbitrary: s)
  case Nil
  then show ?case by (simp add: status_rank_le)
next
  case (Cons t ts)
  then have "status_rank t + length ts \<le> 7" and "status_rank s < status_rank t"
    by (auto dest: status_step_rank)
  then show ?case by simp
qed

lemma status_history_sorted: "status_history ss \<Longrightarrow> sorted_wrt (<) (map status_rank ss)"
proof (induction ss rule: status_history.induct)
  case (3 s t ts)
  then have "status_rank s < status_rank t" and "sorted_wrt (<) (map status_rank (t # ts))"
    by (auto dest: status_step_rank)
  then show ?case by (auto intro: less_trans)
qed simp_all

lemma status_history_distinct: "status_history ss \<Longrightarrow> distinct ss"
proof -
  assume "status_history ss"
  then have "distinct (map status_rank ss)"
    using status_history_sorted strict_sorted_iff by blast
  then show ?thesis by (simp add: distinct_map)
qed

lemma final_statuses: "(\<forall>t. \<not> status_step s t) \<longleftrightarrow> s \<in> {S_CANCELLED, S_REFUNDED}"
  by (cases s) (auto simp: status_step_iff)

end
