(* ===== verification/OrderEvents.thy ===== *)
theory OrderEvents
  imports StateMachine
begin

text \<open>
  \<open>apps/orders/events.py\<close>, the order signals of \<open>apps/growth/signals.py\<close> and the
  idempotent dispatch of \<open>apps/core/tasks\<close>: every save of an order compares the saved
  instance with the row it replaces and sends one background task with the events that follow from
  the change. \<open>save_order\<close> is \<open>order.save(update_fields=...)\<close> with both signals.
\<close>

section \<open>Lifecycle events\<close>

text \<open>The Persian default name of a customer, transliterated.\<close>

definition customer_fa :: string where
  "customer_fa = ''moshtari''"

definition phone_of_user :: "world \<Rightarrow> nat option \<Rightarrow> string" where
  "phone_of_user w u =
     (case u of None \<Rightarrow> [] | Some k \<Rightarrow> (case users w k of None \<Rightarrow> [] | Some x \<Rightarrow> user_phone x))"

definition resolve_phone :: "world \<Rightarrow> order \<Rightarrow> string" where
  "resolve_phone w od =
     (if ord_phone od \<noteq> [] then ord_phone od else phone_of_user w (ord_user od))"

definition base_context :: "order \<Rightarrow> sms_context" where
  "base_context od = \<lparr>ctx_name = (if ord_first_name od \<noteq> [] then ord_first_name od else customer_fa),
     ctx_order_number = ord_number od, ctx_total = int_of_money (ord_total od), ctx_status = None\<rparr>"

definition sms_event :: "order \<Rightarrow> string \<Rightarrow> string \<Rightarrow> sms_context \<Rightarrow> event" where
  "sms_event od phone code ctx = SmsEvent code phone ctx (ord_user od) (ord_id od)"

definition paid_states :: "order_payment_status set" where
  "paid_states = {PS_PAID, PS_CASH_RECEIVED}"

definition payment_events_of ::
  "order \<Rightarrow> string \<Rightarrow> order_payment_status option \<Rightarrow> event list" where
  "payment_events_of od phone prev_payment =
     (let ctx = base_context od; st = ord_payment_status od in
      if st \<in> paid_states \<and> prev_payment \<notin> Some ` paid_states then
        [sms_event od phone ''payment_success'' ctx,
         AbandonedCartRecovered (ord_id od), LoyaltyAward (ord_id od),
         GrowthFinalize (ord_id od), AnalyticsTouch (ord_id od) ''payment_success'']
      else if st = PS_COD_CONFIRMED \<and> prev_payment \<noteq> Some PS_COD_CONFIRMED then
        [sms_event od phone ''order_confirmed_by_shop'' ctx]
      else if st = PS_FAILED \<and> prev_payment \<noteq> Some PS_FAILED then
        [sms_event od phone ''payment_failed'' ctx]
      else if st = PS_REFUND_PROCESSED \<and> prev_payment \<noteq> Some PS_REFUND_PROCESSED then
        [sms_event od phone ''refund_processed'' ctx, AnalyticsTouch (ord_id od) ''refund_processed'']
      else [])"

definition status_events_of :: "order \<Rightarrow> string \<Rightarrow> order_status option \<Rightarrow> event list" where
  "status_events_of od phone prev_status =
     (if Some (ord_status od) \<noteq> prev_status then
        (case STATUS_TO_SMS_EVENT (ord_status od) of
           None \<Rightarrow> []
         | Some code \<Rightarrow>
             [sms_event od phone code ((base_context od)\<lparr>ctx_status := Some (ord_status od)\<rparr>),
              AnalyticsTouch (ord_id od) (''status:'' @ status_value (ord_status od))]) @
        (if ord_status od = S_OUT_FOR_DELIVERY \<and> is_cod od \<and> ord_payment_status od = PS_COD_CONFIRMED
         then [sms_event od phone ''cod_reminder'' (base_context od)] else []) @
        (if ord_status od = S_DELIVERED then [AnalyticsTouch (ord_id od) ''delivered''] else [])
      else [])"

definition build_order_lifecycle_events ::
  "world \<Rightarrow> order \<Rightarrow> bool \<Rightarrow> order_payment_status option \<Rightarrow> order_status option \<Rightarrow> event list" where
  "build_order_lifecycle_events w od created prev_payment prev_status =
     (let phone = resolve_phone w od in
      if phone = [] then []
      else if created then [sms_event od phone ''order_created'' (base_context od)]
      else payment_events_of od phone prev_payment @ status_events_of od phone prev_status)"

section \<open>Idempotent dispatch\<close>

text \<open>The event codes of the idempotency key: \<open>event_code\<close>, else \<open>kind\<close>.\<close>

fun event_code :: "event \<Rightarrow> string" where
  "event_code (SmsEvent code phone ctx u k) = code"
| "event_code (AbandonedCartRecovered k) = ''abandoned_cart_recovered''"
| "event_code (LoyaltyAward k) = ''loyalty_award''"
| "event_code (GrowthFinalize k) = ''growth_finalize''"
| "event_code (AnalyticsTouch k e) = ''analytics_touch''"

definition idempotency_key ::
  "order \<Rightarrow> event list \<Rightarrow> order_payment_status option \<Rightarrow> order_status option \<Rightarrow> task_key" where
  "idempotency_key od events prev_payment prev_status =
     LifecycleKey (ord_id od) prev_payment (ord_payment_status od) prev_status (ord_status od)
       (sort (map event_code events))"

text \<open>\<open>claim_idempotency_key\<close>: false when the task is pending, running or done.\<close>

definition claim_idempotency_key :: "task_key \<Rightarrow> string \<Rightarrow> bool P" where
  "claim_idempotency_key key name =
     bnd (gets (\<lambda>w. find (\<lambda>l. tl_key l = key) (task_logs w))) (\<lambda>existing.
       case existing of
         Some l \<Rightarrow>
           if tl_status l \<in> {T_PENDING, T_STARTED, T_SUCCESS} then ret False
           else bnd (modifies (\<lambda>w. w\<lparr>task_logs := upd_rows (\<lambda>x. tl_key x = key)
                       (\<lambda>x. x\<lparr>tl_task_name := name, tl_status := T_PENDING\<rparr>) (task_logs w)\<rparr>))
                  (\<lambda>_. ret True)
       | None \<Rightarrow>
           bnd (modifies (\<lambda>w. w\<lparr>task_logs := task_logs w @
                  [\<lparr>tl_key = key, tl_task_name = name, tl_status = T_PENDING\<rparr>]\<rparr>))
             (\<lambda>_. ret True))"

definition apply_idempotent_task ::
  "string \<Rightarrow> task_key \<Rightarrow> string \<Rightarrow> nat \<Rightarrow> event list \<Rightarrow> unit P" where
  "apply_idempotent_task name key queue od events =
     bnd (claim_idempotency_key key name) (\<lambda>claimed.
       whenever claimed (modifies (\<lambda>w. w\<lparr>broker := broker w @
         [\<lparr>msg_task = name, msg_key = key, msg_queue = queue,
           msg_args = Lifecycle_Args od events\<rparr>]\<rparr>)))"

definition lifecycle_task :: string where
  "lifecycle_task = ''orders.tasks.process_order_lifecycle_events''"

definition emit_order_lifecycle_events ::
  "order \<Rightarrow> bool \<Rightarrow> order_payment_status option \<Rightarrow> order_status option \<Rightarrow> unit P" where
  "emit_order_lifecycle_events od created prev_payment prev_status =
     bnd (gets (\<lambda>w. build_order_lifecycle_events w od created prev_payment prev_status)) (\<lambda>events.
       if events = [] then ret ()
       else apply_idempotent_task lifecycle_task
              (idempotency_key od events prev_payment prev_status) ''orders'' (ord_id od) events)"

section \<open>Saving orders\<close>

definition order_row :: "world \<Rightarrow> nat \<Rightarrow> order option" where
  "order_row w k = find (\<lambda>r. ord_id r = k) (orders w)"

text \<open>\<open>Order.objects.select_for_update().get(pk=...)\<close>\<close>

definition get_order :: "nat \<Rightarrow> order P" where
  "get_order k = bnd (gets (\<lambda>w. order_row w k)) (get_or_raise (Exn DoesNotExist (Text ''Order'')))"

text \<open>
  \<open>order.save(update_fields=[...])\<close> for an instance \<open>od\<close>: \<open>copy od\<close> copies the named
  fields onto the row. The \<open>pre_save\<close> signal reads the old row, the \<open>post_save\<close> signal
  compares it with the instance.
\<close>

definition save_order :: "order \<Rightarrow> (order \<Rightarrow> order \<Rightarrow> order) \<Rightarrow> unit P" where
  "save_order od copy =
     bnd (gets (\<lambda>w. order_row w (ord_id od))) (\<lambda>prev.
       case prev of
         None \<Rightarrow> raise (Exn DatabaseError (Text ''Save with update_fields did not affect any rows.''))
       | Some old \<Rightarrow>
           bnd (modifies (\<lambda>w. w\<lparr>orders := upd_rows (\<lambda>r. ord_id r = ord_id od) (copy od) (orders w)\<rparr>))
             (\<lambda>_. emit_order_lifecycle_events od False
                    (Some (ord_payment_status old)) (Some (ord_status old))))"

definition insert_order :: "order \<Rightarrow> unit P" where
  "insert_order od =
     bnd (modifies (\<lambda>w. w\<lparr>orders := orders w @ [od]\<rparr>)) (\<lambda>_.
     emit_order_lifecycle_events od True None None)"

definition f_status :: "order \<Rightarrow> order \<Rightarrow> order" where
  "f_status od r = r\<lparr>ord_status := ord_status od\<rparr>"

definition f_payment_status :: "order \<Rightarrow> order \<Rightarrow> order" where
  "f_payment_status od r = r\<lparr>ord_payment_status := ord_payment_status od\<rparr>"

definition f_both_statuses :: "order \<Rightarrow> order \<Rightarrow> order" where
  "f_both_statuses od r =
     r\<lparr>ord_payment_status := ord_payment_status od, ord_status := ord_status od\<rparr>"

definition f_fulfillment_date :: "order \<Rightarrow> order \<Rightarrow> order" where
  "f_fulfillment_date od r = r\<lparr>ord_fulfillment_date := ord_fulfillment_date od\<rparr>"

definition f_totals :: "order \<Rightarrow> order \<Rightarrow> order" where
  "f_totals od r = r\<lparr>ord_subtotal := ord_subtotal od, ord_total := ord_total od\<rparr>"

definition f_daily_sequence :: "order \<Rightarrow> order \<Rightarrow> order" where
  "f_daily_sequence od r = r\<lparr>ord_daily_sequence := ord_daily_sequence od,
     ord_daily_sequence_date := ord_daily_sequence_date od\<rparr>"

definition f_growth :: "order \<Rightarrow> order \<Rightarrow> order" where
  "f_growth od r = r\<lparr>ord_discount := ord_discount od,
     ord_promotion_discount := ord_promotion_discount od, ord_coupon := ord_coupon od,
     ord_referral_code := ord_referral_code od, ord_total := ord_total od\<rparr>"

definition f_notes :: "order \<Rightarrow> order \<Rightarrow> order" where
  "f_notes od r = r\<lparr>ord_notes := ord_notes od\<rparr>"

lemmas order_fields = f_status_def f_payment_status_def f_both_statuses_def
  f_fulfillment_date_def f_totals_def f_daily_sequence_def f_growth_def f_notes_def

section \<open>What a save leaves alone\<close>

lemma keeps_get_order [keeps_intros]: "keeps J (get_order k)"
  unfolding get_order_def by (intro keeps_intros)

lemma run_claim:
  "claim_idempotency_key key name w =
     (case find (\<lambda>l. tl_key l = key) (task_logs w) of
        None \<Rightarrow> (Inr True, w\<lparr>task_logs := task_logs w @
                  [\<lparr>tl_key = key, tl_task_name = name, tl_status = T_PENDING\<rparr>]\<rparr>)
      | Some l \<Rightarrow> if tl_status l \<in> {T_PENDING, T_STARTED, T_SUCCESS} then (Inr False, w)
                  else (Inr True, w\<lparr>task_logs := upd_rows (\<lambda>x. tl_key x = key)
                         (\<lambda>x. x\<lparr>tl_task_name := name, tl_status := T_PENDING\<rparr>) (task_logs w)\<rparr>))"
  by (simp add: claim_idempotency_key_def split: option.split)

lemma claim_frame: "\<exists>t c. claim_idempotency_key key name w = (Inr c, w\<lparr>task_logs := t\<rparr>)"
proof (cases "find (\<lambda>l. tl_key l = key) (task_logs w)")
  case None
  show ?thesis unfolding run_claim None option.case by (intro exI, rule refl)
next
  case (Some l)
  show ?thesis
  proof (cases "tl_status l \<in> {T_PENDING, T_STARTED, T_SUCCESS}")
    case True
    then have "claim_idempotency_key key name w = (Inr False, w\<lparr>task_logs := task_logs w\<rparr>)"
      by (simp add: run_claim Some)
    then show ?thesis by blast
  next
    case False
    show ?thesis unfolding run_claim Some option.case if_not_P [OF False]
      by (intro exI, rule refl)
  qed
qed

text \<open>After a claim the key is taken, so a second claim is refused.\<close>

lemma claim_twice:
  assumes "claim_idempotency_key key name w = (Inr c, v)"
  shows "claim_idempotency_key key name' v = (Inr False, v)"
proof (cases "find (\<lambda>l. tl_key l = key) (task_logs w)")
  case None
  with assms show ?thesis by (auto simp: run_claim find_append)
next
  case (Some l)
  then have "tl_key l = key" by (auto dest: find_SomeD)
  with assms Some show ?thesis
    by (auto simp: run_claim find_upd_rows split: if_splits)
qed

lemma apply_frame:
  "\<exists>t b. apply_idempotent_task name key queue od events w =
     (Inr (), w\<lparr>task_logs := t, broker := broker w @ b\<rparr>)"
proof -
  obtain t c where c: "claim_idempotency_key key name w = (Inr c, w\<lparr>task_logs := t\<rparr>)"
    using claim_frame by blast
  let ?m = "\<lparr>msg_task = name, msg_key = key, msg_queue = queue, msg_args = Lifecycle_Args od events\<rparr>"
  have "apply_idempotent_task name key queue od events w =
      (Inr (), w\<lparr>task_logs := t, broker := broker w @ (if c then [?m] else [])\<rparr>)"
    by (simp add: apply_idempotent_task_def run c)
  then show ?thesis by blast
qed

lemma run_emit:
  "\<exists>t b. emit_order_lifecycle_events od created pp ps w =
     (Inr (), w\<lparr>task_logs := t, broker := broker w @ b\<rparr>)"
proof (cases "build_order_lifecycle_events w od created pp ps = []")
  case True
  then have "emit_order_lifecycle_events od created pp ps w =
      (Inr (), w\<lparr>task_logs := task_logs w, broker := broker w @ []\<rparr>)"
    by (simp add: emit_order_lifecycle_events_def)
  then show ?thesis by blast
next
  case False
  then show ?thesis by (simp add: emit_order_lifecycle_events_def apply_frame)
qed

lemma run_save_order:
  assumes "order_row w (ord_id od) = Some old"
  shows "\<exists>t b. save_order od copy w =
     (Inr (), w\<lparr>orders := upd_rows (\<lambda>r. ord_id r = ord_id od) (copy od) (orders w),
                task_logs := t, broker := broker w @ b\<rparr>)"
proof -
  let ?w = "w\<lparr>orders := upd_rows (\<lambda>r. ord_id r = ord_id od) (copy od) (orders w)\<rparr>"
  obtain t b where "emit_order_lifecycle_events od False (Some (ord_payment_status old))
      (Some (ord_status old)) ?w = (Inr (), ?w\<lparr>task_logs := t, broker := broker ?w @ b\<rparr>)"
    using run_emit by blast
  with assms show ?thesis by (auto simp: save_order_def)
qed

text \<open>
  The contract of a state predicate that looks neither at the task log and the broker nor at the
  orders and their audit log: saving and inserting orders keeps it.
\<close>

locale order_frame =
  fixes I :: "world \<Rightarrow> bool"
  assumes frame_task_logs: "I (w\<lparr>task_logs := t\<rparr>) = I w"
    and frame_broker: "I (w\<lparr>broker := b\<rparr>) = I w"
    and frame_orders: "I (w\<lparr>orders := ors\<rparr>) = I w"
    and frame_status_logs: "I (w\<lparr>status_logs := ls\<rparr>) = I w"
begin

lemmas frames = frame_task_logs frame_broker frame_orders frame_status_logs

lemma tables: "of_tables I"
  by (simp add: of_tables_def frames)

lemma keeps_atomic_block: "keeps I m \<Longrightarrow> keeps I (atomic m)"
  by (rule keeps_atomic [OF tables])

lemma keeps_emit: "keeps I (emit_order_lifecycle_events od created pp ps)"
proof (rule keepsI)
  fix w assume "I w"
  obtain t b where "emit_order_lifecycle_events od created pp ps w =
      (Inr (), w\<lparr>task_logs := t, broker := broker w @ b\<rparr>)" using run_emit by blast
  with \<open>I w\<close> show "I (snd (emit_order_lifecycle_events od created pp ps w))"
    by (simp add: frames)
qed

lemma keeps_save_order: "keeps I (save_order od copy)"
  unfolding save_order_def
  by (intro keeps_intros keeps_emit keeps_modifies) (simp add: frames)

lemma keeps_insert_order: "keeps I (insert_order od)"
  unfolding insert_order_def
  by (intro keeps_intros keeps_emit keeps_modifies) (simp add: frames)

end

section \<open>What the events of a change are\<close>

lemma count_list_append: "count_list (xs @ ys) x = count_list xs x + count_list ys x"
  by (induction xs) auto

lemma award_task_at_most_once:
  "count_list (build_order_lifecycle_events w od created pp ps) (LoyaltyAward k) =
     (if k = ord_id od \<and> \<not> created \<and> resolve_phone w od \<noteq> [] \<and>
         ord_payment_status od \<in> paid_states \<and> pp \<notin> Some ` paid_states then 1 else 0)"
  by (auto simp: build_order_lifecycle_events_def payment_events_of_def status_events_of_def
      sms_event_def Let_def count_list_append split: option.split)

lemma no_change_no_events:
  "build_order_lifecycle_events w od False (Some (ord_payment_status od)) (Some (ord_status od)) = []"
  by (auto simp: build_order_lifecycle_events_def payment_events_of_def status_events_of_def Let_def)

end
