(* ===== verification/Inventory.thy ===== *)
theory Inventory
  imports OrderEvents
begin

text \<open>
  \<open>apps/inventory/services.py\<close>: stock and daily production capacity, and the reservations
  that hold them. The operations, in the order of the file; the stock ledger invariant, which says
  that the counters are exactly the sums over the live reservations; and the limits that follow
  from it.
\<close>

section \<open>Rows of a product\<close>

definition default_inventory :: inventory where
  "default_inventory = \<lparr>inv_track_stock = True, inv_stock = 0, inv_reserved = 0,
     inv_low_stock_threshold = 5, inv_allow_preorder = True\<rparr>"

definition get_or_create_inventory :: "nat \<Rightarrow> inventory P" where
  "get_or_create_inventory p =
     bnd (gets (\<lambda>w. inventories w p)) (\<lambda>row.
       case row of
         Some i \<Rightarrow> ret i
       | None \<Rightarrow>
           bnd (modifies (\<lambda>w. w\<lparr>inventories := (inventories w)(p \<mapsto> default_inventory)\<rparr>))
             (\<lambda>_. ret default_inventory))"

definition get_available_quantity :: "nat \<Rightarrow> int P" where
  "get_available_quantity p = bnd (get_or_create_inventory p) (\<lambda>i. ret (available_quantity i))"

text \<open>The active reservations of a cart for a product, and the sum of their quantities.\<close>

definition active_for_cart :: "nat \<Rightarrow> nat \<Rightarrow> reservation \<Rightarrow> bool" where
  "active_for_cart c p r \<longleftrightarrow>
     res_cart r = Some c \<and> res_product r = p \<and> res_status r = R_ACTIVE"

definition not_available :: "product \<Rightarrow> message" where
  "not_available pr = Fmt ''{} is not available.'' [AStr (prod_name pr)]"

definition only_units :: "int \<Rightarrow> product \<Rightarrow> message" where
  "only_units n pr = Fmt ''Only {} units of {} are available.'' [AInt n, AStr (prod_name pr)]"

definition check_cart_availability :: "product \<Rightarrow> int \<Rightarrow> nat option \<Rightarrow> unit P" where
  "check_cart_availability pr quantity cart =
     bnd (raise_if (\<not> is_available pr) (Exn InsufficientStockError (not_available pr))) (\<lambda>_.
     bnd (get_or_create_inventory (prod_id pr)) (\<lambda>i.
       if \<not> inv_track_stock i then ret ()
       else
         bnd (gets (\<lambda>w. available_quantity i +
                (case cart of None \<Rightarrow> 0
                 | Some c \<Rightarrow> sum_where res_quantity (active_for_cart c (prod_id pr))
                               (reservations w)))) (\<lambda>available.
         raise_if (quantity > available)
           (Exn InsufficientStockError (only_units available pr)))))"

definition default_daily_capacity :: "nat \<Rightarrow> int P" where
  "default_daily_capacity p =
     bnd (get_or_create_inventory p) (\<lambda>i.
       ret (if inv_track_stock i then max (inv_stock i) 50 else 100))"

text \<open>
  \<open>get_or_create(defaults={"max_units": _default_daily_capacity(product)})\<close>: the default is
  computed whether or not the row exists.
\<close>

definition get_or_create_daily_capacity :: "nat \<Rightarrow> date \<Rightarrow> capacity P" where
  "get_or_create_daily_capacity p d =
     bnd (default_daily_capacity p) (\<lambda>mx.
     bnd (gets (\<lambda>w. capacities w (p, d))) (\<lambda>row.
       case row of
         Some c \<Rightarrow> ret c
       | None \<Rightarrow>
           bnd (modifies (\<lambda>w. w\<lparr>capacities := (capacities w)((p, d) \<mapsto>
                  \<lparr>cap_max = mx, cap_reserved = 0, cap_fulfilled = 0\<rparr>)\<rparr>))
             (\<lambda>_. ret \<lparr>cap_max = mx, cap_reserved = 0, cap_fulfilled = 0\<rparr>)))"

definition max_days :: nat where
  "max_days = 14"

text \<open>The loop over the next \<open>max_days\<close> days; \<open>None\<close> when it runs to its end.\<close>

primrec scan_days :: "nat \<Rightarrow> int \<Rightarrow> inventory \<Rightarrow> date \<Rightarrow> nat list \<Rightarrow> date option P" where
  "scan_days p quantity i current [] = ret None"
| "scan_days p quantity i current (offset # offsets) =
     bnd (get_or_create_daily_capacity p (current + int offset)) (\<lambda>c.
       if available_units c \<ge> quantity then ret (Some (current + int offset))
       else if offset = 0 \<and> inv_track_stock i \<and> available_quantity i \<ge> quantity
         then ret (Some (current + int offset))
       else scan_days p quantity i current offsets)"

definition fully_booked :: "product \<Rightarrow> message" where
  "fully_booked pr =
     Fmt ''{} is fully booked for the next {} days. Please try a smaller quantity.''
       [AStr (prod_name pr), AInt (int max_days)]"

definition not_available_quantity :: "product \<Rightarrow> message" where
  "not_available_quantity pr =
     Fmt ''{} is not available for the requested quantity.'' [AStr (prod_name pr)]"

definition find_fulfillment_date :: "env \<Rightarrow> product \<Rightarrow> int \<Rightarrow> date option \<Rightarrow> date P" where
  "find_fulfillment_date env pr quantity start_date =
     bnd (get_or_create_inventory (prod_id pr)) (\<lambda>i.
     bnd (scan_days (prod_id pr) quantity i
            (case start_date of Some d \<Rightarrow> d | None \<Rightarrow> today env) [0..<max_days]) (\<lambda>found.
       case found of
         Some d \<Rightarrow> ret d
       | None \<Rightarrow>
           if inv_allow_preorder i then raise (Exn CapacityExceededError (fully_booked pr))
           else raise (Exn CapacityExceededError (not_available_quantity pr))))"

section \<open>Reserving\<close>

definition create_reservation ::
  "nat \<Rightarrow> nat option \<Rightarrow> nat option \<Rightarrow> int \<Rightarrow> date \<Rightarrow> timestamp \<Rightarrow> reservation P" where
  "create_reservation p od ct quantity d expires =
     bnd (check_positive quantity) (\<lambda>_.
     bnd fresh_pk (\<lambda>k.
     let r = \<lparr>res_id = k, res_product = p, res_order = od, res_cart = ct,
              res_quantity = quantity, res_date = d, res_status = R_ACTIVE,
              res_expires_at = Some expires\<rparr> in
     bnd (modifies (\<lambda>w. w\<lparr>reservations := reservations w @ [r]\<rparr>)) (\<lambda>_. ret r)))"

text \<open>\<open>capacity.reserved_units = F("reserved_units") + quantity; capacity.save()\<close>\<close>

definition add_reserved_units :: "nat \<Rightarrow> date \<Rightarrow> int \<Rightarrow> unit P" where
  "add_reserved_units p d quantity =
     bnd (gets (\<lambda>w. capacities w (p, d))) (\<lambda>row.
       case row of None \<Rightarrow> ret ()
       | Some c \<Rightarrow>
           bnd (check_positive (cap_reserved c + quantity)) (\<lambda>_.
           modifies (\<lambda>w. w\<lparr>capacities := (capacities w)((p, d) \<mapsto>
             c\<lparr>cap_reserved := cap_reserved c + quantity\<rparr>)\<rparr>)))"

definition add_reserved_quantity :: "nat \<Rightarrow> int \<Rightarrow> unit P" where
  "add_reserved_quantity p quantity =
     bnd (gets (\<lambda>w. inventories w p)) (\<lambda>row.
       case row of None \<Rightarrow> ret ()
       | Some i \<Rightarrow>
           bnd (check_positive (inv_reserved i + quantity)) (\<lambda>_.
           modifies (\<lambda>w. w\<lparr>inventories := (inventories w)(p \<mapsto>
             i\<lparr>inv_reserved := inv_reserved i + quantity\<rparr>)\<rparr>)))"

definition capacity_insufficient :: "product \<Rightarrow> date \<Rightarrow> message" where
  "capacity_insufficient pr d =
     Fmt ''Daily capacity for {} on {} is insufficient.'' [AStr (prod_name pr), ADate d]"

definition reserve_item ::
  "env \<Rightarrow> nat option \<Rightarrow> product \<Rightarrow> int \<Rightarrow> nat option \<Rightarrow> int \<Rightarrow> reservation P" where
  "reserve_item env od pr quantity ct hold_minutes =
     bnd (get_or_create_inventory (prod_id pr)) (\<lambda>i.
     bnd (find_fulfillment_date env pr quantity None) (\<lambda>first.
     bnd (if inv_track_stock i \<and> quantity > available_quantity i then
            if inv_allow_preorder i then find_fulfillment_date env pr quantity (Some first)
            else raise (Exn InsufficientStockError (only_units (available_quantity i) pr))
          else ret first) (\<lambda>d.
     bnd (get_or_create_daily_capacity (prod_id pr) d) (\<lambda>c.
     bnd (raise_if (available_units c < quantity)
            (Exn CapacityExceededError (capacity_insufficient pr d))) (\<lambda>_.
     bnd (add_reserved_units (prod_id pr) d quantity) (\<lambda>_.
     bnd (whenever (inv_track_stock i) (add_reserved_quantity (prod_id pr) quantity)) (\<lambda>_.
     create_reservation (prod_id pr) od ct quantity d (now env + minutes hold_minutes))))))))"

text \<open>\<open>order.items.select_related("product")\<close>, in order of creation.\<close>

definition items_of :: "world \<Rightarrow> nat \<Rightarrow> order_item list" where
  "items_of w k = filter (\<lambda>x. oi_order x = k) (order_items w)"

definition get_product :: "nat \<Rightarrow> product P" where
  "get_product p = bnd (gets (\<lambda>w. products w p)) (get_or_raise (Exn DoesNotExist (Text ''Product'')))"

definition set_item_date :: "nat \<Rightarrow> date \<Rightarrow> unit P" where
  "set_item_date k d = modifies (\<lambda>w. w\<lparr>order_items := upd_rows (\<lambda>x. oi_id x = k)
     (\<lambda>x. x\<lparr>oi_fulfillment_date := Some d\<rparr>) (order_items w)\<rparr>)"

definition reserve_order_item :: "env \<Rightarrow> nat \<Rightarrow> order_item \<Rightarrow> reservation P" where
  "reserve_order_item env k x =
     bnd (get_product (oi_product x)) (\<lambda>pr.
     bnd (reserve_item env (Some k) pr (oi_quantity x) None 120) (\<lambda>r.
     bnd (set_item_date (oi_id x) (res_date r)) (\<lambda>_.
     ret r)))"

text \<open>The instance is passed in and comes back with its date set.\<close>

definition reserve_for_order :: "env \<Rightarrow> order \<Rightarrow> (reservation list \<times> order) P" where
  "reserve_for_order env od = atomic (
     bnd (gets (\<lambda>w. items_of w (ord_id od))) (\<lambda>items.
     bnd (for_collect items (reserve_order_item env (ord_id od))) (\<lambda>rs.
     let dates = map res_date rs;
         od' = od\<lparr>ord_fulfillment_date := (if dates \<noteq> [] then Some (Max (set dates)) else None)\<rparr> in
     bnd (save_order od' f_fulfillment_date) (\<lambda>_.
     ret (rs, od')))))"

section \<open>Releasing, confirming, fulfilling, expiring\<close>

definition save_inventory :: "nat \<Rightarrow> inventory \<Rightarrow> unit P" where
  "save_inventory p i = modifies (\<lambda>w. w\<lparr>inventories := (inventories w)(p \<mapsto> i)\<rparr>)"

definition save_capacity :: "nat \<Rightarrow> date \<Rightarrow> capacity \<Rightarrow> unit P" where
  "save_capacity p d c =
     bnd (check_positive (cap_fulfilled c)) (\<lambda>_.
     modifies (\<lambda>w. w\<lparr>capacities := (capacities w)((p, d) \<mapsto> c)\<rparr>))"

definition save_reservation :: "reservation \<Rightarrow> (reservation \<Rightarrow> reservation) \<Rightarrow> unit P" where
  "save_reservation r copy =
     bnd (gets (\<lambda>w. res_id r \<notin> res_id ` set (reservations w))) (\<lambda>gone.
     bnd (raise_if gone
            (Exn DatabaseError (Text ''Save with update_fields did not affect any rows.''))) (\<lambda>_.
     modifies (\<lambda>w. w\<lparr>reservations := upd_rows (\<lambda>x. res_id x = res_id r) copy (reservations w)\<rparr>)))"

definition set_res_status :: "reservation_status \<Rightarrow> reservation \<Rightarrow> reservation" where
  "set_res_status st r = r\<lparr>res_status := st\<rparr>"

definition give_back_stock :: "reservation \<Rightarrow> inventory \<Rightarrow> inventory" where
  "give_back_stock r i = i\<lparr>inv_reserved := max 0 (inv_reserved i - res_quantity r)\<rparr>"

definition give_back_capacity :: "reservation \<Rightarrow> capacity \<Rightarrow> capacity" where
  "give_back_capacity r c = c\<lparr>cap_reserved := max 0 (cap_reserved c - res_quantity r)\<rparr>"

definition release_single_reservation :: "reservation \<Rightarrow> unit P" where
  "release_single_reservation r =
     (if res_status r \<in> {R_RELEASED, R_EXPIRED} then ret ()
      else
        bnd (gets (\<lambda>w. inventories w (res_product r))) (\<lambda>inv.
        bnd (gets (\<lambda>w. capacities w (res_product r, res_date r))) (\<lambda>cap.
        bnd (whenever (res_status r \<in> {R_CONFIRMED, R_ACTIVE}) (
               bnd (case inv of
                      Some i \<Rightarrow> whenever (inv_track_stock i)
                                  (save_inventory (res_product r) (give_back_stock r i))
                    | None \<Rightarrow> ret ()) (\<lambda>_.
               (case cap of
                  Some c \<Rightarrow> save_capacity (res_product r) (res_date r) (give_back_capacity r c)
                | None \<Rightarrow> ret ())))) (\<lambda>_.
        save_reservation r (set_res_status R_RELEASED)))))"

text \<open>
  A query is evaluated once, newest row first (\<open>Meta.ordering = ["-created_at"]\<close>), and the
  loop runs over the instances it returned.
\<close>

definition query_reservations :: "(reservation \<Rightarrow> bool) \<Rightarrow> reservation list P" where
  "query_reservations Q = gets (\<lambda>w. rev (filter Q (reservations w)))"

definition release_cart_reservations :: "nat \<Rightarrow> nat P" where
  "release_cart_reservations c = atomic (
     bnd (query_reservations (\<lambda>r. res_cart r = Some c \<and> res_status r = R_ACTIVE)) (\<lambda>rs.
     bnd (for_each rs release_single_reservation) (\<lambda>_.
     ret (length rs))))"

definition release_cart_reservations_for_product :: "nat \<Rightarrow> nat \<Rightarrow> nat P" where
  "release_cart_reservations_for_product c p = atomic (
     bnd (query_reservations (active_for_cart c p)) (\<lambda>rs.
     bnd (for_each rs release_single_reservation) (\<lambda>_.
     ret (length rs))))"

definition reserve_for_cart_item :: "env \<Rightarrow> nat \<Rightarrow> product \<Rightarrow> int \<Rightarrow> reservation option P" where
  "reserve_for_cart_item env c pr quantity = atomic (
     bnd (get_or_create_inventory (prod_id pr)) (\<lambda>i.
       if \<not> inv_track_stock i then ret None
       else
         bnd (query_reservations (active_for_cart c (prod_id pr))) (\<lambda>rs.
         bnd (for_each rs release_single_reservation) (\<lambda>_.
         bnd (reserve_item env None pr quantity (Some c) (cart_reservation_minutes env)) (\<lambda>r.
         ret (Some r))))))"

definition confirm_row :: "reservation \<Rightarrow> reservation" where
  "confirm_row r = r\<lparr>res_status := R_CONFIRMED, res_expires_at := None\<rparr>"

definition confirm_reservations :: "nat \<Rightarrow> unit P" where
  "confirm_reservations k = atomic (
     bnd (query_reservations (\<lambda>r. res_order r = Some k \<and> res_status r = R_ACTIVE)) (\<lambda>rs.
     for_each rs (\<lambda>r. save_reservation r confirm_row)))"

definition release_reservations :: "nat \<Rightarrow> unit P" where
  "release_reservations k = atomic (
     bnd (query_reservations
            (\<lambda>r. res_order r = Some k \<and> res_status r \<in> {R_ACTIVE, R_CONFIRMED})) (\<lambda>rs.
     for_each rs release_single_reservation))"

definition use_stock :: "reservation \<Rightarrow> inventory \<Rightarrow> inventory" where
  "use_stock r i = i\<lparr>inv_stock := max 0 (inv_stock i - res_quantity r),
     inv_reserved := max 0 (inv_reserved i - res_quantity r)\<rparr>"

definition use_capacity :: "reservation \<Rightarrow> capacity \<Rightarrow> capacity" where
  "use_capacity r c = c\<lparr>cap_reserved := max 0 (cap_reserved c - res_quantity r),
     cap_fulfilled := cap_fulfilled c + res_quantity r\<rparr>"

definition mark_out_of_stock :: "nat \<Rightarrow> unit P" where
  "mark_out_of_stock p = modifies (\<lambda>w. w\<lparr>products := (products w)(p :=
     map_option (\<lambda>pr. pr\<lparr>prod_availability := AV_OUT_OF_STOCK\<rparr>) (products w p))\<rparr>)"

definition fulfill_one :: "reservation \<Rightarrow> unit P" where
  "fulfill_one r =
     bnd (gets (\<lambda>w. inventories w (res_product r))) (\<lambda>row.
     bnd (get_or_raise (Exn DoesNotExist (Text ''ProductInventory'')) row) (\<lambda>i.
     bnd (get_or_create_daily_capacity (res_product r) (res_date r)) (\<lambda>c.
     bnd (whenever (inv_track_stock i) (save_inventory (res_product r) (use_stock r i))) (\<lambda>_.
     bnd (save_capacity (res_product r) (res_date r) (use_capacity r c)) (\<lambda>_.
     bnd (save_reservation r (set_res_status R_RELEASED)) (\<lambda>_.
     whenever (inv_track_stock i \<and> available_quantity (use_stock r i) = 0)
       (mark_out_of_stock (res_product r))))))))"

definition fulfill_reservations :: "nat \<Rightarrow> unit P" where
  "fulfill_reservations k = atomic (
     bnd (query_reservations (\<lambda>r. res_order r = Some k \<and> res_status r = R_CONFIRMED)) (\<lambda>rs.
     for_each rs fulfill_one))"

definition expire_one :: "reservation \<Rightarrow> unit P" where
  "expire_one r =
     bnd (release_single_reservation r) (\<lambda>_.
     save_reservation r (set_res_status R_EXPIRED))"

definition is_stale :: "timestamp \<Rightarrow> reservation \<Rightarrow> bool" where
  "is_stale t r \<longleftrightarrow> res_status r = R_ACTIVE \<and>
     (case res_expires_at r of None \<Rightarrow> False | Some e \<Rightarrow> e < t)"

definition expire_stale_reservations :: "env \<Rightarrow> nat P" where
  "expire_stale_reservations env = atomic (
     bnd (query_reservations (is_stale (now env))) (\<lambda>rs.
     bnd (for_each rs expire_one) (\<lambda>_.
     ret (length rs))))"

end
