(* ===== verification/StockLedger.thy ===== *)
theory StockLedger
  imports Inventory
begin

text \<open>
  The contract between the reservation operations and whatever must survive them. An operation of
  \<open>apps/inventory/services.py\<close> changes the stock tables only in seven ways, the pure updates
  below; the locale \<open>stock_ops\<close> asks of a predicate that each of the seven keeps it and proves
  once that every operation does. It is interpreted at the stock ledger: the counters are the sums of
  the live reservations, a day's capacity is never exceeded, and a product that takes no preorders is
  never oversold.
\<close>

section \<open>The updates of the stock tables\<close>

definition live :: "reservation \<Rightarrow> bool" where
  "live r \<longleftrightarrow> res_status r \<in> {R_ACTIVE, R_CONFIRMED}"

definition put_inventory :: "nat \<Rightarrow> inventory \<Rightarrow> world \<Rightarrow> world" where
  "put_inventory p i w = w\<lparr>inventories := (inventories w)(p \<mapsto> i)\<rparr>"

definition put_capacity :: "nat \<Rightarrow> date \<Rightarrow> capacity \<Rightarrow> world \<Rightarrow> world" where
  "put_capacity p d c w = w\<lparr>capacities := (capacities w)((p, d) \<mapsto> c)\<rparr>"

definition put_reservation ::
  "reservation \<Rightarrow> (reservation \<Rightarrow> reservation) \<Rightarrow> world \<Rightarrow> world" where
  "put_reservation r f w =
     w\<lparr>reservations := upd_rows (\<lambda>x. res_id x = res_id r) f (reservations w)\<rparr>"

definition hold_units :: "inventory \<Rightarrow> capacity \<Rightarrow> reservation \<Rightarrow> world \<Rightarrow> world" where
  "hold_units i c r w =
     (let p = res_product r; q = res_quantity r;
          v = put_capacity p (res_date r) (c\<lparr>cap_reserved := cap_reserved c + q\<rparr>) w;
          u = (if inv_track_stock i
               then put_inventory p (i\<lparr>inv_reserved := inv_reserved i + q\<rparr>) v else v)
      in u\<lparr>next_pk := Suc (res_id r), reservations := reservations w @ [r]\<rparr>)"

definition drop_units :: "reservation \<Rightarrow> world \<Rightarrow> world" where
  "drop_units r w =
     (let p = res_product r;
          v = (case inventories w p of
                 Some i \<Rightarrow> if inv_track_stock i then put_inventory p (give_back_stock r i) w else w
               | None \<Rightarrow> w);
          u = (case capacities w (p, res_date r) of
                 Some c \<Rightarrow> put_capacity p (res_date r) (give_back_capacity r c) v
               | None \<Rightarrow> v)
      in put_reservation r (set_res_status R_RELEASED) u)"

definition ship_units :: "inventory \<Rightarrow> capacity \<Rightarrow> reservation \<Rightarrow> world \<Rightarrow> world" where
  "ship_units i c r w =
     (let p = res_product r;
          v = (if inv_track_stock i then put_inventory p (use_stock r i) w else w)
      in put_reservation r (set_res_status R_RELEASED)
           (put_capacity p (res_date r) (use_capacity r c) v))"

lemmas put_defs = put_inventory_def put_capacity_def put_reservation_def

lemma put_reservation_ids:
  "(\<And>x. res_id (f x) = res_id x) \<Longrightarrow>
   map res_id (reservations (put_reservation r f w)) = map res_id (reservations w)"
  by (simp add: put_reservation_def map_upd_rows)

lemma put_reservation_other:
  "x \<in> set (reservations w) \<Longrightarrow> res_id x \<noteq> res_id r \<Longrightarrow>
   x \<in> set (reservations (put_reservation r f w))"
  by (force simp: put_reservation_def set_upd_rows)

lemma res_id_set_status [simp]: "res_id (set_res_status st x) = res_id x"
  by (simp add: set_res_status_def)

lemma res_id_confirm_row [simp]: "res_id (confirm_row x) = res_id x"
  by (simp add: confirm_row_def)

lemma reservations_put [simp]:
  "reservations (put_inventory p i w) = reservations w"
  "reservations (put_capacity p d c w) = reservations w"
  by (simp_all add: put_defs)

text \<open>The programs that the updates describe.\<close>

lemma run_save_inventory [run]: "save_inventory p i w = (Inr (), put_inventory p i w)"
  by (simp add: save_inventory_def put_inventory_def)

lemma save_capacity_Inr [simp]:
  "save_capacity p d c w = (Inr u, v) \<longleftrightarrow> 0 \<le> cap_fulfilled c \<and> v = put_capacity p d c w"
  by (auto simp: save_capacity_def put_capacity_def run split: if_splits)

lemma save_reservation_Inr [simp]:
  "save_reservation r f w = (Inr u, v) \<longleftrightarrow>
     res_id r \<in> res_id ` set (reservations w) \<and> v = put_reservation r f w"
  by (auto simp: save_reservation_def put_reservation_def run split: if_splits)

lemma drop_units_reservations:
  "reservations (drop_units r w) =
     upd_rows (\<lambda>x. res_id x = res_id r) (set_res_status R_RELEASED) (reservations w)"
  by (simp add: drop_units_def put_defs Let_def split: option.split)

lemma ship_units_reservations:
  "reservations (ship_units i c r w) =
     upd_rows (\<lambda>x. res_id x = res_id r) (set_res_status R_RELEASED) (reservations w)"
  by (simp add: ship_units_def put_defs Let_def)

lemma release_Inr:
  assumes "release_single_reservation r w = (Inr u, v)"
  shows "v = (if live r then drop_units r w else w)"
  using assms
  by (cases "res_status r")
     (auto simp: release_single_reservation_def live_def drop_units_def returns run_save_inventory
       Let_def split: option.splits if_splits)

lemma ship_rest:
  assumes "bnd (whenever (inv_track_stock i) (save_inventory (res_product r) (use_stock r i))) (\<lambda>_.
     bnd (save_capacity (res_product r) (res_date r) (use_capacity r c)) (\<lambda>_.
     bnd (save_reservation r (set_res_status R_RELEASED)) (\<lambda>_.
     whenever out (mark_out_of_stock (res_product r))))) w = (Inr u, v)"
  shows "v = (ship_units i c r w)\<lparr>products := products v\<rparr>"
  using assms
  by (cases "inv_track_stock i"; cases out)
     (auto simp: returns run_save_inventory ship_units_def mark_out_of_stock_def Let_def)

lemma fulfill_Inr:
  assumes "fulfill_one r w = (Inr u, v)"
  shows "\<exists>i c w1. inventories w (res_product r) = Some i \<and>
    get_or_create_daily_capacity (res_product r) (res_date r) w = (Inr c, w1) \<and>
    v = (ship_units i c r w1)\<lparr>products := products v\<rparr>"
  using assms unfolding fulfill_one_def
  by - (erule bnd_InrE, erule bnd_InrE, erule bnd_InrE, drule ship_rest, auto simp: returns)

section \<open>The contract\<close>

locale stock_tables =
  fixes I :: "world \<Rightarrow> bool"
  assumes tables_only: "of_tables I"
    and law_new_inventory:
      "I w \<Longrightarrow> inventories w p = None \<Longrightarrow> I (put_inventory p default_inventory w)"
    and law_new_capacity:
      "I w \<Longrightarrow> capacities w (p, d) = None \<Longrightarrow> 0 \<le> mx \<Longrightarrow>
       I (put_capacity p d \<lparr>cap_max = mx, cap_reserved = 0, cap_fulfilled = 0\<rparr> w)"
    and law_hold:
      "I w \<Longrightarrow> inventories w (res_product r) = Some i \<Longrightarrow>
       capacities w (res_product r, res_date r) = Some c \<Longrightarrow>
       0 \<le> res_quantity r \<Longrightarrow> res_quantity r \<le> available_units c \<Longrightarrow>
       (inv_track_stock i \<Longrightarrow> \<not> inv_allow_preorder i \<Longrightarrow> res_quantity r \<le> available_quantity i) \<Longrightarrow>
       res_status r = R_ACTIVE \<Longrightarrow> res_id r = next_pk w \<Longrightarrow> I (hold_units i c r w)"
    and law_drop: "I w \<Longrightarrow> r \<in> set (reservations w) \<Longrightarrow> live r \<Longrightarrow> I (drop_units r w)"
    and law_confirm: "I w \<Longrightarrow> r \<in> set (reservations w) \<Longrightarrow> live r \<Longrightarrow> I (put_reservation r confirm_row w)"
    and law_ship:
      "I w \<Longrightarrow> r \<in> set (reservations w) \<Longrightarrow> live r \<Longrightarrow> inventories w (res_product r) = Some i \<Longrightarrow>
       capacities w (res_product r, res_date r) = Some c \<Longrightarrow> I (ship_units i c r w)"
    and law_expired: "I w \<Longrightarrow> r \<in> set (reservations w) \<Longrightarrow> \<not> live r \<Longrightarrow>
       I (put_reservation r (set_res_status R_EXPIRED) w)"
    and law_ids: "I w \<Longrightarrow> distinct (map res_id (reservations w))"
    and frame_products: "I (w\<lparr>products := ps\<rparr>) = I w"
begin

text \<open>Looking a row up creates it when it is missing, and the row is there afterwards.\<close>

lemma get_inventory_returns:
  assumes "I w" and "get_or_create_inventory p w = (Inr i, v)"
  shows "I v \<and> inventories v p = Some i"
  using assms by (auto simp: get_or_create_inventory_def returns split: option.splits
      dest: law_new_inventory [of _ p, unfolded put_inventory_def])

lemma keeps_get_or_create_inventory: "keeps I (get_or_create_inventory p)"
  unfolding get_or_create_inventory_def
  by (rule keepsI) (auto split: option.split dest: law_new_inventory [unfolded put_inventory_def])

lemma keeps_default_daily_capacity: "keeps I (default_daily_capacity p)"
  unfolding default_daily_capacity_def by (intro keeps_intros keeps_get_or_create_inventory)

text \<open>The row an earlier lookup returned is still there after further lookups.\<close>

abbreviation with_inventory :: "nat \<Rightarrow> inventory \<Rightarrow> world \<Rightarrow> bool" where
  "with_inventory p i w \<equiv> I w \<and> inventories w p = Some i"

lemma keeps_row_inventory: "keeps (with_inventory p i) (get_or_create_inventory q)"
  unfolding get_or_create_inventory_def
  by (rule keepsI) (auto split: option.split dest: law_new_inventory [of _ q, unfolded put_inventory_def])

lemma get_capacity_returns:
  assumes "with_inventory p i w" and run: "get_or_create_daily_capacity q d w = (Inr c, v)"
  shows "with_inventory p i v \<and> capacities v (q, d) = Some c"
proof -
  from run obtain mx w1 where mx: "default_daily_capacity q w = (Inr mx, w1)"
    and rest: "bnd (gets (\<lambda>w. capacities w (q, d))) (\<lambda>row.
       case row of
         Some c \<Rightarrow> ret c
       | None \<Rightarrow>
           bnd (modifies (\<lambda>w. w\<lparr>capacities := (capacities w)((q, d) \<mapsto>
                  \<lparr>cap_max = mx, cap_reserved = 0, cap_fulfilled = 0\<rparr>)\<rparr>))
             (\<lambda>_. ret \<lparr>cap_max = mx, cap_reserved = 0, cap_fulfilled = 0\<rparr>)) w1 = (Inr c :: exn + capacity, v)"
    unfolding get_or_create_daily_capacity_def by (rule bnd_InrE) (rule that)
  from mx have mx0: "0 \<le> mx" by (auto simp: default_daily_capacity_def returns)
  have "keeps (with_inventory p i) (default_daily_capacity q)"
    unfolding default_daily_capacity_def by (intro keeps_intros keeps_row_inventory)
  then have "with_inventory p i w1" using assms(1) mx by (rule keeps_run)
  with mx0 show ?thesis
    using rest law_new_capacity [of w1 q d mx]
    by (cases "capacities w1 (q, d)") (auto simp: put_capacity_def returns)
qed

lemma keeps_row_capacity: "keeps (with_inventory p i) (get_or_create_daily_capacity q d)"
proof (rule keepsI)
  fix w assume w: "with_inventory p i w"
  obtain r v where run: "get_or_create_daily_capacity q d w = (r, v)" by fastforce
  moreover have "\<exists>c. r = Inr c"
    using run by (auto simp: get_or_create_daily_capacity_def default_daily_capacity_def
        get_or_create_inventory_def run_bnd split: option.splits)
  ultimately show "with_inventory p i (snd (get_or_create_daily_capacity q d w))"
    using get_capacity_returns [OF w] by auto
qed

lemma keeps_row_scan: "keeps (with_inventory p i) (scan_days q n j d offsets)"
  by (induction offsets)
     (simp_all only: scan_days.simps, (intro keeps_intros keeps_row_capacity | assumption)+)

lemma keeps_row_find: "keeps (with_inventory p i) (find_fulfillment_date env pr n start)"
  unfolding find_fulfillment_date_def
  by (intro keeps_intros keeps_row_inventory keeps_row_scan)

text \<open>Reserving.\<close>

lemma settles_reserve_item: "settles I (reserve_item env od pr n ct h)"
proof (rule settlesI)
  fix w r v
  assume w: "I w" and run: "reserve_item env od pr n ct h w = (Inr r, v)"
  let ?p = "prod_id pr"
  from run obtain i w1 first w2 d w3 c w4 where
    1: "get_or_create_inventory ?p w = (Inr i, w1)" and
    2: "find_fulfillment_date env pr n None w1 = (Inr first, w2)" and
    3: "(if inv_track_stock i \<and> n > available_quantity i then
           if inv_allow_preorder i then find_fulfillment_date env pr n (Some first)
           else raise (Exn InsufficientStockError (only_units (available_quantity i) pr))
         else ret first) w2 = (Inr d, w3)" and
    4: "get_or_create_daily_capacity ?p d w3 = (Inr c, w4)" and
    5: "bnd (raise_if (available_units c < n)
          (Exn CapacityExceededError (capacity_insufficient pr d))) (\<lambda>_.
        bnd (add_reserved_units ?p d n) (\<lambda>_.
        bnd (whenever (inv_track_stock i) (add_reserved_quantity ?p n)) (\<lambda>_.
        create_reservation ?p od ct n d (now env + minutes h)))) w4 = (Inr r, v)"
    unfolding reserve_item_def
    by - (erule bnd_InrE, erule bnd_InrE, erule bnd_InrE, erule bnd_InrE, rule that)
  have "with_inventory ?p i w1" using get_inventory_returns [OF w 1] .
  then have "with_inventory ?p i w2" using keeps_run [OF keeps_row_find [of ?p i] _ 2] by simp
  from this 3 have w3: "with_inventory ?p i w3"
    by (rule keeps_run [where I = "with_inventory ?p i", rotated]) (intro keeps_intros keeps_row_find)
  then have w4: "with_inventory ?p i w4" and c: "capacities w4 (?p, d) = Some c"
    using get_capacity_returns [OF w3 4] by auto
  have v: "v = hold_units i c r w4" and r: "res_product r = ?p" "res_date r = d" "res_quantity r = n"
    "res_status r = R_ACTIVE" "res_id r = next_pk w4" and n: "0 \<le> n" "n \<le> available_units c"
    using 5 w4 c by (cases "inv_track_stock i"; auto simp: returns hold_units_def put_defs
        add_reserved_units_def add_reserved_quantity_def create_reservation_def check_positive_def
        fresh_pk_def Let_def)+
  have "inv_track_stock i \<Longrightarrow> \<not> inv_allow_preorder i \<Longrightarrow> n \<le> available_quantity i"
    using 3 by (auto split: if_splits)
  with w4 c v r n show "I v" using law_hold [of w4 r i c] by auto
qed

text \<open>Loops over a snapshot of rows, each of which only changes its own row.\<close>

abbreviation snapshot :: "reservation list \<Rightarrow> world \<Rightarrow> bool" where
  "snapshot rs w \<equiv> distinct (map res_id rs) \<and> set rs \<subseteq> set (reservations w)"

lemma snapshot_query:
  "I w \<Longrightarrow> query_reservations Q w = (Inr rs, v) \<Longrightarrow> v = w \<and> snapshot rs v \<and> (\<forall>r\<in>set rs. Q r)"
  by (auto simp: query_reservations_def rev_map [symmetric] dest!: law_ids
      intro: distinct_map_filter)

lemma snapshot_tail:
  assumes "snapshot (r # rs) w"
    and v: "reservations v = upd_rows (\<lambda>x. res_id x = res_id r) f (reservations w)"
  shows "snapshot rs v"
proof (intro conjI subsetI)
  show "distinct (map res_id rs)" using assms(1) by simp
  fix x assume x: "x \<in> set rs"
  then have "x \<in> set (reservations w)" and "res_id x \<noteq> res_id r"
    using assms(1) by (auto simp: image_iff)
  then show "x \<in> set (reservations v)" unfolding v set_upd_rows by (intro image_eqI [of _ _ x]) simp_all
qed

lemma loop_settles:
  assumes step: "\<And>r rs s t. I s \<Longrightarrow> snapshot (r # rs) s \<Longrightarrow> Q r \<Longrightarrow> f r s = (Inr (), t) \<Longrightarrow>
      I t \<and> snapshot rs t"
  shows "settles I (bnd (query_reservations Q) (\<lambda>rs. for_each rs f))"
proof (rule settlesI)
  fix w x v assume w: "I w" and run: "bnd (query_reservations Q) (\<lambda>rs. for_each rs f) w = (Inr x, v)"
  define rs where "rs = rev (filter Q (reservations w))"
  have "\<forall>r\<in>set rs. Q r" and "snapshot rs w"
    using w law_ids by (auto simp: rs_def rev_map [symmetric] intro: distinct_map_filter)
  moreover have "for_each rs f w = (Inr (), v)"
    using run by (simp add: query_reservations_def rs_def)
  ultimately show "I v"
    using w
  proof (induction rs arbitrary: w)
    case (Cons r rs)
    from Cons.prems(3) obtain t where "f r w = (Inr (), t)" and rest: "for_each rs f t = (Inr (), v)"
      by (auto simp: bnd_returns)
    then have "I t \<and> snapshot rs t" using Cons.prems by (intro step) auto
    with rest Cons.prems(1) show ?case by (intro Cons.IH [of t]) auto
  qed simp
qed

lemma loop_count_settles:
  assumes "settles I (bnd (query_reservations Q) (\<lambda>rs. for_each rs f))"
  shows "settles I (bnd (query_reservations Q) (\<lambda>rs. bnd (for_each rs f) (\<lambda>_. ret (g rs))))"
  using assms by (auto simp: settles_def valid_def run_bnd query_reservations_def
      split: prod.splits sum.splits)

lemma release_step:
  assumes "I s" and "snapshot (r # rs) s" and run: "release_single_reservation r s = (Inr (), t)"
  shows "I t \<and> snapshot rs t"
proof (cases "live r")
  case True
  then have t: "t = drop_units r s" using release_Inr [OF run] by simp
  have "I t" using t True law_drop assms by simp
  moreover have "snapshot rs t"
    unfolding t by (rule snapshot_tail [OF assms(2) drop_units_reservations])
  ultimately show ?thesis by simp
next
  case False
  then show ?thesis using release_Inr [OF run] assms by simp
qed

lemma release_loop:
  "settles I (bnd (query_reservations Q) (\<lambda>rs. for_each rs release_single_reservation))"
  by (rule loop_settles) (rule release_step)

lemma keeps_release_cart_reservations: "keeps I (release_cart_reservations c)"
  unfolding release_cart_reservations_def
  by (intro keeps_atomic_settles tables_only loop_count_settles release_loop)

lemma keeps_release_cart_reservations_for_product:
  "keeps I (release_cart_reservations_for_product c p)"
  unfolding release_cart_reservations_for_product_def
  by (intro keeps_atomic_settles tables_only loop_count_settles release_loop)

lemma keeps_release_reservations: "keeps I (release_reservations k)"
  unfolding release_reservations_def by (intro keeps_atomic_settles tables_only release_loop)

lemma keeps_reserve_for_cart_item: "keeps I (reserve_for_cart_item env c pr n)"
proof -
  have loop: "settles I (bnd (query_reservations Q) (\<lambda>rs.
      bnd (for_each rs release_single_reservation) (\<lambda>_. m)))" if "settles I m" for Q and m :: "'x P"
  proof -
    have "settles I (bnd (bnd (query_reservations Q) (\<lambda>rs. for_each rs release_single_reservation))
        (\<lambda>_. m))"
      by (rule settles_bnd [OF release_loop that])
    then show ?thesis by (simp add: bnd_assoc)
  qed
  show ?thesis
    unfolding reserve_for_cart_item_def
    by (intro keeps_atomic_settles tables_only settles_bnd [OF keeps_settles [OF keeps_get_or_create_inventory]]
        settles_if loop settles_bnd settles_reserve_item keeps_settles [OF keeps_ret])
qed

lemma confirm_step:
  assumes "I s" and "snapshot (r # rs) s" and "res_order r = Some k \<and> res_status r = R_ACTIVE"
    and run: "save_reservation r confirm_row s = (Inr (), t)"
  shows "I t \<and> snapshot rs t"
proof -
  have t: "t = put_reservation r confirm_row s" using run by simp
  have "reservations t = upd_rows (\<lambda>x. res_id x = res_id r) confirm_row (reservations s)"
    unfolding t by (simp add: put_reservation_def)
  then show ?thesis
    using snapshot_tail [OF assms(2)] law_confirm assms t by (auto simp: live_def)
qed

lemma keeps_confirm_reservations: "keeps I (confirm_reservations k)"
  unfolding confirm_reservations_def
  by (intro keeps_atomic_settles tables_only loop_settles [OF confirm_step])

lemma fulfill_step:
  assumes "I s" and snap: "snapshot (r # rs) s"
    and "res_order r = Some k \<and> res_status r = R_CONFIRMED"
    and run: "fulfill_one r s = (Inr (), t)"
  shows "I t \<and> snapshot rs t"
proof -
  from fulfill_Inr [OF run] obtain i c w1 where i: "inventories s (res_product r) = Some i"
    and c: "get_or_create_daily_capacity (res_product r) (res_date r) s = (Inr c, w1)"
    and t: "t = (ship_units i c r w1)\<lparr>products := products t\<rparr>" by blast
  have w1: "with_inventory (res_product r) i w1" "capacities w1 (res_product r, res_date r) = Some c"
    using get_capacity_returns [OF _ c] i assms(1) by auto
  have same: "reservations w1 = reservations s"
    using c by (auto simp: get_or_create_daily_capacity_def default_daily_capacity_def
        get_or_create_inventory_def run_bnd split: option.splits)
  have "I (ship_units i c r w1)"
    using w1 same assms by (intro law_ship) (auto simp: live_def)
  then have "I t" by (subst t) (simp add: frame_products)
  moreover have "reservations t =
      upd_rows (\<lambda>x. res_id x = res_id r) (set_res_status R_RELEASED) (reservations s)"
    by (subst t) (simp add: ship_units_reservations same)
  ultimately show ?thesis using snapshot_tail [OF snap] by blast
qed

lemma keeps_fulfill_reservations: "keeps I (fulfill_reservations k)"
  unfolding fulfill_reservations_def
  by (intro keeps_atomic_settles tables_only loop_settles [OF fulfill_step])

lemma expire_step:
  assumes "I s" and snap: "snapshot (r # rs) s" and "is_stale n r"
    and run: "expire_one r s = (Inr (), t)"
  shows "I t \<and> snapshot rs t"
proof -
  from run obtain u where rel: "release_single_reservation r s = (Inr (), u)"
    and exp: "save_reservation r (set_res_status R_EXPIRED) u = (Inr (), t)"
    by (auto simp: expire_one_def bnd_returns)
  have "live r" using assms(3) by (simp add: is_stale_def live_def)
  then have u: "u = drop_units r s" using release_Inr [OF rel] by simp
  let ?r = "set_res_status R_RELEASED r"
  have t: "t = put_reservation ?r (set_res_status R_EXPIRED) u"
    using exp by (simp add: put_reservation_def)
  have "?r \<in> set (reservations u)"
    unfolding u drop_units_reservations set_upd_rows using snap by (intro image_eqI [of _ _ r]) simp_all
  moreover have u': "I u \<and> snapshot rs u" using release_step [OF assms(1) snap rel] .
  ultimately have "I t" unfolding t by (intro law_expired) (auto simp: live_def set_res_status_def)
  moreover have "snapshot rs t"
  proof -
    have "reservations t = upd_rows (\<lambda>x. res_id x = res_id r) (set_res_status R_EXPIRED)
        (upd_rows (\<lambda>x. res_id x = res_id r) (set_res_status R_RELEASED) (reservations s))"
      unfolding t u put_reservation_def by (simp add: drop_units_reservations)
    also have "\<dots> = upd_rows (\<lambda>x. res_id x = res_id r)
        (\<lambda>x. set_res_status R_EXPIRED (set_res_status R_RELEASED x)) (reservations s)"
      by (auto simp: upd_rows_def)
    finally show ?thesis by (rule snapshot_tail [OF snap])
  qed
  ultimately show ?thesis by blast
qed

lemma keeps_expire_stale_reservations: "keeps I (expire_stale_reservations env)"
  unfolding expire_stale_reservations_def
  by (intro keeps_atomic_settles tables_only loop_count_settles loop_settles [OF expire_step])

end

text \<open>Reserving for an order also writes the order and its items.\<close>

locale stock_ops = stock_tables + order_frame +
  assumes frame_order_items: "I (w\<lparr>order_items := xs\<rparr>) = I w"
begin

lemma keeps_get_product: "keeps J (get_product p)"
  unfolding get_product_def by (intro keeps_intros)

lemma keeps_set_item_date: "keeps I (set_item_date k d)"
  unfolding set_item_date_def by (intro keeps_modifies) (simp add: frame_order_items)

lemma settles_reserve_order_item: "settles I (reserve_order_item env k x)"
  unfolding reserve_order_item_def
  by (intro settles_intros settles_reserve_item keeps_settles [OF keeps_get_product]
      keeps_settles [OF keeps_set_item_date] keeps_settles [OF keeps_ret])

lemma keeps_reserve_for_order: "keeps I (reserve_for_order env od)"
  unfolding reserve_for_order_def
  by (intro keeps_atomic_settles tables_only settles_intros settles_reserve_order_item
      keeps_settles [OF keeps_gets] keeps_settles [OF keeps_ret] keeps_settles [OF keeps_save_order])

end

section \<open>The stock ledger\<close>

definition held_product :: "nat \<Rightarrow> reservation list \<Rightarrow> int" where
  "held_product p = sum_where res_quantity (\<lambda>r. res_product r = p \<and> live r)"

definition held_day :: "nat \<Rightarrow> date \<Rightarrow> reservation list \<Rightarrow> int" where
  "held_day p d = sum_where res_quantity (\<lambda>r. res_product r = p \<and> res_date r = d \<and> live r)"

text \<open>
  A tracked product's counter is what its live reservations hold, and without preorders it does
  not exceed the stock.
\<close>

fun inventory_ok :: "inventory option \<Rightarrow> int \<Rightarrow> bool" where
  "inventory_ok None held = (held = 0)"
| "inventory_ok (Some i) held =
     (inv_track_stock i \<longrightarrow>
        inv_reserved i = held \<and> (\<not> inv_allow_preorder i \<longrightarrow> inv_reserved i \<le> inv_stock i))"

text \<open>A day's counter is what the live reservations for the day hold, and the day is not overbooked.\<close>

fun capacity_ok :: "capacity option \<Rightarrow> int \<Rightarrow> bool" where
  "capacity_ok None held = (held = 0)"
| "capacity_ok (Some c) held =
     (cap_reserved c = held \<and> 0 \<le> cap_fulfilled c \<and> cap_reserved c + cap_fulfilled c \<le> cap_max c)"

definition rows_ok :: "world \<Rightarrow> bool" where
  "rows_ok w \<longleftrightarrow> distinct (map res_id (reservations w)) \<and>
     (\<forall>r\<in>set (reservations w). res_id r < next_pk w \<and> 0 \<le> res_quantity r)"

definition stock_ok :: "world \<Rightarrow> bool" where
  "stock_ok w \<longleftrightarrow> rows_ok w \<and>
     (\<forall>p. inventory_ok (inventories w p) (held_product p (reservations w))) \<and>
     (\<forall>p d. capacity_ok (capacities w (p, d)) (held_day p d (reservations w)))"

lemma stock_okI:
  assumes "rows_ok w"
    and "\<And>p. inventory_ok (inventories w p) (held_product p (reservations w))"
    and "\<And>p d. capacity_ok (capacities w (p, d)) (held_day p d (reservations w))"
  shows "stock_ok w"
  using assms by (simp add: stock_ok_def)

lemma stock_okD:
  assumes "stock_ok w"
  shows "rows_ok w" and "inventory_ok (inventories w p) (held_product p (reservations w))"
    and "capacity_ok (capacities w (p, d)) (held_day p d (reservations w))"
  using assms by (simp_all add: stock_ok_def)

lemma stock_ok_empty: "stock_ok empty_world"
  by (simp add: stock_ok_def rows_ok_def empty_world_def held_product_def held_day_def)

lemma held_nonneg: "rows_ok w \<Longrightarrow> 0 \<le> held_product p (reservations w)"
  by (auto simp: rows_ok_def held_product_def intro!: sum_where_nonneg)

lemma held_member:
  assumes "rows_ok w" and "r \<in> set (reservations w)" and "live r"
  shows "0 \<le> res_quantity r" and "res_quantity r \<le> held_product (res_product r) (reservations w)"
    and "res_quantity r \<le> held_day (res_product r) (res_date r) (reservations w)"
  using assms by (auto simp: rows_ok_def held_product_def held_day_def intro!: sum_where_ge_member)

text \<open>Relabelling a row: what it held goes away when it stops being live.\<close>

lemma held_relabel:
  assumes "rows_ok w" and "r \<in> set (reservations w)"
    and same: "\<And>x. res_id (f x) = res_id x \<and> res_product (f x) = res_product x \<and>
        res_date (f x) = res_date x \<and> res_quantity (f x) = res_quantity x"
  shows "held_product p (upd_rows (\<lambda>x. res_id x = res_id r) f (reservations w)) =
           held_product p (reservations w)
             - (if res_product r = p \<and> live r \<and> \<not> live (f r) then res_quantity r else 0)
             + (if res_product r = p \<and> \<not> live r \<and> live (f r) then res_quantity r else 0)"
    and "held_day p d (upd_rows (\<lambda>x. res_id x = res_id r) f (reservations w)) =
           held_day p d (reservations w)
             - (if res_product r = p \<and> res_date r = d \<and> live r \<and> \<not> live (f r) then res_quantity r else 0)
             + (if res_product r = p \<and> res_date r = d \<and> \<not> live r \<and> live (f r) then res_quantity r else 0)"
  using assms
  by (simp_all add: rows_ok_def held_product_def held_day_def sum_where_upd_key [where k = res_id])

lemma rows_ok_relabel:
  assumes "rows_ok w" and "\<And>x. res_id (f x) = res_id x \<and> res_quantity (f x) = res_quantity x"
    and "reservations v = upd_rows P f (reservations w)" and "next_pk v = next_pk w"
  shows "rows_ok v"
  using assms by (auto simp: rows_ok_def map_upd_rows set_upd_rows)

lemma live_set_res_status [simp]: "live (set_res_status st r) = (st \<in> {R_ACTIVE, R_CONFIRMED})"
  by (simp add: live_def set_res_status_def)

lemma set_res_status_same [simp]:
  "res_product (set_res_status st x) = res_product x" "res_date (set_res_status st x) = res_date x"
  "res_quantity (set_res_status st x) = res_quantity x"
  by (simp_all add: set_res_status_def)

lemma stock_ok_relabel:
  assumes "stock_ok w" and "r \<in> set (reservations w)" and "live (f r) = live r"
    and "\<And>x. res_id (f x) = res_id x \<and> res_product (f x) = res_product x \<and>
        res_date (f x) = res_date x \<and> res_quantity (f x) = res_quantity x"
  shows "stock_ok (put_reservation r f w)"
proof (rule stock_okI)
  note ok = stock_okD [OF assms(1)]
  show "rows_ok (put_reservation r f w)"
    using assms(4) by (intro rows_ok_relabel [OF ok(1), of f]) (auto simp: put_reservation_def)
qed (use stock_okD [OF assms(1)] assms held_relabel [OF stock_okD(1) [OF assms(1)] assms(2,4)]
      in \<open>auto simp: put_reservation_def\<close>)

lemma inventory_ok_less:
  "inventory_ok (Some i) h \<Longrightarrow> 0 \<le> n \<Longrightarrow> n \<le> h \<Longrightarrow>
   inventory_ok (Some (i\<lparr>inv_reserved := max 0 (inv_reserved i - n)\<rparr>)) (h - n)"
  by auto

lemma capacity_ok_less:
  "capacity_ok (Some c) h \<Longrightarrow> 0 \<le> n \<Longrightarrow> n \<le> h \<Longrightarrow>
   capacity_ok (Some (c\<lparr>cap_reserved := max 0 (cap_reserved c - n)\<rparr>)) (h - n)"
  by auto

lemma drop_units_rows:
  "inventories (drop_units r w) p =
     (if p = res_product r
      then map_option (\<lambda>i. if inv_track_stock i then give_back_stock r i else i) (inventories w p)
      else inventories w p)"
  "capacities (drop_units r w) (p, d) =
     (if p = res_product r \<and> d = res_date r
      then map_option (give_back_capacity r) (capacities w (p, d)) else capacities w (p, d))"
  "next_pk (drop_units r w) = next_pk w"
  by (cases "inventories w (res_product r)"; cases "capacities w (res_product r, res_date r)";
      auto simp: drop_units_def put_defs Let_def)+

lemma ship_units_rows:
  "inventories (ship_units i c r w) p =
     (if p = res_product r \<and> inv_track_stock i then Some (use_stock r i) else inventories w p)"
  "capacities (ship_units i c r w) (p, d) =
     (if p = res_product r \<and> d = res_date r then Some (use_capacity r c) else capacities w (p, d))"
  "next_pk (ship_units i c r w) = next_pk w"
  by (auto simp: ship_units_def put_defs Let_def)

lemma stock_ok_drop:
  assumes "stock_ok w" and r: "r \<in> set (reservations w)" "live r"
  shows "stock_ok (drop_units r w)"
proof (rule stock_okI)
  note ok = stock_okD [OF assms(1)]
  note held = held_relabel [where f = "set_res_status R_RELEASED", OF ok(1) r(1), simplified]
  note q = held_member [OF ok(1) r]
  show "rows_ok (drop_units r w)"
    by (rule rows_ok_relabel [OF ok(1) _ drop_units_reservations])
      (auto simp: drop_units_rows)
  show "inventory_ok (inventories (drop_units r w) p) (held_product p (reservations (drop_units r w)))"
    for p
    using ok(2) [of p] q r held(1)
    by (cases "inventories w p"; cases "p = res_product r")
      (auto simp: drop_units_reservations drop_units_rows give_back_stock_def)
  show "capacity_ok (capacities (drop_units r w) (p, d)) (held_day p d (reservations (drop_units r w)))"
    for p d
    using ok(3) [of p d] q r held(2)
    by (cases "capacities w (p, d)"; cases "p = res_product r \<and> d = res_date r")
      (auto simp: drop_units_reservations drop_units_rows give_back_capacity_def)
qed

lemma stock_ok_ship:
  assumes "stock_ok w" and r: "r \<in> set (reservations w)" "live r"
    and i: "inventories w (res_product r) = Some i"
    and c: "capacities w (res_product r, res_date r) = Some c"
  shows "stock_ok (ship_units i c r w)"
proof (rule stock_okI)
  note ok = stock_okD [OF assms(1)]
  note held = held_relabel [where f = "set_res_status R_RELEASED", OF ok(1) r(1), simplified]
  note q = held_member [OF ok(1) r]
  show "rows_ok (ship_units i c r w)"
    by (rule rows_ok_relabel [OF ok(1) _ ship_units_reservations])
      (auto simp: ship_units_rows)
  show "inventory_ok (inventories (ship_units i c r w) p)
      (held_product p (reservations (ship_units i c r w)))" for p
    using ok(2) [of p] q r held(1) i
    by (cases "p = res_product r")
      (auto simp: ship_units_reservations ship_units_rows use_stock_def)
  show "capacity_ok (capacities (ship_units i c r w) (p, d))
      (held_day p d (reservations (ship_units i c r w)))" for p d
    using ok(3) [of p d] q r held(2) c
    by (cases "p = res_product r \<and> d = res_date r")
      (auto simp: ship_units_reservations ship_units_rows use_capacity_def)
qed

lemma stock_ok_hold:
  assumes "stock_ok w" and i: "inventories w (res_product r) = Some i"
    and c: "capacities w (res_product r, res_date r) = Some c"
    and q: "0 \<le> res_quantity r" "res_quantity r \<le> available_units c"
    and stock: "inv_track_stock i \<Longrightarrow> \<not> inv_allow_preorder i \<Longrightarrow> res_quantity r \<le> available_quantity i"
    and r: "res_status r = R_ACTIVE" "res_id r = next_pk w"
  shows "stock_ok (hold_units i c r w)"
proof (rule stock_okI)
  note ok = stock_okD [OF assms(1)]
  have rs: "reservations (hold_units i c r w) = reservations w @ [r]"
    by (simp add: hold_units_def Let_def)
  have held: "held_product p (reservations w @ [r]) = held_product p (reservations w) +
        (if res_product r = p then res_quantity r else 0)"
    "held_day p d (reservations w @ [r]) = held_day p d (reservations w) +
        (if res_product r = p \<and> res_date r = d then res_quantity r else 0)" for p d
    using r by (simp_all add: held_product_def held_day_def live_def)
  show "rows_ok (hold_units i c r w)"
    using ok(1) r q(1) by (auto simp: rows_ok_def hold_units_def Let_def)
  show "inventory_ok (inventories (hold_units i c r w) p)
      (held_product p (reservations (hold_units i c r w)))" for p
    using ok(2) [of p] q(1) i stock unfolding rs held
    by (cases "p = res_product r")
      (auto simp: hold_units_def put_defs Let_def available_quantity_def)
  show "capacity_ok (capacities (hold_units i c r w) (p, d))
      (held_day p d (reservations (hold_units i c r w)))" for p d
    using ok(3) [of p d] q c unfolding rs held
    by (cases "p = res_product r \<and> d = res_date r")
      (auto simp: hold_units_def put_defs Let_def available_units_def)
qed

lemma stock_ok_new_inventory:
  assumes "stock_ok w" and "inventories w p = None"
  shows "stock_ok (put_inventory p default_inventory w)"
proof (rule stock_okI)
  note ok = stock_okD [OF assms(1)]
  show "inventory_ok (inventories (put_inventory p default_inventory w) q)
      (held_product q (reservations (put_inventory p default_inventory w)))" for q
    using ok(2) [of q] assms(2) by (auto simp: put_inventory_def default_inventory_def)
qed (use stock_okD [OF assms(1)] in \<open>auto simp: put_inventory_def rows_ok_def\<close>)

lemma stock_ok_new_capacity:
  assumes "stock_ok w" and "capacities w (p, d) = None" and "0 \<le> mx"
  shows "stock_ok (put_capacity p d \<lparr>cap_max = mx, cap_reserved = 0, cap_fulfilled = 0\<rparr> w)"
    (is "stock_ok ?v")
proof (rule stock_okI)
  note ok = stock_okD [OF assms(1)]
  show "capacity_ok (capacities ?v (q, e)) (held_day q e (reservations ?v))" for q e
    using ok(3) [of q e] assms(2,3) by (auto simp: put_capacity_def)
qed (use stock_okD [OF assms(1)] in \<open>auto simp: put_capacity_def rows_ok_def\<close>)

text \<open>The ledger satisfies the contract, so every operation keeps it.\<close>

interpretation ledger: stock_ops stock_ok
proof (unfold_locales, goal_cases)
  case 6 then show ?case by (intro stock_ok_relabel) (auto simp: live_def confirm_row_def)
next
  case 8 then show ?case by (intro stock_ok_relabel) auto
qed ((rule stock_ok_new_inventory stock_ok_new_capacity stock_ok_hold stock_ok_drop stock_ok_ship;
      blast) | simp add: of_tables_def stock_ok_def rows_ok_def)+

end
