(* ===== verification/OrderService.thy ===== *)
theory OrderService
  imports StockLedger
begin

text \<open>
  \<open>apps/orders/services/order_service.py\<close>: the entry point of every order lifecycle change. A
  method takes the primary key of the instance it is given, because it fetches the row again first,
  and returns the instance it returns in the code: where a method changes the row through another
  fetch, that instance is stale, and the model keeps it so.
\<close>

section \<open>Payment refunds\<close>

text \<open>\<open>PaymentService.process_refund\<close> of \<open>apps/payments/services.py\<close>\<close>

definition payments_of :: "world \<Rightarrow> nat \<Rightarrow> payment list" where
  "payments_of w k = filter (\<lambda>p. pay_order p = k) (payments w)"

definition save_payment :: "payment \<Rightarrow> (payment \<Rightarrow> payment) \<Rightarrow> unit P" where
  "save_payment p copy =
     bnd (gets (\<lambda>w. pay_id p \<notin> pay_id ` set (payments w))) (\<lambda>gone.
     bnd (raise_if gone
            (Exn DatabaseError (Text ''Save with update_fields did not affect any rows.''))) (\<lambda>_.
     modifies (\<lambda>w. w\<lparr>payments := upd_rows (\<lambda>x. pay_id x = pay_id p) copy (payments w)\<rparr>)))"

definition set_pay_status :: "payment_state \<Rightarrow> payment \<Rightarrow> payment" where
  "set_pay_status st p = p\<lparr>pay_status := st\<rparr>"

definition payment_process_refund :: "nat \<Rightarrow> unit P" where
  "payment_process_refund k = atomic (
     bnd (get_order k) (\<lambda>od.
     bnd (gets (\<lambda>w. latest (\<lambda>p. pay_order p = k) (payments w))) (\<lambda>row.
     case row of
       Some p \<Rightarrow> whenever (pay_status p = P_SUCCEEDED) (save_payment p (set_pay_status P_REFUNDED))
     | None \<Rightarrow> ret ())))"

section \<open>The service\<close>

definition create_status_log ::
  "nat \<Rightarrow> order_status \<Rightarrow> order_status \<Rightarrow> message \<Rightarrow> string \<Rightarrow> unit P" where
  "create_status_log k from to note actor = modifies (\<lambda>w. w\<lparr>status_logs := status_logs w @
     [\<lparr>log_order = k, log_from = from, log_to = to, log_note = note, log_actor = actor\<rparr>]\<rparr>)"

definition transition :: "nat \<Rightarrow> order_status \<Rightarrow> message \<Rightarrow> string \<Rightarrow> order P" where
  "transition k new note actor = atomic (
     bnd (get_order k) (\<lambda>od.
     bnd (validate_transition od new) (\<lambda>_.
     if ord_status od = new then ret od
     else
       let od' = od\<lparr>ord_status := new\<rparr> in
       bnd (save_order od' f_status) (\<lambda>_.
       bnd (create_status_log k (ord_status od) new note actor) (\<lambda>_.
       ret od')))))"

definition set_payment_status :: "order \<Rightarrow> order_payment_status \<Rightarrow> order P" where
  "set_payment_status od st =
     (let od' = od\<lparr>ord_payment_status := st\<rparr> in
      bnd (save_order od' f_payment_status) (\<lambda>_. ret od'))"

definition cancel :: "nat \<Rightarrow> message \<Rightarrow> string \<Rightarrow> order P" where
  "cancel k reason actor = atomic (
     bnd (get_order k) (\<lambda>od.
     if ord_status od \<in> {S_CANCELLED, S_REFUNDED} then ret od
     else
       bnd (release_reservations k) (\<lambda>_.
       bnd (if ord_payment_status od = PS_PENDING_PAYMENT
            then set_payment_status od PS_FAILED else ret od) (\<lambda>od'.
       bnd (transition k S_CANCELLED reason actor) (\<lambda>_.
       ret od')))))"

definition mark_payment_failed :: "nat \<Rightarrow> message \<Rightarrow> string \<Rightarrow> order P" where
  "mark_payment_failed k reason actor = atomic (
     bnd (get_order k) (\<lambda>od.
     if ord_payment_status od \<in> {PS_PAID, PS_CASH_RECEIVED} then ret od
     else if ord_status od \<in> {S_CANCELLED, S_REFUNDED} then ret od
     else
       bnd (release_reservations k) (\<lambda>_.
       bnd (set_payment_status od PS_FAILED) (\<lambda>od'.
       bnd (transition k S_CANCELLED reason actor) (\<lambda>_.
       ret od')))))"

definition request_refund :: "nat \<Rightarrow> string \<Rightarrow> string \<Rightarrow> order P" where
  "request_refund k reason actor = atomic (
     bnd (get_order k) (\<lambda>od.
     bnd (set_payment_status od PS_REFUND_REQUESTED) (\<lambda>od'.
     bnd (create_status_log k (ord_status od') (ord_status od')
            (Fmt ''Refund requested: {}'' [AStr reason]) actor) (\<lambda>_.
     ret od'))))"

definition process_refund :: "nat \<Rightarrow> message \<Rightarrow> string \<Rightarrow> order P" where
  "process_refund k reason actor = atomic (
     bnd (get_order k) (\<lambda>od.
     if ord_status od = S_REFUNDED then ret od
     else
       bnd (payment_process_refund k) (\<lambda>_.
       bnd (release_reservations k) (\<lambda>_.
       bnd (set_payment_status od PS_REFUND_PROCESSED) (\<lambda>od'.
       bnd (transition k S_REFUNDED reason actor) (\<lambda>_.
       ret od'))))))"

definition complete_delivery :: "nat \<Rightarrow> string \<Rightarrow> order P" where
  "complete_delivery k actor = atomic (
     bnd (get_order k) (\<lambda>od.
     bnd (if is_cod od then
            raise_if (ord_payment_status od \<noteq> PS_CASH_RECEIVED) (Exn CheckoutError
              (Text ''COD orders require cash received before delivery completion.''))
          else fulfill_reservations k) (\<lambda>_.
     transition k S_DELIVERED (Text []) actor)))"

definition reserve_stock :: "env \<Rightarrow> order \<Rightarrow> unit P" where
  "reserve_stock env od = atomic (bnd (reserve_for_order env od) (\<lambda>_. ret ()))"

definition confirm_stock :: "nat \<Rightarrow> unit P" where
  "confirm_stock k = atomic (confirm_reservations k)"

definition release_stock :: "nat \<Rightarrow> unit P" where
  "release_stock k = atomic (release_reservations k)"

definition finalize_counter_payment :: "nat \<Rightarrow> string \<Rightarrow> order P" where
  "finalize_counter_payment k actor = atomic (
     bnd (get_order k) (\<lambda>od.
     if ord_payment_status od = PS_PAID \<and> ord_status od = S_PREPARING then ret od
     else
       bnd (set_payment_status od PS_PAID) (\<lambda>od'.
       bnd (confirm_reservations k) (\<lambda>_.
       transition k S_PREPARING (Text ''Counter payment received'') actor))))"

definition paid_statuses :: "order_status set" where
  "paid_statuses = {S_PAID, S_CONFIRMED_BY_SHOP, S_PREPARING, S_PACKAGED,
     S_OUT_FOR_DELIVERY, S_DELIVERED}"

definition finalize_online_payment :: "nat \<Rightarrow> order P" where
  "finalize_online_payment k = atomic (
     bnd (get_order k) (\<lambda>od.
     if ord_payment_status od = PS_PAID \<and> ord_status od \<in> paid_statuses then ret od
     else
       bnd (set_payment_status od PS_PAID) (\<lambda>od'.
       bnd (confirm_reservations k) (\<lambda>_.
       bnd (transition k S_PAID (Text ''Online payment received'') ''system'') (\<lambda>_.
       transition k S_CONFIRMED_BY_SHOP (Text ''Auto-confirmed after payment'') ''system'')))))"

definition finalize_cod_placement :: "nat \<Rightarrow> order P" where
  "finalize_cod_placement k = atomic (
     bnd (get_order k) (\<lambda>od.
     let od' = od\<lparr>ord_payment_status := PS_COD_PENDING, ord_status := S_CONFIRMED_BY_SHOP\<rparr> in
     bnd (save_order od' f_both_statuses) (\<lambda>_.
     bnd (create_status_log k S_PENDING_PAYMENT S_CONFIRMED_BY_SHOP
            (Text ''COD order placed - awaiting shop confirmation'') ''system'') (\<lambda>_.
     ret od'))))"

definition confirm_cod :: "nat \<Rightarrow> string \<Rightarrow> order P" where
  "confirm_cod k actor = atomic (
     bnd (get_order k) (\<lambda>od.
     bnd (raise_if (ord_payment_status od \<noteq> PS_COD_PENDING)
            (Exn CheckoutError (Text ''Order is not in COD pending state.''))) (\<lambda>_.
     bnd (set_payment_status od PS_COD_CONFIRMED) (\<lambda>od'.
     bnd (create_status_log k (ord_status od') (ord_status od') (Text ''COD confirmed by shop'') actor)
       (\<lambda>_.
     ret od')))))"

definition record_cash_received :: "nat \<Rightarrow> string \<Rightarrow> order P" where
  "record_cash_received k actor = atomic (
     bnd (get_order k) (\<lambda>od.
     bnd (confirm_reservations k) (\<lambda>_.
     bnd (fulfill_reservations k) (\<lambda>_.
     bnd (if ord_payment_status od \<noteq> PS_CASH_RECEIVED
          then set_payment_status od PS_CASH_RECEIVED else ret od) (\<lambda>od'.
     if ord_status od' \<noteq> S_DELIVERED
     then transition k S_DELIVERED (Text ''Cash received on delivery'') actor
     else ret od')))))"

text \<open>\<open>apps/orders/pickup_completion.py\<close>; the caller's instance decides the first step.\<close>

definition complete_pickup_order :: "order \<Rightarrow> string \<Rightarrow> order P" where
  "complete_pickup_order od actor =
     bnd (whenever (ord_status od = S_PACKAGED)
            (bnd (transition (ord_id od) S_OUT_FOR_DELIVERY
                    (Text ''Pickup screen: ready for customer pickup'') actor) (\<lambda>_. ret ()))) (\<lambda>_.
     complete_delivery (ord_id od) actor)"

section \<open>The contract of the order operations\<close>

text \<open>
  What must be true of a predicate for every lifecycle operation to keep it: the stock operations
  on an order keep it, and so do a payment status, a table-checked transition, and a log entry
  that records no change.
\<close>

locale order_ops =
  fixes I :: "world \<Rightarrow> bool"
  assumes tables_only: "of_tables I"
    and law_release: "keeps I (release_reservations k)"
    and law_confirm: "keeps I (confirm_reservations k)"
    and law_fulfill: "keeps I (fulfill_reservations k)"
    and law_payment_status: "keeps I (save_order od f_payment_status)"
    and law_transition: "keeps I (transition k new note actor)"
    and law_remark: "I w \<Longrightarrow> order_row w k = Some od \<Longrightarrow>
      I (w\<lparr>status_logs := status_logs w @ [\<lparr>log_order = k, log_from = ord_status od,
           log_to = ord_status od, log_note = note, log_actor = actor\<rparr>]\<rparr>)"
    and law_payments: "I (w\<lparr>payments := ps\<rparr>) = I w"
    and law_next_pk: "I w \<Longrightarrow> I (w\<lparr>next_pk := Suc (next_pk w)\<rparr>)"
begin

lemmas settles_atomic_block = keeps_atomic_settles [OF tables_only]

lemma keeps_set_payment_status: "keeps I (set_payment_status od st)"
  unfolding set_payment_status_def Let_def by (intro keeps_intros law_payment_status)

lemma keeps_save_payment: "keeps I (save_payment p copy)"
  unfolding save_payment_def by (intro keeps_intros keeps_modifies) (simp add: law_payments)

lemmas keeps_parts = keeps_intros keeps_set_payment_status keeps_save_payment
  law_release law_confirm law_fulfill law_transition

lemma keeps_atomic_parts: "keeps I m \<Longrightarrow> keeps I (atomic m)"
  by (rule keeps_atomic [OF tables_only])

lemma keeps_payment_process_refund: "keeps I (payment_process_refund k)"
  unfolding payment_process_refund_def by (intro keeps_atomic_parts keeps_parts)

lemma keeps_cancel: "keeps I (cancel k reason actor)"
  unfolding cancel_def by (intro keeps_atomic_parts keeps_parts)

lemma keeps_mark_payment_failed: "keeps I (mark_payment_failed k reason actor)"
  unfolding mark_payment_failed_def by (intro keeps_atomic_parts keeps_parts)

lemma keeps_process_refund: "keeps I (process_refund k reason actor)"
  unfolding process_refund_def by (intro keeps_atomic_parts keeps_parts keeps_payment_process_refund)

lemma keeps_complete_delivery: "keeps I (complete_delivery k actor)"
  unfolding complete_delivery_def by (intro keeps_atomic_parts keeps_parts)

lemma keeps_finalize_counter_payment: "keeps I (finalize_counter_payment k actor)"
  unfolding finalize_counter_payment_def by (intro keeps_atomic_parts keeps_parts)

lemma keeps_finalize_online_payment: "keeps I (finalize_online_payment k)"
  unfolding finalize_online_payment_def by (intro keeps_atomic_parts keeps_parts)

lemma keeps_record_cash_received: "keeps I (record_cash_received k actor)"
  unfolding record_cash_received_def by (intro keeps_atomic_parts keeps_parts)

lemma keeps_complete_pickup_order: "keeps I (complete_pickup_order od actor)"
  unfolding complete_pickup_order_def by (intro keeps_parts keeps_complete_delivery)

lemma settles_pay_and_remark:
  "settles I (bnd (get_order k) (\<lambda>od. bnd (raise_if (c od) e) (\<lambda>_.
     bnd (set_payment_status od st) (\<lambda>od'.
     bnd (create_status_log k (ord_status od') (ord_status od') note actor) (\<lambda>_. ret od')))))"
proof (rule settlesI)
  fix w x v
  assume w: "I w" and "bnd (get_order k) (\<lambda>od. bnd (raise_if (c od) e) (\<lambda>_.
     bnd (set_payment_status od st) (\<lambda>od'.
     bnd (create_status_log k (ord_status od') (ord_status od') note actor) (\<lambda>_. ret od')))) w = (Inr x, v)"
  then obtain od od' u where od: "order_row w k = Some od"
    and save: "set_payment_status od st w = (Inr od', u)"
    and v: "create_status_log k (ord_status od') (ord_status od') note actor u = (Inr (), v)"
    by (auto simp: returns get_order_def)
  have u: "I u" using keeps_run [OF keeps_set_payment_status w save] .
  have id: "ord_id od = k" using od by (auto simp: order_row_def dest: find_SomeD)
  let ?od = "od\<lparr>ord_payment_status := st\<rparr>"
  have "order_row w (ord_id ?od) = Some od" using od id by simp
  from run_save_order [OF this, of f_payment_status] obtain t b where
    "save_order ?od f_payment_status w =
       (Inr (), w\<lparr>orders := upd_rows (\<lambda>r. ord_id r = ord_id ?od) (f_payment_status ?od) (orders w),
                  task_logs := t, broker := broker w @ b\<rparr>)" by blast
  then have od': "od' = ?od" and "orders u = upd_rows (\<lambda>r. ord_id r = k) (f_payment_status ?od) (orders w)"
    using save id by (auto simp: set_payment_status_def run_bnd Let_def)
  then have "order_row u k = Some (f_payment_status ?od od)"
    using od by (simp add: order_row_def find_upd_rows f_payment_status_def)
  from law_remark [OF u this] show "I v"
    using v od' by (auto simp: create_status_log_def f_payment_status_def)
qed

lemma keeps_request_refund: "keeps I (request_refund k reason actor)"
proof -
  have "settles I (bnd (get_order k) (\<lambda>od. bnd (set_payment_status od PS_REFUND_REQUESTED) (\<lambda>od'.
     bnd (create_status_log k (ord_status od') (ord_status od')
       (Fmt ''Refund requested: {}'' [AStr reason]) actor) (\<lambda>_. ret od'))))"
    using settles_pay_and_remark [where c = "\<lambda>_. False" and k = k] by (simp add: raise_if_def)
  then show ?thesis unfolding request_refund_def by (rule settles_atomic_block)
qed

lemma keeps_confirm_cod: "keeps I (confirm_cod k actor)"
  unfolding confirm_cod_def by (rule settles_atomic_block [OF settles_pay_and_remark])

end

end
