(* ===== verification/Payments.thy ===== *)
theory Payments
  imports OrderService
begin

text \<open>
  \<open>apps/payments/services.py\<close> and the providers of \<open>apps/payments/providers\<close>: starting online,
  cash-on-delivery and counter payments, recording their outcomes, and the webhook that every
  provider's callback goes through. The gateways themselves are parameters (fields of \<open>env\<close>).
\<close>

section \<open>Payment rows\<close>

definition get_one :: "string \<Rightarrow> 'a list \<Rightarrow> 'a P" where
  "get_one what rows = (case rows of
     [] \<Rightarrow> raise (Exn DoesNotExist (Text what))
   | [x] \<Rightarrow> ret x
   | _ \<Rightarrow> raise (Exn MultipleObjectsReturned (Text what)))"

definition payment_row :: "world \<Rightarrow> nat \<Rightarrow> payment option" where
  "payment_row w p = find (\<lambda>x. pay_id x = p) (payments w)"

definition get_payment :: "nat \<Rightarrow> payment P" where
  "get_payment p = bnd (gets (\<lambda>w. payment_row w p)) (get_or_raise (Exn DoesNotExist (Text ''Payment'')))"

definition create_payment ::
  "env \<Rightarrow> order \<Rightarrow> provider \<Rightarrow> string \<Rightarrow> dict \<Rightarrow> payment P" where
  "create_payment env od prov currency metadata =
     bnd fresh_pk (\<lambda>k.
     let p = \<lparr>pay_id = k, pay_order = ord_id od, pay_provider = prov, pay_status = P_PENDING,
              pay_amount = ord_total od, pay_currency = currency, pay_provider_payment_id = [],
              pay_session_id = [], pay_checkout_url = [], pay_failure_message = Text [],
              pay_metadata = metadata, pay_created_at = now env\<rparr> in
     bnd (modifies (\<lambda>w. w\<lparr>payments := payments w @ [p]\<rparr>)) (\<lambda>_. ret p))"

definition settle_row :: "payment_state \<Rightarrow> message \<Rightarrow> payment \<Rightarrow> payment" where
  "settle_row st m p = p\<lparr>pay_status := st, pay_failure_message := m\<rparr>"

definition order_has_successful_payment :: "order \<Rightarrow> bool" where
  "order_has_successful_payment od \<longleftrightarrow> ord_payment_status od \<in> {PS_PAID, PS_CASH_RECEIVED}"

definition already_paid :: "order \<Rightarrow> exn" where
  "already_paid od = Exn PaymentError (Fmt ''Order {} is already paid.'' [AStr (ord_number od)])"

section \<open>Providers\<close>

text \<open>\<open>apps/payments/providers/base.py\<close>\<close>

record checkout_session =
  cs_session_id :: string
  cs_url :: string
  cs_intent_id :: "string option"

record webhook_event =
  we_id :: string
  we_type :: string
  we_data :: dict

record payment_provider =
  provider_name :: provider
  create_checkout_session :: "order \<Rightarrow> payment \<Rightarrow> checkout_session P"
  verify_webhook :: "payload \<Rightarrow> string \<Rightarrow> webhook_event P"
  handle_webhook_event :: "webhook_event \<Rightarrow> unit P"

section \<open>Recording outcomes\<close>

definition mark_paid :: "nat \<Rightarrow> nat \<Rightarrow> unit P" where
  "mark_paid k p = atomic (
     bnd (get_order k) (\<lambda>od.
     bnd (get_payment p) (\<lambda>pm.
     if pay_status pm = P_SUCCEEDED then ret ()
     else if order_has_successful_payment od then
       save_payment pm (settle_row P_SUCCEEDED (Text []))
     else
       bnd (save_payment pm (settle_row P_SUCCEEDED (Text []))) (\<lambda>_.
       bnd (finalize_online_payment k) (\<lambda>_. ret ())))))"

definition mark_failed :: "nat \<Rightarrow> nat \<Rightarrow> message \<Rightarrow> unit P" where
  "mark_failed k p m = atomic (
     bnd (get_order k) (\<lambda>od.
     bnd (get_payment p) (\<lambda>pm.
     if pay_status pm = P_SUCCEEDED then ret ()
     else if order_has_successful_payment od then ret ()
     else
       bnd (save_payment pm (settle_row P_FAILED m)) (\<lambda>_.
       bnd (mark_payment_failed k m ''payment_webhook'') (\<lambda>_. ret ())))))"

definition mark_cancelled :: "nat \<Rightarrow> nat \<Rightarrow> message \<Rightarrow> unit P" where
  "mark_cancelled k p m = atomic (
     bnd (get_order k) (\<lambda>od.
     bnd (get_payment p) (\<lambda>pm.
     if pay_status pm = P_SUCCEEDED then ret ()
     else if order_has_successful_payment od then ret ()
     else
       bnd (save_payment pm (settle_row P_CANCELLED m)) (\<lambda>_.
       whenever (ord_payment_status od \<notin> {PS_PAID, PS_CASH_RECEIVED})
         (bnd (set_payment_status od PS_PENDING_PAYMENT) (\<lambda>_. ret ()))))))"

section \<open>Counter and cash-on-delivery payments\<close>

definition initiate_cod :: "env \<Rightarrow> order \<Rightarrow> payment P" where
  "initiate_cod env od = atomic (
     bnd (raise_if (ord_payment_status od \<in> {PS_CASH_RECEIVED}) (already_paid od)) (\<lambda>_.
     create_payment env od PV_COD ''irr'' [(''method'', JStr ''cash_on_delivery'')]))"

fun method_value :: "payment_method \<Rightarrow> string" where
  "method_value PM_COD = ''cod''"
| "method_value PM_ONLINE = ''online''"
| "method_value PM_CASH = ''cash''"
| "method_value PM_COUNTER_CARD = ''counter_card''"

definition counter_provider :: "payment_method \<Rightarrow> provider P" where
  "counter_provider m = (case m of
     PM_CASH \<Rightarrow> ret PV_CASH
   | PM_COUNTER_CARD \<Rightarrow> ret PV_COUNTER_CARD
   | _ \<Rightarrow> raise (Exn PaymentError
            (Fmt ''Unsupported counter payment method: {}'' [AStr (method_value m)])))"

definition initiate_counter_payment :: "env \<Rightarrow> order \<Rightarrow> payment_method \<Rightarrow> payment P" where
  "initiate_counter_payment env od m = atomic (
     bnd (raise_if (\<not> is_counter_payment od)
            (Exn PaymentError (Text ''Order is not a counter payment order.''))) (\<lambda>_.
     bnd (raise_if (ord_status od \<noteq> S_AWAITING_PAYMENT) (Exn PaymentError
            (Text ''Counter payment can only be initiated for awaiting-payment orders.''))) (\<lambda>_.
     bnd (counter_provider m) (\<lambda>prov.
     bnd (gets (\<lambda>w. latest (\<lambda>p. pay_order p = ord_id od \<and> pay_provider p = prov \<and>
            pay_status p \<noteq> P_CANCELLED) (payments w))) (\<lambda>existing.
     case existing of
       Some p \<Rightarrow> ret p
     | None \<Rightarrow> create_payment env od prov ''irr'' [(''method'', JStr (method_value m))])))))"

definition mark_counter_payment_received ::
  "nat \<Rightarrow> nat \<Rightarrow> provider \<Rightarrow> string \<Rightarrow> order P" where
  "mark_counter_payment_received k p expected actor = atomic (
     bnd (get_order k) (\<lambda>od.
     bnd (get_payment p) (\<lambda>pm.
     bnd (raise_if (pay_provider pm \<noteq> expected) (Exn PaymentError
            (Text ''Payment provider does not match the requested counter action.''))) (\<lambda>_.
     bnd (raise_if (pay_order pm \<noteq> k)
            (Exn PaymentError (Text ''Payment does not belong to this order.''))) (\<lambda>_.
     bnd (raise_if (\<not> is_counter_payment od) (Exn PaymentError
            (Text ''This action is only valid for counter payment orders.''))) (\<lambda>_.
     if ord_status od \<noteq> S_AWAITING_PAYMENT \<and> pay_status pm = P_SUCCEEDED then ret od
     else if pay_status pm = P_SUCCEEDED then
       if ord_status od = S_PREPARING then ret od else finalize_counter_payment k actor
     else
       let metadata = dict_set ''counter_payment_actor'' (JStr actor)
             (dict_set ''counter_payment_event'' (JStr ''counter_payment_received'') (pay_metadata pm)) in
       bnd (save_payment pm (\<lambda>x. (settle_row P_SUCCEEDED (Text []) x)\<lparr>pay_metadata := metadata\<rparr>)) (\<lambda>_.
       finalize_counter_payment k actor)))))))"

definition mark_counter_cash_received :: "nat \<Rightarrow> nat \<Rightarrow> string \<Rightarrow> order P" where
  "mark_counter_cash_received k p actor = atomic (mark_counter_payment_received k p PV_CASH actor)"

definition mark_counter_card_received :: "nat \<Rightarrow> nat \<Rightarrow> string \<Rightarrow> order P" where
  "mark_counter_card_received k p actor =
     atomic (mark_counter_payment_received k p PV_COUNTER_CARD actor)"

definition ensure_cod_cash_finalized :: "nat \<Rightarrow> nat option \<Rightarrow> string \<Rightarrow> order P" where
  "ensure_cod_cash_finalized k p actor = atomic (
     bnd (get_order k) (\<lambda>od.
     if \<not> is_cod od \<or> ord_payment_status od \<noteq> PS_CASH_RECEIVED then ret od
     else
       bnd (case p of
              None \<Rightarrow> gets (\<lambda>w. latest (\<lambda>x. pay_order x = k \<and> pay_provider x = PV_COD) (payments w))
            | Some j \<Rightarrow> bnd (get_payment j) (\<lambda>pm. ret (Some pm))) (\<lambda>row.
       case row of
         None \<Rightarrow> ret od
       | Some pm \<Rightarrow>
           bnd (whenever (pay_status pm \<noteq> P_SUCCEEDED)
                  (let metadata = dict_set ''cash_received_actor'' (JStr actor)
                         (dict_set ''cash_received_event'' (JStr ''cod_cash_finalized'') (pay_metadata pm)) in
                   save_payment pm (\<lambda>x. (settle_row P_SUCCEEDED (Text []) x)\<lparr>pay_metadata := metadata\<rparr>)))
             (\<lambda>_. record_cash_received k actor))))"

definition mark_cod_cash_received :: "nat \<Rightarrow> nat \<Rightarrow> string \<Rightarrow> order P" where
  "mark_cod_cash_received k p actor = atomic (
     bnd (get_order k) (\<lambda>od.
     bnd (get_payment p) (\<lambda>pm.
     bnd (raise_if (pay_provider pm \<noteq> PV_COD)
            (Exn PaymentError (Text ''This action is only valid for COD payments.''))) (\<lambda>_.
     bnd (raise_if (pay_order pm \<noteq> k)
            (Exn PaymentError (Text ''Payment does not belong to this order.''))) (\<lambda>_.
     bnd (whenever (ord_payment_status od \<noteq> PS_CASH_RECEIVED)
            (bnd (set_payment_status od PS_CASH_RECEIVED) (\<lambda>_. ret ()))) (\<lambda>_.
     ensure_cod_cash_finalized k (Some p) actor))))))"

section \<open>Online payments\<close>

definition get_reusable_zarinpal_payment :: "nat \<Rightarrow> payment option P" where
  "get_reusable_zarinpal_payment k =
     bnd (gets (\<lambda>w. latest (\<lambda>p. pay_order p = k \<and> pay_provider p = PV_ZARINPAL \<and>
            pay_status p = P_PROCESSING \<and> pay_session_id p \<noteq> [] \<and> pay_checkout_url p \<noteq> [])
            (payments w))) (\<lambda>row.
     ret (case row of
            Some p \<Rightarrow> if has_active_zarinpal_checkout p then Some p else None
          | None \<Rightarrow> None))"

text \<open>The second half of \<open>initiate_online\<close>: a new payment row and a new checkout session.\<close>

definition open_session :: "checkout_session \<Rightarrow> payment \<Rightarrow> payment" where
  "open_session session p = p\<lparr>pay_session_id := cs_session_id session,
     pay_provider_payment_id := (case cs_intent_id session of None \<Rightarrow> [] | Some i \<Rightarrow> i),
     pay_checkout_url := cs_url session, pay_status := P_PROCESSING,
     pay_metadata := dict_set ''zarinpal_authority'' (JStr (cs_session_id session)) (pay_metadata p)\<rparr>"

definition open_checkout :: "env \<Rightarrow> payment_provider \<Rightarrow> order \<Rightarrow> string \<Rightarrow> payment P" where
  "open_checkout env prov od currency =
     bnd (create_payment env od (provider_name prov) currency []) (\<lambda>p.
     bnd (create_checkout_session prov od p) (\<lambda>session.
     bnd (save_payment p (open_session session)) (\<lambda>_.
     bnd (set_payment_status od PS_PENDING_PAYMENT) (\<lambda>_.
     ret (open_session session p)))))"

definition initiate_online :: "env \<Rightarrow> (env \<Rightarrow> payment_provider P) \<Rightarrow> nat \<Rightarrow> payment P" where
  "initiate_online env get_provider k = atomic (
     bnd (get_order k) (\<lambda>od.
     bnd (raise_if (ord_payment_status od \<in> {PS_PAID, PS_CASH_RECEIVED}) (already_paid od)) (\<lambda>_.
     let currency = str_lower (online_payment_currency env) in
     bnd (raise_if (currency \<noteq> ''irr'') (Exn PaymentConfigurationError
            (Text ''Online payments must use IRR currency.''))) (\<lambda>_.
     bnd (get_provider env) (\<lambda>prov.
     bnd (if provider_name prov = PV_ZARINPAL then get_reusable_zarinpal_payment k else ret None)
       (\<lambda>existing.
     case existing of
       Some p \<Rightarrow>
         bnd (raise_if (pay_amount p \<noteq> ord_total od) (Exn PaymentAmountMismatchError (Text
                ''Pending Zarinpal payment amount does not match the current order total.''))) (\<lambda>_.
         bnd (raise_if (str_lower (pay_currency p) \<noteq> currency) (Exn PaymentConfigurationError
                (Text ''Pending Zarinpal payment currency is invalid.''))) (\<lambda>_.
         ret p))
     | None \<Rightarrow> open_checkout env prov od currency))))))"

section \<open>Payments under the contract of the order operations\<close>

lemma keeps_get_payment: "keeps J (get_payment p)"
  unfolding get_payment_def by (intro keeps_intros)

lemma keeps_get_reusable: "keeps J (get_reusable_zarinpal_payment k)"
  unfolding get_reusable_zarinpal_payment_def by (intro keeps_intros)

context order_ops
begin

lemma keeps_fresh_pk: "keeps I fresh_pk"
  by (rule keepsI) (simp add: run_fresh_pk law_next_pk)

lemma keeps_create_payment: "keeps I (create_payment env od prov currency metadata)"
  unfolding create_payment_def Let_def
  by (intro keeps_intros keeps_fresh_pk keeps_modifies) (simp add: law_payments)

lemmas keeps_pay = keeps_atomic_parts keeps_parts keeps_get_payment keeps_create_payment
  keeps_finalize_online_payment keeps_mark_payment_failed keeps_finalize_counter_payment
  keeps_record_cash_received

lemma keeps_mark_paid: "keeps I (mark_paid k p)"
  unfolding mark_paid_def by (intro keeps_pay)

lemma keeps_mark_failed: "keeps I (mark_failed k p m)"
  unfolding mark_failed_def by (intro keeps_pay)

lemma keeps_mark_cancelled: "keeps I (mark_cancelled k p m)"
  unfolding mark_cancelled_def by (intro keeps_pay)

lemma keeps_initiate_cod: "keeps I (initiate_cod env od)"
  unfolding initiate_cod_def by (intro keeps_pay)

lemma keeps_initiate_counter_payment: "keeps I (initiate_counter_payment env od m)"
  unfolding initiate_counter_payment_def counter_provider_def
  by (intro keeps_pay) (auto split: payment_method.split intro: keeps_pay)

lemma keeps_mark_counter_payment_received: "keeps I (mark_counter_payment_received k p prov actor)"
  unfolding mark_counter_payment_received_def by (intro keeps_pay)

lemma keeps_mark_counter_received:
  "keeps I (mark_counter_cash_received k p actor)" "keeps I (mark_counter_card_received k p actor)"
  unfolding mark_counter_cash_received_def mark_counter_card_received_def
  by (intro keeps_pay keeps_mark_counter_payment_received)+

lemma keeps_ensure_cod_cash_finalized: "keeps I (ensure_cod_cash_finalized k p actor)"
  unfolding ensure_cod_cash_finalized_def by (intro keeps_pay)

lemma keeps_mark_cod_cash_received: "keeps I (mark_cod_cash_received k p actor)"
  unfolding mark_cod_cash_received_def by (intro keeps_pay keeps_ensure_cod_cash_finalized)

lemma keeps_initiate_online:
  assumes "keeps I (get_provider env)"
    and "\<And>s prov t od p. get_provider env s = (Inr prov, t) \<Longrightarrow> keeps I (create_checkout_session prov od p)"
  shows "keeps I (initiate_online env get_provider k)"
  unfolding initiate_online_def open_checkout_def Let_def
  by (intro keeps_atomic_parts keeps_bnd [OF keeps_get_order] keeps_bnd [OF keeps_raise_if]
      keeps_bnd_returned [OF assms(1)] keeps_pay keeps_get_reusable assms(2))

end

end
