(* ===== verification/Providers.thy ===== *)
theory Providers
  imports Payments
begin

text \<open>
  \<open>apps/payments/providers/zarinpal.py\<close> and \<open>stripe.py\<close>: the two gateways' protocols around the
  HTTP calls, which are answers of the environment; \<open>process_webhook\<close> and its entry points; and the
  HTTP views of \<open>apps/payments/views.py\<close>.
\<close>

section \<open>Reading JSON objects\<close>

fun truthy :: "json \<Rightarrow> bool" where
  "truthy JNull = False"
| "truthy (JBool b) = b"
| "truthy (JInt n) = (n \<noteq> 0)"
| "truthy (JStr s) = (s \<noteq> [])"
| "truthy (JList xs) = (xs \<noteq> [])"
| "truthy (JObj d) = (d \<noteq> [])"

text \<open>\<open>d.get(k)\<close>, and \<open>d.get(k) or d.get(l)\<close>\<close>

definition dget :: "dict \<Rightarrow> string \<Rightarrow> json" where
  "dget d k = (case map_of d k of None \<Rightarrow> JNull | Some v \<Rightarrow> v)"

definition dget_or :: "dict \<Rightarrow> string \<Rightarrow> string \<Rightarrow> json" where
  "dget_or d k l = (if truthy (dget d k) then dget d k else dget d l)"

text \<open>\<open>d.get(k, {})\<close>, whose result must be a dict for the \<open>.get\<close> that follows\<close>

definition dget_dict :: "dict \<Rightarrow> string \<Rightarrow> dict P" where
  "dget_dict d k = (case map_of d k of
     None \<Rightarrow> ret []
   | Some (JObj e) \<Rightarrow> ret e
   | Some _ \<Rightarrow> raise (Exn AttributeError (Text ''get'')))"

text \<open>The primary key that a JSON value is taken for by a query.\<close>

definition json_pk :: "json \<Rightarrow> nat option P" where
  "json_pk v = (case v of
     JInt n \<Rightarrow> ret (if 0 \<le> n then Some (nat n) else None)
   | JBool b \<Rightarrow> ret (Some (if b then 1 else 0))
   | JStr s \<Rightarrow> (case parse_nat s of Some n \<Rightarrow> ret (Some n) | None \<Rightarrow> raise (Exn ValueError (Text ''pk'')))
   | _ \<Rightarrow> raise (Exn TypeError (Text ''pk'')))"

fun json_str :: "json \<Rightarrow> string option" where
  "json_str (JStr s) = Some s"
| "json_str _ = None"

text \<open>\<open>Payment.objects.get(...)\<close> with conditions\<close>

definition get_payment_where :: "(world \<Rightarrow> payment \<Rightarrow> bool) \<Rightarrow> payment P" where
  "get_payment_where Q = bnd (gets (\<lambda>w. filter (Q w) (payments w))) (get_one ''Payment'')"

section \<open>Zarinpal\<close>

definition ZARINPAL_MIN_AMOUNT_IRR :: int where
  "ZARINPAL_MIN_AMOUNT_IRR = 1000"

definition ZARINPAL_SUCCESS_CODE :: int where
  "ZARINPAL_SUCCESS_CODE = 100"

definition provider_error :: "message \<Rightarrow> exn" where
  "provider_error m = Exn PaymentProviderError m"

definition validate_order_payment_amount :: "order \<Rightarrow> payment \<Rightarrow> int P" where
  "validate_order_payment_amount od p =
     bnd (raise_if (str_lower (pay_currency p) \<noteq> ''irr'')
            (provider_error (Text ''Zarinpal payments must use IRR currency.''))) (\<lambda>_.
     let order_total = int_of_money (ord_total od); payment_amount = int_of_money (pay_amount p) in
     bnd (raise_if (payment_amount \<noteq> order_total) (Exn PaymentAmountMismatchError
            (Fmt ''Payment amount {} does not match order total {}.''
              [AInt payment_amount, AInt order_total]))) (\<lambda>_.
     bnd (raise_if (order_total < ZARINPAL_MIN_AMOUNT_IRR) (provider_error
            (Fmt ''Zarinpal minimum payment amount is {} IRR.'' [AInt ZARINPAL_MIN_AMOUNT_IRR]))) (\<lambda>_.
     ret order_total)))"

definition api_base :: "env \<Rightarrow> string" where
  "api_base env = (if zarinpal_sandbox env then ''https://sandbox.zarinpal.com''
     else ''https://api.zarinpal.com'')"

definition callback_url :: "env \<Rightarrow> string" where
  "callback_url env =
     (if zarinpal_callback_url env \<noteq> [] then zarinpal_callback_url env else payment_success_url env)"

text \<open>\<open>errors[0]\<close> where the gateway sent an object is a \<open>KeyError\<close>.\<close>

definition first_of_object :: exn where
  "first_of_object = Exn KeyError (Text ''0'')"

text \<open>The checks that both calls make on a decoded body: \<open>errors\<close> first, then \<open>code\<close>.\<close>

definition check_errors :: "string option list \<Rightarrow> string \<Rightarrow> unit P" where
  "check_errors errors fallback = (case errors of
     [] \<Rightarrow> ret ()
   | m # _ \<Rightarrow> raise (provider_error (Text (case m of Some t \<Rightarrow> t | None \<Rightarrow> fallback))))"

definition code_arg :: "int option \<Rightarrow> arg" where
  "code_arg c = (case c of Some n \<Rightarrow> AInt n | None \<Rightarrow> AStr ''None'')"

definition zarinpal_request_payment :: "env \<Rightarrow> order \<Rightarrow> payment \<Rightarrow> int \<Rightarrow> checkout_session P" where
  "zarinpal_request_payment env od p amount =
     bnd (raise_if (callback_url env = []) (Exn PaymentConfigurationError
            (Text ''ZARINPAL_CALLBACK_URL is not configured.''))) (\<lambda>_.
     case zarinpal_request env (pay_id p) amount of
       Http_Transport e \<Rightarrow> raise (provider_error (Fmt ''Zarinpal request failed: {}'' [AStr e]))
     | Http_Error st body \<Rightarrow>
         raise (provider_error (Fmt ''Zarinpal request failed with HTTP {}: {}'' [AInt st, AStr body]))
     | Http_Invalid_Json body \<Rightarrow>
         raise (provider_error (Fmt ''Zarinpal request returned invalid JSON: {}'' [AStr body]))
     | Http_Errors_Object \<Rightarrow> raise first_of_object
     | Http_Json errors code authority ref_id \<Rightarrow>
         bnd (check_errors errors ''Zarinpal payment request rejected.'') (\<lambda>_.
         bnd (raise_if (code \<noteq> Some ZARINPAL_SUCCESS_CODE)
                (provider_error (Fmt ''Zarinpal returned code {}.'' [code_arg code]))) (\<lambda>_.
         bnd (get_or_raise (Exn KeyError (Text ''authority'')) authority) (\<lambda>a.
         ret \<lparr>cs_session_id = a, cs_url = api_base env @ ''/pg/StartPay/'' @ a,
              cs_intent_id = Some a\<rparr>))))"

definition zarinpal_create_checkout_session :: "env \<Rightarrow> order \<Rightarrow> payment \<Rightarrow> checkout_session P" where
  "zarinpal_create_checkout_session env od p =
     bnd (validate_order_payment_amount od p) (zarinpal_request_payment env od p)"

text \<open>The name of a falsy status in \<open>str(data.get("status"))\<close> does not matter: it is not \<open>OK\<close>.\<close>

definition zarinpal_verify_webhook :: "payload \<Rightarrow> string \<Rightarrow> webhook_event P" where
  "zarinpal_verify_webhook body signature = (case body of
     No_Payload \<Rightarrow> raise (Exn WebhookVerificationError (Text ''Missing Zarinpal callback payload.''))
   | Bad_Payload \<Rightarrow> raise (Exn WebhookVerificationError (Text ''Invalid Zarinpal callback payload.''))
   | Json_Payload data \<Rightarrow>
       (case json_str (dget_or data ''authority'' ''Authority'') of
          Some (c # cs) \<Rightarrow>
            ret \<lparr>we_id = ''zarinpal:authority:'' @ (c # cs), we_type = ''payment.callback'',
                 we_data = [(''authority'', JStr (c # cs)),
                            (''status'', dget_or data ''status'' ''Status''),
                            (''payment_id'', dget data ''payment_id'')]\<rparr>
        | _ \<Rightarrow> raise (Exn WebhookVerificationError (Text ''Missing Zarinpal authority in callback.''))))"

definition zarinpal_verify_payment :: "env \<Rightarrow> order \<Rightarrow> payment \<Rightarrow> string \<Rightarrow> int P" where
  "zarinpal_verify_payment env od p authority =
     bnd (validate_order_payment_amount od p) (\<lambda>amount.
     case zarinpal_verify env authority amount of
       Http_Transport e \<Rightarrow> raise (provider_error (Fmt ''Zarinpal verify failed: {}'' [AStr e]))
     | Http_Error st body \<Rightarrow> raise (provider_error (Fmt ''Zarinpal verify failed: HTTP {}'' [AInt st]))
     | Http_Invalid_Json body \<Rightarrow> raise (provider_error (Text ''Zarinpal verify failed: invalid JSON''))
     | Http_Errors_Object \<Rightarrow> raise first_of_object
     | Http_Json errors code authority ref_id \<Rightarrow>
         bnd (check_errors errors ''Zarinpal verification rejected.'') (\<lambda>_.
         bnd (raise_if (code \<noteq> Some ZARINPAL_SUCCESS_CODE)
                (provider_error (Fmt ''Zarinpal verify returned code {}.'' [code_arg code]))) (\<lambda>_.
         let r = (case ref_id of Some n \<Rightarrow> n | None \<Rightarrow> 0) in
         bnd (raise_if (r \<le> 0) (provider_error
                (Text ''Zarinpal verify response missing ref_id.''))) (\<lambda>_.
         ret r))))"

definition zarinpal_resolve_payment :: "dict \<Rightarrow> string \<Rightarrow> payment P" where
  "zarinpal_resolve_payment data authority =
     (if truthy (dget data ''payment_id'') then
        bnd (json_pk (dget data ''payment_id'')) (\<lambda>pk.
        get_payment_where (\<lambda>w p. Some (pay_id p) = pk \<and> pay_provider p = PV_ZARINPAL))
      else get_payment_where (\<lambda>w p. pay_provider p = PV_ZARINPAL \<and> pay_session_id p = authority))"

definition status_is_ok :: "json \<Rightarrow> bool" where
  "status_is_ok v = (case json_str v of Some s \<Rightarrow> str_upper s = ''OK'' | None \<Rightarrow> False)"

text \<open>The verification or the message of the provider error that it raised.\<close>

definition verify_or_message :: "env \<Rightarrow> order \<Rightarrow> payment \<Rightarrow> string \<Rightarrow> (message + int) P" where
  "verify_or_message env od p authority =
     try_except (bnd (zarinpal_verify_payment env od p authority) (\<lambda>r. ret (Inr r)))
       (\<lambda>e. if class_of e = PaymentProviderError then ret (Inl (StrOf e)) else raise e)"

text \<open>What the handler does with the locked payment and its order.\<close>

definition zarinpal_record_verified :: "order \<Rightarrow> payment \<Rightarrow> string \<Rightarrow> int \<Rightarrow> unit P" where
  "zarinpal_record_verified od p authority ref_id =
     (let metadata = dict_set ''zarinpal_ref_id'' (JInt ref_id)
            (dict_set ''zarinpal_authority'' (JStr authority) (pay_metadata p)) in
      bnd (save_payment p (\<lambda>x. x\<lparr>pay_session_id := authority,
             pay_provider_payment_id := digits (nat ref_id), pay_metadata := metadata\<rparr>)) (\<lambda>_.
      mark_paid (ord_id od) (pay_id p)))"

definition zarinpal_apply :: "env \<Rightarrow> dict \<Rightarrow> string \<Rightarrow> payment \<Rightarrow> order \<Rightarrow> unit P" where
  "zarinpal_apply env data authority p od =
     (if pay_status p = P_SUCCEEDED then ret ()
      else if ord_payment_status od \<in> {PS_PAID, PS_CASH_RECEIVED} then
        whenever (pay_status p \<noteq> P_SUCCEEDED) (save_payment p (settle_row P_SUCCEEDED (Text [])))
      else if \<not> status_is_ok (dget data ''status'') then
        mark_failed (ord_id od) (pay_id p) (Text ''Zarinpal payment was not completed.'')
      else
        bnd (verify_or_message env od p authority) (\<lambda>answer.
        case answer of
          Inl m \<Rightarrow> mark_failed (ord_id od) (pay_id p) m
        | Inr ref_id \<Rightarrow> zarinpal_record_verified od p authority ref_id))"

definition zarinpal_handle_webhook_event :: "env \<Rightarrow> webhook_event \<Rightarrow> unit P" where
  "zarinpal_handle_webhook_event env event =
     (let data = we_data event in
      bnd (get_or_raise (Exn KeyError (Text ''authority'')) (json_str (dget data ''authority''))) (\<lambda>authority.
      bnd (zarinpal_resolve_payment data authority) (\<lambda>found.
      atomic (
        bnd (get_payment (pay_id found)) (\<lambda>p.
        bnd (get_order (pay_order p)) (\<lambda>od.
        zarinpal_apply env data authority p od))))))"

definition zarinpal_methods :: "env \<Rightarrow> payment_provider" where
  "zarinpal_methods env = \<lparr>provider_name = PV_ZARINPAL,
     create_checkout_session = zarinpal_create_checkout_session env,
     verify_webhook = zarinpal_verify_webhook,
     handle_webhook_event = zarinpal_handle_webhook_event env\<rparr>"

definition zarinpal_provider :: "env \<Rightarrow> payment_provider P" where
  "zarinpal_provider env =
     bnd (raise_if (zarinpal_merchant_id env = []) (Exn PaymentConfigurationError
            (Text ''ZARINPAL_MERCHANT_ID is not configured.''))) (\<lambda>_.
     ret (zarinpal_methods env))"

section \<open>Stripe\<close>

definition stripe_disabled :: exn where
  "stripe_disabled = Exn PaymentConfigurationError
     (Text ''Stripe checkout is disabled. Set STRIPE_ENABLED=True to enable Stripe.'')"

definition stripe_create_checkout_session :: "env \<Rightarrow> order \<Rightarrow> payment \<Rightarrow> checkout_session P" where
  "stripe_create_checkout_session env od p =
     bnd (raise_if (\<not> stripe_enabled env) stripe_disabled) (\<lambda>_.
     case stripe_create env (pay_id p) of
       Stripe_Error e \<Rightarrow> raise (provider_error (Text e))
     | Stripe_Session i url intent \<Rightarrow>
         ret \<lparr>cs_session_id = i, cs_url = url, cs_intent_id = intent\<rparr>)"

definition stripe_verify_webhook :: "env \<Rightarrow> payload \<Rightarrow> string \<Rightarrow> webhook_event P" where
  "stripe_verify_webhook env body signature =
     bnd (raise_if (stripe_webhook_secret env = []) (Exn PaymentConfigurationError
            (Text ''STRIPE_WEBHOOK_SECRET is not configured.''))) (\<lambda>_.
     bnd (raise_if (signature = []) (Exn WebhookVerificationError
            (Text ''Missing Stripe-Signature header.''))) (\<lambda>_.
     case stripe_construct env body signature of
       Stripe_Bad_Signature \<Rightarrow>
         raise (Exn WebhookVerificationError (Text ''Invalid Stripe webhook signature.''))
     | Stripe_Bad_Payload \<Rightarrow>
         raise (Exn WebhookVerificationError (Text ''Invalid Stripe webhook payload.''))
     | Stripe_Event i t d \<Rightarrow> ret \<lparr>we_id = i, we_type = t, we_data = d\<rparr>))"

text \<open>\<open>.latest("created_at")\<close> is the newest row or an error.\<close>

definition latest_payment_where :: "(world \<Rightarrow> payment \<Rightarrow> bool) \<Rightarrow> payment P" where
  "latest_payment_where Q = bnd (gets (\<lambda>w. latest (Q w) (payments w)))
     (get_or_raise (Exn DoesNotExist (Text ''Payment'')))"

definition order_number_of :: "world \<Rightarrow> payment \<Rightarrow> string option" where
  "order_number_of w p = map_option ord_number (order_row w (pay_order p))"

definition stripe_payment_from_event :: "dict \<Rightarrow> payment P" where
  "stripe_payment_from_event data =
     bnd (dget_dict data ''metadata'') (\<lambda>md.
     if truthy (dget md ''payment_id'') then
       bnd (json_pk (dget md ''payment_id'')) (\<lambda>pk.
       get_payment_where (\<lambda>w p. Some (pay_id p) = pk))
     else
       let session_id = (if dget data ''object'' = JStr ''checkout.session''
                         then dget data ''id'' else dget data ''checkout_session'') in
       if truthy session_id then
         get_payment_where (\<lambda>w p. Some (pay_session_id p) = json_str session_id)
       else
         let number = (if truthy (dget md ''order_number'') then dget md ''order_number''
                       else dget data ''client_reference_id'') in
         if truthy number then
           latest_payment_where (\<lambda>w p. order_number_of w p = json_str number \<and> pay_provider p = PV_STRIPE)
         else raise (provider_error (Text ''Unable to resolve payment from Stripe webhook event.'')))"

definition str_or :: "json \<Rightarrow> string \<Rightarrow> string" where
  "str_or v fallback = (case json_str v of Some (c # cs) \<Rightarrow> c # cs | _ \<Rightarrow> fallback)"

definition stripe_intent_id :: "dict \<Rightarrow> json" where
  "stripe_intent_id data = (case dget data ''payment_intent'' of
     JObj d \<Rightarrow> dget d ''id'' | v \<Rightarrow> v)"

definition stripe_id :: "dict \<Rightarrow> string \<Rightarrow> string" where
  "stripe_id data fallback = (case map_of data ''id'' of
     Some (JStr s) \<Rightarrow> s | _ \<Rightarrow> fallback)"

definition stripe_checkout_completed :: "dict \<Rightarrow> unit P" where
  "stripe_checkout_completed data =
     bnd (stripe_payment_from_event data) (\<lambda>found.
     atomic (
       bnd (get_payment (pay_id found)) (\<lambda>p.
       bnd (get_order (pay_order p)) (\<lambda>od.
       if pay_status p = P_SUCCEEDED then ret ()
       else if ord_payment_status od \<in> {PS_PAID, PS_CASH_RECEIVED} then
         save_payment p (settle_row P_SUCCEEDED (Text []))
       else
         bnd (save_payment p (\<lambda>x. x\<lparr>pay_session_id := stripe_id data (pay_session_id p),
                pay_provider_payment_id :=
                  str_or (stripe_intent_id data) (pay_provider_payment_id p)\<rparr>)) (\<lambda>_.
         mark_paid (ord_id od) (pay_id p))))))"

definition stripe_checkout_expired :: "dict \<Rightarrow> unit P" where
  "stripe_checkout_expired data =
     bnd (stripe_payment_from_event data) (\<lambda>found.
     atomic (
       bnd (get_payment (pay_id found)) (\<lambda>p.
       if pay_status p = P_SUCCEEDED then ret ()
       else mark_cancelled (pay_order p) (pay_id p) (Text ''Checkout session expired.''))))"

definition stripe_payment_failed :: "dict \<Rightarrow> unit P" where
  "stripe_payment_failed data =
     bnd (stripe_payment_from_event data) (\<lambda>found.
     atomic (
       bnd (get_payment (pay_id found)) (\<lambda>p.
       bnd (get_order (pay_order p)) (\<lambda>od.
       if pay_status p = P_SUCCEEDED then ret ()
       else if ord_payment_status od \<in> {PS_PAID, PS_CASH_RECEIVED} then ret ()
       else
         bnd (dget_dict data ''last_payment_error'') (\<lambda>err.
         let m = (case map_of err ''message'' of Some (JStr s) \<Rightarrow> s | _ \<Rightarrow> ''Payment failed.'') in
         bnd (save_payment p (\<lambda>x. x\<lparr>pay_provider_payment_id :=
                stripe_id data (pay_provider_payment_id p)\<rparr>)) (\<lambda>_.
         mark_failed (ord_id od) (pay_id p) (Text m)))))))"

definition stripe_charge_refunded :: "dict \<Rightarrow> unit P" where
  "stripe_charge_refunded data =
     bnd (get_payment_where (\<lambda>w p. Some (pay_provider_payment_id p) = json_str (dget data ''payment_intent'')))
       (\<lambda>p.
     bnd (process_refund (pay_order p) (Text ''Stripe refund'') ''stripe_webhook'') (\<lambda>_. ret ()))"

definition stripe_handle_webhook_event :: "webhook_event \<Rightarrow> unit P" where
  "stripe_handle_webhook_event event =
     (if we_type event = ''checkout.session.completed'' then stripe_checkout_completed (we_data event)
      else if we_type event = ''checkout.session.expired'' then stripe_checkout_expired (we_data event)
      else if we_type event = ''payment_intent.payment_failed'' then stripe_payment_failed (we_data event)
      else if we_type event = ''charge.refunded'' then stripe_charge_refunded (we_data event)
      else ret ())"

definition stripe_methods :: "env \<Rightarrow> payment_provider" where
  "stripe_methods env = \<lparr>provider_name = PV_STRIPE,
     create_checkout_session = stripe_create_checkout_session env,
     verify_webhook = stripe_verify_webhook env,
     handle_webhook_event = stripe_handle_webhook_event\<rparr>"

definition stripe_provider :: "env \<Rightarrow> payment_provider P" where
  "stripe_provider env =
     bnd (raise_if (\<not> stripe_enabled env) stripe_disabled) (\<lambda>_.
     bnd (raise_if (stripe_secret_key env = []) (Exn PaymentConfigurationError
            (Text ''STRIPE_SECRET_KEY is not configured.''))) (\<lambda>_.
     ret (stripe_methods env)))"

fun provider_value :: "provider \<Rightarrow> string" where
  "provider_value PV_ZARINPAL = ''zarinpal''"
| "provider_value PV_STRIPE = ''stripe''"
| "provider_value PV_COD = ''cod''"
| "provider_value PV_CASH = ''cash''"
| "provider_value PV_COUNTER_CARD = ''counter_card''"

definition get_online_payment_provider :: "env \<Rightarrow> payment_provider P" where
  "get_online_payment_provider env = (case default_payment_provider env of
     PV_ZARINPAL \<Rightarrow> zarinpal_provider env
   | PV_STRIPE \<Rightarrow>
       bnd (raise_if (\<not> stripe_enabled env) stripe_disabled) (\<lambda>_. stripe_provider env)
   | other \<Rightarrow> raise (Exn PaymentConfigurationError
       (Fmt ''Unsupported online payment provider: {}'' [AStr (provider_value other)])))"

definition initiate_payment :: "env \<Rightarrow> order \<Rightarrow> payment P" where
  "initiate_payment env od =
     (if ord_payment_method od = PM_COD then initiate_cod env od
      else initiate_online env get_online_payment_provider (ord_id od))"

section \<open>Webhooks\<close>

definition event_row :: "world \<Rightarrow> string \<Rightarrow> payment_event option" where
  "event_row w i = find (\<lambda>e. ev_event_id e = i) (payment_events w)"

definition save_event :: "payment_event \<Rightarrow> (payment_event \<Rightarrow> payment_event) \<Rightarrow> unit P" where
  "save_event e copy = modifies (\<lambda>w. w\<lparr>payment_events :=
     upd_rows (\<lambda>x. ev_id x = ev_id e) copy (payment_events w)\<rparr>)"

definition get_or_create_event :: "payment_provider \<Rightarrow> webhook_event \<Rightarrow> payment_event P" where
  "get_or_create_event prov event =
     bnd (gets (\<lambda>w. event_row w (we_id event))) (\<lambda>row.
     case row of
       Some e \<Rightarrow> ret e
     | None \<Rightarrow>
         bnd fresh_pk (\<lambda>k.
         let e = \<lparr>ev_id = k, ev_provider = provider_name prov, ev_event_id = we_id event,
                  ev_event_type = we_type event,
                  ev_payload = [(''id'', JStr (we_id event)), (''type'', JStr (we_type event)),
                                (''object'', JObj (we_data event))],
                  ev_processed = False, ev_error = Text [], ev_processed_at = None\<rparr> in
         bnd (modifies (\<lambda>w. w\<lparr>payment_events := payment_events w @ [e]\<rparr>)) (\<lambda>_. ret e)))"

definition mark_processed :: "timestamp \<Rightarrow> payment_event \<Rightarrow> payment_event" where
  "mark_processed t e = e\<lparr>ev_processed := True, ev_processed_at := Some t, ev_error := Text []\<rparr>"

text \<open>
  Whatever the handler raises is noted on the event row and goes on as a
  \<open>WebhookProcessingError\<close>, out of the transaction block that the note was written in.
\<close>

definition process_webhook ::
  "env \<Rightarrow> payment_provider \<Rightarrow> payload \<Rightarrow> string \<Rightarrow> payment_event P" where
  "process_webhook env prov body signature = atomic (
     bnd (verify_webhook prov body signature) (\<lambda>event.
     bnd (get_or_create_event prov event) (\<lambda>e.
     if ev_processed e then ret e
     else
       bnd (try_except (handle_webhook_event prov event) (\<lambda>exc.
              bnd (save_event e (\<lambda>x. x\<lparr>ev_error := StrOf exc\<rparr>)) (\<lambda>_.
              raise (Exn WebhookProcessingError (StrOf exc))))) (\<lambda>_.
       bnd (save_event e (mark_processed (now env))) (\<lambda>_.
       ret (mark_processed (now env) e))))))"

definition handle_stripe_webhook :: "env \<Rightarrow> payload \<Rightarrow> string \<Rightarrow> payment_event P" where
  "handle_stripe_webhook env body signature =
     bnd (raise_if (\<not> stripe_enabled env) (Exn PaymentConfigurationError
            (Text ''Stripe webhooks are disabled. Set STRIPE_ENABLED=True to enable Stripe.''))) (\<lambda>_.
     bnd (stripe_provider env) (\<lambda>prov.
     process_webhook env prov body signature))"

definition handle_zarinpal_callback :: "env \<Rightarrow> payload \<Rightarrow> payment_event P" where
  "handle_zarinpal_callback env body =
     bnd (zarinpal_provider env) (\<lambda>prov. process_webhook env prov body [])"

section \<open>Views\<close>

text \<open>A response is its status code and, for JSON, what it says.\<close>

datatype response =
    Http_Response int
  | Json_Error int message
  | Json_Processed bool string
  | Json_Checkout string nat string payment_state

definition stripe_webhook_view :: "env \<Rightarrow> payload \<Rightarrow> string \<Rightarrow> response P" where
  "stripe_webhook_view env body signature =
     try_except (bnd (handle_stripe_webhook env body signature) (\<lambda>_. ret (Http_Response 200)))
       (\<lambda>e. case class_of e of
          WebhookVerificationError \<Rightarrow> ret (Http_Response 400)
        | PaymentConfigurationError \<Rightarrow> ret (Http_Response 503)
        | WebhookProcessingError \<Rightarrow> ret (Http_Response 500)
        | _ \<Rightarrow> raise e)"

definition zarinpal_callback_view :: "env \<Rightarrow> string \<Rightarrow> string \<Rightarrow> response P" where
  "zarinpal_callback_view env authority status =
     (if authority = [] then ret (Json_Error 400 (Text ''Missing Zarinpal authority.''))
      else
        bnd (gets (\<lambda>w. latest (\<lambda>p. pay_provider p = PV_ZARINPAL \<and> pay_session_id p = authority)
               (payments w))) (\<lambda>row.
        let body = Json_Payload [(''authority'', JStr authority), (''status'', JStr status),
              (''payment_id'', case row of Some p \<Rightarrow> JInt (int (pay_id p)) | None \<Rightarrow> JNull)] in
        try_except
          (bnd (handle_zarinpal_callback env body) (\<lambda>e.
             ret (Json_Processed (ev_processed e) (ev_event_id e))))
          (\<lambda>e. case class_of e of
             WebhookVerificationError \<Rightarrow> ret (Json_Error 400 (StrOf e))
           | PaymentConfigurationError \<Rightarrow> ret (Json_Error 503 (StrOf e))
           | WebhookProcessingError \<Rightarrow> ret (Json_Error 500 (StrOf e))
           | _ \<Rightarrow> raise e)))"

text \<open>The \<open>except\<close> clauses are tried in their order; \<open>PaymentError\<close> comes before its subclass.\<close>

definition create_checkout_session_view :: "env \<Rightarrow> string \<Rightarrow> response P" where
  "create_checkout_session_view env number =
     try_except
       (bnd (gets (\<lambda>w. find (\<lambda>od. ord_number od = number) (orders w))) (\<lambda>row.
        bnd (get_or_raise (Exn DoesNotExist (Text ''Order'')) row) (\<lambda>od.
        bnd (initiate_payment env od) (\<lambda>p.
        ret (Json_Checkout (ord_number od) (pay_id p) (pay_checkout_url p) (pay_status p))))))
       (\<lambda>e. if e = Exn DoesNotExist (Text ''Order'') then ret (Json_Error 404 (Text ''Order not found.''))
           else if is_payment_error (class_of e) then ret (Json_Error 400 (StrOf e))
           else if class_of e = PaymentConfigurationError then ret (Json_Error 503 (StrOf e))
           else raise e)"

section \<open>The handlers under the contract of the order operations\<close>

lemma keeps_get_one: "keeps J (get_one what rows)"
  unfolding get_one_def by (auto split: list.split intro: keeps_intros)

lemma keeps_get_payment_where: "keeps J (get_payment_where Q)"
  unfolding get_payment_where_def by (intro keeps_intros keeps_get_one)

lemma keeps_json_pk: "keeps J (json_pk v)"
  unfolding json_pk_def by (auto split: json.split option.split intro: keeps_intros)

lemma keeps_dget_dict: "keeps J (dget_dict d k)"
  unfolding dget_dict_def by (auto split: json.split option.split intro: keeps_intros)

lemma keeps_validate_amount: "keeps J (validate_order_payment_amount od p)"
  unfolding validate_order_payment_amount_def by (intro keeps_intros)

lemma keeps_check_errors: "keeps J (check_errors es m)"
  unfolding check_errors_def by (auto split: list.split intro: keeps_intros)

lemma keeps_http:
  assumes "\<And>e. keeps J (a e)" and "\<And>s b. keeps J (f s b)" and "\<And>b. keeps J (c b)"
    and "\<And>es k x r. keeps J (d es k x r)" and "keeps J o'"
  shows "keeps J (case h of Http_Transport e \<Rightarrow> a e | Http_Error s b \<Rightarrow> f s b
    | Http_Invalid_Json b \<Rightarrow> c b | Http_Errors_Object \<Rightarrow> o' | Http_Json es k x r \<Rightarrow> d es k x r)"
  using assms by (cases h) auto

lemma keeps_zarinpal_create: "keeps J (zarinpal_create_checkout_session env od p)"
  unfolding zarinpal_create_checkout_session_def zarinpal_request_payment_def
  by (intro keeps_intros keeps_validate_amount keeps_http keeps_check_errors)

lemma keeps_verify_or_message: "keeps J (verify_or_message env od p a)"
  unfolding verify_or_message_def zarinpal_verify_payment_def
  by (intro keeps_intros keeps_validate_amount keeps_http keeps_check_errors)

lemma keeps_stripe_create: "keeps J (stripe_create_checkout_session env od p)"
  unfolding stripe_create_checkout_session_def
  by (cases "stripe_create env (pay_id p)") (auto intro!: keeps_intros)

lemma keeps_zarinpal_resolve: "keeps J (zarinpal_resolve_payment data a)"
  unfolding zarinpal_resolve_payment_def
  by (intro keeps_intros keeps_json_pk keeps_get_payment_where)

lemma keeps_stripe_payment_from_event: "keeps J (stripe_payment_from_event data)"
  unfolding stripe_payment_from_event_def latest_payment_where_def Let_def
  by (intro keeps_intros keeps_dget_dict keeps_json_pk keeps_get_payment_where)

lemma keeps_providers:
  "keeps J (zarinpal_provider env)" "keeps J (stripe_provider env)"
  "keeps J (get_online_payment_provider env)"
  unfolding zarinpal_provider_def stripe_provider_def get_online_payment_provider_def
  by (auto split: provider.split intro!: keeps_intros)

lemma get_online_payment_provider_methods:
  "get_online_payment_provider env s = (Inr prov, t) \<Longrightarrow>
   prov = zarinpal_methods env \<or> prov = stripe_methods env"
  by (auto simp: get_online_payment_provider_def zarinpal_provider_def stripe_provider_def returns
      split: provider.splits)

context order_ops
begin

lemma keeps_sum:
  "(\<And>m. keeps I (f m)) \<Longrightarrow> (\<And>r. keeps I (g r)) \<Longrightarrow> keeps I (case x of Inl m \<Rightarrow> f m | Inr r \<Rightarrow> g r)"
  by (cases x) auto

lemma keeps_zarinpal_handle: "keeps I (zarinpal_handle_webhook_event env event)"
  unfolding zarinpal_handle_webhook_event_def zarinpal_apply_def zarinpal_record_verified_def
  by (intro keeps_pay keeps_zarinpal_resolve keeps_verify_or_message keeps_mark_paid keeps_mark_failed
      keeps_sum)

lemma keeps_stripe_handle: "keeps I (stripe_handle_webhook_event event)"
  unfolding stripe_handle_webhook_event_def stripe_checkout_completed_def stripe_checkout_expired_def
    stripe_payment_failed_def stripe_charge_refunded_def
  by (intro keeps_pay keeps_stripe_payment_from_event keeps_dget_dict keeps_mark_paid keeps_mark_failed
      keeps_mark_cancelled keeps_get_payment_where keeps_process_refund)

lemma keeps_initiate_payment: "keeps I (initiate_payment env od)"
  unfolding initiate_payment_def
  by (intro keeps_intros keeps_initiate_cod keeps_initiate_online keeps_providers)
     (auto dest!: get_online_payment_provider_methods simp: zarinpal_methods_def stripe_methods_def
       intro: keeps_zarinpal_create keeps_stripe_create)

end

end
