(* ===== verification/StockProps.thy ===== *)
theory StockProps
  imports StockLedger
begin

text \<open>
  What the stock ledger gives for \<open>apps/inventory/services.py\<close>: no sequence of calls oversells
  a product or overbooks a day; releasing is total, complete and idempotent; a quantity that passed
  the availability check of a cart is never refused for stock; and where a fulfilment date lies.
\<close>

section \<open>Releasing a snapshot of rows\<close>

lemma release_single_run:
  assumes "stock_ok w" and "r \<in> set (reservations w)" and "live r"
  shows "release_single_reservation r w = (Inr (), drop_units r w)"
proof -
  have "0 \<le> cap_fulfilled c" if "capacities w (res_product r, res_date r) = Some c" for c
    using stock_okD(3) [OF assms(1), of "res_product r" "res_date r"] that by simp
  with assms(2,3) show ?thesis
    by (cases "inventories w (res_product r)"; cases "capacities w (res_product r, res_date r)")
       (auto simp: release_single_reservation_def live_def drop_units_def run Let_def
         save_capacity_def save_reservation_def put_defs give_back_capacity_def)
qed

definition mark_released :: "reservation list \<Rightarrow> reservation list \<Rightarrow> reservation list" where
  "mark_released rs = upd_rows (\<lambda>x. res_id x \<in> res_id ` set rs) (set_res_status R_RELEASED)"

lemma upd_rows_upd_rows:
  assumes "\<And>x. k (f x) = k x" and "\<And>x. f (f x) = f x"
  shows "upd_rows (\<lambda>x. k x \<in> B) f (upd_rows (\<lambda>x. k x = a) f xs) =
    upd_rows (\<lambda>x. k x \<in> insert a B) f xs"
  using assms by (auto simp: upd_rows_def)

lemma release_snapshot_run:
  assumes "stock_ok w" and "distinct (map res_id rs)" and "set rs \<subseteq> set (reservations w)"
    and "\<forall>r\<in>set rs. live r"
  shows "\<exists>v. for_each rs release_single_reservation w = (Inr (), v) \<and> stock_ok v \<and>
           reservations v = mark_released rs (reservations w) \<and> next_pk v = next_pk w"
  using assms
proof (induction rs arbitrary: w)
  case Nil
  have "upd_rows (\<lambda>x. False) g xs = xs" for g :: "reservation \<Rightarrow> reservation" and xs
    by (rule upd_rows_none) simp
  with Nil show ?case by (simp add: mark_released_def)
next
  case (Cons r rs)
  let ?u = "drop_units r w"
  have step: "release_single_reservation r w = (Inr (), ?u)"
    using Cons.prems by (intro release_single_run) auto
  have u: "stock_ok ?u \<and> set rs \<subseteq> set (reservations ?u)"
    using ledger.release_step [OF Cons.prems(1) _ step, of rs] Cons.prems(2,3) by simp
  then obtain v where v: "for_each rs release_single_reservation ?u = (Inr (), v)" "stock_ok v"
      "reservations v = mark_released rs (reservations ?u)" "next_pk v = next_pk ?u"
    using Cons.IH [of ?u] Cons.prems by auto
  have "reservations v = mark_released (r # rs) (reservations w)"
    unfolding v(3) drop_units_reservations mark_released_def
    by (subst upd_rows_upd_rows) (auto simp: set_res_status_def)
  with v step show ?case by (simp add: run_bnd drop_units_rows)
qed

lemma held_mark_released:
  assumes "rows_ok w"
  shows "held_product p (mark_released (filter Q (reservations w)) (reservations w)) =
    held_product p (reservations w) -
    sum_where res_quantity (\<lambda>r. res_product r = p \<and> live r \<and> Q r) (reservations w)"
proof -
  have ids: "distinct (map res_id (reservations w))" using assms by (simp add: rows_ok_def)
  have mem: "res_id x \<in> res_id ` set (filter Q (reservations w)) \<longleftrightarrow> Q x"
    if "x \<in> set (reservations w)" for x
    using ids that by (auto simp: distinct_map dest: inj_onD)
  have "mark_released (filter Q (reservations w)) (reservations w) =
      upd_rows Q (set_res_status R_RELEASED) (reservations w)"
    unfolding mark_released_def upd_rows_def using mem by (intro map_cong) auto
  moreover have "held_product p (upd_rows Q (set_res_status R_RELEASED) xs) =
      held_product p xs - sum_where res_quantity (\<lambda>r. res_product r = p \<and> live r \<and> Q r) xs" for xs
    by (induction xs) (auto simp: held_product_def)
  ultimately show ?thesis by simp
qed

lemma release_query_run:
  assumes "stock_ok w" and "\<And>r. Q r \<Longrightarrow> live r"
  shows "\<exists>v. for_each (rev (filter Q (reservations w))) release_single_reservation w = (Inr (), v) \<and>
     stock_ok v \<and> next_pk v = next_pk w \<and>
     reservations v = mark_released (filter Q (reservations w)) (reservations w)"
proof -
  have "distinct (map res_id (rev (filter Q (reservations w))))"
    using stock_okD(1) [OF assms(1)]
    by (simp add: rows_ok_def rev_map [symmetric] distinct_map_filter)
  then show ?thesis
    using release_snapshot_run [OF assms(1), of "rev (filter Q (reservations w))"] assms(2)
    by (auto simp: mark_released_def)
qed

lemma mark_released_none:
  assumes "rows_ok w" and "\<And>r. Q r \<Longrightarrow> live r"
  shows "filter Q (mark_released (filter Q (reservations w)) (reservations w)) = []"
  using assms by (force simp: mark_released_def filter_empty_conv set_upd_rows split: if_splits)

lemma release_reservations_effect:
  assumes "stock_ok w"
  shows "\<exists>v. release_reservations k w = (Inr (), v) \<and> stock_ok v \<and>
    (\<forall>r. r \<in> set (reservations v) \<longrightarrow> res_order r = Some k \<longrightarrow> \<not> live r) \<and>
    release_reservations k v = (Inr (), v)"
proof -
  let ?Q = "\<lambda>r. res_order r = Some k \<and> res_status r \<in> {R_ACTIVE, R_CONFIRMED}"
  obtain v where run: "for_each (rev (filter ?Q (reservations w))) release_single_reservation w = (Inr (), v)"
    and ok: "stock_ok v" and rs: "reservations v = mark_released (filter ?Q (reservations w)) (reservations w)"
    using release_query_run [OF assms, of ?Q] by (auto simp: live_def)
  have none: "filter ?Q (reservations v) = []"
    unfolding rs by (rule mark_released_none [OF stock_okD(1) [OF assms]]) (simp add: live_def)
  then have "\<forall>r. r \<in> set (reservations v) \<longrightarrow> res_order r = Some k \<longrightarrow> \<not> live r"
    by (auto simp: filter_empty_conv live_def)
  moreover have "release_reservations k w = (Inr (), v)"
    using run by (simp add: release_reservations_def query_reservations_def)
  moreover have "release_reservations k v = (Inr (), v)"
    using none by (simp add: release_reservations_def query_reservations_def del: filter_empty_conv)
  ultimately show ?thesis using ok by blast
qed

text \<open>
  C12: \<open>release_reservations(order)\<close> on a state whose ledger balances always returns, leaves no
  live reservation of the order behind, keeps the ledger, and a second call changes nothing.
\<close>

theorem release_reservations_idempotent:
  assumes "stock_ok w"
  shows "\<exists>v. release_reservations k w = (Inr (), v) \<and> stock_ok v \<and>
    (\<forall>r. r \<in> set (reservations v) \<longrightarrow> res_order r = Some k \<longrightarrow> \<not> live r) \<and>
    release_reservations k v = (Inr (), v)"
  by (rule release_reservations_effect [OF assms])

section \<open>The availability check and the reservation it guards\<close>

lemma fails_get_or_create_inventory [fails_intros]: "fails E (get_or_create_inventory p)"
  unfolding get_or_create_inventory_def by (intro fails_intros)

lemma fails_get_or_create_daily_capacity [fails_intros]: "fails E (get_or_create_daily_capacity p d)"
  unfolding get_or_create_daily_capacity_def default_daily_capacity_def by (intro fails_intros)

lemma fails_find_fulfillment_date:
  "fails (\<lambda>e. class_of e = CapacityExceededError) (find_fulfillment_date env pr n start)"
proof -
  have "fails E (scan_days p n i d offsets)" for E p i d offsets
    by (induction offsets) (simp_all only: scan_days.simps, (intro fails_intros | assumption)+)
  then show ?thesis
    unfolding find_fulfillment_date_def by (intro fails_intros) auto
qed

definition reserve_choice where
  "reserve_choice env pr n i first =
     (if inv_track_stock i \<and> n > available_quantity i then
        if inv_allow_preorder i then find_fulfillment_date env pr n (Some first)
        else raise (Exn InsufficientStockError (only_units (available_quantity i) pr))
      else ret first)"

lemma fails_reserve_choice:
  "\<not> (inv_track_stock i \<and> \<not> inv_allow_preorder i \<and> available_quantity i < n) \<Longrightarrow>
   fails (\<lambda>e. class_of e = CapacityExceededError) (reserve_choice env pr n i first)"
  unfolding reserve_choice_def by (intro fails_intros fails_find_fulfillment_date) auto

lemma reserve_item_stock_error:
  assumes run: "reserve_item env od pr n ct h w = (Inl e, v)" and "class_of e = InsufficientStockError"
  shows "\<exists>i w1. get_or_create_inventory (prod_id pr) w = (Inr i, w1) \<and> inv_track_stock i \<and>
     \<not> inv_allow_preorder i \<and> available_quantity i < n"
proof -
  let ?E = "\<lambda>e. class_of e \<in> {CapacityExceededError, IntegrityError}"
  have weak: "fails ?E m" if "fails (\<lambda>e. class_of e = CapacityExceededError) m" for m :: "'x P"
    using that by (auto simp: fails_def)
  have rest: "fails ?E (bnd (get_or_create_daily_capacity (prod_id pr) d) (\<lambda>c.
     bnd (raise_if (available_units c < n)
            (Exn CapacityExceededError (capacity_insufficient pr d))) (\<lambda>_.
     bnd (add_reserved_units (prod_id pr) d n) (\<lambda>_.
     bnd (whenever (inv_track_stock i) (add_reserved_quantity (prod_id pr) n)) (\<lambda>_.
     create_reservation (prod_id pr) od ct n d (now env + minutes h))))))" for d i
    unfolding add_reserved_units_def add_reserved_quantity_def create_reservation_def
    by (intro fails_intros) auto
  have tail: "fails ?E (bnd (find_fulfillment_date env pr n None) (\<lambda>first.
     bnd (reserve_choice env pr n i first) (\<lambda>d. bnd (get_or_create_daily_capacity (prod_id pr) d) (\<lambda>c.
     bnd (raise_if (available_units c < n)
            (Exn CapacityExceededError (capacity_insufficient pr d))) (\<lambda>_.
     bnd (add_reserved_units (prod_id pr) d n) (\<lambda>_.
     bnd (whenever (inv_track_stock i) (add_reserved_quantity (prod_id pr) n)) (\<lambda>_.
     create_reservation (prod_id pr) od ct n d (now env + minutes h))))))))"
    if "\<not> (inv_track_stock i \<and> \<not> inv_allow_preorder i \<and> available_quantity i < n)" for i
    by (intro fails_bnd [OF weak [OF fails_find_fulfillment_date]]
        fails_bnd [OF weak [OF fails_reserve_choice [OF that]]] rest)
  obtain i w1 where i: "get_or_create_inventory (prod_id pr) w = (Inr i, w1)"
    by (cases "inventories w (prod_id pr)") (auto simp: get_or_create_inventory_def)
  have "inv_track_stock i \<and> \<not> inv_allow_preorder i \<and> available_quantity i < n"
  proof (rule ccontr)
    assume neg: "\<not> ?thesis"
    have "?E e"
      using run by (intro failsD [OF tail [OF neg], of w1 e v])
        (simp add: reserve_item_def bnd_Inr [of "get_or_create_inventory (prod_id pr)", OF i] reserve_choice_def)
    with assms(2) show False by auto
  qed
  with i show ?thesis by blast
qed

text \<open>The inventory row of a product, given that one is needed.\<close>

lemma get_or_create_inventory_some:
  "inventories w p = Some i \<Longrightarrow> get_or_create_inventory p w = (Inr i, w)"
  by (simp add: get_or_create_inventory_def)

lemma release_loop_inventory:
  assumes "for_each rs release_single_reservation w = (Inr u, v)" and "inventories w p = Some i"
  shows "\<exists>j. inventories v p = Some j \<and> inv_track_stock j = inv_track_stock i \<and>
    inv_allow_preorder j = inv_allow_preorder i \<and> inv_stock j = inv_stock i"
  using assms
proof (induction rs arbitrary: w i)
  case (Cons r rs)
  then obtain t where t: "release_single_reservation r w = (Inr (), t)"
    and rest: "for_each rs release_single_reservation t = (Inr u, v)"
    by (auto simp: bnd_returns)
  obtain j where j: "inventories t p = Some j" "inv_track_stock j = inv_track_stock i"
      "inv_allow_preorder j = inv_allow_preorder i" "inv_stock j = inv_stock i"
    using release_Inr [OF t] Cons.prems(2)
    by (cases "live r"; cases "p = res_product r"; cases "inv_track_stock i")
       (auto simp: drop_units_rows give_back_stock_def)
  from Cons.IH [OF rest j(1)] j show ?case by auto
qed simp

text \<open>
  A quantity that \<open>check_cart_availability\<close> accepted for a cart, which counts the cart's own
  active reservations as available, is not refused for lack of stock by the
  \<open>reserve_for_cart_item\<close> that follows: after the cart's old reservations are released the stock is there.
\<close>

theorem checked_cart_item_is_in_stock:
  assumes ok: "stock_ok w" and row: "inventories w (prod_id pr) = Some i"
    and check: "check_cart_availability pr n (Some c) w = (Inr (), w)"
    and run: "reserve_for_cart_item env c pr n w = (Inl e, v)"
  shows "class_of e \<noteq> InsufficientStockError"
proof
  assume cls: "class_of e = InsufficientStockError"
  let ?p = "prod_id pr" and ?Q = "active_for_cart c (prod_id pr)"
  let ?rs = "rev (filter ?Q (reservations w))"
  from run obtain u where run': "(if \<not> inv_track_stock i then ret None
       else bnd (query_reservations ?Q) (\<lambda>rs. bnd (for_each rs release_single_reservation) (\<lambda>_.
            bnd (reserve_item env None pr n (Some c) (cart_reservation_minutes env)) (\<lambda>r.
            ret (Some r))))) w = (Inl e, u)"
    unfolding reserve_for_cart_item_def
    by (auto simp: get_or_create_inventory_some [OF row] run_bnd dest!: atomic_Inl)
  then have track: "inv_track_stock i" by (auto split: if_splits)
  obtain t where loop: "for_each ?rs release_single_reservation w = (Inr (), t)" and t: "stock_ok t"
    and rs: "reservations t = mark_released (filter ?Q (reservations w)) (reservations w)"
    using release_query_run [OF ok, of ?Q] by (auto simp: active_for_cart_def live_def)
  have res: "reserve_item env None pr n (Some c) (cart_reservation_minutes env) t = (Inl e, u)"
    using run' track loop
    by (auto simp: query_reservations_def bnd_Inr [of "for_each ?rs release_single_reservation", OF loop] raises split: if_splits)
  obtain j where j: "inventories t ?p = Some j" and kind: "inv_track_stock j = inv_track_stock i"
      "inv_allow_preorder j = inv_allow_preorder i" and same: "inv_stock j = inv_stock i"
    using release_loop_inventory [OF loop row] by blast
  have bad: "\<not> inv_allow_preorder i" "available_quantity j < n"
    using reserve_item_stock_error [OF res cls] get_or_create_inventory_some [OF j] kind by auto
  have own: "sum_where res_quantity (\<lambda>r. res_product r = ?p \<and> live r \<and> ?Q r) (reservations w) =
      sum_where res_quantity ?Q (reservations w)"
    by (intro sum_where_cong) (auto simp: active_for_cart_def live_def)
  have "inv_reserved j = held_product ?p (reservations t)"
    using stock_okD(2) [OF t, of ?p] j kind track by simp
  also have "\<dots> = inv_reserved i - sum_where res_quantity ?Q (reservations w)"
    using held_mark_released [OF stock_okD(1) [OF ok], of ?p ?Q] stock_okD(2) [OF ok, of ?p] row track own
    unfolding rs by simp
  finally have "inv_reserved j = inv_reserved i - sum_where res_quantity ?Q (reservations w)" .
  moreover have "n \<le> available_quantity i + sum_where res_quantity ?Q (reservations w)"
    using check track
    by (auto simp: check_cart_availability_def get_or_create_inventory_some [OF row] returns)
  moreover have "inv_reserved i \<le> inv_stock i"
    using stock_okD(2) [OF ok, of ?p] row track bad by simp
  ultimately show False
    using bad same kind track by (simp add: available_quantity_def)
qed

text \<open>A state with one tracked product and its cart, for the concrete instances.\<close>

definition demo_env :: env where
  "demo_env = \<lparr>now = 1000, today = 10, local_date_of = (\<lambda>t. 10), date_part = ''20250101'',
     order_tokens = [''A1'', ''B2''], cart_reservation_minutes = 15,
     default_payment_provider = PV_ZARINPAL, online_payment_currency = ''irr'',
     stripe_enabled = True, stripe_secret_key = ''sk'', stripe_webhook_secret = ''wh'',
     zarinpal_merchant_id = ''m'', zarinpal_sandbox = True, zarinpal_callback_url = ''cb'',
     payment_success_url = ''ok'',
     zarinpal_request = (\<lambda>k a. Http_Json [] (Some 100) (Some ''A7'') None),
     zarinpal_verify = (\<lambda>s a. Http_Json [] (Some 100) None (Some 555)),
     stripe_create = (\<lambda>k. Stripe_Session ''cs'' ''url'' None),
     stripe_construct = (\<lambda>p s. Stripe_Bad_Signature),
     weekday = 4, loyalty_gold_threshold = 500, loyalty_silver_threshold = 100,
     loyalty_points_per_1000 = 1, referral_reward_points = 100, referral_onboarding_coupon = [],
     referral_tokens = [''aa11'']\<rparr>"

definition demo_product :: product where
  "demo_product = \<lparr>prod_id = 1, prod_category = 1, prod_name = ''cookie'', prod_price = 5000,
     prod_availability = AV_AVAILABLE, prod_is_featured = False\<rparr>"

definition demo_inventory :: inventory where
  "demo_inventory = \<lparr>inv_track_stock = True, inv_stock = 10, inv_reserved = 3,
     inv_low_stock_threshold = 5, inv_allow_preorder = False\<rparr>"

definition demo_reservation :: "nat option \<Rightarrow> nat option \<Rightarrow> reservation" where
  "demo_reservation od ct = \<lparr>res_id = 1, res_product = 1, res_order = od, res_cart = ct,
     res_quantity = 3, res_date = 10, res_status = R_ACTIVE, res_expires_at = Some 2000\<rparr>"

definition demo_world :: "nat option \<Rightarrow> nat option \<Rightarrow> world" where
  "demo_world od ct = empty_world\<lparr>products := [1 \<mapsto> demo_product],
     inventories := [1 \<mapsto> demo_inventory],
     capacities := [(1, 10) \<mapsto> \<lparr>cap_max = 50, cap_reserved = 3, cap_fulfilled = 0\<rparr>],
     reservations := [demo_reservation od ct], next_pk := 2\<rparr>"

lemma stock_ok_demo: "stock_ok (demo_world od ct)"
  by (auto simp: stock_ok_def rows_ok_def demo_world_def demo_reservation_def demo_inventory_def
      empty_world_def held_product_def held_day_def live_def)

lemma release_reservations_idempotent_witness:
  "\<exists>v. release_reservations 7 (demo_world (Some 7) None) = (Inr (), v) \<and> stock_ok v \<and>
    (\<forall>r. r \<in> set (reservations v) \<longrightarrow> res_order r = Some 7 \<longrightarrow> \<not> live r) \<and>
    release_reservations 7 v = (Inr (), v)"
  by (rule release_reservations_idempotent [OF stock_ok_demo])

text \<open>Sixty of seventy units pass the check of a cart that already holds three of them.\<close>

definition busy_world :: world where
  "busy_world = (demo_world None (Some 4))
     \<lparr>inventories := [1 \<mapsto> demo_inventory\<lparr>inv_stock := 70\<rparr>]\<rparr>"

lemma stock_ok_busy: "stock_ok busy_world"
  by (auto simp: busy_world_def stock_ok_def rows_ok_def demo_world_def demo_reservation_def demo_inventory_def
      empty_world_def held_product_def held_day_def live_def)

lemma checked_cart_item_is_in_stock_witness:
  "\<exists>e v. reserve_for_cart_item demo_env 4 demo_product 60 busy_world = (Inl e, v) \<and>
     class_of e \<noteq> InsufficientStockError"
proof -
  have "isl (fst (reserve_for_cart_item demo_env 4 demo_product 60 busy_world))"
    by code_simp
  then obtain e v where run: "reserve_for_cart_item demo_env 4 demo_product 60 busy_world = (Inl e, v)"
    by (cases "reserve_for_cart_item demo_env 4 demo_product 60 busy_world") (auto simp: isl_def)
  have row: "inventories busy_world (prod_id demo_product) = Some (demo_inventory\<lparr>inv_stock := 70\<rparr>)"
    by (simp add: busy_world_def demo_product_def)
  have "check_cart_availability demo_product 60 (Some 4) busy_world = (Inr (), busy_world)"
    using row by (simp add: check_cart_availability_def get_or_create_inventory_some run_bnd run_raise_if
        is_available_def available_quantity_def)
      (simp add: demo_product_def demo_inventory_def busy_world_def demo_world_def demo_reservation_def
        active_for_cart_def)
  from checked_cart_item_is_in_stock [OF stock_ok_busy row this run] run show ?thesis by blast
qed

section \<open>Fulfilment dates\<close>

definition free_units :: "world \<Rightarrow> nat \<Rightarrow> date \<Rightarrow> int" where
  "free_units w p d = (case capacities w (p, d) of Some c \<Rightarrow> available_units c | None \<Rightarrow> 0)"

lemma get_capacity_rows:
  assumes "get_or_create_daily_capacity p d w = (Inr c, v)"
  shows "capacities v (p, d) = Some c"
    and "capacities w k = Some c' \<Longrightarrow> capacities v k = Some c'"
  using assms by (auto simp: get_or_create_daily_capacity_def default_daily_capacity_def
      get_or_create_inventory_def returns split: option.splits if_splits)

lemma scan_rows:
  "scan_days p n i d offsets w = (Inr x, v) \<Longrightarrow> capacities w k = Some c \<Longrightarrow> capacities v k = Some c"
  by (induction offsets arbitrary: w)
     (auto simp: returns split: if_splits dest: get_capacity_rows(2))

lemma scan_days_result:
  assumes "scan_days p n i d [k..<m] w = (Inr (Some e), v)"
  shows "\<exists>j. k \<le> j \<and> j < m \<and> e = d + int j \<and>
    (n \<le> free_units v p e \<or> j = 0 \<and> inv_track_stock i \<and> n \<le> available_quantity i) \<and>
    (\<forall>l. k \<le> l \<and> l < j \<longrightarrow> free_units v p (d + int l) < n)"
  using assms
proof (induction "m - k" arbitrary: k w)
  case 0
  then show ?case by (simp add: ret_def)
next
  case (Suc x)
  then have km: "k < m" and split: "[k..<m] = k # [Suc k..<m]" by (auto simp: upt_conv_Cons)
  from Suc.prems obtain c u where c: "get_or_create_daily_capacity p (d + int k) w = (Inr c, u)"
    and rest: "(if n \<le> available_units c then ret (Some (d + int k))
       else if k = 0 \<and> inv_track_stock i \<and> n \<le> available_quantity i then ret (Some (d + int k))
       else scan_days p n i d [Suc k..<m]) u = (Inr (Some e), v)"
    unfolding split by (auto simp: bnd_returns)
  note row = get_capacity_rows(1) [OF c]
  show ?case
  proof (cases "n \<le> available_units c \<or> k = 0 \<and> inv_track_stock i \<and> n \<le> available_quantity i")
    case True
    then have "e = d + int k \<and> v = u" using rest by (auto split: if_splits)
    then show ?thesis using km row True by (intro exI [of _ k]) (auto simp: free_units_def)
  next
    case False
    then have scan: "scan_days p n i d [Suc k..<m] u = (Inr (Some e), v)"
      using rest by (auto split: if_splits)
    have "free_units v p (d + int k) < n"
      using scan_rows [OF scan row] False by (simp add: free_units_def)
    moreover have "x = m - Suc k" using Suc.hyps(2) by simp
    then obtain j where "Suc k \<le> j" "j < m" "e = d + int j"
      "n \<le> free_units v p e \<or> j = 0 \<and> inv_track_stock i \<and> n \<le> available_quantity i"
      "\<forall>l. Suc k \<le> l \<and> l < j \<longrightarrow> free_units v p (d + int l) < n"
      using Suc.hyps(1) [OF _ scan] by blast
    ultimately show ?thesis
      by (intro exI [of _ j]) (metis Suc_leD le_antisym not_less_eq_eq)
  qed
qed

lemma scan_days_full:
  assumes "scan_days p n i d [k..<m] w = (Inr None, v)"
  shows "\<forall>l. k \<le> l \<and> l < m \<longrightarrow> free_units v p (d + int l) < n \<and>
    \<not> (l = 0 \<and> inv_track_stock i \<and> n \<le> available_quantity i)"
  using assms
proof (induction "m - k" arbitrary: k w)
  case 0
  then have "\<not> (k \<le> l \<and> l < m)" for l by linarith
  then show ?case by blast
next
  case (Suc x)
  then have km: "k < m" and split: "[k..<m] = k # [Suc k..<m]" by (auto simp: upt_conv_Cons)
  from Suc.prems obtain c u where c: "get_or_create_daily_capacity p (d + int k) w = (Inr c, u)"
    and scan: "scan_days p n i d [Suc k..<m] u = (Inr None, v)" and less: "available_units c < n"
    and no: "\<not> (k = 0 \<and> inv_track_stock i \<and> n \<le> available_quantity i)"
    unfolding split by (auto simp: bnd_returns ret_def split: if_splits)
  have "free_units v p (d + int k) < n"
    using scan_rows [OF scan get_capacity_rows(1) [OF c]] less by (simp add: free_units_def)
  moreover have "x = m - Suc k" using Suc.hyps(2) by simp
  ultimately show ?case using Suc.hyps(1) [OF _ scan] no by (metis Suc_leI le_neq_implies_less)
qed

lemma scan_days_returns: "\<exists>x v. scan_days p n i d offsets w = (Inr x, v)"
proof -
  have "fails (\<lambda>_. False) (scan_days p n i d offsets)"
    by (induction offsets) (simp_all only: scan_days.simps, (intro fails_intros | assumption)+)
  then show ?thesis
    by (cases "scan_days p n i d offsets w"; cases "fst (scan_days p n i d offsets w)") (auto simp: fails_def)
qed

text \<open>
  C38: \<open>find_fulfillment_date\<close> answers with a day among the fourteen that start at the asked one:
  the first whose daily capacity still has the quantity free, or the first day itself when the
  tracked stock covers the quantity. It fails exactly when there is no such day, with
  \<open>CapacityExceededError\<close> and the message for products with or without preorders.
\<close>

theorem find_fulfillment_date_earliest:
  fixes env :: env and start :: "date option" and n :: int
  assumes row: "inventories w (prod_id pr) = Some i"
  defines "first \<equiv> (case start of Some d \<Rightarrow> d | None \<Rightarrow> today env)"
    and "shortcut \<equiv> inv_track_stock i \<and> n \<le> available_quantity i"
  shows "\<exists>r v. find_fulfillment_date env pr n start w = (r, v) \<and>
    (case r of
       Inr e \<Rightarrow> \<exists>j<14. e = first + int j \<and> (n \<le> free_units v (prod_id pr) e \<or> j = 0 \<and> shortcut) \<and>
         (\<forall>l<j. free_units v (prod_id pr) (first + int l) < n)
     | Inl exc \<Rightarrow> exc = Exn CapacityExceededError
           (if inv_allow_preorder i then fully_booked pr else not_available_quantity pr) \<and>
         \<not> shortcut \<and> (\<forall>l<14. free_units v (prod_id pr) (first + int l) < n))"
proof -
  obtain x v where scan: "scan_days (prod_id pr) n i first [0..<max_days] w = (Inr x, v)"
    using scan_days_returns by blast
  show ?thesis
  proof (cases x)
    case (Some e)
    then have "find_fulfillment_date env pr n start w = (Inr e, v)"
      using scan by (simp add: find_fulfillment_date_def get_or_create_inventory_some [OF row] run_bnd first_def)
    with scan_days_result [OF scan [unfolded Some]] show ?thesis
      by (auto simp: max_days_def shortcut_def)
  next
    case None
    then have "find_fulfillment_date env pr n start w = (Inl (Exn CapacityExceededError
        (if inv_allow_preorder i then fully_booked pr else not_available_quantity pr)), v)"
      using scan by (simp add: find_fulfillment_date_def get_or_create_inventory_some [OF row] run_bnd first_def raise_def)
    with scan_days_full [OF scan [unfolded None]] show ?thesis
      by (force simp: max_days_def shortcut_def)
  qed
qed

text \<open>
  An item that is in stock but exceeds what today's capacity has left is refused for today,
  whatever the capacity of the following days: the search stops at today because the stock covers it,
  and \<open>_reserve_item\<close> then raises \<open>CapacityExceededError\<close> for today.
\<close>

theorem same_day_shortcut_refuses:
  assumes row: "inventories w (prod_id pr) = Some i" and "inv_track_stock i"
    and n: "n \<le> available_quantity i"
    and cap: "capacities w (prod_id pr, today env) = Some c" "available_units c < n"
  shows "find_fulfillment_date env pr n None w = (Inr (today env), w) \<and>
    fst (reserve_item env od pr n ct h w) =
      Inl (Exn CapacityExceededError (capacity_insufficient pr (today env)))"
proof -
  have get: "get_or_create_daily_capacity (prod_id pr) (today env) w = (Inr c, w)"
    using cap row by (simp add: get_or_create_daily_capacity_def default_daily_capacity_def
        get_or_create_inventory_some run_bnd)
  have days: "[0..<max_days] = 0 # [Suc 0..<max_days]" by (simp add: max_days_def upt_conv_Cons)
  have find: "find_fulfillment_date env pr n None w = (Inr (today env), w)"
    using assms by (simp add: find_fulfillment_date_def get_or_create_inventory_some days run_bnd get)
  then show ?thesis
    using assms by (simp add: reserve_item_def get_or_create_inventory_some run_bnd find get run_raise_if)
qed

text \<open>
  Sixty units of seventy in stock: today has 47 units of capacity left, and tomorrow, whose row
  offers 70, would do.
\<close>

lemma same_day_shortcut_refuses_witness:
  "let w = busy_world\<lparr>capacities := (capacities busy_world)((1, 11) \<mapsto>
       \<lparr>cap_max = 70, cap_reserved = 0, cap_fulfilled = 0\<rparr>)\<rparr> in
   60 \<le> free_units w 1 (today demo_env + 1) \<and>
   find_fulfillment_date demo_env demo_product 60 None w = (Inr (today demo_env), w) \<and>
   fst (reserve_item demo_env (Some 1) demo_product 60 None 120 w) =
      Inl (Exn CapacityExceededError (capacity_insufficient demo_product (today demo_env)))"
proof -
  let ?w = "busy_world\<lparr>capacities := (capacities busy_world)((1, 11) \<mapsto>
       \<lparr>cap_max = 70, cap_reserved = 0, cap_fulfilled = 0\<rparr>)\<rparr>"
  have "find_fulfillment_date demo_env demo_product 60 None ?w = (Inr (today demo_env), ?w) \<and>
   fst (reserve_item demo_env (Some 1) demo_product 60 None 120 ?w) =
      Inl (Exn CapacityExceededError (capacity_insufficient demo_product (today demo_env)))"
    by (rule same_day_shortcut_refuses [where i = "demo_inventory\<lparr>inv_stock := 70\<rparr>"
          and c = "\<lparr>cap_max = 50, cap_reserved = 3, cap_fulfilled = 0\<rparr>"])
      (simp_all add: busy_world_def demo_world_def demo_product_def demo_env_def demo_inventory_def
        available_quantity_def available_units_def)
  moreover have "60 \<le> free_units ?w 1 (today demo_env + 1)"
    by (simp add: free_units_def demo_env_def available_units_def)
  ultimately show ?thesis unfolding Let_def by blast
qed

lemma find_fulfillment_date_earliest_witness:
  "\<exists>v. find_fulfillment_date demo_env demo_product 60 (Some 11) busy_world = (Inr 11, v) \<and>
    (\<exists>j<14. 11 = 11 + int j \<and> (60 \<le> free_units v 1 11 \<or> j = 0 \<and> 60 \<le> (67::int)) \<and>
      (\<forall>l<j. free_units v 1 (11 + int l) < 60))"
proof -
  have run: "fst (find_fulfillment_date demo_env demo_product 60 (Some 11) busy_world) = Inr 11"
    by code_simp
  have "inventories busy_world (prod_id demo_product) = Some (demo_inventory\<lparr>inv_stock := 70\<rparr>)"
    by (simp add: busy_world_def demo_product_def)
  from find_fulfillment_date_earliest [OF this, of demo_env 60 "Some 11"] run show ?thesis
    by (auto simp: demo_product_def demo_inventory_def available_quantity_def)
qed

section \<open>Any sequence of calls\<close>

datatype stock_call =
    Reserve_Order order | Reserve_Cart_Item nat product int
  | Release_Cart nat | Release_Cart_Product nat nat | Release_Order nat
  | Confirm_Order nat | Fulfill_Order nat | Expire_Stale

fun stock_step :: "env \<Rightarrow> stock_call \<Rightarrow> world \<Rightarrow> world" where
  "stock_step env (Reserve_Order od) w = snd (reserve_for_order env od w)"
| "stock_step env (Reserve_Cart_Item c pr n) w = snd (reserve_for_cart_item env c pr n w)"
| "stock_step env (Release_Cart c) w = snd (release_cart_reservations c w)"
| "stock_step env (Release_Cart_Product c p) w = snd (release_cart_reservations_for_product c p w)"
| "stock_step env (Release_Order k) w = snd (release_reservations k w)"
| "stock_step env (Confirm_Order k) w = snd (confirm_reservations k w)"
| "stock_step env (Fulfill_Order k) w = snd (fulfill_reservations k w)"
| "stock_step env Expire_Stale w = snd (expire_stale_reservations env w)"

fun stock_run :: "(env \<times> stock_call) list \<Rightarrow> world \<Rightarrow> world" where
  "stock_run [] w = w"
| "stock_run ((env, c) # cs) w = stock_run cs (stock_step env c w)"

lemmas ledger_keeps = ledger.keeps_reserve_for_order ledger.keeps_reserve_for_cart_item
  ledger.keeps_release_cart_reservations ledger.keeps_release_cart_reservations_for_product
  ledger.keeps_release_reservations ledger.keeps_confirm_reservations
  ledger.keeps_fulfill_reservations ledger.keeps_expire_stale_reservations

lemma stock_step_ok: "stock_ok w \<Longrightarrow> stock_ok (stock_step env c w)"
  by (cases c) (simp_all add: ledger_keeps [THEN keepsD])

lemma stock_run_ok: "stock_ok w \<Longrightarrow> stock_ok (stock_run cs w)"
  by (induction cs arbitrary: w) (auto simp: stock_step_ok)

text \<open>
  C1: however reservation calls of orders and carts, releases, confirmations, fulfilments and
  expiries follow one another, failing or not, at whatever times, the ledger stays balanced: for a product
  that tracks its stock every live reservation is counted once in its reserved counter, and if it also takes no
  preorders (the default is that it does) that is never more than it has in stock; and for every day the
  counter is what its live reservations hold, and with what was fulfilled no more than its capacity.
\<close>

theorem no_sequence_oversells:
  assumes "stock_ok w"
  shows "let v = stock_run cs w in
    (case inventories v p of
       Some i \<Rightarrow> \<not> inv_track_stock i \<or> inv_reserved i = held_product p (reservations v) \<and>
         (inv_allow_preorder i \<or> held_product p (reservations v) \<le> inv_stock i)
     | None \<Rightarrow> held_product p (reservations v) = 0) \<and>
    (case capacities v (p, d) of
       Some c \<Rightarrow> cap_reserved c = held_day p d (reservations v) \<and>
         held_day p d (reservations v) + cap_fulfilled c \<le> cap_max c
     | None \<Rightarrow> held_day p d (reservations v) = 0)"
proof -
  have ok: "stock_ok (stock_run cs w)" using assms by (rule stock_run_ok)
  then show ?thesis
    using stock_okD(2) [OF ok, of p] stock_okD(3) [OF ok, of p d]
    by (auto simp: Let_def split: option.split)
qed

lemma no_sequence_oversells_witness:
  "let v = stock_run [(demo_env, Reserve_Cart_Item 4 demo_product 60), (demo_env, Release_Cart 4),
       (demo_env, Reserve_Cart_Item 4 demo_product 9)] busy_world in
    (case inventories v 1 of
       Some i \<Rightarrow> \<not> inv_track_stock i \<or> inv_reserved i = held_product 1 (reservations v) \<and>
         (inv_allow_preorder i \<or> held_product 1 (reservations v) \<le> inv_stock i)
     | None \<Rightarrow> held_product 1 (reservations v) = 0) \<and>
    (case capacities v (1, 10) of
       Some c \<Rightarrow> cap_reserved c = held_day 1 10 (reservations v) \<and>
         held_day 1 10 (reservations v) + cap_fulfilled c \<le> cap_max c
     | None \<Rightarrow> held_day 1 10 (reservations v) = 0)"
  by (rule no_sequence_oversells [OF stock_ok_busy])

end
