(* ===== verification/AuditTrail.thy ===== *)
theory AuditTrail
  imports OrderService StockProps
begin

text \<open>
  The audit log of order statuses (\<open>OrderStatusLog\<close>): read per order, it is a chain of changes that
  the transition table allows and that ends at the order's present status. Together with the stock
  ledger this is the invariant of the lifecycle operations.
\<close>

section \<open>Trails\<close>

definition order_logs :: "world \<Rightarrow> nat \<Rightarrow> status_log list" where
  "order_logs w k = filter (\<lambda>l. log_order l = k) (status_logs w)"

definition same_or_step :: "order_status \<Rightarrow> order_status \<Rightarrow> bool" where
  "same_or_step s t \<longleftrightarrow> s = t \<or> t \<in> ALLOWED_TRANSITIONS s"

fun trail_ok :: "status_log list \<Rightarrow> order_status \<Rightarrow> bool" where
  "trail_ok [] s = True"
| "trail_ok [l] s = (same_or_step (log_from l) (log_to l) \<and> log_to l = s)"
| "trail_ok (l # m # ls) s =
     (same_or_step (log_from l) (log_to l) \<and> log_to l = log_from m \<and> trail_ok (m # ls) s)"

lemma trail_ok_snoc:
  "trail_ok ls s \<Longrightarrow> log_from l = s \<Longrightarrow> same_or_step s (log_to l) \<Longrightarrow> trail_ok (ls @ [l]) (log_to l)"
  by (induction ls s rule: trail_ok.induct) auto

text \<open>The number of real changes a trail records, bounded by the rank of its last status.\<close>

definition changes :: "status_log list \<Rightarrow> nat" where
  "changes ls = length (filter (\<lambda>l. log_from l \<noteq> log_to l) ls)"

lemma same_or_step_rank:
  "same_or_step s t \<Longrightarrow> status_rank s + (if s \<noteq> t then 1 else 0) \<le> status_rank t"
  using status_step_rank [of s t] by (auto simp: same_or_step_def status_step_iff)

lemma trail_ok_rank:
  "trail_ok ls s \<Longrightarrow> ls \<noteq> [] \<Longrightarrow> status_rank (log_from (hd ls)) + changes ls \<le> status_rank s"
proof (induction ls s rule: trail_ok.induct)
  case (2 l s)
  then show ?case using same_or_step_rank [of "log_from l" "log_to l"] by (auto simp: changes_def)
next
  case (3 l m ls s)
  then have "status_rank (log_from m) + changes (m # ls) \<le> status_rank s"
    by auto
  moreover have "status_rank (log_from l) + (if log_from l \<noteq> log_to l then 1 else 0) \<le>
      status_rank (log_to l)"
    using 3 by (intro same_or_step_rank) auto
  ultimately show ?case using 3 by (auto simp: changes_def split: if_splits)
qed simp

section \<open>The invariant\<close>

definition audit_ok :: "world \<Rightarrow> bool" where
  "audit_ok w \<longleftrightarrow> distinct (map ord_id (orders w)) \<and>
     (\<forall>od\<in>set (orders w). ord_id od < next_pk w \<and> trail_ok (order_logs w (ord_id od)) (ord_status od)) \<and>
     (\<forall>l\<in>set (status_logs w). log_order l < next_pk w)"

definition lifecycle_ok :: "world \<Rightarrow> bool" where
  "lifecycle_ok w \<longleftrightarrow> stock_ok w \<and> audit_ok w"

lemma audit_ok_frame:
  assumes "audit_ok w" and "orders v = orders w" and "status_logs v = status_logs w"
    and "next_pk w \<le> next_pk v"
  shows "audit_ok v"
  using assms by (fastforce simp: audit_ok_def order_logs_def)

lemma audit_ok_put:
  "audit_ok w \<Longrightarrow> audit_ok (put_inventory p i w)"
  "audit_ok w \<Longrightarrow> audit_ok (put_capacity p d c w)"
  "audit_ok w \<Longrightarrow> audit_ok (put_reservation r f w)"
  "audit_ok w \<Longrightarrow> audit_ok (drop_units r w)"
  "audit_ok w \<Longrightarrow> audit_ok (ship_units i c r w)"
  "audit_ok w \<Longrightarrow> res_id r = next_pk w \<Longrightarrow> audit_ok (hold_units i c r w)"
  "audit_ok (w\<lparr>products := ps\<rparr>) = audit_ok w"
  by (erule audit_ok_frame;
      simp add: put_defs drop_units_def ship_units_def hold_units_def Let_def split: option.split)+
     (simp add: audit_ok_def order_logs_def)

interpretation lifecycle_stock: stock_tables lifecycle_ok
proof (unfold_locales, goal_cases)
  case 6 then show ?case by (simp add: lifecycle_ok_def ledger.law_confirm audit_ok_put)
next
  case 8 then show ?case by (simp add: lifecycle_ok_def ledger.law_expired audit_ok_put)
qed (auto simp: lifecycle_ok_def audit_ok_put ledger.frame_products
      intro: ledger.law_new_inventory ledger.law_new_capacity ledger.law_hold ledger.law_drop
        ledger.law_ship ledger.law_ids,
     simp_all add: of_tables_def lifecycle_ok_def stock_ok_def rows_ok_def audit_ok_def order_logs_def)

section \<open>The operations keep it\<close>

lemma save_order_run:
  assumes "save_order od copy w = (r, v)"
  shows "(order_row w (ord_id od) = None \<and> v = w) \<or>
    (\<exists>t b. r = Inr () \<and> v = w\<lparr>orders := upd_rows (\<lambda>x. ord_id x = ord_id od) (copy od) (orders w),
        task_logs := t, broker := broker w @ b\<rparr>)"
proof (cases "order_row w (ord_id od)")
  case None
  with assms show ?thesis by (simp add: save_order_def)
next
  case (Some old)
  from run_save_order [OF this, of copy] assms show ?thesis by auto
qed

lemma audit_ok_quiet:
  "audit_ok (w\<lparr>task_logs := t\<rparr>) = audit_ok w" "audit_ok (w\<lparr>broker := b\<rparr>) = audit_ok w"
  "audit_ok (w\<lparr>payments := ps\<rparr>) = audit_ok w"
  by (simp_all add: audit_ok_def order_logs_def)

lemma audit_ok_same_status:
  assumes "audit_ok w" and "\<And>x. ord_id (f x) = ord_id x \<and> ord_status (f x) = ord_status x"
  shows "audit_ok (w\<lparr>orders := upd_rows P f (orders w)\<rparr>)"
  using assms by (auto simp: audit_ok_def order_logs_def map_upd_rows set_upd_rows)

lemma keeps_audit_payment_status: "keeps audit_ok (save_order od f_payment_status)"
proof (rule keepsI)
  fix w assume w: "audit_ok w"
  obtain r v where run: "save_order od f_payment_status w = (r, v)" by fastforce
  have "audit_ok (w\<lparr>orders := upd_rows (\<lambda>x. ord_id x = ord_id od) (f_payment_status od) (orders w)\<rparr>)"
    by (rule audit_ok_same_status [OF w]) (simp add: f_payment_status_def)
  then have "audit_ok (w\<lparr>orders := upd_rows (\<lambda>x. ord_id x = ord_id od) (f_payment_status od) (orders w),
        task_logs := t, broker := b\<rparr>)" for t b
    by (simp add: audit_ok_def order_logs_def)
  then show "audit_ok (snd (save_order od f_payment_status w))"
    using save_order_run [OF run] w run by auto
qed

lemma audit_ok_change:
  assumes w: "audit_ok w" and od: "order_row w k = Some od" and step: "same_or_step (ord_status od) new"
    and f: "\<And>x. ord_id (f x) = ord_id x \<and> ord_status (f x) = new"
  shows "audit_ok (w\<lparr>orders := upd_rows (\<lambda>x. ord_id x = k) f (orders w),
     status_logs := status_logs w @ [\<lparr>log_order = k, log_from = ord_status od, log_to = new,
        log_note = note, log_actor = actor\<rparr>]\<rparr>)"
proof -
  let ?l = "\<lparr>log_order = k, log_from = ord_status od, log_to = new, log_note = note, log_actor = actor\<rparr>"
  have mem: "od \<in> set (orders w)" and id: "ord_id od = k"
    using od by (auto simp: order_row_def dest: find_SomeD)
  have "trail_ok (order_logs w k) (ord_status od)" using w mem id by (auto simp: audit_ok_def)
  then have "trail_ok (order_logs w k @ [?l]) new"
    using trail_ok_snoc [of "order_logs w k" "ord_status od" ?l] step by simp
  then have trail: "trail_ok (filter (\<lambda>l. log_order l = k) (status_logs w @ [?l])) new"
    by (simp add: order_logs_def)
  have logs: "filter (\<lambda>l. log_order l = j) (status_logs w @ [?l]) = order_logs w j" if "j \<noteq> k" for j
    using that by (simp add: order_logs_def)
  let ?rows = "upd_rows (\<lambda>x. ord_id x = k) f (orders w)"
  have "ord_id x < next_pk w \<and> trail_ok (filter (\<lambda>l. log_order l = ord_id x) (status_logs w @ [?l])) (ord_status x)"
    if "x \<in> set ?rows" for x
  proof -
    from that obtain y where y: "y \<in> set (orders w)" and x: "x = (if ord_id y = k then f y else y)"
      by (auto simp: set_upd_rows)
    show ?thesis
    proof (cases "ord_id y = k")
      case True
      then have "k < next_pk w" using w y by (auto simp: audit_ok_def)
      with True x f trail show ?thesis by simp
    next
      case False
      with x y logs [of "ord_id y"] w show ?thesis by (simp add: audit_ok_def del: filter_append)
    qed
  qed
  moreover have "distinct (map ord_id ?rows)"
    using w f by (simp add: audit_ok_def map_upd_rows)
  moreover have "\<forall>l\<in>set (status_logs w @ [?l]). log_order l < next_pk w"
    using w mem id by (auto simp: audit_ok_def)
  ultimately show ?thesis unfolding audit_ok_def order_logs_def by simp
qed

lemma transition_returns:
  assumes "transition k new note actor w = (Inr x, v)"
  obtains od where "order_row w k = Some od" and "ord_status od = new" and "x = od" and "v = w"
  | od t b where "order_row w k = Some od" and "ord_status od \<noteq> new"
      and "new \<in> ALLOWED_TRANSITIONS (ord_status od)" and "x = od\<lparr>ord_status := new\<rparr>"
      and "v = w\<lparr>orders := upd_rows (\<lambda>r. ord_id r = k) (f_status (od\<lparr>ord_status := new\<rparr>)) (orders w),
        task_logs := t, broker := broker w @ b,
        status_logs := status_logs w @ [\<lparr>log_order = k, log_from = ord_status od, log_to = new,
          log_note = note, log_actor = actor\<rparr>]\<rparr>"
proof -
  have run: "bnd (get_order k) (\<lambda>od. bnd (validate_transition od new) (\<lambda>_.
     if ord_status od = new then ret od
     else
       let od' = od\<lparr>ord_status := new\<rparr> in
       bnd (save_order od' f_status) (\<lambda>_.
       bnd (create_status_log k (ord_status od) new note actor) (\<lambda>_.
       ret od')))) w = (Inr x, v)"
    using assms by (simp add: transition_def)
  then obtain od where od: "order_row w k = Some od"
    by (cases "order_row w k") (simp_all add: run_bnd get_order_def run_get_or_raise)
  have ok: "can_transition od new"
    using run od by (rule_tac ccontr)
      (simp add: run_bnd get_order_def run_get_or_raise run_validate_transition)
  have rest: "(if ord_status od = new then ret od
     else let od' = od\<lparr>ord_status := new\<rparr> in
       bnd (save_order od' f_status) (\<lambda>_.
       bnd (create_status_log k (ord_status od) new note actor) (\<lambda>_. ret od'))) w = (Inr x, v)"
    using run od ok by (simp add: run_bnd get_order_def run_get_or_raise run_validate_transition)
  have id: "ord_id od = k" using od by (auto simp: order_row_def dest: find_SomeD)
  show thesis
  proof (cases "ord_status od = new")
    case True
    have "x = od" and "v = w" using rest unfolding if_P [OF True] by simp_all
    with od True show thesis by (rule that(1))
  next
    case False
    let ?od = "od\<lparr>ord_status := new\<rparr>"
    have "order_row w (ord_id ?od) = Some od" using od id by simp
    from run_save_order [OF this, of f_status] obtain t b where
      save: "save_order ?od f_status w =
        (Inr (), w\<lparr>orders := upd_rows (\<lambda>r. ord_id r = ord_id ?od) (f_status ?od) (orders w),
         task_logs := t, broker := broker w @ b\<rparr>)" by blast
    have "bnd (save_order ?od f_status) (\<lambda>_.
       bnd (create_status_log k (ord_status od) new note actor) (\<lambda>_. ret ?od)) w = (Inr x, v)"
      using rest False by (simp only: if_False Let_def)
    then have "x = ?od" and "v = w\<lparr>orders := upd_rows (\<lambda>r. ord_id r = k) (f_status ?od) (orders w),
        task_logs := t, broker := broker w @ b,
        status_logs := status_logs w @ [\<lparr>log_order = k, log_from = ord_status od, log_to = new,
          log_note = note, log_actor = actor\<rparr>]\<rparr>"
      unfolding run_bnd save create_status_log_def by (auto simp: id)
    moreover have "new \<in> ALLOWED_TRANSITIONS (ord_status od)"
      using ok False by (simp add: can_transition_def)
    ultimately show thesis using od False by (intro that(2))
  qed
qed

lemma settles_audit_transition: "settles audit_ok (transition k new note actor)"
proof (rule settlesI)
  fix w x v assume w: "audit_ok w" and run: "transition k new note actor w = (Inr x, v)"
  from run show "audit_ok v"
  proof (cases rule: transition_returns)
    case (2 od t b)
    have "audit_ok (w\<lparr>orders := upd_rows (\<lambda>r. ord_id r = k) (f_status (od\<lparr>ord_status := new\<rparr>)) (orders w),
        status_logs := status_logs w @ [\<lparr>log_order = k, log_from = ord_status od, log_to = new,
          log_note = note, log_actor = actor\<rparr>]\<rparr>)"
      using 2 by (intro audit_ok_change [OF w]) (auto simp: same_or_step_def f_status_def)
    then show ?thesis unfolding 2(5) by (simp add: audit_ok_def order_logs_def)
  qed (use w in simp)
qed

lemma of_tables_lifecycle: "of_tables lifecycle_ok"
  by (rule lifecycle_stock.tables_only)

lemma keeps_lifecycle_transition: "keeps lifecycle_ok (transition k new note actor)"
proof -
  have "keeps stock_ok (transition k new note actor)"
    unfolding transition_def create_status_log_def Let_def
    by (intro ledger.keeps_atomic_block keeps_intros keeps_get_order ledger.keeps_save_order
        keeps_modifies) (simp_all add: ledger.frames)
  moreover have "keeps audit_ok (transition k new note actor)"
    using settles_audit_transition unfolding transition_def
    by (intro settles_atomic_keeps) (simp_all add: of_tables_def audit_ok_quiet)
  ultimately show ?thesis unfolding lifecycle_ok_def by (rule keeps_conj)
qed

interpretation lifecycle: order_ops lifecycle_ok
proof (unfold_locales, goal_cases)
  case (2 k) show ?case by (rule lifecycle_stock.keeps_release_reservations)
next
  case (3 k) show ?case by (rule lifecycle_stock.keeps_confirm_reservations)
next
  case (4 k) show ?case by (rule lifecycle_stock.keeps_fulfill_reservations)
next
  case (5 od) show ?case
    unfolding lifecycle_ok_def by (intro keeps_conj ledger.keeps_save_order keeps_audit_payment_status)
next
  case (6 k new m actor) show ?case by (rule keeps_lifecycle_transition)
next
  case (7 w k od m actor)
  then have "audit_ok (w\<lparr>orders := upd_rows (\<lambda>x. ord_id x = k) (\<lambda>x. x\<lparr>ord_status := ord_status od\<rparr>) (orders w),
     status_logs := status_logs w @ [\<lparr>log_order = k, log_from = ord_status od, log_to = ord_status od,
        log_note = m, log_actor = actor\<rparr>]\<rparr>)"
    by (intro audit_ok_change) (auto simp: lifecycle_ok_def same_or_step_def)
  moreover have "upd_rows (\<lambda>x. ord_id x = k) (\<lambda>x. x\<lparr>ord_status := ord_status od\<rparr>) (orders w) = orders w"
  proof -
    have "x\<lparr>ord_status := ord_status od\<rparr> = x" if "x \<in> set (orders w)" "ord_id x = k" for x
      using 7 that by (auto simp: lifecycle_ok_def audit_ok_def distinct_map order_row_def
          dest!: find_SomeD dest: inj_onD)
    then show ?thesis by (auto simp: upd_rows_def intro: map_idI)
  qed
  ultimately show ?case using 7 by (simp add: lifecycle_ok_def ledger.frame_status_logs)
next
  case (9 w)
  then have "audit_ok (w\<lparr>next_pk := Suc (next_pk w)\<rparr>)"
    by (auto simp: lifecycle_ok_def intro: audit_ok_frame)
  with 9 show ?case by (auto simp: lifecycle_ok_def stock_ok_def rows_ok_def less_SucI)
qed (rule of_tables_lifecycle, simp add: lifecycle_ok_def audit_ok_quiet stock_ok_def rows_ok_def)

end
