(* ===== verification/Frames.thy ===== *)
theory Frames
  imports Providers AuditTrail
begin

text \<open>
  Frames: what the stock, order and payment operations do not write. A predicate on the tables that
  they leave alone satisfies the contract of the order operations, so every operation keeps it.
\<close>

locale stock_frame =
  fixes I :: "world \<Rightarrow> bool"
  assumes frame_of_tables: "of_tables I"
    and frame_inventories: "I (w\<lparr>inventories := a\<rparr>) = I w"
    and frame_capacities: "I (w\<lparr>capacities := b'\<rparr>) = I w"
    and frame_reservations: "I (w\<lparr>reservations := c\<rparr>) = I w"
    and frame_products: "I (w\<lparr>products := d\<rparr>) = I w"
    and frame_next_pk: "I (w\<lparr>next_pk := n\<rparr>) = I w"
begin

lemmas stock_frames = frame_inventories frame_capacities frame_reservations frame_products frame_next_pk

text \<open>A write to one of these tables keeps the predicate.\<close>

lemma keeps_write: "(\<And>w. I (f w) = I w) \<Longrightarrow> keeps I (modifies f)"
  by (rule keeps_modifies) simp

lemmas keeps_atomic_frame = keeps_atomic [OF frame_of_tables]

lemma keeps_query: "keeps I (query_reservations Q)"
  unfolding query_reservations_def by (intro keeps_intros)

lemma keeps_inventory: "keeps I (get_or_create_inventory p)"
  unfolding get_or_create_inventory_def
  by (intro keeps_intros keeps_write) (simp add: stock_frames)

lemma keeps_capacity: "keeps I (get_or_create_daily_capacity p d)"
  unfolding get_or_create_daily_capacity_def default_daily_capacity_def
  by (intro keeps_intros keeps_write keeps_inventory) (simp add: stock_frames)

lemma keeps_save_reservation: "keeps I (save_reservation r f)"
  unfolding save_reservation_def by (intro keeps_intros keeps_write) (simp add: stock_frames)

lemma keeps_save_stock: "keeps I (save_inventory p i)" "keeps I (save_capacity p d c')"
  unfolding save_inventory_def save_capacity_def
  by (intro keeps_intros keeps_write; simp add: stock_frames)+

lemma keeps_release_single: "keeps I (release_single_reservation r)"
  unfolding release_single_reservation_def
  by (intro keeps_intros keeps_save_reservation keeps_save_stock)

lemma keeps_release: "keeps I (release_reservations k)"
  unfolding release_reservations_def
  by (intro keeps_atomic_frame keeps_intros keeps_query keeps_release_single)

lemma keeps_confirm: "keeps I (confirm_reservations k)"
  unfolding confirm_reservations_def
  by (intro keeps_atomic_frame keeps_intros keeps_query keeps_save_reservation)

lemma keeps_mark_out_of_stock: "keeps I (mark_out_of_stock p)"
  unfolding mark_out_of_stock_def by (intro keeps_write) (simp add: stock_frames)

lemma keeps_fulfill: "keeps I (fulfill_reservations k)"
  unfolding fulfill_reservations_def fulfill_one_def
  by (intro keeps_atomic_frame keeps_intros keeps_query keeps_save_reservation keeps_save_stock
      keeps_capacity keeps_mark_out_of_stock)

end

locale commerce_frame = order_frame + stock_frame +
  assumes frame_order_items: "I (w\<lparr>order_items := xs\<rparr>) = I w"
    and frame_payments: "I (w\<lparr>payments := ps\<rparr>) = I w"
begin

lemmas all_frames = frames stock_frames frame_order_items frame_payments

lemma keeps_order_transition: "keeps I (transition k new note actor)"
  unfolding transition_def create_status_log_def Let_def
  by (intro keeps_atomic_block keeps_intros keeps_get_order keeps_save_order keeps_write)
     (simp add: all_frames)

end

sublocale commerce_frame \<subseteq> order_ops
  by unfold_locales
     (auto simp: all_frames tables keeps_release keeps_confirm keeps_fulfill keeps_save_order
       keeps_order_transition)

interpretation events_frame: commerce_frame "\<lambda>w. payment_events w = es" for es
  by unfold_locales (simp_all add: of_tables_def)

interpretation carts_frame: commerce_frame "\<lambda>w. carts w = cs \<and> cart_items w = cis" for cs cis
  by unfold_locales (simp_all add: of_tables_def)

text \<open>The stock operations leave the orders, their payments and their logs alone.\<close>

interpretation sales_frame: stock_frame
  "\<lambda>w. orders w = os \<and> payments w = ps \<and> status_logs w = ls \<and> task_logs w = ts" for os ps ls ts
  by unfold_locales (simp_all add: of_tables_def)

end
