(* ===== verification/StaleCleanup.thy ===== *)
theory StaleCleanup
  imports Frames
begin

text \<open>
  \<open>apps/payments/stale_cleanup.py\<close>: expiring online checkouts that nobody paid, one payment per
  transaction, and the batch over all of them; and what the order payment status can become.
\<close>

section \<open>The cleanup\<close>

definition STALE_ONLINE_PAYMENT_TIMEOUT_MINUTES :: int where
  "STALE_ONLINE_PAYMENT_TIMEOUT_MINUTES = 30"

text \<open>\<open>timeout_minutes or STALE_ONLINE_PAYMENT_TIMEOUT_MINUTES\<close>\<close>

definition timeout_or_default :: "int option \<Rightarrow> int" where
  "timeout_or_default t = (case t of
     Some n \<Rightarrow> if n \<noteq> 0 then n else STALE_ONLINE_PAYMENT_TIMEOUT_MINUTES
   | None \<Rightarrow> STALE_ONLINE_PAYMENT_TIMEOUT_MINUTES)"

definition get_stale_online_payment_cutoff :: "env \<Rightarrow> int option \<Rightarrow> timestamp" where
  "get_stale_online_payment_cutoff env t = now env - minutes (timeout_or_default t)"

definition ONLINE_PROVIDERS :: "provider set" where
  "ONLINE_PROVIDERS = {PV_ZARINPAL, PV_STRIPE}"

definition STALE_PAYMENT_STATUSES :: "payment_state set" where
  "STALE_PAYMENT_STATUSES = {P_PENDING, P_PROCESSING}"

definition is_stale_online_payment :: "timestamp \<Rightarrow> world \<Rightarrow> payment \<Rightarrow> bool" where
  "is_stale_online_payment cutoff w p \<longleftrightarrow>
     pay_status p \<in> STALE_PAYMENT_STATUSES \<and> pay_provider p \<in> ONLINE_PROVIDERS \<and>
     pay_created_at p < cutoff \<and>
     (case order_row w (pay_order p) of
        Some od \<Rightarrow> ord_payment_method od = PM_ONLINE | None \<Rightarrow> False)"

definition stale_online_payments_queryset :: "timestamp \<Rightarrow> payment list P" where
  "stale_online_payments_queryset cutoff = gets (\<lambda>w.
     sort_key pay_created_at (filter (is_stale_online_payment cutoff w) (payments w)))"

definition clear_cart_checkout_lock :: "nat \<Rightarrow> unit P" where
  "clear_cart_checkout_lock k = modifies (\<lambda>w. w\<lparr>carts := upd_rows
     (\<lambda>c. cart_active_order c = Some k) (\<lambda>c. c\<lparr>cart_active_order := None\<rparr>) (carts w)\<rparr>)"

definition cleanup_message :: message where
  "cleanup_message = Fmt ''Online checkout expired after {} minutes without payment.''
     [AInt STALE_ONLINE_PAYMENT_TIMEOUT_MINUTES]"

datatype cleanup_outcome =
    Skipped_Missing | Skipped_Provider | Skipped_Payment_Status | Skipped_Fresh
  | Skipped_Non_Online | Skipped_Paid_Order | Skipped_Terminal_Order | Cleaned

definition cleanup_stale_online_payment :: "env \<Rightarrow> nat \<Rightarrow> cleanup_outcome P" where
  "cleanup_stale_online_payment env p = atomic (
     bnd (gets (\<lambda>w. payment_row w p)) (\<lambda>row.
     case row of
       None \<Rightarrow> ret Skipped_Missing
     | Some pm \<Rightarrow>
         bnd (get_order (pay_order pm)) (\<lambda>od.
         if pay_provider pm \<notin> ONLINE_PROVIDERS then ret Skipped_Provider
         else if pay_status pm \<notin> STALE_PAYMENT_STATUSES then ret Skipped_Payment_Status
         else if pay_created_at pm \<ge> get_stale_online_payment_cutoff env None then ret Skipped_Fresh
         else if ord_payment_method od \<noteq> PM_ONLINE then ret Skipped_Non_Online
         else if ord_payment_status od \<in> {PS_PAID, PS_CASH_RECEIVED} then ret Skipped_Paid_Order
         else if ord_status od \<in> {S_CANCELLED, S_REFUNDED, S_DELIVERED} then ret Skipped_Terminal_Order
         else
           bnd (mark_failed (ord_id od) (pay_id pm) cleanup_message) (\<lambda>_.
           bnd (clear_cart_checkout_lock (ord_id od)) (\<lambda>_.
           ret Cleaned)))))"

record cleanup_report =
  examined :: nat
  cleaned :: nat
  skipped :: nat
  errors :: nat
  timeout_minutes :: int

definition cleanup_stale_online_payments :: "env \<Rightarrow> int option \<Rightarrow> cleanup_report P" where
  "cleanup_stale_online_payments env t =
     bnd (stale_online_payments_queryset (get_stale_online_payment_cutoff env t)) (\<lambda>rows.
     bnd (for_collect (map pay_id rows) (\<lambda>p.
            try_except (bnd (cleanup_stale_online_payment env p) (\<lambda>x. ret (Some x)))
              (\<lambda>_. ret None))) (\<lambda>outcomes.
     ret \<lparr>examined = length rows,
          cleaned = length (filter (\<lambda>x. x = Some Cleaned) outcomes),
          skipped = length (filter (\<lambda>x. x \<noteq> None \<and> x \<noteq> Some Cleaned) outcomes),
          errors = length (filter (\<lambda>x. x = None) outcomes),
          timeout_minutes = timeout_or_default t\<rparr>))"

section \<open>What the payment status of an order can become\<close>

text \<open>Order \<open>k\<close> exists and its payment status is one of \<open>S\<close>.\<close>

definition pay_in :: "order_payment_status set \<Rightarrow> nat \<Rightarrow> world \<Rightarrow> bool" where
  "pay_in S k w \<longleftrightarrow> (\<exists>od. order_row w k = Some od \<and> ord_payment_status od \<in> S)"

lemma pay_in_frame:
  "pay_in S k (w\<lparr>task_logs := t\<rparr>) = pay_in S k w" "pay_in S k (w\<lparr>broker := b\<rparr>) = pay_in S k w"
  "pay_in S k (w\<lparr>status_logs := ls\<rparr>) = pay_in S k w" "pay_in S k (w\<lparr>payments := ps\<rparr>) = pay_in S k w"
  "pay_in S k (w\<lparr>carts := cs\<rparr>) = pay_in S k w"
  by (simp_all add: pay_in_def order_row_def)

lemma of_tables_pay_in: "of_tables (pay_in S k)"
  by (simp add: of_tables_def pay_in_frame)

interpretation pay_in: stock_frame "pay_in S k" for S k
  by unfold_locales (simp_all add: of_tables_def pay_in_def order_row_def)

lemma keeps_pay_in_save:
  assumes "\<And>r. ord_id (copy od r) = ord_id r"
    and "ord_id od = k \<Longrightarrow> (\<And>r. ord_payment_status r \<in> S \<Longrightarrow> ord_payment_status (copy od r) \<in> S)"
  shows "keeps (pay_in S k) (save_order od copy)"
proof (rule keepsI)
  fix w assume w: "pay_in S k w"
  obtain r v where run: "save_order od copy w = (r, v)" by fastforce
  from w obtain row where row: "order_row w k = Some row" "ord_payment_status row \<in> S"
    by (auto simp: pay_in_def)
  have "order_row (w\<lparr>orders := upd_rows (\<lambda>x. ord_id x = ord_id od) (copy od) (orders w),
      task_logs := t, broker := b\<rparr>) k = Some (if k = ord_id od then copy od row else row)" for t b
    using row assms(1) by (simp add: order_row_def find_upd_rows)
  then have "pay_in S k (w\<lparr>orders := upd_rows (\<lambda>x. ord_id x = ord_id od) (copy od) (orders w),
      task_logs := t, broker := b\<rparr>)" for t b
    using row assms(2) by (auto simp: pay_in_def)
  then show "pay_in S k (snd (save_order od copy w))"
    using save_order_run [OF run] w run by auto
qed

lemma keeps_pay_in_status: "keeps (pay_in S k) (save_order od f_status)"
  by (rule keeps_pay_in_save) (auto simp: f_status_def)

lemma keeps_pay_in_set: "ord_id od \<noteq> k \<or> st \<in> S \<Longrightarrow> keeps (pay_in S k) (set_payment_status od st)"
  unfolding set_payment_status_def Let_def
  by (intro keeps_intros keeps_pay_in_save) (auto simp: f_payment_status_def)

lemma keeps_pay_in_transition: "keeps (pay_in S k) (transition j new note actor)"
  unfolding transition_def create_status_log_def Let_def
  by (intro keeps_atomic of_tables_pay_in keeps_intros keeps_pay_in_status keeps_modifies)
     (simp add: pay_in_frame)

lemma keeps_pay_in_payment: "keeps (pay_in S k) (save_payment p f)"
  unfolding save_payment_def by (intro keeps_intros keeps_modifies) (simp add: pay_in_frame)

text \<open>A fetched order tells what the payment status of its row is.\<close>

lemma keeps_pay_in_get:
  assumes "\<And>od. ord_id od = j \<Longrightarrow> (j = k \<Longrightarrow> ord_payment_status od \<in> S) \<Longrightarrow> keeps (pay_in S k) (f od)"
  shows "keeps (pay_in S k) (bnd (get_order j) f)"
proof (rule keepsI)
  fix w assume w: "pay_in S k w"
  show "pay_in S k (snd (bnd (get_order j) f w))"
  proof (cases "order_row w j")
    case None
    with w show ?thesis by (simp add: get_order_def run_bnd run_get_or_raise)
  next
    case (Some od)
    then have "ord_id od = j" by (auto simp: order_row_def dest: find_SomeD)
    moreover have "j = k \<Longrightarrow> ord_payment_status od \<in> S" using w Some by (auto simp: pay_in_def)
    ultimately have "keeps (pay_in S k) (f od)" by (rule assms)
    with Some w show ?thesis by (simp add: get_order_def run_bnd run_get_or_raise keepsD)
  qed
qed

lemmas pay_in_parts = keeps_atomic [OF of_tables_pay_in] keeps_pay_in_get keeps_pay_in_set
  keeps_pay_in_transition keeps_pay_in_payment pay_in.keeps_release pay_in.keeps_confirm
  pay_in.keeps_fulfill keeps_get_payment keeps_intros

text \<open>A payment that was received stays received: callbacks, failures and cleanups do not undo it.\<close>

abbreviation received :: "nat \<Rightarrow> world \<Rightarrow> bool" where
  "received \<equiv> pay_in {PS_PAID, PS_CASH_RECEIVED}"

lemma received_mark_payment_failed: "keeps (received k) (mark_payment_failed j reason actor)"
  unfolding mark_payment_failed_def by (intro pay_in_parts) auto

lemma received_finalize_online: "keeps (received k) (finalize_online_payment j)"
  unfolding finalize_online_payment_def by (intro pay_in_parts) auto

lemma received_mark_paid: "keeps (received k) (mark_paid j p)"
  unfolding mark_paid_def by (intro pay_in_parts received_finalize_online)

lemma received_mark_failed: "keeps (received k) (mark_failed j p m)"
  unfolding mark_failed_def by (intro pay_in_parts received_mark_payment_failed)

lemma received_mark_cancelled: "keeps (received k) (mark_cancelled j p m)"
  unfolding mark_cancelled_def order_has_successful_payment_def by (intro pay_in_parts) auto

lemma received_clear_lock: "keeps (received k) (clear_cart_checkout_lock j)"
  unfolding clear_cart_checkout_lock_def by (intro keeps_modifies) (simp add: pay_in_frame)

lemma received_cleanup: "keeps (received k) (cleanup_stale_online_payment env p)"
  unfolding cleanup_stale_online_payment_def
  by (intro keeps_atomic [OF of_tables_pay_in] keeps_intros received_mark_failed received_clear_lock)

lemma received_cleanups: "keeps (received k) (cleanup_stale_online_payments env t)"
  unfolding cleanup_stale_online_payments_def stale_online_payments_queryset_def
  by (intro keeps_intros received_cleanup)

end
