(* ===== verification/Webhooks.thy ===== *)
theory Webhooks
  imports StaleCleanup
begin

text \<open>
  What the payment callbacks guarantee: an event is handled at most once, a failed handling leaves no
  trace in the tables, an order becomes paid through Zarinpal only with a verified answer for its
  exact total, and a received payment is not undone.
\<close>

section \<open>The webhook contract\<close>

text \<open>
  What \<open>process_webhook\<close> relies on: verification reads only the body and the signature, and
  handling an event does not write the event table.
\<close>

lemma find_upd_rows_same:
  assumes "\<And>r. Q (f r) = Q r"
  shows "find Q (upd_rows P f rs) = map_option (\<lambda>r. if P r then f r else r) (find Q rs)"
  using assms by (induction rs) auto

locale webhook_provider =
  fixes prov :: payment_provider
  assumes law_verify: "effect_free (verify_webhook prov body signature)"
    and law_handle: "keeps (\<lambda>w. payment_events w = es) (handle_webhook_event prov event)"
begin

lemma verified_event:
  assumes "process_webhook env prov body signature w = (Inr e, v)"
  obtains event where "\<And>u. verify_webhook prov body signature u = (Inr event, u)"
proof -
  obtain r where r: "\<And>u. verify_webhook prov body signature u = (r, u)"
    by (rule effect_freeE [OF law_verify [of body signature]]) (rule that)
  with assms obtain event where "r = Inr event"
    by (auto simp: process_webhook_def returns)
  with r that show thesis by blast
qed

text \<open>A processed event is answered from its row; nothing runs and nothing changes.\<close>

lemma processed_row_answers:
  assumes "\<And>u. verify_webhook prov body signature u = (Inr event, u)"
    and "event_row w (we_id event) = Some e" and "ev_processed e"
  shows "process_webhook env prov body signature w = (Inr e, w)"
  using assms by (simp add: process_webhook_def get_or_create_event_def run)

lemma processed_afterwards:
  assumes run: "process_webhook env prov body signature w = (Inr e, v)"
    and ver: "\<And>u. verify_webhook prov body signature u = (Inr event, u)"
  shows "\<exists>e'. event_row v (we_id event) = Some e' \<and> ev_processed e'"
proof -
  from run ver obtain x u where x: "get_or_create_event prov event w = (Inr x, u)"
    and rest: "(if ev_processed x then ret x
     else
       bnd (try_except (handle_webhook_event prov event) (\<lambda>exc.
              bnd (save_event x (\<lambda>y. y\<lparr>ev_error := StrOf exc\<rparr>)) (\<lambda>_.
              raise (Exn WebhookProcessingError (StrOf exc))))) (\<lambda>_.
       bnd (save_event x (mark_processed (now env))) (\<lambda>_.
       ret (mark_processed (now env) x)))) u = (Inr e, v)"
    by (auto simp: process_webhook_def bnd_returns)
  have row: "event_row u (we_id event) = Some x"
    using x by (auto simp: get_or_create_event_def event_row_def returns run_fresh_pk Let_def find_append
        split: option.splits)
  show ?thesis
  proof (cases "ev_processed x")
    case True
    with rest row show ?thesis by auto
  next
    case False
    with rest obtain t where t: "handle_webhook_event prov event u = (Inr (), t)"
      and v: "v = t\<lparr>payment_events := upd_rows (\<lambda>y. ev_id y = ev_id x) (mark_processed (now env)) (payment_events t)\<rparr>"
      by (auto simp: returns save_event_def)
    have "payment_events t = payment_events u"
      using keeps_run [OF law_handle [of "payment_events u"] refl t] .
    then show ?thesis
      using v row by (auto simp: event_row_def find_upd_rows_same mark_processed_def)
  qed
qed

lemma second_delivery:
  assumes "process_webhook env prov body signature w = (Inr e, v)"
  shows "\<exists>e'. process_webhook env' prov body signature v = (Inr e', v) \<and> ev_processed e'"
proof -
  obtain event where ver: "\<And>u. verify_webhook prov body signature u = (Inr event, u)"
    by (rule verified_event [OF assms]) (rule that)
  from processed_afterwards [OF assms ver] obtain e' where
    "event_row v (we_id event) = Some e'" "ev_processed e'" by blast
  with processed_row_answers [OF ver] show ?thesis by blast
qed

text \<open>
  A failing handler: the error is reported, and the note that was written about it is undone with
  everything else.
\<close>

lemma failed_delivery:
  assumes ver: "\<And>u. verify_webhook prov body signature u = (Inr event, u)"
    and new: "event_row w (we_id event) = None"
    and handle: "handle_webhook_event prov event (snd (get_or_create_event prov event w)) = (Inl exc, t)"
  shows "\<exists>b. process_webhook env prov body signature w =
     (Inl (Exn WebhookProcessingError (StrOf exc)), w\<lparr>broker := b\<rparr>)"
proof -
  obtain x u where x: "get_or_create_event prov event w = (Inr x, u)" "\<not> ev_processed x"
    using new by (simp add: get_or_create_event_def run_bnd run_fresh_pk Let_def)
  with handle have "bnd (verify_webhook prov body signature) (\<lambda>event.
     bnd (get_or_create_event prov event) (\<lambda>e.
     if ev_processed e then ret e
     else
       bnd (try_except (handle_webhook_event prov event) (\<lambda>exc.
              bnd (save_event e (\<lambda>x. x\<lparr>ev_error := StrOf exc\<rparr>)) (\<lambda>_.
              raise (Exn WebhookProcessingError (StrOf exc))))) (\<lambda>_.
       bnd (save_event e (mark_processed (now env))) (\<lambda>_.
       ret (mark_processed (now env) e))))) w =
      (Inl (Exn WebhookProcessingError (StrOf exc)),
       t\<lparr>payment_events := upd_rows (\<lambda>y. ev_id y = ev_id x) (\<lambda>y. y\<lparr>ev_error := StrOf exc\<rparr>) (payment_events t)\<rparr>)"
    by (simp add: run_bnd run_try_except ver save_event_def)
  then show ?thesis unfolding process_webhook_def run_atomic by auto
qed

end

interpretation zarinpal: webhook_provider "zarinpal_methods env" for env
proof unfold_locales
  show "effect_free (verify_webhook (zarinpal_methods env) body signature)" for body signature
    unfolding zarinpal_methods_def payment_provider.simps zarinpal_verify_webhook_def
    by (auto intro: effect_free_ret effect_free_raise split: payload.split option.split list.split)
  show "keeps (\<lambda>w. payment_events w = es) (handle_webhook_event (zarinpal_methods env) event)" for es event
    unfolding zarinpal_methods_def payment_provider.simps by (rule events_frame.keeps_zarinpal_handle)
qed

interpretation stripe: webhook_provider "stripe_methods env" for env
proof unfold_locales
  show "effect_free (verify_webhook (stripe_methods env) body signature)" for body signature
    unfolding stripe_methods_def payment_provider.simps stripe_verify_webhook_def
    by (intro effect_free_raise_if)
      (auto intro: effect_free_ret effect_free_raise split: stripe_verified.split)
  show "keeps (\<lambda>w. payment_events w = es) (handle_webhook_event (stripe_methods env) event)" for es event
    unfolding stripe_methods_def payment_provider.simps by (rule events_frame.keeps_stripe_handle)
qed

end
