(* ===== verification/PaymentProps.thy ===== *)
theory PaymentProps
  imports Webhooks
begin

text \<open>
  Properties of the payment services: callbacks are handled once, are paid for with a verified
  answer, and never undo a received payment; starting a checkout twice gives the same payment; the
  cleanup of a stale checkout is complete and idempotent; and the invariant of the whole lifecycle.
\<close>

section \<open>Callbacks are handled once\<close>

lemma zarinpal_callback_runs:
  "zarinpal_merchant_id env \<noteq> [] \<Longrightarrow>
   handle_zarinpal_callback env body = process_webhook env (zarinpal_methods env) body []"
  by (simp add: handle_zarinpal_callback_def zarinpal_provider_def raise_if_def del: run_ret)

text \<open>
  C7: once a Zarinpal callback has been handled, every later delivery of it, whatever the gateway
  would now answer, returns the processed event and changes nothing.
\<close>

theorem zarinpal_callback_once:
  assumes run: "handle_zarinpal_callback env body w = (Inr e, v)"
    and cfg: "zarinpal_merchant_id env' \<noteq> []"
  shows "\<exists>e'. handle_zarinpal_callback env' body v = (Inr e', v) \<and> ev_processed e'"
proof -
  have "zarinpal_merchant_id env \<noteq> []"
    using run by (auto simp: handle_zarinpal_callback_def zarinpal_provider_def returns)
  with run have run': "process_webhook env (zarinpal_methods env) body [] w = (Inr e, v)"
    by (simp add: zarinpal_callback_runs)
  obtain event where ver: "\<And>u. verify_webhook (zarinpal_methods env) body [] u = (Inr event, u)"
    by (rule zarinpal.verified_event [OF run']) (rule that)
  then have ver': "\<And>u. verify_webhook (zarinpal_methods env') body [] u = (Inr event, u)"
    by (simp add: zarinpal_methods_def)
  from zarinpal.processed_afterwards [OF run' ver] obtain e' where
    "event_row v (we_id event) = Some e'" "ev_processed e'" by blast
  with zarinpal.processed_row_answers [OF ver'] zarinpal_callback_runs [OF cfg] show ?thesis by auto
qed

text \<open>
  When the handling of a new Zarinpal event raises, the callback fails with
  \<open>WebhookProcessingError\<close>, and the event row with the \<open>processing_error\<close> that
  \<open>process_webhook\<close> saves just before is rolled back with the rest: no table remembers the event.
\<close>

theorem failed_callback_is_forgotten:
  assumes cfg: "zarinpal_merchant_id env \<noteq> []"
    and ver: "zarinpal_verify_webhook body [] w = (Inr event, w)"
    and new: "event_row w (we_id event) = None"
    and handle: "zarinpal_handle_webhook_event env event
        (snd (get_or_create_event (zarinpal_methods env) event w)) = (Inl exc, t)"
  shows "\<exists>v. handle_zarinpal_callback env body w =
      (Inl (Exn WebhookProcessingError (StrOf exc)), v) \<and>
    v = w\<lparr>broker := broker v\<rparr> \<and> event_row v (we_id event) = None"
proof -
  obtain r where r: "\<And>s. verify_webhook (zarinpal_methods env) body [] s = (r, s)"
    by (rule effect_freeE [OF zarinpal.law_verify [of env body "[]"]]) (rule that)
  have "r = Inr event" using r [of w] ver by (simp add: zarinpal_methods_def)
  with r have ver': "\<And>u. verify_webhook (zarinpal_methods env) body [] u = (Inr event, u)" by simp
  have handle': "handle_webhook_event (zarinpal_methods env) event
      (snd (get_or_create_event (zarinpal_methods env) event w)) = (Inl exc, t)"
    using handle by (simp add: zarinpal_methods_def)
  from zarinpal.failed_delivery [OF ver' new handle', of env] obtain b where
    "process_webhook env (zarinpal_methods env) body [] w =
      (Inl (Exn WebhookProcessingError (StrOf exc)), w\<lparr>broker := b\<rparr>)" by blast
  with new zarinpal_callback_runs [OF cfg] show ?thesis by (simp add: event_row_def)
qed

section \<open>Who can make an order paid\<close>

abbreviation unpaid :: "nat \<Rightarrow> world \<Rightarrow> bool" where
  "unpaid \<equiv> pay_in (- {PS_PAID, PS_CASH_RECEIVED})"

lemma unpaid_not_received: "unpaid k w \<Longrightarrow> \<not> received k w"
  by (auto simp: pay_in_def)

lemma unpaid_mark_failed: "keeps (unpaid k) (mark_failed j p m)"
  unfolding mark_failed_def mark_payment_failed_def by (intro pay_in_parts) auto

lemma other_mark_paid: "j \<noteq> k \<Longrightarrow> keeps (pay_in S k) (mark_paid j p)"
  unfolding mark_paid_def finalize_online_payment_def by (intro pay_in_parts) auto

lemma verify_or_message_returns:
  assumes "verify_or_message env od p a w = (Inr (Inr r), v)"
  shows "v = w \<and> int_of_money (pay_amount p) = int_of_money (ord_total od) \<and> 0 < r \<and>
    (\<exists>x. zarinpal_verify env a (int_of_money (ord_total od)) = Http_Json [] (Some 100) x (Some r))"
  using assms
  by (cases "zarinpal_verify env a (int_of_money (ord_total od))")
     (auto simp: verify_or_message_def zarinpal_verify_payment_def validate_order_payment_amount_def
       returns raises check_errors_def ZARINPAL_SUCCESS_CODE_def Let_def
       split: if_splits list.splits option.splits)

lemma verify_or_message_state: "verify_or_message env od p a w = (r, v) \<Longrightarrow> v = w"
  using keeps_run [OF keeps_verify_or_message [of "\<lambda>u. u = w"], of w] by auto

lemma zarinpal_handle_returns:
  assumes "zarinpal_handle_webhook_event env event w = (Inr (), v)"
  obtains authority p od where "json_str (dget (we_data event) ''authority'') = Some authority"
    and "payment_row w (pay_id p) = Some p" and "order_row w (pay_order p) = Some od"
    and "ord_id od = pay_order p" and "zarinpal_apply env (we_data event) authority p od w = (Inr (), v)"
proof -
  from assms obtain authority found t where a: "json_str (dget (we_data event) ''authority'') = Some authority"
    and found: "zarinpal_resolve_payment (we_data event) authority w = (Inr found, t)"
    and rest: "atomic (bnd (get_payment (pay_id found)) (\<lambda>p. bnd (get_order (pay_order p)) (\<lambda>od.
      zarinpal_apply env (we_data event) authority p od))) t = (Inr (), v)"
    unfolding zarinpal_handle_webhook_event_def Let_def bnd_returns get_or_raise_returns by blast
  have "t = w" using keeps_run [OF keeps_zarinpal_resolve [of "\<lambda>u. u = w"] refl found] .
  with rest obtain p od where p: "payment_row w (pay_id found) = Some p"
    and od: "order_row w (pay_order p) = Some od"
    and body: "zarinpal_apply env (we_data event) authority p od w = (Inr (), v)"
    unfolding atomic_Inr get_payment_def get_order_def bnd_returns get_or_raise_returns gets_returns
    by blast
  have "ord_id od = pay_order p" and "pay_id p = pay_id found"
    using od p by (auto simp: order_row_def payment_row_def dest: find_SomeD)
  with a p od body show thesis by (intro that) auto
qed

lemma unverified_stays_unpaid:
  assumes "\<not> ((\<exists>r. fst (verify_or_message env od p authority w) = Inr (Inr r)) \<and> pay_order p = k)"
    and "ord_id od = pay_order p" and "zarinpal_apply env data authority p od w = (Inr (), v)" and "unpaid k w"
  shows "unpaid k v"
proof -
  have "keeps (unpaid k) (bnd (verify_or_message env od p authority) (\<lambda>answer.
      case answer of
        Inl m \<Rightarrow> mark_failed (ord_id od) (pay_id p) m
      | Inr ref_id \<Rightarrow> zarinpal_record_verified od p authority ref_id)) \<or>
    (\<exists>m. verify_or_message env od p authority w = (Inr (Inl m), w)) \<or>
    (\<exists>e. verify_or_message env od p authority w = (Inl e, w))"
  proof (cases "pay_order p = k")
    case False
    then show ?thesis
      unfolding zarinpal_record_verified_def Let_def
      by (intro disjI1 keeps_bnd keeps_verify_or_message)
        (auto split: sum.split intro!: unpaid_mark_failed keeps_bnd keeps_pay_in_payment other_mark_paid simp: assms(2))
  next
    case True
    obtain x u where x: "verify_or_message env od p authority w = (x, u)" by fastforce
    then have "u = w" by (rule verify_or_message_state)
    with x True assms(1) show ?thesis by (cases x; cases "projr x") auto
  qed
  then show "unpaid k v"
    using assms(3,4) unfolding zarinpal_apply_def
    by (auto split: if_splits simp: run_bnd run_whenever dest: keeps_run [OF unpaid_mark_failed]
        keeps_run [OF keeps_pay_in_payment] keeps_run)
qed

text \<open>
  C3: an unpaid order becomes paid by a Zarinpal callback only if the gateway verified the
  callback's authority: it answered success code 100, no error and a positive reference, for exactly
  the order's total in rials, which is also the amount of the payment row.
\<close>

theorem paid_only_when_verified:
  assumes run: "zarinpal_handle_webhook_event env event w = (Inr (), v)"
    and before: "unpaid k w" and after: "received k v"
  shows "\<exists>od p authority ref x. order_row w k = Some od \<and> payment_row w (pay_id p) = Some p \<and>
    pay_order p = k \<and> dget (we_data event) ''authority'' = JStr authority \<and>
    int_of_money (pay_amount p) = int_of_money (ord_total od) \<and> 0 < ref \<and>
    zarinpal_verify env authority (int_of_money (ord_total od)) =
      Http_Json [] (Some ZARINPAL_SUCCESS_CODE) x (Some ref)"
proof (rule zarinpal_handle_returns [OF run])
  fix authority p od
  let ?d = "we_data event"
  assume a: "json_str (dget ?d ''authority'') = Some authority"
    and p: "payment_row w (pay_id p) = Some p" and od: "order_row w (pay_order p) = Some od"
    and id: "ord_id od = pay_order p" and body: "zarinpal_apply env ?d authority p od w = (Inr (), v)"
  show ?thesis
  proof (cases "(\<exists>r. fst (verify_or_message env od p authority w) = Inr (Inr r)) \<and> pay_order p = k")
    case True
    then obtain r where r: "verify_or_message env od p authority w = (Inr (Inr r), w)" and k: "pay_order p = k"
      by (metis prod.collapse verify_or_message_state)
    from a have "dget ?d ''authority'' = JStr authority" by (auto elim: json_str.elims)
    with verify_or_message_returns [OF r] od p k show ?thesis
      unfolding ZARINPAL_SUCCESS_CODE_def by blast
  next
    case False
    from unverified_stays_unpaid [OF this id body before] after unpaid_not_received show ?thesis by blast
  qed
qed

section \<open>A received payment stays received\<close>

text \<open>The transaction around an event keeps what its handler keeps and the event table does not hold.\<close>

lemma keeps_process_webhook:
  assumes "of_tables I" and "\<And>w es. I (w\<lparr>payment_events := es\<rparr>) = I w"
    and "\<And>w. I w \<Longrightarrow> I (w\<lparr>next_pk := Suc (next_pk w)\<rparr>)"
    and "keeps I (verify_webhook prov body signature)" and "\<And>event. keeps I (handle_webhook_event prov event)"
  shows "keeps I (process_webhook env prov body signature)"
  unfolding process_webhook_def get_or_create_event_def save_event_def Let_def
  by (intro keeps_atomic keeps_intros keeps_fresh_pk_if keeps_modifies assms) (simp_all add: assms)

lemma keeps_zarinpal_verify: "keeps J (verify_webhook (zarinpal_methods env) body signature)"
  by (rule effect_freeE [OF zarinpal.law_verify [of env body signature]]) (simp add: keeps_def)

lemma keeps_stripe_verify: "keeps J (verify_webhook (stripe_methods env) body signature)"
  by (rule effect_freeE [OF stripe.law_verify [of env body signature]]) (simp add: keeps_def)

lemma keeps_zarinpal_callback:
  assumes "of_tables I" and "\<And>w es. I (w\<lparr>payment_events := es\<rparr>) = I w"
    and "\<And>w. I w \<Longrightarrow> I (w\<lparr>next_pk := Suc (next_pk w)\<rparr>)"
    and "\<And>event. keeps I (zarinpal_handle_webhook_event env event)"
  shows "keeps I (handle_zarinpal_callback env body)"
  unfolding handle_zarinpal_callback_def zarinpal_provider_def
  by (intro keeps_bnd_returned keeps_intros)
    (auto simp: returns zarinpal_methods_def intro!: keeps_process_webhook assms
      keeps_zarinpal_verify [unfolded zarinpal_methods_def])

lemma keeps_stripe_webhook:
  assumes "of_tables I" and "\<And>w es. I (w\<lparr>payment_events := es\<rparr>) = I w"
    and "\<And>w. I w \<Longrightarrow> I (w\<lparr>next_pk := Suc (next_pk w)\<rparr>)"
    and "\<And>event. keeps I (stripe_handle_webhook_event event)"
  shows "keeps I (handle_stripe_webhook env body signature)"
  unfolding handle_stripe_webhook_def stripe_provider_def
  by (intro keeps_bnd_returned keeps_intros)
    (auto simp: returns stripe_methods_def intro!: keeps_process_webhook assms
      keeps_stripe_verify [unfolded stripe_methods_def])

lemma pay_in_get_order_any:
  assumes "\<And>od. keeps I (f od)"
  shows "keeps I (bnd (get_order j) f)"
  using assms by (intro keeps_intros)

lemma received_zarinpal_handle: "keeps (received k) (zarinpal_handle_webhook_event env event)"
  unfolding zarinpal_handle_webhook_event_def zarinpal_apply_def zarinpal_record_verified_def Let_def
  by (intro keeps_bnd [OF keeps_get_or_raise] keeps_bnd [OF keeps_zarinpal_resolve]
      keeps_atomic of_tables_pay_in keeps_bnd [OF keeps_get_payment] pay_in_get_order_any keeps_if
      keeps_ret keeps_whenever keeps_pay_in_payment received_mark_failed
      keeps_bnd [OF keeps_verify_or_message])
    (auto split: sum.split intro!: received_mark_failed keeps_bnd keeps_pay_in_payment received_mark_paid)

lemma received_stripe_handlers:
  "keeps (received k) (stripe_checkout_completed data)"
  "keeps (received k) (stripe_checkout_expired data)"
  "keeps (received k) (stripe_payment_failed data)"
  unfolding stripe_checkout_completed_def stripe_checkout_expired_def stripe_payment_failed_def Let_def
  by (intro keeps_bnd [OF keeps_stripe_payment_from_event] keeps_atomic of_tables_pay_in
      keeps_bnd [OF keeps_get_payment] pay_in_get_order_any keeps_if keeps_ret keeps_pay_in_payment
      keeps_bnd [OF keeps_dget_dict] keeps_bnd received_mark_failed received_mark_paid
      received_mark_cancelled)+

lemma may_refund: "keeps (pay_in {PS_PAID, PS_CASH_RECEIVED, PS_REFUND_PROCESSED} k) (stripe_charge_refunded data)"
  unfolding stripe_charge_refunded_def process_refund_def payment_process_refund_def
  by (intro keeps_bnd [OF keeps_get_payment_where] pay_in_parts) auto

text \<open>
  Stripe's webhook, for an event that is not a refund and for any event: the handler that runs is
  the one of the event that the signature check returned.
\<close>

lemma keeps_stripe_delivery:
  assumes "of_tables I" and "\<And>w es. I (w\<lparr>payment_events := es\<rparr>) = I w"
    and "\<And>w. I w \<Longrightarrow> I (w\<lparr>next_pk := Suc (next_pk w)\<rparr>)"
    and "\<And>i t d. stripe_construct env body signature = Stripe_Event i t d \<Longrightarrow>
      keeps I (stripe_handle_webhook_event \<lparr>we_id = i, we_type = t, we_data = d\<rparr>)"
  shows "keeps I (handle_stripe_webhook env body signature)"
proof -
  have event: "keeps I (bnd (stripe_verify_webhook env body signature) f)"
    if f: "\<And>i t d. stripe_construct env body signature = Stripe_Event i t d \<Longrightarrow>
      keeps I (f \<lparr>we_id = i, we_type = t, we_data = d\<rparr>)" for f :: "webhook_event \<Rightarrow> payment_event P"
    using f unfolding stripe_verify_webhook_def
    by (cases "stripe_construct env body signature")
      (auto simp: keeps_def run_bnd raise_if_def split: sum.splits)
  show ?thesis
    unfolding handle_stripe_webhook_def stripe_provider_def
    by (intro keeps_bnd_returned keeps_intros)
      (auto simp: returns stripe_methods_def process_webhook_def get_or_create_event_def
        save_event_def Let_def assms(2)
        intro!: keeps_atomic event keeps_intros keeps_fresh_pk_if keeps_modifies assms)
qed

lemma pay_in_event_rows:
  "pay_in S k (w\<lparr>payment_events := es\<rparr>) = pay_in S k w"
  "pay_in S k (w\<lparr>next_pk := n\<rparr>) = pay_in S k w"
  by (simp_all add: pay_in_def order_row_def)

lemma received_stripe_event:
  "we_type event \<noteq> ''charge.refunded'' \<Longrightarrow> keeps (received k) (stripe_handle_webhook_event event)"
  unfolding stripe_handle_webhook_event_def by (simp add: received_stripe_handlers keeps_ret)

lemma may_refund_event:
  "we_type event = ''charge.refunded'' \<Longrightarrow>
   keeps (pay_in {PS_PAID, PS_CASH_RECEIVED, PS_REFUND_PROCESSED} k) (stripe_handle_webhook_event event)"
  unfolding stripe_handle_webhook_event_def by (simp add: may_refund)

text \<open>What can happen to the payment of an order after it was received.\<close>

datatype pay_call =
    Zarinpal_Callback payload | Stripe_Webhook payload string
  | Stripe_Completed dict | Stripe_Expired dict | Stripe_Failed dict | Stripe_Refunded dict
  | Mark_Paid nat nat | Mark_Failed nat nat message | Mark_Cancelled nat nat message
  | Cleanup "int option"

fun pay_step :: "env \<Rightarrow> pay_call \<Rightarrow> world \<Rightarrow> world" where
  "pay_step env (Zarinpal_Callback b) w = snd (handle_zarinpal_callback env b w)"
| "pay_step env (Stripe_Webhook b s) w = snd (handle_stripe_webhook env b s w)"
| "pay_step env (Stripe_Completed d) w = snd (stripe_checkout_completed d w)"
| "pay_step env (Stripe_Expired d) w = snd (stripe_checkout_expired d w)"
| "pay_step env (Stripe_Failed d) w = snd (stripe_payment_failed d w)"
| "pay_step env (Stripe_Refunded d) w = snd (stripe_charge_refunded d w)"
| "pay_step env (Mark_Paid k p) w = snd (mark_paid k p w)"
| "pay_step env (Mark_Failed k p m) w = snd (mark_failed k p m w)"
| "pay_step env (Mark_Cancelled k p m) w = snd (mark_cancelled k p m w)"
| "pay_step env (Cleanup t) w = snd (cleanup_stale_online_payments env t w)"

fun pay_run :: "(env \<times> pay_call) list \<Rightarrow> world \<Rightarrow> world" where
  "pay_run [] w = w"
| "pay_run ((env, c) # cs) w = pay_run cs (pay_step env c w)"

text \<open>The calls that deliver a refund: Stripe's \<open>charge.refunded\<close>, by itself or as a verified webhook.\<close>

fun refund_call :: "env \<Rightarrow> pay_call \<Rightarrow> bool" where
  "refund_call env (Stripe_Refunded d) \<longleftrightarrow> True"
| "refund_call env (Stripe_Webhook b s) \<longleftrightarrow>
     (case stripe_construct env b s of Stripe_Event i t d \<Rightarrow> t = ''charge.refunded'' | _ \<Rightarrow> False)"
| "refund_call env c \<longleftrightarrow> False"

lemma received_pay_step:
  assumes "received k w" and "\<not> refund_call env c"
  shows "received k (pay_step env c w)"
proof (cases c)
  case (Zarinpal_Callback b)
  have "keeps (received k) (handle_zarinpal_callback env b)"
    by (intro keeps_zarinpal_callback of_tables_pay_in received_zarinpal_handle)
      (simp_all add: pay_in_def order_row_def)
  with assms Zarinpal_Callback show ?thesis by (simp add: keepsD)
next
  case (Stripe_Webhook b s)
  have "keeps (received k) (handle_stripe_webhook env b s)"
    using assms(2) Stripe_Webhook
    by (intro keeps_stripe_delivery of_tables_pay_in received_stripe_event)
      (simp_all add: pay_in_event_rows)
  with assms Stripe_Webhook show ?thesis by (simp add: keepsD)
qed (use assms in \<open>simp_all add: received_stripe_handlers [THEN keepsD] received_mark_paid [THEN keepsD]
      received_mark_failed [THEN keepsD] received_mark_cancelled [THEN keepsD]
      received_cleanups [THEN keepsD]\<close>)

lemma refund_pay_step:
  assumes "received k w" and "refund_call env c"
  shows "pay_in {PS_PAID, PS_CASH_RECEIVED, PS_REFUND_PROCESSED} k (pay_step env c w)"
proof -
  let ?I = "pay_in {PS_PAID, PS_CASH_RECEIVED, PS_REFUND_PROCESSED} k"
  have w: "?I w" using assms(1) by (auto simp: pay_in_def)
  show ?thesis
  proof (cases c)
    case (Stripe_Webhook b s)
    have "keeps ?I (handle_stripe_webhook env b s)"
      using assms(2) Stripe_Webhook
      by (intro keeps_stripe_delivery of_tables_pay_in may_refund_event)
        (simp_all add: pay_in_event_rows)
    with w Stripe_Webhook show ?thesis by (simp add: keepsD)
  qed (use assms w may_refund [THEN keepsD] in auto)
qed

lemma received_or_refunded_step:
  "received k w \<Longrightarrow> \<not> received k (pay_step env c w) \<Longrightarrow>
   refund_call env c \<and> pay_in {PS_REFUND_PROCESSED} k (pay_step env c w)"
  using received_pay_step [of k w env c] refund_pay_step [of k w env c] by (auto simp: pay_in_def)

lemma received_or_refunded:
  "received k w \<Longrightarrow> received k (pay_run cs w) \<or>
   (\<exists>xs env c ys. cs = xs @ (env, c) # ys \<and> refund_call env c \<and>
     received k (pay_run xs w) \<and> pay_in {PS_REFUND_PROCESSED} k (pay_run (xs @ [(env, c)]) w))"
proof (induction cs arbitrary: w)
  case (Cons e cs)
  obtain env c where e: "e = (env, c)" by fastforce
  show ?case
  proof (cases "received k (pay_step env c w)")
    case True
    from Cons.IH [OF this] show ?thesis
    proof (elim disjE exE conjE)
      fix xs env' c' ys
      assume "cs = xs @ (env', c') # ys" and "refund_call env' c'"
        and "received k (pay_run xs (pay_step env c w))"
        and "pay_in {PS_REFUND_PROCESSED} k (pay_run (xs @ [(env', c')]) (pay_step env c w))"
      then show ?thesis
        by (intro disjI2 exI [of _ "e # xs"] exI [of _ env'] exI [of _ c'] exI [of _ ys])
          (simp add: e)
    qed (simp add: e)
  next
    case False
    from received_or_refunded_step [OF Cons.prems this] Cons.prems show ?thesis
      by (intro disjI2 exI [of _ "[]"] exI [of _ env] exI [of _ c] exI [of _ cs]) (simp add: e)
  qed
qed simp

text \<open>
  C2: an order whose payment was received, online or in cash, keeps a received payment status
  through any sequence of gateway callbacks and webhooks, late failure or cancellation reports and
  cleanups, of this and of other orders, in any order and however often they are delivered, unless
  one of them is a refund that Stripe reports (\<open>charge.refunded\<close>) and the order's payment status
  then becomes \<open>REFUND_PROCESSED\<close>, directly from a received one.
\<close>

theorem received_payment_is_not_undone:
  assumes "order_row w k = Some od" and "ord_payment_status od \<in> {PS_PAID, PS_CASH_RECEIVED}"
  shows "(\<exists>od'. order_row (pay_run cs w) k = Some od' \<and>
      ord_payment_status od' \<in> {PS_PAID, PS_CASH_RECEIVED}) \<or>
    (\<exists>xs env c ys. cs = xs @ (env, c) # ys \<and> refund_call env c \<and> received k (pay_run xs w) \<and>
      pay_in {PS_REFUND_PROCESSED} k (pay_run (xs @ [(env, c)]) w))"
  using received_or_refunded [of k w cs] assms by (auto simp: pay_in_def)

end
