(* ===== verification/CleanupProps.thy ===== *)
theory CleanupProps
  imports PaymentProps
begin

text \<open>
  What the cleanup of a stale online checkout achieves, where its timeout argument does not
  reach, and starting the same checkout twice.
\<close>

section \<open>Effects of failing an order\<close>

lemma set_payment_status_returns:
  assumes "set_payment_status od st w = (Inr x, v)"
  shows "x = od\<lparr>ord_payment_status := st\<rparr> \<and>
    (\<exists>t b. v = w\<lparr>orders := upd_rows (\<lambda>r. ord_id r = ord_id od) (f_payment_status x) (orders w),
        task_logs := t, broker := broker w @ b\<rparr>)"
proof -
  from assms have x: "x = od\<lparr>ord_payment_status := st\<rparr>"
    and save: "save_order x f_payment_status w = (Inr (), v)"
    by (auto simp: set_payment_status_def Let_def returns)
  from save_order_run [OF save] save show ?thesis
    by (auto simp: x save_order_def split: option.splits)
qed

lemma set_payment_status_row:
  assumes "set_payment_status od st w = (Inr x, v)" and "order_row w (ord_id od) = Some row"
  shows "order_row v (ord_id od) = Some (row\<lparr>ord_payment_status := st\<rparr>)"
proof -
  from set_payment_status_returns [OF assms(1)] have x: "x = od\<lparr>ord_payment_status := st\<rparr>"
    and "orders v = upd_rows (\<lambda>r. ord_id r = ord_id od) (f_payment_status x) (orders w)" by auto
  then show ?thesis
    using assms(2) by (simp add: order_row_def find_upd_rows f_payment_status_def)
qed

lemma set_payment_status_tables:
  assumes "set_payment_status od st w = (Inr x, v)"
  shows "payments v = payments w" and "reservations v = reservations w" and "carts v = carts w"
  using set_payment_status_returns [OF assms] by auto

lemma transition_row:
  assumes "transition k new note actor w = (Inr x, v)" and "order_row w k = Some od"
  shows "order_row v k = Some (od\<lparr>ord_status := new\<rparr>)"
  using assms(1)
proof (cases rule: transition_returns)
  case (1 od')
  with assms(2) show ?thesis by auto
next
  case (2 od' t b)
  with assms(2) show ?thesis
    by (simp add: order_row_def find_upd_rows f_status_def)
qed

lemma transition_tables:
  assumes "transition k new note actor w = (Inr x, v)"
  shows "payments v = payments w" and "reservations v = reservations w" and "carts v = carts w"
  using assms by (auto elim: transition_returns)

lemma release_tables:
  assumes "stock_ok w" and "release_reservations k w = (Inr (), v)"
  shows "orders v = orders w" and "payments v = payments w" and "carts v = carts w"
    and "\<And>r. r \<in> set (reservations v) \<Longrightarrow> res_order r = Some k \<Longrightarrow> \<not> live r"
proof -
  show "orders v = orders w" and "payments v = payments w"
    using keeps_run [OF sales_frame.keeps_release _ assms(2)] by blast+
  show "carts v = carts w"
    using keeps_run [OF carts_frame.keeps_release _ assms(2)] by blast
  obtain u where u: "release_reservations k w = (Inr (), u)"
    "\<forall>r. r \<in> set (reservations u) \<longrightarrow> res_order r = Some k \<longrightarrow> \<not> live r"
    using release_reservations_effect [OF assms(1)] by blast
  then show "\<And>r. r \<in> set (reservations v) \<Longrightarrow> res_order r = Some k \<Longrightarrow> \<not> live r"
    using assms(2) by auto
qed

lemma mark_payment_failed_effect:
  assumes ok: "stock_ok w" and row: "order_row w k = Some od"
    and "ord_payment_status od \<notin> {PS_PAID, PS_CASH_RECEIVED}"
    and "ord_status od \<notin> {S_CANCELLED, S_REFUNDED}"
    and run: "mark_payment_failed k reason actor w = (Inr x, v)"
  shows "order_row v k = Some (od\<lparr>ord_payment_status := PS_FAILED, ord_status := S_CANCELLED\<rparr>)"
    and "payments v = payments w" and "carts v = carts w"
    and "\<And>r. r \<in> set (reservations v) \<Longrightarrow> res_order r = Some k \<Longrightarrow> \<not> live r"
proof -
  have id: "ord_id od = k" using row by (auto simp: order_row_def dest: find_SomeD)
  from run assms(3,4) row obtain u1 od' u2 y where 1: "release_reservations k w = (Inr (), u1)"
    and 2: "set_payment_status od PS_FAILED u1 = (Inr od', u2)"
    and 3: "transition k S_CANCELLED reason actor u2 = (Inr y, v)"
    by (auto simp: mark_payment_failed_def get_order_def returns simp del: One_nat_def)
  note r = release_tables [OF ok 1]
  have "order_row u1 (ord_id od) = Some od" using row r(1) id by (simp add: order_row_def)
  from transition_row [OF 3, of "od\<lparr>ord_payment_status := PS_FAILED\<rparr>"] set_payment_status_row [OF 2 this] id
  show "order_row v k = Some (od\<lparr>ord_payment_status := PS_FAILED, ord_status := S_CANCELLED\<rparr>)" by simp
  show "payments v = payments w" "carts v = carts w"
    using transition_tables [OF 3] set_payment_status_tables [OF 2] r by simp_all
  show "\<And>r. r \<in> set (reservations v) \<Longrightarrow> res_order r = Some k \<Longrightarrow> \<not> live r"
    using transition_tables [OF 3] set_payment_status_tables [OF 2] r(4) by simp
qed

lemma stock_ok_payments [simp]: "stock_ok (w\<lparr>payments := ps\<rparr>) = stock_ok w"
  by (simp add: stock_ok_def rows_ok_def)

lemma mark_failed_effect:
  assumes ok: "stock_ok w" and row: "order_row w k = Some od" and pm: "payment_row w p = Some pm"
    and od: "ord_payment_status od \<notin> {PS_PAID, PS_CASH_RECEIVED}"
      "ord_status od \<notin> {S_CANCELLED, S_REFUNDED}" and unsettled: "pay_status pm \<noteq> P_SUCCEEDED"
    and run: "mark_failed k p m w = (Inr (), v)"
  shows "order_row v k = Some (od\<lparr>ord_payment_status := PS_FAILED, ord_status := S_CANCELLED\<rparr>)"
    and "payment_row v p = Some (settle_row P_FAILED m pm)" and "carts v = carts w"
    and "\<And>r. r \<in> set (reservations v) \<Longrightarrow> res_order r = Some k \<Longrightarrow> \<not> live r"
proof -
  let ?w = "w\<lparr>payments := upd_rows (\<lambda>x. pay_id x = pay_id pm) (settle_row P_FAILED m) (payments w)\<rparr>"
  have id: "pay_id pm = p" using pm by (auto simp: payment_row_def dest: find_SomeD)
  from run od unsettled row pm obtain x where x: "mark_payment_failed k m ''payment_webhook'' ?w = (Inr x, v)"
    by (auto simp: mark_failed_def get_order_def get_payment_def order_has_successful_payment_def
        save_payment_def returns)
  have "order_row ?w k = Some od" using row by (simp add: order_row_def)
  note eff = mark_payment_failed_effect [OF _ this od x]
  have "payment_row ?w p = Some (settle_row P_FAILED m pm)"
    using pm id by (simp add: payment_row_def find_upd_rows settle_row_def)
  then show "payment_row v p = Some (settle_row P_FAILED m pm)"
    using eff(2) ok by (simp add: payment_row_def)
  show "order_row v k = Some (od\<lparr>ord_payment_status := PS_FAILED, ord_status := S_CANCELLED\<rparr>)"
    "carts v = carts w" "\<And>r. r \<in> set (reservations v) \<Longrightarrow> res_order r = Some k \<Longrightarrow> \<not> live r"
    using eff ok by simp_all
qed

lemma cleanup_skips_settled:
  assumes "payment_row w p = Some pm" and "order_row w (pay_order pm) = Some od"
    and "pay_provider pm \<in> ONLINE_PROVIDERS" and "pay_status pm \<notin> STALE_PAYMENT_STATUSES"
  shows "cleanup_stale_online_payment env p w = (Inr Skipped_Payment_Status, w)"
  using assms by (simp add: cleanup_stale_online_payment_def get_order_def run)

text \<open>
  C11: when the cleanup reports a stale checkout as cleaned, its payment is failed, its order is
  cancelled with a failed payment status, no live reservation of the order is left, no cart is
  still locked by it, and cleaning it again, at any later time, changes nothing.
\<close>

theorem cleaned_checkout_is_closed:
  assumes ok: "stock_ok w" and run: "cleanup_stale_online_payment env p w = (Inr Cleaned, v)"
  shows "\<exists>pm od. payment_row v p = Some pm \<and> pay_status pm = P_FAILED \<and>
    order_row v (pay_order pm) = Some od \<and> ord_status od = S_CANCELLED \<and>
    ord_payment_status od = PS_FAILED \<and>
    (\<forall>r. r \<in> set (reservations v) \<longrightarrow> res_order r = Some (ord_id od) \<longrightarrow> \<not> live r) \<and>
    (\<forall>c. c \<in> set (carts v) \<longrightarrow> cart_active_order c \<noteq> Some (ord_id od)) \<and>
    cleanup_stale_online_payment env' p v = (Inr Skipped_Payment_Status, v)"
proof -
  from run obtain pm od u where pm: "payment_row w p = Some pm" and od: "order_row w (pay_order pm) = Some od"
    and prov: "pay_provider pm \<in> ONLINE_PROVIDERS" and unsettled: "pay_status pm \<in> STALE_PAYMENT_STATUSES"
    and free: "ord_payment_status od \<notin> {PS_PAID, PS_CASH_RECEIVED}"
      "ord_status od \<notin> {S_CANCELLED, S_REFUNDED, S_DELIVERED}"
    and fail: "mark_failed (ord_id od) (pay_id pm) cleanup_message w = (Inr (), u)"
    and v: "v = u\<lparr>carts := upd_rows (\<lambda>c. cart_active_order c = Some (ord_id od))
        (\<lambda>c. c\<lparr>cart_active_order := None\<rparr>) (carts u)\<rparr>"
    by (auto simp: cleanup_stale_online_payment_def clear_cart_checkout_lock_def get_order_def returns
        split: option.splits if_splits)
  have id: "ord_id od = pay_order pm" "pay_id pm = p"
    using od pm by (auto simp: order_row_def payment_row_def dest: find_SomeD)
  have "order_row w (ord_id od) = Some od" "payment_row w (pay_id pm) = Some pm"
    "pay_status pm \<noteq> P_SUCCEEDED" "ord_status od \<notin> {S_CANCELLED, S_REFUNDED}"
    using od pm id unsettled free by (auto simp: STALE_PAYMENT_STATUSES_def)
  note eff = mark_failed_effect [OF ok this(1,2) free(1) this(4,3) fail]
  let ?pm = "settle_row P_FAILED cleanup_message pm"
  have rows: "payment_row v p = Some ?pm" "order_row v (pay_order ?pm) =
      Some (od\<lparr>ord_payment_status := PS_FAILED, ord_status := S_CANCELLED\<rparr>)"
    using eff(1,2) id v by (simp_all add: payment_row_def order_row_def settle_row_def)
  have "cleanup_stale_online_payment env' p v = (Inr Skipped_Payment_Status, v)"
    by (rule cleanup_skips_settled [OF rows]) (use prov in \<open>simp_all add: settle_row_def STALE_PAYMENT_STATUSES_def\<close>)
  moreover have "cart_active_order c \<noteq> Some (ord_id od)" if "c \<in> set (carts v)" for c
    using that v by (auto simp: set_upd_rows)
  ultimately show ?thesis
    using rows eff(4) id v by (intro exI [of _ ?pm]) (auto simp: settle_row_def)
qed

text \<open>
  \<open>cleanup_stale_online_payments(timeout_minutes=t)\<close> selects payments by the timeout it is
  given, but each of them is then judged by the default of thirty minutes: with a shorter timeout,
  a payment younger than thirty minutes is examined and skipped as fresh, and nothing is cleaned.
\<close>

theorem short_timeout_cleans_nothing_younger:
  assumes row: "payment_row w p = Some pm"
    and sel: "is_stale_online_payment (get_stale_online_payment_cutoff env (Some t)) w pm"
    and young: "get_stale_online_payment_cutoff env None \<le> pay_created_at pm"
  shows "cleanup_stale_online_payment env p w = (Inr Skipped_Fresh, w)"
  using assms by (auto simp: cleanup_stale_online_payment_def is_stale_online_payment_def get_order_def
      run split: option.splits)

section \<open>Starting a checkout twice\<close>

definition payments_ok :: "world \<Rightarrow> bool" where
  "payments_ok w \<longleftrightarrow> (\<forall>p\<in>set (payments w). pay_id p < next_pk w)"

lemma zarinpal_create_returns:
  assumes "zarinpal_create_checkout_session env od p w = (Inr s, v)"
    and "\<And>e c r. zarinpal_request env (pay_id p) (int_of_money (ord_total od)) \<noteq> Http_Json e c (Some []) r"
  shows "v = w \<and> cs_session_id s \<noteq> [] \<and> cs_url s \<noteq> []"
proof -
  have "v = w" using keeps_run [OF keeps_zarinpal_create [of "\<lambda>u. u = w"] refl assms(1)] .
  moreover have "cs_session_id s \<noteq> [] \<and> cs_url s \<noteq> []"
    using assms(1) assms(2) [of "[]" "Some ZARINPAL_SUCCESS_CODE"]
    by (cases "zarinpal_request env (pay_id p) (int_of_money (ord_total od))";
        auto simp: zarinpal_create_checkout_session_def validate_order_payment_amount_def
          zarinpal_request_payment_def check_errors_def returns Let_def api_base_def
          split: list.splits option.splits if_splits; metis)
  ultimately show ?thesis by blast
qed

definition reusable :: "nat \<Rightarrow> payment \<Rightarrow> bool" where
  "reusable k p \<longleftrightarrow> pay_order p = k \<and> pay_provider p = PV_ZARINPAL \<and>
     pay_status p = P_PROCESSING \<and> pay_session_id p \<noteq> [] \<and> pay_checkout_url p \<noteq> []"

lemma get_reusable_run:
  "get_reusable_zarinpal_payment k w = (Inr (latest (reusable k) (payments w)), w)"
proof -
  have "latest (reusable k) (payments w) = Some p \<Longrightarrow> has_active_zarinpal_checkout p" for p
    using latest_SomeD [of "reusable k"] by (fastforce simp: reusable_def has_active_zarinpal_checkout_def)
  then show ?thesis
    by (auto simp: get_reusable_zarinpal_payment_def reusable_def [abs_def, symmetric] run_bnd
        reusable_def [symmetric] split: option.split)
qed

text \<open>An order with an active checkout for its total gets that checkout.\<close>

lemma initiate_online_reuses:
  assumes "default_payment_provider env = PV_ZARINPAL" and "zarinpal_merchant_id env \<noteq> []"
    and "str_lower (online_payment_currency env) = ''irr''"
    and "order_row w k = Some od" and "ord_payment_status od \<notin> {PS_PAID, PS_CASH_RECEIVED}"
    and "latest (reusable k) (payments w) = Some p" and "pay_amount p = ord_total od"
    and "str_lower (pay_currency p) = ''irr''"
  shows "initiate_online env get_online_payment_provider k w = (Inr p, w)"
  using assms by (simp add: initiate_online_def get_order_def get_online_payment_provider_def
      zarinpal_provider_def zarinpal_methods_def get_reusable_run run Let_def)

lemma save_new_payment:
  assumes "payments_ok w" and "payments u = payments w @ [p]" and "pay_id p = next_pk w"
    and "save_payment p f u = (Inr (), v)"
  shows "v = u\<lparr>payments := payments w @ [f p]\<rparr>"
proof -
  have "upd_rows (\<lambda>x. pay_id x = pay_id p) f (payments w) = payments w"
    using assms(1,3) by (intro upd_rows_none) (auto simp: payments_ok_def)
  then show ?thesis
    using assms(2,4) by (auto simp: save_payment_def returns upd_rows_def)
qed

lemma lower_irr: "str_lower ''irr'' = ''irr''"
  by code_simp

text \<open>
  C10: with Zarinpal as the payment provider, starting the online payment of an order a second time, under the
  same settings, returns the payment, session and checkout address of the first call and changes nothing: a
  repeated click does not open a second checkout at the gateway. The gateway is taken to answer no checkout with
  an empty authority. With Stripe a payment is never reused, so the second call opens a second checkout.
\<close>

theorem initiate_online_twice:
  assumes ok: "payments_ok w"
    and z: "default_payment_provider env = PV_ZARINPAL"
    and answer: "\<And>j a e c r. zarinpal_request env j a \<noteq> Http_Json e c (Some []) r"
    and call: "initiate_online env get_online_payment_provider k w = (Inr p, v)"
  shows "initiate_online env get_online_payment_provider k v = (Inr p, v)"
proof -
  from call obtain od where od: "order_row w k = Some od"
    by (auto simp: initiate_online_def get_order_def bnd_returns get_or_raise_returns)
  have prov: "provider_name (zarinpal_methods env) = PV_ZARINPAL"
    "create_checkout_session (zarinpal_methods env) = zarinpal_create_checkout_session env"
    by (simp_all add: zarinpal_methods_def)
  let ?M = "zarinpal_merchant_id env \<noteq> [] \<and> str_lower (online_payment_currency env) = ''irr'' \<and>
    ord_payment_status od \<notin> {PS_PAID, PS_CASH_RECEIVED}"
  have guards: ?M
    using call z od by (auto simp: initiate_online_def get_order_def get_online_payment_provider_def
        zarinpal_provider_def run Let_def split: if_splits)
  have id: "ord_id od = k" using od by (auto simp: order_row_def dest: find_SomeD)
  note again = initiate_online_reuses [OF z]
  show ?thesis
  proof (cases "latest (reusable k) (payments w)")
    case (Some q)
    with call z od guards have "q = p" "v = w" "pay_amount q = ord_total od" "str_lower (pay_currency q) = ''irr''"
      by (auto simp: initiate_online_def get_order_def get_online_payment_provider_def
          zarinpal_provider_def run prov get_reusable_run Let_def split: if_splits)
    with again od guards Some show ?thesis by simp
  next
    case None
    with call z od guards have opened: "open_checkout env (zarinpal_methods env) od ''irr'' w = (Inr p, v)"
      by (auto simp: initiate_online_def get_order_def get_online_payment_provider_def
          zarinpal_provider_def run prov get_reusable_run Let_def split: prod.splits sum.splits)
    define q where "q = \<lparr>pay_id = next_pk w, pay_order = k, pay_provider = PV_ZARINPAL,
      pay_status = P_PENDING, pay_amount = ord_total od, pay_currency = ''irr'',
      pay_provider_payment_id = [], pay_session_id = [], pay_checkout_url = [],
      pay_failure_message = Text [], pay_metadata = [], pay_created_at = now env\<rparr>"
    let ?u = "w\<lparr>next_pk := Suc (next_pk w), payments := payments w @ [q]\<rparr>"
    have create: "create_payment env od PV_ZARINPAL ''irr'' [] w = (Inr q, ?u)"
      by (simp add: create_payment_def run_bnd run_fresh_pk Let_def q_def id)
    from opened create obtain session u1 u2 x where
      s: "zarinpal_create_checkout_session env od q ?u = (Inr session, u1)"
      and save: "save_payment q (open_session session) u1 = (Inr (), u2)"
      and pend: "set_payment_status od PS_PENDING_PAYMENT u2 = (Inr x, v)"
      and p: "p = open_session session q"
      unfolding open_checkout_def prov bnd_returns ret_returns by auto
    from zarinpal_create_returns [OF s] answer have u1: "u1 = ?u" and url: "cs_session_id session \<noteq> []"
      "cs_url session \<noteq> []" by auto
    have u2: "u2 = u1\<lparr>payments := payments w @ [p]\<rparr>"
      using save_new_payment [OF ok _ _ save] by (simp add: u1 q_def p)
    have "order_row u2 (ord_id od) = Some od" using od id by (simp add: u2 u1 order_row_def)
    from set_payment_status_row [OF pend this] have row:
      "order_row v k = Some (od\<lparr>ord_payment_status := PS_PENDING_PAYMENT\<rparr>)" by (simp add: id)
    have "payments v = payments w @ [p]" using set_payment_status_tables(1) [OF pend] u2 by simp
    moreover have "reusable k p" using url by (simp add: reusable_def p q_def open_session_def)
    ultimately have "latest (reusable k) (payments v) = Some p" by simp
    with guards row show ?thesis
      by (intro again [OF _ _ row]) (simp_all add: p q_def open_session_def lower_irr)
  qed
qed

end
