(* ===== verification/Cart.thy ===== *)
theory Cart
  imports OrderService
begin

text \<open>
  \<open>apps/cart/services.py\<close> with the models of \<open>apps/cart/models.py\<close> and the abandoned-cart tracker that
  the signals of \<open>apps/growth/signals.py\<close> keep in step with every cart item that is saved or
  deleted. A cart is passed as the instance the caller holds.
\<close>

section \<open>Cart rows\<close>

definition items_in :: "world \<Rightarrow> nat \<Rightarrow> cart_item list" where
  "items_in w c = filter (\<lambda>x. ci_cart x = c) (cart_items w)"

definition price_of :: "world \<Rightarrow> nat \<Rightarrow> money" where
  "price_of w p = (case products w p of Some pr \<Rightarrow> prod_price pr | None \<Rightarrow> 0)"

definition line_total :: "world \<Rightarrow> cart_item \<Rightarrow> money" where
  "line_total w x = price_of w (ci_product x) * ci_quantity x"

definition total_items :: "world \<Rightarrow> nat \<Rightarrow> int" where
  "total_items w c = sum_list (map ci_quantity (items_in w c))"

definition is_empty_cart :: "world \<Rightarrow> nat \<Rightarrow> bool" where
  "is_empty_cart w c \<longleftrightarrow> total_items w c = 0"

definition get_subtotal :: "world \<Rightarrow> nat \<Rightarrow> money" where
  "get_subtotal w c = sum_list (map (line_total w) (items_in w c))"

definition cart_row :: "world \<Rightarrow> nat \<Rightarrow> cart option" where
  "cart_row w c = find (\<lambda>x. cart_id x = c) (carts w)"

definition get_cart :: "nat \<Rightarrow> cart P" where
  "get_cart c = bnd (gets (\<lambda>w. cart_row w c)) (get_or_raise (Exn DoesNotExist (Text ''Cart'')))"

definition save_cart :: "cart \<Rightarrow> (cart \<Rightarrow> cart) \<Rightarrow> unit P" where
  "save_cart c copy = modifies (\<lambda>w. w\<lparr>carts := upd_rows (\<lambda>x. cart_id x = cart_id c) copy (carts w)\<rparr>)"

section \<open>The abandoned-cart tracker\<close>

text \<open>\<open>resolve_phone_for_cart\<close> and \<open>sync_abandoned_cart_tracker\<close> of \<open>apps/growth/services.py\<close>\<close>

definition resolve_phone_for_cart :: "world \<Rightarrow> cart \<Rightarrow> string" where
  "resolve_phone_for_cart w c = (case cart_user c of
     None \<Rightarrow> []
   | Some u \<Rightarrow>
       if phone_of_user w (Some u) \<noteq> [] then phone_of_user w (Some u)
       else (case latest (\<lambda>od. ord_user od = Some u \<and> ord_phone od \<noteq> []) (orders w) of
               Some od \<Rightarrow> ord_phone od | None \<Rightarrow> []))"

definition put_tracker :: "nat \<Rightarrow> tracker \<Rightarrow> world \<Rightarrow> world" where
  "put_tracker c t w = w\<lparr>growth := (growth w)\<lparr>g_trackers := (g_trackers (growth w))(c \<mapsto> t)\<rparr>\<rparr>"

definition touched_tracker :: "env \<Rightarrow> world \<Rightarrow> cart \<Rightarrow> tracker \<Rightarrow> tracker" where
  "touched_tracker env w c t = t\<lparr>tr_user := cart_user c, tr_phone := resolve_phone_for_cart w c,
     tr_session_key := (case cart_session_key c of Some s \<Rightarrow> s | None \<Rightarrow> []),
     tr_item_count := total_items w (cart_id c), tr_subtotal := get_subtotal w (cart_id c),
     tr_last_activity := now env, tr_status := TR_ACTIVE\<rparr>"

definition new_tracker :: "nat \<Rightarrow> tracker" where
  "new_tracker k = \<lparr>tr_id = k, tr_user = None, tr_phone = [], tr_session_key = [], tr_item_count = 0,
     tr_subtotal = 0, tr_last_activity = 0, tr_reminder_count = 0, tr_last_reminder = None,
     tr_status = TR_ACTIVE, tr_recovered_order = None, tr_funnel_step = 0,
     tr_offered_coupon = None, tr_sms_tracked = False\<rparr>"

definition sync_abandoned_cart_tracker :: "env \<Rightarrow> cart \<Rightarrow> unit P" where
  "sync_abandoned_cart_tracker env c =
     bnd (gets (\<lambda>w. is_empty_cart w (cart_id c))) (\<lambda>empty.
     bnd (gets (\<lambda>w. g_trackers (growth w) (cart_id c))) (\<lambda>row.
     if empty then
       (case row of
          Some t \<Rightarrow> whenever (tr_status t = TR_ACTIVE)
                     (modifies (put_tracker (cart_id c) (t\<lparr>tr_status := TR_EXPIRED\<rparr>)))
        | None \<Rightarrow> ret ())
     else
       (case row of
          Some t \<Rightarrow> modifies (\<lambda>w. put_tracker (cart_id c) (touched_tracker env w c t) w)
        | None \<Rightarrow> bnd fresh_pk (\<lambda>k.
            modifies (\<lambda>w. put_tracker (cart_id c) (touched_tracker env w c (new_tracker k)) w)))))"

section \<open>Checkout lock\<close>

definition IN_PROGRESS_ORDER_STATUSES :: "order_status set" where
  "IN_PROGRESS_ORDER_STATUSES = {S_PENDING_PAYMENT, S_PAID, S_CONFIRMED_BY_SHOP}"

definition TERMINAL_PAYMENT_STATUSES :: "order_payment_status set" where
  "TERMINAL_PAYMENT_STATUSES = {PS_PAID, PS_CASH_RECEIVED, PS_FAILED, PS_REFUND_PROCESSED}"

fun is_order_checkout_in_progress :: "order option \<Rightarrow> bool" where
  "is_order_checkout_in_progress None = False"
| "is_order_checkout_in_progress (Some od) =
     (if ord_status od = S_CANCELLED then False
      else if ord_payment_status od \<in> TERMINAL_PAYMENT_STATUSES then False
      else ord_status od \<in> IN_PROGRESS_ORDER_STATUSES)"

text \<open>The item instances come with their products (\<open>select_related("product")\<close>).\<close>

definition with_product :: "cart_item \<Rightarrow> (cart_item \<times> product) P" where
  "with_product x = bnd (get_product (ci_product x)) (\<lambda>pr. ret (x, pr))"

definition lock_cart_for_checkout :: "nat \<Rightarrow> (cart \<times> (cart_item \<times> product) list) P" where
  "lock_cart_for_checkout c =
     bnd (get_cart c) (\<lambda>ct.
     bnd (gets (\<lambda>w. sort_key ci_id (items_in w c))) (\<lambda>rows.
     bnd (for_collect rows with_product) (\<lambda>items.
     ret (ct, items))))"

definition calculate_subtotal :: "(cart_item \<times> product) list \<Rightarrow> money" where
  "calculate_subtotal items = sum_list (map (\<lambda>(x, pr). prod_price pr * ci_quantity x) items)"

text \<open>\<open>cart.save(update_fields=...)\<close> fires the signal that syncs the tracker.\<close>

definition set_active_checkout_order :: "env \<Rightarrow> cart \<Rightarrow> nat \<Rightarrow> cart P" where
  "set_active_checkout_order env c k =
     (let c' = c\<lparr>cart_active_order := Some k\<rparr> in
      bnd (save_cart c (\<lambda>x. x\<lparr>cart_active_order := Some k\<rparr>)) (\<lambda>_.
      bnd (sync_abandoned_cart_tracker env c') (\<lambda>_. ret c')))"

definition clear_active_checkout_order :: "env \<Rightarrow> cart \<Rightarrow> cart P" where
  "clear_active_checkout_order env c =
     (if cart_active_order c = None then ret c
      else
        let c' = c\<lparr>cart_active_order := None\<rparr> in
        bnd (save_cart c (\<lambda>x. x\<lparr>cart_active_order := None\<rparr>)) (\<lambda>_.
        bnd (sync_abandoned_cart_tracker env c') (\<lambda>_. ret c')))"

definition ensure_cart_mutable :: "cart \<Rightarrow> unit P" where
  "ensure_cart_mutable c = (case cart_active_order c of
     None \<Rightarrow> ret ()
   | Some k \<Rightarrow>
       bnd (get_order k) (\<lambda>od.
       raise_if (is_order_checkout_in_progress (Some od)) (Exn CartMutationBlocked
         (Text ''Cart cannot be modified while checkout is in progress.''))))"

section \<open>Cart operations\<close>

definition create_cart :: "env \<Rightarrow> nat option \<Rightarrow> string option \<Rightarrow> cart P" where
  "create_cart env u s =
     bnd fresh_pk (\<lambda>k.
     let c = \<lparr>cart_id = k, cart_user = u, cart_session_key = s, cart_coupon_code = [],
              cart_referral_code = [], cart_active_order = None\<rparr> in
     bnd (modifies (\<lambda>w. w\<lparr>carts := carts w @ [c]\<rparr>)) (\<lambda>_.
     bnd (sync_abandoned_cart_tracker env c) (\<lambda>_. ret c)))"

definition get_or_create_cart :: "env \<Rightarrow> nat option \<Rightarrow> string option \<Rightarrow> (cart \<times> bool) P" where
  "get_or_create_cart env user session_key = (case user of
     Some u \<Rightarrow>
       bnd (gets (\<lambda>w. find (\<lambda>c. cart_user c = Some u) (carts w))) (\<lambda>row.
       case row of
         Some c \<Rightarrow> ret (c, False)
       | None \<Rightarrow> bnd (create_cart env (Some u) None) (\<lambda>c. ret (c, True)))
   | None \<Rightarrow>
       (case session_key of
          Some (x # xs) \<Rightarrow>
            bnd (gets (\<lambda>w. find (\<lambda>c. cart_session_key c = Some (x # xs)) (carts w))) (\<lambda>row.
            case row of
              Some c \<Rightarrow> ret (c, False)
            | None \<Rightarrow> bnd (create_cart env None (Some (x # xs))) (\<lambda>c. ret (c, True)))
        | _ \<Rightarrow> raise (Exn ValueError (Text ''Either user or session_key is required.''))))"

definition validate_quantity :: "int \<Rightarrow> unit P" where
  "validate_quantity n =
     raise_if (n < 1) (Exn InvalidQuantityError (Text ''Quantity must be at least 1.''))"

definition validate_product :: "product \<Rightarrow> int \<Rightarrow> nat option \<Rightarrow> unit P" where
  "validate_product pr n ct =
     bnd (raise_if (\<not> is_available pr) (Exn ProductUnavailableError (not_available pr))) (\<lambda>_.
     check_cart_availability pr n ct)"

definition item_row :: "world \<Rightarrow> nat \<Rightarrow> nat \<Rightarrow> cart_item option" where
  "item_row w c p = find (\<lambda>x. ci_cart x = c \<and> ci_product x = p) (cart_items w)"

text \<open>The quantity of an item carries a CHECK that it is at least one.\<close>

definition check_item_quantity :: "int \<Rightarrow> unit P" where
  "check_item_quantity n =
     raise_if (n < 1) (Exn IntegrityError (Text ''cart_item_quantity_positive''))"

definition get_or_create_item :: "env \<Rightarrow> cart \<Rightarrow> nat \<Rightarrow> int \<Rightarrow> (cart_item \<times> bool) P" where
  "get_or_create_item env c p n =
     bnd (gets (\<lambda>w. item_row w (cart_id c) p)) (\<lambda>row.
     case row of
       Some x \<Rightarrow> ret (x, False)
     | None \<Rightarrow>
         bnd (check_item_quantity n) (\<lambda>_.
         bnd fresh_pk (\<lambda>k.
         let x = \<lparr>ci_id = k, ci_cart = cart_id c, ci_product = p, ci_quantity = n\<rparr> in
         bnd (modifies (\<lambda>w. w\<lparr>cart_items := cart_items w @ [x]\<rparr>)) (\<lambda>_.
         bnd (sync_abandoned_cart_tracker env c) (\<lambda>_.
         ret (x, True))))))"

definition save_item_quantity :: "env \<Rightarrow> cart \<Rightarrow> cart_item \<Rightarrow> int \<Rightarrow> cart_item P" where
  "save_item_quantity env c x n =
     bnd (check_item_quantity n) (\<lambda>_.
     bnd (modifies (\<lambda>w. w\<lparr>cart_items := upd_rows (\<lambda>y. ci_id y = ci_id x)
            (\<lambda>y. y\<lparr>ci_quantity := n\<rparr>) (cart_items w)\<rparr>)) (\<lambda>_.
     bnd (sync_abandoned_cart_tracker env c) (\<lambda>_.
     ret (x\<lparr>ci_quantity := n\<rparr>))))"

definition add_item :: "env \<Rightarrow> cart \<Rightarrow> product \<Rightarrow> int \<Rightarrow> cart_item P" where
  "add_item env c pr n = atomic (
     bnd (ensure_cart_mutable c) (\<lambda>_.
     bnd (validate_quantity n) (\<lambda>_.
     bnd (gets (\<lambda>w. item_row w (cart_id c) (prod_id pr))) (\<lambda>row.
     bnd (validate_product pr (case row of None \<Rightarrow> n | Some x \<Rightarrow> ci_quantity x + n)
            (Some (cart_id c))) (\<lambda>_.
     bnd (get_or_create_item env c (prod_id pr) n) (\<lambda>(x, created).
     bnd (if created then ret x else save_item_quantity env c x (ci_quantity x + n)) (\<lambda>item.
     bnd (reserve_for_cart_item env (cart_id c) pr (ci_quantity item)) (\<lambda>_.
     ret item))))))))"

definition set_item_quantity :: "env \<Rightarrow> cart \<Rightarrow> product \<Rightarrow> int \<Rightarrow> cart_item P" where
  "set_item_quantity env c pr n = atomic (
     bnd (ensure_cart_mutable c) (\<lambda>_.
     bnd (validate_quantity n) (\<lambda>_.
     bnd (validate_product pr n (Some (cart_id c))) (\<lambda>_.
     bnd (get_or_create_item env c (prod_id pr) n) (\<lambda>(x, created).
     bnd (save_item_quantity env c x n) (\<lambda>item.
     bnd (reserve_for_cart_item env (cart_id c) pr (ci_quantity item)) (\<lambda>_.
     ret item)))))))"

text \<open>
  A queryset delete removes the rows and then sends \<open>post_delete\<close> for each instance; the rows are
  gone for all of these signals. It is one transaction.
\<close>

definition delete_items :: "env \<Rightarrow> cart \<Rightarrow> (cart_item \<Rightarrow> bool) \<Rightarrow> unit P" where
  "delete_items env c Q =
     bnd (gets (\<lambda>w. filter Q (items_in w (cart_id c)))) (\<lambda>gone.
     bnd (modifies (\<lambda>w. w\<lparr>cart_items := filter (\<lambda>x. \<not> (ci_cart x = cart_id c \<and> Q x)) (cart_items w)\<rparr>)) (\<lambda>_.
     for_each gone (\<lambda>_. sync_abandoned_cart_tracker env c)))"

definition remove_item :: "env \<Rightarrow> cart \<Rightarrow> nat \<Rightarrow> unit P" where
  "remove_item env c p =
     bnd (ensure_cart_mutable c) (\<lambda>_.
     bnd (release_cart_reservations_for_product (cart_id c) p) (\<lambda>_.
     delete_items env c (\<lambda>x. ci_product x = p)))"

definition clear_cart :: "env \<Rightarrow> cart \<Rightarrow> unit P" where
  "clear_cart env c =
     bnd (release_cart_reservations (cart_id c)) (\<lambda>_.
     delete_items env c (\<lambda>_. True))"

text \<open>
  \<open>source.delete()\<close>: the foreign keys to the cart cascade to its items, its stock reservations
  and its tracker; growth events lose their cart.
\<close>

definition delete_cart :: "cart \<Rightarrow> unit P" where
  "delete_cart c = modifies (\<lambda>w. w\<lparr>carts := filter (\<lambda>x. cart_id x \<noteq> cart_id c) (carts w),
     cart_items := filter (\<lambda>x. ci_cart x \<noteq> cart_id c) (cart_items w),
     reservations := filter (\<lambda>r. res_cart r \<noteq> Some (cart_id c)) (reservations w),
     growth := (growth w)\<lparr>g_trackers := (g_trackers (growth w))(cart_id c := None),
       g_events := map (\<lambda>e. if ge_cart e = Some (cart_id c) then e\<lparr>ge_cart := None\<rparr> else e)
         (g_events (growth w))\<rparr>\<rparr>)"

definition merge_item :: "env \<Rightarrow> cart \<Rightarrow> cart_item \<times> product \<Rightarrow> unit P" where
  "merge_item env target = (\<lambda>(x, pr).
     whenever (is_available pr)
       (bnd (add_item env target pr (ci_quantity x)) (\<lambda>_. ret ())))"

definition merge_carts :: "env \<Rightarrow> cart \<Rightarrow> cart \<Rightarrow> cart P" where
  "merge_carts env source target = atomic (
     if cart_id source = cart_id target then ret target
     else
       bnd (gets (\<lambda>w. items_in w (cart_id source))) (\<lambda>rows.
       bnd (for_collect rows with_product) (\<lambda>items.
       bnd (for_each items (merge_item env target)) (\<lambda>_.
       bnd (delete_cart source) (\<lambda>_.
       ret target)))))"

end
