(* ===== verification/Loyalty.thy ===== *)
theory Loyalty
  imports OrderService
begin

text \<open>
  \<open>apps/loyalty/services.py\<close>: accounts, tiers and the points of a paid order, with the task of
  \<open>apps/loyalty/tasks.py\<close> that the lifecycle event of a payment starts.
\<close>

section \<open>Rows of the growth tables\<close>

definition get_growth :: "(growth \<Rightarrow> 'a) \<Rightarrow> 'a P" where
  "get_growth f = gets (\<lambda>w. f (growth w))"

definition set_growth :: "(growth \<Rightarrow> growth) \<Rightarrow> unit P" where
  "set_growth f = modifies (\<lambda>w. w\<lparr>growth := f (growth w)\<rparr>)"

lemma run_get_growth [run, simp]: "get_growth f w = (Inr (f (growth w)), w)"
  by (simp add: get_growth_def)

lemma run_set_growth [run, simp]: "set_growth f w = (Inr (), w\<lparr>growth := f (growth w)\<rparr>)"
  by (simp add: set_growth_def)

lemma bnd_growth [simp]:
  "bnd (get_growth f) m w = m (f (growth w)) w"
  "bnd (set_growth g) n w = n () (w\<lparr>growth := g (growth w)\<rparr>)"
  by (simp_all add: run_bnd)

lemma growth_returns [returns]:
  "get_growth f w = (Inr x, v) \<longleftrightarrow> x = f (growth w) \<and> v = w"
  "set_growth g w = (Inr u, v) \<longleftrightarrow> v = w\<lparr>growth := g (growth w)\<rparr>"
  by auto

lemma keeps_get_growth [keeps_intros]: "keeps I (get_growth f)"
  unfolding get_growth_def by (rule keeps_gets)

lemma keeps_set_growth: "(\<And>w. I w \<Longrightarrow> I (w\<lparr>growth := f (growth w)\<rparr>)) \<Longrightarrow> keeps I (set_growth f)"
  unfolding set_growth_def by (rule keeps_modifies)

section \<open>Accounts and points\<close>

definition save_account :: "nat \<Rightarrow> loyalty_account \<Rightarrow> unit P" where
  "save_account u a = set_growth (\<lambda>g. g\<lparr>g_accounts := (g_accounts g)(u \<mapsto> a)\<rparr>)"

definition get_or_create_account :: "nat \<Rightarrow> loyalty_account P" where
  "get_or_create_account u =
     bnd (get_growth (\<lambda>g. g_accounts g u)) (\<lambda>row.
     case row of
       Some a \<Rightarrow> ret a
     | None \<Rightarrow> bnd (save_account u new_account) (\<lambda>_. ret new_account))"

definition calculate_tier :: "env \<Rightarrow> int \<Rightarrow> tier" where
  "calculate_tier env lifetime_points =
     (if loyalty_gold_threshold env \<le> lifetime_points then TIER_GOLD
      else if loyalty_silver_threshold env \<le> lifetime_points then TIER_SILVER
      else TIER_NORMAL)"

text \<open>\<open>int(total // 1000) * rate\<close>: decimal floor division truncates towards zero.\<close>

definition points_for_order_total :: "env \<Rightarrow> money \<Rightarrow> int" where
  "points_for_order_total env amount = trunc_div amount 100000 * loyalty_points_per_1000 env"

definition earned_for :: "nat \<Rightarrow> loyalty_tx list \<Rightarrow> bool" where
  "earned_for k txs \<longleftrightarrow> (\<exists>t\<in>set txs. lt_order t = Some k \<and> lt_type t = LT_EARN)"

definition add_transaction :: "nat \<Rightarrow> loyalty_tx_type \<Rightarrow> int \<Rightarrow> int \<Rightarrow> nat option \<Rightarrow> unit P" where
  "add_transaction u ty points balance od = set_growth (\<lambda>g. g\<lparr>g_transactions := g_transactions g @
     [\<lparr>lt_account = u, lt_type = ty, lt_points = points, lt_balance_after = balance, lt_order = od\<rparr>]\<rparr>)"

text \<open>A \<open>PositiveIntegerField\<close> for the points and the lifetime points.\<close>

definition award_points_for_order :: "env \<Rightarrow> order \<Rightarrow> loyalty_account option P" where
  "award_points_for_order env od = atomic (
     case ord_user od of
       None \<Rightarrow> ret None
     | Some u \<Rightarrow>
         if ord_payment_status od \<notin> {PS_PAID, PS_CASH_RECEIVED} then ret None
         else
           bnd (get_growth (\<lambda>g. earned_for (ord_id od) (g_transactions g))) (\<lambda>earned_before.
           if earned_before then ret None
           else
             bnd (get_or_create_account u) (\<lambda>a.
             let earned = points_for_order_total env (ord_total od) in
             if earned \<le> 0 then ret (Some a)
             else
               let a' = a\<lparr>la_points := la_points a + earned,
                          la_lifetime_points := la_lifetime_points a + earned,
                          la_lifetime_spend := la_lifetime_spend a + ord_total od,
                          la_tier := calculate_tier env (la_lifetime_points a + earned)\<rparr> in
               bnd (save_account u a') (\<lambda>_.
               bnd (add_transaction u LT_EARN earned (la_points a') (Some (ord_id od))) (\<lambda>_.
               ret (Some a'))))))"

definition award_loyalty_points_task :: "env \<Rightarrow> nat \<Rightarrow> loyalty_account option P" where
  "award_loyalty_points_task env k =
     bnd (gets (\<lambda>w. order_row w k)) (\<lambda>row.
     case row of None \<Rightarrow> ret None | Some od \<Rightarrow> award_points_for_order env od)"

section \<open>What an award does\<close>

definition account_of :: "world \<Rightarrow> nat \<Rightarrow> loyalty_account" where
  "account_of w u = (case g_accounts (growth w) u of Some a \<Rightarrow> a | None \<Rightarrow> new_account)"

definition put_account :: "nat \<Rightarrow> loyalty_account \<Rightarrow> world \<Rightarrow> world" where
  "put_account u a w = w\<lparr>growth := (growth w)\<lparr>g_accounts := (g_accounts (growth w))(u \<mapsto> a)\<rparr>\<rparr>"

lemma account_of_put [simp]: "account_of (put_account u a w) u' = (if u' = u then a else account_of w u')"
  by (simp add: account_of_def put_account_def)

lemma put_account_put [simp]: "put_account u a (put_account u b w) = put_account u a w"
  by (simp add: put_account_def)

lemma put_account_frame [simp]:
  "g_transactions (growth (put_account u a w)) = g_transactions (growth w)"
  by (simp add: put_account_def)

lemma put_account_same [simp]:
  "put_account u (account_of (put_account u a w) u) (put_account u a w) = put_account u a w"
  by simp

lemma run_save_account [run]: "save_account u a w = (Inr (), put_account u a w)"
  by (simp add: save_account_def put_account_def)

lemma run_get_or_create_account [run]:
  "get_or_create_account u w = (Inr (account_of w u), put_account u (account_of w u) w)"
proof (cases "g_accounts (growth w) u")
  case None
  then show ?thesis by (simp add: get_or_create_account_def run account_of_def)
next
  case (Some a)
  then have "(g_accounts (growth w))(u \<mapsto> a) = g_accounts (growth w)" by (simp add: fun_upd_idem)
  with Some show ?thesis by (simp add: get_or_create_account_def run account_of_def put_account_def)
qed

definition earning :: "env \<Rightarrow> order \<Rightarrow> loyalty_account \<Rightarrow> loyalty_account" where
  "earning env od a =
     (let n = points_for_order_total env (ord_total od) in
      a\<lparr>la_points := la_points a + n, la_lifetime_points := la_lifetime_points a + n,
        la_lifetime_spend := la_lifetime_spend a + ord_total od,
        la_tier := calculate_tier env (la_lifetime_points a + n)\<rparr>)"

definition put_transaction :: "nat \<Rightarrow> loyalty_tx_type \<Rightarrow> int \<Rightarrow> int \<Rightarrow> nat option \<Rightarrow> world \<Rightarrow> world" where
  "put_transaction u ty n b od w = w\<lparr>growth := (growth w)\<lparr>g_transactions := g_transactions (growth w) @
     [\<lparr>lt_account = u, lt_type = ty, lt_points = n, lt_balance_after = b, lt_order = od\<rparr>]\<rparr>\<rparr>"

lemma run_add_transaction [run]: "add_transaction u ty n b od w = (Inr (), put_transaction u ty n b od w)"
  by (simp add: add_transaction_def put_transaction_def)

text \<open>The whole award as a function of the tables.\<close>

definition may_earn :: "world \<Rightarrow> order \<Rightarrow> bool" where
  "may_earn w od \<longleftrightarrow> ord_user od \<noteq> None \<and> ord_payment_status od \<in> {PS_PAID, PS_CASH_RECEIVED} \<and>
     \<not> earned_for (ord_id od) (g_transactions (growth w))"

lemma award_nothing: "\<not> may_earn w od \<Longrightarrow> award_points_for_order env od w = (Inr None, w)"
  by (auto simp: may_earn_def award_points_for_order_def run split: option.split)

lemma award_runs:
  assumes "may_earn w od" and u: "ord_user od = Some u"
  shows "award_points_for_order env od w =
    (let a = account_of w u; n = points_for_order_total env (ord_total od) in
     if n \<le> 0 then (Inr (Some a), put_account u a w)
     else (Inr (Some (earning env od a)), put_transaction u LT_EARN n (la_points a + n) (Some (ord_id od))
             (put_account u (earning env od a) w)))"
  using assms
  by (simp add: may_earn_def award_points_for_order_def run_atomic run_bnd run_get_growth Let_def
      run_get_or_create_account run_save_account run_add_transaction earning_def)

text \<open>
  C16: awarding the points of an order twice is the same as once: the first call that returns,
  whatever it did, leaves tables on which the second one changes nothing.
\<close>

theorem loyalty_points_awarded_once:
  assumes "award_points_for_order env od w = (Inr x, v)"
  shows "\<exists>y. award_points_for_order env od v = (Inr y, v)"
proof (cases "may_earn w od")
  case False
  with assms award_nothing show ?thesis by force
next
  case True
  then obtain u where u: "ord_user od = Some u" by (auto simp: may_earn_def)
  let ?n = "points_for_order_total env (ord_total od)"
  show ?thesis
  proof (cases "?n \<le> 0")
    case True
    with assms award_runs [OF \<open>may_earn w od\<close> u] have v: "v = put_account u (account_of w u) w"
      by (simp add: Let_def)
    with \<open>may_earn w od\<close> have "may_earn v od" by (simp add: may_earn_def)
    with True v award_runs [OF this u] show ?thesis by (simp add: Let_def)
  next
    case False
    with assms award_runs [OF True u] have "earned_for (ord_id od) (g_transactions (growth v))"
      by (auto simp: Let_def put_transaction_def earned_for_def)
    then have "\<not> may_earn v od" by (simp add: may_earn_def)
    with award_nothing show ?thesis by blast
  qed
qed

section \<open>Accounts agree with their transactions\<close>

definition points_of :: "nat \<Rightarrow> loyalty_tx list \<Rightarrow> int" where
  "points_of u txs = sum_where lt_points (\<lambda>t. lt_account t = u) txs"

definition loyalty_ok :: "world \<Rightarrow> bool" where
  "loyalty_ok w \<longleftrightarrow> (\<forall>u. la_points (account_of w u) = points_of u (g_transactions (growth w)) \<and>
     (\<forall>t\<in>set (g_transactions (growth w)). lt_account t = u \<longrightarrow> g_accounts (growth w) u \<noteq> None))"

lemma points_of_append [simp]: "points_of u (ts @ [t]) =
    points_of u ts + (if lt_account t = u then lt_points t else 0)"
  by (simp add: points_of_def sum_where_def)

lemma loyalty_ok_put:
  assumes "loyalty_ok w" and "la_points a = la_points (account_of w u) + n"
  shows "loyalty_ok (put_transaction u ty n b od (put_account u a w))"
  using assms by (auto simp: loyalty_ok_def put_transaction_def account_of_def put_account_def)

lemma loyalty_ok_account: "loyalty_ok w \<Longrightarrow> loyalty_ok (put_account u (account_of w u) w)"
  by (auto simp: loyalty_ok_def account_of_def put_account_def)

lemma keeps_loyalty_ok_award: "keeps loyalty_ok (award_points_for_order env od)"
proof (rule keepsI)
  fix w assume ok: "loyalty_ok w"
  show "loyalty_ok (snd (award_points_for_order env od w))"
  proof (cases "may_earn w od")
    case True
    then obtain u where "ord_user od = Some u" by (auto simp: may_earn_def)
    from award_runs [OF True this] ok show ?thesis
      by (auto simp: Let_def earning_def intro!: loyalty_ok_put loyalty_ok_account)
  qed (simp add: award_nothing ok)
qed

lemma keeps_loyalty_ok_task: "keeps loyalty_ok (award_loyalty_points_task env k)"
  unfolding award_loyalty_points_task_def by (intro keeps_intros keeps_loyalty_ok_award)

end
