(* ===== verification/Growth.thy ===== *)
theory Growth
  imports Cart Loyalty Payments
begin

text \<open>
  The pricing and growth services of \<open>apps/growth\<close> that checkout and payment call: coupons, promotion
  rules, referrals, revenue attribution, customer value, and the facade of \<open>checkout_integration.py\<close>.
\<close>

section \<open>Coupons\<close>

definition normalize_code :: "string \<Rightarrow> string" where
  "normalize_code code = str_upper (str_strip code)"

text \<open>\<open>code__iexact\<close>\<close>

definition iexact :: "string \<Rightarrow> string \<Rightarrow> bool" where
  "iexact s t \<longleftrightarrow> str_upper s = str_upper t"

definition find_active_coupon :: "env \<Rightarrow> string \<Rightarrow> coupon option P" where
  "find_active_coupon env code =
     bnd (get_growth (\<lambda>g. filter (\<lambda>c. iexact (cpn_code c) (normalize_code code)) (g_coupons g))) (\<lambda>rows.
     case rows of
       [] \<Rightarrow> ret None
     | [c] \<Rightarrow> ret (if coupon_valid_now (now env) c then Some c else None)
     | _ \<Rightarrow> raise (Exn MultipleObjectsReturned (Text ''Coupon'')))"

text \<open>Amounts and values are in hundredths, so a percentage divides by ten thousand.\<close>

definition coupon_discount :: "coupon \<Rightarrow> money \<Rightarrow> money" where
  "coupon_discount c subtotal =
     (let amount = (if cpn_discount_type c = DT_PERCENTAGE
                    then round_half_even (subtotal * cpn_value c) 10000
                    else min (cpn_value c) subtotal);
          capped = (case cpn_max_discount c of Some m \<Rightarrow> min amount m | None \<Rightarrow> amount)
      in max 0 capped)"

record coupon_result =
  cr_coupon :: "coupon option"
  cr_discount :: money
  cr_error :: "message option"

definition coupon_refused :: "message \<Rightarrow> coupon_result" where
  "coupon_refused m = \<lparr>cr_coupon = None, cr_discount = 0, cr_error = Some m\<rparr>"

definition has_paid_order :: "world \<Rightarrow> nat \<Rightarrow> bool" where
  "has_paid_order w u \<longleftrightarrow>
     (\<exists>od\<in>set (orders w). ord_user od = Some u \<and> ord_payment_status od \<in> {PS_PAID, PS_CASH_RECEIVED})"

definition uses_of :: "growth \<Rightarrow> nat \<Rightarrow> nat \<Rightarrow> int" where
  "uses_of g c u = int (length (filter (\<lambda>r. rd_coupon r = c \<and> rd_user r = Some u) (g_redemptions g)))"

definition validate_coupon :: "env \<Rightarrow> string \<Rightarrow> money \<Rightarrow> nat option \<Rightarrow> coupon_result P" where
  "validate_coupon env code subtotal user =
     (if code = [] then ret \<lparr>cr_coupon = None, cr_discount = 0, cr_error = None\<rparr>
      else
        bnd (find_active_coupon env code) (\<lambda>row.
        case row of
          None \<Rightarrow> ret (coupon_refused (Text ''Invalid or expired coupon.''))
        | Some c \<Rightarrow>
            if subtotal < cpn_min_order c then
              ret (coupon_refused (Fmt ''Minimum order amount is {}.'' [AInt (int_of_money (cpn_min_order c))]))
            else
              bnd (gets (\<lambda>w. cpn_campaign c = CT_FIRST_ORDER \<and>
                     (case user of Some u \<Rightarrow> has_paid_order w u | None \<Rightarrow> False))) (\<lambda>not_first.
              if not_first then ret (coupon_refused (Text ''This coupon is for first orders only.''))
              else
                bnd (get_growth (\<lambda>g. case user of
                       Some u \<Rightarrow> cpn_limit_per_user c \<le> uses_of g (cpn_id c) u | None \<Rightarrow> False)) (\<lambda>used_up.
                if used_up then
                  ret (coupon_refused (Text ''Coupon usage limit reached for this account.''))
                else
                  ret \<lparr>cr_coupon = Some c, cr_discount = coupon_discount c subtotal, cr_error = None\<rparr>))))"

definition redeem :: "nat \<Rightarrow> order \<Rightarrow> nat option \<Rightarrow> redemption P" where
  "redeem c od user = atomic (
     bnd (get_growth (\<lambda>g. find (\<lambda>r. rd_order r = ord_id od) (g_redemptions g))) (\<lambda>row.
     case row of
       Some r \<Rightarrow> ret r
     | None \<Rightarrow>
         let r = \<lparr>rd_coupon = c, rd_user = (if user \<noteq> None then user else ord_user od),
                  rd_order = ord_id od, rd_discount = ord_discount od\<rparr> in
         bnd (set_growth (\<lambda>g. g\<lparr>g_redemptions := g_redemptions g @ [r]\<rparr>)) (\<lambda>_.
         bnd (set_growth (\<lambda>g. g\<lparr>g_coupons := upd_rows (\<lambda>x. cpn_id x = c)
                (\<lambda>x. x\<lparr>cpn_usage_count := cpn_usage_count x + 1\<rparr>) (g_coupons g)\<rparr>)) (\<lambda>_.
         ret r))))"

section \<open>Promotion rules\<close>

record promotion_result =
  pm_total :: money
  pm_applied :: "(promotion_rule \<times> money) list"

definition or_default :: "'a \<Rightarrow> 'a option \<Rightarrow> 'a" where
  "or_default d x = (case x of Some y \<Rightarrow> y | None \<Rightarrow> d)"

definition percent_of :: "money \<Rightarrow> rule_config \<Rightarrow> money" where
  "percent_of amount cfg = round_half_even (amount * or_default 1000 (cfg_percent cfg)) 10000"

definition slug_of_product :: "world \<Rightarrow> nat \<Rightarrow> string option" where
  "slug_of_product w p = (case products w p of
     None \<Rightarrow> None | Some pr \<Rightarrow> map_option cat_slug (categories w (prod_category pr)))"

definition in_slugs :: "world \<Rightarrow> string list \<Rightarrow> cart_item \<Rightarrow> bool" where
  "in_slugs w slugs x = (case slug_of_product w (ci_product x) of
     Some s \<Rightarrow> s \<in> set slugs | None \<Rightarrow> False)"

definition is_vip :: "growth \<Rightarrow> rule_config \<Rightarrow> nat \<Rightarrow> bool" where
  "is_vip g cfg u \<longleftrightarrow>
     (case g_accounts g u of
        Some a \<Rightarrow> la_tier a \<in> set (or_default [TIER_GOLD] (cfg_tiers cfg)) | None \<Rightarrow> False) \<or>
     (case g_profiles g u of Some p \<Rightarrow> clv_tier p = REV_HIGH | None \<Rightarrow> False)"

definition eligible_total :: "world \<Rightarrow> nat \<Rightarrow> string list \<Rightarrow> money" where
  "eligible_total w c slugs = sum_list (map (line_total w) (filter (in_slugs w slugs) (items_in w c)))"

definition qualifying_quantity :: "world \<Rightarrow> nat \<Rightarrow> string list \<Rightarrow> int" where
  "qualifying_quantity w c slugs =
     sum_list (map ci_quantity (filter (\<lambda>x. slugs = [] \<or> in_slugs w slugs x) (items_in w c)))"

definition apply_rule :: "env \<Rightarrow> promotion_rule \<Rightarrow> nat \<Rightarrow> nat option \<Rightarrow> money \<Rightarrow> money P" where
  "apply_rule env r c user subtotal =
     (let cfg = pr_config r in
      case pr_type r of
        RT_WEEKEND_DISCOUNT \<Rightarrow>
          if weekday env \<notin> set (or_default [4, 5] (cfg_weekdays cfg)) then ret 0
          else ret (percent_of subtotal cfg)
      | RT_VIP_DISCOUNT \<Rightarrow>
          (case user of
             None \<Rightarrow> ret 0
           | Some u \<Rightarrow> bnd (get_growth (\<lambda>g. is_vip g cfg u)) (\<lambda>vip.
               ret (if vip then percent_of subtotal cfg else 0)))
      | RT_CATEGORY_DISCOUNT \<Rightarrow>
          bnd (gets (\<lambda>w. eligible_total w c (or_default [] (cfg_category_slugs cfg)))) (\<lambda>eligible.
          ret (if eligible \<le> 0 then 0 else percent_of eligible cfg))
      | RT_BUY_X_GET_Y \<Rightarrow>
          let free_value = or_default 0 (cfg_free_item_value cfg); buy_qty = or_default 2 (cfg_buy_qty cfg) in
          if free_value \<le> 0 then ret 0
          else
            bnd (gets (\<lambda>w. qualifying_quantity w c (or_default [] (cfg_buy_category_slugs cfg)))) (\<lambda>qty.
            bnd (raise_if (buy_qty = 0) (Exn ZeroDivisionError
                   (Text ''integer division or modulo by zero''))) (\<lambda>_.
            let sets = qty div buy_qty in
            ret (if sets \<le> 0 then 0 else free_value * sets))))"

primrec evaluate_rules ::
  "env \<Rightarrow> nat \<Rightarrow> nat option \<Rightarrow> money \<Rightarrow> promotion_rule list \<Rightarrow> promotion_result \<Rightarrow> promotion_result P" where
  "evaluate_rules env c user subtotal [] acc = ret acc"
| "evaluate_rules env c user subtotal (r # rs) acc =
     (if \<not> rule_valid_now (now env) r then evaluate_rules env c user subtotal rs acc
      else
        bnd (apply_rule env r c user subtotal) (\<lambda>discount.
        if discount \<le> 0 then evaluate_rules env c user subtotal rs acc
        else
          let acc' = \<lparr>pm_total = pm_total acc + discount, pm_applied = pm_applied acc @ [(r, discount)]\<rparr> in
          if pr_type r \<noteq> RT_VIP_DISCOUNT then ret acc'
          else evaluate_rules env c user subtotal rs acc'))"

text \<open>\<open>order_by("priority", "id")\<close>\<close>

definition ordered_rules :: "growth \<Rightarrow> promotion_rule list" where
  "ordered_rules g = sort_key pr_priority (sort_key pr_id (filter pr_is_active (g_rules g)))"

definition evaluate_promotions :: "env \<Rightarrow> nat \<Rightarrow> nat option \<Rightarrow> money \<Rightarrow> promotion_result P" where
  "evaluate_promotions env c user subtotal =
     bnd (get_growth ordered_rules) (\<lambda>rules.
     bnd (evaluate_rules env c user subtotal rules \<lparr>pm_total = 0, pm_applied = []\<rparr>) (\<lambda>res.
     ret (res\<lparr>pm_total := min (pm_total res) subtotal\<rparr>)))"

section \<open>Referrals\<close>

definition generate_referral_code :: "env \<Rightarrow> string P" where
  "generate_referral_code env =
     bnd (get_growth (\<lambda>g. find (\<lambda>t. str_upper t \<notin> rc_code ` set (g_referral_codes g))
            (take 10 (referral_tokens env)))) (\<lambda>found.
     case found of
       Some t \<Rightarrow> ret (str_upper t)
     | None \<Rightarrow> raise (Exn ReferralError (Text ''Unable to generate referral code.'')))"

definition get_or_create_code :: "env \<Rightarrow> nat \<Rightarrow> referral_code P" where
  "get_or_create_code env u =
     bnd (get_growth (\<lambda>g. find (\<lambda>c. rc_user c = u) (g_referral_codes g))) (\<lambda>existing.
     case existing of
       Some c \<Rightarrow> ret c
     | None \<Rightarrow>
         bnd (generate_referral_code env) (\<lambda>code.
         bnd fresh_pk (\<lambda>k.
         let c = \<lparr>rc_id = k, rc_user = u, rc_code = code, rc_is_active = True\<rparr> in
         bnd (set_growth (\<lambda>g. g\<lparr>g_referral_codes := g_referral_codes g @ [c]\<rparr>)) (\<lambda>_.
         ret c))))"

definition email_of_user :: "world \<Rightarrow> nat \<Rightarrow> string" where
  "email_of_user w u = (case users w u of Some x \<Rightarrow> user_email x | None \<Rightarrow> [])"

definition is_likely_self_referral :: "world \<Rightarrow> nat \<Rightarrow> nat \<Rightarrow> bool" where
  "is_likely_self_referral w referrer referred \<longleftrightarrow>
     (email_of_user w referrer \<noteq> [] \<and> email_of_user w referred \<noteq> [] \<and>
       str_lower (email_of_user w referrer) = str_lower (email_of_user w referred)) \<or>
     (phone_of_user w (Some referrer) \<noteq> [] \<and> phone_of_user w (Some referred) \<noteq> [] \<and>
       phone_of_user w (Some referrer) = phone_of_user w (Some referred))"

definition was_referred :: "growth \<Rightarrow> nat \<Rightarrow> bool" where
  "was_referred g u \<longleftrightarrow> (\<exists>r\<in>set (g_referrals g). rf_referred r = u)"

text \<open>\<open>ReferralCode.objects.get(...)\<close> with \<open>DoesNotExist\<close> caught\<close>

definition find_referral_code :: "(referral_code \<Rightarrow> bool) \<Rightarrow> referral_code option P" where
  "find_referral_code Q =
     bnd (get_growth (\<lambda>g. filter Q (g_referral_codes g))) (\<lambda>rows.
     case rows of
       [] \<Rightarrow> ret None
     | [c] \<Rightarrow> ret (Some c)
     | _ \<Rightarrow> raise (Exn MultipleObjectsReturned (Text ''ReferralCode'')))"

definition validate_referral :: "string \<Rightarrow> nat option \<Rightarrow> referral_code option P" where
  "validate_referral code user = (case user of
     None \<Rightarrow> ret None
   | Some u \<Rightarrow>
       if code = [] then ret None
       else
         bnd (find_referral_code (\<lambda>c. iexact (rc_code c) (normalize_code code) \<and> rc_is_active c)) (\<lambda>row.
         case row of
           None \<Rightarrow> ret None
         | Some c \<Rightarrow>
             if rc_user c = u then ret None
             else
               bnd (get_growth (\<lambda>g. was_referred g u)) (\<lambda>referred.
               if referred then ret None
               else
                 bnd (gets (\<lambda>w. is_likely_self_referral w (rc_user c) u)) (\<lambda>self.
                 ret (if self then None else Some c)))))"

definition attach_pending_referral :: "order \<Rightarrow> referral_code \<Rightarrow> referral option P" where
  "attach_pending_referral od c = atomic (case ord_user od of
     None \<Rightarrow> ret None
   | Some u \<Rightarrow>
       bnd (get_growth (\<lambda>g. was_referred g u)) (\<lambda>referred.
       if referred then ret None
       else
         bnd fresh_pk (\<lambda>k.
         let r = \<lparr>rf_id = k, rf_referrer = rc_user c, rf_referred = u, rf_code = rc_id c,
                  rf_first_order = None, rf_status = RF_PENDING, rf_points = 0, rf_discount = 0,
                  rf_rewarded_at = None\<rparr> in
         bnd (set_growth (\<lambda>g. g\<lparr>g_referrals := g_referrals g @ [r]\<rparr>)) (\<lambda>_.
         ret (Some r)))))"

definition save_referral :: "referral \<Rightarrow> unit P" where
  "save_referral r = set_growth (\<lambda>g. g\<lparr>g_referrals :=
     upd_rows (\<lambda>x. rf_id x = rf_id r) (\<lambda>_. r) (g_referrals g)\<rparr>)"

text \<open>The reward of the referrer; the tier of the account is not recomputed.\<close>

definition reward_referrer :: "env \<Rightarrow> order \<Rightarrow> referral \<Rightarrow> unit P" where
  "reward_referrer env od r =
     bnd (get_or_create_account (rf_referrer r)) (\<lambda>a.
     let n = referral_reward_points env;
         a' = a\<lparr>la_points := la_points a + n, la_lifetime_points := la_lifetime_points a + n\<rparr> in
     bnd (save_account (rf_referrer r) a') (\<lambda>_.
     add_transaction (rf_referrer r) LT_EARN n (la_points a') (Some (ord_id od))))"

definition onboarding_discount :: "env \<Rightarrow> order \<Rightarrow> referral \<Rightarrow> money P" where
  "onboarding_discount env od r =
     (if referral_onboarding_coupon env = [] then ret (rf_discount r)
      else
        bnd (get_growth (\<lambda>g. latest (\<lambda>c. iexact (cpn_code c) (referral_onboarding_coupon env) \<and>
               cpn_is_active c) (g_coupons g))) (\<lambda>row.
        ret (case row of Some c \<Rightarrow> coupon_discount c (ord_subtotal od) | None \<Rightarrow> rf_discount r)))"

text \<open>A missing referral of an order with a code is attached now.\<close>

definition pending_referral :: "order \<Rightarrow> nat \<Rightarrow> referral option P" where
  "pending_referral od u =
     bnd (get_growth (\<lambda>g. find (\<lambda>r. rf_referred r = u \<and> rf_status r = RF_PENDING) (g_referrals g))) (\<lambda>row.
     if row = None \<and> ord_referral_code od \<noteq> [] then
       bnd (find_referral_code (\<lambda>c. iexact (rc_code c) (ord_referral_code od))) (\<lambda>code.
       case code of None \<Rightarrow> ret None | Some c \<Rightarrow> attach_pending_referral od c)
     else ret row)"

definition finalize_referral :: "env \<Rightarrow> order \<Rightarrow> referral option P" where
  "finalize_referral env od = atomic (case ord_user od of
     None \<Rightarrow> ret None
   | Some u \<Rightarrow>
       if ord_payment_status od \<notin> {PS_PAID, PS_CASH_RECEIVED} then ret None
       else
         bnd (pending_referral od u) (\<lambda>row.
         case row of
           None \<Rightarrow> ret None
         | Some r \<Rightarrow>
             let r1 = r\<lparr>rf_first_order := Some (ord_id od), rf_status := RF_COMPLETED\<rparr> in
             bnd (save_referral r1) (\<lambda>_.
             bnd (reward_referrer env od r1) (\<lambda>_.
             bnd (onboarding_discount env od r1) (\<lambda>d.
             let r2 = r1\<lparr>rf_points := referral_reward_points env, rf_discount := d,
                        rf_status := RF_REWARDED, rf_rewarded_at := Some (now env)\<rparr> in
             bnd (save_referral r2) (\<lambda>_. ret (Some r2)))))))"

section \<open>Revenue attribution\<close>

definition get_or_create_attribution :: "attribution \<Rightarrow> (attribution \<times> bool) P" where
  "get_or_create_attribution a =
     bnd (get_growth (\<lambda>g. find (\<lambda>x. at_order x = at_order a \<and> at_source x = at_source a \<and>
            at_source_id x = at_source_id a) (g_attributions g))) (\<lambda>row.
     case row of
       Some x \<Rightarrow> ret (x, False)
     | None \<Rightarrow> bnd (set_growth (\<lambda>g. g\<lparr>g_attributions := g_attributions g @ [a]\<rparr>)) (\<lambda>_. ret (a, True)))"

definition code_of_coupon :: "growth \<Rightarrow> nat \<Rightarrow> string" where
  "code_of_coupon g k = (case find (\<lambda>c. cpn_id c = k) (g_coupons g) of
     Some c \<Rightarrow> cpn_code c | None \<Rightarrow> [])"

definition redeemed_coupon :: "growth \<Rightarrow> order \<Rightarrow> nat \<Rightarrow> nat" where
  "redeemed_coupon g od k = (case latest (\<lambda>r. rd_order r = ord_id od) (g_redemptions g) of
     Some r \<Rightarrow> rd_coupon r | None \<Rightarrow> k)"

definition attribute_coupon :: "order \<Rightarrow> attribution list P" where
  "attribute_coupon od = (case ord_coupon od of
     None \<Rightarrow> ret []
   | Some k \<Rightarrow>
       if ord_discount od \<le> 0 then ret []
       else
         bnd (get_growth (\<lambda>g. code_of_coupon g (redeemed_coupon g od k))) (\<lambda>code.
         bnd (get_or_create_attribution \<lparr>at_order = ord_id od, at_source = SRC_COUPON,
                at_source_id = digits k, at_label = code, at_amount = ord_discount od\<rparr>) (\<lambda>(a, created).
         ret [a])))"

definition attribute_referral :: "order \<Rightarrow> attribution list P" where
  "attribute_referral od =
     (if ord_referral_code od = [] then ret []
      else
        bnd (get_or_create_attribution \<lparr>at_order = ord_id od, at_source = SRC_REFERRAL,
               at_source_id = ord_referral_code od, at_label = ord_referral_code od,
               at_amount = ord_total od\<rparr>) (\<lambda>(a, created).
        ret [a]))"

text \<open>\<open>notes.split("promo:")[-1] if "promo:" in notes else ""\<close>\<close>

primrec after_last :: "string \<Rightarrow> string \<Rightarrow> string option" where
  "after_last sep [] = None"
| "after_last sep (c # cs) = (case after_last sep cs of
     Some t \<Rightarrow> Some t
   | None \<Rightarrow> if take (length sep) (c # cs) = sep then Some (drop (length sep) (c # cs)) else None)"

definition promotion_source_id :: "string \<Rightarrow> string" where
  "promotion_source_id notes =
     (let rules = take 64 (or_default [] (after_last ''promo:'' notes)) in
      if rules = [] then ''promotion'' else rules)"

definition attribute_promotion :: "order \<Rightarrow> attribution list P" where
  "attribute_promotion od =
     (if ord_promotion_discount od \<le> 0 then ret []
      else
        bnd (get_or_create_attribution \<lparr>at_order = ord_id od, at_source = SRC_PROMOTION,
               at_source_id = promotion_source_id (ord_notes od), at_label = ''Promotion rules'',
               at_amount = ord_promotion_discount od\<rparr>) (\<lambda>(a, created).
        ret [a]))"

text \<open>
  An order is recovered in the tracker of its user's only cart, so at most one tracker has it; the
  trackers are searched in the order of the carts.
\<close>

definition recovered_tracker :: "world \<Rightarrow> nat \<Rightarrow> (nat \<times> tracker) option" where
  "recovered_tracker w k =
     find (\<lambda>(c, t). tr_recovered_order t = Some k \<and> tr_status t = TR_RECOVERED)
       (List.map_filter (\<lambda>c. map_option (Pair (cart_id c)) (g_trackers (growth w) (cart_id c))) (carts w))"

definition track_event :: "growth_event_type \<Rightarrow> nat option \<Rightarrow> nat option \<Rightarrow> nat option \<Rightarrow> unit P" where
  "track_event ty user ct od = set_growth (\<lambda>g. g\<lparr>g_events := g_events g @
     [\<lparr>ge_type = ty, ge_user = user, ge_cart = ct, ge_order = od\<rparr>]\<rparr>)"

definition attribute_sms :: "order \<Rightarrow> attribution list P" where
  "attribute_sms od =
     (if ord_user od = None then ret []
      else
        bnd (gets (\<lambda>w. recovered_tracker w (ord_id od))) (\<lambda>row.
        case row of
          None \<Rightarrow> ret []
        | Some (c, t) \<Rightarrow>
            bnd (get_or_create_attribution \<lparr>at_order = ord_id od, at_source = SRC_SMS,
                   at_source_id = ''abandoned_cart:'' @ digits (tr_id t),
                   at_label = ''Abandoned cart SMS (step '' @ digits (nat (tr_funnel_step t)) @ '')'',
                   at_amount = ord_total od\<rparr>) (\<lambda>(a, created).
            bnd (whenever (created \<and> \<not> tr_sms_tracked t)
                   (bnd (modifies (put_tracker c (t\<lparr>tr_sms_tracked := True\<rparr>))) (\<lambda>_.
                    track_event GE_SMS_CONVERSION (ord_user od) None (Some (ord_id od))))) (\<lambda>_.
            ret [a]))))"

definition record_for_order :: "order \<Rightarrow> attribution list P" where
  "record_for_order od = atomic (
     bnd (attribute_coupon od) (\<lambda>a.
     bnd (attribute_referral od) (\<lambda>b.
     bnd (attribute_promotion od) (\<lambda>c.
     bnd (attribute_sms od) (\<lambda>d.
     ret (a @ b @ c @ d))))))"

section \<open>Customer value\<close>

definition paid_orders_of :: "world \<Rightarrow> nat \<Rightarrow> order list" where
  "paid_orders_of w u =
     filter (\<lambda>od. ord_user od = Some u \<and> ord_payment_status od \<in> {PS_PAID, PS_CASH_RECEIVED}) (orders w)"

definition frequency_of :: "int \<Rightarrow> frequency_tag" where
  "frequency_of n =
     (if n = 0 then FREQ_NEW else if 10 \<le> n then FREQ_LOYAL else if 4 \<le> n then FREQ_REGULAR
      else FREQ_OCCASIONAL)"

text \<open>
  The average is exact in the database and rounded to hundredths when the profile is stored, and so
  is the score \<open>revenue + average * min(count, 12)\<close>.
\<close>

definition clv_of :: "order list \<Rightarrow> clv_profile" where
  "clv_of ods =
     (let revenue = sum_list (map ord_total ods); n = int (length ods) in
      \<lparr>clv_revenue = revenue, clv_order_count = n,
       clv_avg_order = (if n = 0 then 0 else round_half_even revenue n),
       clv_score = (if n = 0 then 0 else round_half_even (revenue * n + revenue * min n 12) n),
       clv_tier = (if 500000000 \<le> revenue then REV_HIGH else if 50000000 \<le> revenue then REV_MEDIUM
                   else REV_LOW),
       clv_frequency = frequency_of n,
       clv_last_order = (if ods = [] then None else Some (Max (ord_created_at ` set ods)))\<rparr>)"

definition calculate_clv :: "nat \<Rightarrow> clv_profile P" where
  "calculate_clv u =
     bnd (gets (\<lambda>w. clv_of (paid_orders_of w u))) (\<lambda>p.
     bnd (set_growth (\<lambda>g. g\<lparr>g_profiles := (g_profiles g)(u \<mapsto> p)\<rparr>)) (\<lambda>_.
     ret p))"

end
