(* ===== verification/Checkout.thy ===== *)
theory Checkout
  imports Growth Providers
begin

text \<open>
  Checkout: the growth facade of \<open>apps/growth/checkout_integration.py\<close>, orders from carts
  (\<open>apps/orders/services/__init__.py\<close>, \<open>daily_sequence.py\<close>), the online checkout and the
  delivery rules of \<open>apps/delivery/services.py\<close>, and the counter checkout of
  \<open>apps/orders/services/counter_checkout.py\<close>.
\<close>

section \<open>Customers\<close>

text \<open>
  The dict of customer details; a text that is absent is empty, as every reader treats it.
\<close>

record customer =
  cu_email :: string
  cu_first_name :: string
  cu_last_name :: string
  cu_phone :: string
  cu_address_line1 :: string
  cu_address_line2 :: string
  cu_city :: string
  cu_state :: string
  cu_postal_code :: string
  cu_country :: string
  cu_notes :: string
  cu_coupon_code :: string
  cu_referral_code :: string
  cu_payment_method :: "payment_method option"
  cu_delivery_type :: "fulfillment_type option"
  cu_delivery_zone :: "nat option"
  cu_delivery_fee :: "money option"

section \<open>The growth facade\<close>

record growth_context =
  gc_coupon_code :: string
  gc_referral_code :: string
  gc_coupon_discount :: money
  gc_promotion_discount :: money
  gc_total_discount :: money
  gc_coupon :: "coupon option"
  gc_referral :: "referral_code option"
  gc_promotion_labels :: "string list"
  gc_error :: "message option"

definition first_nonempty :: "string \<Rightarrow> string \<Rightarrow> string" where
  "first_nonempty s t = (if s \<noteq> [] then s else t)"

definition prepare_growth :: "env \<Rightarrow> cart \<Rightarrow> nat option \<Rightarrow> customer \<Rightarrow> money \<Rightarrow> growth_context P" where
  "prepare_growth env c user cust subtotal =
     (let code = str_strip (first_nonempty (cu_coupon_code cust) (cart_coupon_code c));
          ref = str_strip (first_nonempty (cu_referral_code cust) (cart_referral_code c)) in
      bnd (validate_coupon env code subtotal user) (\<lambda>cr.
      bnd (evaluate_promotions env (cart_id c) user subtotal) (\<lambda>promo.
      bnd (if ref \<noteq> [] \<and> user \<noteq> None then validate_referral ref user else ret None) (\<lambda>rc.
      ret \<lparr>gc_coupon_code = code, gc_referral_code = ref, gc_coupon_discount = cr_discount cr,
           gc_promotion_discount = pm_total promo,
           gc_total_discount = min subtotal (cr_discount cr + pm_total promo),
           gc_coupon = cr_coupon cr, gc_referral = rc,
           gc_promotion_labels = map (\<lambda>(r, d). pr_name r) (pm_applied promo),
           gc_error = cr_error cr\<rparr>))))"

text \<open>\<open>" promo:" + ",".join(labels)\<close>, and \<open>part in text\<close>\<close>

fun comma_join :: "string list \<Rightarrow> string" where
  "comma_join [] = []"
| "comma_join [x] = x"
| "comma_join (x # y # xs) = x @ '','' @ comma_join (y # xs)"

definition promo_note :: "growth_context \<Rightarrow> string" where
  "promo_note ctx =
     (if gc_promotion_labels ctx = [] then [] else '' promo:'' @ comma_join (gc_promotion_labels ctx))"

fun occurs_in :: "string \<Rightarrow> string \<Rightarrow> bool" where
  "occurs_in part [] = (part = [])"
| "occurs_in part (c # cs) = (take (length part) (c # cs) = part \<or> occurs_in part cs)"

definition discounted :: "growth_context \<Rightarrow> order \<Rightarrow> order" where
  "discounted ctx od = od\<lparr>ord_discount := gc_coupon_discount ctx,
     ord_promotion_discount := gc_promotion_discount ctx,
     ord_coupon := map_option cpn_id (gc_coupon ctx),
     ord_referral_code := (if gc_referral ctx \<noteq> None then gc_referral_code ctx else []),
     ord_total := max 0 (ord_subtotal od + ord_delivery_fee od - gc_total_discount ctx)\<rparr>"

definition apply_to_order :: "order \<Rightarrow> growth_context \<Rightarrow> nat option \<Rightarrow> order P" where
  "apply_to_order od ctx user = atomic (case gc_error ctx of
     Some m \<Rightarrow> raise (Exn CouponError m)
   | None \<Rightarrow>
       bnd (save_order (discounted ctx od) f_growth) (\<lambda>_.
       bnd (case gc_referral ctx of
              Some rc \<Rightarrow> whenever (user \<noteq> None) (bnd (attach_pending_referral (discounted ctx od) rc) (\<lambda>_. ret ()))
            | None \<Rightarrow> ret ()) (\<lambda>_.
       if promo_note ctx \<noteq> [] \<and> \<not> occurs_in (promo_note ctx) (ord_notes od) then
         let od' = (discounted ctx od)\<lparr>ord_notes := ord_notes od @ promo_note ctx\<rparr> in
         bnd (save_order od' f_notes) (\<lambda>_. ret od')
       else ret (discounted ctx od))))"

record growth_result =
  gr_coupon :: "redemption option"
  gr_referral :: "referral option"
  gr_attributions :: int

definition finalize_on_payment :: "env \<Rightarrow> order \<Rightarrow> growth_result P" where
  "finalize_on_payment env od = atomic (
     bnd (case ord_coupon od of
            Some k \<Rightarrow> bnd (redeem k od (ord_user od)) (\<lambda>r. ret (Some r)) | None \<Rightarrow> ret None) (\<lambda>c.
     bnd (finalize_referral env od) (\<lambda>f.
     bnd (record_for_order od) (\<lambda>rows.
     bnd (case ord_user od of
            Some u \<Rightarrow> bnd (calculate_clv u) (\<lambda>_. ret ()) | None \<Rightarrow> ret ()) (\<lambda>_.
     ret \<lparr>gr_coupon = c, gr_referral = f, gr_attributions = int (length rows)\<rparr>)))))"

text \<open>What it does to the tables, for the callers that drop its result\<close>

definition finalize_growth :: "env \<Rightarrow> order \<Rightarrow> unit P" where
  "finalize_growth env od = bnd (finalize_on_payment env od) (\<lambda>_. ret ())"

lemma finalize_growth_steps:
  "finalize_growth env od = atomic (
     bnd (case ord_coupon od of
            Some k \<Rightarrow> bnd (redeem k od (ord_user od)) (\<lambda>_. ret ()) | None \<Rightarrow> ret ()) (\<lambda>_.
     bnd (finalize_referral env od) (\<lambda>_.
     bnd (record_for_order od) (\<lambda>_.
     case ord_user od of
       Some u \<Rightarrow> bnd (calculate_clv u) (\<lambda>_. ret ()) | None \<Rightarrow> ret ()))))"
  by (rule ext) (simp add: finalize_growth_def finalize_on_payment_def run_atomic run_bnd ret_def
      split: option.split sum.split prod.split)

lemma finalize_growth_state: "snd (finalize_on_payment env od w) = snd (finalize_growth env od w)"
  by (simp add: finalize_growth_def run_bnd split: sum.split prod.split)

definition finalize_growth_order_task :: "env \<Rightarrow> nat \<Rightarrow> unit P" where
  "finalize_growth_order_task env k =
     bnd (gets (\<lambda>w. order_row w k)) (\<lambda>row.
     case row of None \<Rightarrow> ret () | Some od \<Rightarrow> finalize_growth env od)"

section \<open>Order numbers and daily sequence\<close>

definition generate_order_number :: "env \<Rightarrow> string P" where
  "generate_order_number env =
     bnd (gets (\<lambda>w. find (\<lambda>s. s \<notin> ord_number ` set (orders w))
            (map (\<lambda>t. ''CR-'' @ date_part env @ ''-'' @ str_upper t) (take 5 (order_tokens env))))) (\<lambda>found.
     get_or_raise (Exn CheckoutError (Text ''Unable to generate a unique order number.'')) found)"

definition has_sequence :: "order \<Rightarrow> bool" where
  "has_sequence od \<longleftrightarrow> (case ord_daily_sequence od of Some n \<Rightarrow> n \<noteq> 0 | None \<Rightarrow> False)"

definition sequences_on :: "world \<Rightarrow> date \<Rightarrow> int list" where
  "sequences_on w d = List.map_filter
     (\<lambda>od. if ord_daily_sequence_date od = Some d then ord_daily_sequence od else None) (orders w)"

definition next_sequence :: "world \<Rightarrow> date \<Rightarrow> int" where
  "next_sequence w d =
     (let m = (if sequences_on w d = [] then 0 else Max (set (sequences_on w d)))
      in (if m = 0 then 100 else m) + 1)"

text \<open>
  Each attempt reloads the row. A violation of the unique constraint on date and sequence is caught and
  the loop goes on, but the transaction around it is broken by then: the next attempt's first query is a
  \<open>TransactionManagementError\<close>.
\<close>

definition broken_transaction :: exn where
  "broken_transaction = Exn TransactionManagementError (Text
     ''An error occurred in the current transaction. You can't execute queries until the end of the 'atomic' block.'')"

primrec allocate_sequence :: "nat \<Rightarrow> nat \<Rightarrow> date \<Rightarrow> order P" where
  "allocate_sequence 0 k d = raise (Exn CheckoutError (Text ''Unable to assign a daily order number.''))"
| "allocate_sequence (Suc n) k d =
     bnd (get_order k) (\<lambda>od.
     if has_sequence od then ret od
     else
       bnd (gets (\<lambda>w. next_sequence w d)) (\<lambda>s.
       bnd (gets (\<lambda>w. \<exists>x\<in>set (orders w). ord_id x \<noteq> k \<and> ord_daily_sequence_date x = Some d \<and>
              ord_daily_sequence x = Some s)) (\<lambda>taken.
       if taken then (if n = 0 then allocate_sequence n k d else raise broken_transaction)
       else
         let od' = od\<lparr>ord_daily_sequence := Some s, ord_daily_sequence_date := Some d\<rparr> in
         bnd (save_order od' f_daily_sequence) (\<lambda>_. ret od'))))"

definition assign_daily_sequence :: "env \<Rightarrow> order \<Rightarrow> order P" where
  "assign_daily_sequence env od = atomic (
     if has_sequence od then ret od
     else allocate_sequence 5 (ord_id od) (local_date_of env (ord_created_at od)))"

section \<open>Orders from carts\<close>

definition EMPTY_CART :: exn where
  "EMPTY_CART = Exn EmptyCartError (Text ''Cannot checkout an empty cart.'')"

definition check_item_stock :: "cart_item \<times> product \<Rightarrow> unit P" where
  "check_item_stock = (\<lambda>(x, pr).
     try_except (check_cart_availability pr (ci_quantity x) None)
       (\<lambda>e. raise (Exn CheckoutError (StrOf e))))"

definition unavailable_names :: "(cart_item \<times> product) list \<Rightarrow> string list" where
  "unavailable_names items = map (\<lambda>(x, pr). prod_name pr) (filter (\<lambda>(x, pr). \<not> is_available pr) items)"

definition validate_cart_items :: "(cart_item \<times> product) list \<Rightarrow> unit P" where
  "validate_cart_items items =
     bnd (raise_if (items = []) EMPTY_CART) (\<lambda>_.
     bnd (raise_if (unavailable_names items \<noteq> []) (Exn CheckoutError
            (Fmt ''Some items are no longer available: {}'' (map AStr (unavailable_names items))))) (\<lambda>_.
     for_each items check_item_stock))"

text \<open>A pickup order has no address, no zone and no fee.\<close>

definition new_order :: "env \<Rightarrow> nat \<Rightarrow> string \<Rightarrow> cart \<Rightarrow> customer \<Rightarrow> nat option \<Rightarrow>
    order_status option \<Rightarrow> order_payment_status option \<Rightarrow> order" where
  "new_order env k number c cust user st pst =
     (let ty = or_default FT_PICKUP (cu_delivery_type cust); pickup = (ty = FT_PICKUP);
          field = (\<lambda>s. if pickup then [] else s) in
      \<lparr>ord_id = k, ord_number = number, ord_daily_sequence = None, ord_daily_sequence_date = None,
       ord_user = (if user \<noteq> None then user else cart_user c),
       ord_status = or_default S_PENDING_PAYMENT st,
       ord_payment_status = or_default PS_PENDING_PAYMENT pst,
       ord_payment_method = or_default PM_ONLINE (cu_payment_method cust), ord_delivery_type = ty,
       ord_email = cu_email cust, ord_phone = cu_phone cust, ord_first_name = cu_first_name cust,
       ord_last_name = cu_last_name cust, ord_address_line1 = field (cu_address_line1 cust),
       ord_address_line2 = field (cu_address_line2 cust), ord_city = field (cu_city cust),
       ord_state = field (cu_state cust), ord_postal_code = field (cu_postal_code cust),
       ord_country = (if pickup \<or> cu_country cust = [] then ''Iran'' else cu_country cust),
       ord_delivery_zone = (if pickup then None else cu_delivery_zone cust),
       ord_delivery_fee = (if pickup then 0 else or_default 0 (cu_delivery_fee cust)),
       ord_fulfillment_date = None, ord_subtotal = 0, ord_discount = 0, ord_promotion_discount = 0,
       ord_total = 0, ord_coupon = None, ord_referral_code = [], ord_notes = cu_notes cust,
       ord_created_at = now env\<rparr>)"

definition create_order_item :: "nat \<Rightarrow> cart_item \<times> product \<Rightarrow> unit P" where
  "create_order_item k = (\<lambda>(x, pr).
     bnd (raise_if (ci_quantity x < 1)
            (Exn IntegrityError (Text ''order_item_quantity_positive''))) (\<lambda>_.
     bnd fresh_pk (\<lambda>i.
     modifies (\<lambda>w. w\<lparr>order_items := order_items w @ [\<lparr>oi_id = i, oi_order = k,
       oi_product = prod_id pr, oi_product_name = prod_name pr, oi_unit_price = prod_price pr,
       oi_quantity = ci_quantity x, oi_line_total = prod_price pr * ci_quantity x,
       oi_fulfillment_date = None\<rparr>]\<rparr>))))"

definition create_order_from_cart :: "env \<Rightarrow> cart \<Rightarrow> (cart_item \<times> product) list option \<Rightarrow> customer \<Rightarrow>
    nat option \<Rightarrow> order_status option \<Rightarrow> order_payment_status option \<Rightarrow> order P" where
  "create_order_from_cart env cart0 given cust user st pst = atomic (
     bnd (case given of
            Some items \<Rightarrow> ret (cart0, items)
          | None \<Rightarrow> lock_cart_for_checkout (cart_id cart0)) (\<lambda>(c, items).
     bnd (validate_cart_items items) (\<lambda>_.
     bnd (generate_order_number env) (\<lambda>number.
     bnd fresh_pk (\<lambda>k.
     let od = new_order env k number c cust user st pst in
     bnd (insert_order od) (\<lambda>_.
     bnd (for_each items (create_order_item k)) (\<lambda>_.
     let subtotal = calculate_subtotal items;
         od' = od\<lparr>ord_subtotal := subtotal, ord_total := subtotal + ord_delivery_fee od\<rparr> in
     bnd (save_order od' f_totals) (\<lambda>_.
     assign_daily_sequence env od'))))))))"

definition finalize_checkout_stock :: "env \<Rightarrow> cart \<Rightarrow> order \<Rightarrow> order P" where
  "finalize_checkout_stock env c od = atomic (
     bnd (release_cart_reservations (cart_id c)) (\<lambda>_.
     bnd (reserve_for_order env od) (\<lambda>(rs, od').
     bnd (clear_cart env c) (\<lambda>_. ret od'))))"

section \<open>Delivery rules\<close>

definition normalize_place :: "string \<Rightarrow> string" where
  "normalize_place s = str_lower (str_strip s)"

definition zone_matches :: "string \<Rightarrow> string \<Rightarrow> delivery_zone \<Rightarrow> bool" where
  "zone_matches city_key state_key z \<longleftrightarrow>
     city_key \<in> normalize_place ` set (dz_cities z) \<or>
     state_key \<noteq> [] \<and> state_key \<in> normalize_place ` set (dz_states z)"

definition ordered_zones :: "world \<Rightarrow> delivery_zone list" where
  "ordered_zones w = sort_key dz_sort_order (sort_key dz_id (filter dz_is_active (delivery_zones w)))"

definition resolve_zone :: "string \<Rightarrow> string \<Rightarrow> delivery_zone P" where
  "resolve_zone city state =
     bnd (gets (\<lambda>w. find (zone_matches (normalize_place city)
            (if state = [] then [] else normalize_place state)) (ordered_zones w)))
       (get_or_raise (Exn UndeliverableAddressError
          (Fmt ''Delivery is not available for {}. Please choose a supported city.'' [AStr city])))"

definition calculate_fee :: "delivery_zone \<Rightarrow> money \<Rightarrow> fulfillment_type \<Rightarrow> money" where
  "calculate_fee z subtotal ty =
     (if ty = FT_PICKUP then 0
      else if (case dz_free_threshold z of Some t \<Rightarrow> t \<noteq> 0 \<and> t \<le> subtotal | None \<Rightarrow> False) then
        (if ty = FT_EXPRESS then dz_express_fee z else 0)
      else if ty = FT_EXPRESS then
        (if dz_express_fee z \<noteq> 0 then dz_express_fee z else dz_delivery_fee z)
      else dz_delivery_fee z)"

definition validate_minimum_order :: "delivery_zone \<Rightarrow> money \<Rightarrow> unit P" where
  "validate_minimum_order z subtotal =
     raise_if (subtotal < dz_min_order z) (Exn MinimumOrderError
       (Fmt ''Minimum order for {} is {}'' [AStr (dz_name z), AInt (int_of_money (dz_min_order z))]))"

definition default_delivery_type :: "payment_method \<Rightarrow> fulfillment_type" where
  "default_delivery_type m = (if m = PM_COD then FT_COD else FT_COURIER)"

section \<open>Deleting an order\<close>

text \<open>
  \<open>order.delete()\<close>: payments protect it; items, logs, reservations, redemptions and attributions go
  with it; every other reference to it becomes null.
\<close>

definition unlink :: "nat \<Rightarrow> nat option \<Rightarrow> nat option" where
  "unlink k x = (if x = Some k then None else x)"

definition forget_order :: "nat \<Rightarrow> growth \<Rightarrow> growth" where
  "forget_order k g = g\<lparr>
     g_redemptions := filter (\<lambda>r. rd_order r \<noteq> k) (g_redemptions g),
     g_attributions := filter (\<lambda>a. at_order a \<noteq> k) (g_attributions g),
     g_transactions := map (\<lambda>t. t\<lparr>lt_order := unlink k (lt_order t)\<rparr>) (g_transactions g),
     g_events := map (\<lambda>e. e\<lparr>ge_order := unlink k (ge_order e)\<rparr>) (g_events g),
     g_referrals := map (\<lambda>r. r\<lparr>rf_first_order := unlink k (rf_first_order r)\<rparr>) (g_referrals g),
     g_trackers := (\<lambda>c. map_option (\<lambda>t. t\<lparr>tr_recovered_order := unlink k (tr_recovered_order t)\<rparr>)
       (g_trackers g c))\<rparr>"

definition delete_order :: "nat \<Rightarrow> unit P" where
  "delete_order k =
     bnd (gets (\<lambda>w. payments_of w k \<noteq> [])) (\<lambda>paid.
     bnd (raise_if paid (Exn ProtectedError (Text ''Order''))) (\<lambda>_.
     modifies (\<lambda>w. w\<lparr>orders := filter (\<lambda>x. ord_id x \<noteq> k) (orders w),
       order_items := filter (\<lambda>x. oi_order x \<noteq> k) (order_items w),
       status_logs := filter (\<lambda>l. log_order l \<noteq> k) (status_logs w),
       reservations := filter (\<lambda>r. res_order r \<noteq> Some k) (reservations w),
       carts := map (\<lambda>c. c\<lparr>cart_active_order := unlink k (cart_active_order c)\<rparr>) (carts w),
       sms_logs := map (\<lambda>l. l\<lparr>sl_order := unlink k (sl_order l)\<rparr>) (sms_logs w),
       growth := forget_order k (growth w)\<rparr>)))"

section \<open>Online checkout\<close>

record checkout_result =
  co_order :: order
  co_payment :: "payment option"
  co_method :: payment_method
  co_url :: "string option"

definition nonempty :: "string \<Rightarrow> string option" where
  "nonempty s = (if s = [] then None else Some s)"

text \<open>The cart instance comes back too: a lock that is no longer in progress is cleared on it.\<close>

definition resolve_in_progress_checkout ::
  "env \<Rightarrow> cart \<Rightarrow> payment_method \<Rightarrow> (checkout_result option \<times> cart) P" where
  "resolve_in_progress_checkout env c m = (case cart_active_order c of
     None \<Rightarrow> ret (None, c)
   | Some k \<Rightarrow>
       bnd (get_order k) (\<lambda>od.
       if \<not> is_order_checkout_in_progress (Some od) then
         bnd (clear_active_checkout_order env c) (\<lambda>c'. ret (None, c'))
       else
         bnd (gets (\<lambda>w. latest (\<lambda>p. pay_order p = k) (payments w))) (\<lambda>row.
         bnd (raise_if (row = None \<and> m = PM_ONLINE) (Exn CheckoutAlreadyInProgress
                (Text ''Checkout is already in progress for this cart.''))) (\<lambda>_.
         ret (Some \<lparr>co_order = od, co_payment = row, co_method = m,
                    co_url = (case row of Some p \<Rightarrow> nonempty (pay_checkout_url p) | None \<Rightarrow> None)\<rparr>, c)))))"

definition cleanup_failed_checkout :: "env \<Rightarrow> cart \<Rightarrow> nat option \<Rightarrow> unit P" where
  "cleanup_failed_checkout env c k =
     bnd (case k of
            Some j \<Rightarrow> bnd (release_stock j) (\<lambda>_. delete_order j) | None \<Rightarrow> ret ()) (\<lambda>_.
     bnd (clear_active_checkout_order env c) (\<lambda>_. ret ()))"

text \<open>\<open>except Exception as exc: cleanup; raise CheckoutError(str(exc))\<close>\<close>

definition fail_checkout :: "env \<Rightarrow> cart \<Rightarrow> nat option \<Rightarrow> message \<Rightarrow> 'a P" where
  "fail_checkout env c k m =
     bnd (cleanup_failed_checkout env c k) (\<lambda>_. raise (Exn CheckoutError m))"

definition require_phone :: "customer \<Rightarrow> unit P" where
  "require_phone cust = raise_if (cu_phone cust = []) (Exn CheckoutError (Text ''phone is required (fa)''))"

definition require_items :: "(cart_item \<times> product) list \<Rightarrow> unit P" where
  "require_items items = raise_if (items = []) (Exn CheckoutError (StrOf EMPTY_CART))"

definition place_order :: "env \<Rightarrow> cart \<Rightarrow> order \<Rightarrow> growth_context \<Rightarrow> nat option \<Rightarrow> order P" where
  "place_order env c od ctx user =
     bnd (set_active_checkout_order env c (ord_id od)) (\<lambda>c'.
     bnd (apply_to_order od ctx user) (\<lambda>od'.
     finalize_checkout_stock env c' od'))"

definition online_unavailable :: message where
  "online_unavailable = Text ''online payment is unavailable (fa)''"

definition start_payment :: "env \<Rightarrow> cart \<Rightarrow> order \<Rightarrow> payment P" where
  "start_payment env c od =
     try_except (initiate_online env get_online_payment_provider (ord_id od))
       (\<lambda>e. if is_payment_error (class_of e)
            then fail_checkout env c (Some (ord_id od)) online_unavailable else raise e)"

definition online_details :: "customer \<Rightarrow> customer" where
  "online_details cust = cust\<lparr>cu_payment_method := Some PM_ONLINE, cu_delivery_type := Some FT_PICKUP,
     cu_delivery_zone := None, cu_delivery_fee := Some 0\<rparr>"

text \<open>The part after the cart was found to be free.\<close>

definition checkout_cart :: "env \<Rightarrow> cart \<Rightarrow> (cart_item \<times> product) list \<Rightarrow> customer \<Rightarrow> nat option \<Rightarrow>
    checkout_result P" where
  "checkout_cart env c items cust user =
     bnd (require_items items) (\<lambda>_.
     bnd (require_phone cust) (\<lambda>_.
     bnd (prepare_growth env c user cust (calculate_subtotal items)) (\<lambda>ctx.
     bnd (case gc_error ctx of Some m \<Rightarrow> raise (Exn CheckoutError m) | None \<Rightarrow> ret ()) (\<lambda>_.
     bnd (try_except (bnd (create_order_from_cart env c (Some items) (online_details cust) user None None)
                        (\<lambda>od. ret (Inr od))) (\<lambda>e. ret (Inl e))) (\<lambda>created.
     case created of
       Inl e \<Rightarrow> fail_checkout env c None (StrOf e)
     | Inr od0 \<Rightarrow>
         let locked = c\<lparr>cart_active_order := Some (ord_id od0)\<rparr> in
         bnd (try_except (place_order env c od0 ctx user)
                (\<lambda>e. fail_checkout env locked (Some (ord_id od0)) (StrOf e))) (\<lambda>od.
         bnd (start_payment env locked od) (\<lambda>p.
         let od' = od\<lparr>ord_payment_status := PS_PENDING_PAYMENT, ord_status := S_PENDING_PAYMENT\<rparr> in
         bnd (save_order od' f_both_statuses) (\<lambda>_.
         ret \<lparr>co_order = od', co_payment = Some p, co_method = PM_ONLINE,
              co_url = Some (pay_checkout_url p)\<rparr>))))))))"

definition process_checkout :: "env \<Rightarrow> nat \<Rightarrow> customer \<Rightarrow> nat option \<Rightarrow> checkout_result P" where
  "process_checkout env c cust user = atomic (
     bnd (lock_cart_for_checkout c) (\<lambda>(ct, items).
     bnd (resolve_in_progress_checkout env ct PM_ONLINE) (\<lambda>(existing, ct').
     case existing of
       Some r \<Rightarrow> ret r
     | None \<Rightarrow> checkout_cart env ct' items cust user)))"

section \<open>Counter checkout\<close>

record counter_result =
  ct_order :: order
  ct_payment :: payment
  ct_method :: payment_method

definition counter_details :: "payment_method \<Rightarrow> customer \<Rightarrow> customer" where
  "counter_details m cust = cust\<lparr>cu_payment_method := Some m, cu_delivery_type := Some FT_PICKUP,
     cu_delivery_zone := None, cu_delivery_fee := Some 0\<rparr>"

definition process_counter_checkout ::
  "env \<Rightarrow> nat \<Rightarrow> customer \<Rightarrow> payment_method \<Rightarrow> nat option \<Rightarrow> counter_result P" where
  "process_counter_checkout env c cust m user = atomic (
     bnd (raise_if (m \<notin> {PM_CASH, PM_COUNTER_CARD}) (Exn CheckoutError
            (Fmt ''Unsupported counter payment method: {}'' [AStr (method_value m)]))) (\<lambda>_.
     bnd (require_phone cust) (\<lambda>_.
     bnd (lock_cart_for_checkout c) (\<lambda>(ct, items).
     bnd (require_items items) (\<lambda>_.
     bnd (create_order_from_cart env ct (Some items) (counter_details m cust) user
            (Some S_AWAITING_PAYMENT) (Some PS_PENDING_PAYMENT)) (\<lambda>od.
     bnd (finalize_checkout_stock env ct od) (\<lambda>od'.
     bnd (initiate_counter_payment env od' m) (\<lambda>p.
     ret \<lparr>ct_order = od', ct_payment = p, ct_method = m\<rparr>))))))))"

end
