(* ===== verification/Examples.thy ===== *)
theory Examples
  imports CleanupProps Checkout
begin

text \<open>
  Concrete instances: the program run by the simplifier on small databases. The congruence rules
  \<open>lazily\<close> keep it out of branches that are not taken; the bundles name the definitions of each part.
\<close>

section \<open>Running the model\<close>

lemma lazily: "bnd m f = bnd m f" "try_except m h = try_except m h" "atomic m = atomic m"
  "b = b' \<Longrightarrow> whenever b m = whenever b' m" "xs = ys \<Longrightarrow> for_each xs f = for_each ys f"
  "xs = ys \<Longrightarrow> for_collect xs g = for_collect ys g"
  by simp_all

lemma window: "[0..<14] = [0, 1, 2, 3, 4, 5, 6, 7, 8, 9, 10, 11, 12, 13]"
  by (simp add: upt_rec)

lemmas models_code = window is_available_def available_quantity_def available_units_def is_cod_def
  is_counter_payment_def has_active_zarinpal_checkout_def empty_growth_def minutes_def latest_def
  scan_days.simps for_each.simps for_collect.simps

lemmas statemachine_code =
  TERMINAL_STATUSES_def can_transition_def cannot_transition_def validate_transition_def

lemmas orderevents_code =
  customer_fa_def phone_of_user_def resolve_phone_def base_context_def sms_event_def
  paid_states_def payment_events_of_def status_events_of_def build_order_lifecycle_events_def
  idempotency_key_def claim_idempotency_key_def apply_idempotent_task_def lifecycle_task_def
  emit_order_lifecycle_events_def order_row_def get_order_def save_order_def insert_order_def
  f_status_def f_payment_status_def f_both_statuses_def f_fulfillment_date_def f_totals_def
  f_daily_sequence_def f_growth_def f_notes_def

lemmas inventory_code =
  default_inventory_def get_or_create_inventory_def get_available_quantity_def
  active_for_cart_def not_available_def only_units_def check_cart_availability_def
  default_daily_capacity_def get_or_create_daily_capacity_def max_days_def fully_booked_def
  not_available_quantity_def find_fulfillment_date_def create_reservation_def
  add_reserved_units_def add_reserved_quantity_def capacity_insufficient_def reserve_item_def
  items_of_def get_product_def set_item_date_def reserve_order_item_def reserve_for_order_def
  save_inventory_def save_capacity_def save_reservation_def set_res_status_def
  give_back_stock_def give_back_capacity_def release_single_reservation_def
  query_reservations_def release_cart_reservations_def release_cart_reservations_for_product_def
  reserve_for_cart_item_def confirm_row_def confirm_reservations_def release_reservations_def
  use_stock_def use_capacity_def mark_out_of_stock_def fulfill_one_def fulfill_reservations_def
  expire_one_def is_stale_def expire_stale_reservations_def

lemmas orderservice_code =
  payments_of_def save_payment_def set_pay_status_def payment_process_refund_def
  create_status_log_def transition_def set_payment_status_def cancel_def mark_payment_failed_def
  request_refund_def process_refund_def complete_delivery_def reserve_stock_def confirm_stock_def
  release_stock_def finalize_counter_payment_def paid_statuses_def finalize_online_payment_def
  finalize_cod_placement_def confirm_cod_def record_cash_received_def complete_pickup_order_def

lemmas payments_code =
  get_one_def payment_row_def get_payment_def create_payment_def settle_row_def
  order_has_successful_payment_def already_paid_def mark_paid_def mark_failed_def
  mark_cancelled_def initiate_cod_def counter_provider_def initiate_counter_payment_def
  mark_counter_payment_received_def mark_counter_cash_received_def mark_counter_card_received_def
  ensure_cod_cash_finalized_def mark_cod_cash_received_def get_reusable_zarinpal_payment_def
  open_session_def open_checkout_def initiate_online_def

lemmas providers_code =
  dget_def dget_or_def dget_dict_def json_pk_def get_payment_where_def
  ZARINPAL_MIN_AMOUNT_IRR_def ZARINPAL_SUCCESS_CODE_def provider_error_def
  validate_order_payment_amount_def api_base_def callback_url_def check_errors_def code_arg_def
  zarinpal_request_payment_def zarinpal_create_checkout_session_def zarinpal_verify_webhook_def
  zarinpal_verify_payment_def zarinpal_resolve_payment_def status_is_ok_def verify_or_message_def
  zarinpal_record_verified_def zarinpal_apply_def zarinpal_handle_webhook_event_def
  zarinpal_methods_def zarinpal_provider_def stripe_disabled_def
  stripe_create_checkout_session_def stripe_verify_webhook_def latest_payment_where_def
  order_number_of_def stripe_payment_from_event_def str_or_def stripe_intent_id_def stripe_id_def
  stripe_checkout_completed_def stripe_checkout_expired_def stripe_payment_failed_def
  stripe_charge_refunded_def stripe_handle_webhook_event_def stripe_methods_def
  stripe_provider_def get_online_payment_provider_def initiate_payment_def event_row_def
  save_event_def get_or_create_event_def mark_processed_def process_webhook_def
  handle_stripe_webhook_def handle_zarinpal_callback_def stripe_webhook_view_def
  zarinpal_callback_view_def create_checkout_session_view_def

lemmas stalecleanup_code =
  STALE_ONLINE_PAYMENT_TIMEOUT_MINUTES_def timeout_or_default_def
  get_stale_online_payment_cutoff_def ONLINE_PROVIDERS_def STALE_PAYMENT_STATUSES_def
  is_stale_online_payment_def stale_online_payments_queryset_def clear_cart_checkout_lock_def
  cleanup_message_def cleanup_stale_online_payment_def cleanup_stale_online_payments_def
  pay_in_def

lemmas cart_code =
  items_in_def price_of_def line_total_def total_items_def is_empty_cart_def get_subtotal_def
  cart_row_def get_cart_def save_cart_def resolve_phone_for_cart_def put_tracker_def
  touched_tracker_def new_tracker_def sync_abandoned_cart_tracker_def
  IN_PROGRESS_ORDER_STATUSES_def TERMINAL_PAYMENT_STATUSES_def with_product_def
  lock_cart_for_checkout_def calculate_subtotal_def set_active_checkout_order_def
  clear_active_checkout_order_def ensure_cart_mutable_def create_cart_def get_or_create_cart_def
  validate_quantity_def validate_product_def item_row_def check_item_quantity_def
  get_or_create_item_def save_item_quantity_def add_item_def set_item_quantity_def
  delete_items_def remove_item_def clear_cart_def delete_cart_def merge_item_def merge_carts_def

lemmas loyalty_code =
  calculate_tier_def points_for_order_total_def earned_for_def award_points_for_order_def
  award_loyalty_points_task_def

lemmas growth_code =
  normalize_code_def iexact_def find_active_coupon_def coupon_discount_def coupon_refused_def
  has_paid_order_def uses_of_def validate_coupon_def redeem_def or_default_def percent_of_def
  slug_of_product_def in_slugs_def is_vip_def eligible_total_def qualifying_quantity_def
  apply_rule_def ordered_rules_def evaluate_promotions_def generate_referral_code_def
  get_or_create_code_def email_of_user_def is_likely_self_referral_def was_referred_def
  find_referral_code_def validate_referral_def attach_pending_referral_def save_referral_def
  reward_referrer_def onboarding_discount_def pending_referral_def finalize_referral_def
  get_or_create_attribution_def code_of_coupon_def redeemed_coupon_def attribute_coupon_def
  attribute_referral_def promotion_source_id_def attribute_promotion_def recovered_tracker_def
  track_event_def attribute_sms_def record_for_order_def paid_orders_of_def frequency_of_def
  clv_of_def calculate_clv_def

lemmas checkout_code =
  first_nonempty_def prepare_growth_def promo_note_def discounted_def apply_to_order_def
  finalize_growth_steps finalize_growth_order_task_def generate_order_number_def has_sequence_def
  sequences_on_def next_sequence_def assign_daily_sequence_def EMPTY_CART_def
  check_item_stock_def unavailable_names_def validate_cart_items_def new_order_def
  create_order_item_def create_order_from_cart_def finalize_checkout_stock_def
  normalize_place_def zone_matches_def ordered_zones_def resolve_zone_def calculate_fee_def
  validate_minimum_order_def default_delivery_type_def unlink_def forget_order_def
  delete_order_def nonempty_def resolve_in_progress_checkout_def cleanup_failed_checkout_def
  fail_checkout_def require_phone_def require_items_def place_order_def online_unavailable_def
  start_payment_def online_details_def checkout_cart_def process_checkout_def counter_details_def
  process_counter_checkout_def

lemmas shop_code = models_code cart_code loyalty_code growth_code checkout_code

lemmas all_code = statemachine_code orderevents_code inventory_code orderservice_code payments_code
  providers_code stalecleanup_code

section \<open>An online payment\<close>

text \<open>An order of three cookies whose Zarinpal checkout is open.\<close>

definition demo_order :: order where
  "demo_order = \<lparr>ord_id = 7, ord_number = ''CR-1'', ord_daily_sequence = None,
     ord_daily_sequence_date = None, ord_user = None, ord_status = S_PENDING_PAYMENT,
     ord_payment_status = PS_PENDING_PAYMENT, ord_payment_method = PM_ONLINE,
     ord_delivery_type = FT_PICKUP, ord_email = [], ord_phone = ''0912'', ord_first_name = ''A'',
     ord_last_name = [], ord_address_line1 = [], ord_address_line2 = [], ord_city = [],
     ord_state = [], ord_postal_code = [], ord_country = [], ord_delivery_zone = None,
     ord_delivery_fee = 0, ord_fulfillment_date = Some 10, ord_subtotal = 15000000,
     ord_discount = 0, ord_promotion_discount = 0, ord_total = 15000000, ord_coupon = None,
     ord_referral_code = [], ord_notes = [], ord_created_at = 0\<rparr>"

definition demo_payment :: payment where
  "demo_payment = \<lparr>pay_id = 8, pay_order = 7, pay_provider = PV_ZARINPAL,
     pay_status = P_PROCESSING, pay_amount = 15000000, pay_currency = ''irr'',
     pay_provider_payment_id = [], pay_session_id = ''A7'', pay_checkout_url = ''u'',
     pay_failure_message = Text [], pay_metadata = [], pay_created_at = 0\<rparr>"

definition pay_world :: world where
  "pay_world = (demo_world (Some 7) None)
     \<lparr>orders := [demo_order], payments := [demo_payment], next_pk := 9\<rparr>"

definition demo_callback :: payload where
  "demo_callback = Json_Payload [(''authority'', JStr ''A7''), (''status'', JStr ''OK'')]"

definition demo_event :: webhook_event where
  "demo_event = \<lparr>we_id = ''zarinpal:authority:A7'', we_type = ''payment.callback'',
     we_data = [(''authority'', JStr ''A7''), (''status'', JStr ''OK''), (''payment_id'', JNull)]\<rparr>"

lemma upper_ok: "str_upper ''OK'' = ''OK''"
  by code_simp

lemma demo_amount: "int_of_money 15000000 = 150000"
  by code_simp

lemmas instances = demo_amount demo_env_def demo_product_def demo_inventory_def demo_reservation_def
  demo_world_def pay_world_def demo_callback_def demo_event_def demo_order_def demo_payment_def
  empty_world_def lower_irr upper_ok

lemmas program = run all_code instances Let_def

lemma Inr_call:
  assumes "\<not> isl (fst (m w))"
  obtains x where "m w = (Inr x, snd (m w))"
  using assms by (cases "m w"; cases "fst (m w)") auto

lemma zarinpal_callback_once_witness:
  "\<exists>e'. handle_zarinpal_callback (demo_env\<lparr>zarinpal_verify := \<lambda>s a. Http_Transport ''down''\<rparr>) demo_callback
     (snd (handle_zarinpal_callback demo_env demo_callback pay_world)) =
     (Inr e', snd (handle_zarinpal_callback demo_env demo_callback pay_world)) \<and> ev_processed e'"
proof -
  have "\<not> isl (fst (handle_zarinpal_callback demo_env demo_callback pay_world))"
    by (simp add: program cong: lazily split del: if_split)
  then obtain e where "handle_zarinpal_callback demo_env demo_callback pay_world =
    (Inr e, snd (handle_zarinpal_callback demo_env demo_callback pay_world))" by (rule Inr_call)
  from zarinpal_callback_once [OF this] show ?thesis by (simp add: demo_env_def)
qed

text \<open>A gateway that confirms the payment of an order that is already cancelled: the transition is refused.\<close>

definition late_world :: world where
  "late_world = pay_world\<lparr>orders := [demo_order\<lparr>ord_status := S_CANCELLED\<rparr>]\<rparr>"

lemma failed_callback_is_forgotten_witness:
  "\<exists>exc v. handle_zarinpal_callback demo_env demo_callback late_world =
      (Inl (Exn WebhookProcessingError (StrOf exc)), v) \<and>
    v = late_world\<lparr>broker := broker v\<rparr> \<and> event_row v (we_id demo_event) = None"
proof -
  let ?w = "snd (get_or_create_event (zarinpal_methods demo_env) demo_event late_world)"
  have "isl (fst (zarinpal_handle_webhook_event demo_env demo_event ?w))"
    by (simp add: program late_world_def cong: lazily split del: if_split)
  then obtain exc t where h: "zarinpal_handle_webhook_event demo_env demo_event ?w = (Inl exc, t)"
    by (cases "zarinpal_handle_webhook_event demo_env demo_event ?w") (auto simp: isl_def)
  have "zarinpal_verify_webhook demo_callback [] late_world = (Inr demo_event, late_world)"
    by (simp add: zarinpal_verify_webhook_def demo_callback_def demo_event_def dget_or_def dget_def run)
  moreover have "event_row late_world (we_id demo_event) = None"
    by (simp add: event_row_def late_world_def pay_world_def demo_world_def empty_world_def)
  moreover have "zarinpal_merchant_id demo_env \<noteq> []" by (simp add: demo_env_def)
  ultimately show ?thesis using failed_callback_is_forgotten [OF _ _ _ h] by blast
qed

lemma paid_only_when_verified_witness:
  "\<exists>od p authority ref x. order_row pay_world 7 = Some od \<and> payment_row pay_world (pay_id p) = Some p \<and>
    pay_order p = 7 \<and> dget (we_data demo_event) ''authority'' = JStr authority \<and>
    int_of_money (pay_amount p) = int_of_money (ord_total od) \<and> 0 < ref \<and>
    zarinpal_verify demo_env authority (int_of_money (ord_total od)) =
      Http_Json [] (Some ZARINPAL_SUCCESS_CODE) x (Some ref)"
proof -
  let ?v = "snd (zarinpal_handle_webhook_event demo_env demo_event pay_world)"
  have "\<not> isl (fst (zarinpal_handle_webhook_event demo_env demo_event pay_world)) \<and>
      map_option ord_payment_status (order_row ?v 7) = Some PS_PAID"
    by (simp add: program cong: lazily split del: if_split)
  then have ok: "\<not> isl (fst (zarinpal_handle_webhook_event demo_env demo_event pay_world))"
    and after: "received 7 ?v" by (auto simp: pay_in_def)
  from ok obtain u where "zarinpal_handle_webhook_event demo_env demo_event pay_world = (Inr u, ?v)"
    by (rule Inr_call)
  then have run: "zarinpal_handle_webhook_event demo_env demo_event pay_world = (Inr (), ?v)" by simp
  have before: "unpaid 7 pay_world"
    by (simp add: pay_in_def order_row_def pay_world_def demo_order_def)
  show ?thesis by (rule paid_only_when_verified [OF run before after])
qed

lemma received_payment_is_not_undone_witness:
  "\<exists>od'. order_row (pay_run [(demo_env, Mark_Failed 7 8 (Text ''late'')),
      (demo_env, Zarinpal_Callback demo_callback), (demo_env, Cleanup (Some 0))]
      (pay_world\<lparr>orders := [demo_order\<lparr>ord_payment_status := PS_PAID\<rparr>]\<rparr>)) 7 = Some od' \<and>
    ord_payment_status od' \<in> {PS_PAID, PS_CASH_RECEIVED}"
proof -
  let ?w = "pay_world\<lparr>orders := [demo_order\<lparr>ord_payment_status := PS_PAID\<rparr>]\<rparr>"
  let ?cs = "[(demo_env, Mark_Failed 7 8 (Text ''late'')),
      (demo_env, Zarinpal_Callback demo_callback), (demo_env, Cleanup (Some 0))]"
  have "(env, c) \<in> set ?cs \<Longrightarrow> \<not> refund_call env c" for env c by auto
  then have none: "?cs = xs @ (env, c) # ys \<Longrightarrow> \<not> refund_call env c" for xs env c ys
    by (metis in_set_conv_decomp)
  have "order_row ?w 7 = Some (demo_order\<lparr>ord_payment_status := PS_PAID\<rparr>)"
    by (simp add: order_row_def pay_world_def demo_order_def)
  from received_payment_is_not_undone [OF this, of ?cs] none show ?thesis by (simp del: pay_run.simps) blast
qed

section \<open>A stale checkout\<close>

lemma stock_ok_pay_world: "stock_ok pay_world"
  by (auto simp: stock_ok_def rows_ok_def pay_world_def demo_world_def demo_reservation_def
      demo_inventory_def empty_world_def held_product_def held_day_def live_def)

lemma cleaned_checkout_is_closed_witness:
  "let v = snd (cleanup_stale_online_payment (demo_env\<lparr>now := 2000000000\<rparr>) 8 pay_world) in
   \<exists>pm od. payment_row v 8 = Some pm \<and> pay_status pm = P_FAILED \<and>
    order_row v (pay_order pm) = Some od \<and> ord_status od = S_CANCELLED \<and>
    ord_payment_status od = PS_FAILED \<and>
    (\<forall>r. r \<in> set (reservations v) \<longrightarrow> res_order r = Some (ord_id od) \<longrightarrow> \<not> live r) \<and>
    (\<forall>c. c \<in> set (carts v) \<longrightarrow> cart_active_order c \<noteq> Some (ord_id od)) \<and>
    cleanup_stale_online_payment demo_env 8 v = (Inr Skipped_Payment_Status, v)"
proof -
  let ?m = "cleanup_stale_online_payment (demo_env\<lparr>now := 2000000000\<rparr>) 8"
  have "fst (?m pay_world) = Inr Cleaned"
    by (simp add: program minutes_def cong: lazily split del: if_split)
  then have "?m pay_world = (Inr Cleaned, snd (?m pay_world))" by (metis prod.collapse)
  from cleaned_checkout_is_closed [OF stock_ok_pay_world this] show ?thesis unfolding Let_def .
qed

text \<open>A payment of twenty minutes is selected with a timeout of ten, and skipped as fresh.\<close>

lemma short_timeout_cleans_nothing_younger_witness:
  "cleanup_stale_online_payment (demo_env\<lparr>now := 1200000000\<rparr>) 8 pay_world =
     (Inr Skipped_Fresh, pay_world)"
  by (rule short_timeout_cleans_nothing_younger [where t = 10 and pm = demo_payment])
    (simp_all add: program minutes_def)

lemma initiate_online_twice_witness:
  "let w = pay_world\<lparr>payments := []\<rparr>; v = snd (initiate_online demo_env get_online_payment_provider 7 w) in
   \<exists>p. initiate_online demo_env get_online_payment_provider 7 w = (Inr p, v) \<and>
     initiate_online demo_env get_online_payment_provider 7 v = (Inr p, v)"
proof -
  let ?w = "pay_world\<lparr>payments := []\<rparr>"
  have "\<not> isl (fst (initiate_online demo_env get_online_payment_provider 7 ?w))"
    by (simp add: program cong: lazily split del: if_split)
  then obtain p where p: "initiate_online demo_env get_online_payment_provider 7 ?w =
    (Inr p, snd (initiate_online demo_env get_online_payment_provider 7 ?w))" by (rule Inr_call)
  have "initiate_online demo_env get_online_payment_provider 7
      (snd (initiate_online demo_env get_online_payment_provider 7 ?w)) =
    (Inr p, snd (initiate_online demo_env get_online_payment_provider 7 ?w))"
    by (rule initiate_online_twice [OF _ _ _ p]) (simp_all add: payments_ok_def demo_env_def)
  with p show ?thesis unfolding Let_def by blast
qed

end
