(* ===== verification/GrowthFrame.thy ===== *)
theory GrowthFrame
  imports Checkout
begin

text \<open>
  The growth services write only the growth tables and take row numbers: every predicate that does not
  read them is kept by all of them.
\<close>

locale growth_frame =
  fixes I :: "world \<Rightarrow> bool"
  assumes growth_tables: "of_tables I"
    and frame_growth: "I (w\<lparr>growth := g\<rparr>) = I w"
    and frame_next_pk: "I w \<Longrightarrow> I (w\<lparr>next_pk := Suc (next_pk w)\<rparr>)"
begin

lemmas keeps_growth_block = keeps_atomic [OF growth_tables]

lemma keeps_next_pk: "keeps I fresh_pk"
  by (rule keepsI) (simp add: run_fresh_pk frame_next_pk)

lemma keeps_put_tracker: "keeps I (modifies (put_tracker c t))"
  by (rule keeps_modifies) (simp add: put_tracker_def frame_growth)

lemma keeps_put_tracker_of: "keeps I (modifies (\<lambda>w. put_tracker c (f w) w))"
  by (rule keeps_modifies) (simp add: put_tracker_def frame_growth)

text \<open>The growth services write only their own tables.\<close>

lemma keeps_set_growth_any: "keeps I (set_growth f)"
  by (rule keeps_set_growth) (simp add: frame_growth)

lemmas keeps_growth = keeps_intros keeps_set_growth_any keeps_next_pk

lemma keeps_account: "keeps I (get_or_create_account u)" "keeps I (save_account u a)"
    "keeps I (add_transaction u ty n b od)"
  unfolding get_or_create_account_def save_account_def add_transaction_def by (intro keeps_growth)+

lemma keeps_award: "keeps I (award_points_for_order env od)"
  unfolding award_points_for_order_def by (intro keeps_growth_block keeps_growth keeps_account)

lemma keeps_validate_coupon: "keeps J (validate_coupon env code s u)"
  unfolding validate_coupon_def find_active_coupon_def
  by (intro keeps_intros) (auto intro!: keeps_intros split: list.split)

lemma keeps_apply_rule: "keeps J (apply_rule env r c u s)"
  unfolding apply_rule_def by (auto simp: Let_def intro!: keeps_intros split: rule_type.split)

lemma keeps_evaluate_rules: "keeps J (evaluate_rules env c u s rs acc)"
  by (induction rs arbitrary: acc)
    (simp_all only: evaluate_rules.simps, (intro keeps_intros keeps_apply_rule | assumption)+)

lemma keeps_evaluate_promotions: "keeps J (evaluate_promotions env c u s)"
  unfolding evaluate_promotions_def by (intro keeps_intros keeps_evaluate_rules)

lemma keeps_find_referral_code: "keeps J (find_referral_code Q)"
  unfolding find_referral_code_def by (intro keeps_intros) (auto intro!: keeps_intros split: list.split)

lemma keeps_validate_referral: "keeps J (validate_referral code u)"
  unfolding validate_referral_def by (intro keeps_intros keeps_find_referral_code)

lemma keeps_prepare: "keeps J (prepare_growth env c u cust s)"
  unfolding prepare_growth_def Let_def
  by (intro keeps_intros keeps_validate_coupon keeps_evaluate_promotions keeps_validate_referral)

lemma keeps_attach: "keeps I (attach_pending_referral od rc)"
  unfolding attach_pending_referral_def Let_def by (intro keeps_growth_block keeps_growth)

lemma keeps_finalize_referral: "keeps I (finalize_referral env od)"
  unfolding finalize_referral_def pending_referral_def save_referral_def reward_referrer_def
    onboarding_discount_def Let_def
  by (intro keeps_growth_block keeps_growth keeps_attach keeps_account keeps_find_referral_code)

lemma keeps_redeem: "keeps I (redeem c od u)"
  unfolding redeem_def Let_def by (intro keeps_growth_block keeps_growth)

lemma keeps_attribution: "keeps I (get_or_create_attribution a)"
  unfolding get_or_create_attribution_def by (intro keeps_growth)

lemma keeps_record_for_order: "keeps I (record_for_order od)"
  unfolding record_for_order_def attribute_coupon_def attribute_referral_def attribute_promotion_def
    attribute_sms_def track_event_def
  by (intro keeps_growth_block keeps_growth keeps_attribution keeps_put_tracker)

lemma keeps_finalize_growth: "keeps I (finalize_growth env od)"
  unfolding finalize_growth_steps calculate_clv_def
  by (intro keeps_growth_block keeps_growth keeps_redeem keeps_finalize_referral keeps_record_for_order)

lemma keeps_growth_task: "keeps I (finalize_growth_order_task env k)"
  unfolding finalize_growth_order_task_def by (intro keeps_intros keeps_finalize_growth)

end

interpretation orders_frame: growth_frame "\<lambda>w. orders w = ods" for ods
  by unfold_locales (simp_all add: of_tables_def)

end
