(* ===== verification/Staff.thy ===== *)
theory Staff
  imports Payments
begin

text \<open>
  The screens the staff works with: the kitchen queue (\<open>apps/core/kitchen_views.py\<close>), the pickup
  screen (\<open>pickup_views.py\<close>), the order lookup (\<open>order_lookup.py\<close>), the timeline shown to
  the customer (\<open>apps/orders/customer_status.py\<close>) and the actions of the order admin
  (\<open>apps/orders/admin.py\<close>). A reply is the message flashed to the user; labels of choices are
  presentation, so a status is named by its value.
\<close>

datatype level = Lv_Success | Lv_Info | Lv_Warning | Lv_Error

text \<open>\<open>"{order_number}: {text}"\<close>; a message about no order has an empty number.\<close>

datatype flash = Flash level string message

datatype screen_reply = Not_Found | Redirect flash

section \<open>Kitchen queue\<close>

definition KITCHEN_QUEUE_STATUSES :: "order_status set" where
  "KITCHEN_QUEUE_STATUSES = {S_PAID, S_CONFIRMED_BY_SHOP, S_PREPARING, S_PACKAGED}"

definition KITCHEN_PAYMENT_STATUSES :: "order_payment_status set" where
  "KITCHEN_PAYMENT_STATUSES = {PS_PAID, PS_COD_CONFIRMED, PS_CASH_RECEIVED}"

definition KITCHEN_EXCLUDED_PAYMENT_STATUSES :: "order_payment_status set" where
  "KITCHEN_EXCLUDED_PAYMENT_STATUSES = {PS_PENDING_PAYMENT, PS_FAILED, PS_COD_PENDING}"

definition in_kitchen :: "order \<Rightarrow> bool" where
  "in_kitchen od \<longleftrightarrow> ord_status od \<in> KITCHEN_QUEUE_STATUSES \<and>
     ord_payment_status od \<in> KITCHEN_PAYMENT_STATUSES \<and>
     ord_payment_status od \<notin> KITCHEN_EXCLUDED_PAYMENT_STATUSES"

definition kitchen_order_queryset :: "world \<Rightarrow> order list" where
  "kitchen_order_queryset w = sort_key ord_created_at (filter in_kitchen (orders w))"

definition partition_kitchen_orders :: "order list \<Rightarrow> order list \<times> order list \<times> order list" where
  "partition_kitchen_orders ods =
     (filter (\<lambda>od. ord_status od \<in> {S_PAID, S_CONFIRMED_BY_SHOP}) ods,
      filter (\<lambda>od. ord_status od = S_PREPARING) ods,
      filter (\<lambda>od. ord_status od = S_PACKAGED) ods)"

definition kitchen_queue :: "world \<Rightarrow> (order list \<times> order list \<times> order list) \<times> int" where
  "kitchen_queue w = (let ods = kitchen_order_queryset w in (partition_kitchen_orders ods, int (length ods)))"

definition cannot_start_preparing :: "order \<Rightarrow> exn" where
  "cannot_start_preparing od = Exn InvalidTransitionError
     (Fmt ''Cannot start preparing order {} from status '{}'.'' [AStr (ord_number od), AStr (status_value (ord_status od))])"

definition start_preparing :: "order \<Rightarrow> string \<Rightarrow> order P" where
  "start_preparing od actor =
     (if ord_status od = S_PREPARING then ret od
      else
        bnd (if ord_status od = S_PAID
             then bnd (transition (ord_id od) S_CONFIRMED_BY_SHOP
                         (Text ''Kitchen queue: confirmed for preparation'') actor) (\<lambda>_. get_order (ord_id od))
             else ret od) (\<lambda>od'.
        if ord_status od' = S_CONFIRMED_BY_SHOP
        then transition (ord_id od') S_PREPARING (Text ''Kitchen queue: started preparing'') actor
        else raise (cannot_start_preparing od')))"

definition mark_ready :: "order \<Rightarrow> string \<Rightarrow> order P" where
  "mark_ready od actor = transition (ord_id od) S_PACKAGED (Text ''Kitchen queue: ready for pickup'') actor"

text \<open>The new instance, and whether its status changed\<close>

definition apply_kitchen_action :: "order \<Rightarrow> string \<Rightarrow> string \<Rightarrow> (order \<times> bool) P" where
  "apply_kitchen_action od action actor =
     bnd (if action = ''start_preparing'' then start_preparing od actor
          else if action = ''mark_ready'' then mark_ready od actor
          else if action = ''mark_completed'' then complete_pickup_order od actor
          else raise (Exn ValueError (Fmt ''Unknown kitchen action: {}'' [AStr action]))) (\<lambda>od'.
     ret (od', ord_status od' \<noteq> ord_status od))"

text \<open>An exception of another class goes on to the caller.\<close>

definition flash_on :: "exn_class set \<Rightarrow> order \<Rightarrow> screen_reply P \<Rightarrow> screen_reply P" where
  "flash_on classes od m = try_except m (\<lambda>e.
     if class_of e \<in> classes then ret (Redirect (Flash Lv_Error (ord_number od) (StrOf e))) else raise e)"

definition kitchen_action :: "nat \<Rightarrow> string \<Rightarrow> string \<Rightarrow> screen_reply P" where
  "kitchen_action k action actor =
     bnd (gets (\<lambda>w. find (\<lambda>od. ord_id od = k) (kitchen_order_queryset w))) (\<lambda>row.
     case row of
       None \<Rightarrow> ret Not_Found
     | Some od \<Rightarrow>
         flash_on {InvalidTransitionError, CheckoutError, ValueError} od
           (bnd (apply_kitchen_action od action actor) (\<lambda>(od', changed).
            ret (Redirect (if changed
              then Flash Lv_Success (ord_number od') (Fmt ''updated to {}.'' [AStr (status_value (ord_status od'))])
              else Flash Lv_Info (ord_number od') (Fmt ''already {}.'' [AStr (status_value (ord_status od'))]))))))"

section \<open>Pickup screen\<close>

definition PICKUP_READY_PAYMENT_STATUSES :: "order_payment_status set" where
  "PICKUP_READY_PAYMENT_STATUSES = {PS_PAID, PS_COD_CONFIRMED, PS_CASH_RECEIVED}"

definition ready_for_pickup :: "order \<Rightarrow> bool" where
  "ready_for_pickup od \<longleftrightarrow> ord_status od = S_PACKAGED \<and> ord_payment_status od \<in> PICKUP_READY_PAYMENT_STATUSES"

definition pickup_screen_queryset :: "world \<Rightarrow> order list" where
  "pickup_screen_queryset w = sort_key ord_created_at (filter ready_for_pickup (orders w))"

definition pickup_action :: "nat \<Rightarrow> string \<Rightarrow> string \<Rightarrow> screen_reply P" where
  "pickup_action k action actor =
     bnd (gets (\<lambda>w. find (\<lambda>od. ord_id od = k) (pickup_screen_queryset w))) (\<lambda>row.
     case row of
       None \<Rightarrow> ret Not_Found
     | Some od \<Rightarrow>
         if action \<noteq> ''mark_picked_up''
         then ret (Redirect (Flash Lv_Error (ord_number od) (Text ''Unknown pickup action.'')))
         else
           flash_on {InvalidTransitionError, CheckoutError} od
             (bnd (complete_pickup_order od actor) (\<lambda>od'.
              ret (Redirect (if ord_status od' \<noteq> ord_status od
                then Flash Lv_Success (ord_number od') (Text ''marked as picked up.'')
                else Flash Lv_Info (ord_number od') (Text ''already picked up.''))))))"

section \<open>Order lookup\<close>

definition DEFAULT_LOOKUP_LIMIT :: nat where
  "DEFAULT_LOOKUP_LIMIT = 20"

definition SEARCH_LOOKUP_LIMIT :: nat where
  "SEARCH_LOOKUP_LIMIT = 50"

definition INACTIVE_ORDER_STATUSES :: "order_status set" where
  "INACTIVE_ORDER_STATUSES = {S_DELIVERED, S_CANCELLED, S_REFUNDED}"

definition newest :: "nat \<Rightarrow> order list \<Rightarrow> order list" where
  "newest limit ods = take limit (sort_key (\<lambda>od. - ord_created_at od) ods)"

definition recent_active_orders_queryset :: "nat \<Rightarrow> world \<Rightarrow> order list" where
  "recent_active_orders_queryset limit w =
     newest limit (filter (\<lambda>od. ord_status od \<notin> INACTIVE_ORDER_STATUSES) (orders w))"

fun has_part :: "string \<Rightarrow> string \<Rightarrow> bool" where
  "has_part part [] = (part = [])"
| "has_part part (c # cs) = (take (length part) (c # cs) = part \<or> has_part part cs)"

definition icontains :: "string \<Rightarrow> string \<Rightarrow> bool" where
  "icontains s part = has_part (str_lower part) (str_lower s)"

definition matches_search :: "string \<Rightarrow> order \<Rightarrow> bool" where
  "matches_search term od \<longleftrightarrow>
     icontains (ord_number od) term \<or> icontains (ord_phone od) term \<or> icontains (ord_first_name od) term \<or>
     icontains (ord_last_name od) term \<or> icontains (ord_notes od) term \<or>
     (case parse_nat term of Some n \<Rightarrow> ord_daily_sequence od = Some (int n) | None \<Rightarrow> False)"

definition search_orders_queryset :: "string \<Rightarrow> nat \<Rightarrow> world \<Rightarrow> order list" where
  "search_orders_queryset query limit w =
     (let term = str_strip query in
      if term = [] then recent_active_orders_queryset (min limit DEFAULT_LOOKUP_LIMIT) w
      else newest limit (filter (matches_search term) (orders w)))"

definition order_is_kitchen_relevant :: "order \<Rightarrow> bool" where
  "order_is_kitchen_relevant od \<longleftrightarrow>
     (if ord_status od \<notin> KITCHEN_QUEUE_STATUSES then False
      else if ord_payment_status od \<notin> KITCHEN_PAYMENT_STATUSES then False
      else ord_payment_status od \<notin> KITCHEN_EXCLUDED_PAYMENT_STATUSES)"

definition order_is_pickup_relevant :: "order \<Rightarrow> bool" where
  "order_is_pickup_relevant od \<longleftrightarrow>
     ord_status od = S_PACKAGED \<and> ord_payment_status od \<in> PICKUP_READY_PAYMENT_STATUSES"

text \<open>Each order found with the two links it gets\<close>

definition order_lookup :: "string \<Rightarrow> world \<Rightarrow> (order \<times> bool \<times> bool) list \<times> nat" where
  "order_lookup q w =
     (let query = str_strip q;
          (ods, limit) = (if query \<noteq> [] then (search_orders_queryset query SEARCH_LOOKUP_LIMIT w, SEARCH_LOOKUP_LIMIT)
            else (recent_active_orders_queryset DEFAULT_LOOKUP_LIMIT w, DEFAULT_LOOKUP_LIMIT))
      in (map (\<lambda>od. (od, order_is_kitchen_relevant od, order_is_pickup_relevant od)) ods, limit))"

section \<open>The customer's timeline\<close>

datatype timeline_key = TL_AWAITING_PAYMENT | TL_PREPARING | TL_READY | TL_DELIVERED

datatype timeline_state = TL_complete | TL_current | TL_upcoming

datatype banner = No_Banner | Pay_At_Counter | Ready_At_Counter

definition CUSTOMER_TIMELINE_STEPS :: "timeline_key list" where
  "CUSTOMER_TIMELINE_STEPS = [TL_AWAITING_PAYMENT, TL_PREPARING, TL_READY, TL_DELIVERED]"

fun map_order_status_to_timeline_key :: "order_status \<Rightarrow> timeline_key option" where
  "map_order_status_to_timeline_key S_AWAITING_PAYMENT = Some TL_AWAITING_PAYMENT"
| "map_order_status_to_timeline_key S_PENDING_PAYMENT = Some TL_AWAITING_PAYMENT"
| "map_order_status_to_timeline_key S_PAID = Some TL_PREPARING"
| "map_order_status_to_timeline_key S_CONFIRMED_BY_SHOP = Some TL_PREPARING"
| "map_order_status_to_timeline_key S_PREPARING = Some TL_PREPARING"
| "map_order_status_to_timeline_key S_PACKAGED = Some TL_READY"
| "map_order_status_to_timeline_key S_DELIVERED = Some TL_DELIVERED"
| "map_order_status_to_timeline_key _ = None"

fun step_states :: "timeline_key \<Rightarrow> bool \<Rightarrow> timeline_key list \<Rightarrow> (timeline_key \<times> timeline_state) list" where
  "step_states cur passed [] = []"
| "step_states cur passed (k # ks) =
     (if k = cur then (k, TL_current) # step_states cur True ks
      else (k, if passed then TL_upcoming else TL_complete) # step_states cur passed ks)"

record timeline =
  tl_steps :: "(timeline_key \<times> timeline_state) list"
  tl_banner :: banner
  tl_current :: "timeline_key option"

definition build_order_status_timeline :: "order \<Rightarrow> timeline" where
  "build_order_status_timeline od =
     (let current = map_order_status_to_timeline_key (ord_status od) in
      \<lparr>tl_steps = (case current of
           None \<Rightarrow> map (\<lambda>k. (k, TL_upcoming)) CUSTOMER_TIMELINE_STEPS
         | Some c \<Rightarrow> step_states c False CUSTOMER_TIMELINE_STEPS),
       tl_banner = (if ord_status od = S_AWAITING_PAYMENT \<and> is_counter_payment od then Pay_At_Counter
         else if ord_status od = S_PACKAGED then Ready_At_Counter else No_Banner),
       tl_current = current\<rparr>)"

end
