(* ===== verification/OrderAdmin.thy ===== *)
theory OrderAdmin
  imports Staff Providers
begin

text \<open>
  The actions of the order admin (\<open>apps/orders/admin.py\<close>). An action is given the orders that
  were selected, as rows read when it starts, and works on each of them in turn; it returns the messages
  flashed to the staff, those of single orders first. Labels, columns and fieldsets of the admin are
  presentation.
\<close>

section \<open>Running an action over the selected orders\<close>

datatype outcome = Updated | Skipped flash | Problem flash

definition problem_of :: "order \<Rightarrow> exn \<Rightarrow> outcome" where
  "problem_of od e = Problem (Flash Lv_Error (ord_number od) (StrOf e))"

text \<open>\<open>try: m; except Exception: message_user(...); continue\<close>, then \<open>rest\<close>\<close>

definition attempt :: "order \<Rightarrow> order P \<Rightarrow> outcome P \<Rightarrow> outcome P" where
  "attempt od m rest =
     bnd (try_except (bnd m (\<lambda>_. ret None)) (\<lambda>e. ret (Some (problem_of od e)))) (\<lambda>stopped.
     case stopped of Some x \<Rightarrow> ret x | None \<Rightarrow> rest)"

fun flash_of :: "outcome \<Rightarrow> flash list" where
  "flash_of Updated = []"
| "flash_of (Skipped f) = [f]"
| "flash_of (Problem f) = [f]"

fun was_skipped :: "outcome \<Rightarrow> bool" where
  "was_skipped (Skipped f) = True"
| "was_skipped _ = False"

definition updates :: "outcome list \<Rightarrow> int" where
  "updates xs = int (length (filter (\<lambda>x. x = Updated) xs))"

definition report :: "(int \<Rightarrow> message) \<Rightarrow> string \<Rightarrow> outcome list \<Rightarrow> flash list" where
  "report success nothing xs = concat (map flash_of xs) @
     (if updates xs \<noteq> 0 then [Flash Lv_Success [] (success (updates xs))]
      else if \<not> list_ex was_skipped xs then [Flash Lv_Warning [] (Text nothing)]
      else [])"

section \<open>Status changes\<close>

definition already_there :: "order \<Rightarrow> order_status \<Rightarrow> string \<Rightarrow> outcome P" where
  "already_there od new text =
     bnd (get_order (ord_id od)) (\<lambda>row.
     ret (if ord_status row = ord_status od \<and> ord_status od = new
          then Skipped (Flash Lv_Info (ord_number row) (Text text)) else Updated))"

definition advance_one :: "order_status \<Rightarrow> string \<Rightarrow> string \<Rightarrow> order \<Rightarrow> outcome P" where
  "advance_one new label actor od =
     attempt od (transition (ord_id od) new (Text []) actor)
       (already_there od new (''already '' @ label @ ''.''))"

definition admin_transition :: "order_status \<Rightarrow> string \<Rightarrow> string \<Rightarrow> order list \<Rightarrow> flash list P" where
  "admin_transition new label actor ods =
     bnd (for_collect ods (advance_one new label actor)) (\<lambda>xs.
     ret (report (\<lambda>n. Fmt ''Marked {} order(s) as {}.'' [AInt n, AStr label]) ''No orders were updated.'' xs))"

definition advance_to_preparing :: "string \<Rightarrow> order list \<Rightarrow> flash list P" where
  "advance_to_preparing = admin_transition S_PREPARING ''preparing''"

definition advance_to_packaged :: "string \<Rightarrow> order list \<Rightarrow> flash list P" where
  "advance_to_packaged = admin_transition S_PACKAGED ''packaged''"

definition advance_to_out_for_delivery :: "string \<Rightarrow> order list \<Rightarrow> flash list P" where
  "advance_to_out_for_delivery = admin_transition S_OUT_FOR_DELIVERY ''ready for counter pickup''"

definition deliver_one :: "string \<Rightarrow> order \<Rightarrow> outcome P" where
  "deliver_one actor od =
     attempt od (complete_delivery (ord_id od) actor) (already_there od S_DELIVERED ''already picked up.'')"

definition admin_mark_delivered :: "string \<Rightarrow> order list \<Rightarrow> flash list P" where
  "admin_mark_delivered actor ods =
     bnd (for_collect ods (deliver_one actor)) (\<lambda>xs.
     ret (report (\<lambda>n. Fmt ''Marked {} order(s) as picked up.'' [AInt n]) ''No orders were picked up.'' xs))"

text \<open>These three stop at the first order that fails, and the page with them.\<close>

definition cancel_orders :: "string \<Rightarrow> order list \<Rightarrow> flash list P" where
  "cancel_orders actor ods =
     bnd (for_each ods (\<lambda>od. bnd (cancel (ord_id od) (Text ''Cancelled via admin'') actor) (\<lambda>_. ret ()))) (\<lambda>_.
     ret [Flash Lv_Success [] (Text ''Orders cancelled.'')])"

definition admin_request_refund :: "string \<Rightarrow> order list \<Rightarrow> flash list P" where
  "admin_request_refund actor ods =
     bnd (for_each ods (\<lambda>od. bnd (request_refund (ord_id od) [] actor) (\<lambda>_. ret ()))) (\<lambda>_.
     ret [Flash Lv_Success [] (Text ''Refund requested.'')])"

definition admin_process_refund :: "string \<Rightarrow> order list \<Rightarrow> flash list P" where
  "admin_process_refund actor ods =
     bnd (for_each ods (\<lambda>od. bnd (process_refund (ord_id od) (Text []) actor) (\<lambda>_. ret ()))) (\<lambda>_.
     ret [Flash Lv_Success [] (Text ''Refunds processed.'')])"

section \<open>Payments at the counter and on delivery\<close>

text \<open>
  The newest payment of the order that qualifies, its settling, and the message for a payment that had
  been recorded before; \<open>final\<close> is the status the order then has.
\<close>

definition settle_one ::
  "(payment \<Rightarrow> bool) \<Rightarrow> string \<Rightarrow> string \<Rightarrow> order_status \<Rightarrow> (nat \<Rightarrow> nat \<Rightarrow> string \<Rightarrow> order P) \<Rightarrow>
   string \<Rightarrow> order \<Rightarrow> outcome P" where
  "settle_one qualifies missing known final mark actor od =
     bnd (gets (\<lambda>w. latest (\<lambda>p. pay_order p = ord_id od \<and> qualifies p) (payments w))) (\<lambda>row.
     case row of
       None \<Rightarrow> ret (Problem (Flash Lv_Error (ord_number od) (Text missing)))
     | Some p \<Rightarrow>
         attempt od (mark (ord_id od) (pay_id p) actor)
           (bnd (get_payment (pay_id p)) (\<lambda>_.
            bnd (get_order (ord_id od)) (\<lambda>od'.
            ret (if pay_status p = P_SUCCEEDED \<and> ord_status od = final
                 then Skipped (Flash Lv_Info (ord_number od') (Text known)) else Updated)))))"

definition at_counter :: "payment \<Rightarrow> bool" where
  "at_counter p \<longleftrightarrow> pay_provider p \<in> {PV_CASH, PV_COUNTER_CARD} \<and> pay_status p \<in> {P_PENDING, P_SUCCEEDED}"

definition admin_mark_counter_payment_received ::
  "(nat \<Rightarrow> nat \<Rightarrow> string \<Rightarrow> order P) \<Rightarrow> string \<Rightarrow> string \<Rightarrow> order list \<Rightarrow> flash list P" where
  "admin_mark_counter_payment_received mark label actor ods =
     bnd (for_collect ods (settle_one at_counter ''No counter payment record found.''
            ''Counter payment already recorded.'' S_PREPARING mark actor)) (\<lambda>xs.
     ret (report (\<lambda>n. Fmt ''Recorded {} for {} order(s).'' [AStr label, AInt n])
            ''No counter payment orders were updated.'' xs))"

definition mark_cash_received :: "string \<Rightarrow> order list \<Rightarrow> flash list P" where
  "mark_cash_received actor ods =
     admin_mark_counter_payment_received mark_counter_cash_received ''cash received'' actor
       (filter (\<lambda>od. ord_payment_method od = PM_CASH) ods)"

definition mark_card_received :: "string \<Rightarrow> order list \<Rightarrow> flash list P" where
  "mark_card_received actor ods =
     admin_mark_counter_payment_received mark_counter_card_received ''card received'' actor
       (filter (\<lambda>od. ord_payment_method od = PM_COUNTER_CARD) ods)"

definition admin_mark_cod_cash_received :: "string \<Rightarrow> order list \<Rightarrow> flash list P" where
  "admin_mark_cod_cash_received actor ods =
     bnd (for_collect (filter (\<lambda>od. ord_payment_method od = PM_COD) ods)
            (settle_one (\<lambda>p. pay_provider p = PV_COD) ''No COD payment record found.''
               ''COD cash already recorded.'' S_DELIVERED mark_cod_cash_received actor)) (\<lambda>xs.
     ret (report (\<lambda>n. Fmt ''Recorded COD cash for {} order(s).'' [AInt n]) ''No COD orders were updated.'' xs))"

text \<open>Confirming counts the orders that worked and always reports a success.\<close>

definition admin_confirm_cod :: "string \<Rightarrow> order list \<Rightarrow> flash list P" where
  "admin_confirm_cod actor ods =
     bnd (for_collect (filter (\<lambda>od. ord_payment_method od = PM_COD) ods)
            (\<lambda>od. attempt od (confirm_cod (ord_id od) actor) (ret Updated))) (\<lambda>xs.
     ret (concat (map flash_of xs) @
          [Flash Lv_Success [] (Fmt ''Confirmed {} COD order(s).'' [AInt (updates xs)])]))"

text \<open>Only errors of the payment are reported; another one stops the page.\<close>

definition create_stripe_checkout :: "env \<Rightarrow> order list \<Rightarrow> flash list P" where
  "create_stripe_checkout env ods =
     for_collect ods (\<lambda>od.
       try_except
         (bnd (initiate_online env get_online_payment_provider (ord_id od)) (\<lambda>p.
          ret (Flash Lv_Success (ord_number od)
                 (Fmt ''<a href='{}' target='_blank'>Stripe</a>'' [AStr (pay_checkout_url p)]))))
         (\<lambda>e. if is_payment_error (class_of e) then ret (Flash Lv_Error (ord_number od) (StrOf e)) else raise e))"

section \<open>Saving the form\<close>

text \<open>
  \<open>save_model\<close> of a changed order. \<open>obj\<close> is the row with the changes of the form, whose fields
  include the status; all its columns are written. Django runs the view in a transaction. The form that
  adds an order is not modelled.
\<close>

definition f_all :: "order \<Rightarrow> order \<Rightarrow> order" where
  "f_all od r = od"

definition cod_order_needs_finalization :: "world \<Rightarrow> order \<Rightarrow> bool" where
  "cod_order_needs_finalization w od \<longleftrightarrow>
     (case latest (\<lambda>p. pay_order p = ord_id od \<and> pay_provider p = PV_COD) (payments w) of
        Some p \<Rightarrow> pay_status p \<noteq> P_SUCCEEDED
      | None \<Rightarrow> False) \<or>
     (\<exists>r\<in>set (reservations w). res_order r = Some (ord_id od) \<and> res_status r \<in> {R_ACTIVE, R_CONFIRMED})"

definition save_model :: "order \<Rightarrow> string \<Rightarrow> flash list P" where
  "save_model obj actor = atomic (
     bnd (gets (\<lambda>w. map_option ord_payment_status (order_row w (ord_id obj)))) (\<lambda>previous.
     bnd (save_order obj f_all) (\<lambda>_.
     bnd (gets (\<lambda>w. is_cod obj \<and> ord_payment_status obj = PS_CASH_RECEIVED \<and>
            (previous \<noteq> Some PS_CASH_RECEIVED \<or> cod_order_needs_finalization w obj))) (\<lambda>finalize.
     if finalize
     then try_except
            (bnd (ensure_cod_cash_finalized (ord_id obj) None actor) (\<lambda>_. ret []))
            (\<lambda>e. ret [Flash Lv_Error (ord_number obj) (StrOf e)])
     else ret []))))"

section \<open>What the staff does keeps the contract of orders\<close>

context order_ops
begin

lemmas keeps_staff = keeps_pay law_transition keeps_complete_pickup_order keeps_complete_delivery keeps_cancel
  keeps_request_refund keeps_process_refund keeps_confirm_cod keeps_mark_counter_received
  keeps_mark_cod_cash_received

lemma keeps_start_preparing: "keeps I (start_preparing od actor)"
  unfolding start_preparing_def by (intro keeps_staff)

lemma keeps_kitchen_action: "keeps I (kitchen_action k action actor)"
  unfolding kitchen_action_def flash_on_def apply_kitchen_action_def mark_ready_def
  by (intro keeps_staff keeps_start_preparing)

lemma keeps_pickup_action: "keeps I (pickup_action k action actor)"
  unfolding pickup_action_def flash_on_def by (intro keeps_staff)

lemma keeps_attempt: "keeps I m \<Longrightarrow> keeps I rest \<Longrightarrow> keeps I (attempt od m rest)"
  unfolding attempt_def by (intro keeps_staff)

lemma keeps_already_there: "keeps I (already_there od new text)"
  unfolding already_there_def by (intro keeps_staff)

lemma keeps_admin_transition: "keeps I (admin_transition new label actor ods)"
  unfolding admin_transition_def advance_one_def
  by (intro keeps_intros keeps_attempt law_transition keeps_already_there)

lemma keeps_admin_mark_delivered: "keeps I (admin_mark_delivered actor ods)"
  unfolding admin_mark_delivered_def deliver_one_def
  by (intro keeps_intros keeps_attempt keeps_complete_delivery keeps_already_there)

lemma keeps_admin_lists:
  "keeps I (cancel_orders actor ods)" "keeps I (admin_request_refund actor ods)"
  "keeps I (admin_process_refund actor ods)"
  unfolding cancel_orders_def admin_request_refund_def admin_process_refund_def by (intro keeps_staff)+

lemma keeps_settle_one:
  "(\<And>k p. keeps I (mark k p actor)) \<Longrightarrow> keeps I (settle_one qualifies missing known final mark actor od)"
  unfolding settle_one_def by (intro keeps_intros keeps_attempt keeps_get_payment keeps_get_order)

lemma keeps_admin_payments:
  "keeps I (mark_cash_received actor ods)" "keeps I (mark_card_received actor ods)"
  "keeps I (admin_mark_cod_cash_received actor ods)"
  unfolding mark_cash_received_def mark_card_received_def admin_mark_counter_payment_received_def
    admin_mark_cod_cash_received_def
  by (intro keeps_intros keeps_settle_one keeps_mark_counter_received keeps_mark_cod_cash_received)+

lemma keeps_admin_confirm_cod: "keeps I (admin_confirm_cod actor ods)"
  unfolding admin_confirm_cod_def by (intro keeps_intros keeps_attempt keeps_confirm_cod)

lemma keeps_create_stripe_checkout: "keeps I (create_stripe_checkout env ods)"
  unfolding create_stripe_checkout_def
  by (intro keeps_intros keeps_initiate_online keeps_providers)
    (auto dest!: get_online_payment_provider_methods simp: zarinpal_methods_def stripe_methods_def
      intro: keeps_zarinpal_create keeps_stripe_create)

end

end
