(* ===== verification/ShopLedger.thy ===== *)
theory ShopLedger
  imports GrowthFrame CleanupProps OrderAdmin
begin

text \<open>
  The stock ledger under the whole shop: cart operations, both checkouts, the growth services, orders,
  payments, callbacks and cleanups keep every predicate that satisfies the contract \<open>shop_ops\<close>. Merging
  two carts does not, and the last section says by how much.
\<close>

section \<open>Programs that only raise\<close>

definition aborts :: "'a P \<Rightarrow> bool" where
  "aborts m \<longleftrightarrow> (\<forall>s x t. m s \<noteq> (Inr x, t))"

lemma aborts_raise: "aborts (raise e)"
  by (simp add: aborts_def)

lemma aborts_bnd: "(\<And>x. aborts (f x)) \<Longrightarrow> aborts (bnd m f)"
  unfolding aborts_def bnd_returns by blast

lemma settles_aborts: "aborts m \<Longrightarrow> settles I m"
  by (rule settlesI) (simp add: aborts_def)

lemma aborts_fail_checkout: "aborts (fail_checkout env c k m)"
  unfolding fail_checkout_def by (intro aborts_bnd aborts_raise)

lemma settles_try_abort:
  assumes "settles I m" and "\<And>e. aborts (h e)"
  shows "settles I (try_except m h)"
proof (rule settlesI)
  fix w x v assume w: "I w" and run: "try_except m h w = (Inr x, v)"
  obtain r u where m: "m w = (r, u)" by fastforce
  show "I v"
  proof (cases r)
    case (Inl e)
    with run m have "h e u = (Inr x, v)" by (simp add: run_try_except)
    with assms(2) show ?thesis unfolding aborts_def by blast
  next
    case (Inr y)
    with run m have "m w = (Inr x, v)" by (simp add: run_try_except)
    with w assms(1) show ?thesis by (auto dest: settlesD)
  qed
qed

lemma settles_attempt:
  assumes "settles I m" and "\<And>e. aborts (g e)" and "\<And>x. settles I (f x)"
  shows "settles I (bnd (try_except (bnd m (\<lambda>x. ret (Inr x))) (\<lambda>e. ret (Inl e)))
    (\<lambda>r. case r of Inl e \<Rightarrow> g e | Inr x \<Rightarrow> f x))"
proof (rule settlesI)
  fix w y v assume w: "I w" and run: "bnd (try_except (bnd m (\<lambda>x. ret (Inr x))) (\<lambda>e. ret (Inl e)))
    (\<lambda>r. case r of Inl e \<Rightarrow> g e | Inr x \<Rightarrow> f x) w = (Inr y, v)"
  obtain r u where m: "m w = (r, u)" by fastforce
  show "I v"
  proof (cases r)
    case (Inl e)
    with run m have "g e u = (Inr y, v)" by (simp add: run_try_except run_bnd)
    with assms(2) show ?thesis unfolding aborts_def by blast
  next
    case (Inr x)
    with run m have "f x u = (Inr y, v)" by (simp add: run_try_except run_bnd)
    moreover have "I u" using settlesD [OF assms(1) w] m Inr by simp
    ultimately show ?thesis using settlesD [OF assms(3)] by blast
  qed
qed

section \<open>The contract of the shop\<close>

locale shop_ops = stock: stock_ops I + ord: order_ops I + growth_frame I for I :: "world \<Rightarrow> bool" +
  assumes frame_carts: "I (w\<lparr>carts := cs\<rparr>) = I w"
    and frame_cart_items: "I (w\<lparr>cart_items := cis\<rparr>) = I w"
    and frame_payment_events: "I (w\<lparr>payment_events := es\<rparr>) = I w"
begin

lemma keeps_write: "(\<And>w. I (f w) = I w) \<Longrightarrow> keeps I (modifies f)"
  by (rule keeps_modifies) simp

lemmas writes = frame_carts frame_cart_items frame_growth stock.frame_order_items stock.frames
  stock.frame_products ord.law_payments

lemmas keeps_tables = stock.keeps_get_or_create_inventory stock.keeps_release_cart_reservations
  stock.keeps_release_cart_reservations_for_product stock.keeps_release_reservations
  stock.keeps_reserve_for_cart_item stock.keeps_reserve_for_order stock.keeps_save_order
  stock.keeps_insert_order stock.keeps_get_product ord.keeps_fresh_pk

lemmas keeps_block = stock.keeps_atomic_block

text \<open>The tracker and the carts\<close>

lemma keeps_sync: "keeps I (sync_abandoned_cart_tracker env c)"
  unfolding sync_abandoned_cart_tracker_def
  by (intro keeps_intros keeps_put_tracker keeps_put_tracker_of ord.keeps_fresh_pk)

lemma keeps_save_cart: "keeps I (save_cart c f)"
  unfolding save_cart_def by (rule keeps_write) (simp add: frame_carts)

lemma keeps_get_cart: "keeps J (get_cart c)"
  unfolding get_cart_def by (intro keeps_intros)

lemma keeps_lock_cart: "keeps J (lock_cart_for_checkout c)"
  unfolding lock_cart_for_checkout_def with_product_def get_product_def
  by (intro keeps_intros keeps_get_cart)

lemma keeps_set_active: "keeps I (set_active_checkout_order env c k)"
  unfolding set_active_checkout_order_def Let_def
  by (intro keeps_intros keeps_save_cart keeps_sync)

lemma keeps_clear_active: "keeps I (clear_active_checkout_order env c)"
  unfolding clear_active_checkout_order_def Let_def
  by (intro keeps_intros keeps_save_cart keeps_sync)

lemma keeps_create_cart: "keeps I (create_cart env u s)"
  unfolding create_cart_def Let_def
  by (intro keeps_intros ord.keeps_fresh_pk keeps_write keeps_sync) (simp add: frame_carts)

lemma keeps_get_or_create_cart: "keeps I (get_or_create_cart env u s)"
  unfolding get_or_create_cart_def
  by (intro keeps_intros keeps_create_cart) (auto intro!: keeps_intros keeps_create_cart split: list.split)

lemma keeps_check_availability: "keeps I (check_cart_availability pr n ct)"
  unfolding check_cart_availability_def
  by (intro keeps_intros stock.keeps_get_or_create_inventory)

lemma keeps_ensure_mutable: "keeps J (ensure_cart_mutable c)"
  unfolding ensure_cart_mutable_def by (intro keeps_intros)

lemma keeps_validate_product: "keeps I (validate_product pr n ct)"
  unfolding validate_product_def by (intro keeps_intros keeps_check_availability)

lemma keeps_get_or_create_item: "keeps I (get_or_create_item env c p n)"
  unfolding get_or_create_item_def check_item_quantity_def Let_def
  by (intro keeps_intros ord.keeps_fresh_pk keeps_write keeps_sync) (simp add: frame_cart_items)

lemma keeps_save_item_quantity: "keeps I (save_item_quantity env c x n)"
  unfolding save_item_quantity_def check_item_quantity_def
  by (intro keeps_intros keeps_write keeps_sync) (simp add: frame_cart_items)

lemmas keeps_cart_parts = keeps_intros keeps_ensure_mutable keeps_validate_product
  keeps_get_or_create_item keeps_save_item_quantity keeps_tables

lemma keeps_add_item: "keeps I (add_item env c pr n)"
  unfolding add_item_def validate_quantity_def by (intro keeps_block keeps_cart_parts)

lemma keeps_set_item_quantity: "keeps I (set_item_quantity env c pr n)"
  unfolding set_item_quantity_def validate_quantity_def by (intro keeps_block keeps_cart_parts)

lemma keeps_delete_items: "keeps I (delete_items env c Q)"
  unfolding delete_items_def by (intro keeps_intros keeps_write keeps_sync) (simp add: frame_cart_items)

lemma keeps_remove_item: "keeps I (remove_item env c p)"
  unfolding remove_item_def by (intro keeps_cart_parts keeps_delete_items)

lemma keeps_clear_cart: "keeps I (clear_cart env c)"
  unfolding clear_cart_def by (intro keeps_cart_parts keeps_delete_items)

text \<open>Orders from carts, and the two checkouts.\<close>

lemma keeps_apply_to_order: "keeps I (apply_to_order od ctx u)"
  unfolding apply_to_order_def Let_def
  by (intro keeps_block keeps_growth keeps_attach stock.keeps_save_order)

lemma keeps_check_item_stock: "keeps I (check_item_stock x)"
  unfolding check_item_stock_def by (intro keeps_intros keeps_check_availability)

lemma keeps_validate_cart_items: "keeps I (validate_cart_items items)"
  unfolding validate_cart_items_def by (intro keeps_intros keeps_check_item_stock)

lemma keeps_create_order_item: "keeps I (create_order_item k x)"
  unfolding create_order_item_def
  by (intro keeps_intros ord.keeps_fresh_pk keeps_write) (simp add: stock.frame_order_items)

lemma keeps_allocate: "keeps I (allocate_sequence n k d)"
  by (induction n) (simp_all only: allocate_sequence.simps Let_def,
      (intro keeps_intros stock.keeps_save_order | assumption)+)

lemma keeps_assign: "keeps I (assign_daily_sequence env od)"
  unfolding assign_daily_sequence_def by (intro keeps_block keeps_intros keeps_allocate)

lemma keeps_create_order: "keeps I (create_order_from_cart env c items cust u st pst)"
  unfolding create_order_from_cart_def generate_order_number_def Let_def
  by (intro keeps_block keeps_intros keeps_lock_cart keeps_validate_cart_items ord.keeps_fresh_pk
      stock.keeps_insert_order keeps_create_order_item stock.keeps_save_order keeps_assign)

lemma keeps_finalize_checkout_stock: "keeps I (finalize_checkout_stock env c od)"
  unfolding finalize_checkout_stock_def
  by (intro keeps_block keeps_intros keeps_tables keeps_clear_cart)

lemma keeps_place_order: "keeps I (place_order env c od ctx u)"
  unfolding place_order_def
  by (intro keeps_intros keeps_set_active keeps_apply_to_order keeps_finalize_checkout_stock)

lemma keeps_initiate_payment: "keeps I (initiate_online env get_online_payment_provider k)"
  by (rule ord.keeps_initiate_online [OF keeps_providers(3)])
    (auto dest!: get_online_payment_provider_methods simp: zarinpal_methods_def stripe_methods_def
      intro: keeps_zarinpal_create keeps_stripe_create)

lemma settles_start_payment: "settles I (start_payment env c od)"
  unfolding start_payment_def
  by (rule settles_try_abort [OF keeps_settles [OF keeps_initiate_payment]])
    (auto intro: aborts_fail_checkout aborts_raise)

lemma settles_checkout_cart: "settles I (checkout_cart env c items cust u)"
proof -
  have pay: "settles I (bnd (try_except (place_order env c od ctx u) (\<lambda>e. fail_checkout env l k (StrOf e)))
      (\<lambda>od. bnd (start_payment env l od) (g od)))" if "\<And>od p. settles I (g od p)" for od ctx l k and g :: "_ \<Rightarrow> _ \<Rightarrow> 'b P"
    by (intro settles_bnd settles_try_abort aborts_fail_checkout settles_start_payment that
        keeps_settles [OF keeps_place_order])
  have fin: "keeps I (bnd (save_order od f_both_statuses) (\<lambda>_. ret r))" for od r
    by (intro keeps_intros stock.keeps_save_order)
  show ?thesis
    unfolding checkout_cart_def Let_def require_items_def require_phone_def
    by (intro settles_bnd [OF keeps_settles [OF keeps_raise_if]] settles_bnd [OF keeps_settles [OF keeps_prepare]]
        settles_bnd [OF keeps_settles [OF keeps_option [OF keeps_ret keeps_raise]]]
        settles_attempt pay aborts_fail_checkout keeps_settles [OF keeps_create_order] keeps_settles [OF fin])
qed

lemma keeps_resolve_in_progress: "keeps I (resolve_in_progress_checkout env c m)"
  unfolding resolve_in_progress_checkout_def by (intro keeps_intros keeps_clear_active)

lemma keeps_process_checkout: "keeps I (process_checkout env c cust u)"
  unfolding process_checkout_def
  by (intro keeps_atomic_settles stock.tables_only settles_bnd settles_prod settles_option
      settles_checkout_cart keeps_settles [OF keeps_lock_cart] keeps_settles [OF keeps_resolve_in_progress]
      keeps_settles [OF keeps_ret])

lemma keeps_process_counter_checkout: "keeps I (process_counter_checkout env c cust m u)"
  unfolding process_counter_checkout_def require_phone_def require_items_def
  by (intro keeps_block keeps_intros keeps_lock_cart keeps_create_order keeps_finalize_checkout_stock
      ord.keeps_initiate_counter_payment)

text \<open>Callbacks and cleanups.\<close>

lemma keeps_callbacks:
  "keeps I (handle_zarinpal_callback env body)" "keeps I (handle_stripe_webhook env body signature)"
  by (rule keeps_zarinpal_callback keeps_stripe_webhook;
      simp add: ord.tables_only frame_payment_events ord.law_next_pk ord.keeps_zarinpal_handle
        ord.keeps_stripe_handle)+

lemma keeps_cleanup: "keeps I (cleanup_stale_online_payment env p)"
  unfolding cleanup_stale_online_payment_def clear_cart_checkout_lock_def
  by (intro keeps_block keeps_intros ord.keeps_mark_failed keeps_write) (simp add: frame_carts)

lemma keeps_cleanups: "keeps I (cleanup_stale_online_payments env t)"
  unfolding cleanup_stale_online_payments_def stale_online_payments_queryset_def
  by (intro keeps_intros keeps_cleanup)

end

interpretation shop_ledger: shop_ops stock_ok
proof unfold_locales
  show "keeps stock_ok (save_order od f_payment_status)" for od by (rule ledger.keeps_save_order)
  show "keeps stock_ok (transition k new m actor)" for k new m actor
    unfolding transition_def create_status_log_def Let_def
    by (intro ledger.keeps_atomic_block keeps_intros ledger.keeps_save_order keeps_modifies)
      (simp_all add: ledger.frames)
qed (auto simp: ledger.keeps_release_reservations ledger.keeps_confirm_reservations
    ledger.keeps_fulfill_reservations ledger.tables_only stock_ok_def rows_ok_def less_SucI)

end
