(* ===== verification/GrowthTask.thy ===== *)
theory GrowthTask
  imports Examples ShopLedger
begin

text \<open>
  The task that settles an order's growth effects after a payment: a worker may run it twice, and the
  second run changes nothing. The ledgers it keeps, of coupon uses and of loyalty points.
\<close>

section \<open>Repeating the task after a payment\<close>

text \<open>
  A worker acknowledges a task late, so it can run twice. The tables it finds: a user is referred at
  most once, and referral codes differ by more than case.
\<close>

definition referrals_ok :: "world \<Rightarrow> bool" where
  "referrals_ok w \<longleftrightarrow> distinct (map rf_referred (g_referrals (growth w))) \<and>
     distinct (map rf_id (g_referrals (growth w))) \<and>
     (\<forall>r\<in>set (g_referrals (growth w)). rf_id r < next_pk w) \<and>
     distinct (map (str_upper \<circ> rc_code) (g_referral_codes (growth w)))"

text \<open>Nothing is left to do for the referral of a paid order.\<close>

definition referral_settled :: "order \<Rightarrow> nat \<Rightarrow> growth \<Rightarrow> bool" where
  "referral_settled od u g \<longleftrightarrow>
     (\<forall>r\<in>set (g_referrals g). rf_referred r = u \<longrightarrow> rf_status r \<noteq> RF_PENDING) \<and>
     (ord_referral_code od = [] \<or> was_referred g u \<or>
      filter (\<lambda>c. iexact (rc_code c) (ord_referral_code od)) (g_referral_codes g) = [])"

lemma find_referral_code_run:
  assumes "distinct (map (str_upper \<circ> rc_code) (g_referral_codes (growth w)))"
  shows "find_referral_code (\<lambda>c. iexact (rc_code c) s) w =
    (Inr (case filter (\<lambda>c. iexact (rc_code c) s) (g_referral_codes (growth w)) of
       [] \<Rightarrow> None | c # cs \<Rightarrow> Some c), w)"
proof -
  let ?rows = "filter (\<lambda>c. iexact (rc_code c) s) (g_referral_codes (growth w))"
  have "distinct (map (str_upper \<circ> rc_code) ?rows)" using assms by (rule distinct_map_filter)
  moreover have "\<forall>c\<in>set ?rows. str_upper (rc_code c) = str_upper s" by (simp add: iexact_def)
  ultimately have "length ?rows \<le> 1"
    by (cases ?rows; cases "tl ?rows") auto
  then show ?thesis
    by (cases ?rows; cases "tl ?rows") (simp_all add: find_referral_code_def)
qed

lemma no_pending_find:
  "(\<forall>r\<in>set rs. rf_referred r = u \<longrightarrow> rf_status r \<noteq> RF_PENDING) \<longleftrightarrow>
   find (\<lambda>r. rf_referred r = u \<and> rf_status r = RF_PENDING) rs = None"
  by (auto simp: find_None_iff)

lemma settled_referral_is_skipped:
  assumes ok: "distinct (map (str_upper \<circ> rc_code) (g_referral_codes (growth w)))"
    and settled: "\<And>u. ord_user od = Some u \<Longrightarrow> ord_payment_status od \<in> {PS_PAID, PS_CASH_RECEIVED} \<Longrightarrow>
      referral_settled od u (growth w)"
  shows "finalize_referral env od w = (Inr None, w)"
proof (cases "ord_user od")
  case None
  then show ?thesis by (simp add: finalize_referral_def run_atomic)
next
  case (Some u)
  show ?thesis
  proof (cases "ord_payment_status od \<in> {PS_PAID, PS_CASH_RECEIVED}")
    case True
    with settled Some have none: "find (\<lambda>r. rf_referred r = u \<and> rf_status r = RF_PENDING) (g_referrals (growth w)) = None"
      and rest: "ord_referral_code od = [] \<or> was_referred (growth w) u \<or>
        filter (\<lambda>c. iexact (rc_code c) (ord_referral_code od)) (g_referral_codes (growth w)) = []"
      unfolding referral_settled_def no_pending_find by blast+
    have "pending_referral od u w = (Inr None, w)"
    proof (cases "ord_referral_code od = []")
      case True
      with none show ?thesis by (simp add: pending_referral_def)
    next
      case False
      with none rest Some show ?thesis
        by (cases "filter (\<lambda>c. iexact (rc_code c) (ord_referral_code od)) (g_referral_codes (growth w))")
          (auto simp: pending_referral_def run_bnd find_referral_code_run [OF ok]
            attach_pending_referral_def run_atomic)
    qed
    with Some True show ?thesis by (simp add: finalize_referral_def run_atomic run_bnd)
  qed (use Some in \<open>simp add: finalize_referral_def run_atomic\<close>)
qed

lemma attach_returns:
  assumes "attach_pending_referral od c w = (Inr row, t)" and u: "ord_user od = Some u"
  shows "(row = None \<and> t = w \<and> was_referred (growth w) u) \<or>
    (\<exists>r. row = Some r \<and> rf_referred r = u \<and> rf_id r = next_pk w \<and> \<not> was_referred (growth w) u \<and>
      t = w\<lparr>next_pk := Suc (next_pk w), growth := (growth w)\<lparr>g_referrals := g_referrals (growth w) @ [r]\<rparr>\<rparr>)"
  using assms
  by (auto simp: attach_pending_referral_def run_bnd run_fresh_pk Let_def split: if_splits)

lemma pending_referral_returns:
  assumes ok: "referrals_ok w" and u: "ord_user od = Some u"
    and run: "pending_referral od u w = (Inr row, t)"
  shows "referrals_ok t \<and> (case row of
      None \<Rightarrow> referral_settled od u (growth t)
    | Some r \<Rightarrow> r \<in> set (g_referrals (growth t)) \<and> rf_referred r = u)"
proof (cases "find (\<lambda>r. rf_referred r = u \<and> rf_status r = RF_PENDING) (g_referrals (growth w))")
  case (Some r)
  with run have "row = Some r" "t = w" by (auto simp: pending_referral_def)
  with Some ok show ?thesis by (auto dest: find_SomeD)
next
  case None
  then have quiet: "\<forall>r\<in>set (g_referrals (growth w)). rf_referred r = u \<longrightarrow> rf_status r \<noteq> RF_PENDING"
    by (simp add: no_pending_find)
  show ?thesis
  proof (cases "ord_referral_code od = []")
    case True
    with run None ok quiet show ?thesis by (auto simp: pending_referral_def referral_settled_def)
  next
    case False
    let ?rows = "filter (\<lambda>c. iexact (rc_code c) (ord_referral_code od)) (g_referral_codes (growth w))"
    have codes: "distinct (map (str_upper \<circ> rc_code) (g_referral_codes (growth w)))"
      using ok by (simp add: referrals_ok_def)
    show ?thesis
    proof (cases ?rows)
      case Nil
      with run None False ok quiet show ?thesis
        by (auto simp: pending_referral_def run_bnd find_referral_code_run [OF codes] referral_settled_def)
    next
      case (Cons c cs)
      with run None False have "attach_pending_referral od c w = (Inr row, t)"
        by (simp add: pending_referral_def run_bnd find_referral_code_run [OF codes])
      from attach_returns [OF this u] ok quiet show ?thesis
        by (fastforce simp: referrals_ok_def referral_settled_def was_referred_def)
    qed
  qed
qed

text \<open>Storing the referral with its reward settles it.\<close>

lemma save_referral_settles:
  assumes ok: "referrals_ok w" and r: "r \<in> set (g_referrals (growth w))" and u: "rf_referred r = u"
    and same: "rf_id r' = rf_id r" "rf_referred r' = u" and status: "rf_status r' \<noteq> RF_PENDING"
    and run: "save_referral r' w = (Inr (), t)"
  shows "referrals_ok t \<and> referral_settled od u (growth t)"
proof -
  let ?upd = "upd_rows (\<lambda>x. rf_id x = rf_id r) (\<lambda>_. r')"
  have ids: "inj_on rf_id (set (g_referrals (growth w)))" and users: "inj_on rf_referred (set (g_referrals (growth w)))"
    using ok by (simp_all add: referrals_ok_def distinct_map)
  then have at: "rf_id x = rf_id r \<longleftrightarrow> x = r" if "x \<in> set (g_referrals (growth w))" for x
    using r that by (auto dest: inj_onD)
  then have col: "map rf_referred (?upd (g_referrals (growth w))) = map rf_referred (g_referrals (growth w))"
    "map rf_id (?upd (g_referrals (growth w))) = map rf_id (g_referrals (growth w))"
    using u same by (auto simp: upd_rows_def)
  have t: "t = w\<lparr>growth := (growth w)\<lparr>g_referrals := ?upd (g_referrals (growth w))\<rparr>\<rparr>"
    using run same by (simp add: save_referral_def)
  have elem: "x = r' \<or> x \<in> set (g_referrals (growth w)) \<and> x \<noteq> r" if "x \<in> set (?upd (g_referrals (growth w)))" for x
    using that by (auto simp: upd_rows_def split: if_splits)
  have "was_referred (growth t) u"
    using r same t by (force simp: was_referred_def upd_rows_def)
  moreover have "rf_status x \<noteq> RF_PENDING" if "x \<in> set (g_referrals (growth t))" "rf_referred x = u" for x
    using that elem t status users r u by (auto dest: inj_onD)
  moreover have "rf_id x < next_pk t" if "x \<in> set (g_referrals (growth t))" for x
    using that elem [of x] t ok r same by (auto simp: referrals_ok_def)
  ultimately show ?thesis using ok t col by (simp add: referrals_ok_def referral_settled_def)
qed

text \<open>After the referral step the referral of the order is settled; the codes are untouched.\<close>

definition referral_done :: "order \<Rightarrow> world \<Rightarrow> bool" where
  "referral_done od w \<longleftrightarrow> distinct (map (str_upper \<circ> rc_code) (g_referral_codes (growth w))) \<and>
     (\<forall>u. ord_user od = Some u \<longrightarrow> ord_payment_status od \<in> {PS_PAID, PS_CASH_RECEIVED} \<longrightarrow>
       referral_settled od u (growth w))"

lemma reward_keeps:
  "keeps (\<lambda>w. referrals_ok w \<and> r \<in> set (g_referrals (growth w))) (reward_referrer env od r')"
  unfolding reward_referrer_def get_or_create_account_def save_account_def add_transaction_def
  by (intro keeps_intros keeps_set_growth) (simp_all add: referrals_ok_def)

lemma onboarding_returns: "onboarding_discount env od r w = (Inr d, t) \<Longrightarrow> t = w"
  by (auto simp: onboarding_discount_def returns split: if_splits)

lemma save_referral_keeps_rows:
  assumes ok: "referrals_ok w" and r: "r \<in> set (g_referrals (growth w))"
    and same: "rf_id r' = rf_id r" "rf_referred r' = rf_referred r"
    and run: "save_referral r' w = (Inr x, t)"
  shows "referrals_ok t \<and> r' \<in> set (g_referrals (growth t))"
proof -
  have "map f (upd_rows (\<lambda>x. rf_id x = rf_id r) (\<lambda>_. r') rs) = map f rs"
    if "f r' = f r" and "inj_on rf_id (set rs)" and "r \<in> set rs" for rs and f :: "referral \<Rightarrow> nat"
    using that by (auto simp: upd_rows_def dest: inj_onD)
  moreover have "inj_on rf_id (set (g_referrals (growth w)))" using ok by (simp add: referrals_ok_def distinct_map)
  ultimately have col: "map rf_referred (g_referrals (growth t)) = map rf_referred (g_referrals (growth w))"
    "map rf_id (g_referrals (growth t)) = map rf_id (g_referrals (growth w))"
    using r same run by (auto simp: save_referral_def)
  then have "rf_id ` set (g_referrals (growth t)) = rf_id ` set (g_referrals (growth w))" by (metis set_map)
  moreover have "next_pk t = next_pk w" "g_referral_codes (growth t) = g_referral_codes (growth w)"
    "r' \<in> set (g_referrals (growth t))"
    using run r same by (auto simp: save_referral_def upd_rows_def image_iff)
  ultimately show ?thesis using ok col by (force simp: referrals_ok_def)
qed

lemma finalize_referral_done:
  assumes ok: "referrals_ok w" and run: "finalize_referral env od w = (Inr res, t)"
  shows "referral_done od t"
proof (cases "\<exists>u. ord_user od = Some u \<and> ord_payment_status od \<in> {PS_PAID, PS_CASH_RECEIVED}")
  case False
  with run ok show ?thesis
    by (auto simp: finalize_referral_def referral_done_def referrals_ok_def run_atomic split: option.splits if_splits)
next
  case True
  then obtain u where u: "ord_user od = Some u" and paid: "ord_payment_status od \<in> {PS_PAID, PS_CASH_RECEIVED}"
    by blast
  from run u paid obtain row w1 where 1: "pending_referral od u w = (Inr row, w1)"
    by (auto simp: finalize_referral_def returns)
  from pending_referral_returns [OF ok u 1] have ok1: "referrals_ok w1" by blast
  show ?thesis
  proof (cases row)
    case None
    with run u paid 1 have "t = w1" by (auto simp: finalize_referral_def run_atomic run_bnd)
    with None pending_referral_returns [OF ok u 1] u show ?thesis
      by (auto simp: referral_done_def referrals_ok_def)
  next
    case (Some r)
    with pending_referral_returns [OF ok u 1] have r: "r \<in> set (g_referrals (growth w1))" "rf_referred r = u"
      by auto
    let ?r1 = "r\<lparr>rf_first_order := Some (ord_id od), rf_status := RF_COMPLETED\<rparr>"
    from run u paid 1 Some obtain w2 w3 d w4 where
      2: "save_referral ?r1 w1 = (Inr (), w2)" and 3: "reward_referrer env od ?r1 w2 = (Inr (), w3)"
      and 4: "onboarding_discount env od ?r1 w3 = (Inr d, w4)"
      and 5: "save_referral (?r1\<lparr>rf_points := referral_reward_points env, rf_discount := d,
        rf_status := RF_REWARDED, rf_rewarded_at := Some (now env)\<rparr>) w4 = (Inr (), t)"
      by (auto simp: finalize_referral_def returns Let_def)
    from save_referral_keeps_rows [OF ok1 r(1) _ _ 2] have "referrals_ok w2 \<and> ?r1 \<in> set (g_referrals (growth w2))"
      by simp
    from keeps_run [OF reward_keeps this 3] onboarding_returns [OF 4]
    have "referrals_ok w4" "?r1 \<in> set (g_referrals (growth w4))" by auto
    from save_referral_settles [OF this _ _ _ _ 5, of u od] r u show ?thesis
      by (simp add: referral_done_def referrals_ok_def)
  qed
qed

section \<open>Redemption and attribution\<close>

definition redemption_done :: "order \<Rightarrow> world \<Rightarrow> bool" where
  "redemption_done od w \<longleftrightarrow>
     (ord_coupon od \<noteq> None \<longrightarrow> (\<exists>r\<in>set (g_redemptions (growth w)). rd_order r = ord_id od))"

definition redeem_coupon :: "order \<Rightarrow> unit P" where
  "redeem_coupon od = (case ord_coupon od of
     Some k \<Rightarrow> bnd (redeem k od (ord_user od)) (\<lambda>_. ret ()) | None \<Rightarrow> ret ())"

lemma redeem_coupon_done:
  assumes "redeem_coupon od w = (Inr (), v)"
  shows "redemption_done od v"
  using assms
  by (cases "find (\<lambda>r. rd_order r = ord_id od) (g_redemptions (growth w))")
    (auto simp: redeem_coupon_def redemption_done_def redeem_def Let_def returns dest: find_SomeD
      split: option.splits)

lemma redeem_coupon_again:
  assumes "redemption_done od w"
  shows "redeem_coupon od w = (Inr (), w)"
proof (cases "ord_coupon od")
  case (Some k)
  then obtain r where "r \<in> set (g_redemptions (growth w))" "rd_order r = ord_id od"
    using assms by (auto simp: redemption_done_def)
  then have "find (\<lambda>r. rd_order r = ord_id od) (g_redemptions (growth w)) \<noteq> None"
    by (auto simp: find_None_iff)
  with Some show ?thesis by (auto simp: redeem_coupon_def redeem_def run_atomic run_bnd)
qed (simp add: redeem_coupon_def)

definition has_attribution :: "nat \<Rightarrow> source_type \<Rightarrow> string \<Rightarrow> world \<Rightarrow> bool" where
  "has_attribution k s i w \<longleftrightarrow>
     (\<exists>a\<in>set (g_attributions (growth w)). at_order a = k \<and> at_source a = s \<and> at_source_id a = i)"

lemma attribution_again:
  assumes "has_attribution (at_order a) (at_source a) (at_source_id a) w"
  shows "\<exists>x. get_or_create_attribution a w = (Inr (x, False), w)"
proof -
  let ?P = "\<lambda>x. at_order x = at_order a \<and> at_source x = at_source a \<and> at_source_id x = at_source_id a"
  have "find ?P (g_attributions (growth w)) \<noteq> None"
    using assms by (auto simp: has_attribution_def find_None_iff)
  then show ?thesis by (auto simp: get_or_create_attribution_def run_bnd)
qed

lemma attribution_returns:
  assumes "get_or_create_attribution a w = (Inr r, v)"
  shows "has_attribution (at_order a) (at_source a) (at_source_id a) v"
  using assms unfolding get_or_create_attribution_def has_attribution_def
  by (cases "find (\<lambda>x. at_order x = at_order a \<and> at_source x = at_source a \<and> at_source_id x = at_source_id a)
      (g_attributions (growth w))") (auto simp: returns dest: find_SomeD)

lemma keeps_has_attribution:
  "keeps (has_attribution k s i) (get_or_create_attribution a)"
  unfolding get_or_create_attribution_def
  by (intro keeps_intros keeps_set_growth) (auto simp: has_attribution_def)

definition attributions_done :: "order \<Rightarrow> world \<Rightarrow> bool" where
  "attributions_done od w \<longleftrightarrow>
     (\<forall>k. ord_coupon od = Some k \<longrightarrow> 0 < ord_discount od \<longrightarrow>
       has_attribution (ord_id od) SRC_COUPON (digits k) w) \<and>
     (ord_referral_code od \<noteq> [] \<longrightarrow> has_attribution (ord_id od) SRC_REFERRAL (ord_referral_code od) w) \<and>
     (0 < ord_promotion_discount od \<longrightarrow>
       has_attribution (ord_id od) SRC_PROMOTION (promotion_source_id (ord_notes od)) w) \<and>
     (\<forall>c t. ord_user od \<noteq> None \<longrightarrow> recovered_tracker w (ord_id od) = Some (c, t) \<longrightarrow>
       has_attribution (ord_id od) SRC_SMS (''abandoned_cart:'' @ digits (tr_id t)) w)"

lemma record_for_order_again:
  assumes "attributions_done od w"
  shows "\<exists>xs. record_for_order od w = (Inr xs, w)"
proof -
  have 1: "\<exists>xs. attribute_coupon od w = (Inr xs, w)"
  proof (cases "\<exists>k. ord_coupon od = Some k \<and> 0 < ord_discount od")
    case True
    then obtain k where k: "ord_coupon od = Some k" "0 < ord_discount od" by blast
    with assms have "has_attribution (ord_id od) SRC_COUPON (digits k) w" by (simp add: attributions_done_def)
    with attribution_again [of "\<lparr>at_order = ord_id od, at_source = SRC_COUPON, at_source_id = digits k,
        at_label = code_of_coupon (growth w) (redeemed_coupon (growth w) od k), at_amount = ord_discount od\<rparr>" w]
    show ?thesis using k by (auto simp: attribute_coupon_def run_bnd)
  qed (auto simp: attribute_coupon_def split: option.split)
  have 2: "\<exists>xs. attribute_referral od w = (Inr xs, w)"
    using assms attribution_again [of "\<lparr>at_order = ord_id od, at_source = SRC_REFERRAL,
      at_source_id = ord_referral_code od, at_label = ord_referral_code od, at_amount = ord_total od\<rparr>" w]
    by (auto simp: attribute_referral_def attributions_done_def run_bnd)
  have 3: "\<exists>xs. attribute_promotion od w = (Inr xs, w)"
    using assms attribution_again [of "\<lparr>at_order = ord_id od, at_source = SRC_PROMOTION,
      at_source_id = promotion_source_id (ord_notes od), at_label = ''Promotion rules'',
      at_amount = ord_promotion_discount od\<rparr>" w]
    by (auto simp: attribute_promotion_def attributions_done_def run_bnd)
  have 4: "\<exists>xs. attribute_sms od w = (Inr xs, w)"
  proof (cases "ord_user od = None")
    case False
    show ?thesis
    proof (cases "recovered_tracker w (ord_id od)")
      case (Some ct)
      with False assms attribution_again [of "\<lparr>at_order = ord_id od, at_source = SRC_SMS,
        at_source_id = ''abandoned_cart:'' @ digits (tr_id (snd ct)),
        at_label = ''Abandoned cart SMS (step '' @ digits (nat (tr_funnel_step (snd ct))) @ '')'',
        at_amount = ord_total od\<rparr>" w]
      show ?thesis by (cases ct) (auto simp: attribute_sms_def attributions_done_def run_bnd whenever_def)
    qed (use False in \<open>simp add: attribute_sms_def run_bnd\<close>)
  qed (simp add: attribute_sms_def)
  from 1 2 3 4 show ?thesis by (auto simp: record_for_order_def run_atomic run_bnd)
qed

text \<open>Marking a tracker as converted does not change which tracker an order was recovered in.\<close>

lemma recovered_tracker_mark:
  assumes "recovered_tracker w k = Some (c, t)"
    and "recovered_tracker (put_tracker c (t\<lparr>tr_sms_tracked := True\<rparr>) w) k = Some (c', t')"
  shows "tr_id t' = tr_id t"
proof -
  let ?P = "\<lambda>(c, t). tr_recovered_order t = Some k \<and> tr_status t = TR_RECOVERED"
  let ?f = "\<lambda>g x. map_option (Pair (cart_id x)) (g (cart_id x))"
  have "find ?P (List.map_filter (?f g) xs) = Some (c, t) \<Longrightarrow>
      find ?P (List.map_filter (?f (g(c \<mapsto> t\<lparr>tr_sms_tracked := True\<rparr>))) xs) = Some (c', t') \<Longrightarrow>
      tr_id t' = tr_id t" for xs :: "cart list" and g
    by (induction xs) (auto simp: List.map_filter_simps split: option.splits if_splits)
  with assms show ?thesis by (simp add: recovered_tracker_def put_tracker_def)
qed

lemma recovered_tracker_attributed:
  "get_or_create_attribution a w = (r, v) \<Longrightarrow> recovered_tracker v k = recovered_tracker w k"
  unfolding get_or_create_attribution_def
  by (cases "find (\<lambda>x. at_order x = at_order a \<and> at_source x = at_source a \<and> at_source_id x = at_source_id a)
      (g_attributions (growth w))") (auto simp: run_bnd recovered_tracker_def)

lemma attribute_sms_done:
  assumes run: "attribute_sms od w = (Inr xs, v)" and user: "ord_user od \<noteq> None"
    and found: "recovered_tracker v (ord_id od) = Some (c', t')"
  shows "has_attribution (ord_id od) SRC_SMS (''abandoned_cart:'' @ digits (tr_id t')) v"
proof (cases "recovered_tracker w (ord_id od)")
  case None
  with run user found show ?thesis by (auto simp: attribute_sms_def returns)
next
  case (Some ct)
  obtain c t where ct: "ct = (c, t)" by fastforce
  let ?a = "\<lparr>at_order = ord_id od, at_source = SRC_SMS, at_source_id = ''abandoned_cart:'' @ digits (tr_id t),
    at_label = ''Abandoned cart SMS (step '' @ digits (nat (tr_funnel_step t)) @ '')'', at_amount = ord_total od\<rparr>"
  from run user Some ct obtain x cr w1 where 1: "get_or_create_attribution ?a w = (Inr (x, cr), w1)"
    and 2: "whenever (cr \<and> \<not> tr_sms_tracked t)
      (bnd (modifies (put_tracker c (t\<lparr>tr_sms_tracked := True\<rparr>))) (\<lambda>_.
       track_event GE_SMS_CONVERSION (ord_user od) None (Some (ord_id od)))) w1 = (Inr (), v)"
    unfolding attribute_sms_def by (auto simp: returns simp del: whenever_returns)
  have here: "has_attribution (ord_id od) SRC_SMS (''abandoned_cart:'' @ digits (tr_id t)) w1"
    using attribution_returns [OF 1] by simp
  have rec: "recovered_tracker w1 (ord_id od) = Some (c, t)"
    using recovered_tracker_attributed [OF 1] Some ct by simp
  show ?thesis
  proof (cases "cr \<and> \<not> tr_sms_tracked t")
    case False
    with 2 rec found here show ?thesis by (simp add: whenever_def returns)
  next
    case True
    with 2 have v: "recovered_tracker v (ord_id od) =
        recovered_tracker (put_tracker c (t\<lparr>tr_sms_tracked := True\<rparr>) w1) (ord_id od)"
      "g_attributions (growth v) = g_attributions (growth w1)"
      by (auto simp: returns whenever_def track_event_def recovered_tracker_def put_tracker_def)
    with recovered_tracker_mark [OF rec] found have "tr_id t' = tr_id t" by simp
    with here v show ?thesis by (simp add: has_attribution_def)
  qed
qed

lemma keeps_attribute:
  "keeps (has_attribution k s i) (attribute_coupon od)" "keeps (has_attribution k s i) (attribute_referral od)"
  "keeps (has_attribution k s i) (attribute_promotion od)" "keeps (has_attribution k s i) (attribute_sms od)"
  unfolding attribute_coupon_def attribute_referral_def attribute_promotion_def attribute_sms_def track_event_def
  by (intro keeps_intros keeps_get_growth keeps_has_attribution keeps_set_growth keeps_modifies;
      simp add: has_attribution_def put_tracker_def)+

lemma record_for_order_done:
  assumes "record_for_order od w = (Inr xs, v)"
  shows "attributions_done od v"
proof -
  from assms obtain a b c d w1 w2 w3 where 1: "attribute_coupon od w = (Inr a, w1)"
    and 2: "attribute_referral od w1 = (Inr b, w2)" and 3: "attribute_promotion od w2 = (Inr c, w3)"
    and 4: "attribute_sms od w3 = (Inr d, v)"
    by (auto simp: record_for_order_def returns)
  have "has_attribution (ord_id od) SRC_COUPON (digits k) v" if "ord_coupon od = Some k" "0 < ord_discount od" for k
  proof -
    from that 1 have "has_attribution (ord_id od) SRC_COUPON (digits k) w1"
      by (auto simp: attribute_coupon_def returns dest: attribution_returns)
    from keeps_run [OF keeps_attribute(4) keeps_run [OF keeps_attribute(3) keeps_run [OF keeps_attribute(2) this 2] 3] 4]
    show ?thesis .
  qed
  moreover have "has_attribution (ord_id od) SRC_REFERRAL (ord_referral_code od) v" if "ord_referral_code od \<noteq> []"
  proof -
    from that 2 have "has_attribution (ord_id od) SRC_REFERRAL (ord_referral_code od) w2"
      by (auto simp: attribute_referral_def returns dest: attribution_returns)
    from keeps_run [OF keeps_attribute(4) keeps_run [OF keeps_attribute(3) this 3] 4] show ?thesis .
  qed
  moreover have "has_attribution (ord_id od) SRC_PROMOTION (promotion_source_id (ord_notes od)) v"
    if "0 < ord_promotion_discount od"
  proof -
    from that 3 have "has_attribution (ord_id od) SRC_PROMOTION (promotion_source_id (ord_notes od)) w3"
      by (auto simp: attribute_promotion_def returns dest: attribution_returns)
    from keeps_run [OF keeps_attribute(4) this 4] show ?thesis .
  qed
  ultimately show ?thesis using attribute_sms_done [OF 4] by (simp add: attributions_done_def)
qed

section \<open>The whole task\<close>

lemma keeps_redemption_done:
  "keeps (redemption_done od) (finalize_referral env od')"
  unfolding finalize_referral_def pending_referral_def find_referral_code_def attach_pending_referral_def
    save_referral_def reward_referrer_def get_or_create_account_def save_account_def add_transaction_def
    onboarding_discount_def fresh_pk_def
  by (intro keeps_atomic keeps_intros keeps_get_growth keeps_set_growth keeps_modifies;
      auto simp: of_tables_def redemption_done_def keeps_intros split: list.split)+

lemma keeps_done_record:
  "keeps (\<lambda>w. redemption_done od w \<and> referral_done od w) (record_for_order od')"
  unfolding record_for_order_def attribute_coupon_def attribute_referral_def attribute_promotion_def
    attribute_sms_def track_event_def get_or_create_attribution_def
  by (intro keeps_atomic keeps_intros keeps_get_growth keeps_set_growth keeps_modifies;
      simp add: of_tables_def redemption_done_def referral_done_def referral_settled_def was_referred_def put_tracker_def)+

lemma calculate_clv_run:
  "calculate_clv u w = (Inr (clv_of (paid_orders_of w u)), w\<lparr>growth := (growth w)
     \<lparr>g_profiles := (g_profiles (growth w))(u \<mapsto> clv_of (paid_orders_of w u))\<rparr>\<rparr>)"
  by (simp add: calculate_clv_def run_bnd)

lemma finalize_growth_unfold:
  "finalize_growth env od = atomic (bnd (redeem_coupon od) (\<lambda>_. bnd (finalize_referral env od) (\<lambda>_.
     bnd (record_for_order od) (\<lambda>_.
     case ord_user od of Some u \<Rightarrow> bnd (calculate_clv u) (\<lambda>_. ret ()) | None \<Rightarrow> ret ()))))"
  by (simp add: finalize_growth_steps redeem_coupon_def)

definition growth_done :: "order \<Rightarrow> world \<Rightarrow> bool" where
  "growth_done od w \<longleftrightarrow> redemption_done od w \<and> referral_done od w \<and> attributions_done od w \<and>
     (\<forall>u. ord_user od = Some u \<longrightarrow> g_profiles (growth w) u = Some (clv_of (paid_orders_of w u)))"

lemma done_profiles [simp]:
  "redemption_done od (w\<lparr>growth := (growth w)\<lparr>g_profiles := P\<rparr>\<rparr>) = redemption_done od w"
  "referral_done od (w\<lparr>growth := (growth w)\<lparr>g_profiles := P\<rparr>\<rparr>) = referral_done od w"
  "attributions_done od (w\<lparr>growth := (growth w)\<lparr>g_profiles := P\<rparr>\<rparr>) = attributions_done od w"
  "paid_orders_of (w\<lparr>growth := g\<rparr>) = paid_orders_of w"
  by (simp_all add: redemption_done_def referral_done_def referral_settled_def was_referred_def
      attributions_done_def has_attribution_def recovered_tracker_def paid_orders_of_def fun_eq_iff)

lemma finalize_growth_done:
  assumes ok: "referrals_ok w" and run: "finalize_growth env od w = (Inr (), v)"
  shows "growth_done od v"
proof -
  from run obtain w1 res w2 xs w3 where 1: "redeem_coupon od w = (Inr (), w1)"
    and 2: "finalize_referral env od w1 = (Inr res, w2)" and 3: "record_for_order od w2 = (Inr xs, w3)"
    and 4: "(case ord_user od of Some u \<Rightarrow> bnd (calculate_clv u) (\<lambda>_. ret ()) | None \<Rightarrow> ret ()) w3 = (Inr (), v)"
    unfolding finalize_growth_unfold by (auto simp: returns)
  have "keeps referrals_ok (redeem_coupon od)"
    unfolding redeem_coupon_def redeem_def
    by (intro keeps_atomic keeps_intros keeps_get_growth keeps_set_growth; simp add: of_tables_def referrals_ok_def)+
  from keeps_run [OF this ok 1] have "referrals_ok w1" .
  from finalize_referral_done [OF this 2] have "referral_done od w2" .
  moreover from keeps_run [OF keeps_redemption_done redeem_coupon_done [OF 1] 2] have "redemption_done od w2" .
  ultimately have "redemption_done od w3 \<and> referral_done od w3"
    using keeps_run [OF keeps_done_record _ 3] by blast
  moreover have "attributions_done od w3" using record_for_order_done [OF 3] .
  ultimately show ?thesis using 4
    by (cases "ord_user od") (auto simp: growth_done_def calculate_clv_run run_bnd)
qed

lemma finalize_growth_again:
  assumes "growth_done od w"
  shows "finalize_growth env od w = (Inr (), w)"
proof -
  from assms have fin: "redemption_done od w" "referral_done od w" "attributions_done od w" and
    clv: "\<And>u. ord_user od = Some u \<Longrightarrow> g_profiles (growth w) u = Some (clv_of (paid_orders_of w u))"
    by (simp_all add: growth_done_def)
  have "finalize_referral env od w = (Inr None, w)"
    using fin(2) by (intro settled_referral_is_skipped) (auto simp: referral_done_def)
  moreover from record_for_order_again [OF fin(3)] obtain xs where "record_for_order od w = (Inr xs, w)" ..
  moreover have "w\<lparr>growth := (growth w)\<lparr>g_profiles := (g_profiles (growth w))(u \<mapsto> clv_of (paid_orders_of w u))\<rparr>\<rparr> = w"
    if "ord_user od = Some u" for u using clv [OF that] by (simp add: fun_upd_idem)
  ultimately show ?thesis using redeem_coupon_again [OF fin(1)]
    by (cases "ord_user od") (simp_all add: finalize_growth_unfold run_atomic run_bnd calculate_clv_run)
qed

text \<open>
  C14: the growth task of a paid order can be delivered twice: when it has returned once, a second
  delivery, whenever it comes, redeems no coupon, rewards no referral, records no revenue and leaves
  every table as it is.
\<close>

theorem growth_task_twice:
  assumes ok: "referrals_ok w" and run: "finalize_growth_order_task env k w = (Inr (), v)"
  shows "finalize_growth_order_task env' k v = (Inr (), v)"
proof (cases "order_row w k")
  case None
  with run show ?thesis by (auto simp: finalize_growth_order_task_def run_bnd)
next
  case (Some od)
  with run have fin: "finalize_growth env od w = (Inr (), v)"
    by (simp add: finalize_growth_order_task_def run_bnd)
  have "orders v = orders w" by (rule keeps_run [OF orders_frame.keeps_finalize_growth refl fin])
  then have "order_row v k = order_row w k" by (simp add: order_row_def)
  with Some finalize_growth_again [OF finalize_growth_done [OF ok fin]] show ?thesis
    by (simp add: finalize_growth_order_task_def run_bnd)
qed

section \<open>The ledgers of points and of coupon uses\<close>

text \<open>A coupon counts its redemptions, and an order redeems at most one coupon.\<close>

definition coupons_ok :: "world \<Rightarrow> bool" where
  "coupons_ok w \<longleftrightarrow> distinct (map rd_order (g_redemptions (growth w))) \<and>
     (\<forall>c\<in>set (g_coupons (growth w)). cpn_usage_count c =
       int (length (filter (\<lambda>r. rd_coupon r = cpn_id c) (g_redemptions (growth w)))))"

lemma keeps_coupons_ok_redeem: "keeps coupons_ok (redeem k od u)"
proof -
  have tables: "of_tables coupons_ok" by (simp add: of_tables_def coupons_ok_def)
  show ?thesis
    unfolding redeem_def
  proof (rule keeps_atomic [OF tables], rule keepsI)
    fix w assume ok: "coupons_ok w"
    let ?row = "find (\<lambda>r. rd_order r = ord_id od) (g_redemptions (growth w))"
    have "ord_id od \<notin> rd_order ` set (g_redemptions (growth w))" if "?row = None"
      using that by (auto simp: find_None_iff)
    with ok show "coupons_ok (snd (bnd (get_growth (\<lambda>g. find (\<lambda>r. rd_order r = ord_id od) (g_redemptions g)))
       (\<lambda>row. case row of Some r \<Rightarrow> ret r | None \<Rightarrow>
         let r = \<lparr>rd_coupon = k, rd_user = if u \<noteq> None then u else ord_user od, rd_order = ord_id od,
                  rd_discount = ord_discount od\<rparr>
         in bnd (set_growth (\<lambda>g. g\<lparr>g_redemptions := g_redemptions g @ [r]\<rparr>)) (\<lambda>_.
            bnd (set_growth (\<lambda>g. g\<lparr>g_coupons := upd_rows (\<lambda>x. cpn_id x = k)
              (\<lambda>x. x\<lparr>cpn_usage_count := cpn_usage_count x + 1\<rparr>) (g_coupons g)\<rparr>)) (\<lambda>_. ret r))) w))"
      by (cases ?row) (auto simp: Let_def coupons_ok_def upd_rows_def)
  qed
qed

lemma keeps_loyalty_ok_reward: "keeps loyalty_ok (reward_referrer env od r)"
  by (rule keepsI) (auto simp: reward_referrer_def run_bnd run_get_or_create_account run_save_account
      run_add_transaction Let_def intro!: loyalty_ok_put)

definition growth_ledgers_ok :: "world \<Rightarrow> bool" where
  "growth_ledgers_ok w \<longleftrightarrow> loyalty_ok w \<and> coupons_ok w"

lemma ledgers_other [simp]:
  "growth_ledgers_ok (w\<lparr>growth := (growth w)\<lparr>g_referrals := rs\<rparr>\<rparr>) = growth_ledgers_ok w"
  "growth_ledgers_ok (w\<lparr>growth := (growth w)\<lparr>g_attributions := as\<rparr>\<rparr>) = growth_ledgers_ok w"
  "growth_ledgers_ok (w\<lparr>growth := (growth w)\<lparr>g_profiles := ps\<rparr>\<rparr>) = growth_ledgers_ok w"
  "growth_ledgers_ok (w\<lparr>growth := (growth w)\<lparr>g_events := es\<rparr>\<rparr>) = growth_ledgers_ok w"
  "growth_ledgers_ok (put_tracker c t w) = growth_ledgers_ok w"
  "growth_ledgers_ok (w\<lparr>next_pk := k\<rparr>) = growth_ledgers_ok w"
  "growth_ledgers_ok (w\<lparr>broker := b\<rparr>) = growth_ledgers_ok w"
  by (simp_all add: growth_ledgers_ok_def loyalty_ok_def coupons_ok_def account_of_def put_tracker_def)

lemma growth_ledgers_tables: "of_tables growth_ledgers_ok"
  by (simp add: of_tables_def)

lemma keeps_ledgers_parts:
  "keeps growth_ledgers_ok (redeem k od u)" "keeps growth_ledgers_ok (reward_referrer env od r)"
  "keeps growth_ledgers_ok (award_points_for_order env od)"
proof -
  have "keeps loyalty_ok (redeem k od u)" unfolding redeem_def
    by (intro keeps_atomic keeps_intros keeps_get_growth keeps_set_growth;
        simp add: of_tables_def loyalty_ok_def account_of_def)+
  moreover have "keeps coupons_ok (award_points_for_order env od)" "keeps coupons_ok (reward_referrer env od r)"
    unfolding award_points_for_order_def reward_referrer_def get_or_create_account_def save_account_def
      add_transaction_def
    by (intro keeps_atomic keeps_intros keeps_get_growth keeps_set_growth;
        simp add: of_tables_def coupons_ok_def)+
  ultimately show "keeps growth_ledgers_ok (redeem k od u)" "keeps growth_ledgers_ok (reward_referrer env od r)"
    "keeps growth_ledgers_ok (award_points_for_order env od)"
    unfolding growth_ledgers_ok_def
    by (simp_all add: keeps_conj keeps_coupons_ok_redeem keeps_loyalty_ok_reward keeps_loyalty_ok_award)
qed

lemma keeps_ledgers_growth: "keeps growth_ledgers_ok (finalize_growth env od)"
  unfolding finalize_growth_steps finalize_referral_def pending_referral_def find_referral_code_def
    attach_pending_referral_def save_referral_def onboarding_discount_def record_for_order_def
    attribute_coupon_def attribute_referral_def attribute_promotion_def attribute_sms_def track_event_def
    get_or_create_attribution_def calculate_clv_def fresh_pk_def
  by (intro keeps_atomic keeps_ledgers_parts keeps_intros keeps_get_growth keeps_set_growth keeps_modifies;
      auto simp: growth_ledgers_tables keeps_intros split: list.split)+

datatype growth_call = Award_Points_Task nat | Finalize_Growth_Task nat

fun growth_step :: "env \<Rightarrow> growth_call \<Rightarrow> world \<Rightarrow> world" where
  "growth_step env (Award_Points_Task k) w = snd (award_loyalty_points_task env k w)"
| "growth_step env (Finalize_Growth_Task k) w = snd (finalize_growth_order_task env k w)"

definition growth_run :: "(env \<times> growth_call) list \<Rightarrow> world \<Rightarrow> world" where
  "growth_run cs w = fold (\<lambda>(env, c). growth_step env c) cs w"

lemma growth_run_ok: "growth_ledgers_ok w \<Longrightarrow> growth_ledgers_ok (growth_run cs w)"
proof (induction cs arbitrary: w)
  case (Cons x cs)
  obtain env c where x: "x = (env, c)" by fastforce
  have "keeps growth_ledgers_ok (award_loyalty_points_task env k)"
    "keeps growth_ledgers_ok (finalize_growth_order_task env k)" for k
    unfolding award_loyalty_points_task_def finalize_growth_order_task_def
    by (intro keeps_intros keeps_ledgers_parts keeps_ledgers_growth)+
  from this [THEN keepsD] Cons.prems have "growth_ledgers_ok (growth_step env c w)" by (cases c) auto
  with Cons.IH show ?case by (simp add: growth_run_def x)
qed (simp add: growth_run_def)

text \<open>
  C15: whatever tasks run, in any order and however often each is delivered, the points of an
  account are the sum of its transactions, a coupon's usage count is the number of its redemptions, and
  no order redeems two coupons.
\<close>

theorem growth_ledgers_balance:
  assumes "growth_ledgers_ok w"
  shows "la_points (account_of (growth_run cs w) u) = points_of u (g_transactions (growth (growth_run cs w))) \<and>
    distinct (map rd_order (g_redemptions (growth (growth_run cs w)))) \<and>
    (\<forall>c\<in>set (g_coupons (growth (growth_run cs w))). cpn_usage_count c =
      int (length (filter (\<lambda>r. rd_coupon r = cpn_id c) (g_redemptions (growth (growth_run cs w))))))"
  using growth_run_ok [OF assms, of cs] by (auto simp: growth_ledgers_ok_def loyalty_ok_def coupons_ok_def)

section \<open>Where the growth task surprises\<close>

text \<open>
  When the growth task of an order has rewarded its referral, the award of the buyer's own
  points for the same order, which looks for any earning of the order, finds the referrer's and gives
  nothing, now and whenever it is repeated.
\<close>

theorem referral_reward_blocks_award:
  assumes run: "finalize_referral env od w = (Inr (Some r), v)"
  shows "award_points_for_order env' od v = (Inr None, v)"
proof -
  from run obtain u where u: "ord_user od = Some u" and paid: "ord_payment_status od \<in> {PS_PAID, PS_CASH_RECEIVED}"
    by (auto simp: finalize_referral_def returns split: option.splits if_splits)
  with run obtain r1 w2 w3 d w4 r2 where reward: "reward_referrer env od r1 w2 = (Inr (), w3)"
    and 4: "onboarding_discount env od r1 w3 = (Inr d, w4)" and 5: "save_referral r2 w4 = (Inr (), v)"
    by (auto simp: finalize_referral_def returns Let_def split: option.splits)
  from reward have "earned_for (ord_id od) (g_transactions (growth w3))"
    by (auto simp: reward_referrer_def run_bnd run_get_or_create_account run_save_account run_add_transaction
        Let_def put_transaction_def earned_for_def)
  then have "earned_for (ord_id od) (g_transactions (growth v))"
    using onboarding_returns [OF 4] 5 by (auto simp: save_referral_def)
  then show ?thesis by (intro award_nothing) (simp add: may_earn_def)
qed

lemma keeps_coupon_rows:
  "keeps (\<lambda>w. g_coupons (growth w) = cs) (finalize_referral env od)"
  "keeps (\<lambda>w. g_coupons (growth w) = cs) (record_for_order od)"
  "keeps (\<lambda>w. g_coupons (growth w) = cs) (calculate_clv u)"
  unfolding finalize_referral_def pending_referral_def find_referral_code_def attach_pending_referral_def
    save_referral_def reward_referrer_def get_or_create_account_def save_account_def add_transaction_def
    onboarding_discount_def record_for_order_def
    attribute_coupon_def attribute_referral_def attribute_promotion_def attribute_sms_def track_event_def
    get_or_create_attribution_def calculate_clv_def fresh_pk_def
  by (intro keeps_atomic keeps_intros keeps_get_growth keeps_set_growth keeps_modifies;
      auto simp: of_tables_def put_tracker_def keeps_intros split: list.split)+

text \<open>
  Limits are checked when an order is priced and not when its payment is settled: an order
  priced while the coupon was free still redeems it after other orders have used the coupon up, and the
  usage count passes the global limit.
\<close>

theorem redemption_ignores_limit:
  assumes run: "finalize_growth env od w = (Inr (), v)"
    and c: "c \<in> set (g_coupons (growth w))" "ord_coupon od = Some (cpn_id c)"
    and first: "ord_id od \<notin> rd_order ` set (g_redemptions (growth w))"
    and used_up: "cpn_limit_global c = Some l" "l \<le> cpn_usage_count c"
  shows "\<not> coupon_valid_now t c \<and>
    (\<exists>c'\<in>set (g_coupons (growth v)). cpn_id c' = cpn_id c \<and> cpn_usage_count c' = cpn_usage_count c + 1 \<and>
      l < cpn_usage_count c')"
proof -
  from run obtain w1 res w2 xs w3 where 1: "redeem_coupon od w = (Inr (), w1)"
    and 2: "finalize_referral env od w1 = (Inr res, w2)" and 3: "record_for_order od w2 = (Inr xs, w3)"
    and 4: "(case ord_user od of Some u \<Rightarrow> bnd (calculate_clv u) (\<lambda>_. ret ()) | None \<Rightarrow> ret ()) w3 = (Inr (), v)"
    unfolding finalize_growth_unfold by (auto simp: returns)
  have "keeps (\<lambda>w. g_coupons (growth w) = cs)
      (case ord_user od of Some u \<Rightarrow> bnd (calculate_clv u) (\<lambda>_. ret ()) | None \<Rightarrow> ret ())" for cs
    by (intro keeps_intros keeps_coupon_rows)
  from keeps_run [OF this _ 4] have same: "g_coupons (growth v) = g_coupons (growth w1)"
    using keeps_run [OF keeps_coupon_rows(1) refl 2] keeps_run [OF keeps_coupon_rows(2) refl 3] by simp
  have "find (\<lambda>r. rd_order r = ord_id od) (g_redemptions (growth w)) = None"
    using first by (auto simp: find_None_iff image_iff)
  with 1 c have "g_coupons (growth w1) = upd_rows (\<lambda>x. cpn_id x = cpn_id c)
      (\<lambda>x. x\<lparr>cpn_usage_count := cpn_usage_count x + 1\<rparr>) (g_coupons (growth w))"
    by (auto simp: redeem_coupon_def redeem_def returns Let_def)
  with c same have "c\<lparr>cpn_usage_count := cpn_usage_count c + 1\<rparr> \<in> set (g_coupons (growth v))"
    by (force simp: upd_rows_def)
  then have "\<exists>c'\<in>set (g_coupons (growth v)). cpn_id c' = cpn_id c \<and>
      cpn_usage_count c' = cpn_usage_count c + 1 \<and> l < cpn_usage_count c'"
    by (rule bexI [rotated]) (use used_up in simp)
  with used_up show ?thesis by (simp add: coupon_valid_now_def)
qed

section \<open>Instances\<close>

text \<open>A referred customer paid an order with the last use of a coupon.\<close>

definition demo_coupon :: coupon where
  "demo_coupon = \<lparr>cpn_id = 11, cpn_code = ''TEN'', cpn_discount_type = DT_PERCENTAGE, cpn_value = 1000,
     cpn_campaign = CT_GENERAL, cpn_min_order = 0, cpn_max_discount = None, cpn_limit_global = Some 1,
     cpn_limit_per_user = 1, cpn_usage_count = 1, cpn_valid_from = None, cpn_valid_until = None,
     cpn_is_active = True\<rparr>"

definition referred_order :: order where
  "referred_order = demo_order\<lparr>ord_user := Some 5, ord_payment_status := PS_PAID, ord_coupon := Some 11,
     ord_discount := 1500000, ord_referral_code := ''REF''\<rparr>"

definition growth_world :: world where
  "growth_world = pay_world\<lparr>orders := [referred_order], growth := empty_growth
     \<lparr>g_coupons := [demo_coupon],
      g_redemptions := [\<lparr>rd_coupon = 11, rd_user = None, rd_order = 3, rd_discount = 100\<rparr>],
      g_referral_codes := [\<lparr>rc_id = 12, rc_user = 6, rc_code = ''REF'', rc_is_active = True\<rparr>]\<rparr>\<rparr>"

lemma upper_ref: "str_upper ''REF'' = ''REF''"
  by code_simp

lemmas growth_instances = growth_world_def referred_order_def demo_coupon_def upper_ref

lemmas growth_program = program shop_code growth_instances upd_rows_def put_transaction_def put_account_def
  account_of_def new_account_def

lemma growth_demo_returns:
  "finalize_growth demo_env referred_order growth_world =
   (Inr (), snd (finalize_growth demo_env referred_order growth_world))"
proof -
  have "\<not> isl (fst (finalize_growth demo_env referred_order growth_world))"
    by (simp add: growth_program cong: lazily split del: if_split)
  then show ?thesis by (rule Inr_call) simp
qed

lemma growth_task_twice_witness:
  "let v = snd (finalize_growth_order_task demo_env 7 growth_world) in
   finalize_growth_order_task (demo_env\<lparr>now := 5000\<rparr>) 7 v = (Inr (), v)"
proof -
  have "finalize_growth_order_task demo_env 7 growth_world = finalize_growth demo_env referred_order growth_world"
    by (simp add: finalize_growth_order_task_def run_bnd order_row_def growth_world_def referred_order_def
        demo_order_def)
  moreover have "referrals_ok growth_world" by (simp add: referrals_ok_def growth_world_def empty_growth_def)
  ultimately show ?thesis using growth_task_twice growth_demo_returns unfolding Let_def by metis
qed

lemma growth_ledgers_balance_witness:
  "la_points (account_of (growth_run [(demo_env, Finalize_Growth_Task 7), (demo_env, Award_Points_Task 7)]
       growth_world) 6) =
     points_of 6 (g_transactions (growth (growth_run [(demo_env, Finalize_Growth_Task 7),
       (demo_env, Award_Points_Task 7)] growth_world)))"
  using growth_ledgers_balance [of growth_world "[(demo_env, Finalize_Growth_Task 7), (demo_env, Award_Points_Task 7)]" 6]
  by (simp add: growth_ledgers_ok_def loyalty_ok_def coupons_ok_def growth_world_def empty_growth_def
      account_of_def new_account_def points_of_def demo_coupon_def)

lemma referral_reward_blocks_award_witness:
  "let v = snd (finalize_referral demo_env referred_order growth_world) in
   (\<exists>r. fst (finalize_referral demo_env referred_order growth_world) = Inr (Some r)) \<and>
   award_points_for_order demo_env referred_order v = (Inr None, v)"
proof -
  have "case fst (finalize_referral demo_env referred_order growth_world) of
      Inr (Some r) \<Rightarrow> True | _ \<Rightarrow> False"
    by (simp add: growth_program cong: lazily split del: if_split)
  then obtain r where "fst (finalize_referral demo_env referred_order growth_world) = Inr (Some r)"
    by (auto split: sum.splits option.splits)
  then show ?thesis using referral_reward_blocks_award [of demo_env referred_order growth_world r]
    by (metis prod.collapse)
qed

lemma redemption_ignores_limit_witness:
  "\<exists>c'\<in>set (g_coupons (growth (snd (finalize_growth demo_env referred_order growth_world)))).
    cpn_id c' = 11 \<and> cpn_usage_count c' = 2"
  using redemption_ignores_limit [OF growth_demo_returns, of demo_coupon 1]
  by (auto simp: growth_instances empty_growth_def demo_order_def)

lemma demo_points: "trunc_div 15000000 100000 = 150"
  by code_simp

lemma loyalty_points_awarded_once_witness:
  "\<exists>y. award_points_for_order demo_env referred_order
      (snd (award_points_for_order demo_env referred_order growth_world)) =
     (Inr y, snd (award_points_for_order demo_env referred_order growth_world))"
proof -
  have "\<not> isl (fst (award_points_for_order demo_env referred_order growth_world))"
    by (simp add: growth_program demo_points cong: lazily split del: if_split)
  then obtain x where "award_points_for_order demo_env referred_order growth_world =
    (Inr x, snd (award_points_for_order demo_env referred_order growth_world))" by (rule Inr_call)
  from loyalty_points_awarded_once [OF this] show ?thesis .
qed

end
