(* ===== verification/GrowthProps.thy ===== *)
theory GrowthProps
  imports GrowthTask
begin

text \<open>
  Properties of the growth services: what a discount can be, which coupons are accepted, how promotion
  rules combine.
\<close>

section \<open>Discounts\<close>

lemma round_percent_le:
  assumes "0 \<le> s" and "0 \<le> p" and "p \<le> 10000"
  shows "0 \<le> round_half_even (s * p) 10000 \<and> round_half_even (s * p) 10000 \<le> s"
proof
  show "0 \<le> round_half_even (s * p) 10000" using assms by (intro round_half_even_nonneg) auto
  have "s * p \<le> s * 10000" using assms by (intro mult_left_mono) auto
  then show "round_half_even (s * p) 10000 \<le> s" by (intro round_half_even_le) auto
qed

text \<open>
  A coupon never takes more than the subtotal when its percentage is at most one hundred,
  never more than its maximum, and never adds to the price; a percentage is rounded to a hundredth by less
  than a hundredth.
\<close>

theorem coupon_discount_bounds:
  assumes "0 \<le> subtotal" and "0 \<le> cpn_value c"
    and "cpn_discount_type c = DT_PERCENTAGE \<longrightarrow> cpn_value c \<le> 10000"
  shows "0 \<le> coupon_discount c subtotal \<and> coupon_discount c subtotal \<le> subtotal \<and>
    (case cpn_max_discount c of
       Some m \<Rightarrow> coupon_discount c subtotal \<le> max 0 m
     | None \<Rightarrow> (cpn_discount_type c = DT_PERCENTAGE \<longrightarrow>
         \<bar>10000 * coupon_discount c subtotal - subtotal * cpn_value c\<bar> \<le> 5000))"
proof -
  let ?n = "subtotal * cpn_value c"
  have "2 * ?n - 10000 \<le> 2 * (10000 * round_half_even ?n 10000) \<and>
      2 * (10000 * round_half_even ?n 10000) \<le> 2 * ?n + 10000"
    by (rule round_half_even_bounds) simp
  then have near: "\<bar>10000 * round_half_even ?n 10000 - ?n\<bar> \<le> 5000" by linarith
  show ?thesis
  proof (cases "cpn_discount_type c")
    case DT_PERCENTAGE
    with assms round_percent_le [of subtotal "cpn_value c"] near show ?thesis
      by (auto simp: coupon_discount_def Let_def max_def min_def split: option.split)
  next
    case DT_FIXED
    with assms show ?thesis
      by (auto simp: coupon_discount_def Let_def max_def min_def split: option.split)
  qed
qed

lemma coupon_discount_nonneg: "0 \<le> coupon_discount c subtotal"
  by (simp add: coupon_discount_def Let_def)

lemma find_active_coupon_returns:
  assumes "find_active_coupon env code w = (Inr row, v)"
  shows "v = w \<and> (\<forall>c. row = Some c \<longrightarrow> coupon_valid_now (now env) c \<and>
    filter (\<lambda>c. iexact (cpn_code c) (normalize_code code)) (g_coupons (growth w)) = [c])"
proof -
  let ?rows = "filter (\<lambda>c. iexact (cpn_code c) (normalize_code code)) (g_coupons (growth w))"
  consider "?rows = []" | c where "?rows = [c]" | c d cs where "?rows = c # d # cs"
    by (metis list.exhaust)
  then show ?thesis using assms by cases (auto simp: find_active_coupon_def split: if_splits)
qed

text \<open>What an accepted code went through; a refusal carries no discount.\<close>

lemma validate_coupon_returns:
  assumes "validate_coupon env code subtotal user w = (Inr r, v)"
  shows "v = w \<and> (case cr_coupon r of
      None \<Rightarrow> cr_discount r = 0
    | Some c \<Rightarrow> find_active_coupon env code w = (Inr (Some c), w) \<and> cpn_min_order c \<le> subtotal \<and>
        cr_discount r = coupon_discount c subtotal \<and> cr_error r = None \<and>
        (\<forall>u. user = Some u \<longrightarrow> uses_of (growth w) (cpn_id c) u < cpn_limit_per_user c \<and>
          (cpn_campaign c = CT_FIRST_ORDER \<longrightarrow> \<not> has_paid_order w u)))"
proof (cases "code = []")
  case True
  with assms show ?thesis by (auto simp: validate_coupon_def)
next
  case False
  obtain x u where found: "find_active_coupon env code w = (x, u)" by fastforce
  show ?thesis
  proof (cases x)
    case (Inl e)
    with assms False found show ?thesis by (simp add: validate_coupon_def run_bnd)
  next
    case (Inr row)
    with found have "u = w" using find_active_coupon_returns by blast
    with assms False found Inr show ?thesis
      by (cases row; cases user) (auto simp: validate_coupon_def run_bnd coupon_refused_def split: if_splits)
  qed
qed

lemma validate_coupon_nonneg:
  "validate_coupon env code s u w = (Inr r, v) \<Longrightarrow> 0 \<le> cr_discount r"
  by (drule validate_coupon_returns) (auto simp: coupon_discount_nonneg split: option.splits)

text \<open>
  C29: a coupon that checkout accepts has the given code up to case and spaces, is active and
  within its dates and its global limit, its minimum is reached, the customer has not used it as often
  as allowed, and a first-order coupon meets a customer without a paid order; the check changes nothing.
\<close>

theorem accepted_coupon_is_valid:
  assumes run: "validate_coupon env code subtotal user w = (Inr r, v)" and c: "cr_coupon r = Some c"
  shows "v = w \<and> c \<in> set (g_coupons (growth w)) \<and> iexact (cpn_code c) (normalize_code code) \<and>
    coupon_valid_now (now env) c \<and> cpn_min_order c \<le> subtotal \<and>
    cr_discount r = coupon_discount c subtotal \<and> cr_error r = None \<and>
    (\<forall>u. user = Some u \<longrightarrow> uses_of (growth w) (cpn_id c) u < cpn_limit_per_user c \<and>
      (cpn_campaign c = CT_FIRST_ORDER \<longrightarrow> \<not> has_paid_order w u))"
proof -
  from validate_coupon_returns [OF run] c have v: "v = w" and found: "find_active_coupon env code w = (Inr (Some c), w)"
    and rest: "cpn_min_order c \<le> subtotal" "cr_discount r = coupon_discount c subtotal" "cr_error r = None"
      "\<forall>u. user = Some u \<longrightarrow> uses_of (growth w) (cpn_id c) u < cpn_limit_per_user c \<and>
        (cpn_campaign c = CT_FIRST_ORDER \<longrightarrow> \<not> has_paid_order w u)"
    by auto
  from find_active_coupon_returns [OF found] have valid: "coupon_valid_now (now env) c"
    and "filter (\<lambda>c. iexact (cpn_code c) (normalize_code code)) (g_coupons (growth w)) = [c]" by auto
  then have "c \<in> set (filter (\<lambda>c. iexact (cpn_code c) (normalize_code code)) (g_coupons (growth w)))"
    by simp
  with v valid rest show ?thesis by simp
qed

section \<open>Promotion rules\<close>

text \<open>
  The reference: of the valid rules in their order, those with a positive discount, up to and
  including the first that is not for VIP customers.
\<close>

fun stop_after :: "('a \<Rightarrow> bool) \<Rightarrow> 'a list \<Rightarrow> 'a list" where
  "stop_after P [] = []"
| "stop_after P (x # xs) = x # (if P x then [] else stop_after P xs)"

definition offer :: "env \<Rightarrow> nat \<Rightarrow> nat option \<Rightarrow> money \<Rightarrow> world \<Rightarrow> promotion_rule \<Rightarrow> (promotion_rule \<times> money) option" where
  "offer env c user subtotal w r =
     (if rule_valid_now (now env) r then
        (case fst (apply_rule env r c user subtotal w) of
           Inr d \<Rightarrow> if 0 < d then Some (r, d) else None
         | Inl e \<Rightarrow> None)
      else None)"

definition plain_rule :: "promotion_rule \<times> money \<Rightarrow> bool" where
  "plain_rule rd \<longleftrightarrow> pr_type (fst rd) \<noteq> RT_VIP_DISCOUNT"

definition promotions :: "env \<Rightarrow> nat \<Rightarrow> nat option \<Rightarrow> money \<Rightarrow> world \<Rightarrow> (promotion_rule \<times> money) list" where
  "promotions env c user subtotal w =
     stop_after plain_rule (List.map_filter (offer env c user subtotal w) (ordered_rules (growth w)))"

lemma apply_rule_state: "apply_rule env r c user subtotal w = (x, v) \<Longrightarrow> v = w"
proof -
  assume run: "apply_rule env r c user subtotal w = (x, v)"
  have "keeps (\<lambda>u. u = w) (apply_rule env r c user subtotal)"
    unfolding apply_rule_def by (auto simp: Let_def intro!: keeps_intros split: rule_type.split)
  from keeps_run [OF this refl run] show ?thesis .
qed

lemma evaluate_rules_returns:
  assumes "evaluate_rules env c user subtotal rs acc w = (Inr res, v)"
  shows "v = w \<and> (let new = stop_after plain_rule (List.map_filter (offer env c user subtotal w) rs) in
    pm_applied res = pm_applied acc @ new \<and> pm_total res = pm_total acc + sum_list (map snd new))"
  using assms
proof (induction rs arbitrary: acc)
  case Nil
  then show ?case by (simp add: List.map_filter_simps)
next
  case (Cons r rs)
  show ?case
  proof (cases "rule_valid_now (now env) r")
    case False
    with Cons.prems Cons.IH [of acc] show ?thesis by (simp add: List.map_filter_simps offer_def)
  next
    case True
    obtain x u where x: "apply_rule env r c user subtotal w = (x, u)" by fastforce
    have u: "u = w" using apply_rule_state [OF x] .
    show ?thesis
    proof (cases x)
      case (Inl e)
      with Cons.prems True x show ?thesis by (simp add: run_bnd)
    next
      case (Inr d)
      let ?acc = "\<lparr>pm_total = pm_total acc + d, pm_applied = pm_applied acc @ [(r, d)]\<rparr>"
      have offer: "offer env c user subtotal w r = (if 0 < d then Some (r, d) else None)"
        using x Inr True by (simp add: offer_def)
      note prems = Cons.prems [simplified, unfolded Let_def] \<open>rule_valid_now (now env) r\<close> x Inr u
      show ?thesis
      proof (cases "d \<le> 0")
        case True
        with prems have "evaluate_rules env c user subtotal rs acc w = (Inr res, v)" by (simp add: run_bnd)
        with Cons.IH [of acc] True offer show ?thesis by (simp add: List.map_filter_simps)
      next
        case False
        show ?thesis
        proof (cases "pr_type r = RT_VIP_DISCOUNT")
          case True
          with prems False have "evaluate_rules env c user subtotal rs ?acc w = (Inr res, v)"
            by (simp add: run_bnd)
          with Cons.IH [of ?acc] True False offer show ?thesis
            by (simp add: List.map_filter_simps Let_def plain_rule_def)
        next
          case vip: False
          with prems False have "res = ?acc \<and> v = w" by (auto simp: run_bnd)
          with False vip offer show ?thesis by (simp add: List.map_filter_simps plain_rule_def)
        qed
      qed
    qed
  qed
qed

lemma evaluate_promotions_returns:
  assumes run: "evaluate_promotions env c user subtotal w = (Inr res, v)" and pos: "0 \<le> subtotal"
  shows "v = w \<and> pm_applied res = promotions env c user subtotal w \<and>
    pm_total res = min (sum_list (map snd (promotions env c user subtotal w))) subtotal \<and>
    0 \<le> pm_total res \<and> pm_total res \<le> subtotal \<and>
    (\<forall>rd\<in>set (butlast (pm_applied res)). pr_type (fst rd) = RT_VIP_DISCOUNT)"
proof -
  from run obtain r0 where "evaluate_rules env c user subtotal (ordered_rules (growth w))
      \<lparr>pm_total = 0, pm_applied = []\<rparr> w = (Inr r0, v)" and res: "res = r0\<lparr>pm_total := min (pm_total r0) subtotal\<rparr>"
    by (auto simp: evaluate_promotions_def bnd_returns)
  from evaluate_rules_returns [OF this(1)] have v: "v = w"
    and r0: "pm_applied r0 = promotions env c user subtotal w"
      "pm_total r0 = sum_list (map snd (promotions env c user subtotal w))"
    by (simp_all add: promotions_def Let_def)
  have only: "\<forall>x\<in>set (butlast (stop_after P xs)). \<not> P x" for P and xs :: "(promotion_rule \<times> money) list"
    by (induction xs) auto
  have sub: "set (stop_after P xs) \<subseteq> set xs" for P and xs :: "(promotion_rule \<times> money) list"
    by (induction xs) auto
  have "0 < snd rd" if "rd \<in> set (promotions env c user subtotal w)" for rd
    using that sub unfolding promotions_def
    by (fastforce simp: List.map_filter_def offer_def split: if_splits sum.splits)
  then have "0 \<le> sum_list (map snd (promotions env c user subtotal w))"
    by (intro sum_list_nonneg) (auto simp: less_imp_le)
  with v r0 res pos only [of plain_rule] show ?thesis
    by (auto simp: promotions_def plain_rule_def)
qed

text \<open>
  C30: the promotion of a cart is that of the reference, cut off at the subtotal; it changes no
  table, it is between nothing and the subtotal, and only its last rule can be one that is not for VIP
  customers.
\<close>

theorem promotions_match_reference:
  assumes run: "evaluate_promotions env c user subtotal w = (Inr res, v)" and pos: "0 \<le> subtotal"
  shows "v = w \<and> pm_applied res = promotions env c user subtotal w \<and>
    pm_total res = min (sum_list (map snd (promotions env c user subtotal w))) subtotal \<and>
    0 \<le> pm_total res \<and> pm_total res \<le> subtotal \<and>
    (\<forall>rd\<in>set (butlast (pm_applied res)). pr_type (fst rd) = RT_VIP_DISCOUNT)"
  using evaluate_promotions_returns [OF assms] .

lemma prepare_growth_returns:
  assumes run: "prepare_growth env c user cust subtotal w = (Inr ctx, v)" and pos: "0 \<le> subtotal"
  shows "v = w \<and> 0 \<le> gc_total_discount ctx \<and> gc_total_discount ctx \<le> subtotal \<and>
    0 \<le> gc_coupon_discount ctx \<and> 0 \<le> gc_promotion_discount ctx \<and> gc_promotion_discount ctx \<le> subtotal"
proof -
  from run obtain cr promo rc w1 w2 where
    1: "validate_coupon env (str_strip (first_nonempty (cu_coupon_code cust) (cart_coupon_code c))) subtotal user w = (Inr cr, w1)"
    and 2: "evaluate_promotions env (cart_id c) user subtotal w1 = (Inr promo, w2)"
    and 3: "(if str_strip (first_nonempty (cu_referral_code cust) (cart_referral_code c)) \<noteq> [] \<and> user \<noteq> None
       then validate_referral (str_strip (first_nonempty (cu_referral_code cust) (cart_referral_code c))) user
       else ret None) w2 = (Inr rc, v)"
    and ctx: "gc_coupon_discount ctx = cr_discount cr" "gc_promotion_discount ctx = pm_total promo"
      "gc_total_discount ctx = min subtotal (cr_discount cr + pm_total promo)"
    unfolding prepare_growth_def Let_def bnd_returns ret_returns by auto
  have "w1 = w" and "0 \<le> cr_discount cr"
    using validate_coupon_returns [OF 1] validate_coupon_nonneg [OF 1] by auto
  moreover from evaluate_promotions_returns [OF 2 pos] have "w2 = w1" "0 \<le> pm_total promo" "pm_total promo \<le> subtotal"
    by auto
  moreover have "keeps (\<lambda>u. u = w2) (validate_referral code user)" for code
    unfolding validate_referral_def find_referral_code_def
    by (intro keeps_intros) (auto intro!: keeps_intros split: list.split)
  then have "v = w2" using 3 by (auto split: if_splits dest: keeps_run)
  ultimately show ?thesis using ctx pos by auto
qed

text \<open>
  The discount that checkout takes off is never more than the subtotal and never negative,
  whatever coupon and rules are configured.
\<close>

theorem total_discount_bounds:
  assumes run: "prepare_growth env c user cust subtotal w = (Inr ctx, v)" and pos: "0 \<le> subtotal"
  shows "v = w \<and> 0 \<le> gc_total_discount ctx \<and> gc_total_discount ctx \<le> subtotal \<and>
    0 \<le> gc_coupon_discount ctx \<and> 0 \<le> gc_promotion_discount ctx \<and> gc_promotion_discount ctx \<le> subtotal"
  using prepare_growth_returns [OF assms] .

section \<open>Instances\<close>

lemma coupon_discount_bounds_witness:
  "0 \<le> coupon_discount demo_coupon 15000000 \<and> coupon_discount demo_coupon 15000000 \<le> 15000000 \<and>
   \<bar>10000 * coupon_discount demo_coupon 15000000 - 15000000 * 1000\<bar> \<le> 5000"
  using coupon_discount_bounds [of 15000000 demo_coupon] by (simp add: demo_coupon_def)

definition fresh_world :: world where
  "fresh_world = growth_world\<lparr>growth := empty_growth
     \<lparr>g_coupons := [demo_coupon\<lparr>cpn_usage_count := 0\<rparr>],
      g_rules := [\<lparr>pr_id = 1, pr_name = ''weekend'', pr_type = RT_WEEKEND_DISCOUNT,
        pr_config = \<lparr>cfg_weekdays = None, cfg_percent = None, cfg_tiers = None,
          cfg_category_slugs = None, cfg_buy_qty = None, cfg_buy_category_slugs = None,
          cfg_free_item_value = None\<rparr>, pr_priority = 5, pr_valid_from = None, pr_valid_until = None,
        pr_is_active = True\<rparr>]\<rparr>\<rparr>"

definition demo_cart :: cart where
  "demo_cart = \<lparr>cart_id = 4, cart_user = Some 5, cart_session_key = None, cart_coupon_code = '' ten'',
     cart_referral_code = [], cart_active_order = None\<rparr>"

definition demo_customer :: customer where
  "demo_customer = \<lparr>cu_email = [], cu_first_name = ''A'', cu_last_name = [], cu_phone = ''0912'',
     cu_address_line1 = [], cu_address_line2 = [], cu_city = [], cu_state = [], cu_postal_code = [],
     cu_country = [], cu_notes = [], cu_coupon_code = [], cu_referral_code = [],
     cu_payment_method = None, cu_delivery_type = None, cu_delivery_zone = None, cu_delivery_fee = None\<rparr>"

lemma demo_codes: "str_upper (str_strip ''ten'') = ''TEN''" "str_upper ''TEN'' = ''TEN''"
    "str_strip '' ten'' = ''ten''" "str_strip [] = []"
  by code_simp+

lemma demo_percent: "round_half_even 15000000000 10000 = 1500000"
  by code_simp

lemmas pricing_program = program shop_code growth_instances fresh_world_def demo_cart_def demo_customer_def
  demo_codes demo_percent coupon_valid_now_def rule_valid_now_def in_window_def evaluate_rules.simps

lemma accepted_coupon_is_valid_witness:
  "\<exists>r c. fst (validate_coupon demo_env ''ten'' 15000000 (Some 5) fresh_world) = Inr r \<and> cr_coupon r = Some c \<and>
    coupon_valid_now (now demo_env) c \<and> cpn_min_order c \<le> 15000000 \<and>
    cr_discount r = coupon_discount c 15000000 \<and> uses_of (growth fresh_world) (cpn_id c) 5 < cpn_limit_per_user c"
proof -
  let ?run = "validate_coupon demo_env ''ten'' 15000000 (Some 5) fresh_world"
  have "case fst ?run of Inr r \<Rightarrow> cr_coupon r \<noteq> None | Inl e \<Rightarrow> False"
    by (simp add: pricing_program cong: lazily split del: if_split)
  then obtain r c where r: "fst ?run = Inr r" and c: "cr_coupon r = Some c"
    by (auto split: sum.splits)
  from r have "?run = (Inr r, snd ?run)" by (metis prod.collapse)
  from accepted_coupon_is_valid [OF this c] r c show ?thesis by auto
qed

lemma promotions_match_reference_witness:
  "\<exists>res. fst (evaluate_promotions demo_env 4 None 15000000 fresh_world) = Inr res \<and>
    pm_applied res = promotions demo_env 4 None 15000000 fresh_world \<and> 0 \<le> pm_total res \<and>
    pm_total res \<le> 15000000"
proof -
  let ?run = "evaluate_promotions demo_env 4 None 15000000 fresh_world"
  have "\<not> isl (fst ?run)"
    by (simp add: pricing_program cong: lazily split del: if_split)
  then obtain res where "?run = (Inr res, snd ?run)" by (rule Inr_call)
  from promotions_match_reference [OF this] show ?thesis
    by (metis \<open>?run = (Inr res, snd ?run)\<close> fst_conv zero_le_numeral)
qed

lemma total_discount_bounds_witness:
  "\<exists>ctx. fst (prepare_growth demo_env demo_cart (Some 5) demo_customer 15000000 fresh_world) = Inr ctx \<and>
    0 \<le> gc_total_discount ctx \<and> gc_total_discount ctx \<le> 15000000"
proof -
  let ?run = "prepare_growth demo_env demo_cart (Some 5) demo_customer 15000000 fresh_world"
  have "\<not> isl (fst ?run)"
    by (simp add: pricing_program cong: lazily split del: if_split)
  then obtain ctx where "?run = (Inr ctx, snd ?run)" by (rule Inr_call)
  from total_discount_bounds [OF this] show ?thesis
    by (metis \<open>?run = (Inr ctx, snd ?run)\<close> fst_conv zero_le_numeral)
qed

end
