(* ===== verification/CheckoutProps.thy ===== *)
theory CheckoutProps
  imports GrowthProps
begin

text \<open>
  Properties of checkout: the daily order numbers, what an order costs and what its payment charges, and
  the checks that a cart with reservations of its own cannot pass.
\<close>

section \<open>Saving one order\<close>

lemma save_order_rows:
  assumes run: "save_order od copy w = (Inr u, v)" and ids: "\<And>r. ord_id (copy od r) = ord_id r"
  shows "order_row v k = map_option (\<lambda>r. if k = ord_id od then copy od r else r) (order_row w k) \<and>
    payments v = payments w \<and> next_pk v = next_pk w"
proof -
  have "find (\<lambda>r. ord_id r = k) (upd_rows (\<lambda>x. ord_id x = ord_id od) (copy od) rs) =
      map_option (\<lambda>r. if k = ord_id od then copy od r else r) (find (\<lambda>r. ord_id r = k) rs)" for rs
    using ids by (induction rs) auto
  moreover from save_order_run [OF run] run obtain t b where
    "v = w\<lparr>orders := upd_rows (\<lambda>x. ord_id x = ord_id od) (copy od) (orders w), task_logs := t, broker := b\<rparr>"
    by (auto simp: save_order_def split: option.splits)
  ultimately show ?thesis by (simp add: order_row_def)
qed

section \<open>Daily numbers\<close>

lemma next_sequence_above: "n \<in> set (sequences_on w d) \<Longrightarrow> n < next_sequence w d"
proof -
  assume n: "n \<in> set (sequences_on w d)"
  then have "n \<le> Max (set (sequences_on w d))" by simp
  moreover from n have "sequences_on w d \<noteq> []" by auto
  ultimately show ?thesis by (simp add: next_sequence_def Let_def)
qed

lemma next_sequence_start:
  assumes "\<forall>n\<in>set (sequences_on w d). 100 < n"
  shows "100 < next_sequence w d"
proof (cases "sequences_on w d = []")
  case False
  then have "Max (set (sequences_on w d)) \<in> set (sequences_on w d)" by simp
  with assms have "100 < Max (set (sequences_on w d))" by blast
  with False show ?thesis by (simp add: next_sequence_def Let_def)
qed (simp add: next_sequence_def)

lemma sequences_on_member:
  "y \<in> set (orders w) \<Longrightarrow> ord_daily_sequence_date y = Some d \<Longrightarrow> ord_daily_sequence y = Some n \<Longrightarrow>
   n \<in> set (sequences_on w d)"
  by (auto simp: sequences_on_def List.map_filter_def intro!: image_eqI [of _ _ y])

lemma allocate_sequence_run:
  assumes row: "order_row w k = Some x" and new: "\<not> has_sequence x"
  shows "\<exists>v. allocate_sequence (Suc n) k d w =
      (Inr (x\<lparr>ord_daily_sequence := Some (next_sequence w d), ord_daily_sequence_date := Some d\<rparr>), v) \<and>
    order_row v k = Some (x\<lparr>ord_daily_sequence := Some (next_sequence w d), ord_daily_sequence_date := Some d\<rparr>) \<and>
    (\<forall>j. j \<noteq> k \<longrightarrow> order_row v j = order_row w j) \<and> payments v = payments w \<and> next_pk v = next_pk w"
proof -
  let ?y = "x\<lparr>ord_daily_sequence := Some (next_sequence w d), ord_daily_sequence_date := Some d\<rparr>"
  have k: "ord_id x = k" using row by (auto simp: order_row_def dest: find_SomeD)
  have free: "\<not> (\<exists>z\<in>set (orders w). ord_id z \<noteq> k \<and> ord_daily_sequence_date z = Some d \<and>
      ord_daily_sequence z = Some (next_sequence w d))"
    using next_sequence_above sequences_on_member by fastforce
  obtain v where save: "save_order ?y f_daily_sequence w = (Inr (), v)"
    using run_save_order [of w ?y x f_daily_sequence] row k by auto
  have "allocate_sequence (Suc n) k d w = (Inr ?y, v)"
    using row new free save by (auto simp: get_order_def run Let_def)
  moreover have "order_row v k = Some ?y"
    using save_order_rows [OF save, of k] row k by (simp add: f_daily_sequence_def)
  moreover have "order_row v j = order_row w j \<and> payments v = payments w \<and> next_pk v = next_pk w" if "j \<noteq> k" for j
    using save_order_rows [OF save, of j] that k by (cases "order_row w j") (simp_all add: f_daily_sequence_def)
  moreover have "payments v = payments w \<and> next_pk v = next_pk w"
    using save_order_rows [OF save, of k] by (simp add: f_daily_sequence_def)
  ultimately show ?thesis by blast
qed

text \<open>
  C18: giving an order its number of the day always succeeds at the first attempt: the number is
  above those of all other orders of that local day, from 101 on, and is stored with the day on the
  order's row; no other row changes. An order that has a number keeps it.
\<close>

theorem daily_number_assigned:
  assumes row: "order_row w (ord_id od) = Some x" and same: "ord_daily_sequence x = ord_daily_sequence od"
    and start: "\<forall>n\<in>set (sequences_on w (local_date_of env (ord_created_at od))). 100 < n"
  shows "let d = local_date_of env (ord_created_at od) in
    \<exists>y v. assign_daily_sequence env od w = (Inr y, v) \<and>
      (if has_sequence od then y = od \<and> v = w
       else \<exists>n. ord_daily_sequence y = Some n \<and> ord_daily_sequence_date y = Some d \<and> 100 < n \<and>
         (\<forall>z\<in>set (orders w). ord_daily_sequence_date z = Some d \<longrightarrow>
           (\<forall>m. ord_daily_sequence z = Some m \<longrightarrow> m < n)) \<and>
         order_row v (ord_id od) = Some y \<and> (\<forall>j. j \<noteq> ord_id od \<longrightarrow> order_row v j = order_row w j))"
proof (cases "has_sequence od")
  case True
  then show ?thesis by (simp add: assign_daily_sequence_def run_atomic Let_def)
next
  case False
  let ?d = "local_date_of env (ord_created_at od)"
  have "\<not> has_sequence x" using False same by (simp add: has_sequence_def)
  from allocate_sequence_run [OF row this, of 4 ?d] obtain v where
    "allocate_sequence 5 (ord_id od) ?d w =
      (Inr (x\<lparr>ord_daily_sequence := Some (next_sequence w ?d), ord_daily_sequence_date := Some ?d\<rparr>), v)"
    "order_row v (ord_id od) = Some (x\<lparr>ord_daily_sequence := Some (next_sequence w ?d), ord_daily_sequence_date := Some ?d\<rparr>)"
    "\<forall>j. j \<noteq> ord_id od \<longrightarrow> order_row v j = order_row w j"
    by (auto simp: eval_nat_numeral)
  then show ?thesis
    using False next_sequence_start [OF start] next_sequence_above sequences_on_member
    by (fastforce simp: assign_daily_sequence_def run_atomic Let_def)
qed

section \<open>A cart blocked by its own reservations\<close>

lemma for_each_returns_step:
  assumes "for_each xs f w = (Inr u, v)" and "x \<in> set xs" and "I w" and "\<And>y. keeps I (f y)"
  shows "\<exists>s t. I s \<and> f x s = (Inr (), t)"
  using assms
proof (induction xs arbitrary: w)
  case (Cons y ys)
  then obtain s where y: "f y w = (Inr (), s)" and ys: "for_each ys f s = (Inr u, v)" by (auto simp: returns)
  with Cons.prems Cons.IH [OF ys] keeps_run [OF Cons.prems(4) Cons.prems(3) y] show ?case by auto
qed simp

abbreviation inventory_is :: "nat \<Rightarrow> inventory \<Rightarrow> world \<Rightarrow> bool" where
  "inventory_is p i w \<equiv> inventories w p = Some i"

lemma keeps_inventory_is: "keeps (inventory_is p i) (check_item_stock x)"
proof -
  have "keeps (inventory_is p i) (get_or_create_inventory q)" for q
    by (rule keepsI) (auto simp: get_or_create_inventory_def run split: option.split)
  then show ?thesis
    unfolding check_item_stock_def check_cart_availability_def
    by (cases x) (auto intro!: keeps_intros)
qed

lemma check_item_stock_short:
  assumes "inventories w (prod_id pr) = Some i" and "inv_track_stock i"
    and "available_quantity i < ci_quantity x"
  shows "check_item_stock (x, pr) w \<noteq> (Inr (), t)"
  using assms by (simp add: check_item_stock_def check_cart_availability_def get_or_create_inventory_def run
      raise_if_def split: if_splits)

lemma create_order_checks:
  assumes "create_order_from_cart env ct (Some items) cust u st pst w = (Inr od, v)"
  shows "\<exists>s. validate_cart_items items w = (Inr (), s)"
  using assms by (auto simp: create_order_from_cart_def returns)

lemma try_abort_returns:
  assumes "\<And>e. aborts (h e)" and "try_except m h w = (Inr x, v)"
  shows "m w = (Inr x, v)"
  using assms by (cases "m w"; cases "fst (m w)") (auto simp: try_except_returns aborts_def)

lemma attempt_returns:
  assumes "\<And>e. aborts (g e)"
    and "bnd (try_except (bnd m (\<lambda>x. ret (Inr x))) (\<lambda>e. ret (Inl e)))
      (\<lambda>r. case r of Inl e \<Rightarrow> g e | Inr x \<Rightarrow> f x) w = (Inr y, v)"
  shows "\<exists>x u. m w = (Inr x, u) \<and> f x u = (Inr y, v)"
proof (cases "m w")
  case (Pair r u)
  with assms show ?thesis by (cases r) (auto simp: run_bnd run_try_except aborts_def)
qed

lemma checkout_cart_returns:
  assumes run: "checkout_cart env ct items cust user w = (Inr r, v)"
  obtains ctx od0 s1 od1 s2 p s3 where
    "prepare_growth env ct user cust (calculate_subtotal items) w = (Inr ctx, w)"
    "create_order_from_cart env ct (Some items) (online_details cust) user None None w = (Inr od0, s1)"
    "place_order env ct od0 ctx user s1 = (Inr od1, s2)"
    "start_payment env (ct\<lparr>cart_active_order := Some (ord_id od0)\<rparr>) od1 s2 = (Inr p, s3)"
    "co_order r = od1\<lparr>ord_payment_status := PS_PENDING_PAYMENT, ord_status := S_PENDING_PAYMENT\<rparr>"
    "co_payment r = Some p" "save_order (co_order r) f_both_statuses s3 = (Inr (), v)"
proof -
  from run obtain ctx w1 where 1: "prepare_growth env ct user cust (calculate_subtotal items) w = (Inr ctx, w1)"
    and 2: "bnd (try_except (bnd (create_order_from_cart env ct (Some items) (online_details cust) user None None)
          (\<lambda>od. ret (Inr od))) (\<lambda>e. ret (Inl e))) (\<lambda>created. case created of
        Inl e \<Rightarrow> fail_checkout env ct None (StrOf e)
      | Inr od0 \<Rightarrow>
          let locked = ct\<lparr>cart_active_order := Some (ord_id od0)\<rparr> in
          bnd (try_except (place_order env ct od0 ctx user)
                 (\<lambda>e. fail_checkout env locked (Some (ord_id od0)) (StrOf e))) (\<lambda>od.
          bnd (start_payment env locked od) (\<lambda>p.
          let od' = od\<lparr>ord_payment_status := PS_PENDING_PAYMENT, ord_status := S_PENDING_PAYMENT\<rparr> in
          bnd (save_order od' f_both_statuses) (\<lambda>_.
          ret \<lparr>co_order = od', co_payment = Some p, co_method = PM_ONLINE,
               co_url = Some (pay_checkout_url p)\<rparr>)))) w1 = (Inr r, v)"
    unfolding checkout_cart_def require_items_def require_phone_def
    by (auto simp: bnd_returns [of "prepare_growth env ct user cust (calculate_subtotal items)"]
        bnd_returns [of "raise_if c e" for c e] raise_if_returns bnd_returns [of "case x of Some m \<Rightarrow> raise (e m) | None \<Rightarrow> ret ()" for x e]
        raise_returns ret_returns split: option.splits)
  have "w1 = w" by (rule keeps_run [OF orders_frame.keeps_prepare refl 1])
  moreover from attempt_returns [OF aborts_fail_checkout 2] obtain od0 s1 where
    3: "create_order_from_cart env ct (Some items) (online_details cust) user None None w1 = (Inr od0, s1)"
    and 4: "bnd (try_except (place_order env ct od0 ctx user)
        (\<lambda>e. fail_checkout env (ct\<lparr>cart_active_order := Some (ord_id od0)\<rparr>) (Some (ord_id od0)) (StrOf e))) (\<lambda>od.
      bnd (start_payment env (ct\<lparr>cart_active_order := Some (ord_id od0)\<rparr>) od) (\<lambda>p.
      bnd (save_order (od\<lparr>ord_payment_status := PS_PENDING_PAYMENT, ord_status := S_PENDING_PAYMENT\<rparr>) f_both_statuses)
       (\<lambda>_. ret \<lparr>co_order = od\<lparr>ord_payment_status := PS_PENDING_PAYMENT, ord_status := S_PENDING_PAYMENT\<rparr>,
          co_payment = Some p, co_method = PM_ONLINE, co_url = Some (pay_checkout_url p)\<rparr>))) s1 = (Inr r, v)"
    by (auto simp: Let_def)
  from 4 obtain od1 s2 p s3 where
    5: "try_except (place_order env ct od0 ctx user) (\<lambda>e. fail_checkout env
      (ct\<lparr>cart_active_order := Some (ord_id od0)\<rparr>) (Some (ord_id od0)) (StrOf e)) s1 = (Inr od1, s2)"
    and 6: "start_payment env (ct\<lparr>cart_active_order := Some (ord_id od0)\<rparr>) od1 s2 = (Inr p, s3)"
    and 7: "save_order (od1\<lparr>ord_payment_status := PS_PENDING_PAYMENT, ord_status := S_PENDING_PAYMENT\<rparr>)
      f_both_statuses s3 = (Inr (), v)"
    and r: "r = \<lparr>co_order = od1\<lparr>ord_payment_status := PS_PENDING_PAYMENT, ord_status := S_PENDING_PAYMENT\<rparr>,
      co_payment = Some p, co_method = PM_ONLINE, co_url = Some (pay_checkout_url p)\<rparr>"
    by (auto simp: bnd_returns ret_returns)
  from try_abort_returns [OF aborts_fail_checkout 5] that 1 3 6 7 r calculation show thesis by simp
qed

text \<open>The rows of the cart are only read.\<close>

lemma lock_cart_state: "lock_cart_for_checkout c w = (x, v) \<Longrightarrow> v = w"
proof -
  assume run: "lock_cart_for_checkout c w = (x, v)"
  have "keeps (\<lambda>u. u = w) (lock_cart_for_checkout c)"
    unfolding lock_cart_for_checkout_def with_product_def get_product_def get_cart_def
    by (intro keeps_intros)
  from keeps_run [OF this refl run] show ?thesis .
qed

text \<open>
  A cart reserves its items while it is filled, and the check of the cart itself counts those units
  as available; the check at checkout does not. When the stock that nobody holds is less than the
  quantity of an item, the cart's own check accepts the item but every checkout of the cart fails.
\<close>

theorem own_reservation_blocks_checkout:
  assumes lock: "lock_cart_for_checkout c w = (Inr (ct, items), w)" and idle: "cart_active_order ct = None"
    and item: "(x, pr) \<in> set items" and avail: "is_available pr"
    and row: "inventories w (prod_id pr) = Some i" "inv_track_stock i"
    and mine: "ci_quantity x \<le> available_quantity i +
      sum_where res_quantity (active_for_cart c (prod_id pr)) (reservations w)"
    and short: "available_quantity i < ci_quantity x"
  shows "check_cart_availability pr (ci_quantity x) (Some c) w = (Inr (), w) \<and>
    (\<forall>r v. process_checkout env c cust user w \<noteq> (Inr r, v))"
proof
  show "check_cart_availability pr (ci_quantity x) (Some c) w = (Inr (), w)"
    using avail row mine by (simp add: check_cart_availability_def get_or_create_inventory_def run)
  show "\<forall>r v. process_checkout env c cust user w \<noteq> (Inr r, v)"
  proof (intro allI notI)
    fix r v assume "process_checkout env c cust user w = (Inr r, v)"
    with lock idle have "checkout_cart env ct items cust user w = (Inr r, v)"
      by (simp add: process_checkout_def run_atomic run_bnd resolve_in_progress_checkout_def
          split: prod.splits sum.splits)
    then obtain od s where "create_order_from_cart env ct (Some items) (online_details cust) user None None w = (Inr od, s)"
      by (rule checkout_cart_returns)
    from create_order_checks [OF this] obtain s where "validate_cart_items items w = (Inr (), s)" ..
    then obtain s1 where "for_each items check_item_stock w = (Inr (), s1)"
      by (auto simp: validate_cart_items_def returns)
    from for_each_returns_step [OF this item _ keeps_inventory_is, of "prod_id pr" i] row(1)
    obtain s2 t where "inventories s2 (prod_id pr) = Some i" "check_item_stock (x, pr) s2 = (Inr (), t)" by blast
    with check_item_stock_short row(2) short show False by blast
  qed
qed

section \<open>What an order costs and what its payment charges\<close>

definition new_ids :: "world \<Rightarrow> bool" where
  "new_ids w \<longleftrightarrow> (\<forall>x\<in>set (orders w). ord_id x < next_pk w)"

lemma insert_order_rows:
  assumes run: "insert_order od w = (Inr u, v)" and new: "order_row w (ord_id od) = None"
  shows "order_row v (ord_id od) = Some od \<and> payments v = payments w"
proof -
  obtain t b where "emit_order_lifecycle_events od True None None (w\<lparr>orders := orders w @ [od]\<rparr>) =
      (Inr (), (w\<lparr>orders := orders w @ [od]\<rparr>)\<lparr>task_logs := t, broker := broker (w\<lparr>orders := orders w @ [od]\<rparr>) @ b\<rparr>)"
    using run_emit by blast
  with assms show ?thesis by (auto simp: insert_order_def run order_row_def find_append)
qed

lemma validate_items_tables:
  "keeps (\<lambda>s. orders s = os \<and> payments s = ps \<and> next_pk s = n) (validate_cart_items items)"
proof -
  have "keeps (\<lambda>s. orders s = os \<and> payments s = ps \<and> next_pk s = n) (get_or_create_inventory q)" for q
    by (rule keepsI) (auto simp: get_or_create_inventory_def run split: option.split)
  then show ?thesis
    unfolding validate_cart_items_def check_item_stock_def check_cart_availability_def
    by (auto intro!: keeps_intros)
qed

lemma keeps_row_items:
  "keeps (\<lambda>s. order_row s k = x \<and> payments s = ps) (for_each items (create_order_item j))"
  unfolding create_order_item_def
  by (intro keeps_intros keeps_modifies; auto simp: order_row_def run intro!: keepsI keeps_intros keeps_modifies)

lemma create_order_returns:
  assumes run: "create_order_from_cart env ct (Some items) cust user st pst w = (Inr od, v)" and ids: "new_ids w"
  shows "ord_id od = next_pk w \<and> order_row v (ord_id od) = Some od \<and> payments v = payments w \<and>
    ord_subtotal od = calculate_subtotal items \<and> ord_total od = calculate_subtotal items + ord_delivery_fee od \<and>
    ord_payment_status od = or_default PS_PENDING_PAYMENT pst \<and>
    (cu_delivery_type cust = Some FT_PICKUP \<longrightarrow> ord_delivery_fee od = 0)"
proof -
  let ?k = "next_pk w"
  let ?new = "\<lambda>number. new_order env ?k number ct cust user st pst"
  let ?priced = "\<lambda>number. (?new number)\<lparr>ord_subtotal := calculate_subtotal items,
    ord_total := calculate_subtotal items + ord_delivery_fee (?new number)\<rparr>"
  from run obtain w1 number w2 k w3 w4 w5 w6 where 1: "validate_cart_items items w = (Inr (), w1)"
    and 2: "generate_order_number env w1 = (Inr number, w2)" and 3: "fresh_pk w2 = (Inr k, w3)"
    and 4: "insert_order (new_order env k number ct cust user st pst) w3 = (Inr (), w4)"
    and 5: "for_each items (create_order_item k) w4 = (Inr (), w5)"
    and 6: "save_order ((new_order env k number ct cust user st pst)\<lparr>ord_subtotal := calculate_subtotal items,
      ord_total := calculate_subtotal items + ord_delivery_fee (new_order env k number ct cust user st pst)\<rparr>)
      f_totals w5 = (Inr (), w6)"
    and 7: "assign_daily_sequence env ((new_order env k number ct cust user st pst)\<lparr>ord_subtotal := calculate_subtotal items,
      ord_total := calculate_subtotal items + ord_delivery_fee (new_order env k number ct cust user st pst)\<rparr>) w6 =
      (Inr od, v)"
    unfolding create_order_from_cart_def by (auto simp: returns Let_def)
  from keeps_run [OF validate_items_tables _ 1, of "orders w" "payments w" "next_pk w"]
  have w1: "orders w1 = orders w" "payments w1 = payments w" "next_pk w1 = next_pk w" by auto
  have w2: "w2 = w1" using 2 by (auto simp: generate_order_number_def returns)
  with 3 w1 have k: "k = ?k" "orders w3 = orders w" "payments w3 = payments w"
    by (auto simp: run_fresh_pk)
  have "order_row w3 ?k = None" using ids k by (auto simp: order_row_def find_None_iff new_ids_def)
  with insert_order_rows [OF 4] k have "order_row w4 ?k = Some (?new number) \<and> payments w4 = payments w"
    by (simp add: new_order_def Let_def)
  from keeps_run [OF keeps_row_items this 5] have w5: "order_row w5 ?k = Some (?new number)" "payments w5 = payments w"
    by auto
  have id: "ord_id (?new number) = ?k" by (simp add: new_order_def Let_def)
  from save_order_rows [OF 6, of ?k] w5 id k
  have w6: "order_row w6 ?k = Some (?priced number)" "payments w6 = payments w"
    by (simp_all add: f_totals_def)
  have fresh: "\<not> has_sequence (?priced number)" by (simp add: has_sequence_def new_order_def Let_def)
  from allocate_sequence_run [OF w6(1) fresh, of 4 "local_date_of env (ord_created_at (?priced number))"] 7 fresh k id
  obtain s d where "od = (?priced number)\<lparr>ord_daily_sequence := Some s, ord_daily_sequence_date := Some d\<rparr>"
    and "order_row v ?k = Some od" and "payments v = payments w6"
    by (auto simp: assign_daily_sequence_def run_atomic eval_nat_numeral)
  with w6 id show ?thesis by (simp add: new_order_def Let_def or_default_def)
qed

lemma initiate_online_charges:
  assumes run: "initiate_online env prov k w = (Inr p, v)" and row: "order_row w k = Some x"
  shows "pay_order p = k \<and> pay_amount p = ord_total x"
proof -
  have id: "ord_id x = k" using row by (auto simp: order_row_def dest: find_SomeD)
  from run row obtain pr u e u' where
    "(case e of Some q \<Rightarrow> bnd (raise_if (pay_amount q \<noteq> ord_total x) (Exn PaymentAmountMismatchError (Text
          ''Pending Zarinpal payment amount does not match the current order total.''))) (\<lambda>_.
        bnd (raise_if (str_lower (pay_currency q) \<noteq> str_lower (online_payment_currency env))
          (Exn PaymentConfigurationError (Text ''Pending Zarinpal payment currency is invalid.''))) (\<lambda>_. ret q))
      | None \<Rightarrow> open_checkout env pr x (str_lower (online_payment_currency env))) u' = (Inr p, v)"
    and e: "(if provider_name pr = PV_ZARINPAL then get_reusable_zarinpal_payment k else ret None) u = (Inr e, u')"
    unfolding initiate_online_def get_order_def
    by (auto simp: returns Let_def simp del: whenever_returns)
  then show ?thesis
  proof (cases e)
    case None
    with \<open>(case e of Some q \<Rightarrow> _ q | None \<Rightarrow> _) u' = _\<close> id show ?thesis
      by (auto simp: open_checkout_def create_payment_def open_session_def returns Let_def)
  next
    case (Some q)
    with e have "pay_order q = k"
      by (auto simp: get_reusable_zarinpal_payment_def returns dest!: latest_SomeD split: if_splits option.splits)
    with Some \<open>(case e of Some q \<Rightarrow> _ q | None \<Rightarrow> _) u' = _\<close> show ?thesis by (auto simp: returns)
  qed
qed

text \<open>Moving the holds of the cart to the order does not touch its price.\<close>

definition charged :: "nat \<Rightarrow> money \<Rightarrow> world \<Rightarrow> bool" where
  "charged k amount w \<longleftrightarrow> (\<exists>x. order_row w k = Some x \<and> ord_total x = amount)"

lemma charged_tables [simp]:
  "charged k T (w\<lparr>carts := cs\<rparr>) = charged k T w" "charged k T (w\<lparr>cart_items := cis\<rparr>) = charged k T w"
  "charged k T (w\<lparr>order_items := ois\<rparr>) = charged k T w" "charged k T (w\<lparr>growth := g\<rparr>) = charged k T w"
  "charged k T (w\<lparr>next_pk := n\<rparr>) = charged k T w" "charged k T (w\<lparr>broker := b\<rparr>) = charged k T w"
  by (simp_all add: charged_def order_row_def)

interpretation charged: stock_frame "charged k T" for k T
  by unfold_locales (simp_all add: of_tables_def charged_def order_row_def)

interpretation charged_growth: growth_frame "charged k T" for k T
  by unfold_locales (simp_all add: charged.frame_of_tables)

lemma keeps_charged_save:
  assumes "\<And>r. ord_id (copy od r) = ord_id r" and "\<And>r. ord_total (copy od r) = ord_total r"
  shows "keeps (charged k T) (save_order od copy)"
proof (rule keepsI)
  fix w assume w: "charged k T w"
  obtain r v where run: "save_order od copy w = (r, v)" by fastforce
  show "charged k T (snd (save_order od copy w))"
  proof (cases r)
    case (Inr u)
    from save_order_rows [OF run [unfolded Inr] assms(1), of k] w assms(2) run show ?thesis
      by (auto simp: charged_def)
  qed (use save_order_run [OF run] w run in auto)
qed

lemma keeps_charged_sync: "keeps (charged k T) (sync_abandoned_cart_tracker env c)"
  unfolding sync_abandoned_cart_tracker_def
  by (intro keeps_intros charged_growth.keeps_put_tracker charged_growth.keeps_put_tracker_of
      charged_growth.keeps_next_pk)

lemma keeps_charged_set_active: "keeps (charged k T) (set_active_checkout_order env c j)"
  unfolding set_active_checkout_order_def save_cart_def
  by (intro keeps_intros keeps_modifies keeps_charged_sync) simp_all

lemma keeps_charged_reserve_item: "keeps (charged k T) (reserve_item env od pr n ct m)"
proof -
  have scan: "keeps (charged k T) (scan_days p n i d js)" for p i d js
    by (induction js) (simp_all only: scan_days.simps, (intro keeps_intros charged.keeps_capacity | assumption)+)
  have find: "keeps (charged k T) (find_fulfillment_date env pr n d)" for d
    unfolding find_fulfillment_date_def by (intro keeps_intros scan charged.keeps_inventory)
  show ?thesis
    unfolding reserve_item_def add_reserved_units_def add_reserved_quantity_def create_reservation_def
    by (intro keeps_intros find charged.keeps_inventory charged.keeps_capacity charged_growth.keeps_next_pk
        charged.keeps_write keeps_check_positive; simp add: charged.stock_frames)
qed

lemma finalize_checkout_stock_charges:
  "keeps (charged k T) (finalize_checkout_stock env c od)"
  unfolding finalize_checkout_stock_def release_cart_reservations_def reserve_for_order_def clear_cart_def
    delete_items_def reserve_order_item_def get_product_def set_item_date_def Let_def
  by (intro keeps_atomic [OF charged.frame_of_tables] keeps_intros charged.keeps_query charged.keeps_release_single
      keeps_charged_reserve_item keeps_charged_save keeps_charged_sync keeps_modifies; simp add: f_fulfillment_date_def)

lemma apply_to_order_returns:
  assumes run: "apply_to_order od ctx user w = (Inr od', v)" and row: "order_row w (ord_id od) = Some x"
  shows "(\<exists>s. od' = (discounted ctx od)\<lparr>ord_notes := s\<rparr>) \<and> charged (ord_id od) (ord_total (discounted ctx od)) v"
proof -
  let ?T = "ord_total (discounted ctx od)"
  have "gc_error ctx = None"
  proof (cases "gc_error ctx")
    case (Some m)
    with run show ?thesis by (simp add: apply_to_order_def raise_returns)
  qed
  with run obtain w1 u w2 u' where 1: "save_order (discounted ctx od) f_growth w = (Inr u, w1)"
    and 2: "(case gc_referral ctx of
        Some rc \<Rightarrow> whenever (user \<noteq> None) (bnd (attach_pending_referral (discounted ctx od) rc) (\<lambda>_. ret ()))
      | None \<Rightarrow> ret ()) w1 = (Inr u', w2)"
    and 3: "(if promo_note ctx \<noteq> [] \<and> \<not> occurs_in (promo_note ctx) (ord_notes od) then
       let od' = (discounted ctx od)\<lparr>ord_notes := ord_notes od @ promo_note ctx\<rparr> in
       bnd (save_order od' f_notes) (\<lambda>_. ret od')
     else ret (discounted ctx od)) w2 = (Inr od', v)"
    unfolding apply_to_order_def by (simp only: atomic_Inr option.case bnd_returns) blast
  have w1: "charged (ord_id od) ?T w1"
    using save_order_rows [OF 1, of "ord_id od"] row by (simp add: f_growth_def charged_def discounted_def)
  have "keeps (charged (ord_id od) ?T) (case gc_referral ctx of
      Some rc \<Rightarrow> whenever (user \<noteq> None) (bnd (attach_pending_referral (discounted ctx od) rc) (\<lambda>_. ret ()))
    | None \<Rightarrow> ret ())"
    by (intro keeps_intros charged_growth.keeps_attach)
  from keeps_run [OF this w1 2] have w2: "charged (ord_id od) ?T w2" .
  show ?thesis
  proof (cases "promo_note ctx \<noteq> [] \<and> \<not> occurs_in (promo_note ctx) (ord_notes od)")
    case True
    let ?od = "(discounted ctx od)\<lparr>ord_notes := ord_notes od @ promo_note ctx\<rparr>"
    from 3 True have "save_order ?od f_notes w2 = (Inr (), v)" and od': "od' = ?od"
      by (auto simp: Let_def bnd_returns ret_returns)
    from keeps_run [OF keeps_charged_save w2 this(1)] od' show ?thesis by (auto simp: f_notes_def)
  next
    case False
    with 3 have "od' = (discounted ctx od)\<lparr>ord_notes := ord_notes (discounted ctx od)\<rparr>" "v = w2"
      by (auto simp: ret_returns)
    with w2 show ?thesis by blast
  qed
qed

lemma place_order_returns:
  assumes run: "place_order env c od ctx user w = (Inr od', v)" and row: "order_row w (ord_id od) = Some od"
  shows "ord_id od' = ord_id od \<and> ord_subtotal od' = ord_subtotal od \<and>
    ord_total od' = ord_total (discounted ctx od) \<and> ord_discount od' = gc_coupon_discount ctx \<and>
    charged (ord_id od) (ord_total od') v"
proof -
  from run obtain c' w1 od1 w2 where 1: "set_active_checkout_order env c (ord_id od) w = (Inr c', w1)"
    and 2: "apply_to_order od ctx user w1 = (Inr od1, w2)" and 3: "finalize_checkout_stock env c' od1 w2 = (Inr od', v)"
    by (auto simp: place_order_def bnd_returns)
  from row have "charged (ord_id od) (ord_total od) w" by (simp add: charged_def)
  from keeps_run [OF keeps_charged_set_active this 1] obtain x where "order_row w1 (ord_id od) = Some x"
    by (auto simp: charged_def)
  from apply_to_order_returns [OF 2 this] obtain s where od1: "od1 = (discounted ctx od)\<lparr>ord_notes := s\<rparr>"
    and w2: "charged (ord_id od) (ord_total (discounted ctx od)) w2" by blast
  from 3 obtain d where "od' = od1\<lparr>ord_fulfillment_date := d\<rparr>"
    by (auto simp: finalize_checkout_stock_def reserve_for_order_def returns Let_def)
  with od1 keeps_run [OF finalize_checkout_stock_charges w2 3] show ?thesis
    by (simp add: discounted_def)
qed

lemma start_payment_returns:
  assumes "start_payment env c od w = (Inr p, v)"
  shows "initiate_online env get_online_payment_provider (ord_id od) w = (Inr p, v)"
  using assms unfolding start_payment_def
  by (rule try_abort_returns [rotated]) (auto intro: aborts_fail_checkout aborts_raise)

text \<open>
  C5: a checkout that starts an online payment prices the order as its lines less the discount of the
  coupon and the promotions, which is never negative and never more than the lines, and the payment
  belongs to that order and asks for exactly its total.
\<close>

theorem checkout_charges_discounted_total:
  assumes run: "process_checkout env c cust user w = (Inr r, v)"
    and lock: "lock_cart_for_checkout c w = (Inr (ct, items), w)" and idle: "cart_active_order ct = None"
    and ids: "new_ids w" and pos: "0 \<le> calculate_subtotal items"
  shows "\<exists>ctx p. prepare_growth env ct user cust (calculate_subtotal items) w = (Inr ctx, w) \<and>
    ord_subtotal (co_order r) = calculate_subtotal items \<and>
    ord_total (co_order r) = calculate_subtotal items - gc_total_discount ctx \<and>
    0 \<le> ord_total (co_order r) \<and> ord_total (co_order r) \<le> calculate_subtotal items \<and>
    co_payment r = Some p \<and> pay_order p = ord_id (co_order r) \<and> pay_amount p = ord_total (co_order r)"
proof -
  from run lock idle have "checkout_cart env ct items cust user w = (Inr r, v)"
    by (simp add: process_checkout_def run_atomic run_bnd resolve_in_progress_checkout_def
        split: prod.splits sum.splits)
  then obtain ctx od0 s1 od1 s2 p s3 where
    1: "prepare_growth env ct user cust (calculate_subtotal items) w = (Inr ctx, w)"
    and 2: "create_order_from_cart env ct (Some items) (online_details cust) user None None w = (Inr od0, s1)"
    and 3: "place_order env ct od0 ctx user s1 = (Inr od1, s2)"
    and 4: "start_payment env (ct\<lparr>cart_active_order := Some (ord_id od0)\<rparr>) od1 s2 = (Inr p, s3)"
    and r: "co_order r = od1\<lparr>ord_payment_status := PS_PENDING_PAYMENT, ord_status := S_PENDING_PAYMENT\<rparr>"
      "co_payment r = Some p" by (rule checkout_cart_returns)
  from create_order_returns [OF 2 ids] have od0: "order_row s1 (ord_id od0) = Some od0"
    "ord_subtotal od0 = calculate_subtotal items" "ord_delivery_fee od0 = 0" by (auto simp: online_details_def)
  from place_order_returns [OF 3 od0(1)] obtain x where od1: "ord_id od1 = ord_id od0"
    "ord_subtotal od1 = ord_subtotal od0" "ord_total od1 = ord_total (discounted ctx od0)"
    and x: "order_row s2 (ord_id od1) = Some x" "ord_total x = ord_total od1" by (auto simp: charged_def)
  from initiate_online_charges [OF start_payment_returns [OF 4] x(1)] x(2)
  have "pay_order p = ord_id od1 \<and> pay_amount p = ord_total od1" by simp
  with 1 r od0 od1 prepare_growth_returns [OF 1 pos] show ?thesis
    by (auto simp: discounted_def)
qed

section \<open>The message about a new order\<close>

definition creation_message :: "order \<Rightarrow> world \<Rightarrow> task_message" where
  "creation_message od w = \<lparr>msg_task = lifecycle_task,
     msg_key = LifecycleKey (ord_id od) None (ord_payment_status od) None (ord_status od) [''order_created''],
     msg_queue = ''orders'', msg_args = Lifecycle_Args (ord_id od)
       [SmsEvent ''order_created'' (resolve_phone w od) (base_context od) (ord_user od) (ord_id od)]\<rparr>"

lemma insert_order_sends:
  assumes "ord_phone od \<noteq> []" and "\<forall>l\<in>set (task_logs w). tl_key l \<noteq> msg_key (creation_message od w)"
  shows "\<exists>v. insert_order od w = (Inr (), v) \<and> broker v = broker w @ [creation_message od w]"
proof -
  let ?w = "w\<lparr>orders := orders w @ [od]\<rparr>"
  have phone: "resolve_phone ?w od = ord_phone od" "resolve_phone w od = ord_phone od"
    using assms(1) by (simp_all add: resolve_phone_def)
  have events: "build_order_lifecycle_events ?w od True None None =
      [SmsEvent ''order_created'' (ord_phone od) (base_context od) (ord_user od) (ord_id od)]"
    using assms(1) by (simp add: build_order_lifecycle_events_def phone sms_event_def Let_def)
  have "find (\<lambda>l. tl_key l = msg_key (creation_message od w)) (task_logs w) = None"
    using assms(2) by (auto simp: find_None_iff)
  then show ?thesis
    by (simp add: insert_order_def emit_order_lifecycle_events_def apply_idempotent_task_def run run_claim
        events idempotency_key_def creation_message_def phone)
qed

lemma keeps_sent_save: "keeps (\<lambda>s. m \<in> set (broker s)) (save_order od copy)"
proof (rule keepsI)
  fix w :: world assume "m \<in> set (broker w)"
  moreover obtain r v where run: "save_order od copy w = (r, v)" by fastforce
  ultimately show "m \<in> set (broker (snd (save_order od copy w)))" using save_order_run [OF run] by auto
qed

text \<open>
  The message about a new order is sent when its row is inserted, before its lines are
  added: the SMS that tells the customer the total of the order says zero, whatever the order costs.
\<close>

theorem order_created_message_says_zero:
  assumes run: "create_order_from_cart env ct (Some items) cust user st pst w = (Inr od, v)"
    and phone: "cu_phone cust \<noteq> []"
    and new: "\<forall>l\<in>set (task_logs w). \<forall>k pp p ps s es. tl_key l = LifecycleKey k pp p ps s es \<longrightarrow> k \<noteq> next_pk w"
  shows "\<exists>m\<in>set (broker v). \<exists>ctx. ctx_total ctx = 0 \<and> msg_args m = Lifecycle_Args (next_pk w)
    [SmsEvent ''order_created'' (cu_phone cust) ctx (if user \<noteq> None then user else cart_user ct) (next_pk w)]"
proof -
  let ?new = "\<lambda>number. new_order env (next_pk w) number ct cust user st pst"
  from run obtain w1 number w3 w4 w5 w6 od' where 1: "validate_cart_items items w = (Inr (), w1)"
    and 3: "fresh_pk w1 = (Inr (next_pk w1), w3)"
    and 4: "insert_order (new_order env (next_pk w1) number ct cust user st pst) w3 = (Inr (), w4)"
    and 5: "for_each items (create_order_item (next_pk w1)) w4 = (Inr (), w5)"
    and 6: "save_order od' f_totals w5 = (Inr (), w6)"
    and 7: "assign_daily_sequence env od' w6 = (Inr od, v)"
    unfolding create_order_from_cart_def generate_order_number_def
    by (auto simp: returns Let_def run_fresh_pk)
  have "keeps (\<lambda>s. task_logs s = task_logs w \<and> next_pk s = next_pk w) (validate_cart_items items)"
  proof -
    have "keeps (\<lambda>s. task_logs s = task_logs w \<and> next_pk s = next_pk w) (get_or_create_inventory q)" for q
      by (rule keepsI) (auto simp: get_or_create_inventory_def run_bnd run_gets run_modifies run_ret split: option.split)
    then show ?thesis
      unfolding validate_cart_items_def check_item_stock_def check_cart_availability_def
      by (auto intro!: keeps_intros)
  qed
  from keeps_run [OF this _ 1] have w1: "task_logs w1 = task_logs w" "next_pk w1 = next_pk w" by auto
  with 3 have w3: "task_logs w3 = task_logs w" by (auto simp: run_fresh_pk)
  let ?m = "creation_message (?new number) w3"
  have "ord_phone (?new number) = cu_phone cust" by (simp add: new_order_def Let_def)
  with insert_order_sends [of "?new number" w3] phone new w3 4 w1 have w4: "?m \<in> set (broker w4)"
    by (fastforce simp: creation_message_def new_order_def Let_def)
  have items: "keeps (\<lambda>s. ?m \<in> set (broker s)) (for_each items (create_order_item k))" for k
    unfolding create_order_item_def
    by (intro keeps_intros keeps_modifies; auto simp: run_fresh_pk intro!: keepsI keeps_intros keeps_modifies)
  have w6: "?m \<in> set (broker w6)"
    by (rule keeps_run [OF keeps_sent_save keeps_run [OF items w4 5] 6])
  have "keeps (\<lambda>s. ?m \<in> set (broker s)) (allocate_sequence n k d)" for n k d
    by (induction n) (simp_all only: allocate_sequence.simps Let_def, (intro keeps_intros keeps_sent_save | assumption)+)
  from keeps_run [OF this w6] 7 w6 have "?m \<in> set (broker v)"
    by (auto simp: assign_daily_sequence_def ret_returns split: if_splits)
  moreover have "int_of_money 0 = 0" by (simp add: int_of_money_def trunc_div_def)
  ultimately show ?thesis using phone
    by (intro bexI [of _ ?m]) (auto simp: creation_message_def base_context_def new_order_def Let_def resolve_phone_def)
qed

section \<open>Instances\<close>

lemma daily_number_assigned_witness:
  "\<exists>y v. assign_daily_sequence demo_env demo_order pay_world = (Inr y, v) \<and>
     (\<exists>n. ord_daily_sequence y = Some n \<and> 100 < n)"
  using daily_number_assigned [of pay_world demo_order demo_order demo_env]
  by (auto simp: order_row_def pay_world_def demo_order_def sequences_on_def List.map_filter_simps Let_def
      has_sequence_def)

text \<open>A visitor with three cookies in the cart, enough of them free.\<close>

definition visitor_cart :: cart where
  "visitor_cart = \<lparr>cart_id = 4, cart_user = None, cart_session_key = Some ''s'', cart_coupon_code = [],
     cart_referral_code = [], cart_active_order = None\<rparr>"

definition cookies :: cart_item where
  "cookies = \<lparr>ci_id = 20, ci_cart = 4, ci_product = 1, ci_quantity = 3\<rparr>"

definition dear_product :: product where
  "dear_product = demo_product\<lparr>prod_price := 5000000\<rparr>"

definition visit_world :: world where
  "visit_world = (demo_world None (Some 4))\<lparr>products := [1 \<mapsto> dear_product], carts := [visitor_cart],
     cart_items := [cookies], next_pk := 30\<rparr>"

lemma visit_items:
  "lock_cart_for_checkout 4 visit_world = (Inr (visitor_cart, [(cookies, dear_product)]), visit_world)"
  by (simp add: run cart_code get_product_def visit_world_def demo_world_def visitor_cart_def cookies_def)

lemma visit_codes: "str_upper ''A1'' = ''A1''"
  by code_simp

lemmas visit_instances = visit_world_def visitor_cart_def cookies_def dear_product_def demo_customer_def
  visit_codes demo_codes

lemma allocate_five:
  "allocate_sequence 5 k d =
     bnd (get_order k) (\<lambda>od.
     if has_sequence od then ret od
     else
       bnd (gets (\<lambda>w. next_sequence w d)) (\<lambda>s.
       bnd (gets (\<lambda>w. \<exists>x\<in>set (orders w). ord_id x \<noteq> k \<and> ord_daily_sequence_date x = Some d \<and>
              ord_daily_sequence x = Some s)) (\<lambda>taken.
       if taken then raise broken_transaction
       else
         let od' = od\<lparr>ord_daily_sequence := Some s, ord_daily_sequence_date := Some d\<rparr> in
         bnd (save_order od' f_daily_sequence) (\<lambda>_. ret od'))))"
  using allocate_sequence.simps(2) [of 4 k d] by (simp only: eval_nat_numeral nat.distinct if_False)

lemma visit_returns: "\<not> isl (fst (process_checkout demo_env 4 demo_customer None visit_world))"
  by (simp add: program shop_code visit_instances allocate_five List.map_filter_simps cong: lazily split del: if_split)

lemma checkout_charges_discounted_total_witness:
  "\<exists>r p. fst (process_checkout demo_env 4 demo_customer None visit_world) = Inr r \<and> co_payment r = Some p \<and>
    ord_subtotal (co_order r) = 15000000 \<and> ord_total (co_order r) \<le> 15000000 \<and>
    pay_amount p = ord_total (co_order r)"
proof -
  from visit_returns obtain r where r: "process_checkout demo_env 4 demo_customer None visit_world =
    (Inr r, snd (process_checkout demo_env 4 demo_customer None visit_world))" by (rule Inr_call)
  have "calculate_subtotal [(cookies, dear_product)] = 15000000"
    by (simp add: calculate_subtotal_def cookies_def dear_product_def demo_product_def)
  with checkout_charges_discounted_total [OF r visit_items]
  have "\<exists>p. co_payment r = Some p \<and> ord_subtotal (co_order r) = 15000000 \<and>
      ord_total (co_order r) \<le> 15000000 \<and> pay_amount p = ord_total (co_order r)"
    by (auto simp: visitor_cart_def new_ids_def visit_world_def demo_world_def empty_world_def)
  moreover from r have "fst (process_checkout demo_env 4 demo_customer None visit_world) = Inr r"
    by (metis fst_conv)
  ultimately show ?thesis by blast
qed

text \<open>The same cart when it holds three of only four cookies.\<close>

definition scarce_world :: world where
  "scarce_world = visit_world\<lparr>inventories := [1 \<mapsto> demo_inventory\<lparr>inv_stock := 4\<rparr>]\<rparr>"

lemma scarce_items:
  "lock_cart_for_checkout 4 scarce_world = (Inr (visitor_cart, [(cookies, dear_product)]), scarce_world)"
  by (simp add: run cart_code get_product_def scarce_world_def visit_world_def demo_world_def visitor_cart_def cookies_def)

lemma own_reservation_blocks_checkout_witness:
  "check_cart_availability dear_product 3 (Some 4) scarce_world = (Inr (), scarce_world) \<and>
   (\<forall>r v. process_checkout demo_env 4 demo_customer None scarce_world \<noteq> (Inr r, v))"
proof -
  have "check_cart_availability dear_product (ci_quantity cookies) (Some 4) scarce_world = (Inr (), scarce_world) \<and>
    (\<forall>r v. process_checkout demo_env 4 demo_customer None scarce_world \<noteq> (Inr r, v))"
    by (rule own_reservation_blocks_checkout [OF scarce_items, of cookies dear_product "demo_inventory\<lparr>inv_stock := 4\<rparr>"])
      (simp_all add: visitor_cart_def cookies_def dear_product_def demo_product_def demo_inventory_def
        is_available_def available_quantity_def scarce_world_def visit_world_def demo_world_def demo_reservation_def
        active_for_cart_def)
  then show ?thesis by (simp add: cookies_def)
qed

lemma order_created_message_says_zero_witness:
  "\<exists>od. let run = create_order_from_cart demo_env visitor_cart (Some [(cookies, dear_product)]) demo_customer
      None None None visit_world in
    fst run = Inr od \<and> (\<exists>m\<in>set (broker (snd run)). \<exists>ctx. ctx_total ctx = 0 \<and>
      msg_args m = Lifecycle_Args 30 [SmsEvent ''order_created'' ''0912'' ctx None 30])"
proof -
  let ?m = "create_order_from_cart demo_env visitor_cart (Some [(cookies, dear_product)]) demo_customer None None None"
  have "\<not> isl (fst (?m visit_world))"
    by (simp add: program shop_code visit_instances allocate_five List.map_filter_simps cong: lazily split del: if_split)
  then obtain od where od: "?m visit_world = (Inr od, snd (?m visit_world))" by (rule Inr_call)
  have start: "next_pk visit_world = 30" "task_logs visit_world = []"
    by (simp_all add: visit_world_def demo_world_def empty_world_def)
  have "\<exists>m\<in>set (broker (snd (?m visit_world))). \<exists>ctx. ctx_total ctx = 0 \<and>
      msg_args m = Lifecycle_Args 30 [SmsEvent ''order_created'' ''0912'' ctx None 30]"
    using order_created_message_says_zero [OF od] by (simp add: start demo_customer_def visitor_cart_def)
  moreover from od have "fst (?m visit_world) = Inr od" by (metis fst_conv)
  ultimately show ?thesis unfolding Let_def by blast
qed

end
