(* ===== verification/ShopProps.thy ===== *)
theory ShopProps
  imports ShopLedger Examples
begin

text \<open>
  Properties of the shop as a whole: the ledger over any sequence of requests and background tasks,
  and what merging two carts does to it.
\<close>

section \<open>Any sequence of requests and tasks\<close>

datatype shop_call =
    Get_Cart "nat option" "string option" | Add_Item cart product int | Set_Quantity cart product int
  | Remove_Item cart nat | Clear_Cart cart
  | Checkout nat customer "nat option"
  | Counter_Checkout nat customer payment_method "nat option"
  | Initiate_Payment order | Zarinpal_Webhook payload | Stripe_Webhook payload string
  | Counter_Cash nat nat string | Counter_Card nat nat string | Cod_Cash nat nat string
  | Confirm_Cod nat string | Finalize_Cod nat | Transition nat order_status message string
  | Cancel nat message string | Request_Refund nat string string | Refund nat message string
  | Complete_Delivery nat string | Complete_Pickup order string
  | Cleanup_Payments "int option" | Award_Points order | Finalize_Growth order
  | Stock stock_call

fun shop_step :: "env \<Rightarrow> shop_call \<Rightarrow> world \<Rightarrow> world" where
  "shop_step env (Get_Cart u s) w = snd (get_or_create_cart env u s w)"
| "shop_step env (Add_Item c pr n) w = snd (add_item env c pr n w)"
| "shop_step env (Set_Quantity c pr n) w = snd (set_item_quantity env c pr n w)"
| "shop_step env (Remove_Item c p) w = snd (remove_item env c p w)"
| "shop_step env (Clear_Cart c) w = snd (clear_cart env c w)"
| "shop_step env (Checkout c cust u) w = snd (process_checkout env c cust u w)"
| "shop_step env (Counter_Checkout c cust m u) w = snd (process_counter_checkout env c cust m u w)"
| "shop_step env (Initiate_Payment od) w = snd (initiate_payment env od w)"
| "shop_step env (Zarinpal_Webhook b) w = snd (handle_zarinpal_callback env b w)"
| "shop_step env (Stripe_Webhook b s) w = snd (handle_stripe_webhook env b s w)"
| "shop_step env (Counter_Cash k p a) w = snd (mark_counter_cash_received k p a w)"
| "shop_step env (Counter_Card k p a) w = snd (mark_counter_card_received k p a w)"
| "shop_step env (Cod_Cash k p a) w = snd (mark_cod_cash_received k p a w)"
| "shop_step env (Confirm_Cod k a) w = snd (confirm_cod k a w)"
| "shop_step env (Finalize_Cod k) w = snd (finalize_cod_placement k w)"
| "shop_step env (Transition k st m a) w = snd (transition k st m a w)"
| "shop_step env (Cancel k m a) w = snd (cancel k m a w)"
| "shop_step env (Request_Refund k r a) w = snd (request_refund k r a w)"
| "shop_step env (Refund k m a) w = snd (process_refund k m a w)"
| "shop_step env (Complete_Delivery k a) w = snd (complete_delivery k a w)"
| "shop_step env (Complete_Pickup od a) w = snd (complete_pickup_order od a w)"
| "shop_step env (Cleanup_Payments t) w = snd (cleanup_stale_online_payments env t w)"
| "shop_step env (Award_Points od) w = snd (award_points_for_order env od w)"
| "shop_step env (Finalize_Growth od) w = snd (finalize_growth env od w)"
| "shop_step env (Stock c) w = stock_step env c w"

fun shop_run :: "(env \<times> shop_call) list \<Rightarrow> world \<Rightarrow> world" where
  "shop_run [] w = w"
| "shop_run ((env, c) # cs) w = shop_run cs (shop_step env c w)"

lemma keeps_finalize_cod_placement: "keeps stock_ok (finalize_cod_placement k)"
  unfolding finalize_cod_placement_def create_status_log_def get_order_def Let_def
  by (intro ledger.keeps_atomic_block keeps_intros ledger.keeps_save_order keeps_modifies)
    (simp_all add: ledger.frames)

lemmas shop_keeps = keeps_finalize_cod_placement shop_ledger.keeps_get_or_create_cart shop_ledger.keeps_add_item
  shop_ledger.keeps_set_item_quantity shop_ledger.keeps_remove_item shop_ledger.keeps_clear_cart
  shop_ledger.keeps_process_checkout shop_ledger.keeps_process_counter_checkout
  shop_ledger.ord.keeps_initiate_payment shop_ledger.keeps_callbacks
  shop_ledger.ord.keeps_mark_counter_received shop_ledger.ord.keeps_mark_cod_cash_received
  shop_ledger.ord.keeps_confirm_cod shop_ledger.ord.law_transition shop_ledger.ord.keeps_cancel
  shop_ledger.ord.keeps_request_refund shop_ledger.ord.keeps_process_refund
  shop_ledger.ord.keeps_complete_delivery shop_ledger.ord.keeps_complete_pickup_order
  shop_ledger.keeps_cleanups shop_ledger.keeps_award shop_ledger.keeps_finalize_growth

lemma shop_step_ok: "stock_ok w \<Longrightarrow> stock_ok (shop_step env c w)"
  by (cases c) (simp_all add: shop_keeps [THEN keepsD] stock_step_ok)

lemma shop_run_ok: "stock_ok w \<Longrightarrow> stock_ok (shop_run cs w)"
  by (induction cs arbitrary: w) (auto simp: shop_step_ok)

definition product_balanced :: "nat \<Rightarrow> world \<Rightarrow> bool" where
  "product_balanced p w \<longleftrightarrow> (case inventories w p of
     Some i \<Rightarrow> inv_track_stock i \<longrightarrow> inv_reserved i = held_product p (reservations w) \<and>
       (inv_allow_preorder i \<or> inv_reserved i \<le> inv_stock i)
   | None \<Rightarrow> held_product p (reservations w) = 0)"

definition day_balanced :: "nat \<Rightarrow> date \<Rightarrow> world \<Rightarrow> bool" where
  "day_balanced p d w \<longleftrightarrow> (case capacities w (p, d) of
     Some c \<Rightarrow> cap_reserved c = held_day p d (reservations w) \<and>
       cap_reserved c + cap_fulfilled c \<le> cap_max c
   | None \<Rightarrow> held_day p d (reservations w) = 0)"

lemma stock_ok_balanced: "stock_ok w \<Longrightarrow> product_balanced p w \<and> day_balanced p d w"
  using stock_okD(2) [of w p] stock_okD(3) [of w p d]
  by (auto simp: product_balanced_def day_balanced_def split: option.splits)

text \<open>
  Whatever customers, staff, gateways and background tasks do, in any order and with any
  failures, from a balanced ledger, a product's reserved counter is the sum of its live reservations
  and without preorders within its stock, and no production day is overbooked: a checkout that moves the holds of a
  cart to an order, a payment that confirms them, a refund, a delivery or a cleanup loses or
  duplicates none.
\<close>

theorem shop_never_oversells:
  assumes "stock_ok w"
  shows "product_balanced p (shop_run cs w) \<and> day_balanced p d (shop_run cs w)"
  using stock_ok_balanced [OF shop_run_ok [OF assms]] .

lemma shop_never_oversells_witness:
  "product_balanced 1 (shop_run [(demo_env, Add_Item
       \<lparr>cart_id = 4, cart_user = None, cart_session_key = Some ''s'', cart_coupon_code = [],
        cart_referral_code = [], cart_active_order = None\<rparr> demo_product 60),
     (demo_env, Zarinpal_Webhook demo_callback), (demo_env, Stock Expire_Stale)] busy_world) \<and>
   day_balanced 1 10 (shop_run [(demo_env, Add_Item
       \<lparr>cart_id = 4, cart_user = None, cart_session_key = Some ''s'', cart_coupon_code = [],
        cart_referral_code = [], cart_active_order = None\<rparr> demo_product 60),
     (demo_env, Zarinpal_Webhook demo_callback), (demo_env, Stock Expire_Stale)] busy_world)"
  by (rule shop_never_oversells [OF stock_ok_busy])

section \<open>Merging carts\<close>

text \<open>The reservations of one cart are not written by operations on another.\<close>

definition cart_rows :: "nat \<Rightarrow> reservation list \<Rightarrow> reservation list" where
  "cart_rows s rs = filter (\<lambda>r. res_cart r = Some s) rs"


abbreviation same_rows :: "nat \<Rightarrow> reservation list \<Rightarrow> world \<Rightarrow> bool" where
  "same_rows s rs w \<equiv> cart_rows s (reservations w) = rs"


lemma of_tables_rows: "of_tables (same_rows s rs)"
  by (simp add: of_tables_def)


















end
