(* ===== verification/LifecycleProps.thy ===== *)
theory LifecycleProps
  imports ShopProps
begin

text \<open>
  Order lifecycles as runs of the transition table: an order seen through its audit log is an abstract
  machine whose steps are the entries of the table, and the operations of the order service and the
  payment service implement it.
\<close>

section \<open>The abstract lifecycle\<close>

inductive lifecycle_run :: "order_status \<Rightarrow> (order_status \<times> order_status) list \<Rightarrow> order_status \<Rightarrow> bool" where
  start: "lifecycle_run s [] s"
| change: "lifecycle_run s es t \<Longrightarrow> u \<in> ALLOWED_TRANSITIONS t \<Longrightarrow> lifecycle_run s (es @ [(t, u)]) u"

lemma lifecycle_run_rank: "lifecycle_run s es t \<Longrightarrow> status_rank s + length es \<le> status_rank t"
proof (induction rule: lifecycle_run.induct)
  case (change s es t u)
  then have "status_rank t < status_rank u" using status_step_rank by (simp add: status_step_iff)
  with change.IH show ?case by simp
qed simp

lemma lifecycle_run_final: "lifecycle_run s es t \<Longrightarrow> s \<in> {S_CANCELLED, S_REFUNDED} \<Longrightarrow> es = [] \<and> t = s"
  by (induction rule: lifecycle_run.induct) auto

text \<open>The changes an audit log records; an entry with equal statuses is a remark.\<close>

definition changes_in :: "status_log list \<Rightarrow> (order_status \<times> order_status) list" where
  "changes_in ls = map (\<lambda>l. (log_from l, log_to l)) (filter (\<lambda>l. log_from l \<noteq> log_to l) ls)"

section \<open>The operations implement it\<close>

text \<open>Since a moment with the log \<open>ls\<close> and the status \<open>s\<close>, the order went through a run that was logged.\<close>

definition runs_from :: "nat \<Rightarrow> order_status \<Rightarrow> status_log list \<Rightarrow> world \<Rightarrow> bool" where
  "runs_from k s ls w \<longleftrightarrow> (\<exists>t ms. map_option ord_status (order_row w k) = Some t \<and>
     order_logs w k = ls @ ms \<and> lifecycle_run s (changes_in ms) t)"

lemma runs_from_same:
  "map_option ord_status (order_row v k) = map_option ord_status (order_row w k) \<Longrightarrow>
   order_logs v k = order_logs w k \<Longrightarrow> runs_from k s ls v = runs_from k s ls w"
  by (simp add: runs_from_def)

lemmas runs_from_tables = runs_from_def order_row_def order_logs_def

interpretation runs_stock: stock_frame "runs_from k s ls" for k s ls
  by unfold_locales (simp_all add: of_tables_def runs_from_tables)

lemma keeps_runs_payment_status: "keeps (runs_from k s ls) (save_order od f_payment_status)"
proof (rule keepsI)
  fix w assume w: "runs_from k s ls w"
  obtain r v where run: "save_order od f_payment_status w = (r, v)" by fastforce
  have "runs_from k s ls v"
    using save_order_run [OF run]
  proof
    assume "\<exists>t b. r = Inr () \<and> v = w\<lparr>orders := upd_rows (\<lambda>x. ord_id x = ord_id od) (f_payment_status od) (orders w),
        task_logs := t, broker := broker w @ b\<rparr>"
    then have "map_option ord_status (order_row v k) = map_option ord_status (order_row w k)"
      and "order_logs v k = order_logs w k"
      by (auto simp: order_row_def find_upd_rows f_payment_status_def order_logs_def option.map_comp comp_def if_distrib
          cong: if_cong)
    with w show ?thesis using runs_from_same by blast
  qed (use w in simp)
  with run show "runs_from k s ls (snd (save_order od f_payment_status w))" by simp
qed

lemma keeps_runs_transition: "keeps (runs_from k s ls) (transition j new nt actor)"
proof -
  have "settles (runs_from k s ls) (transition j new nt actor)"
  proof (rule settlesI)
    fix w x v assume w: "runs_from k s ls w" and run: "transition j new nt actor w = (Inr x, v)"
    from run show "runs_from k s ls v"
    proof (cases rule: transition_returns)
      case (2 od t b)
      show ?thesis
      proof (cases "j = k")
        case True
        from 2 True have "map_option ord_status (order_row v k) = Some new"
          by (simp add: order_row_def find_upd_rows f_status_def)
        moreover from 2 True have "order_logs v k = order_logs w k @ [\<lparr>log_order = k, log_from = ord_status od,
            log_to = new, log_note = nt, log_actor = actor\<rparr>]"
          by (simp add: order_logs_def)
        moreover obtain ms where "order_logs w k = ls @ ms" "lifecycle_run s (changes_in ms) (ord_status od)"
          using w 2(1) True by (auto simp: runs_from_def)
        ultimately show ?thesis
          using 2(2,3) by (auto simp: runs_from_def changes_in_def intro!: lifecycle_run.change)
      next
        case False
        with 2(5) have "order_row v k = order_row w k" "order_logs v k = order_logs w k"
          by (auto simp: order_row_def find_upd_rows f_status_def order_logs_def option.map_ident)
        with w show ?thesis by (simp add: runs_from_def)
      qed
    qed (use w in simp)
  qed
  then show ?thesis
    unfolding transition_def by (rule settles_atomic_keeps [OF runs_stock.frame_of_tables])
qed

interpretation runs: order_ops "runs_from k s ls" for k s ls
proof (unfold_locales, goal_cases)
  case (7 w j od nt actor)
  then show ?case
    by (cases "j = k") (auto simp: runs_from_def changes_in_def order_row_def order_logs_def)
qed (simp_all add: runs_stock.frame_of_tables runs_stock.keeps_release runs_stock.keeps_confirm
    runs_stock.keeps_fulfill keeps_runs_payment_status keeps_runs_transition runs_from_tables)

interpretation runs_growth: growth_frame "runs_from k s ls" for k s ls
  by unfold_locales (simp_all add: of_tables_def runs_from_tables)

lemma keeps_runs_callbacks:
  "keeps (runs_from k s ls) (handle_zarinpal_callback env body)"
  "keeps (runs_from k s ls) (handle_stripe_webhook env body signature)"
  by (rule keeps_zarinpal_callback keeps_stripe_webhook;
      simp add: runs.tables_only runs_from_tables runs.keeps_zarinpal_handle runs.keeps_stripe_handle)+

lemma keeps_runs_cleanups: "keeps (runs_from k s ls) (cleanup_stale_online_payments env t)"
  unfolding cleanup_stale_online_payments_def stale_online_payments_queryset_def
    cleanup_stale_online_payment_def clear_cart_checkout_lock_def
  by (intro keeps_intros keeps_atomic runs.tables_only runs.keeps_mark_failed keeps_modifies)
    (simp add: runs_from_tables)

text \<open>
  \<open>finalize_cod_placement\<close> writes the status and the audit log of its order without asking the
  transition table; it leaves every other order alone.
\<close>

lemma keeps_runs_placement: "j \<noteq> k \<Longrightarrow> keeps (runs_from k s ls) (finalize_cod_placement j)"
proof -
  assume j: "j \<noteq> k"
  have save: "keeps (runs_from k s ls) (save_order od f_both_statuses)" if "ord_id od = j" for od
  proof (rule keepsI)
    fix w assume w: "runs_from k s ls w"
    obtain r v where saved: "save_order od f_both_statuses w = (r, v)" by fastforce
    have "order_row v k = order_row w k" and "order_logs v k = order_logs w k"
      using save_order_run [OF saved] that j
      by (auto simp: order_row_def find_upd_rows f_both_statuses_def order_logs_def option.map_ident)
    with w saved show "runs_from k s ls (snd (save_order od f_both_statuses w))"
      by (simp add: runs_from_def)
  qed
  have remark: "keeps (runs_from k s ls) (modifies (\<lambda>w. w\<lparr>status_logs := status_logs w @ [l]\<rparr>))"
    if "log_order l = j" for l
    using that j by (intro keeps_modifies) (simp add: runs_from_tables)
  show ?thesis
    unfolding finalize_cod_placement_def create_status_log_def Let_def
  proof (intro keeps_atomic runs.tables_only keeps_bnd_returned)
    fix u od t assume "get_order j u = (Inr od, t)"
    then have "ord_id od = j"
      by (auto simp: get_order_def returns order_row_def dest: find_SomeD)
    then show "keeps (runs_from k s ls) (save_order
        (od\<lparr>ord_payment_status := PS_COD_PENDING, ord_status := S_CONFIRMED_BY_SHOP\<rparr>) f_both_statuses)"
      by (intro save) simp
  qed (auto intro: keeps_get_order keeps_ret remark)
qed

text \<open>
  The calls on orders that exist, for the order \<open>k\<close>: everything but checkouts, carts, bare stock calls and
  \<open>finalize_cod_placement\<close> of \<open>k\<close> itself, which asks no transition table.
\<close>

fun lifecycle_call :: "nat \<Rightarrow> shop_call \<Rightarrow> bool" where
  "lifecycle_call k (Initiate_Payment od) = True"
| "lifecycle_call k (Zarinpal_Webhook b) = True"
| "lifecycle_call k (Stripe_Webhook b s) = True"
| "lifecycle_call k (Counter_Cash j p a) = True"
| "lifecycle_call k (Counter_Card j p a) = True"
| "lifecycle_call k (Cod_Cash j p a) = True"
| "lifecycle_call k (Confirm_Cod j a) = True"
| "lifecycle_call k (Transition j st m a) = True"
| "lifecycle_call k (Cancel j m a) = True"
| "lifecycle_call k (Request_Refund j r a) = True"
| "lifecycle_call k (Refund j m a) = True"
| "lifecycle_call k (Complete_Delivery j a) = True"
| "lifecycle_call k (Complete_Pickup od a) = True"
| "lifecycle_call k (Cleanup_Payments t) = True"
| "lifecycle_call k (Award_Points od) = True"
| "lifecycle_call k (Finalize_Growth od) = True"
| "lifecycle_call k (Finalize_Cod j) \<longleftrightarrow> j \<noteq> k"
| "lifecycle_call k _ = False"

lemmas runs_keeps = runs.keeps_initiate_payment keeps_runs_callbacks runs.keeps_mark_counter_received
  runs.keeps_mark_cod_cash_received runs.keeps_confirm_cod runs.law_transition runs.keeps_cancel
  runs.keeps_request_refund runs.keeps_process_refund runs.keeps_complete_delivery
  runs.keeps_complete_pickup_order keeps_runs_cleanups runs_growth.keeps_award runs_growth.keeps_finalize_growth

lemma runs_from_step: "lifecycle_call k c \<Longrightarrow> runs_from k s ls w \<Longrightarrow> runs_from k s ls (shop_step env c w)"
  by (cases c) (simp_all add: runs_keeps [THEN keepsD] keeps_runs_placement [THEN keepsD])

lemma runs_from_run:
  "list_all (lifecycle_call k \<circ> snd) cs \<Longrightarrow> runs_from k s ls w \<Longrightarrow> runs_from k s ls (shop_run cs w)"
  by (induction cs arbitrary: w) (auto simp: runs_from_step)

text \<open>
  Over any sequence of these calls, failing ones included, an order implements the abstract lifecycle: the entries added to its
  audit log are a run of the transition table from its status before to its status after, with at most
  seven changes.
\<close>

theorem order_runs_the_lifecycle:
  assumes "list_all (lifecycle_call k \<circ> snd) cs" and "order_row w k = Some od"
  shows "\<exists>od' ms. order_row (shop_run cs w) k = Some od' \<and> order_logs (shop_run cs w) k = order_logs w k @ ms \<and>
    lifecycle_run (ord_status od) (changes_in ms) (ord_status od') \<and> length (changes_in ms) \<le> 7"
proof -
  have "runs_from k (ord_status od) (order_logs w k) w"
    using assms(2) by (simp add: runs_from_def changes_in_def lifecycle_run.start)
  from runs_from_run [OF assms(1) this] obtain od' ms where
    "order_row (shop_run cs w) k = Some od'" "order_logs (shop_run cs w) k = order_logs w k @ ms"
    and run: "lifecycle_run (ord_status od) (changes_in ms) (ord_status od')"
    by (auto simp: runs_from_def)
  moreover have "length (changes_in ms) \<le> 7"
    using lifecycle_run_rank [OF run] status_rank_le [of "ord_status od'"] by linarith
  ultimately show ?thesis by blast
qed

text \<open>
  C17: a cancelled or refunded order keeps its status through any sequence of transitions,
  payments, late callbacks of a gateway, cancellations, refunds, deliveries, cleanups and growth
  tasks of this and of other orders, failing ones included. The one method of the order service
  that is left out is \<open>finalize_cod_placement\<close> of this very order, a legacy method that nothing
  calls; checkouts and cart requests, which work on a cart or on a new order, and direct calls of the
  stock service are left out too.
\<close>

theorem final_order_stays_final:
  assumes "list_all (lifecycle_call k \<circ> snd) cs" and "order_row w k = Some od"
    and "ord_status od \<in> {S_CANCELLED, S_REFUNDED}"
  shows "\<exists>od'. order_row (shop_run cs w) k = Some od' \<and> ord_status od' = ord_status od"
proof -
  have "runs_from k (ord_status od) (order_logs w k) w"
    using assms(2) by (simp add: runs_from_def changes_in_def lifecycle_run.start)
  from runs_from_run [OF assms(1) this] show ?thesis
    using lifecycle_run_final assms(3) by (fastforce simp: runs_from_def)
qed

text \<open>
  That method is left out for a reason: it confirms an order whatever its status is, also a
  cancelled one.
\<close>

lemma placement_reopens_a_final_order:
  assumes "order_row w k = Some od"
  shows "\<exists>od'. order_row (shop_step env (Finalize_Cod k) w) k = Some od' \<and>
    ord_status od' = S_CONFIRMED_BY_SHOP \<and> ord_payment_status od' = PS_COD_PENDING"
proof -
  let ?od = "od\<lparr>ord_payment_status := PS_COD_PENDING, ord_status := S_CONFIRMED_BY_SHOP\<rparr>"
  have id: "ord_id od = k" using assms by (auto simp: order_row_def dest: find_SomeD)
  have "order_row w (ord_id ?od) = Some od" using assms id by simp
  from run_save_order [OF this, of f_both_statuses] obtain t b where
    "save_order ?od f_both_statuses w = (Inr (), w\<lparr>orders := upd_rows (\<lambda>r. ord_id r = ord_id ?od)
       (f_both_statuses ?od) (orders w), task_logs := t, broker := broker w @ b\<rparr>)" by blast
  with assms id show ?thesis
    by (simp add: finalize_cod_placement_def run_atomic run_bnd get_order_def run_get_or_raise Let_def
        create_status_log_def order_row_def find_upd_rows f_both_statuses_def)
qed

section \<open>Instances\<close>

text \<open>The paid order is shipped, and then refunded after a late callback.\<close>

definition order_story :: "(env \<times> shop_call) list" where
  "order_story = [(demo_env, Zarinpal_Webhook demo_callback), (demo_env, Transition 7 S_PREPARING (Text []) ''staff''),
     (demo_env, Refund 7 (Text ''broken'') ''staff''), (demo_env, Zarinpal_Webhook demo_callback)]"

lemma order_runs_the_lifecycle_witness:
  "\<exists>od' ms. order_row (shop_run order_story pay_world) 7 = Some od' \<and>
    order_logs (shop_run order_story pay_world) 7 = order_logs pay_world 7 @ ms \<and>
    lifecycle_run S_PENDING_PAYMENT (changes_in ms) (ord_status od') \<and> length (changes_in ms) \<le> 7"
  using order_runs_the_lifecycle [of 7 order_story pay_world demo_order]
  by (simp add: order_story_def order_row_def pay_world_def demo_order_def)

lemma final_order_stays_final_witness:
  "\<exists>od'. order_row (shop_run order_story late_world) 7 = Some od' \<and> ord_status od' = S_CANCELLED"
  using final_order_stays_final [of 7 order_story late_world "demo_order\<lparr>ord_status := S_CANCELLED\<rparr>"]
  by (simp add: order_story_def order_row_def late_world_def demo_order_def)

end
