(* ===== verification/StaffProps.thy ===== *)
theory StaffProps
  imports LifecycleProps OrderAdmin
begin

text \<open>
  What holds of the shop when the staff works with it: the screens and the actions of the order admin
  implement the same lifecycle as the services, and where they do not.
\<close>

section \<open>The staff at work\<close>

datatype admin_action =
    Advance_To_Preparing | Advance_To_Packaged | Advance_To_Out_For_Delivery | Mark_Delivered
  | Cancel_Orders | Request_Refunds | Process_Refunds | Mark_Cash | Mark_Card | Confirm_Cods
  | Mark_Cod_Cash | Stripe_Checkout

fun run_admin_action :: "env \<Rightarrow> admin_action \<Rightarrow> string \<Rightarrow> order list \<Rightarrow> flash list P" where
  "run_admin_action env Advance_To_Preparing a ods = advance_to_preparing a ods"
| "run_admin_action env Advance_To_Packaged a ods = advance_to_packaged a ods"
| "run_admin_action env Advance_To_Out_For_Delivery a ods = advance_to_out_for_delivery a ods"
| "run_admin_action env Mark_Delivered a ods = admin_mark_delivered a ods"
| "run_admin_action env Cancel_Orders a ods = cancel_orders a ods"
| "run_admin_action env Request_Refunds a ods = admin_request_refund a ods"
| "run_admin_action env Process_Refunds a ods = admin_process_refund a ods"
| "run_admin_action env Mark_Cash a ods = mark_cash_received a ods"
| "run_admin_action env Mark_Card a ods = mark_card_received a ods"
| "run_admin_action env Confirm_Cods a ods = admin_confirm_cod a ods"
| "run_admin_action env Mark_Cod_Cash a ods = admin_mark_cod_cash_received a ods"
| "run_admin_action env Stripe_Checkout a ods = create_stripe_checkout env ods"

text \<open>The rows of the orders that are ticked, in the order of the list\<close>

definition selected :: "nat list \<Rightarrow> world \<Rightarrow> order list" where
  "selected ks w = List.map_filter (order_row w) ks"

datatype desk_call =
    Shop_Call shop_call
  | Kitchen_Action nat string string
  | Pickup_Action nat string string
  | Admin_Action admin_action string "nat list"

fun desk_step :: "env \<Rightarrow> desk_call \<Rightarrow> world \<Rightarrow> world" where
  "desk_step env (Shop_Call c) w = shop_step env c w"
| "desk_step env (Kitchen_Action k action a) w = snd (kitchen_action k action a w)"
| "desk_step env (Pickup_Action k action a) w = snd (pickup_action k action a w)"
| "desk_step env (Admin_Action act a ks) w = snd (run_admin_action env act a (selected ks w) w)"

fun desk_run :: "(env \<times> desk_call) list \<Rightarrow> world \<Rightarrow> world" where
  "desk_run [] w = w"
| "desk_run ((env, c) # cs) w = desk_run cs (desk_step env c w)"

fun desk_lifecycle_call :: "nat \<Rightarrow> desk_call \<Rightarrow> bool" where
  "desk_lifecycle_call k (Shop_Call c) = lifecycle_call k c"
| "desk_lifecycle_call k _ = True"

lemma runs_admin_action: "keeps (runs_from k s ls) (run_admin_action env act a ods)"
  by (cases act) (simp_all add: advance_to_preparing_def advance_to_packaged_def advance_to_out_for_delivery_def
    runs.keeps_admin_transition runs.keeps_admin_mark_delivered runs.keeps_admin_lists runs.keeps_admin_payments
    runs.keeps_admin_confirm_cod runs.keeps_create_stripe_checkout)

lemma stock_admin_action: "keeps stock_ok (run_admin_action env act a ods)"
  by (cases act) (simp_all add: advance_to_preparing_def advance_to_packaged_def advance_to_out_for_delivery_def
    shop_ledger.ord.keeps_admin_transition shop_ledger.ord.keeps_admin_mark_delivered
    shop_ledger.ord.keeps_admin_lists shop_ledger.ord.keeps_admin_payments
    shop_ledger.ord.keeps_admin_confirm_cod shop_ledger.ord.keeps_create_stripe_checkout)

lemma runs_from_desk_step:
  "desk_lifecycle_call k c \<Longrightarrow> runs_from k s ls w \<Longrightarrow> runs_from k s ls (desk_step env c w)"
  by (cases c) (simp_all add: runs_from_step runs.keeps_kitchen_action [THEN keepsD]
    runs.keeps_pickup_action [THEN keepsD] runs_admin_action [THEN keepsD])

lemma runs_from_desk:
  "list_all (desk_lifecycle_call k \<circ> snd) cs \<Longrightarrow> runs_from k s ls w \<Longrightarrow> runs_from k s ls (desk_run cs w)"
  by (induction cs w rule: desk_run.induct) (auto simp: runs_from_desk_step)

lemma stock_desk: "stock_ok w \<Longrightarrow> stock_ok (desk_run cs w)"
proof (induction cs w rule: desk_run.induct)
  case (2 env c cs w)
  have "stock_ok (desk_step env c w)"
    using 2(2) shop_step_ok [of w env] shop_ledger.ord.keeps_kitchen_action [THEN keepsD]
      shop_ledger.ord.keeps_pickup_action [THEN keepsD] stock_admin_action [THEN keepsD]
    by (cases c) simp_all
  with 2(1) show ?case by simp
qed simp

text \<open>
  C6: over any sequence of transitions, payments, callbacks, cancellations, refunds, deliveries,
  cleanups and growth tasks, and of actions of the staff on the kitchen and pickup screens and on
  the lists of the order admin, failing ones included, an order implements the abstract lifecycle:
  the entries added to its audit log are a run of the transition table from its status before to its
  status after, with at most seven changes. Left out are \<open>finalize_cod_placement\<close> of this very
  order (a legacy method that nothing calls and that asks no transition table), the edit form of the
  order admin (which sets any status, as shown below), checkouts, cart requests and direct calls
  of the stock service. Meanwhile the
  reserved counter of every product that tracks stock and of every day stays what the live
  reservations hold: within the stock where the product takes no preorders, and within the capacity.
\<close>

theorem desk_runs_the_lifecycle:
  assumes "list_all (desk_lifecycle_call k \<circ> snd) cs" and "order_row w k = Some od" and "stock_ok w"
  shows "\<exists>od' ms. order_row (desk_run cs w) k = Some od' \<and> order_logs (desk_run cs w) k = order_logs w k @ ms \<and>
    lifecycle_run (ord_status od) (changes_in ms) (ord_status od') \<and> length (changes_in ms) \<le> 7 \<and>
    product_balanced p (desk_run cs w) \<and> day_balanced p d (desk_run cs w)"
proof -
  have "runs_from k (ord_status od) (order_logs w k) w"
    using assms(2) by (simp add: runs_from_def changes_in_def lifecycle_run.start)
  from runs_from_desk [OF assms(1) this] obtain od' ms where
    "order_row (desk_run cs w) k = Some od'" "order_logs (desk_run cs w) k = order_logs w k @ ms"
    and run: "lifecycle_run (ord_status od) (changes_in ms) (ord_status od')"
    by (auto simp: runs_from_def)
  moreover have "length (changes_in ms) \<le> 7"
    using lifecycle_run_rank [OF run] status_rank_le [of "ord_status od'"] by linarith
  ultimately show ?thesis using stock_ok_balanced [OF stock_desk [OF assms(3)]] by blast
qed

section \<open>A change of status that is allowed\<close>

lemma run_transition:
  assumes row: "order_row w k = Some od" and new: "new \<in> ALLOWED_TRANSITIONS (ord_status od)"
  obtains v where "transition k new nt actor w = (Inr (od\<lparr>ord_status := new\<rparr>), v)"
    and "order_row v k = Some (od\<lparr>ord_status := new\<rparr>)"
    and "orders v = upd_rows (\<lambda>r. ord_id r = k) (\<lambda>r. r\<lparr>ord_status := new\<rparr>) (orders w)"
proof -
  let ?od = "od\<lparr>ord_status := new\<rparr>"
  have id: "ord_id od = k" using row by (auto simp: order_row_def dest: find_SomeD)
  have ne: "ord_status od \<noteq> new" using new by (cases new) (cases "ord_status od"; simp)+
  have "order_row w (ord_id ?od) = Some od" using row id by simp
  from run_save_order [OF this, of f_status] obtain t b where
    "save_order ?od f_status w = (Inr (), w\<lparr>orders := upd_rows (\<lambda>r. ord_id r = ord_id ?od) (f_status ?od) (orders w),
       task_logs := t, broker := broker w @ b\<rparr>)" by blast
  then have run: "transition k new nt actor w = (Inr ?od, w\<lparr>orders := upd_rows (\<lambda>r. ord_id r = k) (f_status ?od) (orders w),
       task_logs := t, broker := broker w @ b,
       status_logs := status_logs w @ [\<lparr>log_order = k, log_from = ord_status od, log_to = new,
         log_note = nt, log_actor = actor\<rparr>]\<rparr>)"
    using row new ne id
    by (simp add: transition_def run_atomic run_bnd get_order_def run_get_or_raise run_validate_transition
        can_transition_def Let_def create_status_log_def)
  have f: "f_status ?od = (\<lambda>r. r\<lparr>ord_status := new\<rparr>)" by (rule ext) (simp add: f_status_def)
  show thesis by (rule that [OF run]) (use row in \<open>simp_all add: order_row_def find_upd_rows f\<close>)
qed

lemma order_row_unique:
  "distinct (map ord_id (orders w)) \<Longrightarrow> x \<in> set (orders w) \<Longrightarrow> order_row w (ord_id x) = Some x"
  unfolding order_row_def by (rule find_distinct_key)

lemma order_row_in: "order_row w k = Some od \<Longrightarrow> od \<in> set (orders w) \<and> ord_id od = k"
  by (auto simp: order_row_def dest: find_SomeD)

lemma ids_upd_rows: "(\<And>r. ord_id (f r) = ord_id r) \<Longrightarrow> map ord_id (upd_rows P f ods) = map ord_id ods"
  by (simp add: upd_rows_def)

lemma distinct_ids_queue: "distinct (map ord_id ods) \<Longrightarrow> distinct (map ord_id (sort_key g (filter P ods)))"
  by (simp add: distinct_map inj_on_def)

lemma queue_row:
  assumes "distinct (map ord_id (orders w))" and "order_row w k = Some od"
  shows "find (\<lambda>x. ord_id x = k) (sort_key g (filter P (orders w))) = (if P od then Some od else None)"
proof (cases "P od")
  case True
  with assms order_row_in [OF assms(2)] show ?thesis
    using find_distinct_key [of ord_id "sort_key g (filter P (orders w))" od] by (simp add: distinct_ids_queue)
next
  case False
  have "x = od" if "x \<in> set (orders w)" "ord_id x = k" for x
    using order_row_unique [OF assms(1) that(1)] that(2) assms(2) by simp
  with False have "find (\<lambda>x. ord_id x = k) (sort_key g (filter P (orders w))) = None"
    by (auto simp: find_None_iff)
  with False show ?thesis by simp
qed

section \<open>Orders the screens lose\<close>

text \<open>
  A packaged order that is paid in cash on delivery is listed on the pickup screen although its
  cash was not received. Marking it as picked up answers with an error, and yet changes its status: the
  two steps of \<open>complete_pickup_order\<close> are no transaction, the first is kept when the second fails,
  and afterwards the order is neither in the kitchen queue nor on the pickup screen.
\<close>

theorem unpaid_pickup_disappears:
  assumes "distinct (map ord_id (orders w))" and "order_row w k = Some od"
    and "ord_status od = S_PACKAGED" and "is_cod od" and "ord_payment_status od = PS_COD_CONFIRMED"
  shows "od \<in> set (pickup_screen_queryset w) \<and>
    (\<exists>v m. pickup_action k ''mark_picked_up'' actor w =
       (Inr (Redirect (Flash Lv_Error (ord_number od) m)), v) \<and>
     order_row v k = Some (od\<lparr>ord_status := S_OUT_FOR_DELIVERY\<rparr>) \<and>
     k \<notin> ord_id ` set (pickup_screen_queryset v) \<and> k \<notin> ord_id ` set (kitchen_order_queryset v))"
proof -
  let ?od = "od\<lparr>ord_status := S_OUT_FOR_DELIVERY\<rparr>"
  have id: "od \<in> set (orders w)" "ord_id od = k" using order_row_in [OF assms(2)] by auto
  have ready: "ready_for_pickup od"
    using assms(3,5) by (simp add: ready_for_pickup_def PICKUP_READY_PAYMENT_STATUSES_def)
  obtain v where run: "transition k S_OUT_FOR_DELIVERY (Text ''Pickup screen: ready for customer pickup'') actor w
      = (Inr ?od, v)" and row: "order_row v k = Some ?od"
    and ods: "orders v = upd_rows (\<lambda>r. ord_id r = k) (\<lambda>r. r\<lparr>ord_status := S_OUT_FOR_DELIVERY\<rparr>) (orders w)"
    using run_transition [OF assms(2), of S_OUT_FOR_DELIVERY] assms(3) by auto
  let ?v = "v\<lparr>broker := broker v\<rparr>"
  have "complete_delivery k actor v = (Inl (Exn CheckoutError
      (Text ''COD orders require cash received before delivery completion.'')), v)"
    using row assms(4,5) by (simp add: complete_delivery_def run_atomic run_bnd get_order_def run_get_or_raise
        is_cod_def run_raise_if)
  then have "complete_pickup_order od actor w = (Inl (Exn CheckoutError
      (Text ''COD orders require cash received before delivery completion.'')), v)"
    using run assms(3) id by (simp add: complete_pickup_order_def run_bnd run_whenever)
  moreover have "find (\<lambda>x. ord_id x = k) (pickup_screen_queryset w) = Some od"
    unfolding pickup_screen_queryset_def queue_row [OF assms(1,2)] using ready by simp
  ultimately have act: "pickup_action k ''mark_picked_up'' actor w = (Inr (Redirect (Flash Lv_Error (ord_number od)
      (StrOf (Exn CheckoutError (Text ''COD orders require cash received before delivery completion.''))))), v)"
    by (simp add: pickup_action_def flash_on_def run_try_except run_bnd)
  have d: "distinct (map ord_id (orders v))" unfolding ods using assms(1) by (simp add: ids_upd_rows)
  have gone: "k \<notin> ord_id ` set (sort_key g (filter P (orders v)))" if "\<not> P ?od" for g :: "order \<Rightarrow> timestamp" and P
  proof -
    have "find (\<lambda>x. ord_id x = k) (sort_key g (filter P (orders v))) = None"
      using queue_row [OF d row, of g P] that by simp
    then show ?thesis by (auto simp: find_None_iff)
  qed
  have "od \<in> set (pickup_screen_queryset w)"
    using id ready by (simp add: pickup_screen_queryset_def)
  with act row gone [of ready_for_pickup] gone [of in_kitchen] show ?thesis
    by (auto simp: pickup_screen_queryset_def kitchen_order_queryset_def ready_for_pickup_def in_kitchen_def
        KITCHEN_QUEUE_STATUSES_def)
qed

text \<open>
  The admin list lets an order at the counter be prepared before it is paid; the kitchen queue, which
  shows paid orders only, never lists it.
\<close>

lemma unpaid_counter_order_is_prepared:
  assumes "distinct (map ord_id (orders w))" and "order_row w k = Some od"
    and "ord_status od = S_AWAITING_PAYMENT" and "ord_payment_status od = PS_PENDING_PAYMENT"
  shows "\<exists>v. advance_to_preparing actor [od] w =
      (Inr [Flash Lv_Success [] (Fmt ''Marked {} order(s) as {}.'' [AInt 1, AStr ''preparing''])], v) \<and>
    order_row v k = Some (od\<lparr>ord_status := S_PREPARING\<rparr>) \<and> k \<notin> ord_id ` set (kitchen_order_queryset v)"
proof -
  let ?od = "od\<lparr>ord_status := S_PREPARING\<rparr>"
  have id: "ord_id od = k" using order_row_in [OF assms(2)] by auto
  obtain v where run: "transition k S_PREPARING (Text []) actor w = (Inr ?od, v)"
    and row: "order_row v k = Some ?od"
    and ods: "orders v = upd_rows (\<lambda>r. ord_id r = k) (\<lambda>r. r\<lparr>ord_status := S_PREPARING\<rparr>) (orders w)"
    using run_transition [OF assms(2), of S_PREPARING] assms(3) by auto
  have "advance_to_preparing actor [od] w =
      (Inr [Flash Lv_Success [] (Fmt ''Marked {} order(s) as {}.'' [AInt 1, AStr ''preparing''])], v)"
    using run row id assms(3)
    by (simp add: advance_to_preparing_def admin_transition_def advance_one_def attempt_def already_there_def run_bnd
        run_try_except get_order_def run_get_or_raise report_def updates_def)
  moreover have d: "distinct (map ord_id (orders v))"
    unfolding ods using assms(1) by (simp add: ids_upd_rows)
  have "find (\<lambda>x. ord_id x = k) (kitchen_order_queryset v) = None"
    unfolding kitchen_order_queryset_def queue_row [OF d row]
    using assms(4) by (simp add: in_kitchen_def KITCHEN_PAYMENT_STATUSES_def)
  then have "k \<notin> ord_id ` set (kitchen_order_queryset v)" by (auto simp: find_None_iff)
  ultimately show ?thesis using row by blast
qed

section \<open>The admin form\<close>

lemma find_replaced:
  "ord_id od = k \<Longrightarrow> find (\<lambda>r. ord_id r = j) (upd_rows (\<lambda>r. ord_id r = k) (\<lambda>r. od) ods) =
     (if j = k then map_option (\<lambda>r. od) (find (\<lambda>r. ord_id r = k) ods) else find (\<lambda>r. ord_id r = j) ods)"
  by (induction ods) (auto simp: upd_rows_def)

text \<open>
  The form of the order admin lets the staff set the status of an order to any value. Saving it
  asks no transition table and writes no entry of the audit log, so that a cancelled order can be made
  a delivered one; nothing else about the order and no other order changes.
\<close>

theorem form_sets_any_status:
  assumes "order_row w k = Some od" and "\<not> is_cod od"
  shows "\<exists>v. save_model (od\<lparr>ord_status := st\<rparr>) actor w = (Inr [], v) \<and>
    order_row v k = Some (od\<lparr>ord_status := st\<rparr>) \<and> order_logs v k = order_logs w k \<and>
    (\<forall>j. j \<noteq> k \<longrightarrow> order_row v j = order_row w j)"
proof -
  let ?od = "od\<lparr>ord_status := st\<rparr>"
  have id: "ord_id od = k" using order_row_in [OF assms(1)] by auto
  have "order_row w (ord_id ?od) = Some od" using assms(1) id by simp
  from run_save_order [OF this, of f_all] obtain t b where save: "save_order ?od f_all w =
     (Inr (), w\<lparr>orders := upd_rows (\<lambda>r. ord_id r = ord_id ?od) (f_all ?od) (orders w),
       task_logs := t, broker := broker w @ b\<rparr>)" by blast
  let ?v = "w\<lparr>orders := upd_rows (\<lambda>r. ord_id r = ord_id ?od) (f_all ?od) (orders w),
       task_logs := t, broker := broker w @ b\<rparr>"
  have "save_model ?od actor w = (Inr [], ?v)"
    using assms save id by (simp add: save_model_def run_atomic run_bnd is_cod_def)
  moreover have "f_all ?od = (\<lambda>r. ?od)" by (rule ext) (simp add: f_all_def)
  then have "order_row ?v k = Some ?od" and "\<forall>j. j \<noteq> k \<longrightarrow> order_row ?v j = order_row w j"
    and "order_logs ?v k = order_logs w k"
    using assms(1) id by (simp_all add: order_row_def find_replaced order_logs_def)
  ultimately show ?thesis by blast
qed

section \<open>Instances\<close>

text \<open>A callback pays the order, the kitchen prepares and packs it, and the counter hands it out.\<close>

definition counter_story :: "(env \<times> desk_call) list" where
  "counter_story = [(demo_env, Shop_Call (Zarinpal_Webhook demo_callback)),
     (demo_env, Kitchen_Action 7 ''start_preparing'' ''cook''), (demo_env, Kitchen_Action 7 ''mark_ready'' ''cook''),
     (demo_env, Pickup_Action 7 ''mark_picked_up'' ''till''), (demo_env, Admin_Action Process_Refunds ''boss'' [7])]"

lemma desk_runs_the_lifecycle_witness:
  "\<exists>od' ms. order_row (desk_run counter_story pay_world) 7 = Some od' \<and>
    order_logs (desk_run counter_story pay_world) 7 = order_logs pay_world 7 @ ms \<and>
    lifecycle_run S_PENDING_PAYMENT (changes_in ms) (ord_status od') \<and> length (changes_in ms) \<le> 7 \<and>
    product_balanced 1 (desk_run counter_story pay_world) \<and> day_balanced 1 10 (desk_run counter_story pay_world)"
  using desk_runs_the_lifecycle [OF _ _ stock_ok_pay_world, of 7 counter_story demo_order]
  by (simp add: counter_story_def order_row_def pay_world_def demo_order_def)

definition cod_order :: order where
  "cod_order = demo_order\<lparr>ord_status := S_PACKAGED, ord_payment_method := PM_COD, ord_payment_status := PS_COD_CONFIRMED\<rparr>"

lemma unpaid_pickup_disappears_witness:
  "\<exists>v m. pickup_action 7 ''mark_picked_up'' ''till'' (pay_world\<lparr>orders := [cod_order]\<rparr>) =
       (Inr (Redirect (Flash Lv_Error ''CR-1'' m)), v) \<and> 7 \<notin> ord_id ` set (pickup_screen_queryset v)"
  using unpaid_pickup_disappears [of "pay_world\<lparr>orders := [cod_order]\<rparr>" 7 cod_order "''till''"]
  by (auto simp: order_row_def cod_order_def demo_order_def is_cod_def)

lemma form_sets_any_status_witness:
  "\<exists>v. save_model (demo_order\<lparr>ord_status := S_DELIVERED\<rparr>) ''boss'' late_world = (Inr [], v) \<and>
    order_logs v 7 = order_logs late_world 7"
  using form_sets_any_status [of late_world 7 "demo_order\<lparr>ord_status := S_CANCELLED\<rparr>" S_DELIVERED "''boss''"]
  by (auto simp: order_row_def late_world_def demo_order_def is_cod_def)

end
