(* ===== verification/Notifications.thy ===== *)
theory Notifications
  imports Providers
begin

text \<open>
  \<open>apps/notifications\<close>: the policies that hold a text message back, its delivery through a provider
  and its log row, templates, retries, e-mails, and the facade \<open>notification_service.py\<close> that order
  events go through. The template engine, the Kavenegar service and the mail backend are fields of the
  settings.
\<close>

section \<open>Settings and external services\<close>

text \<open>The answer of Kavenegar: a request error, or the first \<open>messageid\<close> and the message of \<open>return\<close>.\<close>

datatype kavenegar_answer = Kv_Request_Error string | Kv_Json "string option" "string option"

record sms_settings =
  result_backend :: bool
  sms_provider :: string
  sms_enabled :: bool
  sms_quiet_start :: int
  sms_quiet_end :: int
  time_of_day :: int
  sms_rate_limit :: int
  sms_dedupe_window :: int
  kavenegar_api_key :: string
  kavenegar_send :: "string \<Rightarrow> string \<Rightarrow> kavenegar_answer"
  django_render :: "string \<Rightarrow> dict \<Rightarrow> string"
  email_enabled :: bool
  email_provider :: string
  django_send_mail :: "string \<Rightarrow> string \<Rightarrow> string \<Rightarrow> string option"

section \<open>Providers\<close>

record sms_result =
  sr_success :: bool
  sr_message_id :: string
  sr_error :: string

definition starts_with :: "string \<Rightarrow> string \<Rightarrow> bool" where
  "starts_with p s \<longleftrightarrow> take (length p) s = p"

definition normalize_iran_phone :: "string \<Rightarrow> string" where
  "normalize_iran_phone phone =
     (let ds = filter is_digit phone in
      if starts_with ''98'' ds then ds
      else if starts_with ''0'' ds then ''98'' @ drop 1 ds
      else if starts_with ''9'' ds \<and> length ds = 10 then ''98'' @ ds
      else ds)"

definition kavenegar_provider_send :: "sms_settings \<Rightarrow> string \<Rightarrow> string \<Rightarrow> sms_result P" where
  "kavenegar_provider_send cfg recipient message =
     (case kavenegar_send cfg (normalize_iran_phone recipient) message of
        Kv_Request_Error e \<Rightarrow> raise (Exn SMSDeliveryError (Text e))
      | Kv_Json messageid text \<Rightarrow>
          (case messageid of
             Some i \<Rightarrow>
               if i \<noteq> [] then ret \<lparr>sr_success = True, sr_message_id = i, sr_error = []\<rparr>
               else ret \<lparr>sr_success = False, sr_message_id = [],
                         sr_error = (case text of Some s \<Rightarrow> s | None \<Rightarrow> ''Unknown error'')\<rparr>
           | None \<Rightarrow> ret \<lparr>sr_success = False, sr_message_id = [],
                     sr_error = (case text of Some s \<Rightarrow> s | None \<Rightarrow> ''Unknown error'')\<rparr>))"

definition console_provider_send :: "string \<Rightarrow> string \<Rightarrow> sms_result P" where
  "console_provider_send recipient message =
     ret \<lparr>sr_success = True, sr_message_id = ''console-dev'', sr_error = []\<rparr>"

text \<open>The bound \<open>send\<close> of the configured provider.\<close>

definition get_sms_provider :: "sms_settings \<Rightarrow> (string \<Rightarrow> string \<Rightarrow> sms_result P) P" where
  "get_sms_provider cfg =
     (if sms_provider cfg = ''kavenegar'' then
        (if kavenegar_api_key cfg = [] then
           raise (Exn SMSConfigurationError (Text ''KAVENEGAR_API_KEY is not configured.''))
         else ret (kavenegar_provider_send cfg))
      else if sms_provider cfg = ''console'' then ret console_provider_send
      else raise (Exn SMSConfigurationError (Fmt ''Unsupported SMS provider: {}'' [AStr (sms_provider cfg)])))"

section \<open>Policies\<close>

definition TRANSACTIONAL_EVENTS :: "string list" where
  "TRANSACTIONAL_EVENTS = [''order_created'', ''payment_success'', ''payment_failed'',
     ''order_confirmed_by_shop'', ''order_preparing'', ''order_out_for_delivery'', ''delivered'',
     ''order_cancelled'', ''refund_processed'', ''cod_reminder'']"

definition get_template_category :: "world \<Rightarrow> string \<Rightarrow> sms_category" where
  "get_template_category w code =
     (if code = [] then CAT_MARKETING
      else if code \<in> set TRANSACTIONAL_EVENTS then CAT_ORDER
      else (case sms_templates w code of Some t \<Rightarrow> tpl_category t | None \<Rightarrow> CAT_MARKETING))"

definition in_quiet_hours :: "sms_settings \<Rightarrow> bool" where
  "in_quiet_hours cfg =
     (let current = time_of_day cfg in
      if sms_quiet_start cfg < sms_quiet_end cfg
      then sms_quiet_start cfg \<le> current \<and> current < sms_quiet_end cfg
      else sms_quiet_start cfg \<le> current \<or> current < sms_quiet_end cfg)"

definition seconds :: "int \<Rightarrow> int" where
  "seconds n = n * 1000000"

definition sent_recently :: "env \<Rightarrow> string \<Rightarrow> nat option \<Rightarrow> sms_log \<Rightarrow> bool" where
  "sent_recently env recipient user l \<longleftrightarrow>
     sl_status l = SMS_SENT \<and> now env - seconds 86400 \<le> sl_created_at l \<and>
     (if user \<noteq> None then sl_user l = user else sl_recipient l = recipient)"

definition check_rate_limit :: "sms_settings \<Rightarrow> env \<Rightarrow> string \<Rightarrow> nat option \<Rightarrow> message option P" where
  "check_rate_limit cfg env recipient user =
     (if sms_rate_limit cfg \<le> 0 then ret None
      else
        bnd (gets (\<lambda>w. int (length (filter (sent_recently env recipient user) (sms_logs w))))) (\<lambda>n.
        ret (if sms_rate_limit cfg \<le> n then Some (Text ''rate_limit_exceeded'') else None)))"

definition str_of_json :: "json \<Rightarrow> string" where
  "str_of_json v = (case v of JStr s \<Rightarrow> s | _ \<Rightarrow> [])"

definition order_key :: "nat \<Rightarrow> string \<Rightarrow> string" where
  "order_key k code = digits k @ '':'' @ code"

text \<open>
  \<open>dedupe_key or metadata.get("dedupe_key")\<close>, else the order and the template; keys are texts.
\<close>

definition dedupe_key_of :: "string \<Rightarrow> nat option \<Rightarrow> string \<Rightarrow> dict \<Rightarrow> string" where
  "dedupe_key_of template od key metadata =
     (let k = (if key \<noteq> [] then key else str_of_json (dget metadata ''dedupe_key'')) in
      if k \<noteq> [] then k else (case od of Some j \<Rightarrow> order_key j template | None \<Rightarrow> []))"

definition same_message :: "sms_settings \<Rightarrow> env \<Rightarrow> string \<Rightarrow> string \<Rightarrow> string \<Rightarrow> dict \<Rightarrow> sms_log \<Rightarrow> bool" where
  "same_message cfg env recipient template key metadata l \<longleftrightarrow>
     sl_recipient l = recipient \<and> sl_template l = template \<and>
     sl_message l = str_of_json (dget metadata ''_message_preview'') \<and>
     sl_status l \<in> {SMS_SENT, SMS_PENDING} \<and>
     now env - seconds (sms_dedupe_window cfg) \<le> sl_created_at l \<and>
     dget (sl_metadata l) ''dedupe_key'' = JStr key"

definition sent_for_order :: "nat \<Rightarrow> string \<Rightarrow> sms_log \<Rightarrow> bool" where
  "sent_for_order k template l \<longleftrightarrow>
     sl_order l = Some k \<and> sl_template l = template \<and> sl_status l = SMS_SENT"

definition check_dedupe ::
  "sms_settings \<Rightarrow> env \<Rightarrow> string \<Rightarrow> string \<Rightarrow> nat option \<Rightarrow> string \<Rightarrow> dict \<Rightarrow> message option P" where
  "check_dedupe cfg env recipient template od key0 metadata =
     (if sms_dedupe_window cfg \<le> 0 then ret None
      else
        let key = dedupe_key_of template od key0 metadata in
        if key = [] then ret None
        else
          bnd (gets (\<lambda>w. \<exists>l\<in>set (sms_logs w). same_message cfg env recipient template key metadata l)) (\<lambda>dup.
          if dup then ret (Some (Fmt ''dedupe:{}'' [AStr key]))
          else
            (case od of
               None \<Rightarrow> ret None
             | Some k \<Rightarrow>
                 bnd (gets (\<lambda>w. \<exists>l\<in>set (sms_logs w). sent_for_order k template l)) (\<lambda>sent.
                 ret (if sent then Some (Fmt ''dedupe:order:{}:{}'' [AInt (int k), AStr template])
                      else None)))))"

definition apply_sms_policies :: "sms_settings \<Rightarrow> env \<Rightarrow> string \<Rightarrow> string \<Rightarrow> nat option \<Rightarrow> dict \<Rightarrow> bool \<Rightarrow>
    string \<Rightarrow> nat option \<Rightarrow> (bool \<times> message) P" where
  "apply_sms_policies cfg env recipient template od metadata force key user =
     (if force then ret (True, Text [])
      else
        bnd (gets (\<lambda>w. get_template_category w template)) (\<lambda>category.
        if in_quiet_hours cfg \<and> category \<notin> {CAT_ORDER, CAT_PAYMENT} then ret (False, Text ''quiet_hours'')
        else if template \<notin> set TRANSACTIONAL_EVENTS \<and> in_quiet_hours cfg then
          ret (False, Text ''quiet_hours'')
        else
          bnd (check_rate_limit cfg env recipient user) (\<lambda>limited.
          case limited of
            Some reason \<Rightarrow> ret (False, reason)
          | None \<Rightarrow>
              bnd (check_dedupe cfg env recipient template od key metadata) (\<lambda>dup.
              case dup of
                Some reason \<Rightarrow> ret (False, reason)
              | None \<Rightarrow> ret (True, Text [])))))"

section \<open>Sending\<close>

definition create_log :: "sms_settings \<Rightarrow> env \<Rightarrow> string \<Rightarrow> string \<Rightarrow> string \<Rightarrow> sms_status \<Rightarrow> message \<Rightarrow>
    nat option \<Rightarrow> nat option \<Rightarrow> dict \<Rightarrow> sms_log P" where
  "create_log cfg env template recipient text st err user od metadata =
     bnd fresh_pk (\<lambda>k.
     let l = \<lparr>sl_id = k, sl_provider = sms_provider cfg, sl_template = template, sl_recipient = recipient,
              sl_message = text, sl_status = st, sl_provider_id = [], sl_error = err, sl_user = user,
              sl_order = od, sl_metadata = metadata, sl_created_at = now env\<rparr> in
     bnd (modifies (\<lambda>w. w\<lparr>sms_logs := sms_logs w @ [l]\<rparr>)) (\<lambda>_. ret l))"

text \<open>\<open>log.save(update_fields=...)\<close>; the instance comes back.\<close>

definition save_log :: "sms_log \<Rightarrow> (sms_log \<Rightarrow> sms_log) \<Rightarrow> sms_log P" where
  "save_log l f =
     bnd (modifies (\<lambda>w. w\<lparr>sms_logs := upd_rows (\<lambda>x. sl_id x = sl_id l) f (sms_logs w)\<rparr>)) (\<lambda>_. ret (f l))"

definition log_failed :: "message \<Rightarrow> sms_log \<Rightarrow> sms_log" where
  "log_failed m l = l\<lparr>sl_status := SMS_FAILED, sl_error := m\<rparr>"

definition log_sent :: "string \<Rightarrow> sms_log \<Rightarrow> sms_log" where
  "log_sent i l = l\<lparr>sl_status := SMS_SENT, sl_provider_id := i\<rparr>"

definition deliver :: "sms_settings \<Rightarrow> sms_log \<Rightarrow> string \<Rightarrow> string \<Rightarrow> sms_log P" where
  "deliver cfg l recipient text =
     bnd (try_except
            (bnd (get_sms_provider cfg) (\<lambda>send. bnd (send recipient text) (\<lambda>r. ret (Inr r))))
            (\<lambda>e. ret (Inl e))) (\<lambda>result.
     case result of
       Inl e \<Rightarrow> save_log l (log_failed (StrOf e))
     | Inr r \<Rightarrow>
         if sr_success r then save_log l (log_sent (sr_message_id r))
         else save_log l (log_failed (Text (sr_error r))))"

definition metadata_with_key :: "dict \<Rightarrow> string \<Rightarrow> nat option \<Rightarrow> string \<Rightarrow> dict" where
  "metadata_with_key metadata key od template =
     (if key \<noteq> [] then dict_set ''dedupe_key'' (JStr key) metadata
      else (case od of
        Some k \<Rightarrow>
          if template \<noteq> [] \<and> map_of metadata ''dedupe_key'' = None
          then dict_set ''dedupe_key'' (JStr (order_key k template)) metadata else metadata
      | None \<Rightarrow> metadata))"

definition send_sms :: "sms_settings \<Rightarrow> env \<Rightarrow> string \<Rightarrow> string \<Rightarrow> string \<Rightarrow> nat option \<Rightarrow> nat option \<Rightarrow> dict \<Rightarrow>
    bool \<Rightarrow> string \<Rightarrow> sms_log P" where
  "send_sms cfg env recipient text template user od metadata0 force key =
     (let metadata = metadata_with_key metadata0 key od template in
      if recipient = [] then
        create_log cfg env template [] text SMS_SKIPPED (Text ''Missing phone number.'') user od metadata
      else
        bnd (apply_sms_policies cfg env recipient template od metadata force key user) (\<lambda>(should, reason).
        if \<not> should then create_log cfg env template recipient text SMS_SKIPPED reason user od metadata
        else
          bnd (create_log cfg env template recipient text SMS_PENDING (Text []) user od metadata) (\<lambda>l.
          if \<not> sms_enabled cfg then
            save_log l (\<lambda>x. x\<lparr>sl_status := SMS_SKIPPED, sl_error := Text ''SMS_ENABLED is False.''\<rparr>)
          else deliver cfg l recipient text)))"

definition send_template_sms :: "sms_settings \<Rightarrow> env \<Rightarrow> string \<Rightarrow> string \<Rightarrow> dict \<Rightarrow> nat option \<Rightarrow> nat option \<Rightarrow>
    dict \<Rightarrow> bool \<Rightarrow> string \<Rightarrow> sms_log option P" where
  "send_template_sms cfg env code recipient context user od metadata force key =
     bnd (gets (\<lambda>w. sms_templates w code)) (\<lambda>row.
     case row of
       Some tpl \<Rightarrow>
         if tpl_is_active tpl then
           bnd (send_sms cfg env recipient (django_render cfg (tpl_body tpl) context) code user od metadata
                  force key) (\<lambda>l. ret (Some l))
         else ret None
     | None \<Rightarrow> ret None)"

text \<open>\<open>SMSService.send_event\<close>\<close>

definition send_event :: "sms_settings \<Rightarrow> env \<Rightarrow> string \<Rightarrow> string \<Rightarrow> dict \<Rightarrow> nat option \<Rightarrow> nat option \<Rightarrow> dict \<Rightarrow>
    sms_log option P" where
  "send_event cfg env code recipient context user od metadata =
     send_template_sms cfg env code recipient context user od metadata False
       (case od of Some k \<Rightarrow> order_key k code | None \<Rightarrow> recipient @ '':'' @ code)"

text \<open>
  \<open>metadata.get("retry_count", 0)\<close>. A retry is sent with a new log row; the row that failed is
  only read.
\<close>

definition retry_count_of :: "sms_log \<Rightarrow> int" where
  "retry_count_of l = (case dget (sl_metadata l) ''retry_count'' of JInt n \<Rightarrow> n | _ \<Rightarrow> 0)"

definition retry_metadata :: "sms_log \<Rightarrow> dict" where
  "retry_metadata l = dict_set ''retry_of'' (JInt (int (sl_id l)))
     (dict_set ''retry_count'' (JInt (retry_count_of l + 1)) (sl_metadata l))"

definition retry_log :: "sms_settings \<Rightarrow> env \<Rightarrow> int \<Rightarrow> sms_log \<Rightarrow> int P" where
  "retry_log cfg env max_attempts l =
     (if max_attempts \<le> retry_count_of l then ret 0
      else
        bnd (send_sms cfg env (sl_recipient l) (sl_message l) (sl_template l) (sl_user l) (sl_order l)
               (retry_metadata l) True []) (\<lambda>r.
        ret (if sl_status r = SMS_SENT then 1 else 0)))"

definition failed_logs :: "world \<Rightarrow> sms_log list" where
  "failed_logs w = take 100 (sort_key sl_created_at (filter (\<lambda>l. sl_status l = SMS_FAILED) (sms_logs w)))"

definition retry_failed :: "sms_settings \<Rightarrow> env \<Rightarrow> int \<Rightarrow> int P" where
  "retry_failed cfg env max_attempts =
     bnd (gets failed_logs) (\<lambda>ls.
     bnd (for_collect ls (retry_log cfg env max_attempts)) (\<lambda>ns.
     ret (sum_list ns)))"

section \<open>E-mails\<close>

text \<open>A format string is the list of its literal pieces and fields; an unknown field stays as it is.\<close>

datatype piece = Lit string | Field string

fun str_of_value :: "json \<Rightarrow> string" where
  "str_of_value (JStr s) = s"
| "str_of_value (JInt n) = (if n < 0 then ''-'' @ digits (nat (- n)) else digits (nat n))"
| "str_of_value _ = []"

fun render_piece :: "dict \<Rightarrow> piece \<Rightarrow> string" where
  "render_piece d (Lit s) = s"
| "render_piece d (Field k) =
     (case map_of d k of Some v \<Rightarrow> str_of_value v | None \<Rightarrow> ''{'' @ k @ ''}'')"

definition render_email_template :: "piece list \<Rightarrow> dict \<Rightarrow> string" where
  "render_email_template pieces d = concat (map (render_piece d) pieces)"

definition nl :: string where
  "nl = [CHR 0x0A]"

definition greeting :: "piece list" where
  "greeting = [Lit ''Hello '', Field ''name'', Lit ('','' @ nl @ nl)]"

definition subject :: "string \<Rightarrow> string \<Rightarrow> piece list" where
  "subject before after = [Lit (''CRUMBS -- '' @ before), Field ''order_number'', Lit after]"

definition order_body :: "string \<Rightarrow> string \<Rightarrow> piece list" where
  "order_body before after = greeting @ [Lit before, Field ''order_number'', Lit after]"

definition with_total :: "piece list \<Rightarrow> string \<Rightarrow> piece list" where
  "with_total pieces thanks = pieces @ [Lit (nl @ ''Total: ''), Field ''total'', Lit ('' IRR'' @ nl @ nl @ thanks)]"

definition ORDER_EMAIL_TEMPLATES :: "(string \<times> (piece list \<times> piece list)) list" where
  "ORDER_EMAIL_TEMPLATES =
    [(''order_created'', (subject ''Order '' '' received'',
       with_total (order_body ''Your order '' '' was created.'') ''Thank you for ordering from CRUMBS.'')),
     (''payment_success'', (subject ''Payment received for '' [],
       with_total (order_body ''We received payment for order '' ''.'') ''Thank you.'')),
     (''order_confirmed_by_shop'', (subject ''Order '' '' confirmed'',
       order_body ''Your order '' '' was confirmed by the shop.'')),
     (''order_preparing'', (subject ''Order '' '' is being prepared'',
       order_body ''Your order '' '' is now being prepared.'')),
     (''order_packaged'', (subject ''Order '' '' packaged'',
       order_body ''Your order '' '' has been packaged.'')),
     (''order_out_for_delivery'', (subject ''Order '' '' is out for delivery'',
       order_body ''Your order '' '' is on its way.'')),
     (''delivered'', (subject ''Order '' '' delivered'',
       order_body ''Your order '' '' was delivered. Enjoy!''))]"

text \<open>The Django provider raises what the backend raises; the console provider only logs.\<close>

definition email_provider_send :: "sms_settings \<Rightarrow> string \<Rightarrow> string \<Rightarrow> string \<Rightarrow> (bool \<times> string) P" where
  "email_provider_send cfg recipient subj body =
     (if email_provider cfg = ''console'' then ret (True, [])
      else if recipient = [] then ret (False, ''Missing recipient email.'')
      else (case django_send_mail cfg recipient subj body of
        Some e \<Rightarrow> raise (Exn SMTPException (Text e)) | None \<Rightarrow> ret (True, [])))"

definition send_order_event :: "sms_settings \<Rightarrow> string \<Rightarrow> string \<Rightarrow> dict \<Rightarrow> bool P" where
  "send_order_event cfg code recipient context =
     (if \<not> email_enabled cfg then ret False
      else if recipient = [] then ret False
      else (case map_of ORDER_EMAIL_TEMPLATES code of
        None \<Rightarrow> ret False
      | Some (s, b) \<Rightarrow>
          bnd (email_provider_send cfg recipient (render_email_template s context)
                 (render_email_template b context)) (\<lambda>(success, err).
          bnd (raise_if (\<not> success) (Exn RuntimeError
                 (Text (if err \<noteq> [] then err else ''Email delivery failed.'')))) (\<lambda>_.
          ret True))))"

section \<open>The facade\<close>

record notification =
  nt_sms_log :: "nat option"
  nt_email_sent :: bool
  nt_errors :: "(string \<times> exn) list"

definition guarded :: "'a P \<Rightarrow> (exn + 'a) P" where
  "guarded m = try_except (bnd m (\<lambda>x. ret (Inr x))) (\<lambda>e. ret (Inl e))"

definition notify_order_event :: "sms_settings \<Rightarrow> env \<Rightarrow> string \<Rightarrow> order \<Rightarrow> dict \<Rightarrow> string \<Rightarrow> notification P" where
  "notify_order_event cfg env code od context phone =
     bnd (if phone \<noteq> [] then
            guarded (send_event cfg env code phone context (ord_user od) (Some (ord_id od)) [])
          else ret (Inr None)) (\<lambda>sms.
     bnd (if ord_email od \<noteq> [] then guarded (send_order_event cfg code (ord_email od) context)
          else ret (Inr False)) (\<lambda>email.
     ret \<lparr>nt_sms_log = (case sms of Inr (Some l) \<Rightarrow> Some (sl_id l) | _ \<Rightarrow> None),
          nt_email_sent = (case email of Inr b \<Rightarrow> b | Inl e \<Rightarrow> False),
          nt_errors = (case sms of Inl e \<Rightarrow> [(''sms'', e)] | Inr r \<Rightarrow> []) @
            (case email of Inl e \<Rightarrow> [(''email'', e)] | Inr b \<Rightarrow> [])\<rparr>))"

end
