(* ===== verification/Tasks.thy ===== *)
theory Tasks
  imports Notifications Checkout
begin

text \<open>
  The background tasks: the task that fans an order's lifecycle events out
  (\<open>apps/orders/tasks.py\<close>), the message tasks of \<open>apps/notifications\<close>, campaigns, abandoned
  carts and customer segments (\<open>apps/growth/services.py\<close>, \<open>tasks.py\<close>), and the worker with
  the log of \<open>apps/core/tasks\<close>.
\<close>

section \<open>Sending tasks\<close>

text \<open>\<open>task.apply_async(kwargs=..., task_id=..., queue=...)\<close>\<close>

definition apply_async :: "string \<Rightarrow> task_key \<Rightarrow> string \<Rightarrow> task_args \<Rightarrow> unit P" where
  "apply_async name key queue args = modifies (\<lambda>w. w\<lparr>broker := broker w @
     [\<lparr>msg_task = name, msg_key = key, msg_queue = queue, msg_args = args\<rparr>]\<rparr>)"

definition default_queue :: string where
  "default_queue = ''celery''"

definition sms_task_id :: "string \<Rightarrow> task_key" where
  "sms_task_id key = TaskId (take 255 (''sms:'' @ key))"

definition dispatch_sms_event :: "string \<Rightarrow> string \<Rightarrow> dict \<Rightarrow> nat option \<Rightarrow> nat option \<Rightarrow> string option \<Rightarrow> unit P" where
  "dispatch_sms_event code recipient context user od key0 =
     (let key = (case key0 of
            Some k \<Rightarrow> k
          | None \<Rightarrow> (case od of Some k \<Rightarrow> order_key k code | None \<Rightarrow> recipient @ '':'' @ code)) in
      apply_async ''notifications.tasks.send_sms_event_task'' (sms_task_id key) ''sms''
        (Event_Sms_Args code recipient context user od key))"

definition dispatch_template_sms ::
  "string \<Rightarrow> string \<Rightarrow> dict \<Rightarrow> nat option \<Rightarrow> nat option \<Rightarrow> dict \<Rightarrow> string option \<Rightarrow> unit P" where
  "dispatch_template_sms code recipient context user od metadata key0 =
     (let key = (case key0 of Some k \<Rightarrow> k | None \<Rightarrow> recipient @ '':'' @ code) in
      apply_async ''notifications.tasks.send_template_sms_task'' (sms_task_id key) ''sms''
        (Template_Sms_Args code recipient context user od metadata key))"

definition dispatch_raw_sms ::
  "string \<Rightarrow> string \<Rightarrow> string \<Rightarrow> nat option \<Rightarrow> nat option \<Rightarrow> dict \<Rightarrow> string option \<Rightarrow> unit P" where
  "dispatch_raw_sms recipient text template user od metadata key0 =
     (let key = (case key0 of
            Some k \<Rightarrow> k | None \<Rightarrow> recipient @ '':'' @ (if template \<noteq> [] then template else ''raw'')) in
      apply_async ''notifications.tasks.send_sms_task'' (sms_task_id key) ''sms''
        (Raw_Sms_Args recipient text template user od metadata key))"

text \<open>\<open>SMSService.enqueue_event\<close>\<close>

definition enqueue_event :: "string \<Rightarrow> string \<Rightarrow> dict \<Rightarrow> nat option \<Rightarrow> nat option \<Rightarrow> string option \<Rightarrow> unit P" where
  "enqueue_event code recipient context user od key = dispatch_sms_event code recipient context user od key"

section \<open>Message tasks\<close>

text \<open>\<open>filter(pk=...).first() if ... else None\<close>\<close>

definition user_if_any :: "world \<Rightarrow> nat option \<Rightarrow> nat option" where
  "user_if_any w u = (case u of Some k \<Rightarrow> (if users w k = None then None else Some k) | None \<Rightarrow> None)"

definition order_if_any :: "world \<Rightarrow> nat option \<Rightarrow> nat option" where
  "order_if_any w x = (case x of Some k \<Rightarrow> (if order_row w k = None then None else Some k) | None \<Rightarrow> None)"

definition task_metadata :: "dict \<Rightarrow> string \<Rightarrow> dict" where
  "task_metadata d i = dict_set ''task_id'' (JStr i) d"

text \<open>The dedupe key that comes with an event task is computed again by \<open>send_event\<close>.\<close>

definition send_sms_event_task ::
  "sms_settings \<Rightarrow> env \<Rightarrow> string \<Rightarrow> string \<Rightarrow> string \<Rightarrow> dict \<Rightarrow> nat option \<Rightarrow> nat option \<Rightarrow> unit P" where
  "send_sms_event_task cfg env tid code recipient context user od =
     bnd (gets (\<lambda>w. (user_if_any w user, order_if_any w od))) (\<lambda>(u, k).
     bnd (send_event cfg env code recipient context u k (task_metadata [] tid)) (\<lambda>_. ret ()))"

definition send_sms_task ::
  "sms_settings \<Rightarrow> env \<Rightarrow> string \<Rightarrow> string \<Rightarrow> string \<Rightarrow> string \<Rightarrow> nat option \<Rightarrow> nat option \<Rightarrow> dict \<Rightarrow> string \<Rightarrow> unit P" where
  "send_sms_task cfg env tid recipient text template user od metadata key =
     bnd (gets (\<lambda>w. (user_if_any w user, order_if_any w od))) (\<lambda>(u, k).
     bnd (send_sms cfg env recipient text template u k (task_metadata metadata tid) False key) (\<lambda>_. ret ()))"

definition send_template_sms_task ::
  "sms_settings \<Rightarrow> env \<Rightarrow> string \<Rightarrow> string \<Rightarrow> string \<Rightarrow> dict \<Rightarrow> nat option \<Rightarrow> nat option \<Rightarrow> dict \<Rightarrow> string \<Rightarrow> unit P" where
  "send_template_sms_task cfg env tid code recipient context user od metadata key =
     bnd (gets (\<lambda>w. (user_if_any w user, order_if_any w od))) (\<lambda>(u, k).
     bnd (send_template_sms cfg env code recipient context u k (task_metadata metadata tid) False key) (\<lambda>_.
     ret ()))"

definition retry_failed_sms_task :: "sms_settings \<Rightarrow> env \<Rightarrow> int P" where
  "retry_failed_sms_task cfg env = retry_failed cfg env 3"

text \<open>The named entries of \<open>NotificationService\<close>\<close>

definition notify_order_created :: "sms_settings \<Rightarrow> env \<Rightarrow> order \<Rightarrow> string \<Rightarrow> dict \<Rightarrow> notification P" where
  "notify_order_created cfg env od phone context = notify_order_event cfg env ''order_created'' od context phone"

definition notify_order_status_updated :: "sms_settings \<Rightarrow> env \<Rightarrow> order \<Rightarrow> string \<Rightarrow> dict \<Rightarrow> string \<Rightarrow> notification P" where
  "notify_order_status_updated cfg env od phone context code = notify_order_event cfg env code od context phone"

definition notify_payment_received :: "sms_settings \<Rightarrow> env \<Rightarrow> order \<Rightarrow> string \<Rightarrow> dict \<Rightarrow> notification P" where
  "notify_payment_received cfg env od phone context = notify_order_event cfg env ''payment_success'' od context phone"

section \<open>Order lifecycle events\<close>

definition status_label :: "order_status \<Rightarrow> string" where
  "status_label st = status_value st @ '' (fa)''"

definition context_dict :: "sms_context \<Rightarrow> dict" where
  "context_dict c = [(''name'', JStr (ctx_name c)), (''order_number'', JStr (ctx_order_number c)),
     (''total'', JInt (ctx_total c))] @
     (case ctx_status c of Some st \<Rightarrow> [(''status'', JStr (status_label st))] | None \<Rightarrow> [])"

text \<open>A cart belongs to a user at most once; a bulk update sends no signal.\<close>

definition mark_abandoned_cart_recovered :: "order \<Rightarrow> unit P" where
  "mark_abandoned_cart_recovered od = (case ord_user od of
     None \<Rightarrow> ret ()
   | Some u \<Rightarrow>
       bnd (gets (\<lambda>w. filter (\<lambda>c. cart_user c = Some u) (carts w))) (\<lambda>rows.
       case rows of
         [] \<Rightarrow> ret ()
       | [c] \<Rightarrow>
           bnd (gets (\<lambda>w. g_trackers (growth w) (cart_id c))) (\<lambda>row.
           case row of
             None \<Rightarrow> ret ()
           | Some t \<Rightarrow> modifies (put_tracker (cart_id c)
               (t\<lparr>tr_status := TR_RECOVERED, tr_recovered_order := Some (ord_id od)\<rparr>)))
       | _ \<Rightarrow> raise (Exn MultipleObjectsReturned (Text ''Cart''))))"

record lifecycle_report =
  lr_sms :: int
  lr_email :: int
  lr_loyalty :: int
  lr_analytics :: int
  lr_cart :: int
  lr_growth :: int

definition count_notification :: "notification \<Rightarrow> lifecycle_report \<Rightarrow> lifecycle_report" where
  "count_notification n r = r\<lparr>lr_sms := lr_sms r + (if nt_sms_log n \<noteq> None then 1 else 0),
     lr_email := lr_email r + (if nt_email_sent n then 1 else 0)\<rparr>"

fun process_event :: "sms_settings \<Rightarrow> env \<Rightarrow> order \<Rightarrow> event \<Rightarrow> lifecycle_report \<Rightarrow> lifecycle_report P" where
  "process_event cfg env od (SmsEvent code phone ctx u k) r =
     bnd (guarded (notify_order_event cfg env code od (context_dict ctx) phone)) (\<lambda>res.
     ret (case res of Inr n \<Rightarrow> count_notification n r | Inl e \<Rightarrow> r))"
| "process_event cfg env od (LoyaltyAward k) r =
     bnd (apply_async ''loyalty.tasks.award_loyalty_points_task''
            (TaskId (take 255 (''loyalty:order:'' @ digits k))) default_queue (Order_Arg k)) (\<lambda>_.
     ret (r\<lparr>lr_loyalty := lr_loyalty r + 1\<rparr>))"
| "process_event cfg env od (AbandonedCartRecovered k) r =
     bnd (mark_abandoned_cart_recovered od) (\<lambda>_. ret (r\<lparr>lr_cart := lr_cart r + 1\<rparr>))"
| "process_event cfg env od (AnalyticsTouch k name) r =
     bnd (apply_async ''growth.tasks.record_order_analytics_event''
            (TaskId (take 255 (''analytics:order:'' @ digits k @ '':'' @ name))) ''analytics''
            (Analytics_Args k name)) (\<lambda>_.
     ret (r\<lparr>lr_analytics := lr_analytics r + 1\<rparr>))"
| "process_event cfg env od (GrowthFinalize k) r =
     bnd (apply_async ''growth.tasks.finalize_growth_order_task''
            (TaskId (take 255 (''growth:finalize:'' @ digits k))) ''analytics'' (Order_Arg k)) (\<lambda>_.
     ret (r\<lparr>lr_growth := lr_growth r + 1\<rparr>))"

primrec process_events ::
  "sms_settings \<Rightarrow> env \<Rightarrow> order \<Rightarrow> event list \<Rightarrow> lifecycle_report \<Rightarrow> lifecycle_report P" where
  "process_events cfg env od [] r = ret r"
| "process_events cfg env od (e # es) r =
     bnd (process_event cfg env od e r) (process_events cfg env od es)"

text \<open>\<open>None\<close> when the order is gone.\<close>

definition process_order_lifecycle_events ::
  "sms_settings \<Rightarrow> env \<Rightarrow> nat \<Rightarrow> event list \<Rightarrow> lifecycle_report option P" where
  "process_order_lifecycle_events cfg env k events =
     bnd (gets (\<lambda>w. order_row w k)) (\<lambda>row.
     case row of
       None \<Rightarrow> ret None
     | Some od \<Rightarrow>
         bnd (process_events cfg env od events \<lparr>lr_sms = 0, lr_email = 0, lr_loyalty = 0, lr_analytics = 0,
                lr_cart = 0, lr_growth = 0\<rparr>) (\<lambda>r. ret (Some r)))"

section \<open>The worker\<close>

text \<open>\<open>update_or_create(task_id=...)\<close> of \<open>mark_task_started\<close> and the other marks\<close>

definition mark_task :: "task_key \<Rightarrow> string \<Rightarrow> task_status \<Rightarrow> unit P" where
  "mark_task key name st =
     modifies (\<lambda>w. if \<exists>l\<in>set (task_logs w). tl_key l = key
       then w\<lparr>task_logs := upd_rows (\<lambda>l. tl_key l = key)
              (\<lambda>l. l\<lparr>tl_status := st, tl_task_name := (if name \<noteq> [] then name else tl_task_name l)\<rparr>) (task_logs w)\<rparr>
       else w\<lparr>task_logs := task_logs w @ [\<lparr>tl_key = key, tl_task_name = name, tl_status = st\<rparr>]\<rparr>)"

definition task_id_text :: "task_key \<Rightarrow> string" where
  "task_id_text key = (case key of TaskId s \<Rightarrow> s | _ \<Rightarrow> ''order-lifecycle'')"

text \<open>
  What a task returns: plain data, or a dictionary that holds rows of the database, as
  \<open>finalize_on_payment\<close> does for the redemption of a coupon and for a referral.
\<close>

datatype task_result = Plain_Result | Result_With_Rows

definition growth_task_result :: "env \<Rightarrow> nat \<Rightarrow> task_result P" where
  "growth_task_result env k =
     bnd (gets (\<lambda>w. order_row w k)) (\<lambda>row.
     case row of
       None \<Rightarrow> ret Plain_Result
     | Some od \<Rightarrow>
         bnd (finalize_on_payment env od) (\<lambda>r.
         ret (if gr_coupon r = None \<and> gr_referral r = None then Plain_Result else Result_With_Rows)))"

lemma growth_task_state: "snd (growth_task_result env k w) = snd (finalize_growth_order_task env k w)"
  by (simp add: growth_task_result_def finalize_growth_order_task_def run_bnd finalize_growth_def
      split: option.split sum.split prod.split)

definition run_message :: "sms_settings \<Rightarrow> env \<Rightarrow> task_message \<Rightarrow> task_result P" where
  "run_message cfg env m = (case msg_args m of
     Lifecycle_Args k events \<Rightarrow>
       bnd (process_order_lifecycle_events cfg env k events) (\<lambda>_. ret Plain_Result)
   | Order_Arg k \<Rightarrow>
       if msg_task m = ''loyalty.tasks.award_loyalty_points_task''
       then bnd (award_loyalty_points_task env k) (\<lambda>_. ret Plain_Result)
       else growth_task_result env k
   | Analytics_Args k name \<Rightarrow> ret Plain_Result
   | Retry_Sms_Args \<Rightarrow> bnd (retry_failed_sms_task cfg env) (\<lambda>_. ret Plain_Result)
   | Event_Sms_Args code recipient context u k key \<Rightarrow>
       bnd (send_sms_event_task cfg env (task_id_text (msg_key m)) code recipient context u k) (\<lambda>_.
       ret Plain_Result)
   | Template_Sms_Args code recipient context u k metadata key \<Rightarrow>
       bnd (send_template_sms_task cfg env (task_id_text (msg_key m)) code recipient context u k metadata key)
         (\<lambda>_. ret Plain_Result)
   | Raw_Sms_Args recipient text template u k metadata key \<Rightarrow>
       bnd (send_sms_task cfg env (task_id_text (msg_key m)) recipient text template u k metadata key) (\<lambda>_.
       ret Plain_Result))"

definition MAX_RETRIES :: nat where
  "MAX_RETRIES = 5"

datatype task_outcome = Task_Done | Task_Retry | Task_Dead | Task_Unrecorded

text \<open>
  One delivery of a message: \<open>before_start\<close>, the task, and \<open>on_success\<close>, \<open>on_retry\<close> or
  \<open>on_failure\<close>. A task is not a transaction of its own. Rows of the database cannot be encoded as JSON: with
  a result backend Celery finds that out when it stores the result, before \<open>on_success\<close>, and calls
  \<open>on_failure\<close>, without a retry; without one \<open>on_success\<close> raises when it stores the result in the
  \<open>JSONField\<close> of the log, whose row stays \<open>STARTED\<close>.
\<close>

definition record_result :: "sms_settings \<Rightarrow> nat \<Rightarrow> task_message \<Rightarrow> task_result \<Rightarrow> task_outcome P" where
  "record_result cfg retries m r =
     (if r = Plain_Result then bnd (mark_task (msg_key m) (msg_task m) T_SUCCESS) (\<lambda>_. ret Task_Done)
      else if result_backend cfg then
        bnd (mark_task (msg_key m) (msg_task m) (if MAX_RETRIES \<le> retries then T_DEAD else T_FAILURE)) (\<lambda>_.
        ret Task_Unrecorded)
      else ret Task_Unrecorded)"

definition execute_message :: "sms_settings \<Rightarrow> env \<Rightarrow> nat \<Rightarrow> task_message \<Rightarrow> task_outcome P" where
  "execute_message cfg env retries m =
     bnd (mark_task (msg_key m) (msg_task m) T_STARTED) (\<lambda>_.
     bnd (guarded (run_message cfg env m)) (\<lambda>res.
     case res of
       Inr r \<Rightarrow> record_result cfg retries m r
     | Inl e \<Rightarrow>
         if retries < MAX_RETRIES then
           bnd (mark_task (msg_key m) (msg_task m) T_RETRY) (\<lambda>_. ret Task_Retry)
         else bnd (mark_task (msg_key m) (msg_task m) T_DEAD) (\<lambda>_. ret Task_Dead)))"

end
