(* ===== verification/Retention.thy ===== *)
theory Retention
  imports Tasks
begin

text \<open>
  The periodic jobs that win customers back: reminders of abandoned carts, customer segments and
  customer values (\<open>apps/growth/services.py\<close>, \<open>clv_service.py\<close>), and promotion campaigns
  (\<open>apps/growth/tasks.py\<close>). The rows of the user table come in the order of the query \<open>us\<close>.
\<close>

section \<open>Abandoned carts\<close>

record retention_settings =
  abandoned_cart_hours :: int
  abandoned_cart_step2_hours :: int
  abandoned_cart_high_value :: money
  abandoned_cart_max_reminders :: int
  site_url :: string

definition hours :: "int \<Rightarrow> int" where
  "hours n = n * 3600000000"

text \<open>The trackers of the query with their carts, by \<open>-last_activity_at\<close>.\<close>

definition remindable :: "retention_settings \<Rightarrow> tracker \<Rightarrow> bool" where
  "remindable rs t \<longleftrightarrow> tr_status t \<in> {TR_ACTIVE, TR_REMINDED} \<and>
     tr_reminder_count t < abandoned_cart_max_reminders rs \<and> tr_phone t \<noteq> []"

definition remindable_trackers :: "retention_settings \<Rightarrow> world \<Rightarrow> (cart \<times> tracker) list" where
  "remindable_trackers rs w =
     sort_key (\<lambda>(c, t). - tr_last_activity t) (List.map_filter
       (\<lambda>c. case g_trackers (growth w) (cart_id c) of
          Some t \<Rightarrow> if remindable rs t then Some (c, t) else None | None \<Rightarrow> None) (carts w))"

definition is_due :: "retention_settings \<Rightarrow> env \<Rightarrow> tracker \<Rightarrow> bool" where
  "is_due rs env t \<longleftrightarrow>
     (let idle = now env - tr_last_activity t in
      if tr_funnel_step t = 0 then hours (abandoned_cart_hours rs) \<le> idle
      else hours (abandoned_cart_step2_hours rs) \<le> idle)"

definition first_name_of :: "world \<Rightarrow> nat \<Rightarrow> string" where
  "first_name_of w u = (case users w u of Some x \<Rightarrow> user_first_name x | None \<Rightarrow> [])"

definition reminder_context :: "retention_settings \<Rightarrow> world \<Rightarrow> tracker \<Rightarrow> dict" where
  "reminder_context rs w t =
     [(''name'', JStr (case tr_user t of Some u \<Rightarrow> first_name_of w u | None \<Rightarrow> customer_fa)),
      (''item_count'', JInt (tr_item_count t)), (''subtotal'', JInt (int_of_money (tr_subtotal t))),
      (''shop_url'', JStr (site_url rs))]"

text \<open>
  The coupon of the last step: the one offered before, or the newest active abandoned-cart coupon,
  which is also put on the cart of a user; saving the cart syncs its tracker.
\<close>

definition offered_coupon :: "env \<Rightarrow> cart \<Rightarrow> tracker \<Rightarrow> coupon option P" where
  "offered_coupon env c t =
     bnd (get_growth (\<lambda>g. case tr_offered_coupon t of
            Some k \<Rightarrow> find (\<lambda>x. cpn_id x = k) (g_coupons g) | None \<Rightarrow> None)) (\<lambda>given.
     case given of
       Some x \<Rightarrow> ret (Some x)
     | None \<Rightarrow>
         bnd (get_growth (\<lambda>g. latest (\<lambda>x. cpn_campaign x = CT_ABANDONED_CART \<and> cpn_is_active x)
                (g_coupons g))) (\<lambda>row.
         case row of
           None \<Rightarrow> ret None
         | Some x \<Rightarrow>
             bnd (whenever (tr_user t \<noteq> None)
                    (bnd (save_cart c (\<lambda>r. r\<lparr>cart_coupon_code := cpn_code x\<rparr>)) (\<lambda>_.
                     sync_abandoned_cart_tracker env (c\<lparr>cart_coupon_code := cpn_code x\<rparr>)))) (\<lambda>_.
             ret (Some x))))"

text \<open>The template, the context and the tracker instance of one step.\<close>

definition reminder_step ::
  "retention_settings \<Rightarrow> env \<Rightarrow> cart \<Rightarrow> tracker \<Rightarrow> dict \<Rightarrow> (string \<times> dict \<times> tracker) P" where
  "reminder_step rs env c t ctx =
     (if tr_funnel_step t = 0 then ret (''abandoned_cart'', ctx, t\<lparr>tr_funnel_step := 1\<rparr>)
      else if tr_funnel_step t = 1 then ret (''abandoned_cart_step2'', ctx, t\<lparr>tr_funnel_step := 2\<rparr>)
      else if abandoned_cart_high_value rs \<le> tr_subtotal t then
        bnd (offered_coupon env c t) (\<lambda>row.
        case row of
          Some x \<Rightarrow> ret (''abandoned_cart_discount'',
            dict_set ''discount'' (JInt (int_of_money (cpn_value x)))
              (dict_set ''coupon_code'' (JStr (cpn_code x)) ctx),
            t\<lparr>tr_offered_coupon := Some (cpn_id x), tr_funnel_step := 3\<rparr>)
        | None \<Rightarrow> ret (''abandoned_cart'', ctx, t\<lparr>tr_funnel_step := 3\<rparr>))
      else ret (''abandoned_cart'', ctx, t))"

text \<open>\<open>tracker.save(update_fields=...)\<close>\<close>

definition save_tracker :: "nat \<Rightarrow> (tracker \<Rightarrow> tracker) \<Rightarrow> unit P" where
  "save_tracker c f = set_growth (\<lambda>g. g\<lparr>g_trackers := (g_trackers g)(c := map_option f (g_trackers g c))\<rparr>)"

definition reminded :: "env \<Rightarrow> tracker \<Rightarrow> tracker \<Rightarrow> tracker" where
  "reminded env t r = r\<lparr>tr_reminder_count := tr_reminder_count t + 1, tr_last_reminder := Some (now env),
     tr_status := TR_REMINDED, tr_funnel_step := tr_funnel_step t,
     tr_offered_coupon := tr_offered_coupon t\<rparr>"

definition reminder_key :: "tracker \<Rightarrow> string" where
  "reminder_key t = ''abandoned:'' @ digits (tr_id t) @ '':'' @ digits (nat (tr_reminder_count t + 1))"

definition remind_cart :: "retention_settings \<Rightarrow> env \<Rightarrow> cart \<times> tracker \<Rightarrow> int P" where
  "remind_cart rs env = (\<lambda>(c, t).
     bnd (gets (\<lambda>w. is_empty_cart w (cart_id c))) (\<lambda>empty.
     if empty then bnd (save_tracker (cart_id c) (\<lambda>r. r\<lparr>tr_status := TR_EXPIRED\<rparr>)) (\<lambda>_. ret 0)
     else if \<not> is_due rs env t then ret 0
     else
       bnd (gets (\<lambda>w. reminder_context rs w t)) (\<lambda>ctx0.
       bnd (reminder_step rs env c t ctx0) (\<lambda>(code, ctx, t').
       bnd (dispatch_template_sms code (tr_phone t) ctx (tr_user t) None
              [(''tracker_id'', JInt (int (tr_id t))), (''funnel_step'', JInt (tr_funnel_step t'))]
              (Some (reminder_key t))) (\<lambda>_.
       bnd (track_event GE_SMS_SENT (tr_user t) (Some (cart_id c)) None) (\<lambda>_.
       bnd (save_tracker (cart_id c) (reminded env t')) (\<lambda>_.
       ret 1)))))))"

definition process_abandoned_cart_reminders :: "retention_settings \<Rightarrow> env \<Rightarrow> int P" where
  "process_abandoned_cart_reminders rs env =
     bnd (gets (remindable_trackers rs)) (\<lambda>ts.
     bnd (for_collect ts (remind_cart rs env)) (\<lambda>ns.
     ret (sum_list ns)))"

section \<open>Segments\<close>

definition days_between :: "timestamp \<Rightarrow> timestamp \<Rightarrow> int" where
  "days_between t s = (t - s) div 86400000000"

definition classify_user_segment :: "env \<Rightarrow> world \<Rightarrow> nat \<Rightarrow> segment_code" where
  "classify_user_segment env w u =
     (let ods = paid_orders_of w u; spend = sum_list (map ord_total ods);
          last = Max (ord_created_at ` set ods);
          level = (case g_accounts (growth w) u of Some a \<Rightarrow> la_tier a | None \<Rightarrow> TIER_NORMAL) in
      if ods = [] then SEG_NEW
      else if level = TIER_GOLD \<or> 500000000 \<le> spend then SEG_VIP
      else if 90 < days_between (now env) last then SEG_DORMANT
      else if 45 < days_between (now env) last then SEG_AT_RISK
      else SEG_ACTIVE)"

definition active_users :: "nat list \<Rightarrow> world \<Rightarrow> nat list" where
  "active_users us w = filter (\<lambda>u. case users w u of Some x \<Rightarrow> user_is_active x | None \<Rightarrow> False) us"

text \<open>A membership is a pair of user and segment; the last one of \<open>segments\<close> with a code counts.\<close>

definition segment_of :: "segment list \<Rightarrow> segment_code \<Rightarrow> nat option" where
  "segment_of segs code = map_option seg_id (latest (\<lambda>s. seg_code s = code \<and> seg_is_active s) segs)"

definition refresh_user_segment :: "env \<Rightarrow> segment list \<Rightarrow> nat \<Rightarrow> int P" where
  "refresh_user_segment env segs u =
     bnd (gets (\<lambda>w. classify_user_segment env w u)) (\<lambda>code.
     case segment_of segs code of
       None \<Rightarrow> ret 0
     | Some s \<Rightarrow>
         bnd (get_growth (\<lambda>g. find (\<lambda>(x, y). x = u) (g_memberships g))) (\<lambda>current.
         if current \<noteq> None \<and> snd (the current) = s then ret 0
         else
           bnd (set_growth (\<lambda>g. g\<lparr>g_memberships := filter (\<lambda>(x, y). x \<noteq> u) (g_memberships g)\<rparr>)) (\<lambda>_.
           bnd (set_growth (\<lambda>g. g\<lparr>g_memberships := g_memberships g @ [(u, s)]\<rparr>)) (\<lambda>_.
           ret 1))))"

definition refresh_customer_segments :: "env \<Rightarrow> nat list \<Rightarrow> int P" where
  "refresh_customer_segments env us =
     bnd (get_growth g_segments) (\<lambda>segs.
     bnd (gets (active_users us)) (\<lambda>vs.
     bnd (for_collect vs (refresh_user_segment env segs)) (\<lambda>ns.
     ret (sum_list ns))))"

text \<open>\<open>CLVService.refresh_all\<close>\<close>

definition refresh_all_clv :: "nat list \<Rightarrow> int P" where
  "refresh_all_clv us =
     bnd (gets (active_users us)) (\<lambda>vs.
     bnd (for_each vs (\<lambda>u. bnd (calculate_clv u) (\<lambda>_. ret ()))) (\<lambda>_.
     ret (int (length vs))))"

text \<open>The tasks of \<open>apps/growth/tasks.py\<close> that run these jobs\<close>

definition send_abandoned_cart_sms :: "retention_settings \<Rightarrow> env \<Rightarrow> int P" where
  "send_abandoned_cart_sms rs env = process_abandoned_cart_reminders rs env"

definition refresh_customer_segments_task :: "env \<Rightarrow> nat list \<Rightarrow> int P" where
  "refresh_customer_segments_task env us = refresh_customer_segments env us"

definition refresh_clv_profiles_task :: "nat list \<Rightarrow> int P" where
  "refresh_clv_profiles_task us = refresh_all_clv us"

section \<open>Campaigns\<close>

datatype campaign_outcome = Campaign_Not_Found | Already_Sent | Campaign_Queued int

definition campaign_users :: "nat list \<Rightarrow> campaign \<Rightarrow> world \<Rightarrow> nat list" where
  "campaign_users us cp w = (case cp_segment cp of
     None \<Rightarrow> active_users us w
   | Some s \<Rightarrow> filter (\<lambda>u. (u, s) \<in> set (g_memberships (growth w))) (active_users us w))"

definition send_campaign_message :: "campaign \<Rightarrow> nat \<Rightarrow> int P" where
  "send_campaign_message cp u =
     bnd (gets (\<lambda>w. phone_of_user w (Some u))) (\<lambda>phone.
     if phone = [] then ret 0
     else
       bnd (dispatch_raw_sms phone (cp_message cp) ''promotion'' (Some u) None []
              (Some (''promo:'' @ digits (cp_id cp) @ '':'' @ digits u))) (\<lambda>_. ret 1))"

definition send_promotion_campaign_task :: "env \<Rightarrow> nat list \<Rightarrow> nat \<Rightarrow> campaign_outcome P" where
  "send_promotion_campaign_task env us k =
     bnd (gets (\<lambda>w. find (\<lambda>c. cp_id c = k) (campaigns w))) (\<lambda>row.
     case row of
       None \<Rightarrow> ret Campaign_Not_Found
     | Some cp \<Rightarrow>
         if cp_sent cp then ret Already_Sent
         else
           bnd (gets (campaign_users us cp)) (\<lambda>vs.
           bnd (for_collect vs (send_campaign_message cp)) (\<lambda>ns.
           bnd (modifies (\<lambda>w. w\<lparr>campaigns := upd_rows (\<lambda>c. cp_id c = k)
                  (\<lambda>c. c\<lparr>cp_sent := True, cp_sent_count := sum_list ns, cp_sent_at := Some (now env)\<rparr>)
                  (campaigns w)\<rparr>)) (\<lambda>_.
           ret (Campaign_Queued (sum_list ns))))))"

end
