(* ===== verification/Rounding.thy ===== *)
theory Rounding
  imports Complex_Main Models
begin

text \<open>
  The inexact arithmetic of Python that the intelligence services use: quotients and products of
  \<open>Decimal\<close> values, which the default context rounds to 28 significant digits half to even,
  and of \<open>float\<close> values, which are rounded to 53 significant bits half to even. A value is
  the rational number it stands for; exponent overflow and subnormal numbers do not occur at these
  magnitudes and are not modelled. The lemmas bound the error of a rounding, relative to the value.
\<close>

section \<open>Rounding to an integer\<close>

definition half_even :: "rat \<Rightarrow> int" where
  "half_even x = (let (n, d) = quotient_of x in round_half_even n d)"

lemma half_even_close: "\<bar>of_int (half_even x) - x\<bar> \<le> 1 / 2"
proof -
  obtain n d where q: "quotient_of x = (n, d)" by fastforce
  then have d: "0 < d" and x: "x = of_int n / of_int d"
    by (auto dest: quotient_of_denom_pos quotient_of_div)
  let ?r = "round_half_even n d"
  have d': "(0::rat) < of_int d" using d by simp
  have "2 * n - d \<le> 2 * (d * ?r)" and "2 * (d * ?r) \<le> 2 * n + d"
    using round_half_even_bounds [OF d, of n] by auto
  then have "(of_int (2 * n - d) :: rat) \<le> of_int (2 * (d * ?r))"
    and "(of_int (2 * (d * ?r)) :: rat) \<le> of_int (2 * n + d)"
    by (simp_all only: of_int_le_iff)
  then have "2 * of_int n - of_int d \<le> 2 * (of_int d * of_int ?r :: rat)"
    and "2 * (of_int d * of_int ?r :: rat) \<le> 2 * of_int n + of_int d"
    by simp_all
  then have "of_int ?r - x \<le> 1 / 2" and "- (1 / 2) \<le> of_int ?r - x"
    using d' by (simp_all add: x field_simps)
  then have "\<bar>of_int ?r - x\<bar> \<le> 1 / 2" by linarith
  moreover have "half_even x = ?r" by (simp add: half_even_def q)
  ultimately show ?thesis by simp
qed

lemma half_even_nonneg: "0 \<le> x \<Longrightarrow> 0 \<le> half_even x"
proof -
  assume x: "0 \<le> x"
  obtain n d where q: "quotient_of x = (n, d)" by fastforce
  then have d: "0 < d" and e: "x = of_int n / of_int d"
    by (auto dest: quotient_of_denom_pos quotient_of_div)
  have "0 \<le> n" using x d unfolding e by (simp add: zero_le_divide_iff)
  then show ?thesis using d by (simp add: half_even_def q round_half_even_nonneg)
qed

lemma half_even_int [simp]: "half_even (of_int n) = n"
  by (simp add: half_even_def round_half_even_def Let_def)

lemma half_even_0 [simp]: "half_even 0 = 0"
  using half_even_int [of 0] by simp

section \<open>Rounding to significant digits\<close>

text \<open>The number of digits of a natural number in a base.\<close>

fun width :: "nat \<Rightarrow> nat \<Rightarrow> nat" where
  "width b n = (if b < 2 \<or> n < b then 1 else Suc (width b (n div b)))"

declare width.simps [simp del]

lemma width_upper: "2 \<le> b \<Longrightarrow> n < b ^ width b n"
proof (induction b n rule: width.induct)
  case (1 b n)
  show ?case
  proof (cases "n < b")
    case True
    then show ?thesis by (subst width.simps) simp
  next
    case False
    then have "n div b < b ^ width b (n div b)" using 1 by simp
    then have "n < b * b ^ width b (n div b)"
      using 1(2) by (simp add: div_less_iff_less_mult mult.commute)
    then show ?thesis using False 1(2) by (subst width.simps) simp
  qed
qed

lemma width_lower: "2 \<le> b \<Longrightarrow> 0 < n \<Longrightarrow> b ^ (width b n - 1) \<le> n"
proof (induction b n rule: width.induct)
  case (1 b n)
  show ?case
  proof (cases "n < b")
    case True
    then show ?thesis using 1 by (subst width.simps) simp
  next
    case False
    then have pos: "0 < n div b" using 1(2) by (simp add: div_greater_zero_iff)
    then have "b ^ (width b (n div b) - 1) \<le> n div b" using False 1 by simp
    then have "b * b ^ (width b (n div b) - 1) \<le> b * (n div b)" by simp
    also have "\<dots> \<le> n" by simp
    finally have "b ^ Suc (width b (n div b) - 1) \<le> n" by simp
    moreover have "Suc (width b (n div b) - 1) = width b (n div b)"
      by (subst (1 2) width.simps) simp
    ultimately show ?thesis using False 1(2) by (subst width.simps) simp
  qed
qed

text \<open>
  \<open>exponent b x\<close> places a positive number between two powers of the base, and
  \<open>sig_round b p x\<close> is the number with \<open>p\<close> significant digits nearest to it.
\<close>

definition exponent :: "nat \<Rightarrow> rat \<Rightarrow> int" where
  "exponent b x =
     (let (n, d) = quotient_of x; e = int (width b (nat n)) - int (width b (nat d)) in
      if of_nat b powi e \<le> x then e + 1 else e)"

definition sig_round :: "nat \<Rightarrow> nat \<Rightarrow> rat \<Rightarrow> rat" where
  "sig_round b p x =
     (if x \<le> 0 then 0
      else let u = of_nat b powi (exponent b x - int p) in of_int (half_even (x / u)) * u)"

lemma exponent_lower:
  assumes b: "2 \<le> b" and x: "0 < x"
  shows "of_nat b powi (exponent b x - 1) \<le> x"
proof -
  obtain n d where q: "quotient_of x = (n, d)" by fastforce
  then have d: "0 < d" and e: "x = of_int n / of_int d"
    by (auto dest: quotient_of_denom_pos quotient_of_div)
  have n: "0 < n" using x d unfolding e by (simp add: zero_less_divide_iff)
  let ?b = "of_nat b :: rat" and ?n = "width b (nat n)" and ?d = "width b (nat d)"
  have b0: "?b \<noteq> 0" using b by simp
  show ?thesis
  proof (cases "?b powi (int ?n - int ?d) \<le> x")
    case True
    then show ?thesis by (simp add: exponent_def q)
  next
    case False
    have n1: "1 \<le> ?n" by (subst width.simps) simp
    have "b ^ (?n - 1) \<le> nat n" using width_lower [OF b, of "nat n"] n by simp
    then have "(of_nat (b ^ (?n - 1)) :: rat) \<le> of_nat (nat n)" by (simp only: of_nat_le_iff)
    then have lo: "?b ^ (?n - 1) \<le> of_int n" using n by simp
    have "nat d < b ^ ?d" by (rule width_upper [OF b])
    then have "(of_nat (nat d) :: rat) < of_nat (b ^ ?d)" by (simp only: of_nat_less_iff)
    then have hi: "of_int d < ?b ^ ?d" using d by simp
    have "?b powi (int ?n - int ?d - 1) = ?b powi (int (?n - 1) - int ?d)"
      using n1 by (simp add: of_nat_diff algebra_simps)
    also have "\<dots> = ?b ^ (?n - 1) / ?b ^ ?d" using b0 by (simp add: power_int_diff)
    also have "\<dots> \<le> of_int n / of_int d"
      using lo hi d n by (intro frac_le) auto
    finally have "?b powi (int ?n - int ?d - 1) \<le> x" by (simp only: e)
    then show ?thesis using False by (simp add: exponent_def q)
  qed
qed

lemma sig_round_error:
  assumes b: "2 \<le> b" and p: "1 \<le> p" and x: "0 \<le> x"
  shows "\<bar>sig_round b p x - x\<bar> \<le> x / (2 * of_nat b ^ (p - 1))"
proof (cases "x = 0")
  case True
  then show ?thesis by (simp add: sig_round_def)
next
  case False
  then have pos: "0 < x" using x by simp
  let ?b = "of_nat b :: rat"
  define u where "u = ?b powi (exponent b x - int p)"
  have b0: "0 < ?b" using b by simp
  then have u: "0 < u" unfolding u_def by (simp add: zero_less_power_int)
  have "u * ?b ^ (p - 1) = ?b powi (exponent b x - int p) * ?b powi int (p - 1)"
    by (simp add: u_def)
  also have "\<dots> = ?b powi (exponent b x - int p + int (p - 1))"
    using b0 by (simp add: power_int_add)
  also have "exponent b x - int p + int (p - 1) = exponent b x - 1"
    using p by (simp add: of_nat_diff)
  finally have u_le: "u * ?b ^ (p - 1) \<le> x" using exponent_lower [OF b pos] by simp
  have "\<bar>of_int (half_even (x / u)) - x / u\<bar> \<le> 1 / 2" by (rule half_even_close)
  then have "\<bar>of_int (half_even (x / u)) - x / u\<bar> * u \<le> (1 / 2) * u"
    using u by (intro mult_right_mono) auto
  moreover have "\<bar>of_int (half_even (x / u)) - x / u\<bar> * u = \<bar>of_int (half_even (x / u)) * u - x\<bar>"
    using u by (simp add: abs_mult [symmetric, of _ u, simplified abs_of_pos [OF u]] left_diff_distrib)
  ultimately have "\<bar>sig_round b p x - x\<bar> \<le> u / 2"
    using pos by (simp add: sig_round_def u_def Let_def)
  also have "u / 2 \<le> x / (2 * ?b ^ (p - 1))"
    using u_le b0 by (simp add: field_simps)
  finally show ?thesis .
qed

lemma sig_round_nonneg: "0 \<le> sig_round b p x"
proof (cases "x \<le> 0")
  case False
  let ?u = "of_nat b powi (exponent b x - int p) :: rat"
  have u: "0 \<le> ?u" by (rule zero_le_power_int) simp
  then have "0 \<le> half_even (x / ?u)" using False by (intro half_even_nonneg divide_nonneg_nonneg) auto
  then show ?thesis using False u by (simp add: sig_round_def Let_def)
qed (simp add: sig_round_def)

lemma sig_round_0 [simp]: "sig_round b p 0 = 0"
  by (simp add: sig_round_def)

section \<open>The two number types\<close>

definition decimal :: "rat \<Rightarrow> rat" where
  "decimal x = sig_round 10 28 x"

definition float :: "rat \<Rightarrow> rat" where
  "float x = sig_round 2 53 x"

lemma decimal_error: "0 \<le> x \<Longrightarrow> \<bar>decimal x - x\<bar> \<le> x / (2 * 10 ^ 27)"
  using sig_round_error [of 10 28 x] by (simp add: decimal_def)

lemma decimal_nonneg [simp]: "0 \<le> decimal x"
  by (simp add: decimal_def sig_round_nonneg)

lemma decimal_0 [simp]: "decimal 0 = 0"
  by (simp add: decimal_def)

lemma decimal_pos: "0 < x \<Longrightarrow> 0 < decimal x"
proof -
  assume x: "0 < x"
  have "\<bar>decimal x - x\<bar> \<le> x / (2 * 10 ^ 27)" using x by (intro decimal_error) simp
  then have "x - decimal x \<le> x / (2 * 10 ^ 27)" by linarith
  also have "\<dots> < x" using x by (simp add: field_simps)
  finally show ?thesis by simp
qed

end
