(* ===== verification/IntelModels.thy ===== *)
theory IntelModels
  imports Rounding Checkout
begin

text \<open>
  The tables of \<open>apps/intelligence/models.py\<close> and the cache of the recommendations, one record
  that the intelligence services read and write next to the database of the shop, which they only
  read; the queries the services share; and the calendar.
\<close>

section \<open>Rows\<close>

text \<open>\<open>ProductIntelligenceMeta\<close>; the boost is in hundredths.\<close>

record product_meta =
  pm_margin_boost :: int
  pm_is_cookie :: bool
  pm_is_coffee :: bool

record co_purchase =
  cop_product :: nat
  cop_related :: nat
  cop_count :: int
  cop_affinity :: int

record daily_stats =
  ds_product :: nat
  ds_date :: date
  ds_units :: int
  ds_revenue :: money
  ds_order_count :: int
  ds_peak_hour :: "nat option"
  ds_weekday :: nat
  ds_hourly :: "(nat \<times> int) list"

text \<open>\<open>ProductDemandForecast\<close>: two decimals, two decimals and four decimals.\<close>

record forecast =
  fc_product :: nat
  fc_date :: date
  fc_window :: int
  fc_predicted :: int
  fc_average :: int
  fc_factor :: int

datatype bake_status = BAKE_OK | BAKE_LOW_STOCK | BAKE_OVERSTOCK_RISK

record bake =
  bk_product :: nat
  bk_date :: date
  bk_suggested :: int
  bk_demand :: int
  bk_stock :: int
  bk_capacity :: int
  bk_status :: bake_status
  bk_notes :: message

datatype behaviour_tag = COOKIE_LOVER | COFFEE_BUYER | DISCOUNT_SENSITIVE | VIP_REPEAT

text \<open>\<open>CustomerIntelligenceProfile\<close>: shares in thousandths, the sensitivity in hundredths.\<close>

record taste =
  ta_tags :: "behaviour_tag list"
  ta_engagement :: int
  ta_cookie :: int
  ta_coffee :: int
  ta_other :: int
  ta_sensitivity :: int
  ta_preferred :: "nat list"

datatype slot = SLOT_HOME | SLOT_PRODUCT | SLOT_CART | SLOT_CHECKOUT | SLOT_SMS

record impression =
  im_id :: nat
  im_slot :: slot
  im_user :: "nat option"
  im_session :: string
  im_products :: "nat list"
  im_converted :: bool
  im_order :: "nat option"
  im_created_at :: timestamp

section \<open>The state\<close>

text \<open>
  The products listed for a user under a cache key stay in the cache until a time; they are stored
  as the rows they were when they were listed.
\<close>

record intelligence =
  i_meta :: "nat \<rightharpoonup> product_meta"
  i_pairs :: "co_purchase list"
  i_stats :: "daily_stats list"
  i_forecasts :: "forecast list"
  i_bakes :: "bake list"
  i_tastes :: "nat \<rightharpoonup> taste"
  i_impressions :: "impression list"
  i_next :: nat
  i_cache :: "nat \<times> nat \<rightharpoonup> timestamp \<times> product list"

type_synonym 'a I = "(intelligence, exn, 'a) prog"

text \<open>\<open>update_or_create\<close>: the row with the key of \<open>r\<close> becomes \<open>r\<close>, or \<open>r\<close> is a new row.\<close>

definition put_row :: "('r \<Rightarrow> 'k) \<Rightarrow> 'r \<Rightarrow> 'r list \<Rightarrow> 'r list" where
  "put_row k r rs =
     (if \<exists>x\<in>set rs. k x = k r then map (\<lambda>x. if k x = k r then r else x) rs else rs @ [r])"

lemma set_put_row: "set (put_row k r rs) = insert r {x \<in> set rs. k x \<noteq> k r}"
  by (auto simp: put_row_def)

lemma keys_put_row: "map k (put_row k r rs) = (if k r \<in> k ` set rs then map k rs else map k rs @ [k r])"
proof (cases "k r \<in> k ` set rs")
  case True
  then have "\<exists>x\<in>set rs. k x = k r" by (metis imageE)
  with True show ?thesis by (simp add: put_row_def)
next
  case False
  then have "\<not> (\<exists>x\<in>set rs. k x = k r)" by (metis image_eqI)
  with False show ?thesis by (simp add: put_row_def)
qed

lemma distinct_put_row: "distinct (map k rs) \<Longrightarrow> distinct (map k (put_row k r rs))"
  by (simp add: keys_put_row)

lemma find_put_row:
  "find (\<lambda>x. k x = i) (put_row k r rs) = (if k r = i then Some r else find (\<lambda>x. k x = i) rs)"
proof (cases "\<exists>x\<in>set rs. k x = k r")
  case True
  have "find (\<lambda>x. k x = i) (map (\<lambda>x. if k x = k r then r else x) xs) =
      (if k r = i \<and> (\<exists>x\<in>set xs. k x = k r) then Some r else find (\<lambda>x. k x = i) xs)" for xs
    by (induction xs) auto
  with True show ?thesis by (simp add: put_row_def)
next
  case False
  then have "find (\<lambda>x. k x = k r) rs = None" by (auto simp: find_None_iff)
  with False show ?thesis by (auto simp: put_row_def find_append split: option.split)
qed

lemma filter_put_row:
  assumes "\<And>x. P x \<Longrightarrow> k x \<noteq> k r"
  shows "filter P (put_row k r rs) = filter P rs"
proof -
  have "\<not> P r" using assms by blast
  then have "filter P (map (\<lambda>x. if k x = k r then r else x) xs) = filter P xs" for xs
    using assms by (induction xs) auto
  then show ?thesis using \<open>\<not> P r\<close> by (simp add: put_row_def)
qed

text \<open>A dictionary in the order its keys came in, with a value to start each key from.\<close>

fun dict_alter :: "'k \<Rightarrow> ('v \<Rightarrow> 'v) \<Rightarrow> 'v \<Rightarrow> ('k \<times> 'v) list \<Rightarrow> ('k \<times> 'v) list" where
  "dict_alter k f z [] = [(k, f z)]"
| "dict_alter k f z ((j, v) # d) = (if j = k then (j, f v) # d else (j, v) # dict_alter k f z d)"

lemma map_of_dict_alter:
  "map_of (dict_alter k f z d) =
     (map_of d)(k \<mapsto> f (case map_of d k of Some v \<Rightarrow> v | None \<Rightarrow> z))"
  by (induction d) (auto simp: fun_eq_iff)

lemma dom_dict_alter: "fst ` set (dict_alter k f z d) = insert k (fst ` set d)"
  by (induction k f z d rule: dict_alter.induct) auto

lemma distinct_dict_alter: "distinct (map fst d) \<Longrightarrow> distinct (map fst (dict_alter k f z d))"
  by (induction k f z d rule: dict_alter.induct) (auto simp: dom_dict_alter)

section \<open>Queries\<close>

definition PAID_PAYMENT_STATUSES :: "order_payment_status set" where
  "PAID_PAYMENT_STATUSES = {PS_PAID, PS_CASH_RECEIVED}"

definition is_paid_order :: "order \<Rightarrow> bool" where
  "is_paid_order od \<longleftrightarrow> ord_payment_status od \<in> PAID_PAYMENT_STATUSES"

text \<open>The order items whose orders satisfy a filter, each with its order, by \<open>id\<close>.\<close>

definition items_where :: "(order \<Rightarrow> bool) \<Rightarrow> world \<Rightarrow> (order_item \<times> order) list" where
  "items_where P w =
     List.map_filter (\<lambda>i. case order_row w (oi_order i) of
         Some od \<Rightarrow> if P od then Some (i, od) else None | None \<Rightarrow> None) (order_items w)"

lemma items_where_iff:
  "(i, od) \<in> set (items_where P w) \<longleftrightarrow>
     i \<in> set (order_items w) \<and> order_row w (oi_order i) = Some od \<and> P od"
  by (force simp: items_where_def List.map_filter_def split: option.splits if_splits)

text \<open>The products with a status, in the order \<open>ps\<close> of the product table.\<close>

definition available_products :: "nat list \<Rightarrow> world \<Rightarrow> product list" where
  "available_products ps w = filter is_available (List.map_filter (products w) ps)"

definition category_slug :: "world \<Rightarrow> product \<Rightarrow> string" where
  "category_slug w p = (case categories w (prod_category p) of Some c \<Rightarrow> cat_slug c | None \<Rightarrow> [])"

definition category_name :: "world \<Rightarrow> product \<Rightarrow> string" where
  "category_name w p = (case categories w (prod_category p) of Some c \<Rightarrow> cat_name c | None \<Rightarrow> [])"

definition cookie_fa :: string where
  "cookie_fa = ''kuki''"

definition coffee_fa :: string where
  "coffee_fa = ''qahve''"

section \<open>Calendar\<close>

text \<open>
  A date is its proleptic ordinal, so that \<open>date.weekday()\<close> is its remainder by seven. What
  the time zone makes of a time is a parameter: the first instant of a local day, and the hour of the
  local clock. A stored time carries UTC, whose day is read off directly.
\<close>

definition weekday_of :: "date \<Rightarrow> nat" where
  "weekday_of d = nat ((d + 6) mod 7)"

record calendar =
  day_start :: "date \<Rightarrow> timestamp"
  local_hour :: "timestamp \<Rightarrow> nat"
  utc_date :: "timestamp \<Rightarrow> date"
  event_time :: "nat \<Rightarrow> timestamp"

definition days :: "int \<Rightarrow> int" where
  "days n = n * 86400000000"

end
