(* ===== verification/Taste.thy ===== *)
theory Taste
  imports Retention IntelModels
begin

text \<open>
  \<open>apps/intelligence/customer_intelligence_service.py\<close>: what a customer buys, how often, and
  how much the customer waits for discounts. Shares and ratios are Python floats, rounded as
  \<open>Rounding\<close> says.
\<close>

datatype taste_key = K_COOKIE | K_COFFEE | K_OTHER

text \<open>The category of an item: the role of its product, or what the category is called\<close>

definition taste_key_of :: "world \<Rightarrow> intelligence \<Rightarrow> nat \<Rightarrow> taste_key" where
  "taste_key_of w i p =
     (let by_category =
            (case products w p of
               None \<Rightarrow> K_OTHER
             | Some x \<Rightarrow>
                 if occurs_in ''cookie'' (str_lower (category_slug w x)) \<or> occurs_in cookie_fa (category_name w x)
                 then K_COOKIE
                 else if occurs_in ''coffee'' (str_lower (category_slug w x)) \<or> occurs_in coffee_fa (category_name w x)
                 then K_COFFEE else K_OTHER)
      in case i_meta i p of
           Some m \<Rightarrow> if pm_is_cookie m then K_COOKIE else if pm_is_coffee m then K_COFFEE else by_category
         | None \<Rightarrow> by_category)"

text \<open>The dictionaries of units per category and per product\<close>

definition units_by :: "(order_item \<Rightarrow> 'k) \<Rightarrow> (order_item \<times> order) list \<Rightarrow> ('k \<times> int) list" where
  "units_by f rows = foldl (\<lambda>d (it, od). dict_alter (f it) (\<lambda>n. n + oi_quantity it) 0 d) [] rows"

definition paid_items :: "world \<Rightarrow> nat \<Rightarrow> (order_item \<times> order) list" where
  "paid_items w u = items_where (\<lambda>od. ord_user od = Some u \<and> is_paid_order od) w"

text \<open>\<open>round(units / total, 3)\<close> in thousandths; a category without units keeps \<open>0.0\<close>.\<close>

definition share_of :: "(taste_key \<times> int) list \<Rightarrow> taste_key \<Rightarrow> int" where
  "share_of units k =
     (let total = (let n = sum_list (map snd units) in if n = 0 then 1 else n) in
      case map_of units k of
        Some n \<Rightarrow> half_even (1000 * float (of_int n / of_int total))
      | None \<Rightarrow> 0)"

definition paid_count :: "world \<Rightarrow> nat \<Rightarrow> int" where
  "paid_count w u = int (length (filter (\<lambda>od. ord_user od = Some u \<and> is_paid_order od) (orders w)))"

definition redemption_count :: "world \<Rightarrow> nat \<Rightarrow> int" where
  "redemption_count w u = int (length (filter (\<lambda>r. rd_user r = Some u) (g_redemptions (growth w))))"

text \<open>Discounted orders are counted whether they were paid or not.\<close>

definition discounted_count :: "world \<Rightarrow> nat \<Rightarrow> int" where
  "discounted_count w u = int (length (filter (\<lambda>od. ord_user od = Some u \<and> 0 < ord_discount od) (orders w)))"

definition discount_ratio :: "world \<Rightarrow> nat \<Rightarrow> rat" where
  "discount_ratio w u =
     (if paid_count w u = 0 then 0 else float (of_int (discounted_count w u) / of_int (paid_count w u)))"

definition tags_of :: "world \<Rightarrow> nat \<Rightarrow> int \<Rightarrow> int \<Rightarrow> behaviour_tag list" where
  "tags_of w u cookie coffee =
     (if 500 \<le> cookie then [COOKIE_LOVER] else []) @
     (if 300 \<le> coffee then [COFFEE_BUYER] else []) @
     (case g_profiles (growth w) u of
        Some c \<Rightarrow> if clv_tier c = REV_HIGH \<and> 3 \<le> paid_count w u then [VIP_REPEAT] else []
      | None \<Rightarrow> []) @
     (if 2 \<le> redemption_count w u \<or> 1 / 2 \<le> discount_ratio w u then [DISCOUNT_SENSITIVE] else [])"

definition recent_events :: "env \<Rightarrow> calendar \<Rightarrow> world \<Rightarrow> nat \<Rightarrow> int" where
  "recent_events env cal w u =
     int (length (filter (\<lambda>(n, e). ge_user e = Some u \<and> now env - days 30 \<le> event_time cal n)
       (enumerate 0 (g_events (growth w)))))"

definition taste_of :: "env \<Rightarrow> calendar \<Rightarrow> world \<Rightarrow> intelligence \<Rightarrow> nat \<Rightarrow> taste" where
  "taste_of env cal w i u =
     (let items = paid_items w u;
          units = units_by (\<lambda>it. taste_key_of w i (oi_product it)) items;
          counts = units_by oi_product items;
          cookie = share_of units K_COOKIE; coffee = share_of units K_COFFEE
      in \<lparr>ta_tags = tags_of w u cookie coffee,
          ta_engagement = min 100 (recent_events env cal w u * 5 + paid_count w u * 10),
          ta_cookie = cookie, ta_coffee = coffee, ta_other = share_of units K_OTHER,
          ta_sensitivity = half_even (100 * discount_ratio w u),
          ta_preferred = take 8 (map fst (sort_key (\<lambda>(p, n). - n) counts))\<rparr>)"

definition update_user :: "env \<Rightarrow> calendar \<Rightarrow> world \<Rightarrow> nat \<Rightarrow> taste I" where
  "update_user env cal w u =
     bnd (gets (\<lambda>i. taste_of env cal w i u)) (\<lambda>t.
     bnd (modifies (\<lambda>i. i\<lparr>i_tastes := (i_tastes i)(u \<mapsto> t)\<rparr>)) (\<lambda>_.
     ret t))"

definition refresh_all :: "env \<Rightarrow> calendar \<Rightarrow> nat list \<Rightarrow> world \<Rightarrow> int I" where
  "refresh_all env cal us w =
     (let vs = active_users us w in
      bnd (for_collect vs (update_user env cal w)) (\<lambda>_.
      ret (int (length vs))))"

definition update_customer_intelligence_task :: "env \<Rightarrow> calendar \<Rightarrow> nat list \<Rightarrow> world \<Rightarrow> int I" where
  "update_customer_intelligence_task env cal us w = refresh_all env cal us w"

definition users_with_tag :: "nat list \<Rightarrow> world \<Rightarrow> behaviour_tag \<Rightarrow> nat \<Rightarrow> intelligence \<Rightarrow> nat list" where
  "users_with_tag us w tag limit i =
     take limit (filter (\<lambda>u. case i_tastes i u of Some t \<Rightarrow> tag \<in> set (ta_tags t) | None \<Rightarrow> False)
       (active_users us w))"

section \<open>The profile does not depend on itself\<close>

lemma taste_of_tastes: "taste_of env cal w (i\<lparr>i_tastes := ts\<rparr>) u = taste_of env cal w i u"
  by (simp add: taste_of_def taste_key_of_def)

lemma update_user_run:
  "update_user env cal w u i =
     (Inr (taste_of env cal w i u), i\<lparr>i_tastes := (i_tastes i)(u \<mapsto> taste_of env cal w i u)\<rparr>)"
  by (simp add: update_user_def run_bnd)

lemma refresh_runs_tastes:
  "\<exists>ts. for_collect vs (update_user env cal w) i =
     (Inr ts, i\<lparr>i_tastes := (\<lambda>u. if u \<in> set vs then Some (taste_of env cal w i u) else i_tastes i u)\<rparr>)"
proof (induction vs arbitrary: i)
  case (Cons v vs)
  let ?j = "i\<lparr>i_tastes := (i_tastes i)(v \<mapsto> taste_of env cal w i v)\<rparr>"
  obtain ts where ts: "for_collect vs (update_user env cal w) ?j =
      (Inr ts, ?j\<lparr>i_tastes := (\<lambda>u. if u \<in> set vs then Some (taste_of env cal w ?j u) else i_tastes ?j u)\<rparr>)"
    using Cons.IH by blast
  have "(\<lambda>u. if u \<in> set vs then Some (taste_of env cal w ?j u) else i_tastes ?j u) =
      (\<lambda>u. if u \<in> set (v # vs) then Some (taste_of env cal w i u) else i_tastes i u)"
    by (auto simp: fun_eq_iff taste_of_tastes)
  with ts show ?case by (simp add: run_bnd update_user_run [of env cal w v i])
qed simp

text \<open>Shares are between nothing and everything, up to the rounding of a float.\<close>

lemma units_by_total: "sum_list (map snd (units_by f rows)) = sum_list (map (\<lambda>(it, od). oi_quantity it) rows)"
proof -
  have step: "sum_list (map snd (dict_alter k (\<lambda>n. n + q) 0 d)) = sum_list (map snd d) + (q::int)" for k q d
    by (induction k "\<lambda>n. n + q" "0::int" d rule: dict_alter.induct) auto
  show ?thesis
    by (induction rows rule: rev_induct) (auto simp: units_by_def step)
qed

end
