(* ===== verification/Recommend.thy ===== *)
theory Recommend
  imports Taste
begin

text \<open>
  \<open>apps/intelligence/recommendation_service.py\<close>: the products shown to a user, on the home page
  and beside a product. A product of a list is its row. The product table comes in the orders its
  queries ask for; scores are exact decimals, short enough not to be rounded.
\<close>

section \<open>Queries\<close>

text \<open>The primary keys of the products in the default order, by category and name, and by last change\<close>

record listing =
  by_default :: "nat list"
  by_category :: "nat list"
  by_change :: "nat list"

definition is_cookie_product :: "world \<Rightarrow> intelligence \<Rightarrow> product \<Rightarrow> bool" where
  "is_cookie_product w i p =
     (case i_meta i (prod_id p) of
        Some m \<Rightarrow> pm_is_cookie m
      | None \<Rightarrow> occurs_in ''cookie'' (str_lower (category_slug w p)) \<or>
          occurs_in cookie_fa (str_lower (category_name w p)) \<or> occurs_in ''cookie'' (str_lower (category_name w p)))"

text \<open>The available products that satisfy a filter and are not excluded\<close>

definition catalog :: "nat list \<Rightarrow> world \<Rightarrow> (product \<Rightarrow> bool) \<Rightarrow> nat list \<Rightarrow> product list" where
  "catalog ps w P exclude = filter (\<lambda>p. P p \<and> prod_id p \<notin> set exclude) (available_products ps w)"

definition has_role :: "(product_meta \<Rightarrow> bool) \<Rightarrow> intelligence \<Rightarrow> product \<Rightarrow> bool" where
  "has_role R i p = (case i_meta i (prod_id p) of Some m \<Rightarrow> R m | None \<Rightarrow> False)"

text \<open>The products of some items with the units sold, most sold first\<close>

definition best_sold :: "(order_item \<times> order) list \<Rightarrow> (nat \<times> int) list" where
  "best_sold rows = sort_key (\<lambda>(p, n). - n) (units_by oi_product rows)"

section \<open>Popular products\<close>

definition popular_products :: "listing \<Rightarrow> world \<Rightarrow> intelligence \<Rightarrow> nat \<Rightarrow> bool \<Rightarrow> product list" where
  "popular_products ls w i limit prefer_cookies =
     (let ids = map fst (take (limit * 3) (best_sold (items_where is_paid_order w))) in
      if ids = [] then
        take limit (available_products (if prefer_cookies then by_category ls else by_change ls) w)
      else
        let ordered = available_products ids w;
            ordered = (if prefer_cookies
              then filter (is_cookie_product w i) ordered @ filter (\<lambda>p. \<not> is_cookie_product w i p) ordered
              else ordered)
        in take limit ordered)"

section \<open>A user's products\<close>

definition similar_user_ids :: "nat list \<Rightarrow> world \<Rightarrow> nat \<Rightarrow> nat list" where
  "similar_user_ids us w u =
     take 25 (filter (\<lambda>v. v \<noteq> u \<and>
         (case g_profiles (growth w) u of
            None \<Rightarrow> True
          | Some c \<Rightarrow> map_option clv_tier (g_profiles (growth w) v) = Some (clv_tier c)))
       (active_users us w))"

definition add_score :: "nat \<Rightarrow> rat \<Rightarrow> (nat \<times> rat) list \<Rightarrow> (nat \<times> rat) list" where
  "add_score p x d = dict_alter p (\<lambda>s. s + x) 0 d"

definition raw_scores :: "nat list \<Rightarrow> world \<Rightarrow> intelligence \<Rightarrow> nat \<Rightarrow> (nat \<times> rat) list" where
  "raw_scores us w i u =
     (let preferred = (case i_tastes i u of Some t \<Rightarrow> take 10 (ta_preferred t) | None \<Rightarrow> []);
          d1 = foldl (\<lambda>d p. add_score p 10 d) [] preferred;
          d2 = foldl (\<lambda>d (p, n). add_score p (of_int n * 3) d) d1 (units_by oi_product (paid_items w u));
          similar = similar_user_ids us w u;
          others = items_where (\<lambda>od. is_paid_order od \<and>
            (case ord_user od of Some v \<Rightarrow> v \<in> set similar | None \<Rightarrow> False)) w
      in foldl (\<lambda>d (p, n). add_score p 2 d) d2 (take 20 (best_sold others)))"

definition boost_of :: "world \<Rightarrow> intelligence \<Rightarrow> nat \<Rightarrow> product \<Rightarrow> rat" where
  "boost_of w i u p =
     (let (cookie, coffee) = (case i_tastes i u of
            Some t \<Rightarrow> (of_int (ta_cookie t) / 1000, of_int (ta_coffee t) / 1000) | None \<Rightarrow> (0, 0));
          meta = i_meta i (prod_id p)
      in (case meta of Some m \<Rightarrow> of_int (pm_margin_boost m) / 100 | None \<Rightarrow> 1) +
         (if has_role pm_is_cookie i p then cookie / 2 else 0) +
         (if has_role pm_is_coffee i p then coffee / 2 else 0) +
         (if map_option clv_tier (g_profiles (growth w) u) = Some REV_HIGH then 1 / 5 else 0))"

text \<open>
  A product that is not available leaves the scores; one that does not exist stays in them without
  a row, and taking its row raises \<open>KeyError\<close>.
\<close>

definition boosted_scores :: "world \<Rightarrow> intelligence \<Rightarrow> nat \<Rightarrow> (nat \<times> rat) list \<Rightarrow> (product option \<times> rat) list" where
  "boosted_scores w i u d =
     List.map_filter (\<lambda>(p, s). case products w p of
         None \<Rightarrow> Some (None, s)
       | Some x \<Rightarrow> if is_available x then Some (Some x, s * boost_of w i u x) else None) d"

definition score_for_user :: "nat list \<Rightarrow> world \<Rightarrow> nat \<Rightarrow> nat \<Rightarrow> product list I" where
  "score_for_user us w u limit =
     bnd (gets (\<lambda>i. take limit (sort_key (\<lambda>(x, s). - s) (boosted_scores w i u (raw_scores us w i u))))) (\<lambda>ranked.
     for_collect ranked (\<lambda>(x, s). get_or_raise (Exn KeyError (Text ''pid'')) x))"

text \<open>The cache holds the rows for five minutes; a limit of zero stands for the default.\<close>

definition DEFAULT_LIMIT :: nat where
  "DEFAULT_LIMIT = 8"

definition for_user :: "env \<Rightarrow> listing \<Rightarrow> nat list \<Rightarrow> world \<Rightarrow> nat option \<Rightarrow> nat \<Rightarrow> product list I" where
  "for_user env ls us w user limit0 =
     (let limit = (if limit0 = 0 then DEFAULT_LIMIT else limit0) in
      case user of
        None \<Rightarrow> gets (\<lambda>i. popular_products ls w i limit False)
      | Some u \<Rightarrow>
          bnd (gets (\<lambda>i. i_cache i (u, limit))) (\<lambda>cached.
          case cached of
            Some (until, xs) \<Rightarrow>
              if now env < until then ret xs
              else
                bnd (score_for_user us w u limit) (\<lambda>xs.
                bnd (modifies (\<lambda>i. i\<lparr>i_cache := (i_cache i)((u, limit) \<mapsto> (now env + 300000000, xs))\<rparr>)) (\<lambda>_.
                ret xs))
          | None \<Rightarrow>
              bnd (score_for_user us w u limit) (\<lambda>xs.
              bnd (modifies (\<lambda>i. i\<lparr>i_cache := (i_cache i)((u, limit) \<mapsto> (now env + 300000000, xs))\<rparr>)) (\<lambda>_.
              ret xs))))"

definition for_home :: "env \<Rightarrow> listing \<Rightarrow> nat list \<Rightarrow> world \<Rightarrow> nat option \<Rightarrow> nat \<Rightarrow> product list I" where
  "for_home env ls us w user limit =
     (case user of
        None \<Rightarrow> gets (\<lambda>i. popular_products ls w i limit True)
      | Some u \<Rightarrow>
          bnd (for_user env ls us w user limit) (\<lambda>recs.
          if limit div 2 \<le> length recs then ret recs
          else gets (\<lambda>i. popular_products ls w i limit True)))"

section \<open>Beside a product\<close>

definition related_pairs :: "intelligence \<Rightarrow> nat \<Rightarrow> nat \<Rightarrow> co_purchase list" where
  "related_pairs i p n = take n (sort_key (\<lambda>r. - cop_affinity r) (filter (\<lambda>r. cop_product r = p) (i_pairs i)))"

text \<open>The rows of pairs that are new and available, with the keys seen so far\<close>

fun pick_related ::
  "world \<Rightarrow> co_purchase list \<Rightarrow> nat list \<Rightarrow> (product \<times> int) list \<times> nat list" where
  "pick_related w [] seen = ([], seen)"
| "pick_related w (r # rs) seen =
     (case products w (cop_related r) of
        Some p \<Rightarrow>
          if prod_id p \<in> set seen \<or> \<not> is_available p then pick_related w rs seen
          else (case pick_related w rs (prod_id p # seen) of (ps, s) \<Rightarrow> ((p, cop_affinity r) # ps, s))
      | None \<Rightarrow> pick_related w rs seen)"

definition personalized_candidates ::
  "nat list \<Rightarrow> world \<Rightarrow> nat \<Rightarrow> nat list \<Rightarrow> nat \<Rightarrow> (product \<times> int) list I" where
  "personalized_candidates us w u exclude limit =
     bnd (score_for_user us w u (limit + length exclude)) (\<lambda>ps.
     ret (map (\<lambda>p. (p, 50000)) (filter (\<lambda>p. prod_id p \<notin> set exclude) ps)))"

definition category_affinity_products ::
  "listing \<Rightarrow> world \<Rightarrow> intelligence \<Rightarrow> product \<Rightarrow> nat list \<Rightarrow> nat \<Rightarrow> product list" where
  "category_affinity_products ls w i p exclude limit =
     take limit (catalog (by_default ls) w
       (if is_cookie_product w i p then has_role pm_is_coffee i
        else (\<lambda>x. prod_category x = prod_category p)) exclude)"

text \<open>
  By \<open>-margin_boost\<close> and then \<open>-price\<close>; PostgreSQL puts a missing boost first in
  descending order.
\<close>

definition by_margin :: "intelligence \<Rightarrow> product list \<Rightarrow> product list" where
  "by_margin i xs =
     (let ys = sort_key (\<lambda>p. - prod_price p) xs in
      filter (\<lambda>p. i_meta i (prod_id p) = None) ys @
      sort_key (\<lambda>p. - pm_margin_boost (the (i_meta i (prod_id p))))
        (filter (\<lambda>p. i_meta i (prod_id p) \<noteq> None) ys))"

definition high_margin_products :: "listing \<Rightarrow> world \<Rightarrow> intelligence \<Rightarrow> nat list \<Rightarrow> nat \<Rightarrow> product list" where
  "high_margin_products ls w i exclude limit =
     take limit (by_margin i (catalog (by_default ls) w (\<lambda>p. True) exclude))"

text \<open>Rows of a category that are new, with the keys seen so far\<close>

fun pick_new :: "product list \<Rightarrow> nat list \<Rightarrow> product list \<times> nat list" where
  "pick_new [] seen = ([], seen)"
| "pick_new (p # ps) seen =
     (if prod_id p \<in> set seen then pick_new ps seen
      else (case pick_new ps (prod_id p # seen) of (qs, s) \<Rightarrow> (p # qs, s)))"

definition for_product ::
  "listing \<Rightarrow> nat list \<Rightarrow> world \<Rightarrow> product \<Rightarrow> nat option \<Rightarrow> nat \<Rightarrow> product list I" where
  "for_product ls us w p user limit =
     bnd (gets (\<lambda>i. pick_related w (related_pairs i (prod_id p) (limit * 2)) [prod_id p])) (\<lambda>(bought, seen).
     bnd (case user of
            Some u \<Rightarrow> personalized_candidates us w u seen limit
          | None \<Rightarrow> ret []) (\<lambda>personal.
     bnd (gets (\<lambda>i.
            let candidates = bought @ personal;
                (more, seen') = (if length candidates < limit
                  then pick_new (category_affinity_products ls w i p seen limit) seen else ([], seen));
                ranked = map fst (sort_key (\<lambda>(x, s). - s) (candidates @ map (\<lambda>x. (x, 10000)) more));
                result = take limit ranked
            in take limit (result @ (if length result < limit
                 then high_margin_products ls w i seen' (limit - length result) else [])))) (\<lambda>result.
     ret result)))"

end
