(* ===== verification/Upsell.thy ===== *)
theory Upsell
  imports Recommend
begin

text \<open>
  \<open>apps/intelligence/upsell_service.py\<close> and \<open>personalization_service.py\<close>: what is suggested
  beside a cart and at checkout, the record of what was shown, and the offers sent by message.
\<close>

section \<open>What was shown\<close>

definition log_impression ::
  "env \<Rightarrow> slot \<Rightarrow> product list \<Rightarrow> nat option \<Rightarrow> string \<Rightarrow> unit I" where
  "log_impression env sl xs user session =
     whenever (xs \<noteq> []) (modifies (\<lambda>i. i\<lparr>i_next := Suc (i_next i), i_impressions := i_impressions i @
       [\<lparr>im_id = i_next i, im_slot = sl, im_user = user, im_session = session, im_products = map prod_id xs,
         im_converted = False, im_order = None, im_created_at = now env\<rparr>]\<rparr>))"

section \<open>Beside a cart\<close>

definition cart_products :: "world \<Rightarrow> cart \<Rightarrow> product list" where
  "cart_products w c = List.map_filter (\<lambda>it. products w (ci_product it)) (items_in w (cart_id c))"

definition pairing_fill :: "listing \<Rightarrow> world \<Rightarrow> cart \<Rightarrow> nat list \<Rightarrow> nat \<Rightarrow> intelligence \<Rightarrow> product list" where
  "pairing_fill ls w c exclude limit i =
     (let has_cookie = (\<exists>p\<in>set (cart_products w c). is_cookie_product w i p) in
      take limit (catalog (by_default ls) w
        (has_role (if has_cookie then pm_is_coffee else pm_is_cookie) i) exclude))"

text \<open>The partners of each item in turn, at most five of each\<close>

fun pair_suggestions :: "world \<Rightarrow> intelligence \<Rightarrow> nat list \<Rightarrow> nat list \<Rightarrow> product list \<times> nat list" where
  "pair_suggestions w i [] seen = ([], seen)"
| "pair_suggestions w i (p # ps) seen =
     (case pick_related w (related_pairs i p 5) seen of (xs, s) \<Rightarrow>
      case pair_suggestions w i ps s of (ys, s') \<Rightarrow> (map fst xs @ ys, s'))"

text \<open>The user's products that were not seen, until the suggestions are enough\<close>

fun fill_up :: "nat \<Rightarrow> product list \<Rightarrow> nat list \<Rightarrow> product list \<Rightarrow> product list" where
  "fill_up limit [] seen sugg = sugg"
| "fill_up limit (p # ps) seen sugg =
     (let (seen', sugg') = (if prod_id p \<in> set seen then (seen, sugg) else (prod_id p # seen, sugg @ [p])) in
      if limit \<le> length sugg' then sugg' else fill_up limit ps seen' sugg')"

definition session_of :: "cart \<Rightarrow> string" where
  "session_of c = (case cart_session_key c of Some s \<Rightarrow> s | None \<Rightarrow> [])"

definition suggestions_for_cart ::
  "env \<Rightarrow> listing \<Rightarrow> nat list \<Rightarrow> world \<Rightarrow> cart \<Rightarrow> nat option \<Rightarrow> nat \<Rightarrow> product list I" where
  "suggestions_for_cart env ls us w c user limit =
     bnd (gets (\<lambda>i. pair_suggestions w i (map ci_product (items_in w (cart_id c)))
                      (map ci_product (items_in w (cart_id c))))) (\<lambda>(paired, seen).
     bnd (gets (pairing_fill ls w c seen (limit - length paired))) (\<lambda>filled.
     let sugg = paired @ filled in
     case user of
       Some u \<Rightarrow>
         if length sugg < limit then
           bnd (for_user env ls us w (Some u) limit) (\<lambda>recs. ret (fill_up limit recs seen sugg))
         else ret sugg
     | None \<Rightarrow> ret sugg))"

definition for_cart :: "env \<Rightarrow> listing \<Rightarrow> nat list \<Rightarrow> world \<Rightarrow> cart \<Rightarrow> nat option \<Rightarrow> nat \<Rightarrow> product list I" where
  "for_cart env ls us w c user limit =
     (if items_in w (cart_id c) = [] then for_home env ls us w user limit
      else
        bnd (suggestions_for_cart env ls us w c user limit) (\<lambda>sugg.
        bnd (log_impression env SLOT_CART (take limit sugg) user (session_of c)) (\<lambda>_.
        ret (take limit sugg))))"

section \<open>Bundles\<close>

datatype bundle_label = COOKIE_COFFEE_COMBO | BUY_2_COOKIES

record upsell_bundle =
  bn_label :: bundle_label
  bn_products :: "product list"
  bn_type :: string

definition is_coffee_product :: "world \<Rightarrow> intelligence \<Rightarrow> product \<Rightarrow> bool" where
  "is_coffee_product w i p \<longleftrightarrow>
     has_role pm_is_coffee i p \<or> occurs_in ''coffee'' (str_lower (category_slug w p)) \<or>
     occurs_in coffee_fa (category_name w p)"

definition cookie_count :: "world \<Rightarrow> intelligence \<Rightarrow> cart \<Rightarrow> int" where
  "cookie_count w i c =
     sum_list (map ci_quantity (filter (\<lambda>it. case products w (ci_product it) of
         Some p \<Rightarrow> is_cookie_product w i p | None \<Rightarrow> False) (items_in w (cart_id c))))"

definition suggest_bundles :: "listing \<Rightarrow> world \<Rightarrow> cart \<Rightarrow> intelligence \<Rightarrow> upsell_bundle list" where
  "suggest_bundles ls w c i =
     (let xs = cart_products w c; ids = map ci_product (items_in w (cart_id c));
          has_cookie = (\<exists>p\<in>set xs. is_cookie_product w i p);
          has_coffee = (\<exists>p\<in>set xs. is_coffee_product w i p);
          coffee = take 1 (catalog (by_default ls) w (has_role pm_is_coffee i) ids);
          cookie = take 1 (catalog (by_default ls) w (has_role pm_is_cookie i) ids);
          n = cookie_count w i c
      in if ids = [] then []
         else
           (if has_cookie \<and> \<not> has_coffee \<and> coffee \<noteq> []
            then [\<lparr>bn_label = COOKIE_COFFEE_COMBO, bn_products = coffee, bn_type = ''pairing''\<rparr>] else []) @
           (if 1 \<le> n \<and> n < 2 \<and> cookie \<noteq> []
            then [\<lparr>bn_label = BUY_2_COOKIES, bn_products = cookie, bn_type = ''volume''\<rparr>] else []))"

fun add_products :: "nat \<Rightarrow> product list \<Rightarrow> product list \<Rightarrow> product list" where
  "add_products limit [] ups = ups"
| "add_products limit (p # ps) ups =
     (let ups' = (if prod_id p \<notin> prod_id ` set ups \<and> is_available p then ups @ [p] else ups) in
      if limit \<le> length ups' then ups' else add_products limit ps ups')"

definition for_checkout :: "env \<Rightarrow> listing \<Rightarrow> nat list \<Rightarrow> world \<Rightarrow> cart \<Rightarrow> nat option \<Rightarrow> nat \<Rightarrow> product list I" where
  "for_checkout env ls us w c user limit =
     bnd (for_cart env ls us w c user limit) (\<lambda>ups.
     bnd (gets (suggest_bundles ls w c)) (\<lambda>bundles.
     let result = take limit (foldl (\<lambda>ups b. add_products limit (bn_products b) ups) ups bundles) in
     bnd (log_impression env SLOT_CHECKOUT result user (session_of c)) (\<lambda>_.
     ret result)))"

section \<open>Offers by message\<close>

text \<open>
  The offers use both the shop's database, whose broker gets the messages, and the intelligence
  tables. A step on one of them leaves the other as it is.
\<close>

type_synonym 'a S = "(world \<times> intelligence, exn, 'a) prog"

definition on_shop :: "'a P \<Rightarrow> 'a S" where
  "on_shop m = (\<lambda>(w, i). case m w of (r, v) \<Rightarrow> (r, (v, i)))"

definition on_intel :: "(world \<Rightarrow> 'a I) \<Rightarrow> 'a S" where
  "on_intel m = (\<lambda>(w, i). case m w i of (r, j) \<Rightarrow> (r, (w, j)))"

definition timezone_date :: "env \<Rightarrow> (date \<Rightarrow> string) \<Rightarrow> string" where
  "timezone_date env isodate = isodate (today env)"

definition special_product_fa :: string where
  "special_product_fa = ''mahsul vizhe''"

definition offer_context :: "retention_settings \<Rightarrow> world \<Rightarrow> nat \<Rightarrow> string \<Rightarrow> string \<Rightarrow> dict" where
  "offer_context rs w u name path =
     [(''name'', JStr (let n = first_name_of w u in if n = [] then customer_fa else n)),
      (''product_name'', JStr name), (''shop_url'', JStr (site_url rs @ path))]"

definition log_sms_impression :: "env \<Rightarrow> nat \<Rightarrow> product list \<Rightarrow> unit I" where
  "log_sms_impression env u xs =
     modifies (\<lambda>i. i\<lparr>i_next := Suc (i_next i), i_impressions := i_impressions i @
       [\<lparr>im_id = i_next i, im_slot = SLOT_SMS, im_user = Some u, im_session = [], im_products = map prod_id xs,
         im_converted = False, im_order = None, im_created_at = now env\<rparr>]\<rparr>)"

definition send_vip_offer ::
  "env \<Rightarrow> retention_settings \<Rightarrow> (date \<Rightarrow> string) \<Rightarrow> listing \<Rightarrow> nat list \<Rightarrow> nat \<Rightarrow> bool S" where
  "send_vip_offer env rs isodate ls us u =
     bnd (on_shop (gets (\<lambda>w. phone_of_user w (Some u)))) (\<lambda>phone.
     if phone = [] then ret False
     else
       bnd (on_intel (\<lambda>w. for_user env ls us w (Some u) 1)) (\<lambda>recs.
       bnd (on_shop (gets (\<lambda>w. offer_context rs w u
              (case recs of p # _ \<Rightarrow> prod_name p | [] \<Rightarrow> special_product_fa) []))) (\<lambda>ctx.
       bnd (on_shop (dispatch_template_sms ''intel_vip_offer'' phone ctx (Some u) None []
              (Some (''intel:vip:'' @ digits u @ '':'' @ timezone_date env isodate)))) (\<lambda>_.
       bnd (on_intel (\<lambda>w. log_sms_impression env u (take 1 recs))) (\<lambda>_.
       ret True)))))"

text \<open>A featured cookie that the user does not buy yet, or any cookie that is available\<close>

definition new_cookie_for :: "listing \<Rightarrow> world \<Rightarrow> intelligence \<Rightarrow> nat \<Rightarrow> product option" where
  "new_cookie_for ls w i u =
     (let preferred = (case i_tastes i u of Some t \<Rightarrow> ta_preferred t | None \<Rightarrow> []) in
      case catalog (by_default ls) w (\<lambda>p. has_role pm_is_cookie i p \<and> prod_is_featured p) preferred of
        p # _ \<Rightarrow> Some p
      | [] \<Rightarrow> (case catalog (by_default ls) w (has_role pm_is_cookie i) [] of p # _ \<Rightarrow> Some p | [] \<Rightarrow> None))"

definition is_discount_sensitive :: "intelligence \<Rightarrow> nat \<Rightarrow> bool" where
  "is_discount_sensitive i u = (case i_tastes i u of Some t \<Rightarrow> DISCOUNT_SENSITIVE \<in> set (ta_tags t) | None \<Rightarrow> False)"

definition send_cookie_offer ::
  "env \<Rightarrow> retention_settings \<Rightarrow> (date \<Rightarrow> string) \<Rightarrow> (nat \<Rightarrow> string) \<Rightarrow> listing \<Rightarrow> nat \<Rightarrow> bool S" where
  "send_cookie_offer env rs isodate path ls u =
     bnd (on_shop (gets (\<lambda>w. phone_of_user w (Some u)))) (\<lambda>phone.
     if phone = [] then ret False
     else
       bnd (on_intel (\<lambda>w. gets (\<lambda>i. is_discount_sensitive i u))) (\<lambda>sensitive.
       if sensitive then ret False
       else
         bnd (on_intel (\<lambda>w. gets (\<lambda>i. new_cookie_for ls w i u))) (\<lambda>cookie.
         case cookie of
           None \<Rightarrow> ret False
         | Some p \<Rightarrow>
             bnd (on_shop (gets (\<lambda>w. offer_context rs w u (prod_name p) (path (prod_id p))))) (\<lambda>ctx.
             bnd (on_shop (dispatch_template_sms ''intel_cookie_offer'' phone ctx (Some u) None []
                    (Some (''intel:cookie:'' @ digits u @ '':'' @ digits (prod_id p) @ '':'' @ timezone_date env isodate)))) (\<lambda>_.
             bnd (on_intel (\<lambda>w. log_sms_impression env u [p])) (\<lambda>_.
             ret True))))))"

definition send_personalized_offers ::
  "env \<Rightarrow> retention_settings \<Rightarrow> (date \<Rightarrow> string) \<Rightarrow> (nat \<Rightarrow> string) \<Rightarrow> listing \<Rightarrow> nat list \<Rightarrow> nat \<Rightarrow> int S" where
  "send_personalized_offers env rs isodate path ls us limit =
     bnd (on_intel (\<lambda>w. gets (users_with_tag us w VIP_REPEAT (limit div 2)))) (\<lambda>vips.
     bnd (for_collect vips (send_vip_offer env rs isodate ls us)) (\<lambda>a.
     bnd (on_intel (\<lambda>w. gets (users_with_tag us w COOKIE_LOVER (limit div 2)))) (\<lambda>lovers.
     bnd (for_collect (filter (\<lambda>u. u \<notin> set vips) lovers) (send_cookie_offer env rs isodate path ls)) (\<lambda>b.
     ret (int (length (filter id (a @ b))))))))"

definition personalized_sms_offers_task ::
  "env \<Rightarrow> retention_settings \<Rightarrow> (date \<Rightarrow> string) \<Rightarrow> (nat \<Rightarrow> string) \<Rightarrow> listing \<Rightarrow> nat list \<Rightarrow> int S" where
  "personalized_sms_offers_task env rs isodate path ls us = send_personalized_offers env rs isodate path ls us 50"

end
