(* ===== verification/Guards.thy ===== *)
theory Guards
  imports Models
begin

text \<open>
  What stands at the edge of the site: the rate limiter (\<open>apps/core/middleware/rate_limit.py\<close>) and
  what a session remembers of a visitor, the table of the cafe (\<open>table_session.py\<close>) and the orders
  that were placed in it (\<open>checkout_access.py\<close>).
\<close>

section \<open>The rate limiter\<close>

text \<open>
  The headers the middleware reads. The cache keeps a counter under a key until a time; an expired entry
  reads as the default.
\<close>

record request =
  rq_method :: string
  rq_path :: string
  rq_forwarded :: "string option"
  rq_remote :: "string option"

type_synonym rate_cache = "string \<rightharpoonup> int \<times> timestamp"

definition DEFAULT_PATHS :: "(string \<times> int \<times> int) list" where
  "DEFAULT_PATHS = [(''/accounts/login/'', 10, 60), (''/checkout/'', 5, 60)]"

definition seconds :: "int \<Rightarrow> int" where
  "seconds s = s * 1000000"

definition starts_with :: "string \<Rightarrow> string \<Rightarrow> bool" where
  "starts_with s p \<longleftrightarrow> take (length p) s = p"

definition match_path :: "(string \<times> int \<times> int) list \<Rightarrow> string \<Rightarrow> (int \<times> int) option" where
  "match_path paths path = map_option snd (find (\<lambda>(p, cfg). starts_with path p) paths)"

definition client_ip :: "request \<Rightarrow> string" where
  "client_ip r =
     (case rq_forwarded r of
        Some (x # xs) \<Rightarrow> str_strip (takeWhile (\<lambda>c. c \<noteq> CHR '','') (x # xs))
      | _ \<Rightarrow> (case rq_remote r of Some a \<Rightarrow> a | None \<Rightarrow> ''unknown''))"

definition rate_key :: "request \<Rightarrow> string" where
  "rate_key r = ''ratelimit:'' @ rq_path r @ '':'' @ client_ip r"

definition cache_count :: "timestamp \<Rightarrow> string \<Rightarrow> rate_cache \<Rightarrow> int" where
  "cache_count t k c = (case c k of Some (n, e) \<Rightarrow> if t < e then n else 0 | None \<Rightarrow> 0)"

definition is_limited :: "timestamp \<Rightarrow> request \<Rightarrow> int \<times> int \<Rightarrow> rate_cache \<Rightarrow> bool \<times> rate_cache" where
  "is_limited t r cfg c =
     (let (max_requests, window) = cfg; count = cache_count t (rate_key r) c in
      if max_requests \<le> count then (True, c)
      else (False, c(rate_key r \<mapsto> (count + 1, t + seconds window))))"

text \<open>Whether the request is let through to the view\<close>

definition rate_limit ::
  "bool \<Rightarrow> (string \<times> int \<times> int) list \<Rightarrow> timestamp \<Rightarrow> request \<Rightarrow> rate_cache \<Rightarrow> bool \<times> rate_cache" where
  "rate_limit debug paths t r c =
     (if rq_method r = ''POST'' \<and> \<not> debug
      then (case match_path paths (rq_path r) of
              Some cfg \<Rightarrow> (case is_limited t r cfg c of (limited, c') \<Rightarrow> (\<not> limited, c'))
            | None \<Rightarrow> (True, c))
      else (True, c))"

text \<open>The requests of a trace that are let through, with their times\<close>

fun let_through ::
  "(string \<times> int \<times> int) list \<Rightarrow> (timestamp \<times> request) list \<Rightarrow> rate_cache \<Rightarrow> (timestamp \<times> request) list" where
  "let_through paths [] c = []"
| "let_through paths ((t, r) # rs) c =
     (case rate_limit False paths t r c of (ok, c') \<Rightarrow>
        (if ok then [(t, r)] else []) @ let_through paths rs c')"

section \<open>The table of a visitor\<close>

record session =
  se_key :: "string option"
  se_table :: "string option"
  se_access :: "string list"

definition MAX_TABLE_LENGTH :: nat where
  "MAX_TABLE_LENGTH = 20"

text \<open>\<open>str.isprintable\<close> on Latin characters; line breaks and tabs are not printable.\<close>

definition is_printable :: "char \<Rightarrow> bool" where
  "is_printable c \<longleftrightarrow> (let n = of_char c :: nat in 32 \<le> n \<and> n \<le> 126 \<or> 161 \<le> n \<and> n \<noteq> 173)"

definition sanitize_table_number :: "string option \<Rightarrow> string" where
  "sanitize_table_number v =
     (case v of
        None \<Rightarrow> []
      | Some s \<Rightarrow> take MAX_TABLE_LENGTH (str_strip (filter is_printable (str_strip s))))"

definition set_table_in_session :: "string option \<Rightarrow> session \<Rightarrow> session" where
  "set_table_in_session v s =
     (let table = sanitize_table_number v in
      s\<lparr>se_table := if table \<noteq> [] then Some table else None\<rparr>)"

definition get_table_from_session :: "session \<Rightarrow> string" where
  "get_table_from_session s = sanitize_table_number (Some (case se_table s of Some t \<Rightarrow> t | None \<Rightarrow> []))"

definition clear_table_from_session :: "session \<Rightarrow> session" where
  "clear_table_from_session s = s\<lparr>se_table := None\<rparr>"

text \<open>The query has a list of values of \<open>table\<close>, of which \<open>get\<close> reads the last.\<close>

definition capture_table_from_query :: "string list \<Rightarrow> session \<Rightarrow> string \<times> session" where
  "capture_table_from_query values s =
     (if values = [] then (get_table_from_session s, s)
      else
        let table = sanitize_table_number (Some (last values)) in
        (table, set_table_in_session (Some table) s))"

definition should_capture_table :: "request \<Rightarrow> string list \<Rightarrow> bool" where
  "should_capture_table r values \<longleftrightarrow>
     rq_method r = ''GET'' \<and> values \<noteq> [] \<and>
     (rq_path r = ''/cart/'' \<or> starts_with (rq_path r) ''/shop/'' \<or> starts_with (rq_path r) ''/checkout/'')"

definition sync_table_from_pickup_note :: "string \<Rightarrow> session \<Rightarrow> session" where
  "sync_table_from_pickup_note note' s = set_table_in_session (Some note') s"

definition get_checkout_table_initial :: "session \<Rightarrow> string option" where
  "get_checkout_table_initial s =
     (let table = get_table_from_session s in if table \<noteq> [] then Some table else None)"

section \<open>The orders of a session\<close>

definition last_ten :: "string list \<Rightarrow> string list" where
  "last_ten xs = drop (length xs - 10) xs"

definition grant_checkout_order_access :: "string \<Rightarrow> session \<Rightarrow> session" where
  "grant_checkout_order_access number s =
     s\<lparr>se_access := last_ten (if number \<in> set (se_access s) then se_access s else se_access s @ [number])\<rparr>"

record visitor =
  vi_user :: "nat option"
  vi_is_staff :: bool

definition can_view_checkout_order :: "visitor \<Rightarrow> session \<Rightarrow> order \<Rightarrow> bool" where
  "can_view_checkout_order v s od \<longleftrightarrow>
     (if vi_is_staff v then True
      else if vi_user v \<noteq> None \<and> ord_user od = vi_user v then True
      else ord_number od \<in> set (se_access s))"

section \<open>What the rate limiter guarantees\<close>

text \<open>
  A counter that is alive counts at least the requests let through since one window before the last of
  them, because every request that is let through prolongs it by a whole window.
\<close>

definition in_window :: "int \<Rightarrow> timestamp \<Rightarrow> timestamp list \<Rightarrow> int" where
  "in_window S a ts = int (length (filter (\<lambda>t. a \<le> t \<and> t < a + S) ts))"

definition counted :: "string \<Rightarrow> int \<Rightarrow> int \<Rightarrow> timestamp \<Rightarrow> rate_cache \<Rightarrow> timestamp list \<Rightarrow> bool" where
  "counted k m S T c A \<longleftrightarrow> (\<forall>a. in_window S a A \<le> m) \<and> (\<forall>x\<in>set A. x \<le> T) \<and>
     (case c k of
        None \<Rightarrow> A = []
      | Some (n, e) \<Rightarrow> e - S \<le> T \<and> (\<forall>x\<in>set A. x \<le> e - S) \<and>
          int (length (filter (\<lambda>x. e - S - S < x) A)) \<le> n)"

lemma counted_later: "counted k m S T c A \<Longrightarrow> T \<le> t \<Longrightarrow> counted k m S t c A"
  by (fastforce simp: counted_def split: option.splits)

lemma counted_other: "k' \<noteq> k \<Longrightarrow> counted k m S t (c(k' \<mapsto> x)) A = counted k m S t c A"
  by (simp add: counted_def)

lemma filter_length_mono: "(\<And>x. x \<in> set xs \<Longrightarrow> P x \<Longrightarrow> Q x) \<Longrightarrow> length (filter P xs) \<le> length (filter Q xs)"
  by (induction xs) (auto simp: le_SucI)

lemma counted_let_through:
  assumes inv: "counted k m S t c A" and free: "cache_count t k c < m"
  shows "counted k m S t (c(k \<mapsto> (cache_count t k c + 1, t + S))) (A @ [t])"
proof -
  let ?n = "cache_count t k c"
  have recent: "int (length (filter (\<lambda>x. t - S < x) A)) \<le> ?n"
  proof (cases "c k")
    case None
    with inv show ?thesis by (simp add: counted_def cache_count_def)
  next
    case (Some p)
    obtain n e where p: "p = (n, e)" by fastforce
    from inv Some p have e: "e - S \<le> t" "\<forall>x\<in>set A. x \<le> e - S" "int (length (filter (\<lambda>x. e - S - S < x) A)) \<le> n"
      by (simp_all add: counted_def)
    show ?thesis
    proof (cases "t < e")
      case True
      have "length (filter (\<lambda>x. t - S < x) A) \<le> length (filter (\<lambda>x. e - S - S < x) A)"
        using e(1) by (intro filter_length_mono) simp
      with e(3) True Some p show ?thesis by (simp add: cache_count_def)
    next
      case False
      then have "filter (\<lambda>x. t - S < x) A = []" using e(2) by (auto simp: filter_empty_conv)
      with False Some p show ?thesis by (simp add: cache_count_def)
    qed
  qed
  have "in_window S a (A @ [t]) \<le> m" for a
  proof (cases "a \<le> t \<and> t < a + S")
    case True
    have "length (filter (\<lambda>x. a \<le> x \<and> x < a + S) A) \<le> length (filter (\<lambda>x. t - S < x) A)"
      using True by (intro filter_length_mono) simp
    with recent free True show ?thesis by (simp add: in_window_def)
  next
    case False
    then have "in_window S a (A @ [t]) = in_window S a A" by (auto simp: in_window_def)
    with inv show ?thesis by (simp add: counted_def)
  qed
  moreover have "\<forall>x\<in>set A. x \<le> t" using inv by (simp add: counted_def)
  ultimately show ?thesis using recent by (auto simp: counted_def)
qed

definition posts_of :: "string \<Rightarrow> (timestamp \<times> request) list \<Rightarrow> timestamp list" where
  "posts_of k rs = map fst (filter (\<lambda>(t, r). rate_key r = k \<and> rq_method r = ''POST'') rs)"

lemma posts_of_simps [simp]:
  "posts_of k [] = []" "posts_of k (xs @ ys) = posts_of k xs @ posts_of k ys"
  "posts_of k [(t, r)] = (if rate_key r = k \<and> rq_method r = ''POST'' then [t] else [])"
  by (simp_all add: posts_of_def)

lemma counted_trace:
  assumes "counted k m (seconds s) T c A" and "sorted (T # map fst rs)"
    and "\<forall>(t, r)\<in>set rs. rate_key r = k \<and> rq_method r = ''POST'' \<longrightarrow> match_path paths (rq_path r) = Some (m, s)"
  shows "in_window (seconds s) a (A @ posts_of k (let_through paths rs c)) \<le> m"
  using assms
proof (induction rs arbitrary: T c A)
  case Nil
  then show ?case by (simp add: counted_def)
next
  case (Cons q rs)
  obtain t r where q: "q = (t, r)" by fastforce
  have inv: "counted k m (seconds s) t c A" using counted_later [OF Cons.prems(1)] Cons.prems(2) q by simp
  have sorted: "sorted (t # map fst rs)" using Cons.prems(2) q by simp
  have rest: "\<forall>(t, r)\<in>set rs. rate_key r = k \<and> rq_method r = ''POST'' \<longrightarrow> match_path paths (rq_path r) = Some (m, s)"
    using Cons.prems(3) by simp
  have cfg: "rate_key r = k \<Longrightarrow> rq_method r = ''POST'' \<Longrightarrow> match_path paths (rq_path r) = Some (m, s)"
    using Cons.prems(3) q by simp
  obtain ok d where step: "rate_limit False paths t r c = (ok, d)" by fastforce
  consider (skip) "rq_method r \<noteq> ''POST''" "ok" "d = c"
    | (free) "rq_method r = ''POST''" "match_path paths (rq_path r) = None" "ok" "d = c"
    | (refused) n w where "rq_method r = ''POST''" "match_path paths (rq_path r) = Some (n, w)" "\<not> ok" "d = c"
    | (passed) n w where "rq_method r = ''POST''" "match_path paths (rq_path r) = Some (n, w)" "ok"
        "cache_count t (rate_key r) c < n" "d = c(rate_key r \<mapsto> (cache_count t (rate_key r) c + 1, t + seconds w))"
    using step by (fastforce simp: rate_limit_def is_limited_def Let_def split: if_splits option.splits prod.splits)
  then have "counted k m (seconds s) t d (A @ posts_of k (if ok then [(t, r)] else []))"
  proof cases
    case (passed n w)
    show ?thesis
    proof (cases "rate_key r = k")
      case True
      then show ?thesis using counted_let_through [OF inv] passed cfg [OF True passed(1)] by simp
    qed (use passed inv in \<open>simp add: counted_other\<close>)
  qed (use inv cfg in auto)
  from Cons.IH [OF this sorted rest] show ?case using step q by simp
qed

text \<open>
  C21: whatever requests arrive in between, the rate limiter lets through at most as many posts from
  one address to one path within any window as its configuration allows.
\<close>

theorem rate_limit_bounds_every_window:
  assumes "sorted (map fst rs)" and "c k = None" and "0 \<le> m"
    and "\<forall>(t, r)\<in>set rs. rate_key r = k \<and> rq_method r = ''POST'' \<longrightarrow> match_path paths (rq_path r) = Some (m, s)"
  shows "int (length (filter (\<lambda>(t, r). rate_key r = k \<and> rq_method r = ''POST'' \<and> a \<le> t \<and> t < a + seconds s)
    (let_through paths rs c))) \<le> m"
proof (cases rs)
  case Nil
  with assms(3) show ?thesis by simp
next
  case (Cons q qs)
  have "counted k m (seconds s) (fst q) c []"
    using assms(2,3) by (simp add: counted_def in_window_def)
  from counted_trace [OF this _ assms(4), of a] assms(1) Cons
  have "in_window (seconds s) a (posts_of k (let_through paths rs c)) \<le> m" by simp
  moreover have "in_window (seconds s) a (posts_of k xs) = int (length (filter (\<lambda>(t, r). rate_key r = k \<and>
      rq_method r = ''POST'' \<and> a \<le> t \<and> t < a + seconds s) xs))" for xs
    by (induction xs) (auto simp: in_window_def posts_of_def)
  ultimately show ?thesis by simp
qed

text \<open>
  It is not the sliding window it is said to be: a client that posts more slowly than the limit, but never
  leaves a whole window between two posts, is refused after the maximal number of them.
\<close>

lemma steady_client_is_refused:
  assumes "match_path paths (rq_path r) = Some (int n, s)" and "rq_method r = ''POST''"
    and "0 < d" and "d < seconds s" and "c (rate_key r) = None"
  shows "let_through paths (map (\<lambda>i. (t + int i * d, r)) [0..<Suc n]) c = map (\<lambda>i. (t + int i * d, r)) [0..<n]"
proof -
  have "let_through paths (map (\<lambda>i. (t + int i * d, r)) [j..<Suc n]) c = map (\<lambda>i. (t + int i * d, r)) [j..<n]"
    if "j \<le> n" and "cache_count (t + int j * d) (rate_key r) c = int j" for j c
    using that
  proof (induction "n - j" arbitrary: j c)
    case 0
    then show ?case using assms(1,2) by (simp add: rate_limit_def is_limited_def)
  next
    case (Suc x)
    let ?c = "c(rate_key r \<mapsto> (int j + 1, t + int j * d + seconds s))"
    have "cache_count (t + int (Suc j) * d) (rate_key r) ?c = int (Suc j)"
      using assms(4) by (simp add: cache_count_def algebra_simps)
    from Suc(1) [of "Suc j" ?c, OF _ _ this] Suc(2)
    have "let_through paths (map (\<lambda>i. (t + int i * d, r)) [Suc j..<Suc n]) ?c = map (\<lambda>i. (t + int i * d, r)) [Suc j..<n]"
      by simp
    moreover have "rate_limit False paths (t + int j * d) r c = (True, ?c)"
      using assms(1,2) Suc(2,4) by (simp add: rate_limit_def is_limited_def Let_def)
    moreover have "[j..<Suc n] = j # [Suc j..<Suc n]" "[j..<n] = j # [Suc j..<n]"
      using Suc(2) by (simp_all add: upt_rec)
    ultimately show ?case by simp
  qed
  from this [of 0 c] show ?thesis using assms(5) by (simp add: cache_count_def)
qed

section \<open>What a session keeps\<close>

lemma table_is_short: "length (sanitize_table_number v) \<le> 20"
  by (simp add: sanitize_table_number_def MAX_TABLE_LENGTH_def split: option.split)

lemma captured_table_is_read:
  assumes "values \<noteq> []"
  shows "se_table (snd (capture_table_from_query values s)) =
    (let t = sanitize_table_number (Some (sanitize_table_number (Some (last values)))) in if t \<noteq> [] then Some t else None)"
  using assms by (simp add: capture_table_from_query_def set_table_in_session_def Let_def)

text \<open>An order is visible to the session that placed it until ten others were placed in it.\<close>

lemma granted_order_is_visible:
  "length (se_access s) \<le> 10 \<Longrightarrow> can_view_checkout_order v (grant_checkout_order_access (ord_number od) s) od"
  by (auto simp: can_view_checkout_order_def grant_checkout_order_access_def last_ten_def drop_Cons' in_set_conv_decomp)

lemma granted_at_most_ten: "length (se_access (grant_checkout_order_access n s)) \<le> 10"
  by (simp add: grant_checkout_order_access_def last_ten_def)

end
