(* ===== verification/Accounts.thy ===== *)
theory Accounts
  imports Cart Guards
begin

text \<open>
  Customers' accounts (\<open>apps/accounts/\<close>) and wish lists (\<open>apps/wishlist/\<close>): addresses, the
  name a customer signs in with, the cart after signing in, and the pages of orders. What Django does
  to the session when a user signs in is an argument.
\<close>

section \<open>Addresses\<close>

record address =
  ad_id :: nat
  ad_user :: nat
  ad_label :: string
  ad_first_name :: string
  ad_last_name :: string
  ad_phone :: string
  ad_address_line1 :: string
  ad_address_line2 :: string
  ad_city :: string
  ad_state :: string
  ad_postal_code :: string
  ad_country :: string
  ad_is_default :: bool
  ad_updated_at :: timestamp

type_synonym 'a A = "(address list, exn, 'a) prog"

datatype account_reply = Page_404 | Address_List | Form_Page

text \<open>
  \<open>save\<close> first takes the mark from the user's other addresses by a single update, which leaves
  their \<open>updated_at\<close> alone.
\<close>

definition unmark_others :: "address \<Rightarrow> address list \<Rightarrow> address list" where
  "unmark_others a = upd_rows (\<lambda>x. ad_user x = ad_user a \<and> ad_is_default x \<and> ad_id x \<noteq> ad_id a)
     (\<lambda>x. x\<lparr>ad_is_default := False\<rparr>)"

definition save_address :: "env \<Rightarrow> address \<Rightarrow> unit A" where
  "save_address env a =
     bnd (whenever (ad_is_default a) (modifies (unmark_others a))) (\<lambda>_.
     let row = a\<lparr>ad_updated_at := now env\<rparr> in
     modifies (\<lambda>rows. if ad_id a \<in> ad_id ` set rows
       then upd_rows (\<lambda>x. ad_id x = ad_id a) (\<lambda>_. row) rows else rows @ [row]))"

text \<open>The fields of \<open>AddressForm\<close>, once they are valid\<close>

definition with_form :: "address \<Rightarrow> address \<Rightarrow> address" where
  "with_form f a = f\<lparr>ad_id := ad_id a, ad_user := ad_user a, ad_updated_at := ad_updated_at a\<rparr>"

definition new_id :: "address list \<Rightarrow> nat" where
  "new_id rows = Suc (foldr max (map ad_id rows) 0)"

definition address_create :: "env \<Rightarrow> nat \<Rightarrow> address option \<Rightarrow> account_reply A" where
  "address_create env u form = (case form of
     None \<Rightarrow> ret Form_Page
   | Some f \<Rightarrow>
       bnd (gets new_id) (\<lambda>k.
       bnd (save_address env (f\<lparr>ad_id := k, ad_user := u\<rparr>)) (\<lambda>_.
       ret Address_List)))"

definition address_of :: "nat \<Rightarrow> nat \<Rightarrow> address list \<Rightarrow> address option" where
  "address_of u k rows = find (\<lambda>a. ad_id a = k \<and> ad_user a = u) rows"

definition address_edit :: "env \<Rightarrow> nat \<Rightarrow> nat \<Rightarrow> address option \<Rightarrow> account_reply A" where
  "address_edit env u k form =
     bnd (gets (address_of u k)) (\<lambda>row.
     case row of
       None \<Rightarrow> ret Page_404
     | Some a \<Rightarrow>
         (case form of
            None \<Rightarrow> ret Form_Page
          | Some f \<Rightarrow> bnd (save_address env (with_form f a)) (\<lambda>_. ret Address_List)))"

definition address_delete :: "nat \<Rightarrow> nat \<Rightarrow> account_reply A" where
  "address_delete u k =
     bnd (gets (address_of u k)) (\<lambda>row.
     case row of
       None \<Rightarrow> ret Page_404
     | Some a \<Rightarrow> bnd (modifies (filter (\<lambda>x. ad_id x \<noteq> k))) (\<lambda>_. ret Address_List))"

definition address_set_default :: "env \<Rightarrow> nat \<Rightarrow> nat \<Rightarrow> account_reply A" where
  "address_set_default env u k =
     bnd (gets (address_of u k)) (\<lambda>row.
     case row of
       None \<Rightarrow> ret Page_404
     | Some a \<Rightarrow> bnd (save_address env (a\<lparr>ad_is_default := True\<rparr>)) (\<lambda>_. ret Address_List))"

text \<open>\<open>Meta.ordering\<close>: the default first, then the latest\<close>

definition address_list :: "nat \<Rightarrow> address list \<Rightarrow> address list" where
  "address_list u rows = sort_key (\<lambda>a. (if ad_is_default a then 0 else 1 :: int))
     (sort_key (\<lambda>a. - ad_updated_at a) (filter (\<lambda>a. ad_user a = u) rows))"

fun first :: "'a list \<Rightarrow> 'a option" where
  "first [] = None"
| "first (x # xs) = Some x"

definition get_default_address :: "nat \<Rightarrow> address list \<Rightarrow> address option" where
  "get_default_address u rows =
     (case first (filter ad_is_default (address_list u rows)) of
        Some a \<Rightarrow> Some a
      | None \<Rightarrow> first (address_list u rows))"

text \<open>What the checkout form starts with: no address, and no phone without a profile (an empty phone here)\<close>

definition get_checkout_initial :: "user \<Rightarrow> (string \<times> string) list" where
  "get_checkout_initial x = [(''email'', user_email x), (''first_name'', user_first_name x),
     (''last_name'', user_last_name x), (''phone'', user_phone x)]"

section \<open>Signing in\<close>

text \<open>
  \<open>profiles\<close> are the users with a profile, the newest profile first; \<open>usernames\<close> their names.
\<close>

definition resolve_login_identifier :: "(nat \<Rightarrow> string) \<Rightarrow> nat list \<Rightarrow> world \<Rightarrow> string \<Rightarrow> string" where
  "resolve_login_identifier usernames profiles w identifier =
     (let normalized = str_strip identifier in
      if normalized = [] then normalized
      else case find (\<lambda>u. map_option user_phone (users w u) = Some normalized) profiles of
             Some u \<Rightarrow> usernames u
           | None \<Rightarrow> normalized)"

definition merge_session_cart_on_login :: "env \<Rightarrow> string option \<Rightarrow> nat \<Rightarrow> unit P" where
  "merge_session_cart_on_login env key u =
     (if key = None \<or> key = Some [] then ret ()
      else
        bnd (gets (\<lambda>w. find (\<lambda>c. cart_session_key c = key) (carts w))) (\<lambda>row.
        case row of
          None \<Rightarrow> ret ()
        | Some session_cart \<Rightarrow>
            bnd (get_or_create_cart env (Some u) None) (\<lambda>(user_cart, created).
            bnd (merge_carts env session_cart user_cart) (\<lambda>_. ret ()))))"

datatype login_reply = To_Profile | To_Next string | Login_Page

text \<open>
  \<open>user\<close> is the visitor who is already signed in, \<open>form\<close> the user whose credentials a posted
  form holds, and \<open>django_login\<close> what \<open>django.contrib.auth.login\<close> makes of the session.
\<close>

definition login_view ::
  "env \<Rightarrow> (nat \<Rightarrow> session \<Rightarrow> session) \<Rightarrow> nat option \<Rightarrow> nat option \<Rightarrow> string \<Rightarrow> session \<Rightarrow>
   (login_reply \<times> session) P" where
  "login_view env django_login user form next_url s =
     (if user \<noteq> None then ret (To_Profile, s)
      else case form of
        None \<Rightarrow> ret (Login_Page, s)
      | Some u \<Rightarrow>
          let s' = django_login u s in
          bnd (merge_session_cart_on_login env (se_key s') u) (\<lambda>_.
          ret (if next_url \<noteq> [] then To_Next next_url else To_Profile, s')))"

text \<open>The user that a valid form of registration creates\<close>

record registration =
  rg_email :: string
  rg_first_name :: string
  rg_last_name :: string

definition save_user :: "registration \<Rightarrow> nat P" where
  "save_user f =
     bnd fresh_pk (\<lambda>k.
     bnd (modifies (\<lambda>w. w\<lparr>users := (users w)(k \<mapsto>
       \<lparr>user_id = k, user_email = rg_email f, user_first_name = rg_first_name f,
         user_last_name = rg_last_name f, user_phone = [], user_is_active = True\<rparr>)\<rparr>)) (\<lambda>_.
     ret k))"

definition register ::
  "env \<Rightarrow> (nat \<Rightarrow> session \<Rightarrow> session) \<Rightarrow> nat option \<Rightarrow> registration option \<Rightarrow> session \<Rightarrow>
   (login_reply \<times> session) P" where
  "register env django_login user form s =
     (if user \<noteq> None then ret (To_Profile, s)
      else case form of
        None \<Rightarrow> ret (Login_Page, s)
      | Some f \<Rightarrow>
          bnd (save_user f) (\<lambda>u.
          let s' = django_login u s in
          bnd (merge_session_cart_on_login env (se_key s') u) (\<lambda>_.
          ret (To_Profile, s'))))"

text \<open>The profile form writes the phone of the profile and three fields of the user.\<close>

definition save_profile :: "nat \<Rightarrow> string \<Rightarrow> registration \<Rightarrow> unit P" where
  "save_profile u phone f = modifies (\<lambda>w. w\<lparr>users := (users w)(u := map_option (\<lambda>x. x
     \<lparr>user_phone := phone, user_email := rg_email f, user_first_name := rg_first_name f,
      user_last_name := rg_last_name f\<rparr>) (users w u))\<rparr>)"

section \<open>Orders of a customer\<close>

definition order_list :: "nat \<Rightarrow> world \<Rightarrow> order list" where
  "order_list u w = sort_key (\<lambda>od. - ord_created_at od) (filter (\<lambda>od. ord_user od = Some u) (orders w))"

datatype order_reply = Order_404 | Please_Log_In | Order_Page order

definition order_page :: "visitor \<Rightarrow> session \<Rightarrow> string \<Rightarrow> world \<Rightarrow> order_reply" where
  "order_page v s number w =
     (case find (\<lambda>od. ord_number od = number) (orders w) of
        None \<Rightarrow> Order_404
      | Some od \<Rightarrow> if can_view_checkout_order v s od then Order_Page od else Please_Log_In)"

section \<open>Wish lists\<close>

text \<open>Pairs of a user and a product, the oldest first\<close>

datatype wish_reply = No_Product | Wish_Added | Wish_Known | Wish_Removed

definition wishlist_view :: "nat \<Rightarrow> (nat \<times> nat) list \<Rightarrow> nat list" where
  "wishlist_view u ws = rev (map snd (filter (\<lambda>(v, p). v = u) ws))"

definition wishlist_add :: "world \<Rightarrow> nat \<Rightarrow> nat \<Rightarrow> (nat \<times> nat) list \<Rightarrow> wish_reply \<times> (nat \<times> nat) list" where
  "wishlist_add w u p ws =
     (if products w p = None then (No_Product, ws)
      else if (u, p) \<in> set ws then (Wish_Known, ws) else (Wish_Added, ws @ [(u, p)]))"

definition wishlist_remove :: "world \<Rightarrow> nat \<Rightarrow> nat \<Rightarrow> (nat \<times> nat) list \<Rightarrow> wish_reply \<times> (nat \<times> nat) list" where
  "wishlist_remove w u p ws =
     (if products w p = None then (No_Product, ws) else (Wish_Removed, filter (\<lambda>x. x \<noteq> (u, p)) ws))"

lemma wishlist_distinct:
  "distinct ws \<Longrightarrow> distinct (snd (wishlist_add w u p ws))" "distinct ws \<Longrightarrow> distinct (snd (wishlist_remove w u p ws))"
  by (auto simp: wishlist_add_def wishlist_remove_def)

section \<open>One default address\<close>

definition one_default :: "address list \<Rightarrow> bool" where
  "one_default rows \<longleftrightarrow> distinct (map ad_id rows) \<and>
     (\<forall>a\<in>set rows. \<forall>b\<in>set rows. ad_user a = ad_user b \<and> ad_is_default a \<and> ad_is_default b \<longrightarrow> ad_id a = ad_id b)"

datatype address_call =
    Create nat "address option" | Edit nat nat "address option" | Delete nat nat | Set_Default nat nat

fun address_step :: "env \<Rightarrow> address_call \<Rightarrow> address list \<Rightarrow> address list" where
  "address_step env (Create u f) rows = snd (address_create env u f rows)"
| "address_step env (Edit u k f) rows = snd (address_edit env u k f rows)"
| "address_step env (Delete u k) rows = snd (address_delete u k rows)"
| "address_step env (Set_Default u k) rows = snd (address_set_default env u k rows)"

fun address_run :: "(env \<times> address_call) list \<Rightarrow> address list \<Rightarrow> address list" where
  "address_run [] rows = rows"
| "address_run ((env, c) # cs) rows = address_run cs (address_step env c rows)"

lemma one_defaultI:
  assumes "distinct (map ad_id rows)"
    and "\<And>x y. x \<in> set rows \<Longrightarrow> y \<in> set rows \<Longrightarrow> ad_user x = ad_user y \<Longrightarrow> ad_is_default x \<Longrightarrow>
      ad_is_default y \<Longrightarrow> ad_id x = ad_id y"
  shows "one_default rows"
  unfolding one_default_def using assms by blast

lemma one_defaultD:
  "one_default rows \<Longrightarrow> x \<in> set rows \<Longrightarrow> y \<in> set rows \<Longrightarrow> ad_user x = ad_user y \<Longrightarrow> ad_is_default x \<Longrightarrow>
   ad_is_default y \<Longrightarrow> x = y"
  unfolding one_default_def distinct_map inj_on_def by blast

lemma one_default_ids: "one_default rows \<Longrightarrow> distinct (map ad_id rows)"
  by (simp add: one_default_def)

lemma one_default_unmark:
  assumes "one_default rows"
  shows "one_default (unmark_others a rows)"
proof (rule one_defaultI)
  have "map ad_id (unmark_others a rows) = map ad_id rows" by (simp add: unmark_others_def upd_rows_def)
  with one_default_ids [OF assms] show "distinct (map ad_id (unmark_others a rows))" by (simp only:)
  have kept: "x \<in> set rows" if "x \<in> set (unmark_others a rows)" "ad_is_default x" for x
    using that by (auto simp: unmark_others_def upd_rows_def split: if_splits)
  show "ad_id x = ad_id y" if "x \<in> set (unmark_others a rows)" "y \<in> set (unmark_others a rows)"
    "ad_user x = ad_user y" "ad_is_default x" "ad_is_default y" for x y
    by (rule arg_cong [where f = ad_id]) (rule one_defaultD [OF assms kept [OF that(1,4)] kept [OF that(2,5)] that(3-5)])
qed

lemma unmarked:
  "x \<in> set (unmark_others a rows) \<Longrightarrow> ad_user x = ad_user a \<Longrightarrow> ad_is_default x \<Longrightarrow> ad_id x = ad_id a"
  by (auto simp: unmark_others_def upd_rows_def split: if_splits)

lemma one_default_put:
  assumes rows: "one_default rows"
    and alone: "\<And>x. ad_is_default a \<Longrightarrow> x \<in> set rows \<Longrightarrow> ad_user x = ad_user a \<Longrightarrow> ad_is_default x \<Longrightarrow> ad_id x = ad_id a"
  shows "one_default (if ad_id a \<in> ad_id ` set rows then upd_rows (\<lambda>x. ad_id x = ad_id a) (\<lambda>_. a) rows else rows @ [a])"
    (is "one_default ?new")
proof (rule one_defaultI)
  have "map ad_id (upd_rows (\<lambda>x. ad_id x = ad_id a) (\<lambda>_. a) rows) = map ad_id rows"
    by (simp add: upd_rows_def)
  then show "distinct (map ad_id ?new)" using one_default_ids [OF rows] by auto
  have old: "x = a \<or> x \<in> set rows" if "x \<in> set ?new" for x
    using that by (auto simp: upd_rows_def split: if_splits)
  fix x y assume xy: "x \<in> set ?new" "y \<in> set ?new" "ad_user x = ad_user y" "ad_is_default x" "ad_is_default y"
  from old [OF xy(1)] old [OF xy(2)] consider "x = a" "y = a" | "x = a" "y \<in> set rows" | "x \<in> set rows" "y = a"
    | "x \<in> set rows" "y \<in> set rows" by blast
  then show "ad_id x = ad_id y"
    using alone [of x] alone [of y] one_defaultD [OF rows, of x y] xy(3-5) by cases simp_all
qed

lemma keeps_save_address: "keeps one_default (save_address env a)"
proof (rule keepsI)
  fix rows assume "one_default rows"
  let ?mid = "if ad_is_default a then unmark_others a rows else rows"
  have "one_default ?mid" using \<open>one_default rows\<close> one_default_unmark by simp
  from one_default_put [OF this, of "a\<lparr>ad_updated_at := now env\<rparr>"] unmarked
  show "one_default (snd (save_address env a rows))"
    by (simp add: save_address_def run_bnd run_whenever Let_def split: if_splits)
qed

lemma one_default_step: "one_default rows \<Longrightarrow> one_default (address_step env c rows)"
proof -
  have "keeps one_default (address_create env u f)" "keeps one_default (address_edit env u k f)"
    "keeps one_default (address_set_default env u k)" for u k f
    unfolding address_create_def address_edit_def address_set_default_def
    by (intro keeps_intros keeps_save_address)+
  moreover have "keeps one_default (address_delete u k)" for u k
    unfolding address_delete_def
    by (intro keeps_intros keeps_modifies) (simp add: one_default_def distinct_map_filter)
  ultimately show "one_default rows \<Longrightarrow> ?thesis" by (cases c) (simp_all add: keepsD)
qed

lemma one_default_run: "one_default rows \<Longrightarrow> one_default (address_run cs rows)"
  by (induction cs rows rule: address_run.induct) (simp_all add: one_default_step)

lemma first_Some: "first xs = Some x \<Longrightarrow> x \<in> set xs"
  by (cases xs) auto

lemma first_None: "first xs = None \<longleftrightarrow> xs = []"
  by (cases xs) auto

lemma default_address:
  assumes "one_default rows" and "a \<in> set rows" and "ad_is_default a"
  shows "get_default_address (ad_user a) rows = Some a"
proof -
  let ?ds = "filter ad_is_default (address_list (ad_user a) rows)"
  have in_ds: "a \<in> set ?ds" using assms by (simp add: address_list_def)
  then obtain b where b: "first ?ds = Some b" by (cases ?ds) auto
  then have "b \<in> set ?ds" by (rule first_Some)
  then have "b \<in> set rows" "ad_user b = ad_user a" "ad_is_default b" by (auto simp: address_list_def)
  with one_defaultD [OF assms(1)] assms(2,3) have "b = a" by blast
  with b show ?thesis by (simp add: get_default_address_def)
qed

lemma distinct_singleton: "set xs = {a} \<Longrightarrow> distinct xs \<Longrightarrow> xs = [a]"
  by (cases xs; cases "tl xs") auto

text \<open>
  C32: over any sequence of additions, edits, deletions and choices of a default by customers on the pages of
  their addresses, each of them has at most one default address, and \<open>get_default_address\<close> returns it.
  (Nothing in the repository calls that function: the form of the checkout starts with the names, the e-mail and
  the phone of the user, without an address, as \<open>get_checkout_initial\<close> above.)
\<close>

theorem at_most_one_default_address:
  assumes "one_default rows" and "a \<in> set (address_run cs rows)" and "ad_is_default a"
  shows "get_default_address (ad_user a) (address_run cs rows) = Some a \<and>
    filter (\<lambda>b. ad_user b = ad_user a \<and> ad_is_default b) (address_run cs rows) = [a]"
proof -
  let ?rows = "address_run cs rows" and ?P = "\<lambda>b. ad_user b = ad_user a \<and> ad_is_default b"
  have ok: "one_default ?rows" by (rule one_default_run [OF assms(1)])
  have "set (filter ?P ?rows) = {a}"
  proof -
    have "b = a" if "b \<in> set ?rows" "?P b" for b
      using one_defaultD [OF ok, of b a] that assms(2,3) by blast
    then show ?thesis using assms(2,3) by auto
  qed
  moreover have "distinct ?rows" using ok by (simp add: one_default_def distinct_map)
  then have "distinct (filter ?P ?rows)" by simp
  ultimately have "filter ?P ?rows = [a]" by (rule distinct_singleton)
  with default_address [OF ok assms(2,3)] show ?thesis by simp
qed

section \<open>Signing in forgets the cart\<close>

text \<open>
  The cart of a visitor is not merged into the customer's cart when the visitor signs in. Django
  gives the session a new key on signing in, and the view asks for the cart of the session only
  afterwards: no cart has the new key, nothing is merged, and the visitor's items, with the units they
  hold, stay behind in a cart that no request reaches any more.
\<close>

theorem login_forgets_the_cart:
  assumes "\<forall>c\<in>set (carts w). cart_session_key c \<noteq> se_key (django_login u s)"
  shows "login_view env django_login None (Some u) next_url s w =
      (Inr (if next_url \<noteq> [] then To_Next next_url else To_Profile, django_login u s), w)"
proof -
  have "find (\<lambda>c. cart_session_key c = se_key (django_login u s)) (carts w) = None"
    using assms by (simp add: find_None_iff)
  then show ?thesis by (simp add: login_view_def merge_session_cart_on_login_def run_bnd Let_def)
qed

end
