(* ===== verification/Site.thy ===== *)
theory Site
  imports Upsell Accounts Staff
begin

text \<open>
  The pages of the shop (\<open>apps/core/views.py\<close>): the menu, a product, the cart and the checkout with
  its form (\<open>apps/core/forms.py\<close>). A view works on the tables, the session of the visitor, the cache of
  the catalog (\<open>apps/core/performance.py\<close>) and the messages shown to the visitor; requests are not
  transactions, so that what a view did before an exception stays done.
\<close>

record site =
  st_world :: world
  st_intel :: intelligence
  st_session :: session
  st_catalog :: "string \<rightharpoonup> timestamp \<times> product list"
  st_flashes :: "flash list"

type_synonym 'a V = "(site, exn, 'a) prog"

definition in_shop :: "'a P \<Rightarrow> 'a V" where
  "in_shop m = (\<lambda>s. case m (st_world s) of (r, w) \<Rightarrow> (r, s\<lparr>st_world := w\<rparr>))"

definition in_intel :: "(world \<Rightarrow> 'a I) \<Rightarrow> 'a V" where
  "in_intel m = (\<lambda>s. case m (st_world s) (st_intel s) of (r, i) \<Rightarrow> (r, s\<lparr>st_intel := i\<rparr>))"

definition in_session :: "(session \<Rightarrow> session) \<Rightarrow> unit V" where
  "in_session f = modifies (\<lambda>s. s\<lparr>st_session := f (st_session s)\<rparr>)"

definition say :: "level \<Rightarrow> message \<Rightarrow> unit V" where
  "say lv m = modifies (\<lambda>s. s\<lparr>st_flashes := st_flashes s @ [Flash lv [] m]\<rparr>)"

text \<open>Who asks, and the key a new session would get\<close>

record browser = visitor +
  br_new_key :: string

datatype reply =
    Http_404
  | Next_Or_Product product
  | To_Cart
  | To_Order string
  | To_Confirmation string
  | Gateway_Page order "payment option" string
  | Cart_Page cart "cart_item list" "product list"
  | Checkout_Page cart "cart_item list" "product list"
  | Product_Page product "product list"
  | Home_Page "product list" "product list"
  | Menu_Page "product list"

section \<open>Numbers in forms\<close>

text \<open>\<open>int(s)\<close>: white space, a sign, digits with single underscores between them\<close>

fun underscores_ok :: "string \<Rightarrow> bool" where
  "underscores_ok [] = False"
| "underscores_ok [c] = (c \<noteq> CHR ''_'')"
| "underscores_ok (c # d # cs) = (\<not> (c = CHR ''_'' \<and> d = CHR ''_'') \<and> underscores_ok (d # cs))"

definition py_int :: "string \<Rightarrow> int option" where
  "py_int s =
     (let t = str_strip s;
          negative = (t \<noteq> [] \<and> hd t = CHR ''-'');
          u = (if t \<noteq> [] \<and> hd t \<in> {CHR ''-'', CHR ''+''} then tl t else t)
      in if u \<noteq> [] \<and> hd u \<noteq> CHR ''_'' \<and> underscores_ok u
         then map_option (\<lambda>n. if negative then - int n else int n) (parse_nat (filter (\<lambda>c. c \<noteq> CHR ''_'') u))
         else None)"

text \<open>\<open>get_object_or_404(Product, pk=value)\<close>\<close>

definition product_by_pk :: "string option \<Rightarrow> product option V" where
  "product_by_pk value = (case value of
     None \<Rightarrow> ret None
   | Some v \<Rightarrow>
       (case py_int v of
          None \<Rightarrow> raise (Exn ValueError (Fmt ''Field 'id' expected a number but got '{}'.'' [AStr v]))
        | Some n \<Rightarrow> gets (\<lambda>s. if 0 \<le> n then products (st_world s) (nat n) else None)))"

section \<open>The visitor's cart\<close>

definition ensure_session :: "browser \<Rightarrow> unit V" where
  "ensure_session br =
     bnd (gets (\<lambda>s. se_key (st_session s))) (\<lambda>key.
     whenever (key = None \<or> key = Some []) (in_session (\<lambda>s. s\<lparr>se_key := Some (br_new_key br)\<rparr>)))"

definition cart_of_visitor :: "env \<Rightarrow> browser \<Rightarrow> cart V" where
  "cart_of_visitor env br =
     bnd (ensure_session br) (\<lambda>_.
     bnd (gets (\<lambda>s. se_key (st_session s))) (\<lambda>key.
     bnd (in_shop (if vi_user br \<noteq> None then get_or_create_cart env (vi_user br) None
            else get_or_create_cart env None key)) (\<lambda>(c, created).
     ret c)))"

definition track_conversion :: "browser \<Rightarrow> growth_event_type \<Rightarrow> nat option \<Rightarrow> nat option \<Rightarrow> unit V" where
  "track_conversion br ty c od =
     bnd (ensure_session br) (\<lambda>_. in_shop (track_event ty (vi_user br) c od))"

definition CART_EXPECTED_ERRORS :: "exn_class set" where
  "CART_EXPECTED_ERRORS = {ValueError, ProductUnavailableError, InvalidQuantityError,
     InsufficientStockError, CapacityExceededError, CartMutationBlocked}"

definition cart_user_error_message :: "exn \<Rightarrow> message" where
  "cart_user_error_message e =
     (if class_of e \<in> {InsufficientStockError, CapacityExceededError} then Text ''STOCK_CAPACITY_EXCEEDED_MESSAGE''
      else if class_of e = ValueError then Text ''INVALID_QUANTITY_MESSAGE''
      else StrOf e)"

text \<open>\<open>try: m; except _CART_EXPECTED_ERRORS as exc: messages.error(...)\<close>; whether there was an error\<close>

definition cart_errors :: "unit V \<Rightarrow> bool V" where
  "cart_errors m = try_except (bnd m (\<lambda>_. ret False)) (\<lambda>e.
     if class_of e \<in> CART_EXPECTED_ERRORS then bnd (say Lv_Error (cart_user_error_message e)) (\<lambda>_. ret True)
     else raise e)"

definition add_to_cart :: "env \<Rightarrow> browser \<Rightarrow> string option \<Rightarrow> string option \<Rightarrow> reply V" where
  "add_to_cart env br product_id quantity =
     bnd (product_by_pk product_id) (\<lambda>row.
     case row of
       None \<Rightarrow> ret Http_404
     | Some pr \<Rightarrow>
         bnd (cart_of_visitor env br) (\<lambda>c.
         case (case quantity of None \<Rightarrow> Some 1 | Some q \<Rightarrow> py_int q) of
           None \<Rightarrow> bnd (say Lv_Error (Text ''INVALID_QUANTITY_MESSAGE'')) (\<lambda>_. ret (Next_Or_Product pr))
         | Some n \<Rightarrow>
             bnd (cart_errors
               (bnd (in_shop (add_item env c pr n)) (\<lambda>_.
                bnd (track_conversion br GE_ADD_TO_CART (Some (cart_id c)) None) (\<lambda>_.
                say Lv_Success (Fmt ''<{}> added to the cart'' [AStr (prod_name pr)]))))) (\<lambda>_.
             ret (Next_Or_Product pr))))"

text \<open>
  A posted form gives the value of a field by its name. Quantities are posted as \<open>quantity_<pk>\<close>;
  removing an item is not guarded against a locked cart.
\<close>

type_synonym form_data = "string \<Rightarrow> string option"

definition update_quantity :: "env \<Rightarrow> cart \<Rightarrow> string \<Rightarrow> cart_item \<Rightarrow> unit V" where
  "update_quantity env c quantity x =
     bnd (in_shop (with_product x)) (\<lambda>(y, pr).
     case py_int quantity of
       None \<Rightarrow> raise (Exn ValueError (Fmt ''invalid literal for int() with base 10: {}'' [AStr (CHR 0x27 # quantity @ [CHR 0x27])]))
     | Some n \<Rightarrow>
         if n \<le> 0 then in_shop (remove_item env c (prod_id pr))
         else bnd (in_shop (set_item_quantity env c pr n)) (\<lambda>_. ret ()))"

definition update_quantities :: "env \<Rightarrow> cart \<Rightarrow> form_data \<Rightarrow> bool list V" where
  "update_quantities env c data =
     bnd (gets (\<lambda>s. items_in (st_world s) (cart_id c))) (\<lambda>items.
     for_collect items (\<lambda>x.
       case data (''quantity_'' @ digits (ci_id x)) of
         None \<Rightarrow> ret False
       | Some q \<Rightarrow> cart_errors (update_quantity env c q x)))"

definition cart_page :: "env \<Rightarrow> listing \<Rightarrow> nat list \<Rightarrow> browser \<Rightarrow> cart \<Rightarrow> reply V" where
  "cart_page env ls us br c =
     bnd (gets (\<lambda>s. items_in (st_world s) (cart_id c))) (\<lambda>items.
     bnd (in_intel (\<lambda>w. for_cart env ls us w c (vi_user br) 4)) (\<lambda>ups.
     ret (Cart_Page c items ups)))"

definition cart_view :: "env \<Rightarrow> listing \<Rightarrow> nat list \<Rightarrow> browser \<Rightarrow> form_data option \<Rightarrow> reply V" where
  "cart_view env ls us br post =
     bnd (cart_of_visitor env br) (\<lambda>c.
     case post of
       None \<Rightarrow> cart_page env ls us br c
     | Some data \<Rightarrow>
         let action = data ''action''; product_id = data ''product_id'' in
         if action = Some ''remove'' \<and> product_id \<noteq> None \<and> product_id \<noteq> Some [] then
           bnd (product_by_pk product_id) (\<lambda>row.
           case row of
             None \<Rightarrow> ret Http_404
           | Some pr \<Rightarrow>
               bnd (in_shop (remove_item env c (prod_id pr))) (\<lambda>_.
               bnd (say Lv_Info (Fmt ''<{}> removed from the cart'' [AStr (prod_name pr)])) (\<lambda>_.
               ret To_Cart)))
         else if action = Some ''update'' then
           bnd (update_quantities env c data) (\<lambda>errors.
           bnd (whenever (True \<notin> set errors) (say Lv_Success (Text ''cart updated''))) (\<lambda>_.
           ret To_Cart))
         else cart_page env ls us br c)"

section \<open>The checkout form\<close>

record raw_checkout =
  rc_first_name :: string
  rc_last_name :: string
  rc_phone :: string
  rc_email :: string
  rc_pickup_note :: string
  rc_payment_method :: string
  rc_address_line1 :: string
  rc_address_line2 :: string
  rc_city :: string
  rc_state :: string
  rc_postal_code :: string
  rc_country :: string

text \<open>
  \<open>valid_email\<close> is Django's validator. Character fields strip their value; a field that was not posted
  is empty, so that the default country never applies.
\<close>

definition payment_choice :: "string \<Rightarrow> payment_method option" where
  "payment_choice s = (if s = ''online'' then Some PM_ONLINE else if s = ''cash'' then Some PM_CASH else None)"

definition guest_email :: "string \<Rightarrow> string" where
  "guest_email phone = ''guest+'' @ filter (\<lambda>c. c \<noteq> CHR ''+'') phone @ ''@crumbs.local''"

definition clean_checkout :: "(string \<Rightarrow> bool) \<Rightarrow> raw_checkout \<Rightarrow> (customer \<times> string \<times> payment_method) option" where
  "clean_checkout valid_email r =
     (let first_name = str_strip (rc_first_name r); phone = str_strip (rc_phone r);
          email = str_strip (rc_email r); last_name = str_strip (rc_last_name r);
          pickup_note = str_strip (rc_pickup_note r) in
      case payment_choice (rc_payment_method r) of
        None \<Rightarrow> None
      | Some m \<Rightarrow>
          if first_name = [] \<or> 100 < length first_name \<or> phone = [] \<or> 30 < length phone \<or>
             email \<noteq> [] \<and> \<not> valid_email email \<or> 255 < length pickup_note
          then None
          else Some
            (\<lparr>cu_email = (if email = [] then guest_email phone else email), cu_first_name = first_name,
              cu_last_name = (if last_name = [] then first_name else last_name), cu_phone = phone,
              cu_address_line1 = str_strip (rc_address_line1 r), cu_address_line2 = str_strip (rc_address_line2 r),
              cu_city = str_strip (rc_city r), cu_state = str_strip (rc_state r),
              cu_postal_code = str_strip (rc_postal_code r), cu_country = str_strip (rc_country r),
              cu_notes = pickup_note, cu_coupon_code = [], cu_referral_code = [],
              cu_payment_method = None, cu_delivery_type = None, cu_delivery_zone = None, cu_delivery_fee = None\<rparr>,
             pickup_note, m))"

section \<open>The checkout page\<close>

text \<open>The order, its payment and the address of the gateway\<close>

definition run_checkout ::
  "env \<Rightarrow> cart \<Rightarrow> customer \<Rightarrow> payment_method \<Rightarrow> nat option \<Rightarrow> (order \<times> payment option \<times> string option) P" where
  "run_checkout env c cust m user =
     (if m = PM_ONLINE then
        bnd (process_checkout env (cart_id c) cust user) (\<lambda>r. ret (co_order r, co_payment r, co_url r))
      else if m \<in> {PM_CASH, PM_COUNTER_CARD} then
        bnd (process_counter_checkout env (cart_id c) cust m user) (\<lambda>r. ret (ct_order r, Some (ct_payment r), None))
      else raise (Exn CheckoutError (Text ''unsupported payment method'')))"

definition after_checkout ::
  "browser \<Rightarrow> cart \<Rightarrow> payment_method \<Rightarrow> order \<times> payment option \<times> string option \<Rightarrow> reply V" where
  "after_checkout br c m = (\<lambda>(od, pm, url).
     bnd (track_conversion br GE_CHECKOUT_COMPLETE (Some (cart_id c)) (Some (ord_id od))) (\<lambda>_.
     if m = PM_ONLINE then
       (case url of
          Some (x # xs) \<Rightarrow> ret (Gateway_Page od pm (x # xs))
        | _ \<Rightarrow> bnd (say Lv_Error (Text ''online payment unavailable'')) (\<lambda>_. ret To_Cart))
     else
       bnd (in_session (grant_checkout_order_access (ord_number od))) (\<lambda>_.
       bnd (say Lv_Success (Text ''COUNTER_PAYMENT_MESSAGE'')) (\<lambda>_.
       ret (if vi_user br \<noteq> None then To_Order (ord_number od) else To_Confirmation (ord_number od))))))"

definition checkout_page :: "env \<Rightarrow> listing \<Rightarrow> nat list \<Rightarrow> browser \<Rightarrow> cart \<Rightarrow> reply V" where
  "checkout_page env ls us br c =
     bnd (gets (\<lambda>s. items_in (st_world s) (cart_id c))) (\<lambda>items.
     bnd (in_intel (\<lambda>w. for_checkout env ls us w c (vi_user br) 3)) (\<lambda>ups.
     ret (Checkout_Page c items ups)))"

definition checkout ::
  "env \<Rightarrow> (string \<Rightarrow> bool) \<Rightarrow> listing \<Rightarrow> nat list \<Rightarrow> browser \<Rightarrow> raw_checkout option \<Rightarrow> reply V" where
  "checkout env valid_email ls us br post =
     bnd (cart_of_visitor env br) (\<lambda>c.
     bnd (gets (\<lambda>s. items_in (st_world s) (cart_id c) = [])) (\<lambda>nothing.
     if nothing then bnd (say Lv_Warning (Text ''cart is empty'')) (\<lambda>_. ret To_Cart)
     else
       bnd (track_conversion br GE_CHECKOUT_START (Some (cart_id c)) None) (\<lambda>_.
       case (case post of None \<Rightarrow> None | Some r \<Rightarrow> clean_checkout valid_email r) of
         None \<Rightarrow> checkout_page env ls us br c
       | Some (cust, pickup_note, m) \<Rightarrow>
           bnd (in_session (sync_table_from_pickup_note pickup_note)) (\<lambda>_.
           bnd (try_except (bnd (in_shop (run_checkout env c cust m (vi_user br))) (\<lambda>r. ret (Inr r)))
              (\<lambda>e. if class_of e \<in> {CheckoutError, EmptyCartError} then ret (Inl e) else raise e)) (\<lambda>r.
           case r of
             Inl e \<Rightarrow> bnd (say Lv_Error (StrOf e)) (\<lambda>_. ret To_Cart)
           | Inr done \<Rightarrow> after_checkout br c m done)))))"

section \<open>The menu and the product pages\<close>

definition cache_get_or_set :: "env \<Rightarrow> int \<Rightarrow> string \<Rightarrow> (world \<Rightarrow> product list) \<Rightarrow> product list V" where
  "cache_get_or_set env timeout key factory =
     bnd (gets (\<lambda>s. st_catalog s key)) (\<lambda>row.
     case (case row of Some (e, xs) \<Rightarrow> if now env < e then Some xs else None | None \<Rightarrow> None) of
       Some xs \<Rightarrow> ret xs
     | None \<Rightarrow>
         bnd (gets (\<lambda>s. factory (st_world s))) (\<lambda>xs.
         bnd (modifies (\<lambda>s. s\<lparr>st_catalog := (st_catalog s)(key \<mapsto> (now env + seconds timeout, xs))\<rparr>)) (\<lambda>_.
         ret xs)))"

definition home :: "env \<Rightarrow> int \<Rightarrow> listing \<Rightarrow> nat list \<Rightarrow> browser \<Rightarrow> reply V" where
  "home env timeout ls us br =
     bnd (cache_get_or_set env timeout ''crumbs:home:featured''
            (\<lambda>w. take 4 (filter prod_is_featured (available_products (by_default ls) w)))) (\<lambda>featured.
     bnd (in_intel (\<lambda>w. for_home env ls us w (vi_user br) 8)) (\<lambda>best.
     ret (Home_Page featured best)))"

definition in_category :: "string \<Rightarrow> world \<Rightarrow> product \<Rightarrow> bool" where
  "in_category slug w p \<longleftrightarrow> map_option cat_slug (categories w (prod_category p)) = Some slug"

text \<open>\<open>ids\<close> are the keys of the categories.\<close>

definition product_list :: "env \<Rightarrow> int \<Rightarrow> listing \<Rightarrow> nat list \<Rightarrow> string option \<Rightarrow> reply V" where
  "product_list env timeout ls ids slug =
     bnd (cache_get_or_set env timeout
            (''crumbs:catalog:products:'' @ (case slug of Some (x # xs) \<Rightarrow> x # xs | _ \<Rightarrow> ''all''))
            (\<lambda>w. filter (\<lambda>p. case slug of Some (x # xs) \<Rightarrow> in_category (x # xs) w p | _ \<Rightarrow> True)
                   (available_products (by_default ls) w))) (\<lambda>xs.
     bnd (gets (\<lambda>s. case slug of
              Some (y # ys) \<Rightarrow> (\<exists>k\<in>set ids. map_option cat_slug (categories (st_world s) k) = Some (y # ys))
            | _ \<Rightarrow> True)) (\<lambda>known.
     ret (if known then Menu_Page xs else Http_404)))"

text \<open>\<open>p\<close> is the product the address names.\<close>

definition product_detail :: "env \<Rightarrow> listing \<Rightarrow> nat list \<Rightarrow> browser \<Rightarrow> nat option \<Rightarrow> reply V" where
  "product_detail env ls us br p =
     bnd (gets (\<lambda>s. Option.bind p (products (st_world s)))) (\<lambda>row.
     case row of
       None \<Rightarrow> ret Http_404
     | Some pr \<Rightarrow>
         bnd (track_conversion br GE_PRODUCT_VIEW None None) (\<lambda>_.
         bnd (in_intel (\<lambda>w. for_product ls us w pr (vi_user br) 4)) (\<lambda>related.
         bnd (gets (\<lambda>s. case se_key (st_session s) of Some k \<Rightarrow> k | None \<Rightarrow> [])) (\<lambda>key.
         bnd (in_intel (\<lambda>w. log_impression env SLOT_PRODUCT related (vi_user br) key)) (\<lambda>_.
         ret (Product_Page pr related))))))"

end
