(* ===== verification/SiteProps.thy ===== *)
theory SiteProps
  imports CheckoutProps StaffProps Site
begin

text \<open>
  Properties of the pages: the stock ledger under everything visitors do, the way from the checkout to
  the page of the order, and instances of the theorems about accounts and the rate limiter.
\<close>

section \<open>The ledger under the pages\<close>

lemma keeps_in_shop: "keeps I m \<Longrightarrow> keeps (\<lambda>s. I (st_world s)) (in_shop m)"
  by (auto simp: keeps_def in_shop_def split: prod.split)

lemma keeps_in_intel: "keeps (\<lambda>s. I (st_world s)) (in_intel m)"
  by (auto simp: keeps_def in_intel_def split: prod.split)

lemma keeps_elsewhere:
  "keeps (\<lambda>s. I (st_world s)) (say lv m)" "keeps (\<lambda>s. I (st_world s)) (in_session f)"
  by (simp_all add: keeps_def say_def in_session_def)

text \<open>A predicate on the tables that carts, checkouts and growth keep is kept by every page.\<close>

context shop_ops
begin

lemma keeps_cart_of_visitor: "keeps (\<lambda>s. I (st_world s)) (cart_of_visitor env br)"
  unfolding cart_of_visitor_def ensure_session_def
  by (intro keeps_intros keeps_elsewhere keeps_in_shop keeps_get_or_create_cart)

lemma keeps_track_conversion: "keeps (\<lambda>s. I (st_world s)) (track_conversion br ty c od)"
  unfolding track_conversion_def ensure_session_def track_event_def
  by (intro keeps_intros keeps_elsewhere keeps_in_shop keeps_set_growth_any)

lemmas keeps_page = keeps_intros keeps_elsewhere keeps_in_shop keeps_in_intel keeps_cart_of_visitor
  keeps_track_conversion

lemma keeps_product_by_pk: "keeps J (product_by_pk v)"
  unfolding product_by_pk_def by (intro keeps_intros)

lemma keeps_add_to_cart: "keeps (\<lambda>s. I (st_world s)) (add_to_cart env br p q)"
  unfolding add_to_cart_def cart_errors_def by (intro keeps_page keeps_product_by_pk keeps_add_item)

lemma keeps_cart_view: "keeps (\<lambda>s. I (st_world s)) (cart_view env ls us br post)"
  unfolding cart_view_def cart_page_def update_quantities_def update_quantity_def cart_errors_def with_product_def
    get_product_def Let_def
  by (intro keeps_page keeps_product_by_pk keeps_remove_item keeps_set_item_quantity)

lemma keeps_run_checkout: "keeps I (run_checkout env c cust m user)"
  unfolding run_checkout_def by (intro keeps_intros keeps_process_checkout keeps_process_counter_checkout)

lemma keeps_after_checkout: "keeps (\<lambda>s. I (st_world s)) (after_checkout br c m r)"
  unfolding after_checkout_def
  by (intro keeps_page) (auto split: list.split intro!: keeps_page)

lemma keeps_sum_page:
  "(\<And>e. keeps J (f e)) \<Longrightarrow> (\<And>x. keeps J (g x)) \<Longrightarrow> keeps J (case r of Inl e \<Rightarrow> f e | Inr x \<Rightarrow> g x)"
  by (cases r) auto

lemma keeps_checkout: "keeps (\<lambda>s. I (st_world s)) (checkout env ve ls us br post)"
  unfolding checkout_def checkout_page_def
  by (intro keeps_page keeps_run_checkout keeps_after_checkout keeps_sum_page)

lemma keeps_product_detail: "keeps (\<lambda>s. I (st_world s)) (product_detail env ls us br p)"
  unfolding product_detail_def by (intro keeps_page)

lemma keeps_home: "keeps (\<lambda>s. I (st_world s)) (home env t ls us br)"
  unfolding home_def cache_get_or_set_def by (intro keeps_page keeps_modifies) simp

lemma keeps_product_list: "keeps (\<lambda>s. I (st_world s)) (product_list env t ls ids slug)"
  unfolding product_list_def cache_get_or_set_def by (intro keeps_page keeps_modifies) simp

end

datatype page_call =
    Visit_Home | Visit_Menu "string option" | Visit_Product "nat option"
  | Post_Item "string option" "string option" | Visit_Cart "form_data option" | Visit_Checkout "raw_checkout option"

text \<open>What the pages need besides the clock: Django's e-mail validator and the orders of listings\<close>

record storefront =
  su_valid_email :: "string \<Rightarrow> bool"
  su_listing :: listing
  su_users :: "nat list"
  su_categories :: "nat list"
  su_timeout :: int

fun page :: "env \<Rightarrow> storefront \<Rightarrow> browser \<Rightarrow> page_call \<Rightarrow> reply V" where
  "page env su br Visit_Home = home env (su_timeout su) (su_listing su) (su_users su) br"
| "page env su br (Visit_Menu slug) = product_list env (su_timeout su) (su_listing su) (su_categories su) slug"
| "page env su br (Visit_Product p) = product_detail env (su_listing su) (su_users su) br p"
| "page env su br (Post_Item p q) = add_to_cart env br p q"
| "page env su br (Visit_Cart post) = cart_view env (su_listing su) (su_users su) br post"
| "page env su br (Visit_Checkout post) = checkout env (su_valid_email su) (su_listing su) (su_users su) br post"

text \<open>
  What happens to the shop: a request of a visitor with the visitor's session, or a call behind the
  scenes, of a gateway, a task or the staff. Tables, caches and intelligence tables are shared.
\<close>

datatype happening = Request browser session page_call | Behind_The_Scenes desk_call

fun happen :: "storefront \<Rightarrow> env \<Rightarrow> happening \<Rightarrow> site \<Rightarrow> site" where
  "happen su env (Request br se c) s = snd (page env su br c (s\<lparr>st_session := se\<rparr>))"
| "happen su env (Behind_The_Scenes c) s = s\<lparr>st_world := desk_step env c (st_world s)\<rparr>"

fun history :: "storefront \<Rightarrow> (env \<times> happening) list \<Rightarrow> site \<Rightarrow> site" where
  "history su [] s = s"
| "history su ((env, h) # hs) s = history su hs (happen su env h s)"

lemma stock_ok_page: "keeps (\<lambda>s. stock_ok (st_world s)) (page env su br c)"
  by (cases c) (simp_all add: shop_ledger.keeps_home shop_ledger.keeps_product_list shop_ledger.keeps_product_detail
    shop_ledger.keeps_add_to_cart shop_ledger.keeps_cart_view shop_ledger.keeps_checkout)

lemma stock_ok_happen: "stock_ok (st_world s) \<Longrightarrow> stock_ok (st_world (happen su env h s))"
proof (cases h)
  case (Request br se c)
  assume "stock_ok (st_world s)"
  with Request keepsD [OF stock_ok_page, of "s\<lparr>st_session := se\<rparr>"] show ?thesis by simp
next
  case (Behind_The_Scenes c)
  assume "stock_ok (st_world s)"
  with stock_desk [of "st_world s" "[(env, c)]"] Behind_The_Scenes show ?thesis by simp
qed

lemma stock_ok_history: "stock_ok (st_world s) \<Longrightarrow> stock_ok (st_world (history su hs s))"
  by (induction su hs s rule: history.induct) (simp_all add: stock_ok_happen)

text \<open>
  C4: whatever visitors request of the pages of the shop, and whatever customers, staff, gateways and
  background tasks do behind them, in any order, at any times and with any data, failing calls included,
  the reserved counter of every product that tracks its stock and of every production day is what its live
  reservations hold; that lies within the stock if the product takes no preorders (with preorders, the default,
  it may exceed the stock), and within the capacity of the day. No transaction undoes the first half of a request that fails half
  way.
\<close>

theorem nothing_oversells:
  assumes "stock_ok (st_world s)"
  shows "product_balanced p (st_world (history su hs s)) \<and> day_balanced p d (st_world (history su hs s))"
  using stock_ok_balanced [OF stock_ok_history [OF assms]] .

section \<open>Removing from a locked cart\<close>

text \<open>The view of the cart reports a locked cart when quantities are changed, but not on a removal.\<close>

lemma removal_from_locked_cart_escapes:
  assumes "cart_of_visitor env br s = (Inr c, t)" and "product_by_pk pid t = (Inr (Some pr), t)"
    and "ensure_cart_mutable c (st_world t) = (Inl e, st_world t)" and "pid \<noteq> None" and "pid \<noteq> Some []"
    and "data ''action'' = Some ''remove''" and "data ''product_id'' = pid"
  shows "cart_view env ls us br (Some data) s = (Inl e, t)"
  using assms by (simp add: cart_view_def run_bnd Let_def in_shop_def remove_item_def)

section \<open>From the checkout to the order\<close>

definition numbered :: "string \<Rightarrow> world \<Rightarrow> bool" where
  "numbered n w \<longleftrightarrow> n \<in> ord_number ` set (orders w)"

interpretation numbered: stock_frame "numbered n" for n
  by unfold_locales (simp_all add: of_tables_def numbered_def)

interpretation numbered_growth: growth_frame "numbered n" for n
  by unfold_locales (simp_all add: numbered.frame_of_tables numbered_def)

lemma keeps_numbered_save:
  assumes "\<And>r. ord_number (copy od r) = ord_number r"
  shows "keeps (numbered n) (save_order od copy)"
proof (rule keepsI)
  fix w assume w: "numbered n w"
  obtain r v where run: "save_order od copy w = (r, v)" by fastforce
  have "map ord_number (upd_rows P (copy od) rows) = map ord_number rows" for P rows
    using assms by (simp add: upd_rows_def)
  then have "ord_number ` set (upd_rows P (copy od) rows) = ord_number ` set rows" for P rows
    by (metis set_map)
  with save_order_run [OF run] w run show "numbered n (snd (save_order od copy w))"
    by (auto simp: numbered_def)
qed

lemma keeps_numbered_sync: "keeps (numbered n) (sync_abandoned_cart_tracker env c)"
  unfolding sync_abandoned_cart_tracker_def
  by (intro keeps_intros numbered_growth.keeps_put_tracker numbered_growth.keeps_put_tracker_of
      numbered_growth.keeps_next_pk)

lemma keeps_numbered_reserve_item: "keeps (numbered n) (reserve_item env od pr q ct m)"
proof -
  have scan: "keeps (numbered n) (scan_days p q' i d js)" for p q' i d js
    by (induction js) (simp_all only: scan_days.simps, (intro keeps_intros numbered.keeps_capacity | assumption)+)
  have find: "keeps (numbered n) (find_fulfillment_date env pr q d)" for d
    unfolding find_fulfillment_date_def by (intro keeps_intros scan numbered.keeps_inventory)
  show ?thesis
    unfolding reserve_item_def add_reserved_units_def add_reserved_quantity_def create_reservation_def
    by (intro keeps_intros find numbered.keeps_inventory numbered.keeps_capacity numbered_growth.keeps_next_pk
        numbered.keeps_write keeps_check_positive; simp add: numbered.stock_frames)
qed

lemma keeps_numbered_finalize: "keeps (numbered n) (finalize_checkout_stock env c od)"
  unfolding finalize_checkout_stock_def release_cart_reservations_def reserve_for_order_def clear_cart_def
    delete_items_def reserve_order_item_def get_product_def set_item_date_def Let_def
  by (intro keeps_atomic [OF numbered.frame_of_tables] keeps_intros numbered.keeps_query numbered.keeps_release_single
      keeps_numbered_reserve_item keeps_numbered_save keeps_numbered_sync keeps_modifies;
      simp add: f_fulfillment_date_def numbered_def)

lemma keeps_numbered_counter_payment: "keeps (numbered n) (initiate_counter_payment env od m)"
proof -
  have "keeps (numbered n) (create_payment env od' pv cur md)" for od' pv cur md
    unfolding create_payment_def Let_def
    by (intro keeps_intros numbered_growth.keeps_next_pk keeps_modifies) (simp add: numbered_def)
  then show ?thesis
    unfolding initiate_counter_payment_def counter_provider_def
    by (intro keeps_atomic [OF numbered.frame_of_tables] keeps_intros)
      (auto split: payment_method.split intro: keeps_intros)
qed

lemma counter_checkout_stores:
  assumes "process_counter_checkout env c cust m u w = (Inr r, v)" and "new_ids w"
  shows "numbered (ord_number (ct_order r)) v"
proof -
  from assms(1) obtain ct items w1 od w2 od' w3 p where lock: "lock_cart_for_checkout c w = (Inr (ct, items), w1)"
    and create: "create_order_from_cart env ct (Some items) (counter_details m cust) u (Some S_AWAITING_PAYMENT)
      (Some PS_PENDING_PAYMENT) w1 = (Inr od, w2)"
    and final: "finalize_checkout_stock env ct od w2 = (Inr od', w3)"
    and pay: "initiate_counter_payment env od' m w3 = (Inr p, v)"
    and r: "r = \<lparr>ct_order = od', ct_payment = p, ct_method = m\<rparr>"
    by (auto simp: process_counter_checkout_def require_phone_def require_items_def returns dest!: raise_if_InrD
        split: prod.splits)
  have "w1 = w" using lock_cart_state lock by blast
  with create_order_returns [OF create] assms(2) have "order_row w2 (ord_id od) = Some od" by blast
  then have w2: "numbered (ord_number od) w2" by (auto simp: numbered_def order_row_def dest: find_SomeD)
  from final obtain d where "od' = od\<lparr>ord_fulfillment_date := d\<rparr>"
    by (auto simp: finalize_checkout_stock_def reserve_for_order_def returns Let_def)
  with keeps_run [OF keeps_numbered_finalize w2 final] have "numbered (ord_number od') w3" by simp
  from keeps_run [OF keeps_numbered_counter_payment this pay] r show ?thesis by simp
qed

interpretation fresh_ids: growth_frame new_ids
  by unfold_locales (auto simp: of_tables_def new_ids_def less_SucI)

lemma new_ids_sync: "keeps new_ids (sync_abandoned_cart_tracker env c)"
  unfolding sync_abandoned_cart_tracker_def
  by (intro keeps_intros fresh_ids.keeps_put_tracker fresh_ids.keeps_put_tracker_of fresh_ids.keeps_next_pk)

lemma new_ids_create_cart: "keeps new_ids (create_cart env u key)"
  unfolding create_cart_def Let_def
  by (intro keeps_intros fresh_ids.keeps_next_pk keeps_modifies new_ids_sync) (simp add: new_ids_def)

lemma new_ids_cart: "keeps new_ids (get_or_create_cart env u key)"
proof (cases u)
  case None
  then show ?thesis
    by (cases key; cases "the key")
      (auto simp: get_or_create_cart_def intro!: keeps_intros new_ids_create_cart split: list.split)
next
  case (Some x)
  then show ?thesis
    unfolding get_or_create_cart_def by (simp, intro keeps_intros new_ids_create_cart)
qed

lemma new_ids_visitor:
  "keeps (\<lambda>s. new_ids (st_world s)) (cart_of_visitor env br)"
  "keeps (\<lambda>s. new_ids (st_world s)) (track_conversion br ty c od)"
  unfolding cart_of_visitor_def ensure_session_def track_conversion_def track_event_def
  by (intro keeps_intros keeps_elsewhere keeps_in_shop new_ids_cart fresh_ids.keeps_set_growth_any)+

lemma access_elsewhere:
  "keeps (\<lambda>s. length (se_access (st_session s)) \<le> 10) (cart_of_visitor env br)"
  "keeps (\<lambda>s. length (se_access (st_session s)) \<le> 10) (track_conversion br ty c od)"
  unfolding cart_of_visitor_def ensure_session_def track_conversion_def in_session_def
  by (intro keeps_intros keeps_modifies; auto simp: keeps_def in_shop_def split: prod.split)+

lemma numbered_track: "keeps (\<lambda>s. numbered k (st_world s)) (track_conversion br ty c od)"
  unfolding ensure_session_def track_conversion_def track_event_def
  by (intro keeps_intros keeps_elsewhere keeps_in_shop numbered_growth.keeps_set_growth_any)

lemma in_shop_returns:
  "in_shop m s = (Inr x, t) \<longleftrightarrow> (\<exists>w. m (st_world s) = (Inr x, w) \<and> t = s\<lparr>st_world := w\<rparr>)"
  by (auto simp: in_shop_def split: prod.splits)

lemma after_counter_checkout:
  assumes "after_checkout br c m (od, pm, url) s = (Inr (To_Confirmation n), t)"
  obtains u where "m \<noteq> PM_ONLINE" and "n = ord_number od"
    and "track_conversion br GE_CHECKOUT_COMPLETE (Some (cart_id c)) (Some (ord_id od)) s = (Inr (), u)"
    and "st_world t = st_world u" and "st_session t = grant_checkout_order_access n (st_session u)"
  using assms
  by (auto simp: after_checkout_def returns in_session_def say_def split: if_splits option.splits list.splits)

lemma granted_number: "length (se_access s) \<le> 10 \<Longrightarrow> n \<in> set (se_access (grant_checkout_order_access n s))"
  by (auto simp: grant_checkout_order_access_def last_ten_def drop_Cons' in_set_conv_decomp)

lemma order_page_shown:
  assumes "numbered n w" and "n \<in> set (se_access s)"
  shows "\<exists>od. order_page v s n w = Order_Page od \<and> ord_number od = n"
proof -
  obtain od where "find (\<lambda>od. ord_number od = n) (orders w) = Some od"
    using assms(1) by (cases "find (\<lambda>od. ord_number od = n) (orders w)") (auto simp: numbered_def find_None_iff)
  moreover from this have "ord_number od = n" by (auto dest: find_SomeD)
  ultimately show ?thesis using assms(2) by (auto simp: order_page_def can_view_checkout_order_def)
qed

text \<open>
  C20: when the checkout page sends a visitor, who paid at the counter, to the confirmation of an
  order, that page shows an order of this number to the same session, signed in or not: the order was
  stored, and the session was given access to it.
\<close>

theorem counter_checkout_is_confirmed:
  assumes run: "checkout env ve ls us br post s = (Inr (To_Confirmation n), t)"
    and ids: "new_ids (st_world s)" and few: "length (se_access (st_session s)) \<le> 10"
  shows "\<exists>od. order_page v (st_session t) n (st_world t) = Order_Page od \<and> ord_number od = n"
proof -
  have no_page: "checkout_page env ls us br c s1 \<noteq> (Inr (To_Confirmation n), t)" for c s1
    by (auto simp: checkout_page_def returns)
  from run no_page obtain c s1 s2 cust pickup m x s3 where cart: "cart_of_visitor env br s = (Inr c, s1)"
    and start: "track_conversion br GE_CHECKOUT_START (Some (cart_id c)) None s1 = (Inr (), s2)"
    and placed: "in_shop (run_checkout env c cust m (vi_user br))
      (s2\<lparr>st_session := sync_table_from_pickup_note pickup (st_session s2)\<rparr>) = (Inr x, s3)"
    and after: "after_checkout br c m x s3 = (Inr (To_Confirmation n), t)"
    unfolding checkout_def
    by (auto simp: returns in_session_def say_def run_bnd split: if_splits option.splits sum.splits prod.splits)
  obtain od pm url where x: "x = (od, pm, url)" by (cases x) auto
  from after [unfolded x] obtain u where m: "m \<noteq> PM_ONLINE" and n: "n = ord_number od"
    and complete: "track_conversion br GE_CHECKOUT_COMPLETE (Some (cart_id c)) (Some (ord_id od)) s3 = (Inr (), u)"
    and t: "st_world t = st_world u" "st_session t = grant_checkout_order_access n (st_session u)"
    by (rule after_counter_checkout)
  have s2: "new_ids (st_world s2)" "length (se_access (st_session s2)) \<le> 10"
    using keeps_run [OF new_ids_visitor(2) keeps_run [OF new_ids_visitor(1) ids cart] start]
      keeps_run [OF access_elsewhere(2) keeps_run [OF access_elsewhere(1) few cart] start] by auto
  from placed obtain w where run': "run_checkout env c cust m (vi_user br) (st_world s2) = (Inr x, w)"
    and s3: "st_world s3 = w" "se_access (st_session s3) = se_access (st_session s2)"
    by (auto simp: in_shop_returns sync_table_from_pickup_note_def set_table_in_session_def Let_def)
  from run' m x have "numbered n w"
    by (auto simp: run_checkout_def returns n split: if_splits dest: counter_checkout_stores [OF _ s2(1)])
  with keeps_run [OF numbered_track _ complete] s3 t have "numbered n (st_world t)" by simp
  moreover have "length (se_access (st_session u)) \<le> 10"
    using keeps_run [OF access_elsewhere(2) _ complete] s2 s3 by simp
  then have "n \<in> set (se_access (st_session t))" using granted_number t by simp
  ultimately show ?thesis by (rule order_page_shown)
qed

section \<open>Instances\<close>

definition some_listing :: listing where
  "some_listing = \<lparr>by_default = [1], by_category = [1], by_change = [1]\<rparr>"

definition empty_intelligence :: intelligence where
  "empty_intelligence = \<lparr>i_meta = Map.empty, i_pairs = [], i_stats = [], i_forecasts = [], i_bakes = [],
     i_tastes = Map.empty, i_impressions = [], i_next = 1, i_cache = Map.empty\<rparr>"

definition guest_session :: session where
  "guest_session = \<lparr>se_key = Some ''s'', se_table = None, se_access = []\<rparr>"

definition guest :: browser where
  "guest = \<lparr>vi_user = None, vi_is_staff = False, br_new_key = ''t''\<rparr>"

definition site_of :: "world \<Rightarrow> site" where
  "site_of w = \<lparr>st_world = w, st_intel = empty_intelligence, st_session = guest_session, st_catalog = Map.empty,
     st_flashes = []\<rparr>"

lemma nothing_oversells_witness:
  "product_balanced 1 (st_world (history \<lparr>su_valid_email = \<lambda>_. True, su_listing = some_listing, su_users = [],
      su_categories = [], su_timeout = 300\<rparr>
     [(demo_env, Request guest guest_session (Post_Item (Some ''1'') (Some ''2''))),
      (demo_env, Behind_The_Scenes (Shop_Call (Stock Expire_Stale))),
      (demo_env, Request guest guest_session (Visit_Cart None))] (site_of busy_world)))"
  by (rule nothing_oversells [where d = 0, THEN conjunct1]) (simp add: site_of_def stock_ok_busy)

text \<open>The visitor pays for the three cookies at the counter.\<close>

definition table_form :: raw_checkout where
  "table_form = \<lparr>rc_first_name = '' A'', rc_last_name = [], rc_phone = ''0912'', rc_email = [],
     rc_pickup_note = ''5'', rc_payment_method = ''cash'', rc_address_line1 = [], rc_address_line2 = [],
     rc_city = [], rc_state = [], rc_postal_code = [], rc_country = []\<rparr>"

definition table_customer :: customer where
  "table_customer = \<lparr>cu_email = ''guest+0912@crumbs.local'', cu_first_name = ''A'', cu_last_name = ''A'',
     cu_phone = ''0912'', cu_address_line1 = [], cu_address_line2 = [], cu_city = [], cu_state = [],
     cu_postal_code = [], cu_country = [], cu_notes = ''5'', cu_coupon_code = [], cu_referral_code = [],
     cu_payment_method = None, cu_delivery_type = None, cu_delivery_zone = None, cu_delivery_fee = None\<rparr>"

lemma table_form_is_clean: "clean_checkout ve table_form = Some (table_customer, ''5'', PM_CASH)"
proof -
  have "str_strip '' A'' = ''A''" "str_strip ''0912'' = ''0912''" "str_strip ''5'' = ''5''" "str_strip [] = []"
    "guest_email ''0912'' = ''guest+0912@crumbs.local''" "payment_choice ''cash'' = Some PM_CASH"
    by code_simp+
  then show ?thesis by (simp add: clean_checkout_def table_form_def table_customer_def Let_def)
qed

definition table_world :: world where
  "table_world = snd (track_event GE_CHECKOUT_START None (Some 4) None visit_world)"

lemma table_checkout: "\<not> isl (fst (process_counter_checkout demo_env 4 table_customer PM_CASH None table_world))"
  by (simp add: program shop_code visit_instances table_world_def table_customer_def allocate_five List.map_filter_simps
      cong: lazily split del: if_split)

lemma guest_cart: "cart_of_visitor demo_env guest (site_of visit_world) = (Inr visitor_cart, site_of visit_world)"
proof -
  have "get_or_create_cart demo_env None (Some ''s'') visit_world = (Inr (visitor_cart, False), visit_world)"
    by (simp add: get_or_create_cart_def run visit_world_def visitor_cart_def)
  then show ?thesis
    by (simp add: cart_of_visitor_def ensure_session_def run guest_def site_of_def guest_session_def in_shop_def)
qed

lemma guest_tracked:
  "track_conversion guest GE_CHECKOUT_START (Some 4) None (site_of visit_world) = (Inr (), site_of table_world)"
proof -
  have "track_event GE_CHECKOUT_START None (Some 4) None visit_world = (Inr (), table_world)"
    by (simp add: table_world_def track_event_def set_growth_def run)
  then show ?thesis
    by (simp add: track_conversion_def ensure_session_def run guest_def site_of_def guest_session_def in_shop_def)
qed

lemma counter_checkout_is_confirmed_witness:
  "\<exists>n t od. checkout demo_env (\<lambda>_. True) some_listing [] guest (Some table_form) (site_of visit_world) =
      (Inr (To_Confirmation n), t) \<and>
    order_page \<lparr>vi_user = None, vi_is_staff = False\<rparr> (st_session t) n (st_world t) = Order_Page od \<and> ord_number od = n"
proof -
  let ?note = "\<lambda>s. s\<lparr>st_session := sync_table_from_pickup_note ''5'' (st_session s)\<rparr>"
  define v where "v = snd (process_counter_checkout demo_env 4 table_customer PM_CASH None table_world)"
  from table_checkout obtain r where "process_counter_checkout demo_env 4 table_customer PM_CASH None table_world =
    (Inr r, snd (process_counter_checkout demo_env 4 table_customer PM_CASH None table_world))" by (rule Inr_call)
  then have r: "process_counter_checkout demo_env 4 table_customer PM_CASH None table_world = (Inr r, v)"
    unfolding v_def .
  have items: "items_in visit_world 4 \<noteq> []" by (simp add: items_in_def visit_world_def cookies_def)
  have "in_shop (run_checkout demo_env visitor_cart table_customer PM_CASH None) (?note (site_of table_world)) =
      (Inr (ct_order r, Some (ct_payment r), None), ?note (site_of v))"
    using r by (simp add: run_checkout_def in_shop_def run_bnd site_of_def visitor_cart_def)
  moreover have "\<exists>n t. after_checkout guest visitor_cart PM_CASH (ct_order r, Some (ct_payment r), None) s =
      (Inr (To_Confirmation n), t)" for s
    by (auto simp: after_checkout_def track_conversion_def ensure_session_def run in_shop_def track_event_def set_growth_def
        in_session_def say_def guest_def)
  ultimately have "\<exists>n t. checkout demo_env (\<lambda>_. True) some_listing [] guest (Some table_form) (site_of visit_world) =
      (Inr (To_Confirmation n), t)"
    using guest_cart guest_tracked items
    by (simp add: checkout_def run_bnd run_try_except table_form_is_clean in_session_def guest_def visitor_cart_def
        site_of_def)
  then obtain n t where run: "checkout demo_env (\<lambda>_. True) some_listing [] guest (Some table_form) (site_of visit_world) =
      (Inr (To_Confirmation n), t)" by blast
  have "new_ids (st_world (site_of visit_world))"
    by (simp add: site_of_def new_ids_def visit_world_def demo_world_def empty_world_def)
  from counter_checkout_is_confirmed [OF run this, of "\<lparr>vi_user = None, vi_is_staff = False\<rparr>"] run show ?thesis
    by (auto simp: site_of_def guest_session_def)
qed

lemma rate_limit_bounds_every_window_witness:
  "let post = \<lparr>rq_method = ''POST'', rq_path = ''/checkout/'', rq_forwarded = None, rq_remote = Some ''10.0.0.1''\<rparr> in
   int (length (filter (\<lambda>(t, r). rate_key r = rate_key post \<and> rq_method r = ''POST'' \<and> 0 \<le> t \<and> t < 0 + seconds 60)
     (let_through DEFAULT_PATHS (map (\<lambda>t. (t, post)) [0, 1, 2, 3, 4, 5, 6, 7]) Map.empty))) \<le> 5"
proof -
  let ?post = "\<lparr>rq_method = ''POST'', rq_path = ''/checkout/'', rq_forwarded = None, rq_remote = Some ''10.0.0.1''\<rparr>"
  have "match_path DEFAULT_PATHS ''/checkout/'' = Some (5, 60)" by code_simp
  then show ?thesis unfolding Let_def by (intro rate_limit_bounds_every_window) auto
qed

text \<open>Two default addresses, entered one after the other\<close>

definition home_address :: address where
  "home_address = \<lparr>ad_id = 0, ad_user = 0, ad_label = ''home'', ad_first_name = ''A'', ad_last_name = ''B'', ad_phone = [],
     ad_address_line1 = ''x'', ad_address_line2 = [], ad_city = ''y'', ad_state = [], ad_postal_code = ''1'',
     ad_country = ''Iran'', ad_is_default = True, ad_updated_at = 0\<rparr>"

definition two_homes :: "(env \<times> address_call) list" where
  "two_homes = [(demo_env, Create 3 (Some home_address)), (demo_env, Create 3 (Some home_address))]"

lemma at_most_one_default_address_witness:
  "\<exists>a\<in>set (address_run two_homes []). ad_id a = 2 \<and> ad_is_default a \<and>
    get_default_address 3 (address_run two_homes []) = Some a \<and>
    filter (\<lambda>b. ad_user b = 3 \<and> ad_is_default b) (address_run two_homes []) = [a]"
proof -
  let ?a = "home_address\<lparr>ad_id := 2, ad_user := 3, ad_updated_at := now demo_env\<rparr>"
  have a: "?a \<in> set (address_run two_homes [])"
    by (simp add: two_homes_def address_create_def save_address_def unmark_others_def upd_rows_def new_id_def run Let_def
        home_address_def eval_nat_numeral)
  have "get_default_address (ad_user ?a) (address_run two_homes []) = Some ?a \<and>
    filter (\<lambda>b. ad_user b = ad_user ?a \<and> ad_is_default b) (address_run two_homes []) = [?a]"
    by (rule at_most_one_default_address [OF _ a]) (simp_all add: one_default_def home_address_def)
  with a show ?thesis by (intro bexI [of _ ?a]) (auto simp: home_address_def)
qed

lemma login_forgets_the_cart_witness:
  "login_view demo_env (\<lambda>u s. s\<lparr>se_key := Some ''new''\<rparr>) None (Some 3) [] guest_session visit_world =
     (Inr (To_Profile, guest_session\<lparr>se_key := Some ''new''\<rparr>), visit_world) \<and>
   items_in visit_world 4 \<noteq> []"
  using login_forgets_the_cart [of visit_world "\<lambda>u s. s\<lparr>se_key := Some ''new''\<rparr>" 3 guest_session demo_env "[]"]
  by (simp add: visit_world_def visitor_cart_def items_in_def cookies_def)

end
