(* ===== verification/NotifyProps.thy ===== *)
theory NotifyProps
  imports Retention GrowthFrame Examples
begin

text \<open>
  Properties of notifications and of the worker: which messages reach a customer, how often, and that
  order events never fail because of them.
\<close>

section \<open>The log of messages\<close>

text \<open>Row ids are fresh, and the order has at most one sent row of the template.\<close>

definition log_ids_ok :: "world \<Rightarrow> bool" where
  "log_ids_ok w \<longleftrightarrow> distinct (map sl_id (sms_logs w)) \<and> (\<forall>l\<in>set (sms_logs w). sl_id l < next_pk w)"

definition sent_once :: "nat \<Rightarrow> string \<Rightarrow> world \<Rightarrow> bool" where
  "sent_once k code w \<longleftrightarrow> log_ids_ok w \<and> length (filter (sent_for_order k code) (sms_logs w)) \<le> 1"

definition failed_for_order :: "nat \<Rightarrow> string \<Rightarrow> sms_log \<Rightarrow> bool" where
  "failed_for_order k template l \<longleftrightarrow>
     sl_order l = Some k \<and> sl_template l = template \<and> sl_status l = SMS_FAILED"

lemma sent_once_frame [simp]:
  "sent_once k code (w\<lparr>growth := g\<rparr>) = sent_once k code w" "sent_once k code (w\<lparr>broker := b\<rparr>) = sent_once k code w"
  "sent_once k code (w\<lparr>task_logs := t\<rparr>) = sent_once k code w" "sent_once k code (w\<lparr>carts := cs\<rparr>) = sent_once k code w"
  by (simp_all add: sent_once_def log_ids_ok_def)

interpretation logs: growth_frame "sent_once k code" for k code
  by unfold_locales (auto simp: of_tables_def sent_once_def log_ids_ok_def less_SucI)

lemma sent_for_order_status: "sl_status l \<noteq> SMS_SENT \<Longrightarrow> \<not> sent_for_order k code l"
  by (simp add: sent_for_order_def)

text \<open>A row that is not sent can be added; the row added last can be marked when no other is sent.\<close>

definition add_log :: "sms_log \<Rightarrow> world \<Rightarrow> world" where
  "add_log l w = w\<lparr>next_pk := Suc (next_pk w), sms_logs := sms_logs w @ [l]\<rparr>"

lemma create_log_run:
  "create_log cfg env template recipient text st err user od metadata w =
   (let l = \<lparr>sl_id = next_pk w, sl_provider = sms_provider cfg, sl_template = template,
      sl_recipient = recipient, sl_message = text, sl_status = st, sl_provider_id = [], sl_error = err,
      sl_user = user, sl_order = od, sl_metadata = metadata, sl_created_at = now env\<rparr>
    in (Inr l, add_log l w))"
  by (simp add: create_log_def run add_log_def Let_def)

lemma sent_once_add:
  assumes "sent_once k code w" and "sl_id l = next_pk w"
    and "sent_for_order k code l \<Longrightarrow> filter (sent_for_order k code) (sms_logs w) = []"
  shows "sent_once k code (add_log l w)"
proof -
  have "length (filter (sent_for_order k code) (sms_logs w @ [l])) \<le> 1"
    using assms(1,3) by (cases "sent_for_order k code l") (auto simp: sent_once_def)
  with assms(1,2) show ?thesis by (fastforce simp: sent_once_def log_ids_ok_def add_log_def less_SucI)
qed

lemma log_ids_add: "log_ids_ok w \<Longrightarrow> sl_id l = next_pk w \<Longrightarrow> log_ids_ok (add_log l w)"
  by (fastforce simp: log_ids_ok_def add_log_def less_SucI)

lemma save_log_run:
  assumes "log_ids_ok w" and "sl_id l = next_pk w" and "\<And>x. sl_id (f x) = sl_id x"
  shows "save_log l f (add_log l w) = (Inr (f l), add_log (f l) w)"
proof -
  have "upd_rows (\<lambda>x. sl_id x = sl_id l) f (sms_logs w) = sms_logs w"
    using assms(1,2) by (auto simp: upd_rows_def log_ids_ok_def intro!: map_idI)
  with assms(2) show ?thesis by (simp add: save_log_def run add_log_def upd_rows_def)
qed

lemma provider_answer:
  "\<exists>r. \<forall>w. bnd (get_sms_provider cfg) (\<lambda>send. bnd (send recipient text) (\<lambda>r. ret (Inr r))) w =
     (r :: exn + (exn + sms_result), w)"
proof -
  have "\<exists>r. \<forall>w. kavenegar_provider_send cfg recipient text w = (r, w)"
    by (auto simp: kavenegar_provider_send_def raise_def ret_def split: kavenegar_answer.split option.split)
  then obtain r where "\<And>w. kavenegar_provider_send cfg recipient text w = (r, w)" by blast
  then show ?thesis
    by (cases r) (auto simp: get_sms_provider_def console_provider_send_def run_bnd raise_def ret_def)
qed

lemma deliver_run:
  assumes "log_ids_ok w" and "sl_id l = next_pk w"
  shows "\<exists>f. deliver cfg l recipient text (add_log l w) = (Inr (f l), add_log (f l) w) \<and>
    (\<forall>x. sl_id (f x) = sl_id x \<and> sl_order (f x) = sl_order x \<and> sl_template (f x) = sl_template x \<and>
      sl_recipient (f x) = sl_recipient x \<and> sl_message (f x) = sl_message x \<and>
      sl_metadata (f x) = sl_metadata x \<and> sl_status (f x) \<in> {SMS_SENT, SMS_FAILED})"
proof -
  define m :: "(exn + sms_result) P" where
    "m = bnd (get_sms_provider cfg) (\<lambda>send. bnd (send recipient text) (\<lambda>r. ret (Inr r)))"
  obtain r where r: "\<And>w. m w = (r, w)" using provider_answer unfolding m_def by blast
  let ?f = "case r of Inr (Inr s) \<Rightarrow> (if sr_success s then log_sent (sr_message_id s) else log_failed (Text (sr_error s)))
    | Inr (Inl e) \<Rightarrow> log_failed (StrOf e) | Inl e \<Rightarrow> log_failed (StrOf e)"
  have ids: "sl_id (?f x) = sl_id x" for x by (auto simp: log_sent_def log_failed_def split: sum.split)
  have "deliver cfg l recipient text (add_log l w) = save_log l ?f (add_log l w)"
    by (auto simp: deliver_def m_def [symmetric] run_bnd run_try_except r split: sum.split)
  also have "\<dots> = (Inr (?f l), add_log (?f l) w)" by (rule save_log_run [OF assms ids])
  finally show ?thesis
    by (intro exI [of _ ?f]) (auto simp: log_sent_def log_failed_def split: sum.split)
qed

lemma dedupe_key_order: "dedupe_key_of template (Some k) key metadata \<noteq> []"
  by (simp add: dedupe_key_of_def order_key_def Let_def)

lemma policies_run:
  "\<exists>b m. apply_sms_policies cfg env recipient template od metadata force key user w = (Inr (b, m), w) \<and>
    (b \<longrightarrow> \<not> force \<longrightarrow> 0 < sms_dedupe_window cfg \<longrightarrow>
      (\<forall>k. od = Some k \<longrightarrow> filter (sent_for_order k template) (sms_logs w) = []))"
proof -
  have rate: "\<exists>x. check_rate_limit cfg env recipient user w = (Inr x, w)"
    by (auto simp: check_rate_limit_def run_bnd)
  have dup: "\<exists>x. check_dedupe cfg env recipient template od key metadata w = (Inr x, w) \<and>
    (x = None \<longrightarrow> 0 < sms_dedupe_window cfg \<longrightarrow>
      (\<forall>k. od = Some k \<longrightarrow> filter (sent_for_order k template) (sms_logs w) = []))"
    using dedupe_key_order by (cases od) (auto simp: check_dedupe_def run_bnd Let_def filter_empty_conv)
  from rate dup show ?thesis
    by (auto simp: apply_sms_policies_def run_bnd split: option.split)
qed

text \<open>Every call writes one row, and a row that is sent is the first sent one of its order and template.\<close>

lemma send_sms_run:
  assumes "log_ids_ok w"
  shows "\<exists>l. send_sms cfg env recipient text template user od metadata force key w = (Inr l, add_log l w) \<and>
    sl_id l = next_pk w \<and> sl_template l = template \<and> sl_order l = od \<and> sl_recipient l = recipient \<and>
    sl_message l = text \<and> (sl_status l = SMS_SENT \<longrightarrow> \<not> force \<longrightarrow> 0 < sms_dedupe_window cfg \<longrightarrow>
      (\<forall>k. od = Some k \<longrightarrow> filter (sent_for_order k template) (sms_logs w) = []))"
proof (cases "recipient = []")
  case True
  then show ?thesis by (simp add: send_sms_def create_log_run Let_def)
next
  case False
  let ?md = "metadata_with_key metadata key od template"
  obtain b m where pol: "apply_sms_policies cfg env recipient template od ?md force key user w = (Inr (b, m), w)"
    and free: "b \<longrightarrow> \<not> force \<longrightarrow> 0 < sms_dedupe_window cfg \<longrightarrow>
      (\<forall>k. od = Some k \<longrightarrow> filter (sent_for_order k template) (sms_logs w) = [])"
    using policies_run by blast
  let ?l = "\<lparr>sl_id = next_pk w, sl_provider = sms_provider cfg, sl_template = template,
      sl_recipient = recipient, sl_message = text, sl_status = SMS_PENDING, sl_provider_id = [],
      sl_error = Text [], sl_user = user, sl_order = od, sl_metadata = ?md, sl_created_at = now env\<rparr>"
  consider "\<not> b" | "b" "\<not> sms_enabled cfg" | "b" "sms_enabled cfg" by blast
  then show ?thesis
  proof cases
    case 1
    with False pol show ?thesis by (simp add: send_sms_def run_bnd create_log_run Let_def)
  next
    case 2
    let ?f = "\<lambda>x. x\<lparr>sl_status := SMS_SKIPPED, sl_error := Text ''SMS_ENABLED is False.''\<rparr>"
    have "save_log ?l ?f (add_log ?l w) = (Inr (?f ?l), add_log (?f ?l) w)"
      by (rule save_log_run [OF assms]) simp_all
    with 2 False pol show ?thesis by (simp add: send_sms_def run_bnd create_log_run Let_def)
  next
    case 3
    obtain f where "deliver cfg ?l recipient text (add_log ?l w) = (Inr (f ?l), add_log (f ?l) w)"
      and "\<And>x. sl_id (f x) = sl_id x \<and> sl_order (f x) = sl_order x \<and> sl_template (f x) = sl_template x \<and>
        sl_recipient (f x) = sl_recipient x \<and> sl_message (f x) = sl_message x"
      using deliver_run [OF assms, of ?l cfg recipient "text"] by auto
    with 3 False pol free show ?thesis by (simp add: send_sms_def run_bnd create_log_run Let_def)
  qed
qed

lemma keeps_logs_send:
  assumes "0 < sms_dedupe_window cfg" and "force \<Longrightarrow> \<not> (od = Some k \<and> template = code)"
  shows "keeps (sent_once k code) (send_sms cfg env recipient text template user od metadata force key)"
proof (rule keepsI)
  fix w assume ok: "sent_once k code w"
  then have "log_ids_ok w" by (simp add: sent_once_def)
  from send_sms_run [OF this, of cfg env recipient "text" template user od metadata force key] assms
  obtain l where
    "send_sms cfg env recipient text template user od metadata force key w = (Inr l, add_log l w)"
    "sl_id l = next_pk w" "sl_template l = template" "sl_order l = od"
    "sl_status l = SMS_SENT \<Longrightarrow> \<not> force \<Longrightarrow>
      \<forall>j. od = Some j \<longrightarrow> filter (sent_for_order j template) (sms_logs w) = []"
    by blast
  with sent_once_add [OF ok, of l] assms(2) show
    "sent_once k code (snd (send_sms cfg env recipient text template user od metadata force key w))"
    by (auto simp: sent_for_order_def)
qed

text \<open>
  The retry job sends past the deduplication, but only what failed: without a failed row of this order and
  template it writes none for them.
\<close>

lemma retry_failed_keeps:
  assumes "0 < sms_dedupe_window cfg" and "sent_once k code w" and "\<forall>l\<in>set (sms_logs w). \<not> failed_for_order k code l"
  shows "sent_once k code (snd (retry_failed cfg env n w))"
proof -
  have other: "\<not> (sl_order l = Some k \<and> sl_template l = code)" if "l \<in> set (failed_logs w)" for l
    using that assms(3) by (auto simp: failed_logs_def failed_for_order_def dest!: in_set_takeD)
  have "keeps (sent_once k code) (for_collect (failed_logs w) (retry_log cfg env n))"
    unfolding retry_log_def
    by (intro keeps_for_collect keeps_intros keeps_logs_send assms(1) other)
  from keepsD [OF this assms(2)] show ?thesis
    by (auto simp: retry_failed_def run_bnd split: sum.split prod.split)
qed

section \<open>Deliveries by the worker\<close>

lemma keeps_guarded: "keeps I m \<Longrightarrow> keeps I (guarded m)"
  unfolding guarded_def by (intro keeps_intros)

lemma keeps_logs_event:
  assumes "0 < sms_dedupe_window cfg"
  shows "keeps (sent_once j c) (send_event cfg env code recipient context user od metadata)"
    "keeps (sent_once j c) (send_template_sms cfg env code recipient context user od metadata False key)"
  unfolding send_event_def send_template_sms_def using assms
  by (intro keeps_intros keeps_logs_send; simp)+

lemma keeps_email: "keeps J (send_order_event cfg code recipient context)"
  unfolding send_order_event_def email_provider_send_def by (intro keeps_intros)

lemma keeps_logs_notify:
  "0 < sms_dedupe_window cfg \<Longrightarrow> keeps (sent_once j c) (notify_order_event cfg env code od context phone)"
  unfolding notify_order_event_def
  by (intro keeps_intros keeps_guarded keeps_logs_event keeps_email)

lemma keeps_apply_async: "keeps (sent_once j c) (apply_async name key queue args)"
  unfolding apply_async_def by (intro keeps_modifies) simp

lemma keeps_mark_recovered: "keeps (sent_once j c) (mark_abandoned_cart_recovered od)"
  unfolding mark_abandoned_cart_recovered_def
  by (intro keeps_intros) (auto intro!: keeps_intros keeps_modifies simp: put_tracker_def split: list.split)

lemma keeps_process_event:
  "0 < sms_dedupe_window cfg \<Longrightarrow> keeps (sent_once j c) (process_event cfg env od e r)"
  by (cases e) (auto intro!: keeps_intros keeps_guarded keeps_logs_notify keeps_apply_async keeps_mark_recovered)

lemma keeps_process_events:
  "0 < sms_dedupe_window cfg \<Longrightarrow> keeps (sent_once j c) (process_events cfg env od es r)"
  by (induction es arbitrary: r) (auto intro!: keeps_intros keeps_process_event)

lemma keeps_mark_task: "keeps (sent_once j c) (mark_task key name st)"
  unfolding mark_task_def by (intro keeps_modifies) simp

lemma keeps_growth_result: "keeps (sent_once j c) (growth_task_result env k)"
  using logs.keeps_growth_task [of j c env k] by (simp add: keeps_def growth_task_state)

lemma keeps_run_message:
  assumes "0 < sms_dedupe_window cfg" and "msg_args m \<noteq> Retry_Sms_Args"
  shows "keeps (sent_once j c) (run_message cfg env m)"
  unfolding run_message_def process_order_lifecycle_events_def send_sms_event_task_def send_sms_task_def
    send_template_sms_task_def award_loyalty_points_task_def
  using assms
  by (auto split: task_args.split intro!: keeps_intros keeps_process_events keeps_logs_event keeps_logs_send
      logs.keeps_award keeps_growth_result)

lemma retry_message_keeps:
  assumes "0 < sms_dedupe_window cfg" and "msg_args m = Retry_Sms_Args" and "sent_once k code w"
    and "\<forall>l\<in>set (sms_logs w). \<not> failed_for_order k code l"
  shows "sent_once k code (snd (run_message cfg env m w))"
  using retry_failed_keeps [OF assms(1,3,4), of env 3] assms(2)
  by (auto simp: run_message_def retry_failed_sms_task_def run_bnd split: sum.split prod.split)

text \<open>The messages that do not repeat an SMS of the order and template, in a state\<close>

definition repeats_failed :: "nat \<Rightarrow> string \<Rightarrow> task_message \<Rightarrow> world \<Rightarrow> bool" where
  "repeats_failed k code m w \<longleftrightarrow>
     msg_args m = Retry_Sms_Args \<and> (\<exists>l\<in>set (sms_logs w). failed_for_order k code l)"

lemma keeps_record_result: "keeps (sent_once j c) (record_result cfg n m r)"
  unfolding record_result_def by (intro keeps_intros keeps_mark_task)

lemma execute_keeps_sent_once:
  assumes "0 < sms_dedupe_window cfg" and "\<not> repeats_failed k code m w" and "sent_once k code w"
  shows "sent_once k code (snd (execute_message cfg env n m w))"
proof -
  obtain u where mark: "mark_task (msg_key m) (msg_task m) T_STARTED w = (Inr (), u)"
    and u: "sms_logs u = sms_logs w" "sent_once k code u"
    using keepsD [OF keeps_mark_task assms(3), of "msg_key m" "msg_task m" T_STARTED]
    by (simp add: mark_task_def)
  have after: "sent_once k code (snd (run_message cfg env m u))"
  proof (cases "msg_args m = Retry_Sms_Args")
    case True
    with assms(1,2) u show ?thesis by (intro retry_message_keeps) (auto simp: repeats_failed_def)
  next
    case False
    from keepsD [OF keeps_run_message [OF assms(1) False] u(2)] show ?thesis .
  qed
  have "snd (guarded (run_message cfg env m) u) = snd (run_message cfg env m u)"
    by (auto simp: guarded_def run_bnd run_try_except split: sum.split prod.split)
  with after obtain r v where g: "guarded (run_message cfg env m) u = (r, v)" "sent_once k code v"
    by (cases "guarded (run_message cfg env m) u") auto
  have rest: "keeps (sent_once k code) (case x of Inr r \<Rightarrow> record_result cfg n m r
     | Inl e \<Rightarrow> if n < MAX_RETRIES then bnd (mark_task (msg_key m) (msg_task m) T_RETRY) (\<lambda>_. ret Task_Retry)
         else bnd (mark_task (msg_key m) (msg_task m) T_DEAD) (\<lambda>_. ret Task_Dead))" for x
    by (auto split: sum.split intro!: keeps_intros keeps_mark_task keeps_record_result)
  show ?thesis
  proof (cases r)
    case (Inr x)
    with g keepsD [OF rest [of x] g(2)] show ?thesis by (simp only: execute_message_def run_bnd mark prod.case sum.case)
  qed (use g in \<open>simp add: execute_message_def run_bnd mark\<close>)
qed

text \<open>Deliveries of messages: the settings and the moment of each, and how often it was tried before.\<close>

definition worker_run :: "(sms_settings \<times> env \<times> nat \<times> task_message) list \<Rightarrow> world \<Rightarrow> world" where
  "worker_run ds w = fold (\<lambda>(cfg, env, n, m) w. snd (execute_message cfg env n m w)) ds w"

lemma sent_once_or_repeated:
  assumes "sent_once k code w" and "\<forall>(cfg, env, n, m)\<in>set ds. 0 < sms_dedupe_window cfg"
  shows "sent_once k code (worker_run ds w) \<or>
    (\<exists>xs cfg env n m ys. ds = xs @ (cfg, env, n, m) # ys \<and> sent_once k code (worker_run xs w) \<and>
       repeats_failed k code m (worker_run xs w))"
  using assms
proof (induction ds rule: rev_induct)
  case (snoc d ds)
  obtain cfg env n m where d: "d = (cfg, env, n, m)" by (cases d)
  from snoc.IH snoc.prems consider "sent_once k code (worker_run ds w)" |
    xs cfg env n m ys where "ds = xs @ (cfg, env, n, m) # ys" "sent_once k code (worker_run xs w)"
      "repeats_failed k code m (worker_run xs w)" by auto
  then show ?case
  proof cases
    case 1
    show ?thesis
    proof (cases "repeats_failed k code m (worker_run ds w)")
      case True
      with 1 d show ?thesis by blast
    next
      case False
      with 1 snoc.prems(2) d show ?thesis
        by (simp add: worker_run_def execute_keeps_sent_once)
    qed
  next
    case 2
    then show ?thesis by (intro disjI2) (metis append_Cons append_assoc)
  qed
qed (simp add: worker_run_def)

text \<open>
  C9: over any deliveries of order events, SMS, loyalty, growth and retry messages, in any order and each
  as often as the broker delivers it, with deduplication switched on an order's customer gets the SMS of each
  template at most once, unless the retry job runs while the log has a failed row of this order and template:
  it sends again with \<open>force=True\<close>, past the deduplication.
\<close>

theorem order_sms_sent_once:
  assumes "sent_once k code w" and "\<forall>(cfg, env, n, m)\<in>set ds. 0 < sms_dedupe_window cfg"
  shows "length (filter (sent_for_order k code) (sms_logs (worker_run ds w))) \<le> 1 \<or>
    (\<exists>xs cfg env n m ys. ds = xs @ (cfg, env, n, m) # ys \<and> msg_args m = Retry_Sms_Args \<and>
       (\<exists>l\<in>set (sms_logs (worker_run xs w)). failed_for_order k code l))"
  using sent_once_or_repeated [OF assms] by (fastforce simp: sent_once_def repeats_failed_def)

section \<open>Order events are always processed\<close>

lemma guarded_run: "\<exists>r v. guarded m w = (Inr r, v)"
proof (cases "m w")
  case (Pair r v)
  then show ?thesis by (cases r) (auto simp: guarded_def run_bnd run_try_except)
qed

definition one_cart_each :: "world \<Rightarrow> bool" where
  "one_cart_each w \<longleftrightarrow> distinct (map cart_user (filter (\<lambda>c. cart_user c \<noteq> None) (carts w)))"

lemma one_cart_each_frame [simp]:
  "one_cart_each (w\<lparr>growth := g\<rparr>) = one_cart_each w" "one_cart_each (w\<lparr>broker := b\<rparr>) = one_cart_each w"
  "one_cart_each (w\<lparr>task_logs := tls\<rparr>) = one_cart_each w" "one_cart_each (w\<lparr>sms_logs := ls\<rparr>) = one_cart_each w"
  "one_cart_each (w\<lparr>next_pk := n\<rparr>) = one_cart_each w" "one_cart_each (put_tracker c t w) = one_cart_each w"
  by (simp_all add: one_cart_each_def put_tracker_def)

lemma short_rows:
  assumes "distinct (map f xs)" and "\<forall>x\<in>set xs. f x = y"
  obtains "xs = []" | x where "xs = [x]"
  using assms by (cases xs; cases "tl xs") auto

lemma mark_recovered_returns:
  assumes "one_cart_each w"
  shows "\<exists>v. mark_abandoned_cart_recovered od w = (Inr (), v)"
proof (cases "ord_user od")
  case (Some u)
  let ?rows = "filter (\<lambda>c. cart_user c = Some u) (carts w)"
  have "filter (\<lambda>c. cart_user c = Some u) (filter (\<lambda>c. cart_user c \<noteq> None) (carts w)) = ?rows"
    by (simp add: filter_filter) (rule filter_cong, auto)
  then have "distinct (map cart_user ?rows)"
    using assms distinct_map_filter unfolding one_cart_each_def by metis
  then show ?thesis
  proof (rule short_rows [of cart_user ?rows "Some u"])
    assume "?rows = []"
    with Some show ?thesis by (simp add: mark_abandoned_cart_recovered_def)
  next
    fix c assume "?rows = [c]"
    with Some show ?thesis
      by (cases "g_trackers (growth w) (cart_id c)") (simp_all add: mark_abandoned_cart_recovered_def)
  qed simp
qed (simp add: mark_abandoned_cart_recovered_def)

text \<open>Messages write only the log: what does not read it is kept.\<close>

locale log_frame =
  fixes I :: "world \<Rightarrow> bool"
  assumes frame_logs: "I (w\<lparr>sms_logs := ls\<rparr>) = I w"
    and frame_log_pk: "I w \<Longrightarrow> I (w\<lparr>next_pk := Suc (next_pk w)\<rparr>)"
begin

lemma keeps_log: "keeps I (create_log cfg env template recipient text st err user od metadata)"
    "keeps I (save_log l f)"
  unfolding create_log_def save_log_def Let_def
  by (intro keeps_intros keeps_modifies keepsI; simp add: run_fresh_pk frame_logs frame_log_pk)+

lemma keeps_deliver: "keeps I (deliver cfg l recipient text)"
proof -
  have answer: "keeps I (bnd (get_sms_provider cfg) (\<lambda>send. bnd (send recipient text) (\<lambda>r. ret (Inr r :: exn + sms_result))))"
    (is "keeps I ?m")
  proof -
    obtain r where "\<forall>w. ?m w = (r, w)" using provider_answer by blast
    then show ?thesis by (intro keepsI) simp
  qed
  show ?thesis
    unfolding deliver_def
    by (rule keeps_bnd, rule keeps_try_except, rule answer) (auto intro!: keeps_log keeps_ret split: sum.split)
qed

lemma keeps_policies: "keeps J (apply_sms_policies cfg env recipient template od metadata force key user)"
  unfolding apply_sms_policies_def check_rate_limit_def check_dedupe_def Let_def by (intro keeps_intros)

lemma keeps_send: "keeps I (send_sms cfg env recipient text template user od metadata force key)"
  unfolding send_sms_def Let_def by (intro keeps_intros keeps_log keeps_deliver keeps_policies)

lemma keeps_notify: "keeps I (notify_order_event cfg env code od context phone)"
  unfolding notify_order_event_def send_event_def send_template_sms_def
  by (intro keeps_intros keeps_guarded keeps_send keeps_email)

end

interpretation broker_frame: log_frame "\<lambda>w. one_cart_each w \<and> broker w = b" for b
  by unfold_locales simp_all

text \<open>The tasks an event leaves to be sent.\<close>

fun followup :: "event \<Rightarrow> task_message list" where
  "followup (LoyaltyAward k) = [\<lparr>msg_task = ''loyalty.tasks.award_loyalty_points_task'',
     msg_key = TaskId (take 255 (''loyalty:order:'' @ digits k)), msg_queue = ''celery'', msg_args = Order_Arg k\<rparr>]"
| "followup (AnalyticsTouch k name) = [\<lparr>msg_task = ''growth.tasks.record_order_analytics_event'',
     msg_key = TaskId (take 255 (''analytics:order:'' @ digits k @ '':'' @ name)), msg_queue = ''analytics'',
     msg_args = Analytics_Args k name\<rparr>]"
| "followup (GrowthFinalize k) = [\<lparr>msg_task = ''growth.tasks.finalize_growth_order_task'',
     msg_key = TaskId (take 255 (''growth:finalize:'' @ digits k)), msg_queue = ''analytics'',
     msg_args = Order_Arg k\<rparr>]"
| "followup _ = []"

lemma apply_async_run:
  "apply_async name key queue args w = (Inr (), w\<lparr>broker := broker w @
     [\<lparr>msg_task = name, msg_key = key, msg_queue = queue, msg_args = args\<rparr>]\<rparr>)"
  by (simp add: apply_async_def)

lemma put_tracker_broker [simp]: "broker (put_tracker c t w) = broker w"
  by (simp add: put_tracker_def)

lemma mark_recovered_broker:
  "keeps (\<lambda>w. one_cart_each w \<and> broker w = b) (mark_abandoned_cart_recovered od)"
  unfolding mark_abandoned_cart_recovered_def
  by (intro keeps_intros) (auto intro!: keeps_intros keeps_modifies split: list.split)

lemma process_event_run:
  assumes "one_cart_each w"
  shows "\<exists>q v. process_event cfg env od e r w = (Inr q, v) \<and> one_cart_each v \<and>
    broker v = broker w @ followup e"
proof (cases e)
  case (SmsEvent code phone ctx u k)
  let ?m = "guarded (notify_order_event cfg env code od (context_dict ctx) phone)"
  obtain x v where run: "?m w = (Inr x, v)" using guarded_run by blast
  with assms have "one_cart_each v \<and> broker v = broker w"
    using keeps_run [OF keeps_guarded [OF broker_frame.keeps_notify], of w] by blast
  with run SmsEvent show ?thesis by (simp add: run_bnd)
next
  case (AbandonedCartRecovered k)
  obtain v where run: "mark_abandoned_cart_recovered od w = (Inr (), v)"
    using mark_recovered_returns [OF assms] by blast
  with assms have "one_cart_each v \<and> broker v = broker w"
    using keeps_run [OF mark_recovered_broker, of w] by blast
  with run AbandonedCartRecovered show ?thesis by (simp add: run_bnd)
qed (use assms in \<open>simp_all add: run_bnd apply_async_run default_queue_def\<close>)

lemma process_events_run:
  assumes "one_cart_each w"
  shows "\<exists>q v. process_events cfg env od es r w = (Inr q, v) \<and>
    broker v = broker w @ concat (map followup es)"
  using assms
proof (induction es arbitrary: r w)
  case (Cons e es)
  obtain q v where "process_event cfg env od e r w = (Inr q, v)" "one_cart_each v"
    "broker v = broker w @ followup e"
    using process_event_run [OF Cons.prems] by blast
  with Cons.IH [of v q] show ?case by (auto simp: run_bnd)
qed simp

text \<open>The state after a mark in the task log.\<close>

definition marked :: "task_key \<Rightarrow> string \<Rightarrow> task_status \<Rightarrow> world \<Rightarrow> world" where
  "marked key name st w = snd (mark_task key name st w)"

lemma mark_task_run: "mark_task key name st w = (Inr (), marked key name st w)"
  by (simp add: marked_def mark_task_def)

lemma marked_frame [simp]:
  "one_cart_each (marked key name st w) = one_cart_each w" "broker (marked key name st w) = broker w"
  "order_row (marked key name st w) k = order_row w k"
  by (simp_all add: marked_def mark_task_def order_row_def)

text \<open>
  C8: a lifecycle message is settled by its first delivery. Whatever the SMS and mail services
  answer, the worker ends with success, and the tasks of all events of an order that exists (loyalty,
  analytics, growth) are sent, once each and in the order of the events.
\<close>

theorem lifecycle_message_settled:
  assumes "one_cart_each w" and "msg_args m = Lifecycle_Args k es"
  shows "\<exists>v. execute_message cfg env n m w = (Inr Task_Done, v) \<and>
    broker v = broker w @ (if order_row w k = None then [] else concat (map followup es))"
proof -
  let ?w = "marked (msg_key m) (msg_task m) T_STARTED w"
  have "\<exists>v. run_message cfg env m ?w = (Inr Plain_Result, v) \<and>
    broker v = broker w @ (if order_row w k = None then [] else concat (map followup es))"
  proof (cases "order_row w k")
    case None
    with assms show ?thesis
      by (simp add: run_message_def process_order_lifecycle_events_def run_bnd)
  next
    case (Some od)
    obtain q v where "process_events cfg env od es \<lparr>lr_sms = 0, lr_email = 0, lr_loyalty = 0,
        lr_analytics = 0, lr_cart = 0, lr_growth = 0\<rparr> ?w = (Inr q, v)"
      "broker v = broker w @ concat (map followup es)"
      using process_events_run [of ?w cfg env od es] assms(1) by force
    with Some assms show ?thesis
      by (simp add: run_message_def process_order_lifecycle_events_def run_bnd)
  qed
  then obtain v where "run_message cfg env m ?w = (Inr Plain_Result, v)"
    "broker v = broker w @ (if order_row w k = None then [] else concat (map followup es))" by blast
  then show ?thesis
    by (simp add: execute_message_def record_result_def mark_task_run guarded_def run_bnd run_try_except)
qed

end
