(* ===== verification/SmsProps.thy ===== *)
theory SmsProps
  imports NotifyProps
begin

text \<open>
  The text messages themselves: what retries do to the log, what deduplication compares, which
  templates quiet hours hold back, and the form of the events that messages are made from.
\<close>

section \<open>Accepted messages\<close>

text \<open>The configured provider takes every message.\<close>

definition provider_accepts :: "sms_settings \<Rightarrow> bool" where
  "provider_accepts cfg \<longleftrightarrow> sms_provider cfg = ''console'' \<or>
     (sms_provider cfg = ''kavenegar'' \<and> kavenegar_api_key cfg \<noteq> [] \<and>
      (\<forall>p t. \<exists>i e. i \<noteq> [] \<and> kavenegar_send cfg p t = Kv_Json (Some i) e))"

lemma accepted_answer:
  assumes "provider_accepts cfg"
  shows "\<exists>s. sr_success s \<and> (\<forall>w. bnd (get_sms_provider cfg) (\<lambda>send. bnd (send recipient text)
    (\<lambda>r. ret (Inr r))) w = (Inr (Inr s) :: exn + (exn + sms_result), w))"
proof (cases "sms_provider cfg = ''console''")
  case True
  then show ?thesis by (simp add: get_sms_provider_def console_provider_send_def run_bnd)
next
  case False
  with assms obtain i e where "i \<noteq> []"
    "kavenegar_send cfg (normalize_iran_phone recipient) text = Kv_Json (Some i) e"
    unfolding provider_accepts_def by meson
  with assms False show ?thesis
    by (simp add: provider_accepts_def get_sms_provider_def kavenegar_provider_send_def run_bnd)
qed

lemma deliver_accepted:
  assumes "log_ids_ok w" and "sl_id l = next_pk w" and "provider_accepts cfg"
  shows "\<exists>i. deliver cfg l recipient text (add_log l w) = (Inr (log_sent i l), add_log (log_sent i l) w)"
proof -
  define m :: "(exn + sms_result) P" where
    "m = bnd (get_sms_provider cfg) (\<lambda>send. bnd (send recipient text) (\<lambda>r. ret (Inr r)))"
  obtain s where "sr_success s" "\<And>w. m w = (Inr (Inr s), w)"
    using accepted_answer [OF assms(3)] unfolding m_def by blast
  moreover have "save_log l (log_sent i) (add_log l w) = (Inr (log_sent i l), add_log (log_sent i l) w)" for i
    by (rule save_log_run [OF assms(1,2)]) (simp add: log_sent_def)
  ultimately show ?thesis
    by (auto simp: deliver_def m_def [symmetric] run_bnd run_try_except)
qed

text \<open>A message the policies let through ends as a sent row.\<close>

definition passes :: "sms_settings \<Rightarrow> env \<Rightarrow> string \<Rightarrow> string \<Rightarrow> nat option \<Rightarrow> dict \<Rightarrow> bool \<Rightarrow> string \<Rightarrow> nat option \<Rightarrow> world \<Rightarrow> bool" where
  "passes cfg env recipient template od metadata force key user w \<longleftrightarrow>
     (\<exists>m. apply_sms_policies cfg env recipient template od (metadata_with_key metadata key od template)
        force key user w = (Inr (True, m), w))"

lemma passes_forced [simp]: "passes cfg env recipient template od metadata True key user w"
  by (simp add: passes_def apply_sms_policies_def)

lemma send_accepted:
  assumes "log_ids_ok w" and "provider_accepts cfg" and "sms_enabled cfg" and "recipient \<noteq> []"
    and "passes cfg env recipient template od metadata force key user w"
  shows "\<exists>l. send_sms cfg env recipient text template user od metadata force key w = (Inr l, add_log l w) \<and>
    sl_id l = next_pk w \<and> sl_status l = SMS_SENT \<and> sl_message l = text \<and> sl_recipient l = recipient"
proof -
  let ?md = "metadata_with_key metadata key od template"
  obtain m where pol:
    "apply_sms_policies cfg env recipient template od ?md force key user w = (Inr (True, m), w)"
    using assms(5) by (auto simp: passes_def)
  let ?l = "\<lparr>sl_id = next_pk w, sl_provider = sms_provider cfg, sl_template = template,
      sl_recipient = recipient, sl_message = text, sl_status = SMS_PENDING, sl_provider_id = [],
      sl_error = Text [], sl_user = user, sl_order = od, sl_metadata = ?md, sl_created_at = now env\<rparr>"
  obtain i where
    "deliver cfg ?l recipient text (add_log ?l w) = (Inr (log_sent i ?l), add_log (log_sent i ?l) w)"
    using deliver_accepted [OF assms(1) _ assms(2), of ?l] by auto
  with assms(3,4) pol show ?thesis
    by (simp add: send_sms_def run_bnd create_log_run Let_def log_sent_def)
qed

section \<open>Retries\<close>

lemma failed_logs_add: "sl_status l \<noteq> SMS_FAILED \<Longrightarrow> failed_logs (add_log l w) = failed_logs w"
  by (simp add: failed_logs_def add_log_def)

text \<open>The rows a retry can be made from.\<close>

definition retryable :: "int \<Rightarrow> sms_log \<Rightarrow> bool" where
  "retryable max_attempts l \<longleftrightarrow> sl_recipient l \<noteq> [] \<and> retry_count_of l < max_attempts"

lemma retry_rows:
  assumes "provider_accepts cfg" and "sms_enabled cfg" and "log_ids_ok w"
    and "\<forall>l\<in>set ls. retryable max_attempts l"
  shows "\<exists>v. for_collect ls (retry_log cfg env max_attempts) w = (Inr (replicate (length ls) 1), v) \<and>
    log_ids_ok v \<and> failed_logs v = failed_logs w"
  using assms(3,4)
proof (induction ls arbitrary: w)
  case (Cons l ls)
  from Cons.prems have "sl_recipient l \<noteq> []" "retry_count_of l < max_attempts"
    by (simp_all add: retryable_def)
  with send_accepted [OF Cons.prems(1) assms(1,2), of "sl_recipient l" env "sl_template l" "sl_order l"
      "retry_metadata l" True "[]" "sl_user l" "sl_message l"]
  obtain r where r: "retry_log cfg env max_attempts l w = (Inr 1, add_log r w)"
    "sl_id r = next_pk w" "sl_status r = SMS_SENT"
    by (auto simp: retry_log_def run_bnd)
  with Cons.IH [of "add_log r w"] Cons.prems show ?case
    by (auto simp: run_bnd log_ids_add failed_logs_add)
qed simp

lemma retry_failed_run:
  assumes "provider_accepts cfg" and "sms_enabled cfg" and "log_ids_ok w"
    and "\<forall>l\<in>set (failed_logs w). retryable max_attempts l"
  shows "\<exists>v. retry_failed cfg env max_attempts w = (Inr (int (length (failed_logs w))), v) \<and>
    log_ids_ok v \<and> failed_logs v = failed_logs w"
proof -
  obtain v where "for_collect (failed_logs w) (retry_log cfg env max_attempts) w =
      (Inr (replicate (length (failed_logs w)) 1), v)" "log_ids_ok v" "failed_logs v = failed_logs w"
    using retry_rows [OF assms] by blast
  then show ?thesis by (simp add: retry_failed_def run_bnd sum_list_replicate)
qed

text \<open>The job that runs every few minutes, at the moments \<open>envs\<close>.\<close>

definition retry_runs :: "sms_settings \<Rightarrow> int \<Rightarrow> env list \<Rightarrow> world \<Rightarrow> world" where
  "retry_runs cfg max_attempts envs w =
     fold (\<lambda>env w. snd (retry_failed cfg env max_attempts w)) envs w"

text \<open>
  A failed message is sent again by every run of the retry job, for ever. A retry writes a row
  of its own and leaves the failed row with its status and its retry count, so after any number of runs
  in which the provider took every message, the next run sends all of them once more.
\<close>

theorem retries_never_end:
  assumes "provider_accepts cfg" and "sms_enabled cfg" and "log_ids_ok w"
    and "\<forall>l\<in>set (failed_logs w). retryable max_attempts l"
  shows "fst (retry_failed cfg env max_attempts (retry_runs cfg max_attempts envs w)) =
    Inr (int (length (failed_logs w)))"
proof -
  have "log_ids_ok (retry_runs cfg max_attempts envs w) \<and>
      failed_logs (retry_runs cfg max_attempts envs w) = failed_logs w"
    using assms(3,4)
  proof (induction envs arbitrary: w)
    case (Cons e envs)
    obtain v where "snd (retry_failed cfg e max_attempts w) = v" "log_ids_ok v" "failed_logs v = failed_logs w"
      using retry_failed_run [OF assms(1,2) Cons.prems, of e] by auto
    with Cons show ?case by (simp add: retry_runs_def)
  qed (simp add: retry_runs_def)
  with retry_failed_run [OF assms(1,2), of "retry_runs cfg max_attempts envs w" max_attempts env] assms(4)
  show ?thesis by auto
qed

section \<open>Deduplication\<close>

lemma same_message_text:
  "same_message cfg env recipient template key metadata l \<Longrightarrow>
   sl_message l = str_of_json (dget metadata ''_message_preview'')"
  by (simp add: same_message_def)

lemma dget_dict_set: "dget (dict_set k v d) j = (if j = k then v else dget d j)"
  by (simp add: dget_def)

lemma preview_of_key:
  "dget (metadata_with_key metadata key od template) ''_message_preview'' = dget metadata ''_message_preview''"
  by (auto simp: metadata_with_key_def dget_dict_set split: option.split)

lemma unlimited_passes:
  assumes "\<not> in_quiet_hours cfg" and "sms_rate_limit cfg \<le> 0"
    and "dget metadata ''_message_preview'' = JNull" and "\<forall>l\<in>set (sms_logs w). sl_message l \<noteq> []"
  shows "passes cfg env recipient template None metadata False key user w"
proof -
  have "\<not> (\<exists>l\<in>set (sms_logs w). same_message cfg env recipient template k
      (metadata_with_key metadata key None template) l)" for k
    using assms(3,4) same_message_text by (fastforce simp: preview_of_key str_of_json_def)
  with assms(1,2) show ?thesis
    by (simp add: passes_def apply_sms_policies_def check_rate_limit_def check_dedupe_def Let_def run_bnd)
qed

text \<open>
  Without an order a message is never recognised as a duplicate. Deduplication compares the
  text of earlier rows with a preview that no caller passes, so the same message with the same key, sent
  twice at the same moment, goes out twice, however long the window is.
\<close>

theorem message_without_order_repeats:
  assumes "provider_accepts cfg" and "sms_enabled cfg" and "\<not> in_quiet_hours cfg" and "sms_rate_limit cfg \<le> 0"
    and "dget metadata ''_message_preview'' = JNull" and "recipient \<noteq> []" and "text \<noteq> []"
    and "log_ids_ok w" and "\<forall>l\<in>set (sms_logs w). sl_message l \<noteq> []"
  shows "\<exists>a b v.
    bnd (send_sms cfg env recipient text template user None metadata False key) (\<lambda>a.
    bnd (send_sms cfg env recipient text template user None metadata False key) (\<lambda>b. ret (a, b))) w =
      (Inr (a, b), v) \<and> sms_logs v = sms_logs w @ [a, b] \<and> sl_status a = SMS_SENT \<and> sl_status b = SMS_SENT"
proof -
  let ?send = "send_sms cfg env recipient text template user None metadata False key"
  have once: "\<exists>l. ?send u = (Inr l, add_log l u) \<and> sl_id l = next_pk u \<and> sl_status l = SMS_SENT \<and> sl_message l = text"
    if "log_ids_ok u" "\<forall>l\<in>set (sms_logs u). sl_message l \<noteq> []" for u
    using send_accepted [OF that(1) assms(1,2,6) unlimited_passes [OF assms(3,4,5) that(2)]] by blast
  obtain a where a: "?send w = (Inr a, add_log a w)" "sl_id a = next_pk w" "sl_status a = SMS_SENT" "sl_message a = text"
    using once [OF assms(8,9)] by blast
  have "\<forall>l\<in>set (sms_logs (add_log a w)). sl_message l \<noteq> []"
    using a assms(7,9) by (auto simp: add_log_def)
  with a assms(8) obtain b where "?send (add_log a w) = (Inr b, add_log b (add_log a w))" "sl_status b = SMS_SENT"
    using once log_ids_add by blast
  with a show ?thesis by (simp add: run_bnd add_log_def)
qed

section \<open>Quiet hours\<close>

text \<open>
  Quiet hours hold back a message about a change of status exactly when the order was packaged,
  whatever category its template has: that template alone is missing from the list of transactional
  events, and the list is asked again after the category was.
\<close>

theorem quiet_hours_hold_packaged:
  assumes "in_quiet_hours cfg" and "STATUS_TO_SMS_EVENT st = Some code"
  shows "fst (apply_sms_policies cfg env recipient code od metadata False key user w) =
    Inr (False, Text ''quiet_hours'') \<longleftrightarrow> st = S_PACKAGED"
proof (cases "st = S_PACKAGED")
  case True
  with assms have "code = ''order_packaged''" by simp
  then have "code \<notin> set TRANSACTIONAL_EVENTS" by (simp add: TRANSACTIONAL_EVENTS_def)
  with assms True show ?thesis by (simp add: apply_sms_policies_def)
next
  case False
  with assms(2) have code: "code \<in> set TRANSACTIONAL_EVENTS" "code \<noteq> []"
    by (cases st; force simp: TRANSACTIONAL_EVENTS_def)+
  then have "get_template_category w code = CAT_ORDER" by (simp add: get_template_category_def)
  with False code show ?thesis
    by (auto simp: apply_sms_policies_def check_rate_limit_def check_dedupe_def Let_def run_bnd
        split: option.split)
qed

section \<open>The form of order events\<close>




section \<open>Instances\<close>

text \<open>The console provider at noon, and a shop with one template and one message that failed.\<close>

definition demo_sms :: sms_settings where
  "demo_sms = \<lparr>result_backend = True, sms_provider = ''console'', sms_enabled = True, sms_quiet_start = 22, sms_quiet_end = 8,
     time_of_day = 12, sms_rate_limit = 0, sms_dedupe_window = 300, kavenegar_api_key = [],
     kavenegar_send = (\<lambda>p t. Kv_Request_Error ''down''), django_render = (\<lambda>b d. b),
     email_enabled = False, email_provider = ''console'', django_send_mail = (\<lambda>r s b. None)\<rparr>"

definition demo_log :: sms_log where
  "demo_log = \<lparr>sl_id = 3, sl_provider = ''console'', sl_template = ''payment_success'',
     sl_recipient = ''0912'', sl_message = ''paid'', sl_status = SMS_FAILED, sl_provider_id = [],
     sl_error = Text ''down'', sl_user = None, sl_order = Some 7, sl_metadata = [], sl_created_at = 0\<rparr>"

definition sms_world :: world where
  "sms_world = pay_world\<lparr>sms_logs := [demo_log], sms_templates := [''payment_success'' \<mapsto>
     \<lparr>tpl_category = CAT_ORDER, tpl_body = ''paid'', tpl_is_active = True\<rparr>]\<rparr>"

definition paid_context :: sms_context where
  "paid_context = \<lparr>ctx_name = ''A'', ctx_order_number = ''CR-1'', ctx_total = 150000, ctx_status = None\<rparr>"

definition paid_message :: task_message where
  "paid_message = \<lparr>msg_task = lifecycle_task, msg_key = TaskId ''k'', msg_queue = ''orders'',
     msg_args = Lifecycle_Args 7 [SmsEvent ''payment_success'' ''0912'' paid_context None 7, LoyaltyAward 7]\<rparr>"

lemma sms_world_ok: "log_ids_ok sms_world" "sent_once 7 payment_success sms_world" "one_cart_each sms_world"
    "provider_accepts demo_sms" "failed_logs sms_world = [demo_log]" "order_row sms_world 7 = Some demo_order"
  by (simp_all add: sent_once_def log_ids_ok_def sms_world_def pay_world_def demo_world_def empty_world_def
      demo_log_def sent_for_order_def one_cart_each_def provider_accepts_def demo_sms_def failed_logs_def
      order_row_def demo_order_def)

lemma order_sms_sent_once_witness:
  "length (filter (sent_for_order 7 ''payment_success'') (sms_logs (worker_run
     [(demo_sms, demo_env, 0, paid_message), (demo_sms, demo_env, 1, paid_message)] sms_world))) \<le> 1"
proof -
  let ?ds = "[(demo_sms, demo_env, 0, paid_message), (demo_sms, demo_env, 1, paid_message)]"
  have "m = paid_message" if "?ds = xs @ (cfg, env, n, m) # ys" for xs cfg env n m ys
  proof -
    have "(cfg, env, n, m) \<in> set ?ds" unfolding that by simp
    then show ?thesis by auto
  qed
  then have none: "?ds = xs @ (cfg, env, n, m) # ys \<Longrightarrow> msg_args m \<noteq> Retry_Sms_Args" for xs cfg env n m ys
    by (fastforce simp: paid_message_def)
  have "\<forall>(cfg, env, n, m)\<in>set ?ds. 0 < sms_dedupe_window cfg" by (simp add: demo_sms_def)
  from order_sms_sent_once [OF sms_world_ok(2) this] none show ?thesis by blast
qed

lemma lifecycle_message_settled_witness:
  "\<exists>v. execute_message demo_sms demo_env 0 paid_message sms_world = (Inr Task_Done, v) \<and>
    broker v = broker sms_world @ [\<lparr>msg_task = ''loyalty.tasks.award_loyalty_points_task'',
      msg_key = TaskId (take 255 (''loyalty:order:'' @ digits 7)), msg_queue = ''celery'', msg_args = Order_Arg 7\<rparr>]"
  using lifecycle_message_settled [OF sms_world_ok(3), of paid_message 7, OF _, of _ demo_sms demo_env 0]
  by (simp add: paid_message_def sms_world_ok)

lemma retries_never_end_witness:
  "fst (retry_failed demo_sms demo_env 3 (retry_runs demo_sms 3 (replicate 5 demo_env) sms_world)) = Inr 1"
  using retries_never_end [OF sms_world_ok(4) _ sms_world_ok(1), of 3 demo_env "replicate 5 demo_env"]
  by (simp add: sms_world_ok demo_sms_def retryable_def demo_log_def retry_count_of_def dget_def)

lemma message_without_order_repeats_witness:
  "\<exists>a b v. bnd (send_sms demo_sms demo_env ''0912'' ''hello'' ''promotion'' None None [] False ''k'') (\<lambda>a.
      bnd (send_sms demo_sms demo_env ''0912'' ''hello'' ''promotion'' None None [] False ''k'') (\<lambda>b. ret (a, b)))
      sms_world = (Inr (a, b), v) \<and> sms_logs v = sms_logs sms_world @ [a, b] \<and>
    sl_status a = SMS_SENT \<and> sl_status b = SMS_SENT"
  by (rule message_without_order_repeats)
    (simp add: sms_world_ok, simp_all add: sms_world_ok(1),
      simp_all add: demo_sms_def in_quiet_hours_def Let_def dget_def sms_world_def demo_log_def)

lemma quiet_hours_hold_packaged_witness:
  "fst (apply_sms_policies (demo_sms\<lparr>time_of_day := 23\<rparr>) demo_env ''0912'' ''order_packaged'' (Some 7) [] False
    ''7:order_packaged'' None (sms_world\<lparr>sms_templates := [''order_packaged'' \<mapsto>
      \<lparr>tpl_category = CAT_ORDER, tpl_body = ''packed'', tpl_is_active = True\<rparr>]\<rparr>)) = Inr (False, Text ''quiet_hours'')"
  by (subst quiet_hours_hold_packaged [where st = S_PACKAGED]) (simp_all add: demo_sms_def in_quiet_hours_def)

end
