(* ===== verification/RetentionProps.thy ===== *)
theory RetentionProps
  imports NotifyProps
begin

text \<open>
  Properties of the jobs that win customers back: how many reminders a cart can get, what a second run
  of a job does, and which orders count as won back.
\<close>

section \<open>Programs that always return\<close>

definition answers :: "('s, 'e, 'a) prog \<Rightarrow> bool" where
  "answers m \<longleftrightarrow> (\<forall>s. \<exists>x t. m s = (Inr x, t))"

lemma answersE: "answers m \<Longrightarrow> (\<And>x t. m s = (Inr x, t) \<Longrightarrow> P) \<Longrightarrow> P"
  unfolding answers_def by blast

lemma answers_bnd: "answers m \<Longrightarrow> (\<And>x. answers (f x)) \<Longrightarrow> answers (bnd m f)"
proof -
  assume m: "answers m" and f: "\<And>x. answers (f x)"
  have "\<exists>x t. bnd m f s = (Inr x, t)" for s
  proof -
    obtain x t where "m s = (Inr x, t)" using m unfolding answers_def by blast
    moreover obtain y u where "f x t = (Inr y, u)" using f [of x] unfolding answers_def by blast
    ultimately show ?thesis by (simp add: run_bnd)
  qed
  then show ?thesis by (simp add: answers_def)
qed

lemma answers_basic: "answers (ret x)" "answers (gets f)" "answers (modifies g)"
  by (simp_all add: answers_def)

lemma answers_when: "answers m \<Longrightarrow> answers (whenever b m)"
  by (simp add: answers_def run_whenever)

lemma answers_if: "answers m \<Longrightarrow> answers n \<Longrightarrow> answers (if b then m else n)"
  by simp

lemma answers_option: "answers m \<Longrightarrow> (\<And>x. answers (f x)) \<Longrightarrow> answers (case y of None \<Rightarrow> m | Some x \<Rightarrow> f x)"
  by (cases y) simp_all

lemma answers_prod: "(\<And>a b. answers (f a b)) \<Longrightarrow> answers (case p of (a, b) \<Rightarrow> f a b)"
  by (cases p) simp

lemma answers_collect: "(\<And>x. answers (f x)) \<Longrightarrow> answers (for_collect xs f)"
  by (induction xs) (auto intro!: answers_bnd answers_basic)

lemma answers_each: "(\<And>x. answers (f x)) \<Longrightarrow> answers (for_each xs f)"
  by (induction xs) (auto intro!: answers_bnd answers_basic)

lemmas answering = answers_bnd answers_basic answers_when answers_if answers_option answers_prod
  answers_collect answers_each

section \<open>Reminders\<close>

lemma answers_sync: "answers (sync_abandoned_cart_tracker env c)"
  unfolding sync_abandoned_cart_tracker_def
  by (intro answering) (simp add: answers_def run_fresh_pk)

lemma answers_remind: "answers (reminder_step rs env c t ctx)" "answers (save_tracker k f)"
    "answers (dispatch_template_sms code r ctx u od md key)" "answers (track_event ty u ct od)"
  unfolding reminder_step_def offered_coupon_def save_tracker_def dispatch_template_sms_def apply_async_def
    track_event_def set_growth_def get_growth_def save_cart_def Let_def
  by (intro answering answers_sync)+

text \<open>
  At most the tracker of one cart changes, and not the number of its reminders, while \<open>b\<close> messages
  are sent.
\<close>

definition near :: "nat \<Rightarrow> nat \<Rightarrow> world \<Rightarrow> world \<Rightarrow> bool" where
  "near c b u w \<longleftrightarrow> map cart_id (carts w) = map cart_id (carts u) \<and>
     length (broker w) = length (broker u) + b \<and>
     (\<forall>d. d \<noteq> c \<longrightarrow> g_trackers (growth w) d = g_trackers (growth u) d) \<and>
     map_option tr_reminder_count (g_trackers (growth w) c) = map_option tr_reminder_count (g_trackers (growth u) c)"

lemma near_refl: "near c 0 w w"
  by (simp add: near_def)

lemma keeps_near_sync:
  "cart_id c = k \<Longrightarrow> g_trackers (growth u) k \<noteq> None \<Longrightarrow> keeps (near k b u) (sync_abandoned_cart_tracker env c)"
  by (rule keepsI)
    (auto simp: sync_abandoned_cart_tracker_def run_bnd run_whenever near_def put_tracker_def
      touched_tracker_def run_fresh_pk split: option.split)

lemma keeps_near_step:
  assumes "g_trackers (growth u) (cart_id c) \<noteq> None"
  shows "keeps (near (cart_id c) b u) (reminder_step rs env c t ctx)"
proof -
  have "keeps (near (cart_id c) b u) (save_cart c f)" if "\<And>x. cart_id (f x) = cart_id x" for f
    unfolding save_cart_def using that
    by (intro keeps_modifies) (simp add: near_def upd_rows_def comp_def if_distrib cong: if_cong)
  then show ?thesis
    unfolding reminder_step_def offered_coupon_def get_growth_def using assms
    by (intro keeps_intros keeps_near_sync) auto
qed

lemma reminder_step_count:
  "reminder_step rs env c t ctx w = (Inr (code, d, t'), v) \<Longrightarrow> tr_reminder_count t' = tr_reminder_count t"
  by (auto simp: reminder_step_def returns split: if_splits option.splits)

lemma keeps_near_event: "keeps (near c b u) (track_event ty x ct od)"
  unfolding track_event_def set_growth_def by (intro keeps_modifies) (simp add: near_def)

lemma near_dispatch:
  "near c b u w \<Longrightarrow> dispatch_template_sms code r d x od md key w = (Inr q, v) \<Longrightarrow> near c (Suc b) u v"
  by (auto simp: dispatch_template_sms_def apply_async_def near_def Let_def)

text \<open>One cart of the job: \<open>b\<close> messages are sent and its tracker counts that much more.\<close>

definition counted :: "nat \<Rightarrow> nat \<Rightarrow> world \<Rightarrow> world \<Rightarrow> bool" where
  "counted c b u w \<longleftrightarrow> map cart_id (carts w) = map cart_id (carts u) \<and>
     length (broker w) = length (broker u) + b \<and>
     (\<forall>d. d \<noteq> c \<longrightarrow> g_trackers (growth w) d = g_trackers (growth u) d) \<and>
     map_option tr_reminder_count (g_trackers (growth w) c) =
       map_option (\<lambda>t. tr_reminder_count t + int b) (g_trackers (growth u) c)"

lemma counted_save:
  assumes "near c b u w" and "g_trackers (growth u) c = Some t" and "\<And>r. tr_reminder_count r = tr_reminder_count t \<Longrightarrow>
    tr_reminder_count (f r) = tr_reminder_count t + int b"
  shows "\<exists>v. save_tracker c f w = (Inr (), v) \<and> counted c b u v"
  using assms by (auto simp: save_tracker_def set_growth_def near_def counted_def option.map_comp)

lemma remind_cart_run:
  assumes "g_trackers (growth w) (cart_id c) = Some t"
  shows "\<exists>b v. remind_cart rs env (c, t) w = (Inr (int b), v) \<and> b \<le> 1 \<and> counted (cart_id c) b w v"
proof -
  have stay: "counted (cart_id c) 0 w w" by (simp add: counted_def)
  obtain code d t' w1 where step:
    "reminder_step rs env c t (reminder_context rs w t) w = (Inr (code, d, t'), w1)"
    using answers_remind(1) by (metis answersE prod_cases3)
  let ?msg = "dispatch_template_sms code (tr_phone t) d (tr_user t) None
    [(''tracker_id'', JInt (int (tr_id t))), (''funnel_step'', JInt (tr_funnel_step t'))] (Some (reminder_key t))"
  obtain w2 where msg: "?msg w1 = (Inr (), w2)" using answers_remind(3) by (metis answersE old.unit.exhaust)
  obtain w3 where ev: "track_event GE_SMS_SENT (tr_user t) (Some (cart_id c)) None w2 = (Inr (), w3)"
    using answers_remind(4) by (metis answersE old.unit.exhaust)
  have "near (cart_id c) 0 w w1" using keeps_run [OF keeps_near_step near_refl step] assms by blast
  then have "near (cart_id c) 1 w w3"
    using keeps_run [OF keeps_near_event near_dispatch [OF _ msg] ev] by simp
  then obtain v where "save_tracker (cart_id c) (reminded env t') w3 = (Inr (), v)" "counted (cart_id c) 1 w v"
    using counted_save [OF _ assms, of 1 w3 "reminded env t'"] reminder_step_count [OF step]
    by (auto simp: reminded_def)
  moreover obtain u where "save_tracker (cart_id c) (\<lambda>r. r\<lparr>tr_status := TR_EXPIRED\<rparr>) w = (Inr (), u)"
    "counted (cart_id c) 0 w u"
    using counted_save [OF near_refl assms, of "\<lambda>r. r\<lparr>tr_status := TR_EXPIRED\<rparr>"] by auto
  moreover have "(1::int) = int 1" "(0::int) = int 0" by simp_all
  ultimately show ?thesis
    using step msg ev stay unfolding remind_cart_def
    by (auto simp: run_bnd simp del: of_nat_1 of_nat_0 int_ops(1) int_ops(2))
qed

section \<open>Reminders end\<close>

definition left_of :: "retention_settings \<Rightarrow> tracker option \<Rightarrow> int" where
  "left_of rs x = (case x of None \<Rightarrow> 0 | Some t \<Rightarrow> max 0 (abandoned_cart_max_reminders rs - tr_reminder_count t))"

definition reminders_left :: "retention_settings \<Rightarrow> world \<Rightarrow> int" where
  "reminders_left rs w = (\<Sum>c\<leftarrow>map cart_id (carts w). left_of rs (g_trackers (growth w) c))"

lemma sum_one_changed:
  fixes f g :: "nat \<Rightarrow> int"
  assumes "distinct cs" and "c \<in> set cs" and "\<And>d. d \<noteq> c \<Longrightarrow> g d = f d"
  shows "sum_list (map g cs) = sum_list (map f cs) + (g c - f c)"
  using assms(1,2)
proof (induction cs)
  case (Cons d cs)
  show ?case
  proof (cases "d = c")
    case True
    with Cons.prems(1) have "c \<notin> set cs" by simp
    then have "map g cs = map f cs" by (intro map_cong refl assms(3)) auto
    then have "sum_list (map g cs) = sum_list (map f cs)" by (rule arg_cong)
    with True show ?thesis by simp
  next
    case False
    with Cons assms(3) show ?thesis by simp
  qed
qed simp

lemma counted_left:
  assumes "counted c b w v" and "b \<le> 1" and "distinct (map cart_id (carts w))"
    and "c \<in> set (map cart_id (carts w))" and "g_trackers (growth w) c = Some t" and "remindable rs t"
  shows "reminders_left rs v = reminders_left rs w - int b"
proof -
  obtain r where r: "g_trackers (growth v) c = Some r" "tr_reminder_count r = tr_reminder_count t + int b"
    using assms(1,5) by (auto simp: counted_def)
  have "left_of rs (g_trackers (growth v) c) - left_of rs (g_trackers (growth w) c) = - int b"
    using r assms(2,5,6) by (auto simp: left_of_def remindable_def)
  moreover have "left_of rs (g_trackers (growth v) d) = left_of rs (g_trackers (growth w) d)" if "d \<noteq> c" for d
    using assms(1) that by (simp add: counted_def)
  moreover have "map cart_id (carts v) = map cart_id (carts w)" using assms(1) by (simp add: counted_def)
  ultimately show ?thesis
    using sum_one_changed [OF assms(3,4), of "\<lambda>d. left_of rs (g_trackers (growth v) d)"
        "\<lambda>d. left_of rs (g_trackers (growth w) d)"]
    by (simp add: reminders_left_def)
qed

lemma remind_carts_run:
  assumes "distinct (map cart_id (carts w))" and "distinct (map (cart_id \<circ> fst) ts)"
    and "\<forall>(c, t)\<in>set ts. cart_id c \<in> set (map cart_id (carts w)) \<and> g_trackers (growth w) (cart_id c) = Some t \<and> remindable rs t"
  shows "\<exists>bs v. for_collect ts (remind_cart rs env) w = (Inr (map int bs), v) \<and>
    map cart_id (carts v) = map cart_id (carts w) \<and> length (broker v) = length (broker w) + sum_list bs \<and>
    reminders_left rs v = reminders_left rs w - int (sum_list bs)"
  using assms
proof (induction ts arbitrary: w)
  case (Cons ct ts)
  obtain c t where ct: "ct = (c, t)" by (cases ct)
  with Cons.prems have t: "g_trackers (growth w) (cart_id c) = Some t" "remindable rs t"
    "cart_id c \<in> set (map cart_id (carts w))" by auto
  obtain b v where b: "remind_cart rs env (c, t) w = (Inr (int b), v)" "b \<le> 1" "counted (cart_id c) b w v"
    using remind_cart_run [OF t(1)] by blast
  have ids: "map cart_id (carts v) = map cart_id (carts w)" and len: "length (broker v) = length (broker w) + b"
    and others: "\<And>d. d \<noteq> cart_id c \<Longrightarrow> g_trackers (growth v) d = g_trackers (growth w) d"
    using b(3) by (simp_all add: counted_def)
  have rest: "\<forall>(c, t)\<in>set ts. cart_id c \<in> set (map cart_id (carts v)) \<and> g_trackers (growth v) (cart_id c) = Some t \<and> remindable rs t"
  proof (rule ballI, clarify)
    fix d r assume "(d, r) \<in> set ts"
    moreover from this Cons.prems(2) have "cart_id d \<noteq> cart_id c" by (force simp: ct)
    ultimately show "cart_id d \<in> set (map cart_id (carts v)) \<and> g_trackers (growth v) (cart_id d) = Some r \<and> remindable rs r"
      using Cons.prems(3) ids others by auto
  qed
  have "distinct (map cart_id (carts v))" "distinct (map (cart_id \<circ> fst) ts)"
    using Cons.prems ids by (simp_all add: comp_def)
  from Cons.IH [OF this rest] ids obtain bs u where u: "for_collect ts (remind_cart rs env) v = (Inr (map int bs), u)"
    "map cart_id (carts u) = map cart_id (carts w)" "length (broker u) = length (broker v) + sum_list bs"
    "reminders_left rs u = reminders_left rs v - int (sum_list bs)" by metis
  have "reminders_left rs v = reminders_left rs w - int b"
    by (rule counted_left [OF b(3,2) Cons.prems(1) t(3,1,2)])
  with u len have "length (broker u) = length (broker w) + sum_list (b # bs)"
    "reminders_left rs u = reminders_left rs w - int (sum_list (b # bs))" by simp_all
  moreover have "for_collect (ct # ts) (remind_cart rs env) w = (Inr (map int (b # bs)), u)"
    using b(1) u(1) by (simp add: ct run_bnd)
  ultimately show ?case using u(2) by blast
qed (intro exI [of _ "[]"], simp)

lemma distinct_sort_key: "distinct (map f (sort_key k xs)) = distinct (map f xs)"
  by (metis distinct_map distinct_sort set_sort)

lemma remindable_trackers_rows:
  assumes "distinct (map cart_id (carts w))"
  shows "distinct (map (cart_id \<circ> fst) (remindable_trackers rs w))"
    and "\<forall>(c, t)\<in>set (remindable_trackers rs w). cart_id c \<in> set (map cart_id (carts w)) \<and>
      g_trackers (growth w) (cart_id c) = Some t \<and> remindable rs t"
proof -
  let ?row = "\<lambda>c. case g_trackers (growth w) (cart_id c) of
    Some t \<Rightarrow> if remindable rs t then Some (c, t) else None | None \<Rightarrow> None"
  have "set (map (cart_id \<circ> fst) (List.map_filter ?row cs)) \<subseteq> set (map cart_id cs) \<and>
    (distinct (map cart_id cs) \<longrightarrow> distinct (map (cart_id \<circ> fst) (List.map_filter ?row cs)))" for cs
    by (induction cs) (auto simp: List.map_filter_simps split: option.split)
  then have "distinct (map (cart_id \<circ> fst) (List.map_filter ?row (carts w)))"
    using assms by blast
  then show "distinct (map (cart_id \<circ> fst) (remindable_trackers rs w))"
    by (simp only: remindable_trackers_def distinct_sort_key)
  show "\<forall>(c, t)\<in>set (remindable_trackers rs w). cart_id c \<in> set (map cart_id (carts w)) \<and>
      g_trackers (growth w) (cart_id c) = Some t \<and> remindable rs t"
    by (auto simp: remindable_trackers_def List.map_filter_def split: option.splits if_splits)
qed

lemma reminders_run:
  assumes "distinct (map cart_id (carts w))"
  shows "\<exists>n v. process_abandoned_cart_reminders rs env w = (Inr (int n), v) \<and>
    distinct (map cart_id (carts v)) \<and> length (broker v) = length (broker w) + n \<and>
    reminders_left rs v = reminders_left rs w - int n"
proof -
  obtain bs v where "for_collect (remindable_trackers rs w) (remind_cart rs env) w = (Inr (map int bs), v)"
    "map cart_id (carts v) = map cart_id (carts w)" "length (broker v) = length (broker w) + sum_list bs"
    "reminders_left rs v = reminders_left rs w - int (sum_list bs)"
    using remind_carts_run [OF assms remindable_trackers_rows [OF assms]] by blast
  moreover have "sum_list (map int bs) = int (sum_list bs)" by (induction bs) simp_all
  ultimately show ?thesis using assms by (simp add: process_abandoned_cart_reminders_def run_bnd)
qed

definition reminder_runs :: "retention_settings \<Rightarrow> env list \<Rightarrow> world \<Rightarrow> world" where
  "reminder_runs rs envs w = fold (\<lambda>env w. snd (process_abandoned_cart_reminders rs env w)) envs w"

lemma reminder_runs_total:
  assumes "distinct (map cart_id (carts w))"
  shows "int (length (broker (reminder_runs rs envs w))) =
    int (length (broker w)) + reminders_left rs w - reminders_left rs (reminder_runs rs envs w)"
  using assms
proof (induction envs arbitrary: w)
  case (Cons env envs)
  obtain n v where "snd (process_abandoned_cart_reminders rs env w) = v" "distinct (map cart_id (carts v))"
    "length (broker v) = length (broker w) + n" "reminders_left rs v = reminders_left rs w - int n"
    using reminders_run [OF Cons.prems] by (metis snd_conv)
  with Cons.IH [of v] show ?case by (simp add: reminder_runs_def)
qed (simp add: reminder_runs_def)

lemma left_nonneg: "0 \<le> reminders_left rs w"
  unfolding reminders_left_def by (intro sum_list_nonneg) (auto simp: left_of_def split: option.split)

text \<open>
  C31: the reminders of abandoned carts end. However often and whenever the job runs, it sends no
  more messages than the trackers have reminders left, \<open>ABANDONED_CART_MAX_REMINDERS\<close> less the
  number already sent for each cart.
\<close>

theorem reminders_end:
  assumes "distinct (map cart_id (carts w))"
  shows "int (length (broker (reminder_runs rs envs w))) \<le> int (length (broker w)) + reminders_left rs w"
  using reminder_runs_total [OF assms, of rs envs] left_nonneg [of rs "reminder_runs rs envs w"] by linarith

section \<open>Segments\<close>

definition segment_member :: "nat \<Rightarrow> world \<Rightarrow> nat option" where
  "segment_member u w = map_option snd (find (\<lambda>(x, y). x = u) (g_memberships (growth w)))"

text \<open>A user is in the active segment of its class, when the class has one.\<close>

definition in_segment :: "env \<Rightarrow> world \<Rightarrow> nat \<Rightarrow> bool" where
  "in_segment env w u = (case segment_of (g_segments (growth w)) (classify_user_segment env w u) of
     None \<Rightarrow> True | Some s \<Rightarrow> segment_member u w = Some s)"

definition put_member :: "nat \<Rightarrow> nat \<Rightarrow> world \<Rightarrow> world" where
  "put_member u s w = w\<lparr>growth := (growth w)\<lparr>g_memberships :=
     filter (\<lambda>(x, y). x \<noteq> u) (g_memberships (growth w)) @ [(u, s)]\<rparr>\<rparr>"

lemma member_find: "find (\<lambda>(x, y). x = u) ms = Some (x, s) \<Longrightarrow> x = u"
  by (auto simp: find_Some_iff)

lemma find_other_member:
  "u \<noteq> d \<Longrightarrow> find (\<lambda>(x, y). x = u) (filter (\<lambda>(x, y). x \<noteq> d) ms @ [(d, s)]) = find (\<lambda>(x, y). x = u) ms"
  by (induction ms) auto

lemma find_new_member: "find (\<lambda>(x, y). x = u) (filter (\<lambda>(x, y). x \<noteq> u) ms @ [(u, s)]) = Some (u, s)"
  by (induction ms) auto

lemma segment_frame [simp]:
  "classify_user_segment env (put_member d s w) u = classify_user_segment env w u"
  "g_segments (growth (put_member d s w)) = g_segments (growth w)"
  "active_users us (put_member d s w) = active_users us w"
  "segment_member u (put_member d s w) = (if u = d then Some s else segment_member u w)"
  by (simp_all add: classify_user_segment_def put_member_def paid_orders_of_def active_users_def
      segment_member_def find_other_member find_new_member Let_def)

lemma refresh_user_run:
  "refresh_user_segment env (g_segments (growth w)) u w =
   (case segment_of (g_segments (growth w)) (classify_user_segment env w u) of
      None \<Rightarrow> (Inr 0, w)
    | Some s \<Rightarrow> if segment_member u w = Some s then (Inr 0, w) else (Inr 1, put_member u s w))"
  by (auto simp: refresh_user_segment_def segment_member_def put_member_def set_growth_def run_bnd split: option.split)

lemma refresh_user_step:
  "\<exists>n v. refresh_user_segment env (g_segments (growth w)) u w = (Inr n, v) \<and>
    g_segments (growth v) = g_segments (growth w) \<and> active_users us v = active_users us w \<and>
    (\<forall>x. in_segment env w x \<or> x = u \<longrightarrow> in_segment env v x)"
proof (cases "in_segment env w u")
  case True
  then have "refresh_user_segment env (g_segments (growth w)) u w = (Inr 0, w)"
    by (auto simp: refresh_user_run in_segment_def split: option.splits)
  with True show ?thesis by auto
next
  case False
  then obtain s where s: "segment_of (g_segments (growth w)) (classify_user_segment env w u) = Some s"
    "segment_member u w \<noteq> Some s"
    by (auto simp: in_segment_def split: option.splits)
  then have "refresh_user_segment env (g_segments (growth w)) u w = (Inr 1, put_member u s w)"
    by (simp add: refresh_user_run)
  moreover have "in_segment env (put_member u s w) x" if "in_segment env w x \<or> x = u" for x
    using that s by (cases "x = u") (auto simp: in_segment_def split: option.splits)
  ultimately show ?thesis by simp
qed

lemma refresh_users_run:
  "\<exists>ns v. for_collect vs (refresh_user_segment env (g_segments (growth w))) w = (Inr ns, v) \<and>
    g_segments (growth v) = g_segments (growth w) \<and> active_users us v = active_users us w \<and>
    (\<forall>u. in_segment env w u \<or> u \<in> set vs \<longrightarrow> in_segment env v u)"
proof (induction vs arbitrary: w)
  case (Cons d vs)
  obtain n w1 where d: "refresh_user_segment env (g_segments (growth w)) d w = (Inr n, w1)"
    and same: "g_segments (growth w1) = g_segments (growth w)" "active_users us w1 = active_users us w"
    and goal: "\<forall>u. in_segment env w u \<or> u = d \<longrightarrow> in_segment env w1 u"
    using refresh_user_step by blast
  from Cons.IH [of w1] same obtain ns v where v:
    "for_collect vs (refresh_user_segment env (g_segments (growth w))) w1 = (Inr ns, v)"
    "g_segments (growth v) = g_segments (growth w)" "active_users us v = active_users us w"
    "\<forall>u. in_segment env w1 u \<or> u \<in> set vs \<longrightarrow> in_segment env v u" by metis
  moreover from d v(1) have "for_collect (d # vs) (refresh_user_segment env (g_segments (growth w))) w = (Inr (n # ns), v)"
    by (simp add: run_bnd)
  moreover have "\<forall>u. in_segment env w u \<or> u \<in> set (d # vs) \<longrightarrow> in_segment env v u"
    using goal v(4) by auto
  ultimately show ?case by blast
qed simp

lemma refresh_settled:
  "list_all (in_segment env w) vs \<Longrightarrow>
   for_collect vs (refresh_user_segment env (g_segments (growth w))) w = (Inr (replicate (length vs) 0), w)"
  by (induction vs) (auto simp: refresh_user_run in_segment_def run_bnd split: option.splits)

text \<open>
  A refresh leaves every active user in the segment of its class, and refreshing again at the
  same moment moves nobody.
\<close>

theorem segments_settle:
  "\<exists>n v. refresh_customer_segments env us w = (Inr n, v) \<and>
    list_all (in_segment env v) (active_users us v) \<and> refresh_customer_segments env us v = (Inr 0, v)"
proof -
  obtain ns v where v: "for_collect (active_users us w) (refresh_user_segment env (g_segments (growth w))) w = (Inr ns, v)"
    "g_segments (growth v) = g_segments (growth w)" "active_users us v = active_users us w"
    "\<forall>u. in_segment env w u \<or> u \<in> set (active_users us w) \<longrightarrow> in_segment env v u"
    using refresh_users_run by blast
  then have settled: "list_all (in_segment env v) (active_users us v)" by (simp add: list_all_iff)
  with refresh_settled [OF this] v(1) show ?thesis
    by (simp add: refresh_customer_segments_def get_growth_def run_bnd sum_list_replicate)
qed

section \<open>Orders won back\<close>

lemma find_recovered:
  assumes "find (\<lambda>(c, t). tr_recovered_order t = Some k \<and> tr_status t = TR_RECOVERED)
      (List.map_filter (\<lambda>c. map_option (Pair (cart_id c)) (f (cart_id c))) cs) = None"
    and "d \<in> set cs" and "tr_recovered_order r = Some k" and "tr_status r = TR_RECOVERED"
  shows "find (\<lambda>(c, t). tr_recovered_order t = Some k \<and> tr_status t = TR_RECOVERED)
    (List.map_filter (\<lambda>c. map_option (Pair (cart_id c)) ((f(cart_id d \<mapsto> r)) (cart_id c))) cs) =
   Some (cart_id d, r)"
  using assms
proof (induction cs)
  case (Cons c cs)
  show ?case
  proof (cases "cart_id c = cart_id d")
    case True
    with Cons.prems show ?thesis by (simp add: List.map_filter_simps)
  next
    case False
    with Cons show ?thesis
      by (cases "f (cart_id c)") (auto simp: List.map_filter_simps split: if_splits)
  qed
qed simp

text \<open>
  An order counts as won back by an abandoned-cart SMS although no SMS was ever sent: paying
  it marks the tracker of the customer's cart as recovered whatever it went through, and the attribution
  of its revenue asks only for that mark.
\<close>

theorem unreminded_order_credited_to_sms:
  assumes "ord_user od = Some u" and "filter (\<lambda>c. cart_user c = Some u) (carts w) = [c]"
    and "g_trackers (growth w) (cart_id c) = Some t" and "tr_reminder_count t = 0" and "\<not> tr_sms_tracked t"
    and "recovered_tracker w (ord_id od) = None"
    and "\<forall>a\<in>set (g_attributions (growth w)). at_order a \<noteq> ord_id od \<or> at_source a \<noteq> SRC_SMS"
  shows "\<exists>a v. bnd (mark_abandoned_cart_recovered od) (\<lambda>_. attribute_sms od) w = (Inr [a], v) \<and>
    at_source a = SRC_SMS \<and> at_amount a = ord_total od \<and> a \<in> set (g_attributions (growth v)) \<and>
    \<lparr>ge_type = GE_SMS_CONVERSION, ge_user = Some u, ge_cart = None, ge_order = Some (ord_id od)\<rparr> \<in> set (g_events (growth v)) \<and>
    map_option tr_reminder_count (g_trackers (growth v) (cart_id c)) = Some 0"
proof -
  let ?t = "t\<lparr>tr_status := TR_RECOVERED, tr_recovered_order := Some (ord_id od)\<rparr>"
  let ?v = "put_tracker (cart_id c) ?t w"
  have mark: "mark_abandoned_cart_recovered od w = (Inr (), ?v)"
    using assms(1-3) by (simp add: mark_abandoned_cart_recovered_def)
  have "c \<in> set (carts w)" using assms(2) by (metis (no_types) filter_is_subset list.set_intros(1) subsetD)
  then have "recovered_tracker ?v (ord_id od) = Some (cart_id c, ?t)"
    using find_recovered [of "ord_id od" "g_trackers (growth w)" "carts w" c ?t] assms(6) by (simp add: recovered_tracker_def put_tracker_def)
  moreover have "find (\<lambda>x. at_order x = ord_id od \<and> at_source x = SRC_SMS \<and> at_source_id x = i)
      (g_attributions (growth w)) = None" for i
    using assms(7) by (auto simp: find_None_iff)
  ultimately show ?thesis
    using mark assms(1,4,5)
    by (simp add: attribute_sms_def get_or_create_attribution_def get_growth_def set_growth_def track_event_def
      run_bnd run_whenever put_tracker_def)
qed

section \<open>Instances\<close>

definition demo_tracker :: tracker where
  "demo_tracker = (new_tracker 20)\<lparr>tr_phone := ''0912'', tr_user := Some 5, tr_item_count := 2, tr_subtotal := 100\<rparr>"

definition user_cart :: cart where
  "user_cart = \<lparr>cart_id = 4, cart_user = Some 5, cart_session_key = None, cart_coupon_code = [],
     cart_referral_code = [], cart_active_order = None\<rparr>"

definition cart_world :: world where
  "cart_world = empty_world\<lparr>carts := [user_cart], growth := empty_growth\<lparr>g_trackers := [4 \<mapsto> demo_tracker]\<rparr>,
     cart_items := [\<lparr>ci_id = 30, ci_cart = 4, ci_product = 1, ci_quantity = 2\<rparr>]\<rparr>"

definition demo_retention :: retention_settings where
  "demo_retention = \<lparr>abandoned_cart_hours = 2, abandoned_cart_step2_hours = 24,
     abandoned_cart_high_value = 50000000, abandoned_cart_max_reminders = 3, site_url = []\<rparr>"

lemma reminders_end_witness:
  "length (broker (reminder_runs demo_retention
     (replicate 8 (demo_env\<lparr>now := hours 100\<rparr>)) cart_world)) \<le> 3"
  using reminders_end [of cart_world demo_retention "replicate 8 (demo_env\<lparr>now := hours 100\<rparr>)"]
  by (simp add: cart_world_def empty_world_def reminders_left_def left_of_def demo_retention_def
      demo_tracker_def new_tracker_def user_cart_def)

lemma unreminded_order_credited_to_sms_witness:
  "\<exists>a v. bnd (mark_abandoned_cart_recovered (demo_order\<lparr>ord_user := Some 5\<rparr>))
      (\<lambda>_. attribute_sms (demo_order\<lparr>ord_user := Some 5\<rparr>)) cart_world = (Inr [a], v) \<and>
    at_source a = SRC_SMS \<and> at_amount a = 15000000"
  using unreminded_order_credited_to_sms [of "demo_order\<lparr>ord_user := Some 5\<rparr>" 5 cart_world user_cart demo_tracker]
  by (auto simp: cart_world_def empty_world_def user_cart_def demo_tracker_def new_tracker_def
      recovered_tracker_def empty_growth_def demo_order_def List.map_filter_simps)

end
