(* ===== verification/ReservationProps.thy ===== *)
theory ReservationProps
  imports StockProps
begin

text \<open>
  The round trip of a cart reservation: what \<open>reserve_for_cart_item\<close> takes from the stock and from the
  day's capacity, \<open>release_cart_reservations\<close> gives back.
\<close>

section \<open>Reserving adds one row\<close>

abbreviation rows_are :: "reservation list \<Rightarrow> world \<Rightarrow> bool" where
  "rows_are rs w \<equiv> reservations w = rs"

lemma keeps_rows_inventory: "keeps (rows_are rs) (get_or_create_inventory p)"
  unfolding get_or_create_inventory_def by (intro keeps_intros keeps_modifies) simp

lemma keeps_rows_capacity: "keeps (rows_are rs) (get_or_create_daily_capacity p d)"
  unfolding get_or_create_daily_capacity_def default_daily_capacity_def
  by (intro keeps_intros keeps_rows_inventory keeps_modifies) simp

lemma keeps_rows_find: "keeps (rows_are rs) (find_fulfillment_date env pr n start)"
proof -
  have "keeps (rows_are rs) (scan_days p n i d offsets)" for p i d offsets
    by (induction offsets)
      (simp_all only: scan_days.simps, (intro keeps_intros keeps_rows_capacity | assumption)+)
  then show ?thesis
    unfolding find_fulfillment_date_def by (intro keeps_intros keeps_rows_inventory)
qed

lemma reserve_item_row:
  assumes "reserve_item env od pr n ct h w = (Inr r, v)"
  shows "reservations v = reservations w @ [r] \<and> res_cart r = ct \<and> res_status r = R_ACTIVE"
proof -
  let ?p = "prod_id pr"
  from assms obtain i w1 first w2 d w3 c w4 where
    1: "get_or_create_inventory ?p w = (Inr i, w1)" and
    2: "find_fulfillment_date env pr n None w1 = (Inr first, w2)" and
    3: "(if inv_track_stock i \<and> n > available_quantity i then
           if inv_allow_preorder i then find_fulfillment_date env pr n (Some first)
           else raise (Exn InsufficientStockError (only_units (available_quantity i) pr))
         else ret first) w2 = (Inr d, w3)" and
    4: "get_or_create_daily_capacity ?p d w3 = (Inr c, w4)" and
    5: "bnd (raise_if (available_units c < n)
          (Exn CapacityExceededError (capacity_insufficient pr d))) (\<lambda>_.
        bnd (add_reserved_units ?p d n) (\<lambda>_.
        bnd (whenever (inv_track_stock i) (add_reserved_quantity ?p n)) (\<lambda>_.
        create_reservation ?p od ct n d (now env + minutes h)))) w4 = (Inr r, v)"
    unfolding reserve_item_def
    by - (erule bnd_InrE, erule bnd_InrE, erule bnd_InrE, erule bnd_InrE, rule that)
  have "reservations w1 = reservations w" by (rule keeps_run [OF keeps_rows_inventory _ 1]) simp
  moreover have "reservations w2 = reservations w1" by (rule keeps_run [OF keeps_rows_find _ 2]) simp
  moreover have "reservations w3 = reservations w2"
  proof -
    have "keeps (rows_are (reservations w2)) (if inv_track_stock i \<and> n > available_quantity i then
           if inv_allow_preorder i then find_fulfillment_date env pr n (Some first)
           else raise (Exn InsufficientStockError (only_units (available_quantity i) pr))
         else ret first)"
      by (intro keeps_intros keeps_rows_find)
    from keeps_run [OF this _ 3] show ?thesis by simp
  qed
  moreover have "reservations w4 = reservations w3" by (rule keeps_run [OF keeps_rows_capacity _ 4]) simp
  moreover have "reservations v = reservations w4 @ [r] \<and> res_cart r = ct \<and> res_status r = R_ACTIVE"
    using 5 by (cases "inv_track_stock i") (auto simp: returns add_reserved_units_def add_reserved_quantity_def
      create_reservation_def check_positive_def fresh_pk_def Let_def split: option.splits)
  ultimately show ?thesis by simp
qed

section \<open>The round trip\<close>

text \<open>What a product's counter says, when its stock is tracked.\<close>

definition counter :: "nat \<Rightarrow> world \<Rightarrow> int" where
  "counter p w = (case inventories w p of
     Some i \<Rightarrow> if inv_track_stock i then inv_reserved i else 0 | None \<Rightarrow> 0)"

definition day_counter :: "nat \<Rightarrow> date \<Rightarrow> world \<Rightarrow> int" where
  "day_counter p d w = (case capacities w (p, d) of Some c \<Rightarrow> cap_reserved c | None \<Rightarrow> 0)"

definition tracks :: "nat \<Rightarrow> bool \<Rightarrow> world \<Rightarrow> bool" where
  "tracks p b w \<longleftrightarrow> (\<exists>i. inventories w p = Some i \<and> inv_track_stock i = b)"

lemma tracks_writes:
  "tracks p b w \<Longrightarrow> inventories w q = None \<Longrightarrow> tracks p b (put_inventory q i w)"
  "tracks p b (put_capacity q d c w) = tracks p b w"
  "tracks p b (put_reservation r f w) = tracks p b w"
  "tracks p b w \<Longrightarrow> inventories w (res_product r) = Some i \<Longrightarrow> tracks p b (hold_units i c r w)"
  "tracks p b w \<Longrightarrow> tracks p b (drop_units r w)"
  "tracks p b w \<Longrightarrow> inventories w (res_product r) = Some i \<Longrightarrow> tracks p b (ship_units i c r w)"
  by (auto simp: tracks_def put_defs hold_units_def drop_units_def ship_units_def give_back_stock_def
      use_stock_def Let_def split: option.split)

interpretation tracked: stock_tables "\<lambda>w. stock_ok w \<and> tracks p b w" for p b
  by unfold_locales
    (simp_all add: tracks_writes ledger.law_new_inventory ledger.law_new_capacity ledger.law_hold ledger.law_drop
      ledger.law_confirm ledger.law_ship ledger.law_expired ledger.law_ids ledger.frame_products,
     simp_all add: of_tables_def tracks_def ledger.frames)

lemma live_mark_released:
  assumes "distinct (map res_id rs)"
  shows "filter live (mark_released (filter Q rs) rs) = filter (\<lambda>r. live r \<and> \<not> Q r) rs"
proof -
  have "mark_released (filter Q rs) rs = upd_rows Q (set_res_status R_RELEASED) rs"
    using assms unfolding mark_released_def upd_rows_def
    by (intro map_cong) (auto simp: distinct_map dest: inj_onD)
  moreover have "filter live (upd_rows Q (set_res_status R_RELEASED) xs) = filter (\<lambda>r. live r \<and> \<not> Q r) xs" for xs
    by (induction xs) auto
  ultimately show ?thesis by simp
qed

lemma held_of_live:
  assumes "filter live rs = filter live qs"
  shows "held_product p rs = held_product p qs" and "held_day p d rs = held_day p d qs"
proof -
  have "held_product p xs = sum_where res_quantity (\<lambda>r. res_product r = p) (filter live xs)"
    "held_day p d xs = sum_where res_quantity (\<lambda>r. res_product r = p \<and> res_date r = d) (filter live xs)" for xs
    by (induction xs) (simp_all add: held_product_def held_day_def)
  with assms show "held_product p rs = held_product p qs" and "held_day p d rs = held_day p d qs"
    by simp_all
qed

lemma day_counter_held: "stock_ok w \<Longrightarrow> day_counter p d w = held_day p d (reservations w)"
  using stock_okD(3) [of w p d] by (cases "capacities w (p, d)") (simp_all add: day_counter_def)

lemma counter_tracked: "stock_ok w \<Longrightarrow> tracks p True w \<Longrightarrow> counter p w = held_product p (reservations w)"
  using stock_okD(2) [of w p] by (auto simp: counter_def tracks_def)

lemma counter_untracked: "tracks p False w \<Longrightarrow> counter p w = 0"
  by (auto simp: counter_def tracks_def)

lemma reserve_for_cart_row:
  assumes "filter (active_for_cart c (prod_id pr)) (reservations w) = []"
    and "reserve_for_cart_item env c pr n w = (Inr x, v)"
  shows "reservations v = reservations w @ (case x of None \<Rightarrow> [] | Some r \<Rightarrow> [r]) \<and>
    (case x of None \<Rightarrow> True | Some r \<Rightarrow> res_cart r = Some c \<and> res_status r = R_ACTIVE)"
proof -
  let ?Q = "active_for_cart c (prod_id pr)"
  from assms(2) obtain i t where i: "get_or_create_inventory (prod_id pr) w = (Inr i, t)"
    and rest: "(if \<not> inv_track_stock i then ret None
       else bnd (query_reservations ?Q) (\<lambda>rs. bnd (for_each rs release_single_reservation) (\<lambda>_.
            bnd (reserve_item env None pr n (Some c) (cart_reservation_minutes env)) (\<lambda>r.
            ret (Some r))))) t = (Inr x, v)"
    by (auto simp: reserve_for_cart_item_def elim!: bnd_InrE)
  have rows: "reservations t = reservations w" by (rule keeps_run [OF keeps_rows_inventory _ i]) simp
  show ?thesis
  proof (cases "inv_track_stock i")
    case False
    with rest rows show ?thesis by auto
  next
    case True
    with rest rows assms(1) obtain r where
      "reserve_item env None pr n (Some c) (cart_reservation_minutes env) t = (Inr r, v)" "x = Some r"
      by (auto simp: query_reservations_def returns)
    with rows show ?thesis using reserve_item_row by fastforce
  qed
qed

text \<open>
  C13: for a cart that holds nothing, reserving an item and releasing the cart's reservations is
  a round trip: whatever day the units were taken from, every product's counter and every day's counter
  are afterwards what they were, and so are the live reservations.
\<close>

theorem reserve_then_release:
  assumes ok: "stock_ok w" and none: "list_all (\<lambda>r. res_cart r \<noteq> Some c \<or> \<not> live r) (reservations w)"
    and row: "inventories w p = Some i" and run: "reserve_for_cart_item env c pr n w = (Inr x, v)"
  shows "\<exists>m u. release_cart_reservations c v = (Inr m, u) \<and>
    filter live (reservations u) = filter live (reservations w) \<and>
    counter p u = counter p w \<and> day_counter q d u = day_counter q d w"
proof -
  let ?Q = "\<lambda>r. res_cart r = Some c \<and> res_status r = R_ACTIVE"
  have "filter (active_for_cart c (prod_id pr)) (reservations w) = []"
    using none by (auto simp: filter_empty_conv active_for_cart_def list_all_iff live_def)
  from reserve_for_cart_row [OF this run] have rows: "reservations v = reservations w @ (case x of None \<Rightarrow> [] | Some r \<Rightarrow> [r])"
    and r: "case x of None \<Rightarrow> True | Some r \<Rightarrow> ?Q r" by simp_all
  have start: "stock_ok w \<and> tracks p (inv_track_stock i) w" using ok row by (simp add: tracks_def)
  have v: "stock_ok v \<and> tracks p (inv_track_stock i) v"
    by (rule keeps_run [OF tracked.keeps_reserve_for_cart_item start run])
  obtain u where loop: "for_each (rev (filter ?Q (reservations v))) release_single_reservation v = (Inr (), u)"
    and u: "stock_ok u" and rs: "reservations u = mark_released (filter ?Q (reservations v)) (reservations v)"
    using release_query_run [of v ?Q] v by (auto simp: live_def)
  let ?m = "length (filter ?Q (reservations v))"
  have rel: "release_cart_reservations c v = (Inr ?m, u)"
    using loop by (simp add: release_cart_reservations_def query_reservations_def run_bnd run_atomic)
  have tr: "tracks p (inv_track_stock i) u"
    using keeps_run [OF tracked.keeps_release_cart_reservations v rel] by blast
  have "distinct (map res_id (reservations v))" using stock_okD(1) v by (auto simp: rows_ok_def)
  then have "filter live (reservations u) = filter (\<lambda>r. live r \<and> \<not> ?Q r) (reservations v)"
    unfolding rs by (rule live_mark_released)
  also have "\<dots> = filter live (reservations w)"
    using none r by (cases x) (auto simp: rows list_all_iff live_def intro!: filter_cong)
  finally have live: "filter live (reservations u) = filter live (reservations w)" .
  have "counter p u = counter p w"
    using held_of_live [OF live] tr start u
    by (cases "inv_track_stock i") (simp_all add: counter_tracked counter_untracked)
  moreover have "day_counter q d u = day_counter q d w"
    using held_of_live [OF live] ok u by (simp add: day_counter_held)
  ultimately show ?thesis using rel live by blast
qed

lemma reserve_then_release_witness:
  "\<exists>x v m u. reserve_for_cart_item demo_env 9 demo_product 2 busy_world = (Inr x, v) \<and>
    release_cart_reservations 9 v = (Inr m, u) \<and> counter 1 u = counter 1 busy_world \<and>
    day_counter 1 10 u = day_counter 1 10 busy_world"
proof -
  let ?run = "reserve_for_cart_item demo_env 9 demo_product 2 busy_world"
  have "\<not> isl (fst ?run)" by code_simp
  then obtain x v where run: "?run = (Inr x, v)" by (cases "fst ?run"; cases ?run) auto
  have row: "inventories busy_world 1 = Some (demo_inventory\<lparr>inv_stock := 70\<rparr>)"
    by (simp add: busy_world_def)
  have "list_all (\<lambda>r. res_cart r \<noteq> Some 9 \<or> \<not> live r) (reservations busy_world)"
    by (simp add: busy_world_def demo_world_def demo_reservation_def)
  from reserve_then_release [OF stock_ok_busy this row run] run show ?thesis by blast
qed

end
