(* ===== verification/Demand.thy ===== *)
theory Demand
  imports IntelModels
begin

text \<open>
  \<open>apps/intelligence/demand_service.py\<close>: what was sold of each product on a day, and the
  forecast for a day from the days before it.
\<close>

section \<open>Daily statistics\<close>

record bucket =
  bu_units :: int
  bu_revenue :: money
  bu_dates :: "date list"
  bu_hours :: "(nat \<times> int) list"

definition empty_bucket :: bucket where
  "empty_bucket = \<lparr>bu_units = 0, bu_revenue = 0, bu_dates = [], bu_hours = []\<rparr>"

definition add_to_bucket :: "calendar \<Rightarrow> order_item \<Rightarrow> order \<Rightarrow> bucket \<Rightarrow> bucket" where
  "add_to_bucket cal i od b =
     \<lparr>bu_units = bu_units b + oi_quantity i,
      bu_revenue = bu_revenue b + oi_line_total i,
      bu_dates = List.insert (utc_date cal (ord_created_at od)) (bu_dates b),
      bu_hours = dict_alter (local_hour cal (ord_created_at od)) (\<lambda>n. n + oi_quantity i) 0 (bu_hours b)\<rparr>"

definition buckets_of :: "calendar \<Rightarrow> (order_item \<times> order) list \<Rightarrow> (nat \<times> bucket) list" where
  "buckets_of cal rows =
     foldl (\<lambda>bs (i, od). dict_alter (oi_product i) (add_to_bucket cal i od) empty_bucket bs) [] rows"

text \<open>\<open>max(hours, key=hours.get)\<close> is the first key with the greatest value.\<close>

fun peak_of :: "(nat \<times> int) list \<Rightarrow> nat option" where
  "peak_of [] = None"
| "peak_of (x # xs) = Some (fst (foldl (\<lambda>m y. if snd m < snd y then y else m) x xs))"

definition stats_row :: "date \<Rightarrow> nat \<times> bucket \<Rightarrow> daily_stats" where
  "stats_row d = (\<lambda>(p, b).
     \<lparr>ds_product = p, ds_date = d, ds_units = bu_units b, ds_revenue = bu_revenue b,
      ds_order_count = int (length (bu_dates b)), ds_peak_hour = peak_of (bu_hours b),
      ds_weekday = weekday_of d, ds_hourly = bu_hours b\<rparr>)"

definition stats_key :: "daily_stats \<Rightarrow> nat \<times> date" where
  "stats_key s = (ds_product s, ds_date s)"

definition sold_on :: "calendar \<Rightarrow> date \<Rightarrow> world \<Rightarrow> (order_item \<times> order) list" where
  "sold_on cal d = items_where (\<lambda>od. is_paid_order od \<and> day_start cal d \<le> ord_created_at od \<and>
     ord_created_at od < day_start cal (d + 1))"

definition aggregate_daily_stats :: "calendar \<Rightarrow> world \<Rightarrow> date \<Rightarrow> int I" where
  "aggregate_daily_stats cal w d =
     (let bs = buckets_of cal (sold_on cal d w) in
      bnd (for_each bs (\<lambda>b. modifies (\<lambda>i. i\<lparr>i_stats := put_row stats_key (stats_row d b) (i_stats i)\<rparr>))) (\<lambda>_.
      ret (int (length bs))))"

section \<open>Forecasts\<close>

definition units_of :: "daily_stats list \<Rightarrow> int" where
  "units_of ss = sum_list (map ds_units ss)"

text \<open>The rows of the window before a day, and those of them on its weekday\<close>

definition window_stats :: "intelligence \<Rightarrow> nat \<Rightarrow> date \<Rightarrow> int \<Rightarrow> daily_stats list" where
  "window_stats i p d window =
     filter (\<lambda>s. ds_product s = p \<and> d - window \<le> ds_date s \<and> ds_date s < d) (i_stats i)"

definition same_weekday :: "date \<Rightarrow> daily_stats list \<Rightarrow> daily_stats list" where
  "same_weekday d ss = filter (\<lambda>s. ds_weekday s = weekday_of d) ss"

definition forecast_product :: "intelligence \<Rightarrow> nat \<Rightarrow> date \<Rightarrow> int \<Rightarrow> forecast option" where
  "forecast_product i p d window =
     (let stats = window_stats i p d window in
      if stats = [] then None
      else
        let moving = decimal (of_int (units_of stats) / of_nat (length stats));
            days_like = same_weekday d stats;
            average = decimal (of_int (units_of days_like) / of_nat (max 1 (length days_like)));
            factor = (if moving \<noteq> 0 then decimal (average / moving) else 1);
            predicted = half_even (100 * decimal (moving * factor))
        in Some \<lparr>fc_product = p, fc_date = d, fc_window = window, fc_predicted = max predicted 0,
             fc_average = half_even (100 * moving), fc_factor = half_even (10000 * factor)\<rparr>)"

definition forecast_key :: "forecast \<Rightarrow> nat \<times> date \<times> int" where
  "forecast_key f = (fc_product f, fc_date f, fc_window f)"

definition put_forecast :: "date \<Rightarrow> nat \<Rightarrow> int \<Rightarrow> int I" where
  "put_forecast d p window =
     bnd (gets (\<lambda>i. forecast_product i p d window)) (\<lambda>f.
     case f of
       None \<Rightarrow> ret 0
     | Some f \<Rightarrow>
         bnd (modifies (\<lambda>i. i\<lparr>i_forecasts := put_row forecast_key f (i_forecasts i)\<rparr>)) (\<lambda>_. ret 1))"

definition generate_forecasts :: "nat list \<Rightarrow> world \<Rightarrow> date \<Rightarrow> int list \<Rightarrow> int I" where
  "generate_forecasts ps w d windows =
     bnd (for_collect (available_products ps w) (\<lambda>p.
            bnd (for_collect windows (put_forecast d (prod_id p))) (\<lambda>ns. ret (sum_list ns)))) (\<lambda>ns.
     ret (sum_list ns))"

section \<open>Patterns\<close>

definition recent_stats :: "date \<Rightarrow> int \<Rightarrow> intelligence \<Rightarrow> daily_stats list" where
  "recent_stats d n i = filter (\<lambda>s. d - n \<le> ds_date s) (i_stats i)"

definition peak_hour_analysis :: "date \<Rightarrow> int \<Rightarrow> intelligence \<Rightarrow> (nat \<times> int) list" where
  "peak_hour_analysis d n i =
     (let hours = List.map_filter ds_peak_hour (recent_stats d n i) in
      map (\<lambda>h. (h, int (count_list hours h))) (sort (remdups hours)))"

definition weekday_patterns :: "date \<Rightarrow> int \<Rightarrow> intelligence \<Rightarrow> (nat \<times> string \<times> int \<times> money) list" where
  "weekday_patterns d n i =
     (let stats = recent_stats d n i in
      map (\<lambda>k. (k, [''Mon'', ''Tue'', ''Wed'', ''Thu'', ''Fri'', ''Sat'', ''Sun''] ! k,
           sum_list (map ds_units (filter (\<lambda>s. ds_weekday s = k) stats)),
           sum_list (map ds_revenue (filter (\<lambda>s. ds_weekday s = k) stats))))
        (sort (remdups (map ds_weekday stats))))"

section \<open>Tasks\<close>

definition daily_product_stats_task :: "env \<Rightarrow> calendar \<Rightarrow> world \<Rightarrow> int I" where
  "daily_product_stats_task env cal w = aggregate_daily_stats cal w (today env)"

definition demand_forecast_task :: "env \<Rightarrow> nat list \<Rightarrow> world \<Rightarrow> int I" where
  "demand_forecast_task env ps w = generate_forecasts ps w (today env) [7, 14]"

section \<open>The day's statistics\<close>

text \<open>A loop that only writes is one update.\<close>

lemma for_each_modifies: "for_each xs (\<lambda>x. modifies (f x)) s = (Inr (), fold f xs s)"
  by (induction xs arbitrary: s) (simp_all add: run_bnd)

lemma fold_put_stats:
  "fold (\<lambda>b i. i\<lparr>i_stats := put_row stats_key (stats_row d b) (i_stats i)\<rparr>) bs i =
     i\<lparr>i_stats := fold (\<lambda>b. put_row stats_key (stats_row d b)) bs (i_stats i)\<rparr>"
  by (induction bs arbitrary: i) simp_all

lemma aggregate_runs:
  "aggregate_daily_stats cal w d i =
     (let bs = buckets_of cal (sold_on cal d w) in
      (Inr (int (length bs)), i\<lparr>i_stats := fold (\<lambda>b. put_row stats_key (stats_row d b)) bs (i_stats i)\<rparr>))"
  by (simp add: aggregate_daily_stats_def Let_def run_bnd for_each_modifies fold_put_stats)

lemma stats_row_key [simp]: "stats_key (stats_row d (p, b)) = (p, d)"
  by (simp add: stats_key_def stats_row_def)

lemma find_fold_put:
  assumes "distinct (map fst bs)"
  shows "find (\<lambda>s. stats_key s = (p, e)) (fold (\<lambda>b. put_row stats_key (stats_row d b)) bs rs) =
    (if e = d then case map_of bs p of Some b \<Rightarrow> Some (stats_row d (p, b))
                   | None \<Rightarrow> find (\<lambda>s. stats_key s = (p, e)) rs
     else find (\<lambda>s. stats_key s = (p, e)) rs)"
  using assms
proof (induction bs arbitrary: rs)
  case (Cons b bs)
  obtain q c where b: "b = (q, c)" by fastforce
  have "map_of bs q = None" using Cons.prems by (simp add: b map_of_eq_None_iff)
  with Cons show ?case by (auto simp: b find_put_row split: option.split)
qed simp

lemma put_row_same: "r \<in> set rs \<Longrightarrow> distinct (map k rs) \<Longrightarrow> put_row k r rs = rs"
proof -
  assume r: "r \<in> set rs" and d: "distinct (map k rs)"
  then have "x = r" if "x \<in> set rs" "k x = k r" for x
    using that by (metis distinct_map inj_onD)
  then have "map (\<lambda>x. if k x = k r then r else x) rs = rs" by (intro map_idI) auto
  then show ?thesis using r by (auto simp: put_row_def)
qed

lemma fold_put_same:
  "\<forall>b\<in>set bs. f b \<in> set rs \<Longrightarrow> distinct (map k rs) \<Longrightarrow> fold (\<lambda>b. put_row k (f b)) bs rs = rs"
  by (induction bs) (simp_all add: put_row_same)

lemma distinct_fold_put: "distinct (map k rs) \<Longrightarrow> distinct (map k (fold (\<lambda>b. put_row k (f b)) bs rs))"
  by (induction bs arbitrary: rs) (simp_all add: distinct_put_row)

lemma fold_put_in:
  assumes "distinct (map (k \<circ> f) bs)" and "b \<in> set bs"
  shows "f b \<in> set (fold (\<lambda>b. put_row k (f b)) bs rs)"
  using assms
proof (induction bs arbitrary: rs)
  case (Cons c bs)
  have keep: "r \<in> set (fold (\<lambda>b. put_row k (f b)) cs ts)" if "r \<in> set ts" "\<forall>c\<in>set cs. k (f c) \<noteq> k r" for r cs ts
    using that by (induction cs arbitrary: ts) (auto simp: set_put_row)
  show ?case
  proof (cases "b = c")
    case True
    have "\<forall>x\<in>set bs. k (f x) \<noteq> k (f c)" using Cons.prems(1) by (auto simp: image_iff)
    then show ?thesis using keep [of "f c" "put_row k (f c) rs" bs] by (simp add: True set_put_row)
  next
    case False
    then show ?thesis using Cons by simp
  qed
qed simp

text \<open>What the buckets hold\<close>

lemma buckets_snoc:
  "buckets_of cal (rows @ [(i, od)]) =
     dict_alter (oi_product i) (add_to_bucket cal i od) empty_bucket (buckets_of cal rows)"
  by (simp add: buckets_of_def)

lemma distinct_buckets: "distinct (map fst (buckets_of cal rows))"
proof (induction rows rule: rev_induct)
  case (snoc x rows)
  then show ?case by (cases x) (simp add: buckets_snoc distinct_dict_alter)
qed (simp add: buckets_of_def)

lemma dom_buckets: "fst ` set (buckets_of cal rows) = (\<lambda>(i, od). oi_product i) ` set rows"
proof (induction rows rule: rev_induct)
  case (snoc x rows)
  then show ?case by (cases x) (simp add: buckets_snoc dom_dict_alter)
qed (simp add: buckets_of_def)

definition bucket_ok :: "nat \<Rightarrow> (order_item \<times> order) list \<Rightarrow> bucket \<Rightarrow> bool" where
  "bucket_ok p rows b \<longleftrightarrow>
     bu_units b = sum_where (\<lambda>(i, od). oi_quantity i) (\<lambda>(i, od). oi_product i = p) rows \<and>
     bu_revenue b = sum_where (\<lambda>(i, od). oi_line_total i) (\<lambda>(i, od). oi_product i = p) rows \<and>
     sum_list (map snd (bu_hours b)) = bu_units b \<and> bu_hours b \<noteq> []"

lemma sum_dict_alter_plus:
  "sum_list (map snd (dict_alter k (\<lambda>n. n + q) 0 d)) = sum_list (map snd d) + (q::int)"
  by (induction k "\<lambda>n. n + q" "0::int" d rule: dict_alter.induct) auto

lemma dict_alter_ne [simp]: "dict_alter k f z d \<noteq> []"
  by (induction k f z d rule: dict_alter.induct) auto

lemma sum_where_none: "(\<And>x. x \<in> set rows \<Longrightarrow> \<not> P x) \<Longrightarrow> sum_where q P rows = 0"
  by (induction rows) auto

lemma buckets_ok: "map_of (buckets_of cal rows) p = Some b \<Longrightarrow> bucket_ok p rows b"
proof (induction rows arbitrary: b rule: rev_induct)
  case (snoc x rows)
  obtain i od where x: "x = (i, od)" by fastforce
  show ?case
  proof (cases "oi_product i = p")
    case False
    then show ?thesis using snoc by (auto simp: x buckets_snoc map_of_dict_alter bucket_ok_def)
  next
    case True
    define c where "c = (case map_of (buckets_of cal rows) p of Some v \<Rightarrow> v | None \<Rightarrow> empty_bucket)"
    have b: "b = add_to_bucket cal i od c"
      using snoc.prems True by (simp add: x buckets_snoc map_of_dict_alter c_def)
    have "bu_units c = sum_where (\<lambda>(i, od). oi_quantity i) (\<lambda>(i, od). oi_product i = p) rows \<and>
      bu_revenue c = sum_where (\<lambda>(i, od). oi_line_total i) (\<lambda>(i, od). oi_product i = p) rows \<and>
      sum_list (map snd (bu_hours c)) = bu_units c"
    proof (cases "map_of (buckets_of cal rows) p")
      case None
      then have "p \<notin> (\<lambda>(i, od). oi_product i) ` set rows"
        by (simp add: map_of_eq_None_iff dom_buckets)
      then have "\<And>x. x \<in> set rows \<Longrightarrow> \<not> (\<lambda>(i, od). oi_product i = p) x" by (auto simp: image_iff)
      then show ?thesis by (simp add: c_def None empty_bucket_def sum_where_none)
    next
      case (Some v)
      then show ?thesis using snoc.IH [OF Some] by (simp add: c_def bucket_ok_def)
    qed
    then show ?thesis
      using True by (simp add: b x bucket_ok_def add_to_bucket_def sum_dict_alter_plus)
  qed
qed (simp add: buckets_of_def)

section \<open>The size of a forecast\<close>

lemma units_of_nonneg: "\<forall>s\<in>set ss. 0 \<le> ds_units s \<Longrightarrow> 0 \<le> units_of ss"
  by (auto simp: units_of_def intro!: sum_list_nonneg)

lemma decimal_near: "0 \<le> x \<Longrightarrow> x \<le> 10 ^ 20 \<Longrightarrow> \<bar>decimal x - x\<bar> \<le> 1 / 10 ^ 7"
proof -
  assume "0 \<le> x" and x: "x \<le> 10 ^ 20"
  then have "\<bar>decimal x - x\<bar> \<le> x / (2 * 10 ^ 27)" by (intro decimal_error)
  also have "\<dots> \<le> 1 / 10 ^ 7" using x by (simp add: field_simps)
  finally show ?thesis .
qed

end
