(* ===== verification/Baking.thy ===== *)
theory Baking
  imports Demand
begin

text \<open>
  \<open>apps/intelligence/inventory_optimization_service.py\<close>: how much of each product to bake on a
  day, from the week's forecast, the stock and the day's capacity.
\<close>

section \<open>Recommendations\<close>

definition weekly_forecast_row :: "date \<Rightarrow> nat \<Rightarrow> intelligence \<Rightarrow> forecast option" where
  "weekly_forecast_row d p i = find (\<lambda>f. forecast_key f = (p, d, 7)) (i_forecasts i)"

text \<open>A missing forecast is made, for every product, before it is read again.\<close>

definition weekly_forecast :: "nat list \<Rightarrow> world \<Rightarrow> date \<Rightarrow> nat \<Rightarrow> forecast option I" where
  "weekly_forecast ps w d p =
     bnd (gets (weekly_forecast_row d p)) (\<lambda>f.
     case f of
       Some x \<Rightarrow> ret (Some x)
     | None \<Rightarrow> bnd (generate_forecasts ps w d [7]) (\<lambda>_. gets (weekly_forecast_row d p)))"

definition predicted_units :: "forecast option \<Rightarrow> int" where
  "predicted_units f =
     (let n = (case f of Some x \<Rightarrow> int_of_money (fc_predicted x) | None \<Rightarrow> 0) in
      if n \<le> 0 then 5 else n)"

text \<open>\<open>SAFETY_STOCK_RATIO = Decimal("0.15")\<close>, and \<open>OVERSTOCK_RATIO = Decimal("1.50")\<close>\<close>

definition safety_stock :: "int \<Rightarrow> int" where
  "safety_stock n = trunc_div (n * 15) 100 + 1"

definition over_forecast :: "int \<Rightarrow> int \<Rightarrow> bool" where
  "over_forecast stock n \<longleftrightarrow> n * 150 < stock * 100 \<and> 0 < n"

definition bake_row :: "world \<Rightarrow> date \<Rightarrow> nat \<Rightarrow> int \<Rightarrow> bake" where
  "bake_row w d p predicted =
     (let inv = inventories w p;
          stock = (case inv of Some v \<Rightarrow> available_quantity v | None \<Rightarrow> 0);
          cap = capacities w (p, d);
          free = (case cap of Some c \<Rightarrow> available_units c | None \<Rightarrow> 999);
          wanted = max 0 (predicted + safety_stock predicted - stock);
          suggested = (if cap = None then wanted else min wanted free);
          threshold = (case inv of Some v \<Rightarrow> inv_low_stock_threshold v | None \<Rightarrow> 5);
          (status, notes) =
            (if stock \<le> threshold then
               (BAKE_LOW_STOCK, Fmt ''Current stock ({}) at or below threshold ({}).'' [AInt stock, AInt threshold])
             else if over_forecast stock predicted then
               (BAKE_OVERSTOCK_RISK, Fmt ''Stock ({}) exceeds forecast ({}) by >50%.'' [AInt stock, AInt predicted])
             else (BAKE_OK, Text []))
      in \<lparr>bk_product = p, bk_date = d, bk_suggested = suggested, bk_demand = predicted, bk_stock = stock,
          bk_capacity = (if cap = None then 0 else free), bk_status = status, bk_notes = notes\<rparr>)"

definition bake_key :: "bake \<Rightarrow> nat \<times> date" where
  "bake_key b = (bk_product b, bk_date b)"

definition recommend_for_product :: "nat list \<Rightarrow> world \<Rightarrow> date \<Rightarrow> nat \<Rightarrow> bake I" where
  "recommend_for_product ps w d p =
     bnd (weekly_forecast ps w d p) (\<lambda>f. ret (bake_row w d p (predicted_units f)))"

definition put_recommendation :: "nat list \<Rightarrow> world \<Rightarrow> date \<Rightarrow> product \<Rightarrow> unit I" where
  "put_recommendation ps w d x =
     bnd (recommend_for_product ps w d (prod_id x)) (\<lambda>r.
     modifies (\<lambda>i. i\<lparr>i_bakes := put_row bake_key r (i_bakes i)\<rparr>))"

definition generate_recommendations :: "nat list \<Rightarrow> world \<Rightarrow> date \<Rightarrow> int I" where
  "generate_recommendations ps w d =
     (let xs = available_products ps w in
      bnd (for_each xs (put_recommendation ps w d)) (\<lambda>_.
      ret (int (length xs))))"

definition bakes_with :: "bake_status \<Rightarrow> date \<Rightarrow> intelligence \<Rightarrow> bake list" where
  "bakes_with st d i = take 50 (filter (\<lambda>b. bk_date b = d \<and> bk_status b = st) (i_bakes i))"

definition low_stock_warnings :: "env \<Rightarrow> intelligence \<Rightarrow> bake list" where
  "low_stock_warnings env = bakes_with BAKE_LOW_STOCK (today env)"

definition overstock_risks :: "env \<Rightarrow> intelligence \<Rightarrow> bake list" where
  "overstock_risks env = bakes_with BAKE_OVERSTOCK_RISK (today env)"

definition inventory_optimization_task :: "env \<Rightarrow> nat list \<Rightarrow> world \<Rightarrow> (int \<times> int \<times> int) I" where
  "inventory_optimization_task env ps w =
     bnd (generate_recommendations ps w (today env)) (\<lambda>n.
     bnd (gets (low_stock_warnings env)) (\<lambda>low.
     bnd (gets (overstock_risks env)) (\<lambda>over.
     ret (n, int (length low), int (length over)))))"

section \<open>What a recommendation says\<close>

lemma predicted_pos: "1 \<le> predicted_units f"
  by (auto simp: predicted_units_def Let_def)

lemma safety_pos: "0 \<le> n \<Longrightarrow> 1 \<le> safety_stock n"
  by (simp add: safety_stock_def trunc_div_def pos_imp_zdiv_nonneg_iff)

text \<open>
  The stock and the batch together cover the demand and its safety margin, and no more than that is
  baked, unless the capacity of the day is the limit.
\<close>

definition bake_ok :: "world \<Rightarrow> date \<Rightarrow> nat \<Rightarrow> bake \<Rightarrow> bool" where
  "bake_ok w d p b \<longleftrightarrow>
     bk_product b = p \<and> bk_date b = d \<and> 1 \<le> bk_demand b \<and> 0 \<le> bk_suggested b \<and>
     bk_stock b = (case inventories w p of Some v \<Rightarrow> available_quantity v | None \<Rightarrow> 0) \<and>
     bk_stock b + bk_suggested b \<le> max (bk_stock b) (bk_demand b + safety_stock (bk_demand b)) \<and>
     (case capacities w (p, d) of
        None \<Rightarrow> bk_demand b + safety_stock (bk_demand b) \<le> bk_stock b + bk_suggested b
      | Some c \<Rightarrow> bk_suggested b \<le> available_units c \<and>
          (bk_suggested b < available_units c \<longrightarrow>
             bk_demand b + safety_stock (bk_demand b) \<le> bk_stock b + bk_suggested b))"

lemma available_units_nonneg: "0 \<le> available_units c"
  by (simp add: available_units_def)

lemma bake_row_fields:
  "bk_product (bake_row w d p n) = p" "bk_date (bake_row w d p n) = d" "bk_demand (bake_row w d p n) = n"
  "bk_stock (bake_row w d p n) = (case inventories w p of Some v \<Rightarrow> available_quantity v | None \<Rightarrow> 0)"
  "bk_suggested (bake_row w d p n) =
     (let wanted = max 0 (n + safety_stock n - bk_stock (bake_row w d p n)) in
      case capacities w (p, d) of None \<Rightarrow> wanted | Some c \<Rightarrow> min wanted (available_units c))"
  by (simp_all add: bake_row_def Let_def split_def split: option.split)

lemma bake_row_key [simp]: "bake_key (bake_row w d p n) = (p, d)"
  by (simp add: bake_key_def bake_row_fields)

lemma bake_row_ok: "1 \<le> n \<Longrightarrow> bake_ok w d p (bake_row w d p n)"
  using available_units_nonneg
  by (auto simp: bake_ok_def bake_row_fields Let_def min_def max_def split: option.split)

text \<open>The services never raise, and making forecasts leaves the other tables alone.\<close>

definition only_forecasts :: "intelligence \<Rightarrow> intelligence \<Rightarrow> bool" where
  "only_forecasts i j \<longleftrightarrow> j = i\<lparr>i_forecasts := i_forecasts j\<rparr>"

lemma put_forecast_runs:
  "\<exists>n j. put_forecast d p window i = (Inr n, j) \<and> only_forecasts i j"
  by (auto simp: put_forecast_def run_bnd only_forecasts_def split: option.split)

lemma for_collect_runs:
  assumes "\<And>x i. \<exists>y j. f x i = (Inr y, j) \<and> R i j" and "\<And>i. R i i"
    and "\<And>i j k. R i j \<Longrightarrow> R j k \<Longrightarrow> R i k"
  shows "\<exists>ys j. for_collect xs f i = (Inr ys, j) \<and> length ys = length xs \<and> R i j"
proof (induction xs arbitrary: i)
  case Nil
  then show ?case using assms(2) by simp
next
  case (Cons x xs)
  obtain y j where y: "f x i = (Inr y, j)" "R i j" using assms(1) by blast
  obtain ys k where "for_collect xs f j = (Inr ys, k)" "length ys = length xs" "R j k"
    using Cons.IH by blast
  with y show ?case using assms(3) by (auto simp: run_bnd)
qed

lemma only_forecasts_refl: "only_forecasts i i"
  by (simp add: only_forecasts_def)

lemma only_forecasts_trans: "only_forecasts i j \<Longrightarrow> only_forecasts j k \<Longrightarrow> only_forecasts i k"
  unfolding only_forecasts_def by (metis intelligence.update_convs(4) intelligence.surjective
    intelligence.select_convs(4))

lemma generate_forecasts_runs:
  "\<exists>n j. generate_forecasts ps w d windows i = (Inr n, j) \<and> only_forecasts i j"
proof -
  let ?f = "\<lambda>x. bnd (for_collect windows (put_forecast d (prod_id x))) (\<lambda>ns. ret (sum_list ns))"
  have inner: "\<exists>n j. ?f x i = (Inr n, j) \<and> only_forecasts i j" for x i
  proof -
    obtain ns j where "for_collect windows (put_forecast d (prod_id x)) i = (Inr ns, j)" "only_forecasts i j"
      using for_collect_runs [of "put_forecast d (prod_id x)" only_forecasts windows i]
        put_forecast_runs only_forecasts_refl only_forecasts_trans by blast
    then show ?thesis by (simp add: run_bnd)
  qed
  obtain ns j where "for_collect (available_products ps w) ?f i = (Inr ns, j)" "only_forecasts i j"
    using for_collect_runs [of ?f only_forecasts "available_products ps w" i]
      inner only_forecasts_refl only_forecasts_trans by blast
  then show ?thesis by (simp add: generate_forecasts_def bnd_Inr)
qed

lemma recommend_runs:
  "\<exists>n j. recommend_for_product ps w d p i = (Inr (bake_row w d p n), j) \<and> 1 \<le> n \<and> only_forecasts i j"
proof (cases "weekly_forecast_row d p i")
  case None
  obtain n j where "generate_forecasts ps w d [7] i = (Inr n, j)" "only_forecasts i j"
    using generate_forecasts_runs by blast
  then show ?thesis using None predicted_pos
    by (auto simp: recommend_for_product_def weekly_forecast_def run_bnd)
next
  case (Some f)
  then show ?thesis using predicted_pos only_forecasts_refl
    by (auto simp: recommend_for_product_def weekly_forecast_def run_bnd)
qed

text \<open>The loop leaves one good row for each product it visits, whatever was there before.\<close>

lemma recommendations_run:
  "\<exists>j. for_each xs (put_recommendation ps w d) i = (Inr (), j) \<and>
    (\<forall>p. (\<exists>x\<in>set xs. prod_id x = p) \<or>
         (\<exists>b. find (\<lambda>b. bake_key b = (p, d)) (i_bakes i) = Some b \<and> bake_ok w d p b) \<longrightarrow>
       (\<exists>b. find (\<lambda>b. bake_key b = (p, d)) (i_bakes j) = Some b \<and> bake_ok w d p b)) \<and>
    (\<forall>q. snd q \<noteq> d \<or> fst q \<notin> prod_id ` set xs \<longrightarrow>
       find (\<lambda>b. bake_key b = q) (i_bakes j) = find (\<lambda>b. bake_key b = q) (i_bakes i))"
proof (induction xs arbitrary: i)
  case (Cons x xs)
  obtain n j where r: "recommend_for_product ps w d (prod_id x) i = (Inr (bake_row w d (prod_id x) n), j)"
    and n: "1 \<le> n" and only: "only_forecasts i j"
    using recommend_runs by blast
  have bakes: "i_bakes j = i_bakes i" using only unfolding only_forecasts_def by (metis intelligence.select_convs(5)
      intelligence.surjective intelligence.update_convs(4))
  let ?j = "j\<lparr>i_bakes := put_row bake_key (bake_row w d (prod_id x) n) (i_bakes j)\<rparr>"
  obtain k where k: "for_each xs (put_recommendation ps w d) ?j = (Inr (), k)"
    and rows: "\<And>p. (\<exists>x\<in>set xs. prod_id x = p) \<or>
         (\<exists>b. find (\<lambda>b. bake_key b = (p, d)) (i_bakes ?j) = Some b \<and> bake_ok w d p b) \<Longrightarrow>
       \<exists>b. find (\<lambda>b. bake_key b = (p, d)) (i_bakes k) = Some b \<and> bake_ok w d p b"
    and rest: "\<And>q. snd q \<noteq> d \<or> fst q \<notin> prod_id ` set xs \<Longrightarrow>
       find (\<lambda>b. bake_key b = q) (i_bakes k) = find (\<lambda>b. bake_key b = q) (i_bakes ?j)"
    using Cons.IH [of ?j] by blast
  have here: "find (\<lambda>b. bake_key b = q) (i_bakes ?j) =
      (if q = (prod_id x, d) then Some (bake_row w d (prod_id x) n)
       else find (\<lambda>b. bake_key b = q) (i_bakes i))" for q
    by (auto simp: find_put_row bakes)
  have "\<exists>b. find (\<lambda>b. bake_key b = (p, d)) (i_bakes k) = Some b \<and> bake_ok w d p b"
    if "(\<exists>y\<in>set (x # xs). prod_id y = p) \<or>
      (\<exists>b. find (\<lambda>b. bake_key b = (p, d)) (i_bakes i) = Some b \<and> bake_ok w d p b)" for p
  proof (rule rows)
    show "(\<exists>x\<in>set xs. prod_id x = p) \<or>
      (\<exists>b. find (\<lambda>b. bake_key b = (p, d)) (i_bakes ?j) = Some b \<and> bake_ok w d p b)"
      unfolding here using that bake_row_ok [OF n, of w d p] by auto
  qed
  moreover have "find (\<lambda>b. bake_key b = q) (i_bakes k) = find (\<lambda>b. bake_key b = q) (i_bakes i)"
    if "snd q \<noteq> d \<or> fst q \<notin> prod_id ` set (x # xs)" for q
    using that rest [of q] here [of q] by auto
  moreover have "for_each (x # xs) (put_recommendation ps w d) i = (Inr (), k)"
    using k r by (simp add: put_recommendation_def run_bnd)
  ultimately show ?case by blast
qed auto

end
