(* ===== verification/Affinity.thy ===== *)
theory Affinity
  imports IntelModels
begin

text \<open>
  \<open>apps/intelligence/aggregation_service.py\<close>: the pairs of products bought together, the roles
  of the products, and the suggestions that led to an order.
\<close>

section \<open>Pairs\<close>

text \<open>
  The default ordering of \<open>OrderItem\<close> by \<open>id\<close> takes part in \<open>SELECT DISTINCT\<close>, so the
  query of an order's products drops nothing.
\<close>

definition products_of :: "world \<Rightarrow> order \<Rightarrow> nat list" where
  "products_of w od = map oi_product (items_of w (ord_id od))"

fun pairs_of :: "nat list \<Rightarrow> (nat \<times> nat) list" where
  "pairs_of [] = []"
| "pairs_of (a # ps) = map (\<lambda>b. (min a b, max a b)) ps @ pairs_of ps"

definition paid_orders :: "world \<Rightarrow> order list" where
  "paid_orders w = rev (filter is_paid_order (orders w))"

text \<open>The \<open>Counter\<close> of the pairs, and the most common of them, earlier ones first among equals.\<close>

definition count_pairs :: "world \<Rightarrow> ((nat \<times> nat) \<times> int) list" where
  "count_pairs w =
     foldl (\<lambda>d k. dict_alter k (\<lambda>n. n + 1) 0 d) [] (concat (map (\<lambda>od. pairs_of (products_of w od)) (paid_orders w)))"

definition most_common :: "nat \<Rightarrow> ('k \<times> int) list \<Rightarrow> ('k \<times> int) list" where
  "most_common n d = take n (sort_key (\<lambda>(k, c). - c) d)"

definition pair_key :: "co_purchase \<Rightarrow> nat \<times> nat" where
  "pair_key r = (cop_product r, cop_related r)"

definition create_pair :: "nat \<Rightarrow> nat \<Rightarrow> int \<Rightarrow> unit I" where
  "create_pair a b n =
     bnd (gets i_pairs) (\<lambda>rs.
     bnd (raise_if (\<exists>r\<in>set rs. pair_key r = (a, b)) (Exn IntegrityError (Text ''unique_co_purchase_pair''))) (\<lambda>_.
     modifies (\<lambda>i. i\<lparr>i_pairs := i_pairs i @
       [\<lparr>cop_product = a, cop_related = b, cop_count = n, cop_affinity = 10000 * n\<rparr>]\<rparr>)))"

definition store_pair :: "(nat \<times> nat) \<times> int \<Rightarrow> int I" where
  "store_pair = (\<lambda>((a, b), n).
     if n < 2 then ret 0
     else bnd (create_pair a b n) (\<lambda>_. bnd (create_pair b a n) (\<lambda>_. ret 2)))"

definition refresh_product_affinity :: "world \<Rightarrow> int I" where
  "refresh_product_affinity w =
     (let pairs = count_pairs w in
      bnd (modifies (\<lambda>i. i\<lparr>i_pairs := []\<rparr>)) (\<lambda>_.
      bnd (for_collect (most_common 500 pairs) store_pair) (\<lambda>ns.
      ret (sum_list ns))))"

section \<open>Roles\<close>

definition meta_of :: "world \<Rightarrow> product \<Rightarrow> product_meta" where
  "meta_of w p =
     (let slug = str_lower (category_slug w p); name = str_lower (category_name w p);
          cookie = (occurs_in ''cookie'' slug \<or> occurs_in cookie_fa name);
          coffee = (occurs_in ''coffee'' slug \<or> occurs_in coffee_fa name \<or> occurs_in ''coffee'' name);
          boost = (if prod_is_featured p then 120 else 100) + (if cookie then 10 else 0)
      in \<lparr>pm_margin_boost = boost, pm_is_cookie = cookie, pm_is_coffee = coffee\<rparr>)"

definition sync_product_intelligence_meta :: "nat list \<Rightarrow> world \<Rightarrow> int I" where
  "sync_product_intelligence_meta ps w =
     (let xs = List.map_filter (products w) ps in
      bnd (for_each xs (\<lambda>x. modifies (\<lambda>i. i\<lparr>i_meta := (i_meta i)(prod_id x \<mapsto> meta_of w x)\<rparr>))) (\<lambda>_.
      ret (int (length xs))))"

section \<open>Conversions\<close>

text \<open>The first paid item of the user, since the suggestion, of a product it showed\<close>

definition conversion_of :: "world \<Rightarrow> nat \<Rightarrow> impression \<Rightarrow> (order_item \<times> order) option" where
  "conversion_of w u m =
     find (\<lambda>(i, od). oi_product i \<in> set (im_products m))
       (items_where (\<lambda>od. ord_user od = Some u \<and> im_created_at m \<le> ord_created_at od \<and> is_paid_order od) w)"

definition mark_impression :: "world \<Rightarrow> impression \<Rightarrow> int I" where
  "mark_impression w m =
     (case im_user m of
        None \<Rightarrow> ret 0
      | Some u \<Rightarrow>
          (case conversion_of w u m of
             None \<Rightarrow> ret 0
           | Some (it, od) \<Rightarrow>
               bnd (modifies (\<lambda>i. i\<lparr>i_impressions := upd_rows (\<lambda>x. im_id x = im_id m)
                      (\<lambda>x. x\<lparr>im_converted := True, im_order := Some (ord_id od)\<rparr>) (i_impressions i)\<rparr>)) (\<lambda>_.
               ret 1)))"

definition mark_upsell_conversions :: "env \<Rightarrow> world \<Rightarrow> int I" where
  "mark_upsell_conversions env w =
     bnd (gets (\<lambda>i. filter (\<lambda>m. now env - days 7 \<le> im_created_at m \<and> \<not> im_converted m) (i_impressions i))) (\<lambda>ms.
     bnd (for_collect ms (mark_impression w)) (\<lambda>ns.
     ret (sum_list ns)))"

definition user_behavior_aggregation_task :: "env \<Rightarrow> nat list \<Rightarrow> world \<Rightarrow> (int \<times> int \<times> int) I" where
  "user_behavior_aggregation_task env ps w =
     bnd (refresh_product_affinity w) (\<lambda>affinity.
     bnd (sync_product_intelligence_meta ps w) (\<lambda>meta.
     bnd (mark_upsell_conversions env w) (\<lambda>conversions.
     ret (affinity, meta, conversions))))"

section \<open>What the pairs count\<close>

text \<open>The number of paid orders that hold both products\<close>

definition bought_together :: "world \<Rightarrow> nat \<Rightarrow> nat \<Rightarrow> int" where
  "bought_together w a b =
     int (length (filter (\<lambda>od. is_paid_order od \<and> a \<in> set (products_of w od) \<and> b \<in> set (products_of w od)) (orders w)))"

lemma bought_together_sym: "bought_together w a b = bought_together w b a"
  by (simp add: bought_together_def conj_commute)

lemma count_dict:
  "map_of (foldl (\<lambda>d k. dict_alter k (\<lambda>n. n + 1) 0 d) [] ks) k =
     (if k \<in> set ks then Some (int (count_list ks k)) else None)"
proof (induction ks rule: rev_induct)
  case (snoc x ks)
  then show ?case by (auto simp: map_of_dict_alter count_list_append count_list_0_iff)
qed simp

lemma distinct_count_dict:
  "distinct (map fst (foldl (\<lambda>d k. dict_alter k (\<lambda>n. n + 1) (0::int) d) [] ks))"
  by (induction ks rule: rev_induct) (simp_all add: distinct_dict_alter)

lemma pairs_of_sorted: "(a, b) \<in> set (pairs_of ps) \<Longrightarrow> distinct ps \<Longrightarrow> a < b"
proof (induction ps)
  case (Cons x ps)
  then show ?case by (auto simp: min_def max_def order.order_iff_strict split: if_splits)
qed simp

lemma count_list_distinct: "distinct ps \<Longrightarrow> count_list ps y = (if y \<in> set ps then 1 else 0)"
  by (induction ps) auto

lemma pairs_of_count:
  "distinct ps \<Longrightarrow> a < b \<Longrightarrow>
     count_list (pairs_of ps) (a, b) = (if a \<in> set ps \<and> b \<in> set ps then 1 else 0)"
proof (induction ps)
  case (Cons x ps)
  have one: "count_list (map (\<lambda>y. (min x y, max x y)) ys) (a, b) =
      (if x = a then count_list ys b else if x = b then count_list ys a else 0)" if "x \<notin> set ys" for ys
    using that Cons.prems(2) by (induction ys) (auto simp: min_def max_def)
  have cnt: "count_list ps y = (if y \<in> set ps then 1 else 0)" for y
    using Cons.prems(1) by (simp add: count_list_distinct)
  show ?case using Cons one [of ps] cnt by (auto simp: count_list_append)
qed simp

lemma count_list_concat: "count_list (concat xss) k = sum_list (map (\<lambda>xs. count_list xs k) xss)"
  by (induction xss) (simp_all add: count_list_append)

lemma sum_list_indicator: "sum_list (map (\<lambda>x. if P x then 1 else 0) xs) = length (filter P xs)"
  by (induction xs) simp_all

definition products_distinct :: "world \<Rightarrow> bool" where
  "products_distinct w \<longleftrightarrow> (\<forall>od\<in>set (orders w). is_paid_order od \<longrightarrow> distinct (products_of w od))"

lemma all_pairs_count:
  assumes d: "products_distinct w" and ab: "a < b"
  shows "int (count_list (concat (map (\<lambda>od. pairs_of (products_of w od)) (paid_orders w))) (a, b)) =
    bought_together w a b"
proof -
  let ?P = "\<lambda>od. a \<in> set (products_of w od) \<and> b \<in> set (products_of w od)"
  have "map (\<lambda>od. count_list (pairs_of (products_of w od)) (a, b)) (paid_orders w) =
      map (\<lambda>od. if ?P od then 1 else 0) (paid_orders w)"
    using d ab by (intro map_cong) (auto simp: paid_orders_def products_distinct_def pairs_of_count)
  then have "sum_list (map (\<lambda>od. count_list (pairs_of (products_of w od)) (a, b)) (paid_orders w)) =
      length (filter ?P (paid_orders w))"
    by (simp only: sum_list_indicator)
  then have "count_list (concat (map (\<lambda>od. pairs_of (products_of w od)) (paid_orders w))) (a, b) =
      length (filter ?P (paid_orders w))"
    by (simp add: count_list_concat comp_def)
  also have "\<dots> = length (filter (\<lambda>od. is_paid_order od \<and> ?P od) (orders w))"
    by (simp add: paid_orders_def rev_filter [symmetric] conj_commute)
  finally show ?thesis by (simp add: bought_together_def)
qed

lemma count_pairs_iff:
  assumes d: "products_distinct w"
  shows "((a, b), n) \<in> set (count_pairs w) \<longleftrightarrow> a < b \<and> n = bought_together w a b \<and> 0 < n"
proof -
  let ?ks = "concat (map (\<lambda>od. pairs_of (products_of w od)) (paid_orders w))"
  have sorted: "a < b" if "(a, b) \<in> set ?ks"
    using that d pairs_of_sorted by (auto simp: paid_orders_def products_distinct_def)
  have "((a, b), n) \<in> set (count_pairs w) \<longleftrightarrow> map_of (count_pairs w) (a, b) = Some n"
    by (simp add: count_pairs_def distinct_count_dict)
  also have "\<dots> \<longleftrightarrow> (a, b) \<in> set ?ks \<and> n = int (count_list ?ks (a, b))"
    by (auto simp: count_pairs_def count_dict)
  also have "\<dots> \<longleftrightarrow> a < b \<and> n = int (count_list ?ks (a, b)) \<and> 0 < n"
    using sorted by (auto simp: count_list_0_iff simp flip: neq0_conv)
  finally show ?thesis using all_pairs_count [OF d] by metis
qed

section \<open>What the refresh stores\<close>

definition pair_row :: "nat \<Rightarrow> nat \<Rightarrow> int \<Rightarrow> co_purchase" where
  "pair_row a b n = \<lparr>cop_product = a, cop_related = b, cop_count = n, cop_affinity = 10000 * n\<rparr>"

definition pair_rows :: "(nat \<times> nat) \<times> int \<Rightarrow> co_purchase list" where
  "pair_rows = (\<lambda>((a, b), n). if n < 2 then [] else [pair_row a b n, pair_row b a n])"

lemma pair_row_key [simp]: "pair_key (pair_row a b n) = (a, b)"
  by (simp add: pair_key_def pair_row_def)

lemma pair_rows_keys:
  "pair_key ` set (pair_rows e) \<subseteq> {fst e, (snd (fst e), fst (fst e))}"
  by (auto simp: pair_rows_def split: prod.split)

lemma create_pair_run:
  "(a, b) \<notin> pair_key ` set (i_pairs i) \<Longrightarrow>
     create_pair a b n i = (Inr (), i\<lparr>i_pairs := i_pairs i @ [pair_row a b n]\<rparr>)"
  by (auto simp: create_pair_def run_bnd run_raise_if pair_row_def image_iff)

lemma store_pair_run:
  assumes "a \<noteq> b" and "(a, b) \<notin> pair_key ` set (i_pairs i)" and "(b, a) \<notin> pair_key ` set (i_pairs i)"
  shows "store_pair ((a, b), n) i =
    (Inr (int (length (pair_rows ((a, b), n)))), i\<lparr>i_pairs := i_pairs i @ pair_rows ((a, b), n)\<rparr>)"
  using assms by (simp add: store_pair_def pair_rows_def create_pair_run run_bnd)

lemma store_pairs_run:
  assumes "distinct (map fst es)" and "\<forall>((a, b), n)\<in>set es. a < b"
    and "\<forall>((a, b), n)\<in>set es. (a, b) \<notin> pair_key ` set (i_pairs i) \<and> (b, a) \<notin> pair_key ` set (i_pairs i)"
  shows "for_collect es store_pair i =
    (Inr (map (\<lambda>e. int (length (pair_rows e))) es), i\<lparr>i_pairs := i_pairs i @ concat (map pair_rows es)\<rparr>)"
  using assms
proof (induction es arbitrary: i)
  case (Cons e es)
  obtain a b n where e: "e = ((a, b), n)" by (metis prod.exhaust)
  have "a < b" using Cons.prems(2) by (simp add: e)
  then have one: "store_pair e i = (Inr (int (length (pair_rows e))), i\<lparr>i_pairs := i_pairs i @ pair_rows e\<rparr>)"
    unfolding e using Cons.prems(3) by (intro store_pair_run) (auto simp: e)
  let ?i = "i\<lparr>i_pairs := i_pairs i @ pair_rows e\<rparr>"
  have keys: "pair_key ` set (i_pairs ?i) = pair_key ` set (i_pairs i) \<union> pair_key ` set (pair_rows e)"
    by (simp add: image_Un)
  have "for_collect es store_pair ?i =
      (Inr (map (\<lambda>e. int (length (pair_rows e))) es), ?i\<lparr>i_pairs := i_pairs ?i @ concat (map pair_rows es)\<rparr>)"
  proof (rule Cons.IH)
    show "\<forall>((c, d), n)\<in>set es. (c, d) \<notin> pair_key ` set (i_pairs ?i) \<and> (d, c) \<notin> pair_key ` set (i_pairs ?i)"
    proof
      fix x assume x: "x \<in> set es"
      obtain c d m where xm: "x = ((c, d), m)" by (metis prod.exhaust)
      with x have m: "((c, d), m) \<in> set es" by simp
      then have "c < d" and "(c, d) \<noteq> (a, b)" using Cons.prems(1,2) by (auto simp: e image_iff)
      moreover from this \<open>a < b\<close> have "(c, d) \<noteq> (b, a)" by auto
      moreover have "pair_key ` set (pair_rows e) \<subseteq> {(a, b), (b, a)}" using pair_rows_keys [of e] by (simp add: e)
      moreover have "(c, d) \<notin> pair_key ` set (i_pairs i)" "(d, c) \<notin> pair_key ` set (i_pairs i)"
        using m Cons.prems(3) by auto
      ultimately have "(c, d) \<notin> pair_key ` set (i_pairs ?i)" "(d, c) \<notin> pair_key ` set (i_pairs ?i)"
        unfolding keys by blast+
      then show "(\<lambda>((c, d), n). (c, d) \<notin> pair_key ` set (i_pairs ?i) \<and> (d, c) \<notin> pair_key ` set (i_pairs ?i)) x"
        unfolding xm prod.case by blast
    qed
  qed (use Cons.prems in auto)
  with one show ?case by (simp add: run_bnd)
qed simp

lemma most_common_set: "set (most_common n d) \<subseteq> set d"
  using set_take_subset [of n "sort_key (\<lambda>(k, c). - c) d"] by (simp add: most_common_def)

lemma most_common_all: "length d \<le> n \<Longrightarrow> set (most_common n d) = set d"
  by (simp add: most_common_def)

lemma distinct_most_common: "distinct (map fst d) \<Longrightarrow> distinct (map fst (most_common n d))"
proof -
  assume d: "distinct (map fst d)"
  then have "distinct (map fst (sort_key (\<lambda>(k, c). - c) d))" by (simp add: distinct_map)
  then show ?thesis by (simp add: most_common_def take_map [symmetric])
qed

lemma sum_int_length: "sum_list (map (\<lambda>e. int (length (f e))) es) = int (length (concat (map f es)))"
  by (induction es) simp_all

lemma refresh_runs:
  assumes d: "products_distinct w"
  shows "refresh_product_affinity w i =
    (let rows = concat (map pair_rows (most_common 500 (count_pairs w))) in
     (Inr (int (length rows)), i\<lparr>i_pairs := rows\<rparr>))"
proof -
  let ?es = "most_common 500 (count_pairs w)"
  have "for_collect ?es store_pair (i\<lparr>i_pairs := []\<rparr>) =
      (Inr (map (\<lambda>e. int (length (pair_rows e))) ?es), i\<lparr>i_pairs := concat (map pair_rows ?es)\<rparr>)"
    using store_pairs_run [of ?es "i\<lparr>i_pairs := []\<rparr>"] count_pairs_iff [OF d] most_common_set
      distinct_most_common [of "count_pairs w"] distinct_count_dict
    by (force simp: count_pairs_def)
  then show ?thesis
    by (simp add: refresh_product_affinity_def Let_def run_bnd sum_int_length del: length_concat)
qed

lemma stored_iff:
  assumes d: "products_distinct w" and rows: "i_pairs j = concat (map pair_rows es)"
    and es: "set es \<subseteq> set (count_pairs w)" and r: "r \<in> set (i_pairs j)"
  shows "cop_product r \<noteq> cop_related r" "cop_count r = bought_together w (cop_product r) (cop_related r)"
    "2 \<le> cop_count r" "pair_row (cop_related r) (cop_product r) (cop_count r) \<in> set (i_pairs j)"
proof -
  from r rows obtain a b n where e: "((a, b), n) \<in> set es" "r \<in> set (pair_rows ((a, b), n))" by auto
  with es have n: "a < b" "n = bought_together w a b" using count_pairs_iff [OF d, of a b n] by auto
  from e have two: "2 \<le> n" "r = pair_row a b n \<or> r = pair_row b a n"
    by (auto simp: pair_rows_def split: if_splits)
  have "set (pair_rows ((a, b), n)) \<subseteq> set (i_pairs j)" using e(1) unfolding rows by auto
  then have in_j: "pair_row a b n \<in> set (i_pairs j)" "pair_row b a n \<in> set (i_pairs j)"
    using two(1) by (simp_all add: pair_rows_def)
  show "cop_product r \<noteq> cop_related r" "cop_count r = bought_together w (cop_product r) (cop_related r)"
    "2 \<le> cop_count r" "pair_row (cop_related r) (cop_product r) (cop_count r) \<in> set (i_pairs j)"
    using two n in_j by (auto simp: pair_row_def bought_together_sym)
qed

end
