(* ===== verification/IntelProps.thy ===== *)
theory IntelProps
  imports Baking Affinity Upsell Examples
begin

text \<open>
  What the intelligence services compute: the pairs bought together are counted exactly, a day's
  statistics account for every sale of the day, a forecast is the average of the weekday, a batch
  covers the demand, and what is suggested beside a cart is new to it. The properties come with
  witnesses on a small shop.
\<close>

section \<open>Bought together\<close>

text \<open>
  C22: When no order lists a product twice, refreshing the product affinity always completes
  and reports the number of rows it stored. The stored pairs are distinct; each joins two different
  products, its count is the number of paid orders that hold both products and is at least two, and
  its mirror image is stored with the same count. While at most five hundred pairs were ever bought
  together, every pair of products bought together at least twice is stored.
\<close>

theorem affinity_is_exact:
  assumes "products_distinct w"
  shows "\<exists>j. refresh_product_affinity w i = (Inr (int (length (i_pairs j))), j) \<and>
    (\<forall>r\<in>set (i_pairs j). cop_product r \<noteq> cop_related r \<and> 2 \<le> cop_count r \<and>
       cop_count r = bought_together w (cop_product r) (cop_related r) \<and>
       pair_row (cop_related r) (cop_product r) (cop_count r) \<in> set (i_pairs j)) \<and>
    (length (count_pairs w) \<le> 500 \<longrightarrow>
       (\<forall>a b. a \<noteq> b \<and> 2 \<le> bought_together w a b \<longrightarrow> pair_row a b (bought_together w a b) \<in> set (i_pairs j)))"
proof -
  let ?es = "most_common 500 (count_pairs w)" and ?j = "i\<lparr>i_pairs := concat (map pair_rows (most_common 500 (count_pairs w)))\<rparr>"
  have run: "refresh_product_affinity w i = (Inr (int (length (i_pairs ?j))), ?j)"
    by (simp add: refresh_runs [OF assms] Let_def)
  have each: "cop_product r \<noteq> cop_related r \<and> 2 \<le> cop_count r \<and>
       cop_count r = bought_together w (cop_product r) (cop_related r) \<and>
       pair_row (cop_related r) (cop_product r) (cop_count r) \<in> set (i_pairs ?j)" if "r \<in> set (i_pairs ?j)" for r
    using stored_iff [OF assms, of ?j ?es r] that most_common_set by auto
  have all: "pair_row a b (bought_together w a b) \<in> set (i_pairs ?j)"
    if few: "length (count_pairs w) \<le> 500" and ab: "a \<noteq> b" "2 \<le> bought_together w a b" for a b
  proof -
    have es: "set ?es = set (count_pairs w)" by (rule most_common_all [OF few])
    have sym: "bought_together w (min a b) (max a b) = bought_together w a b"
      by (metis bought_together_sym max_def min_def)
    have "((min a b, max a b), bought_together w a b) \<in> set ?es"
      unfolding es count_pairs_iff [OF assms] sym using ab by simp
    moreover have "pair_row a b n \<in> set (pair_rows ((min a b, max a b), n))" if "2 \<le> n" for n
      using that by (simp add: pair_rows_def min_def max_def)
    ultimately show ?thesis using ab(2) by fastforce
  qed
  show ?thesis
  proof (intro exI [of _ ?j] conjI impI allI, rule run)
    show "\<forall>r\<in>set (i_pairs ?j). cop_product r \<noteq> cop_related r \<and> 2 \<le> cop_count r \<and>
       cop_count r = bought_together w (cop_product r) (cop_related r) \<and>
       pair_row (cop_related r) (cop_product r) (cop_count r) \<in> set (i_pairs ?j)"
      by (rule ballI, rule each)
  qed (rule all, simp_all)
qed

section \<open>Daily statistics\<close>

text \<open>
  C23: Aggregating a day always completes and returns the number of products sold that day.
  Afterwards the row of each product sold has the units and the revenue of exactly the paid items of
  the day, and its hours add up to its units; the row of every other product and of every other day
  is what it was. Running the aggregation again changes nothing.
\<close>

theorem daily_stats_account_for_sales:
  assumes "distinct (map stats_key (i_stats i))"
  shows "\<exists>j. aggregate_daily_stats cal w d i =
      (Inr (int (card ((\<lambda>(it, od). oi_product it) ` set (sold_on cal d w)))), j) \<and>
    (\<forall>p e. e \<noteq> d \<or> p \<notin> (\<lambda>(it, od). oi_product it) ` set (sold_on cal d w) \<longrightarrow>
       find (\<lambda>s. stats_key s = (p, e)) (i_stats j) = find (\<lambda>s. stats_key s = (p, e)) (i_stats i)) \<and>
    (\<forall>p\<in>(\<lambda>(it, od). oi_product it) ` set (sold_on cal d w).
       \<exists>s. find (\<lambda>s. stats_key s = (p, d)) (i_stats j) = Some s \<and>
         ds_units s = sum_where (\<lambda>(it, od). oi_quantity it) (\<lambda>(it, od). oi_product it = p) (sold_on cal d w) \<and>
         ds_revenue s = sum_where (\<lambda>(it, od). oi_line_total it) (\<lambda>(it, od). oi_product it = p) (sold_on cal d w) \<and>
         sum_list (map snd (ds_hourly s)) = ds_units s \<and> ds_weekday s = weekday_of d) \<and>
    aggregate_daily_stats cal w d j = aggregate_daily_stats cal w d i"
proof -
  let ?rows = "sold_on cal d w" and ?bs = "buckets_of cal (sold_on cal d w)"
  let ?sold = "(\<lambda>(it, od). oi_product it) ` set ?rows"
  define ss where "ss = fold (\<lambda>b. put_row stats_key (stats_row d b)) ?bs (i_stats i)"
  have bs: "distinct (map fst ?bs)" by (rule distinct_buckets)
  have dom: "fst ` set ?bs = ?sold" by (rule dom_buckets)
  have len: "length ?bs = card ?sold" using bs dom by (metis distinct_card length_map set_map)
  have run: "aggregate_daily_stats cal w d i = (Inr (int (card ?sold)), i\<lparr>i_stats := ss\<rparr>)"
    by (simp add: aggregate_runs Let_def len ss_def)
  have look: "find (\<lambda>s. stats_key s = (p, e)) ss =
    (if e = d then case map_of ?bs p of Some b \<Rightarrow> Some (stats_row d (p, b))
                   | None \<Rightarrow> find (\<lambda>s. stats_key s = (p, e)) (i_stats i)
     else find (\<lambda>s. stats_key s = (p, e)) (i_stats i))" for p e
    unfolding ss_def by (rule find_fold_put [OF bs])
  have sold: "map_of ?bs p = None \<longleftrightarrow> p \<notin> ?sold" for p using dom by (auto simp: map_of_eq_None_iff)
  have same: "aggregate_daily_stats cal w d (i\<lparr>i_stats := ss\<rparr>) = aggregate_daily_stats cal w d i"
  proof -
    have "distinct (map (stats_key \<circ> stats_row d) ?bs)"
      using bs by (simp add: comp_def split_def stats_key_def stats_row_def distinct_map inj_on_def)
    then have "\<forall>b\<in>set ?bs. stats_row d b \<in> set ss" unfolding ss_def by (blast intro: fold_put_in)
    moreover have "distinct (map stats_key ss)" unfolding ss_def by (rule distinct_fold_put [OF assms])
    ultimately have "fold (\<lambda>b. put_row stats_key (stats_row d b)) ?bs ss = ss" by (rule fold_put_same)
    then show ?thesis unfolding run by (simp add: aggregate_runs Let_def len)
  qed
  have rest: "find (\<lambda>s. stats_key s = (p, e)) ss = find (\<lambda>s. stats_key s = (p, e)) (i_stats i)"
    if "e \<noteq> d \<or> p \<notin> ?sold" for p e
    using that look [of p e] sold [of p] by (cases "e = d") simp_all
  have "\<exists>s. find (\<lambda>s. stats_key s = (p, d)) ss = Some s \<and>
         ds_units s = sum_where (\<lambda>(it, od). oi_quantity it) (\<lambda>(it, od). oi_product it = p) ?rows \<and>
         ds_revenue s = sum_where (\<lambda>(it, od). oi_line_total it) (\<lambda>(it, od). oi_product it = p) ?rows \<and>
         sum_list (map snd (ds_hourly s)) = ds_units s \<and> ds_weekday s = weekday_of d" if p: "p \<in> ?sold" for p
  proof -
    obtain b where b: "map_of ?bs p = Some b" using p sold [of p] by (cases "map_of ?bs p") simp_all
    then show ?thesis using look [of p d] buckets_ok [OF b] by (simp add: stats_row_def bucket_ok_def)
  qed
  with run rest same show ?thesis by (intro exI [of _ "i\<lparr>i_stats := ss\<rparr>"]) auto
qed

section \<open>Forecasts\<close>

lemma units_of_filter: "\<forall>s\<in>set ss. 0 \<le> ds_units s \<Longrightarrow> units_of (filter P ss) \<le> units_of ss"
  by (induction ss) (auto simp: units_of_def)

lemma mean_le:
  assumes "ss \<noteq> []" and "units_of ss \<le> n" and "0 \<le> n"
  shows "(of_int (units_of ss) / of_nat (length ss) :: rat) \<le> of_int n"
proof -
  have "(of_int (units_of ss) :: rat) \<le> of_int n" using assms(2) by simp
  also have "\<dots> \<le> of_int n * of_nat (length ss)"
    using assms(1,3) by (cases ss) (simp_all add: distrib_left)
  finally show ?thesis using assms(1) by (simp add: divide_le_eq)
qed

lemma forecast_error:
  assumes m: "0 \<le> m" and q: "q = (if m \<noteq> 0 then decimal (a / m) else 1)" and zero: "m = 0 \<Longrightarrow> a = 0"
    and a: "a = decimal x" and x: "0 \<le> x" "x \<le> 10 ^ 19"
  shows "\<bar>of_int (half_even (100 * decimal (m * q))) / 100 - x\<bar> \<le> 1 / 100"
proof -
  have ax: "\<bar>a - x\<bar> \<le> 1 / 10 ^ 7" unfolding a using x by (intro decimal_near) auto
  have a0: "0 \<le> a" by (simp add: a)
  have "a \<le> x + 1 / 10 ^ 7" using ax by linarith
  also have "\<dots> \<le> 2 * 10 ^ 19" using x by simp
  finally have a1: "a \<le> 2 * 10 ^ 19" .
  have y: "\<bar>m * q - a\<bar> \<le> 1 / 10 ^ 7"
  proof (cases "m = 0")
    case False
    then have m0: "0 < m" using m by simp
    have "\<bar>decimal (a / m) - a / m\<bar> \<le> (a / m) / (2 * 10 ^ 27)" using a0 m by (intro decimal_error) simp
    then have "m * \<bar>decimal (a / m) - a / m\<bar> \<le> m * ((a / m) / (2 * 10 ^ 27))" using m by (rule mult_left_mono)
    moreover have "m * \<bar>decimal (a / m) - a / m\<bar> = \<bar>m * decimal (a / m) - a\<bar>"
      using m0 abs_mult [of m "decimal (a / m) - a / m"] by (simp add: right_diff_distrib)
    moreover have "m * ((a / m) / (2 * 10 ^ 27)) = a / (2 * 10 ^ 27)" using m0 by simp
    ultimately show ?thesis using a1 False by (simp add: q)
  qed (use zero in simp)
  have "0 \<le> m * q" using m by (simp add: q)
  moreover have "m * q \<le> a + 1 / 10 ^ 7" using y by linarith
  then have "m * q \<le> 10 ^ 20" using a1 by simp
  ultimately have z: "\<bar>decimal (m * q) - m * q\<bar> \<le> 1 / 10 ^ 7" by (rule decimal_near)
  define P where "P = (of_int (half_even (100 * decimal (m * q))) :: rat)"
  have "\<bar>P - 100 * decimal (m * q)\<bar> \<le> 1 / 2" unfolding P_def by (rule half_even_close)
  moreover have "1 / 10 ^ 7 = (1 / 10000000 :: rat)" by simp
  ultimately have "\<bar>P / 100 - x\<bar> \<le> 1 / 100" using z y ax by linarith
  then show ?thesis by (simp add: P_def)
qed

text \<open>
  A forecast, when there is one, is the average of the units sold on the same weekday
  within the window, up to one hundredth: the moving average by which it is scaled cancels, through
  all the roundings of the decimals. When the window has no row of that weekday the forecast is zero,
  however much was sold on the other days.
\<close>

theorem forecast_is_weekday_average:
  assumes "forecast_product i p d window = Some f"
    and "\<forall>s\<in>set (window_stats i p d window). 0 \<le> ds_units s"
    and "units_of (window_stats i p d window) \<le> 10 ^ 19"
  shows "let days_like = same_weekday d (window_stats i p d window) in
    (days_like = [] \<longrightarrow> fc_predicted f = 0) \<and>
    (days_like \<noteq> [] \<longrightarrow>
       \<bar>of_int (fc_predicted f) / 100 - of_int (units_of days_like) / of_nat (length days_like)\<bar> \<le> (1 / 100 :: rat))"
proof -
  define stats where "stats = window_stats i p d window"
  define days_like where "days_like = same_weekday d stats"
  define m where "m = decimal (of_int (units_of stats) / of_nat (length stats))"
  define a where "a = decimal (of_int (units_of days_like) / of_nat (max 1 (length days_like)))"
  define q where "q = (if m \<noteq> 0 then decimal (a / m) else 1)"
  have ne: "stats \<noteq> []" and f: "fc_predicted f = max (half_even (100 * decimal (m * q))) 0"
    using assms(1) unfolding forecast_product_def
    by (auto simp: Let_def stats_def days_like_def m_def a_def q_def split: if_splits)
  have "0 \<le> half_even (100 * decimal (m * q))" by (intro half_even_nonneg) simp
  with f have f: "fc_predicted f = half_even (100 * decimal (m * q))" by simp
  have pos: "\<forall>s\<in>set stats. 0 \<le> ds_units s" using assms(2) by (simp add: stats_def)
  have part: "0 \<le> units_of days_like" "units_of days_like \<le> units_of stats"
    using pos by (simp_all add: days_like_def same_weekday_def units_of_nonneg units_of_filter)
  show ?thesis
  proof (cases "days_like = []")
    case True
    then have "a = 0" by (simp add: a_def units_of_def)
    then have mq: "m * q = 0" by (simp add: q_def)
    have "half_even (100 * decimal (m * q)) = 0" unfolding mq by simp
    then show ?thesis using True by (simp add: f days_like_def stats_def Let_def)
  next
    case False
    define x where "x = (of_int (units_of days_like) / of_nat (length days_like) :: rat)"
    have x: "0 \<le> x" "x \<le> 10 ^ 19"
      using part False assms(3) mean_le [of days_like "10 ^ 19"] by (simp_all add: x_def stats_def)
    have a: "a = decimal x" using False by (cases days_like) (simp_all add: a_def x_def max_def)
    have zero: "a = 0" if "m = 0"
      using that part ne decimal_pos [of "of_int (units_of stats) / of_nat (length stats)"]
      by (auto simp: m_def a x_def order.order_iff_strict)
    have "\<bar>of_int (half_even (100 * decimal (m * q))) / 100 - x\<bar> \<le> 1 / 100"
      by (rule forecast_error [of m q a x]) (use x a zero in \<open>simp_all add: q_def m_def\<close>)
    then show ?thesis using False by (simp add: f x_def days_like_def stats_def Let_def)
  qed
qed

section \<open>Baking\<close>

text \<open>
  C24: Generating the recommendations of a day always completes and counts every available
  product, whether or not its forecast existed before. Each of them then has a recommendation for the
  day whose demand is positive: nothing is baked beyond the demand and its safety margin, never more
  than the capacity of the day, and stock and batch together cover demand and margin unless the
  capacity is used up. The recommendations of other products and other days stay as they were.
\<close>

theorem recommendations_cover_demand:
  "\<exists>j. generate_recommendations ps w d i = (Inr (int (length (available_products ps w))), j) \<and>
    (\<forall>x\<in>set (available_products ps w).
       \<exists>b. find (\<lambda>b. bake_key b = (prod_id x, d)) (i_bakes j) = Some b \<and> bake_ok w d (prod_id x) b) \<and>
    (\<forall>p e. e \<noteq> d \<or> p \<notin> prod_id ` set (available_products ps w) \<longrightarrow>
       find (\<lambda>b. bake_key b = (p, e)) (i_bakes j) = find (\<lambda>b. bake_key b = (p, e)) (i_bakes i))"
proof -
  let ?xs = "available_products ps w"
  obtain j where run: "for_each ?xs (put_recommendation ps w d) i = (Inr (), j)"
    and rows: "\<And>p. (\<exists>x\<in>set ?xs. prod_id x = p) \<Longrightarrow>
       \<exists>b. find (\<lambda>b. bake_key b = (p, d)) (i_bakes j) = Some b \<and> bake_ok w d p b"
    and rest: "\<And>q. snd q \<noteq> d \<or> fst q \<notin> prod_id ` set ?xs \<Longrightarrow>
       find (\<lambda>b. bake_key b = q) (i_bakes j) = find (\<lambda>b. bake_key b = q) (i_bakes i)"
    using recommendations_run [of ?xs ps w d i] by blast
  have "generate_recommendations ps w d i = (Inr (int (length ?xs)), j)"
    by (simp add: generate_recommendations_def Let_def run_bnd run)
  then show ?thesis using rows rest by (intro exI [of _ j]) auto
qed

section \<open>Suggestions beside a cart\<close>

text \<open>The rows picked from pairs are new, available and pairwise different.\<close>

lemma pick_related_spec:
  "pick_related w rs seen = (xs, s) \<Longrightarrow>
     set s = set seen \<union> (prod_id \<circ> fst) ` set xs \<and> (prod_id \<circ> fst) ` set xs \<inter> set seen = {} \<and>
     distinct (map (prod_id \<circ> fst) xs) \<and> (\<forall>x\<in>set xs. is_available (fst x))"
proof (induction rs arbitrary: seen xs s)
  case (Cons r rs)
  show ?case
  proof (cases "products w (cop_related r)")
    case None
    then show ?thesis using Cons by simp
  next
    case (Some p)
    show ?thesis
    proof (cases "prod_id p \<in> set seen \<or> \<not> is_available p")
      case True
      then show ?thesis using Cons Some by simp
    next
      case False
      obtain ys where ys: "pick_related w rs (prod_id p # seen) = (ys, s)" "xs = (p, cop_affinity r) # ys"
        using Cons.prems False Some by (auto split: prod.splits)
      with Cons.IH [OF ys(1)] False show ?thesis by auto
    qed
  qed
qed simp

lemma pair_suggestions_spec:
  "pair_suggestions w i ps seen = (xs, s) \<Longrightarrow>
     set s = set seen \<union> prod_id ` set xs \<and> prod_id ` set xs \<inter> set seen = {} \<and>
     distinct (map prod_id xs) \<and> (\<forall>x\<in>set xs. is_available x)"
proof (induction ps arbitrary: seen xs s)
  case (Cons p ps)
  obtain a b where a: "pick_related w (related_pairs i p 5) seen = (a, b)" by fastforce
  then obtain ys where ys: "pair_suggestions w i ps b = (ys, s)" "xs = map fst a @ ys"
    using Cons.prems by (auto split: prod.splits)
  show ?case using pick_related_spec [OF a] Cons.IH [OF ys(1)]
    by (simp add: ys(2) image_Un image_image comp_def) blast
qed simp

lemma fill_up_spec: "set (fill_up limit ps seen sugg) \<subseteq> set sugg \<union> {p \<in> set ps. prod_id p \<notin> set seen}"
proof (induction ps arbitrary: seen sugg)
  case (Cons p ps)
  then show ?case
    using Cons.IH [of "prod_id p # seen" "sugg @ [p]"] Cons.IH [of seen sugg] by (auto simp: Let_def)
qed simp

text \<open>Listing a user's products touches nothing but the cache.\<close>

definition only_cache :: "intelligence \<Rightarrow> intelligence \<Rightarrow> bool" where
  "only_cache i j \<longleftrightarrow> j = i\<lparr>i_cache := i_cache j\<rparr>"

lemma for_collect_reads:
  assumes "for_collect xs f i = (Inr ys, j)" and "\<And>x y i j. f x i = (Inr y, j) \<Longrightarrow> j = i"
  shows "j = i"
  using assms(1) by (induction xs arbitrary: i ys) (auto simp: returns dest: assms(2))

lemma score_for_user_reads: "score_for_user us w u limit i = (Inr xs, j) \<Longrightarrow> j = i"
  by (auto simp: score_for_user_def returns elim!: for_collect_reads split: prod.splits)

lemma for_user_only_cache: "for_user env ls us w (Some u) limit i = (Inr xs, j) \<Longrightarrow> only_cache i j"
  by (auto simp: for_user_def Let_def returns only_cache_def dest!: score_for_user_reads
      split: option.splits if_splits)

lemma catalog_spec:
  "p \<in> set (catalog ps w P ex) \<Longrightarrow> prod_id p \<notin> set ex \<and> is_available p"
  by (auto simp: catalog_def available_products_def)

text \<open>The suggestions as a whole\<close>

lemma suggestions_spec:
  assumes "suggestions_for_cart env ls us w c user limit i = (Inr sugg, j)"
  shows "only_cache i j" "prod_id ` set sugg \<inter> ci_product ` set (items_in w (cart_id c)) = {}"
proof -
  let ?ids = "map ci_product (items_in w (cart_id c))"
  obtain paired seen where p: "pair_suggestions w i ?ids ?ids = (paired, seen)" by fastforce
  let ?filled = "pairing_fill ls w c seen (limit - length paired) i"
  have seen: "ci_product ` set (items_in w (cart_id c)) \<subseteq> set seen"
    "prod_id ` set paired \<inter> ci_product ` set (items_in w (cart_id c)) = {}"
    using pair_suggestions_spec [OF p] by auto
  have filled: "prod_id ` set ?filled \<inter> set seen = {}"
    by (auto simp: pairing_fill_def Let_def dest!: in_set_takeD catalog_spec)
  have base: "prod_id ` set (paired @ ?filled) \<inter> ci_product ` set (items_in w (cart_id c)) = {}"
    using seen filled by (simp only: set_append image_Un) blast
  show "only_cache i j"
    using assms p by (auto simp: suggestions_for_cart_def Let_def returns only_cache_def
        split: option.splits if_splits dest!: for_user_only_cache)
  have "sugg = paired @ ?filled \<or> (\<exists>recs. sugg = fill_up limit recs seen (paired @ ?filled))"
    using assms p by (auto simp: suggestions_for_cart_def Let_def returns split: option.splits if_splits)
  then show "prod_id ` set sugg \<inter> ci_product ` set (items_in w (cart_id c)) = {}"
  proof
    assume "\<exists>recs. sugg = fill_up limit recs seen (paired @ ?filled)"
    then obtain recs where "sugg = fill_up limit recs seen (paired @ ?filled)" by blast
    with fill_up_spec [of limit recs seen "paired @ ?filled"] base seen(1) show ?thesis by blast
  qed (use base in simp)
qed

lemma suggestions_anonymous:
  assumes "distinct (map prod_id (available_products (by_default ls) w))"
  shows "\<exists>sugg. suggestions_for_cart env ls us w c None limit i = (Inr sugg, i) \<and>
    (\<forall>p\<in>set sugg. is_available p) \<and> distinct (map prod_id sugg)"
proof -
  let ?ids = "map ci_product (items_in w (cart_id c))"
  obtain paired seen where p: "pair_suggestions w i ?ids ?ids = (paired, seen)" by fastforce
  let ?filled = "pairing_fill ls w c seen (limit - length paired) i"
  note spec = pair_suggestions_spec [OF p]
  have filled: "\<forall>x\<in>set ?filled. prod_id x \<notin> set seen \<and> is_available x"
    by (auto simp: pairing_fill_def Let_def dest!: in_set_takeD catalog_spec)
  have "distinct (map prod_id (catalog (by_default ls) w P seen))" for P
    unfolding catalog_def by (rule distinct_map_filter [OF assms])
  then have "distinct (map prod_id ?filled)"
    by (simp add: pairing_fill_def Let_def take_map [symmetric])
  moreover have "prod_id ` set paired \<inter> prod_id ` set ?filled = {}"
  proof -
    have "prod_id ` set paired \<subseteq> set seen" using spec by (elim conjE) simp
    moreover have "set seen \<inter> prod_id ` set ?filled = {}" using filled by (intro Int_emptyI) (elim imageE, simp)
    ultimately show ?thesis by (simp only: disjoint_iff) (meson subsetD)
  qed
  moreover have "distinct (map prod_id paired)" using spec by simp
  ultimately have "distinct (map prod_id (paired @ ?filled))" by (simp only: map_append distinct_append set_map)
  moreover have "\<forall>x\<in>set (paired @ ?filled). is_available x" using spec filled by auto
  moreover have "suggestions_for_cart env ls us w c None limit i = (Inr (paired @ ?filled), i)"
    by (simp add: suggestions_for_cart_def Let_def p)
  ultimately show ?thesis by blast
qed

lemma log_impression_run:
  "\<exists>k. log_impression env sl xs user t i = (Inr (), k) \<and>
    map im_products (i_impressions k) =
      map im_products (i_impressions i) @ (if xs = [] then [] else [map prod_id xs])"
  by (simp add: log_impression_def run_whenever)

text \<open>
  What is suggested beside a cart that is not empty is at most as much as was asked for and
  holds no product of the cart, and an impression with exactly the suggested products is recorded
  when there are any. A visitor who is not signed in always gets an answer, in which every product is
  available and none is repeated.
\<close>

theorem cart_suggestions_are_new:
  assumes "items_in w (cart_id c) \<noteq> []" and "distinct (map prod_id (available_products (by_default ls) w))"
  shows "(\<forall>xs j. for_cart env ls us w c user limit i = (Inr xs, j) \<longrightarrow>
      length xs \<le> limit \<and> prod_id ` set xs \<inter> ci_product ` set (items_in w (cart_id c)) = {} \<and>
      map im_products (i_impressions j) =
        map im_products (i_impressions i) @ (if xs = [] then [] else [map prod_id xs])) \<and>
    (user = None \<longrightarrow> (\<exists>xs j. for_cart env ls us w c user limit i = (Inr xs, j) \<and>
      (\<forall>p\<in>set xs. is_available p) \<and> distinct (map prod_id xs)))"
proof -
  have parts: "for_cart env ls us w c user limit i = (Inr xs, j) \<longleftrightarrow>
      (\<exists>sugg k. suggestions_for_cart env ls us w c user limit i = (Inr sugg, k) \<and> xs = take limit sugg \<and>
         log_impression env SLOT_CART (take limit sugg) user (session_of c) k = (Inr (), j))" for user xs j
    using assms(1) by (auto simp: for_cart_def returns)
  have "length xs \<le> limit \<and> prod_id ` set xs \<inter> ci_product ` set (items_in w (cart_id c)) = {} \<and>
      map im_products (i_impressions j) =
        map im_products (i_impressions i) @ (if xs = [] then [] else [map prod_id xs])"
    if "for_cart env ls us w c user limit i = (Inr xs, j)" for xs j
  proof -
    from that obtain sugg k where s: "suggestions_for_cart env ls us w c user limit i = (Inr sugg, k)"
      and xs: "xs = take limit sugg"
      and l: "log_impression env SLOT_CART xs user (session_of c) k = (Inr (), j)"
      unfolding parts by auto
    have "i_impressions k = i_impressions i"
      using suggestions_spec(1) [OF s] unfolding only_cache_def by (metis intelligence.select_convs(7)
        intelligence.surjective intelligence.update_convs(9))
    then have "map im_products (i_impressions j) =
        map im_products (i_impressions i) @ (if xs = [] then [] else [map prod_id xs])"
      using l log_impression_run [of env SLOT_CART xs user "session_of c" k] by auto
    moreover have "set xs \<subseteq> set sugg" by (simp add: xs set_take_subset)
    ultimately show ?thesis using suggestions_spec(2) [OF s] by (auto simp: xs)
  qed
  moreover have "\<exists>xs j. for_cart env ls us w c None limit i = (Inr xs, j) \<and>
      (\<forall>p\<in>set xs. is_available p) \<and> distinct (map prod_id xs)"
  proof -
    obtain sugg where s: "suggestions_for_cart env ls us w c None limit i = (Inr sugg, i)"
      and ok: "\<forall>p\<in>set sugg. is_available p" "distinct (map prod_id sugg)"
      using suggestions_anonymous [OF assms(2)] by blast
    obtain k where "log_impression env SLOT_CART (take limit sugg) None (session_of c) i = (Inr (), k)"
      using log_impression_run by blast
    with s have "for_cart env ls us w c None limit i = (Inr (take limit sugg), k)" unfolding parts by blast
    moreover have "distinct (map prod_id (take limit sugg))" using ok(2) by (simp add: take_map [symmetric])
    ultimately show ?thesis using ok(1) by (blast dest: in_set_takeD)
  qed
  ultimately show ?thesis by blast
qed

text \<open>
  A product that fills up the suggestions is not remembered as seen. When it is also the first of a
  signed-in customer's products and there is room, it is shown to the customer twice.
\<close>

lemma fill_up_prefix: "\<exists>ys. fill_up limit ps seen sugg = sugg @ ys"
proof (induction ps arbitrary: seen sugg)
  case (Cons p ps)
  obtain ys zs where "fill_up limit ps (prod_id p # seen) (sugg @ [p]) = (sugg @ [p]) @ ys"
    "fill_up limit ps seen sugg = sugg @ zs"
    using Cons.IH by metis
  then show ?case by (auto simp: Let_def)
qed simp

lemma take_past: "length xs < n \<Longrightarrow> take n (xs @ [p] @ ys) = xs @ [p] @ take (n - Suc (length xs)) ys"
proof -
  assume "length xs < n"
  then obtain m where "n = length xs + Suc m" by (metis add_Suc_right less_imp_Suc_add)
  then show ?thesis by simp
qed

theorem suggestion_shown_twice:
  assumes "items_in w (cart_id c) \<noteq> []"
    and "pair_suggestions w i (map ci_product (items_in w (cart_id c))) (map ci_product (items_in w (cart_id c))) =
      (paired, seen)"
    and "p \<in> set (pairing_fill ls w c seen (limit - length paired) i)"
    and "length (paired @ pairing_fill ls w c seen (limit - length paired) i) < limit"
    and "for_user env ls us w (Some u) limit i = (Inr (p # recs), j)"
  shows "\<exists>xs k. for_cart env ls us w c (Some u) limit i = (Inr xs, k) \<and>
    2 \<le> count_list (map prod_id xs) (prod_id p)"
proof -
  let ?base = "paired @ pairing_fill ls w c seen (limit - length paired) i"
  have new: "prod_id p \<notin> set seen"
    using assms(3) by (auto simp: pairing_fill_def Let_def dest!: in_set_takeD catalog_spec)
  obtain ys where ys: "fill_up limit (p # recs) seen ?base = (?base @ [p]) @ ys"
    using new fill_up_prefix [of limit recs "prod_id p # seen" "?base @ [p]"]
    by (cases "limit \<le> length (?base @ [p])") (auto simp: Let_def)
  have sugg: "suggestions_for_cart env ls us w c (Some u) limit i = (Inr (?base @ [p] @ ys), j)"
    using assms(2,4,5) ys by (simp add: suggestions_for_cart_def Let_def run_bnd)
  obtain k where "log_impression env SLOT_CART (take limit (?base @ [p] @ ys)) (Some u) (session_of c) j = (Inr (), k)"
    using log_impression_run by blast
  then have run: "for_cart env ls us w c (Some u) limit i = (Inr (take limit (?base @ [p] @ ys)), k)"
    using assms(1) sugg by (simp add: for_cart_def run_bnd del: append_assoc take_append)
  have "take limit (?base @ [p] @ ys) = ?base @ [p] @ take (limit - Suc (length ?base)) ys"
    by (rule take_past [OF assms(4)])
  moreover have "1 \<le> count_list (map prod_id ?base) (prod_id p)"
    using assms(3) count_list_0_iff [of "map prod_id ?base" "prod_id p"] by fastforce
  ultimately have "2 \<le> count_list (map prod_id (take limit (?base @ [p] @ ys))) (prod_id p)"
    by (simp add: count_list_append)
  with run show ?thesis by blast
qed

section \<open>Instances\<close>

text \<open>A cookie and a coffee, bought together in two paid orders, and a cart with a cookie.\<close>

definition coffee :: product where
  "coffee = demo_product\<lparr>prod_id := 2, prod_category := 2, prod_name := ''coffee''\<rparr>"

definition sold_item :: "nat \<Rightarrow> nat \<Rightarrow> nat \<Rightarrow> order_item" where
  "sold_item k od p = \<lparr>oi_id = k, oi_order = od, oi_product = p, oi_product_name = [], oi_unit_price = 5000,
     oi_quantity = 3, oi_line_total = 15000, oi_fulfillment_date = None\<rparr>"

definition paid_order :: "nat \<Rightarrow> order" where
  "paid_order k = demo_order\<lparr>ord_id := k, ord_user := Some 5, ord_payment_status := PS_PAID\<rparr>"

definition cookie_cart :: cart where
  "cookie_cart = \<lparr>cart_id = 4, cart_user = Some 5, cart_session_key = None, cart_coupon_code = [],
     cart_referral_code = [], cart_active_order = None\<rparr>"

definition coffee_world :: world where
  "coffee_world = empty_world\<lparr>products := [1 \<mapsto> demo_product, 2 \<mapsto> coffee],
     orders := [paid_order 7, paid_order 8],
     order_items := [sold_item 1 7 1, sold_item 2 7 2, sold_item 3 8 2, sold_item 4 8 1],
     carts := [cookie_cart], cart_items := [\<lparr>ci_id = 9, ci_cart = 4, ci_product = 1, ci_quantity = 1\<rparr>]\<rparr>"

definition no_intelligence :: intelligence where
  "no_intelligence = \<lparr>i_meta = [1 \<mapsto> \<lparr>pm_margin_boost = 110, pm_is_cookie = True, pm_is_coffee = False\<rparr>,
       2 \<mapsto> \<lparr>pm_margin_boost = 100, pm_is_cookie = False, pm_is_coffee = True\<rparr>],
     i_pairs = [], i_stats = [], i_forecasts = [], i_bakes = [], i_tastes = Map.empty, i_impressions = [],
     i_next = 1, i_cache = Map.empty\<rparr>"

definition demo_calendar :: calendar where
  "demo_calendar = \<lparr>day_start = (\<lambda>d. days (d - 10)), local_hour = (\<lambda>t. 3), utc_date = (\<lambda>t. 10), event_time = (\<lambda>n. 0)\<rparr>"

definition demo_listing :: listing where
  "demo_listing = \<lparr>by_default = [2, 1], by_category = [2, 1], by_change = [1, 2]\<rparr>"

lemmas intel_instance = coffee_def sold_item_def paid_order_def cookie_cart_def coffee_world_def no_intelligence_def
  demo_calendar_def demo_listing_def demo_product_def demo_order_def empty_world_def

lemma coffee_products: "products_of coffee_world (paid_order 7) = [1, 2]" "products_of coffee_world (paid_order 8) = [2, 1]"
  by (simp_all add: products_of_def items_of_def intel_instance)

lemma coffee_paid: "is_paid_order (paid_order k)"
  by (simp add: is_paid_order_def PAID_PAYMENT_STATUSES_def paid_order_def)

lemma coffee_orders: "orders coffee_world = [paid_order 7, paid_order 8]"
  by (simp add: coffee_world_def)

lemma affinity_is_exact_witness:
  "products_distinct coffee_world \<and>
   (\<exists>j. refresh_product_affinity coffee_world no_intelligence = (Inr (int (length (i_pairs j))), j) \<and>
      pair_row 1 2 2 \<in> set (i_pairs j))"
proof -
  have ok: "products_distinct coffee_world"
    by (simp add: products_distinct_def coffee_orders coffee_products)
  have two: "bought_together coffee_world 1 2 = 2"
    by (simp add: bought_together_def coffee_orders coffee_products coffee_paid)
  have few: "length (count_pairs coffee_world) \<le> 500"
    by (simp add: count_pairs_def paid_orders_def coffee_orders coffee_products coffee_paid)
  obtain j where run: "refresh_product_affinity coffee_world no_intelligence = (Inr (int (length (i_pairs j))), j)"
    and all: "\<And>a b. a \<noteq> b \<and> 2 \<le> bought_together coffee_world a b \<Longrightarrow>
      pair_row a b (bought_together coffee_world a b) \<in> set (i_pairs j)"
    using affinity_is_exact [OF ok, of no_intelligence] few by (elim exE conjE) blast
  have "pair_row 1 2 2 \<in> set (i_pairs j)" using all [of 1 2] unfolding two by simp
  with ok run show ?thesis by blast
qed

lemma daily_stats_account_for_sales_witness:
  "\<exists>j s. aggregate_daily_stats demo_calendar coffee_world 10 no_intelligence = (Inr 2, j) \<and>
     find (\<lambda>s. stats_key s = (2, 10)) (i_stats j) = Some s \<and> ds_units s = 6"
proof -
  have sold: "sold_on demo_calendar 10 coffee_world = [(sold_item 1 7 1, paid_order 7), (sold_item 2 7 2, paid_order 7),
      (sold_item 3 8 2, paid_order 8), (sold_item 4 8 1, paid_order 8)]"
    by (simp add: sold_on_def items_where_def List.map_filter_def order_row_def is_paid_order_def
        PAID_PAYMENT_STATUSES_def days_def intel_instance)
  have "distinct (map stats_key (i_stats no_intelligence))" by (simp add: no_intelligence_def)
  from daily_stats_account_for_sales [OF this, of demo_calendar coffee_world 10] show ?thesis
    unfolding sold by (auto simp: sold_item_def card_insert_if)
qed

definition past_stats :: "date \<Rightarrow> int \<Rightarrow> daily_stats" where
  "past_stats d n = \<lparr>ds_product = 2, ds_date = d, ds_units = n, ds_revenue = 0, ds_order_count = 1,
     ds_peak_hour = None, ds_weekday = weekday_of d, ds_hourly = []\<rparr>"

lemma forecast_is_weekday_average_witness:
  "\<exists>f. forecast_product (no_intelligence\<lparr>i_stats := [past_stats 3 4, past_stats 5 7]\<rparr>) 2 10 7 = Some f \<and>
     \<bar>of_int (fc_predicted f) / 100 - 4\<bar> \<le> (1 / 100 :: rat)"
proof -
  let ?i = "no_intelligence\<lparr>i_stats := [past_stats 3 4, past_stats 5 7]\<rparr>"
  have win: "window_stats ?i 2 10 7 = [past_stats 3 4, past_stats 5 7]"
    by (simp add: window_stats_def past_stats_def)
  have like: "same_weekday 10 [past_stats 3 4, past_stats 5 7] = [past_stats 3 4]"
    by (simp add: same_weekday_def past_stats_def weekday_of_def)
  obtain f where f: "forecast_product ?i 2 10 7 = Some f"
    unfolding forecast_product_def win Let_def by simp
  have "\<forall>s\<in>set (window_stats ?i 2 10 7). 0 \<le> ds_units s" "units_of (window_stats ?i 2 10 7) \<le> 10 ^ 19"
    unfolding win by (simp_all add: past_stats_def units_of_def)
  from forecast_is_weekday_average [OF f this]
  have "\<bar>of_int (fc_predicted f) / 100 - of_int (units_of [past_stats 3 4]) / of_nat 1\<bar> \<le> (1 / 100 :: rat)"
    unfolding win like Let_def by simp
  moreover have "units_of [past_stats 3 4] = 4" by (simp add: units_of_def past_stats_def)
  ultimately show ?thesis using f by (intro exI [of _ f]) simp
qed

lemma coffee_available: "available_products [2, 1] coffee_world = [coffee, demo_product]"
  by (simp add: available_products_def List.map_filter_def is_available_def intel_instance)

lemma recommendations_cover_demand_witness:
  "\<exists>j b. generate_recommendations [2, 1] coffee_world 10 no_intelligence = (Inr 2, j) \<and>
     find (\<lambda>b. bake_key b = (2, 10)) (i_bakes j) = Some b \<and> bake_ok coffee_world 10 2 b"
  using recommendations_cover_demand [of "[2, 1]" coffee_world 10 no_intelligence]
  unfolding coffee_available by (auto simp: coffee_def demo_product_def)

lemma cart_suggestions_are_new_witness:
  "\<exists>xs j. for_cart demo_env demo_listing [] coffee_world cookie_cart None 4 no_intelligence = (Inr xs, j) \<and>
     distinct (map prod_id xs) \<and> 1 \<notin> prod_id ` set xs"
proof -
  have items: "items_in coffee_world (cart_id cookie_cart) = [\<lparr>ci_id = 9, ci_cart = 4, ci_product = 1, ci_quantity = 1\<rparr>]"
    by (simp add: items_in_def coffee_world_def cookie_cart_def)
  have "distinct (map prod_id (available_products (by_default demo_listing) coffee_world))"
    unfolding demo_listing_def listing.simps coffee_available by (simp add: intel_instance)
  then show ?thesis
    using cart_suggestions_are_new [of coffee_world cookie_cart demo_listing demo_env "[]" None 4 no_intelligence]
    by (auto simp: items)
qed

end
