(* ===== verification/Reports.thy ===== *)
theory Reports
  imports Recommend StaleCleanup
begin

text \<open>
  What the shop reports to its staff: the summary of a shift (\<open>apps/core/shift_summary.py\<close>), the
  dashboards of the operations (\<open>admin_views.py\<close>), the conversion funnel
  (\<open>growth/conversion_service.py\<close>) and the insights (\<open>intelligence/insights_service.py\<close>). The
  orders of products by name and of orders by their last change are arguments.
\<close>

section \<open>The summary of a shift\<close>

definition SHIFT_PAID_STATUSES :: "order_payment_status set" where
  "SHIFT_PAID_STATUSES = {PS_PAID, PS_CASH_RECEIVED, PS_COD_CONFIRMED}"

definition PICKUP_PENDING_STATUSES :: "order_status set" where
  "PICKUP_PENDING_STATUSES = {S_PAID, S_CONFIRMED_BY_SHOP, S_PREPARING}"

definition PAYMENT_BREAKDOWN_METHODS :: "payment_method list" where
  "PAYMENT_BREAKDOWN_METHODS = [PM_ONLINE, PM_COUNTER_CARD, PM_CASH]"

definition in_shift :: "calendar \<Rightarrow> date \<Rightarrow> order \<Rightarrow> bool" where
  "in_shift cal d od \<longleftrightarrow> day_start cal d \<le> ord_created_at od \<and> ord_created_at od < day_start cal (d + 1)"

definition orders_for_shift_date :: "calendar \<Rightarrow> date \<Rightarrow> world \<Rightarrow> order list" where
  "orders_for_shift_date cal d w = filter (in_shift cal d) (orders w)"

definition paid_orders_for_shift :: "calendar \<Rightarrow> date \<Rightarrow> world \<Rightarrow> order list" where
  "paid_orders_for_shift cal d w =
     filter (\<lambda>od. ord_payment_status od \<in> SHIFT_PAID_STATUSES \<and> ord_status od \<notin> {S_CANCELLED, S_REFUNDED})
       (orders_for_shift_date cal d w)"

text \<open>The method, the number of its orders and their total\<close>

definition build_payment_breakdown :: "order list \<Rightarrow> (payment_method \<times> nat \<times> money) list" where
  "build_payment_breakdown paid =
     map (\<lambda>m. let ods = filter (\<lambda>od. ord_payment_method od = m) paid in
       (m, length ods, sum_list (map ord_total ods))) PAYMENT_BREAKDOWN_METHODS"

text \<open>Rows of the same product and name are added up; equal quantities are listed by name.\<close>

definition sums_of_products :: "(order_item \<times> order) list \<Rightarrow> ((nat \<times> string) \<times> int \<times> money) list" where
  "sums_of_products rows =
     foldl (\<lambda>d (x, od). dict_alter (oi_product x, oi_product_name x)
       (\<lambda>(n, r). (n + oi_quantity x, r + oi_line_total x)) (0, 0) d) [] rows"

definition build_top_products :: "world \<Rightarrow> order list \<Rightarrow> nat \<Rightarrow> ((nat \<times> string) \<times> int \<times> money) list" where
  "build_top_products w paid limit =
     take limit (sort_key (\<lambda>(k, n, r). - n) (sort_key (\<lambda>(k, n, r). snd k)
       (sums_of_products (items_where (\<lambda>od. od \<in> set paid) w))))"

text \<open>\<open>by_name\<close> are the products in the order of their names.\<close>

definition tracked :: "nat list \<Rightarrow> world \<Rightarrow> (nat \<times> inventory) list" where
  "tracked by_name w = filter (\<lambda>(p, i). inv_track_stock i)
     (List.map_filter (\<lambda>p. map_option (Pair p) (inventories w p)) by_name)"

definition low_stock_queryset :: "nat list \<Rightarrow> nat \<Rightarrow> world \<Rightarrow> (nat \<times> inventory) list" where
  "low_stock_queryset by_name limit w =
     take limit (sort_key (\<lambda>(p, i). inv_stock i)
       (filter (\<lambda>(p, i). inv_stock i \<le> inv_reserved i + inv_low_stock_threshold i) (tracked by_name w)))"

definition newest_payments :: "nat \<Rightarrow> payment list \<Rightarrow> payment list" where
  "newest_payments limit ps = take limit (sort_key (\<lambda>p. - pay_created_at p) ps)"

definition payment_issues_for_shift :: "calendar \<Rightarrow> date \<Rightarrow> nat \<Rightarrow> world \<Rightarrow> payment list" where
  "payment_issues_for_shift cal d limit w = newest_payments limit (filter (\<lambda>p.
     (case order_row w (pay_order p) of Some od \<Rightarrow> in_shift cal d od | None \<Rightarrow> False) \<and>
     (pay_status p = P_FAILED \<or> pay_status p \<in> {P_PENDING, P_PROCESSING})) (payments w))"

definition oldest :: "nat \<Rightarrow> (order \<Rightarrow> bool) \<Rightarrow> order list \<Rightarrow> order list" where
  "oldest limit P ods = take limit (sort_key ord_created_at (filter P ods))"

record shift_summary =
  ss_total_sales :: money
  ss_order_count :: nat
  ss_paid_order_count :: nat
  ss_awaiting_counter_payment_count :: nat
  ss_cancelled_refunded_count :: nat
  ss_payment_breakdown :: "(payment_method \<times> nat \<times> money) list"
  ss_top_products :: "((nat \<times> string) \<times> int \<times> money) list"
  ss_low_stock :: "(nat \<times> inventory) list"
  ss_ready_pickup_orders :: "order list"
  ss_pending_pickup_orders :: "order list"
  ss_payment_issues :: "payment list"

definition build_shift_summary :: "calendar \<Rightarrow> nat list \<Rightarrow> date \<Rightarrow> world \<Rightarrow> shift_summary" where
  "build_shift_summary cal by_name d w =
     (let ods = orders_for_shift_date cal d w; paid = paid_orders_for_shift cal d w in
      \<lparr>ss_total_sales = sum_list (map ord_total paid),
       ss_order_count = length ods,
       ss_paid_order_count = length paid,
       ss_awaiting_counter_payment_count = length (filter (\<lambda>od.
         ord_status od = S_AWAITING_PAYMENT \<and> ord_payment_method od \<in> {PM_CASH, PM_COUNTER_CARD}) ods),
       ss_cancelled_refunded_count = length (filter (\<lambda>od.
         ord_status od \<in> {S_CANCELLED, S_REFUNDED} \<or> ord_payment_status od = PS_REFUND_PROCESSED) ods),
       ss_payment_breakdown = build_payment_breakdown paid,
       ss_top_products = build_top_products w paid 10,
       ss_low_stock = low_stock_queryset by_name 20 w,
       ss_ready_pickup_orders = oldest 50
         (\<lambda>od. ord_status od = S_PACKAGED \<and> ord_payment_status od \<in> SHIFT_PAID_STATUSES) ods,
       ss_pending_pickup_orders = oldest 50
         (\<lambda>od. ord_status od \<in> PICKUP_PENDING_STATUSES \<and> ord_payment_status od \<in> SHIFT_PAID_STATUSES) ods,
       ss_payment_issues = payment_issues_for_shift cal d 50 w\<rparr>)"

section \<open>Dashboards of the operations\<close>

definition DASHBOARD_LIMIT :: nat where
  "DASHBOARD_LIMIT = 50"

definition legacy_cod_pending :: "order \<Rightarrow> bool" where
  "legacy_cod_pending od \<longleftrightarrow> ord_payment_method od = PM_COD \<and> ord_payment_status od = PS_COD_PENDING \<and>
     ord_status od \<notin> {S_CANCELLED, S_REFUNDED}"

definition awaiting_counter_payment :: "order \<Rightarrow> bool" where
  "awaiting_counter_payment od \<longleftrightarrow> ord_status od = S_AWAITING_PAYMENT \<and>
     ord_payment_method od \<in> {PM_CASH, PM_COUNTER_CARD} \<and> ord_payment_status od \<noteq> PS_PAID"

definition failed_tasks :: "world \<Rightarrow> task_log list" where
  "failed_tasks w = take DASHBOARD_LIMIT
     (rev (filter (\<lambda>t. tl_status t \<in> {T_FAILURE, T_RETRY, T_DEAD}) (task_logs w)))"

definition dashboard_payment_issues :: "env \<Rightarrow> world \<Rightarrow> payment list" where
  "dashboard_payment_issues env w = newest_payments DASHBOARD_LIMIT (filter (\<lambda>p.
     pay_status p = P_FAILED \<or>
     pay_status p = P_PENDING \<and> pay_provider p \<in> {PV_ZARINPAL, PV_STRIPE} \<and>
       pay_created_at p < get_stale_online_payment_cutoff env None) (payments w))"

definition listed :: "nat list \<Rightarrow> world \<Rightarrow> (product \<Rightarrow> bool) \<Rightarrow> product list" where
  "listed by_name w P = take DASHBOARD_LIMIT (filter P (List.map_filter (products w) by_name))"

text \<open>A product has a category, so the list of products without one stays empty and is left out.\<close>

record operations =
  op_new_orders :: "order list"
  op_legacy_cod :: "order list"
  op_awaiting_counter_payment :: "order list"
  op_in_preparation :: "order list"
  op_low_stock :: "(nat \<times> inventory) list"
  op_failed_tasks :: "task_log list"
  op_payment_issues :: "payment list"
  op_inactive_products :: "product list"
  op_without_inventory :: "product list"
  op_invalid_price :: "product list"

definition operations_dashboard :: "env \<Rightarrow> nat list \<Rightarrow> world \<Rightarrow> operations" where
  "operations_dashboard env by_name w =
     \<lparr>op_new_orders = oldest DASHBOARD_LIMIT
        (\<lambda>od. ord_status od \<in> {S_PENDING_PAYMENT, S_CONFIRMED_BY_SHOP}) (orders w),
      op_legacy_cod = oldest DASHBOARD_LIMIT legacy_cod_pending (orders w),
      op_awaiting_counter_payment = oldest DASHBOARD_LIMIT awaiting_counter_payment (orders w),
      op_in_preparation = oldest DASHBOARD_LIMIT
        (\<lambda>od. ord_status od \<in> {S_CONFIRMED_BY_SHOP, S_PREPARING, S_PACKAGED}) (orders w),
      op_low_stock = low_stock_queryset by_name DASHBOARD_LIMIT w,
      op_failed_tasks = failed_tasks w,
      op_payment_issues = dashboard_payment_issues env w,
      op_inactive_products = listed by_name w (\<lambda>p. \<not> is_available p),
      op_without_inventory = listed by_name w (\<lambda>p. inventories w (prod_id p) = None),
      op_invalid_price = listed by_name w (\<lambda>p. prod_price p \<le> 0)\<rparr>"

text \<open>\<open>online_enabled\<close> says whether the default payment method is online.\<close>

record zarinpal_setup =
  zs_provider :: provider
  zs_sandbox :: bool
  zs_merchant_id_exists :: bool
  zs_merchant_id_valid_length :: bool
  zs_callback_url :: "string option"
  zs_online_enabled :: bool
  zs_ready :: bool

definition build_zarinpal_setup_status :: "env \<Rightarrow> bool \<Rightarrow> zarinpal_setup" where
  "build_zarinpal_setup_status env online_enabled =
     (let merchant_id = str_strip (zarinpal_merchant_id env);
          url = str_strip (if zarinpal_callback_url env \<noteq> [] then zarinpal_callback_url env else payment_success_url env)
      in \<lparr>zs_provider = default_payment_provider env, zs_sandbox = zarinpal_sandbox env,
          zs_merchant_id_exists = (merchant_id \<noteq> []), zs_merchant_id_valid_length = (length merchant_id = 36),
          zs_callback_url = (if url \<noteq> [] then Some url else None), zs_online_enabled = online_enabled,
          zs_ready = (default_payment_provider env = PV_ZARINPAL \<and> merchant_id \<noteq> [] \<and>
            length merchant_id = 36 \<and> url \<noteq> [] \<and> online_enabled)\<rparr>)"

text \<open>\<open>changed\<close> are the orders in the order of their last change, the latest first.\<close>

definition last_changed :: "nat list \<Rightarrow> world \<Rightarrow> (order \<Rightarrow> bool) \<Rightarrow> order list" where
  "last_changed changed w P = take DASHBOARD_LIMIT (filter P (List.map_filter (order_row w) changed))"

definition has_payment :: "world \<Rightarrow> order \<Rightarrow> payment_state set \<Rightarrow> bool" where
  "has_payment w od sts \<longleftrightarrow> (\<exists>p\<in>set (payments w). pay_order p = ord_id od \<and> pay_status p \<in> sts)"

record ops_center =
  oc_low_stock :: "(nat \<times> inventory) list"
  oc_out_of_stock :: "(nat \<times> inventory) list"
  oc_without_inventory :: "product list"
  oc_reserved_rows :: "(nat \<times> inventory) list"
  oc_total_stock :: "int option"
  oc_total_reserved :: "int option"
  oc_new_orders :: "order list"
  oc_confirmed :: "order list"
  oc_preparing :: "order list"
  oc_ready_for_pickup :: "order list"
  oc_delivered_pending_finalization :: "order list"
  oc_legacy_cod :: "order list"
  oc_awaiting_counter_payment :: "order list"
  oc_legacy_out_for_delivery :: "order list"
  oc_failed_payments :: "payment list"
  oc_stale_online_payments :: "payment list"
  oc_paid_payment_pending :: "order list"
  oc_cash_received_payment_pending :: "order list"
  oc_show_legacy_section :: bool

text \<open>SQL's sum of no rows is null.\<close>

definition sum_or_none :: "int list \<Rightarrow> int option" where
  "sum_or_none xs = (if xs = [] then None else Some (sum_list xs))"

definition dashboard_stale_payments :: "env \<Rightarrow> world \<Rightarrow> payment list" where
  "dashboard_stale_payments env w = newest_payments DASHBOARD_LIMIT (filter (\<lambda>p.
     pay_status p \<in> {P_PENDING, P_PROCESSING} \<and> pay_provider p \<in> {PV_ZARINPAL, PV_STRIPE} \<and>
     pay_created_at p < get_stale_online_payment_cutoff env None) (payments w))"

definition ops_dashboard :: "env \<Rightarrow> nat list \<Rightarrow> nat list \<Rightarrow> world \<Rightarrow> ops_center" where
  "ops_dashboard env by_name changed w =
     (let stock = tracked by_name w;
          with_status = (\<lambda>st. oldest DASHBOARD_LIMIT (\<lambda>od. ord_status od = st) (orders w));
          cod = oldest DASHBOARD_LIMIT legacy_cod_pending (orders w)
      in \<lparr>oc_low_stock = low_stock_queryset by_name DASHBOARD_LIMIT w,
          oc_out_of_stock = take DASHBOARD_LIMIT (filter (\<lambda>(p, i). inv_stock i \<le> inv_reserved i) stock),
          oc_without_inventory = listed by_name w (\<lambda>p. inventories w (prod_id p) = None),
          oc_reserved_rows = take DASHBOARD_LIMIT (sort_key (\<lambda>(p, i). - inv_reserved i)
            (filter (\<lambda>(p, i). 0 < inv_reserved i) stock)),
          oc_total_stock = sum_or_none (map (\<lambda>(p, i). inv_stock i) stock),
          oc_total_reserved = sum_or_none (map (\<lambda>(p, i). inv_reserved i) stock),
          oc_new_orders = with_status S_PENDING_PAYMENT,
          oc_confirmed = with_status S_CONFIRMED_BY_SHOP,
          oc_preparing = with_status S_PREPARING,
          oc_ready_for_pickup = with_status S_PACKAGED,
          oc_delivered_pending_finalization = last_changed changed w (\<lambda>od. ord_status od = S_DELIVERED \<and>
            ord_payment_status od \<notin> {PS_PAID, PS_CASH_RECEIVED, PS_REFUND_PROCESSED}),
          oc_legacy_cod = cod,
          oc_awaiting_counter_payment = oldest DASHBOARD_LIMIT awaiting_counter_payment (orders w),
          oc_legacy_out_for_delivery = with_status S_OUT_FOR_DELIVERY,
          oc_failed_payments = newest_payments DASHBOARD_LIMIT (filter (\<lambda>p. pay_status p = P_FAILED) (payments w)),
          oc_stale_online_payments = dashboard_stale_payments env w,
          oc_paid_payment_pending = last_changed changed w (\<lambda>od. ord_payment_status od = PS_PAID \<and>
            has_payment w od {P_PENDING, P_PROCESSING}),
          oc_cash_received_payment_pending = last_changed changed w (\<lambda>od. ord_payment_status od = PS_CASH_RECEIVED \<and>
            has_payment w od {P_PENDING}),
          oc_show_legacy_section = (cod \<noteq> [] \<or> with_status S_OUT_FOR_DELIVERY \<noteq> [])\<rparr>)"

section \<open>The conversion funnel\<close>

definition signed_float :: "rat \<Rightarrow> rat" where
  "signed_float x = (if x < 0 then - float (- x) else float x)"

text \<open>\<open>a / b * 100\<close>, or 0 without a base; \<open>round(x, 2)\<close> in hundredths\<close>

definition rate :: "int \<Rightarrow> int \<Rightarrow> rat" where
  "rate a b = (if b \<noteq> 0 then float (float (of_int a / of_int b) * 100) else 0)"

definition round2 :: "rat \<Rightarrow> int" where
  "round2 x = half_even (100 * x)"

record funnel =
  fu_product_views :: int
  fu_add_to_cart :: int
  fu_checkout_starts :: int
  fu_checkout_complete :: int
  fu_sms_sent :: int
  fu_sms_conversions :: int
  fu_view_to_cart_rate :: int
  fu_cart_to_checkout_rate :: int
  fu_checkout_conversion_rate :: int
  fu_sms_conversion_rate :: int
  fu_cart_abandonment_rate :: int

definition aggregate_funnel :: "calendar \<Rightarrow> timestamp \<Rightarrow> timestamp option \<Rightarrow> world \<Rightarrow> funnel" where
  "aggregate_funnel cal since until w =
     (let es = filter (\<lambda>(n, e). since \<le> event_time cal n \<and>
                 (case until of Some t \<Rightarrow> event_time cal n < t | None \<Rightarrow> True)) (enumerate 0 (g_events (growth w)));
          count = (\<lambda>ty. int (length (filter (\<lambda>(n, e). ge_type e = ty) es)));
          views = count GE_PRODUCT_VIEW; adds = count GE_ADD_TO_CART; starts = count GE_CHECKOUT_START;
          complete = count GE_CHECKOUT_COMPLETE; sent = count GE_SMS_SENT; conv = count GE_SMS_CONVERSION
      in \<lparr>fu_product_views = views, fu_add_to_cart = adds, fu_checkout_starts = starts,
          fu_checkout_complete = complete, fu_sms_sent = sent, fu_sms_conversions = conv,
          fu_view_to_cart_rate = round2 (rate adds views),
          fu_cart_to_checkout_rate = round2 (rate starts adds),
          fu_checkout_conversion_rate = round2 (rate complete starts),
          fu_sms_conversion_rate = round2 (rate conv sent),
          fu_cart_abandonment_rate =
            (if starts \<noteq> 0 then round2 (signed_float (100 - rate complete starts)) else 0)\<rparr>)"

section \<open>Insights\<close>

definition stats_sums :: "env \<Rightarrow> intelligence \<Rightarrow> (nat \<times> int \<times> money) list" where
  "stats_sums env i =
     foldl (\<lambda>d s. dict_alter (ds_product s) (\<lambda>(n, r). (n + ds_units s, r + ds_revenue s)) (0, 0) d) []
       (filter (\<lambda>s. today env - 30 \<le> ds_date s) (i_stats i))"

definition by_revenue :: "env \<Rightarrow> intelligence \<Rightarrow> (nat \<times> int \<times> money) list" where
  "by_revenue env i = sort_key (\<lambda>(p, n, r). - r) (stats_sums env i)"

text \<open>Only the names of the twenty best products are looked up.\<close>

definition name_in_report :: "env \<Rightarrow> world \<Rightarrow> intelligence \<Rightarrow> nat \<Rightarrow> string" where
  "name_in_report env w i p =
     (case (if p \<in> fst ` set (take 20 (by_revenue env i)) then products w p else None) of
        Some pr \<Rightarrow> prod_name pr | None \<Rightarrow> ''?'')"

record product_report =
  pr_product :: nat
  pr_name :: string
  pr_units :: int
  pr_revenue :: money

definition reported :: "env \<Rightarrow> world \<Rightarrow> intelligence \<Rightarrow> nat \<times> int \<times> money \<Rightarrow> product_report" where
  "reported env w i = (\<lambda>(p, n, r).
     \<lparr>pr_product = p, pr_name = name_in_report env w i p, pr_units = n, pr_revenue = r\<rparr>)"

definition best_products :: "env \<Rightarrow> world \<Rightarrow> intelligence \<Rightarrow> product_report list" where
  "best_products env w i = map (reported env w i) (take 5 (by_revenue env i))"

definition worst_products :: "env \<Rightarrow> world \<Rightarrow> intelligence \<Rightarrow> product_report list" where
  "worst_products env w i = map (reported env w i) (take 5 (sort_key (\<lambda>(p, n, r). r) (by_revenue env i)))"

definition bottlenecks :: "funnel \<Rightarrow> string list" where
  "bottlenecks f =
     (if fu_view_to_cart_rate f < 1000 then [''Low product view to add-to-cart conversion''] else []) @
     (if fu_checkout_conversion_rate f < 4000 then [''Checkout abandonment elevated''] else []) @
     (if fu_sms_conversion_rate f < 500 \<and> 10 < fu_sms_sent f then [''SMS-driven conversion below target''] else [])"

definition recent_impressions :: "timestamp \<Rightarrow> intelligence \<Rightarrow> impression list" where
  "recent_impressions since i = filter (\<lambda>m. since \<le> im_created_at m) (i_impressions i)"

definition recommendation_effectiveness :: "timestamp \<Rightarrow> intelligence \<Rightarrow> (slot \<times> int \<times> int) list" where
  "recommendation_effectiveness since i =
     foldl (\<lambda>d m. dict_alter (im_slot m) (\<lambda>(n, c). (n + 1, c + (if im_converted m then 1 else 0))) (0, 0) d) []
       (recent_impressions since i)"

record insights =
  in_revenue :: money
  in_order_count :: int
  in_best :: "product_report list"
  in_worst :: "product_report list"
  in_margin :: "product list"
  in_funnel :: funnel
  in_bottlenecks :: "string list"
  in_impressions :: int
  in_upsell_rate :: int
  in_slots :: "(slot \<times> int \<times> int) list"

definition paid_since :: "timestamp \<Rightarrow> world \<Rightarrow> order list" where
  "paid_since since w = filter (\<lambda>od. is_paid_order od \<and> since \<le> ord_created_at od) (orders w)"

definition build_daily_insights :: "env \<Rightarrow> calendar \<Rightarrow> listing \<Rightarrow> world \<Rightarrow> intelligence \<Rightarrow> insights" where
  "build_daily_insights env cal ls w i =
     (let since = now env - days 30;
          paid = paid_since since w;
          f = aggregate_funnel cal since None w;
          shown = recent_impressions since i;
          converted = filter im_converted shown
      in \<lparr>in_revenue = sum_list (map ord_total paid), in_order_count = int (length paid),
          in_best = best_products env w i, in_worst = worst_products env w i,
          in_margin = take 5 (by_margin i (available_products (by_default ls) w)),
          in_funnel = f, in_bottlenecks = bottlenecks f, in_impressions = int (length shown),
          in_upsell_rate = round2 (rate (int (length converted)) (int (length shown))),
          in_slots = recommendation_effectiveness since i\<rparr>)"

section \<open>What the reports show\<close>

text \<open>The sales of a shift are those of the listed methods and the ones on delivery, which no row shows.\<close>

lemma shift_sales_add_up:
  "ss_total_sales (build_shift_summary cal by_name d w) =
     sum_list (map (\<lambda>(m, n, t). t) (ss_payment_breakdown (build_shift_summary cal by_name d w))) +
     sum_list (map ord_total (filter (\<lambda>od. ord_payment_method od = PM_COD) (paid_orders_for_shift cal d w)))"
proof -
  have "sum_list (map ord_total ods) =
    sum_list (map ord_total (filter (\<lambda>od. ord_payment_method od = PM_ONLINE) ods)) +
    sum_list (map ord_total (filter (\<lambda>od. ord_payment_method od = PM_COUNTER_CARD) ods)) +
    sum_list (map ord_total (filter (\<lambda>od. ord_payment_method od = PM_CASH) ods)) +
    sum_list (map ord_total (filter (\<lambda>od. ord_payment_method od = PM_COD) ods))" for ods
  proof (induction ods)
    case (Cons od ods)
    then show ?case by (cases "ord_payment_method od") simp_all
  qed simp
  from this [of "paid_orders_for_shift cal d w"] show ?thesis
    by (simp add: build_shift_summary_def build_payment_breakdown_def PAYMENT_BREAKDOWN_METHODS_def Let_def)
qed

text \<open>A stale payment that the cleanup would select is on the dashboard while the dashboard has room.\<close>

lemma cleanup_selection_is_listed:
  assumes "is_stale_online_payment (get_stale_online_payment_cutoff env None) w p" and "p \<in> set (payments w)"
    and "length (dashboard_stale_payments env w) < DASHBOARD_LIMIT"
  shows "p \<in> set (dashboard_stale_payments env w)"
proof -
  have "set (take n xs) = set xs" if "length (take n xs) < n" for n and xs :: "payment list"
    using that by (simp add: min_def split: if_splits)
  with assms(3) show ?thesis using assms(1,2)
    by (simp add: dashboard_stale_payments_def newest_payments_def is_stale_online_payment_def
        STALE_PAYMENT_STATUSES_def ONLINE_PROVIDERS_def)
qed

end
