(* ===== verification/Settings.thy ===== *)
theory Settings
  imports Site Retention
begin

text \<open>
  The settings of the shop (\<open>config/settings/base.py\<close>) and what production adds and refuses
  (\<open>config/settings/prod.py\<close>), as functions of the environment variables. A
  value that raises stops the start of the program.
\<close>

type_synonym environ = "string \<rightharpoonup> string"

section \<open>Reading the environment\<close>

definition value_error :: "string \<Rightarrow> exn" where
  "value_error m = Exn ValueError (Text m)"

definition env_str :: "environ \<Rightarrow> string \<Rightarrow> string \<Rightarrow> string" where
  "env_str e name d = (case e name of Some v \<Rightarrow> v | None \<Rightarrow> d)"

definition env_bool :: "environ \<Rightarrow> string \<Rightarrow> bool \<Rightarrow> bool" where
  "env_bool e name d = (case e name of None \<Rightarrow> d
     | Some v \<Rightarrow> str_lower v \<in> {''true'', ''1'', ''yes'', ''on''})"

fun split_on :: "char \<Rightarrow> string \<Rightarrow> string list" where
  "split_on c [] = [[]]"
| "split_on c (x # s) = (if x = c then [] # split_on c s
     else case split_on c s of p # ps \<Rightarrow> (x # p) # ps | [] \<Rightarrow> [[x]])"

definition env_list :: "environ \<Rightarrow> string \<Rightarrow> string \<Rightarrow> string list" where
  "env_list e name d = filter (\<lambda>s. s \<noteq> []) (map str_strip (split_on CHR '','' (env_str e name d)))"

definition parse_int :: "string \<Rightarrow> exn + int" where
  "parse_int s = (case py_int s of Some n \<Rightarrow> Inr n | None \<Rightarrow> Inl (value_error ''invalid literal for int()''))"

definition env_int :: "environ \<Rightarrow> string \<Rightarrow> int \<Rightarrow> exn + int" where
  "env_int e name d = (case e name of None \<Rightarrow> Inr d | Some v \<Rightarrow> parse_int v)"

text \<open>A time of day in minutes\<close>

definition env_time :: "environ \<Rightarrow> string \<Rightarrow> string \<Rightarrow> exn + int" where
  "env_time e name d =
     (case split_on CHR '':'' (env_str e name d) of
        [h, m] \<Rightarrow> (case parse_int h of Inl x \<Rightarrow> Inl x
          | Inr hour \<Rightarrow> (case parse_int m of Inl x \<Rightarrow> Inl x
            | Inr minute \<Rightarrow> if 0 \<le> hour \<and> hour \<le> 23 \<and> 0 \<le> minute \<and> minute \<le> 59
                then Inr (60 * hour + minute) else Inl (value_error ''hour must be in 0..23'')))
      | _ \<Rightarrow> Inl (value_error ''values to unpack''))"

definition first_set :: "string list \<Rightarrow> string" where
  "first_set vs = (case filter (\<lambda>v. v \<noteq> []) vs of v # _ \<Rightarrow> v | [] \<Rightarrow> [])"

definition ends_with :: "string \<Rightarrow> string \<Rightarrow> bool" where
  "ends_with s p \<longleftrightarrow> length p \<le> length s \<and> drop (length s - length p) s = p"

section \<open>The settings\<close>

record settings =
  SECRET_KEY :: string
  DEBUG :: bool
  ALLOWED_HOSTS :: "string list"
  CSRF_TRUSTED_ORIGINS :: "string list"
  CONN_MAX_AGE :: int
  CONNECT_TIMEOUT :: int
  SITE_URL :: string
  REDIS_URL :: string
  CACHE_TIMEOUT_CATALOG :: int
  REDIS_CACHE :: bool
  CELERY_BROKER_URL :: string
  CELERY_RESULT_BACKEND :: string
  MIDDLEWARE :: "string list"
  RATE_LIMIT_PATHS :: "(string \<times> int \<times> int) list"
  SMS_PROVIDER :: string
  SMS_ENABLED :: bool
  KAVENEGAR_API_KEY :: string
  KAVENEGAR_SENDER :: string
  SMS_QUIET_HOURS_START :: int
  SMS_QUIET_HOURS_END :: int
  SMS_RATE_LIMIT_PER_USER_PER_DAY :: int
  SMS_DEDUPE_WINDOW_SECONDS :: int
  CART_RESERVATION_MINUTES :: int
  NOTIFICATIONS_EMAIL_ENABLED :: bool
  NOTIFICATIONS_EMAIL_PROVIDER :: string
  DEFAULT_FROM_EMAIL :: string
  SERVER_EMAIL :: string
  CAREERS_STAFF_EMAIL :: string
  EMAIL_BACKEND :: string
  LOYALTY_POINTS_PER_1000_TOMAN :: int
  LOYALTY_SILVER_THRESHOLD :: int
  LOYALTY_GOLD_THRESHOLD :: int
  ABANDONED_CART_HOURS :: int
  ABANDONED_CART_STEP2_HOURS :: int
  ABANDONED_CART_MAX_REMINDERS :: int
  ABANDONED_CART_HIGH_VALUE_THRESHOLD :: int
  REFERRAL_REWARD_POINTS :: int
  REFERRAL_ONBOARDING_COUPON :: string
  DEFAULT_PAYMENT_METHOD :: string
  DEFAULT_PAYMENT_PROVIDER :: string
  ONLINE_PAYMENT_CURRENCY :: string
  ZARINPAL_MERCHANT_ID :: string
  ZARINPAL_SANDBOX :: bool
  ZARINPAL_CALLBACK_URL :: string
  STRIPE_ENABLED :: bool
  STRIPE_PUBLISHABLE_KEY :: string
  STRIPE_SECRET_KEY :: string
  STRIPE_WEBHOOK_SECRET :: string
  STRIPE_CURRENCY :: string
  PAYMENT_SUCCESS_URL :: string
  PAYMENT_CANCEL_URL :: string

definition BASE_MIDDLEWARE :: "string list" where
  "BASE_MIDDLEWARE = [''SecurityMiddleware'', ''SessionMiddleware'', ''LocaleMiddleware'',
     ''CafeTableSessionMiddleware'', ''CommonMiddleware'', ''CsrfViewMiddleware'', ''AuthenticationMiddleware'',
     ''MessageMiddleware'', ''XFrameOptionsMiddleware'']"

definition in_test_settings :: "environ \<Rightarrow> bool" where
  "in_test_settings e \<longleftrightarrow> ends_with (env_str e ''DJANGO_SETTINGS_MODULE'' []) ''.test''"

text \<open>The numbers and times are read in the order of the file; the first one that does not parse is reported.\<close>

fun read_ints :: "environ \<Rightarrow> (string \<times> int) list \<Rightarrow> exn + int list" where
  "read_ints e [] = Inr []"
| "read_ints e ((name, d) # rest) = (case env_int e name d of Inl x \<Rightarrow> Inl x
     | Inr n \<Rightarrow> (case read_ints e rest of Inl x \<Rightarrow> Inl x | Inr ns \<Rightarrow> Inr (n # ns)))"

definition EARLY_INTS :: "(string \<times> int) list" where
  "EARLY_INTS = [(''DB_CONN_MAX_AGE'', 0), (''DB_CONNECT_TIMEOUT'', 10), (''CACHE_TIMEOUT_CATALOG'', 300)]"

definition LATE_INTS :: "(string \<times> int) list" where
  "LATE_INTS = [(''SMS_RATE_LIMIT_PER_USER_PER_DAY'', 3), (''SMS_DEDUPE_WINDOW_SECONDS'', 300),
     (''CART_RESERVATION_MINUTES'', 30), (''LOYALTY_POINTS_PER_1000_TOMAN'', 10), (''LOYALTY_SILVER_THRESHOLD'', 1000),
     (''LOYALTY_GOLD_THRESHOLD'', 5000), (''ABANDONED_CART_HOURS'', 2), (''ABANDONED_CART_STEP2_HOURS'', 24),
     (''ABANDONED_CART_MAX_REMINDERS'', 3), (''ABANDONED_CART_HIGH_VALUE_THRESHOLD'', 500000),
     (''REFERRAL_REWARD_POINTS'', 100)]"

definition build_settings :: "environ \<Rightarrow> int list \<Rightarrow> int \<Rightarrow> int \<Rightarrow> int list \<Rightarrow> settings" where
  "build_settings e early quiet_start quiet_end late =
     \<lparr>SECRET_KEY = env_str e ''SECRET_KEY'' [], DEBUG = env_bool e ''DEBUG'' False,
      ALLOWED_HOSTS = env_list e ''ALLOWED_HOSTS'' ''localhost,127.0.0.1'',
      CSRF_TRUSTED_ORIGINS = env_list e ''CSRF_TRUSTED_ORIGINS'' [],
      CONN_MAX_AGE = early ! 0, CONNECT_TIMEOUT = early ! 1,
      SITE_URL = env_str e ''SITE_URL'' ''http://localhost:8000'',
      REDIS_URL = env_str e ''REDIS_URL'' [], CACHE_TIMEOUT_CATALOG = early ! 2,
      REDIS_CACHE = (env_str e ''REDIS_URL'' [] \<noteq> []),
      CELERY_BROKER_URL = env_str e ''CELERY_BROKER_URL'' ''redis://localhost:6379/0'',
      CELERY_RESULT_BACKEND = env_str e ''CELERY_RESULT_BACKEND''
        (env_str e ''CELERY_BROKER_URL'' ''redis://localhost:6379/0''),
      MIDDLEWARE = BASE_MIDDLEWARE, RATE_LIMIT_PATHS = [(''/accounts/login/'', 10, 60), (''/checkout/'', 5, 60)],
      SMS_PROVIDER = env_str e ''SMS_PROVIDER'' ''console'', SMS_ENABLED = env_bool e ''SMS_ENABLED'' True,
      KAVENEGAR_API_KEY = env_str e ''KAVENEGAR_API_KEY'' [], KAVENEGAR_SENDER = env_str e ''KAVENEGAR_SENDER'' [],
      SMS_QUIET_HOURS_START = quiet_start, SMS_QUIET_HOURS_END = quiet_end,
      SMS_RATE_LIMIT_PER_USER_PER_DAY = late ! 0, SMS_DEDUPE_WINDOW_SECONDS = late ! 1,
      CART_RESERVATION_MINUTES = late ! 2,
      NOTIFICATIONS_EMAIL_ENABLED = env_bool e ''NOTIFICATIONS_EMAIL_ENABLED'' True,
      NOTIFICATIONS_EMAIL_PROVIDER = env_str e ''NOTIFICATIONS_EMAIL_PROVIDER'' ''django'',
      DEFAULT_FROM_EMAIL = env_str e ''DEFAULT_FROM_EMAIL'' ''noreply@crumbs.local'',
      SERVER_EMAIL = env_str e ''SERVER_EMAIL'' (env_str e ''DEFAULT_FROM_EMAIL'' ''noreply@crumbs.local''),
      CAREERS_STAFF_EMAIL = env_str e ''CAREERS_STAFF_EMAIL'' [],
      EMAIL_BACKEND = env_str e ''EMAIL_BACKEND'' ''django.core.mail.backends.console.EmailBackend'',
      LOYALTY_POINTS_PER_1000_TOMAN = late ! 3, LOYALTY_SILVER_THRESHOLD = late ! 4, LOYALTY_GOLD_THRESHOLD = late ! 5,
      ABANDONED_CART_HOURS = late ! 6, ABANDONED_CART_STEP2_HOURS = late ! 7,
      ABANDONED_CART_MAX_REMINDERS = late ! 8, ABANDONED_CART_HIGH_VALUE_THRESHOLD = late ! 9,
      REFERRAL_REWARD_POINTS = late ! 10,
      REFERRAL_ONBOARDING_COUPON = env_str e ''REFERRAL_ONBOARDING_COUPON'' ''WELCOME10'',
      DEFAULT_PAYMENT_METHOD = env_str e ''DEFAULT_PAYMENT_METHOD'' ''online'',
      DEFAULT_PAYMENT_PROVIDER = first_set [env_str e ''DEFAULT_PAYMENT_PROVIDER'' [], env_str e ''PAYMENT_PROVIDER'' [],
        if in_test_settings e then ''stripe'' else ''zarinpal''],
      ONLINE_PAYMENT_CURRENCY = str_lower (env_str e ''ONLINE_PAYMENT_CURRENCY'' ''irr''),
      ZARINPAL_MERCHANT_ID = env_str e ''ZARINPAL_MERCHANT_ID'' [],
      ZARINPAL_SANDBOX = env_bool e ''ZARINPAL_SANDBOX'' (\<not> in_test_settings e),
      ZARINPAL_CALLBACK_URL = env_str e ''ZARINPAL_CALLBACK_URL'' [],
      STRIPE_ENABLED = env_bool e ''STRIPE_ENABLED'' (in_test_settings e),
      STRIPE_PUBLISHABLE_KEY = env_str e ''STRIPE_PUBLISHABLE_KEY'' [],
      STRIPE_SECRET_KEY = env_str e ''STRIPE_SECRET_KEY'' [],
      STRIPE_WEBHOOK_SECRET = env_str e ''STRIPE_WEBHOOK_SECRET'' [],
      STRIPE_CURRENCY = str_lower (env_str e ''STRIPE_CURRENCY'' ''irr''),
      PAYMENT_SUCCESS_URL = env_str e ''PAYMENT_SUCCESS_URL'' ''http://localhost:8000/admin/orders/order/'',
      PAYMENT_CANCEL_URL = env_str e ''PAYMENT_CANCEL_URL'' ''http://localhost:8000/admin/orders/order/''\<rparr>"

definition base_settings :: "environ \<Rightarrow> exn + settings" where
  "base_settings e =
     (if env_str e ''SECRET_KEY'' [] = [] then Inl (value_error ''SECRET_KEY environment variable is required.'')
      else case read_ints e EARLY_INTS of Inl x \<Rightarrow> Inl x
      | Inr early \<Rightarrow> (case env_time e ''SMS_QUIET_HOURS_START'' ''22:00'' of Inl x \<Rightarrow> Inl x
      | Inr quiet_start \<Rightarrow> (case env_time e ''SMS_QUIET_HOURS_END'' ''08:00'' of Inl x \<Rightarrow> Inl x
      | Inr quiet_end \<Rightarrow> (case read_ints e LATE_INTS of Inl x \<Rightarrow> Inl x
      | Inr late \<Rightarrow> Inr (build_settings e early quiet_start quiet_end late)))))"

section \<open>Production\<close>

record production = settings +
  SECURE_SSL_REDIRECT :: bool
  SESSION_COOKIE_SECURE :: bool
  CSRF_COOKIE_SECURE :: bool
  SECURE_HSTS_SECONDS :: int
  SECURE_HSTS_INCLUDE_SUBDOMAINS :: bool
  SECURE_HSTS_PRELOAD :: bool
  SESSION_COOKIE_HTTPONLY :: bool
  CSRF_COOKIE_HTTPONLY :: bool
  SESSION_COOKIE_SAMESITE :: string
  CSRF_COOKIE_SAMESITE :: string
  SECURE_CONTENT_TYPE_NOSNIFF :: bool
  X_FRAME_OPTIONS :: string
  SECURE_REFERRER_POLICY :: string
  USE_X_FORWARDED_HOST :: bool
  USE_X_FORWARDED_PORT :: bool
  WARNINGS :: "string list"

definition LOCAL_ALLOWED_HOSTS :: "string set" where
  "LOCAL_ALLOWED_HOSTS = {''localhost'', ''127.0.0.1'', ''0.0.0.0''}"

definition allowed_hosts_is_local_only :: "string list \<Rightarrow> bool" where
  "allowed_hosts_is_local_only hosts \<longleftrightarrow> hosts = [] \<or> set hosts \<subseteq> LOCAL_ALLOWED_HOSTS"

definition insert_second :: "'a \<Rightarrow> 'a list \<Rightarrow> 'a list" where
  "insert_second x xs = take 1 xs @ x # drop 1 xs"

definition prod_middleware :: "environ \<Rightarrow> string list \<Rightarrow> string list" where
  "prod_middleware e ms =
     insert_second ''GZipMiddleware''
       (if env_bool e ''USE_WHITENOISE'' False then insert_second ''WhiteNoiseMiddleware'' ms else ms) @
     [''RequestLogContextMiddleware'', ''RateLimitMiddleware'']"

definition hosts_checked :: "environ \<Rightarrow> settings \<Rightarrow> exn + string list" where
  "hosts_checked e s =
     (if allowed_hosts_is_local_only (ALLOWED_HOSTS s)
      then if env_bool e ''LOCAL_PROD_DRY_RUN'' False then Inr [''ALLOWED_HOSTS is localhost-only'']
        else Inl (value_error ''ALLOWED_HOSTS must include your production domain(s).'')
      else if ALLOWED_HOSTS s = [] then Inl (value_error ''ALLOWED_HOSTS must not be empty in production.'')
      else Inr [])"

text \<open>Seconds, subdomains and preload of HSTS, and whether requests are redirected to TLS\<close>

definition https_checked :: "environ \<Rightarrow> settings \<Rightarrow> exn + (bool \<times> int \<times> bool \<times> bool)" where
  "https_checked e s =
     (if \<not> env_bool e ''ENABLE_HTTPS'' False then Inr (False, 0, False, False)
      else case env_int e ''SECURE_HSTS_SECONDS'' 31536000 of Inl x \<Rightarrow> Inl x
      | Inr hsts \<Rightarrow>
          if \<not> Guards.starts_with (SITE_URL s) ''https://''
            then Inl (value_error ''ENABLE_HTTPS=True requires SITE_URL to start with https://'')
          else if CSRF_TRUSTED_ORIGINS s = []
            then Inl (value_error ''ENABLE_HTTPS=True requires CSRF_TRUSTED_ORIGINS to be set.'')
          else Inr (env_bool e ''SECURE_SSL_REDIRECT'' True, if 0 < hsts then hsts else 31536000,
            env_bool e ''SECURE_HSTS_INCLUDE_SUBDOMAINS'' True, env_bool e ''SECURE_HSTS_PRELOAD'' False))"

definition prod_provider :: "environ \<Rightarrow> settings \<Rightarrow> string" where
  "prod_provider e s =
     (if env_str e ''DEFAULT_PAYMENT_PROVIDER'' [] = [] \<and> env_str e ''PAYMENT_PROVIDER'' [] = []
      then ''zarinpal'' else DEFAULT_PAYMENT_PROVIDER s)"

text \<open>The rate of traces is read as a number, which \<open>float\<close> accepts or not, when reports are sent.\<close>

definition sentry_checked :: "(string \<Rightarrow> bool) \<Rightarrow> environ \<Rightarrow> exn + unit" where
  "sentry_checked is_float e =
     (if env_str e ''SENTRY_DSN'' [] \<noteq> [] \<and> \<not> is_float (env_str e ''SENTRY_TRACES_SAMPLE_RATE'' ''0.1'')
      then Inl (value_error ''could not convert string to float'') else Inr ())"

definition prod_settings :: "(string \<Rightarrow> bool) \<Rightarrow> environ \<Rightarrow> exn + production" where
  "prod_settings is_float e =
     (case base_settings e of Inl x \<Rightarrow> Inl x
      | Inr s \<Rightarrow>
     if env_bool e ''DEBUG'' False then Inl (value_error ''DEBUG must be False in config.settings.prod.'')
     else case hosts_checked e s of Inl x \<Rightarrow> Inl x
      | Inr host_warnings \<Rightarrow>
     if env_bool e ''SECURE_SSL_REDIRECT'' False \<and> \<not> env_bool e ''ENABLE_HTTPS'' False
       then Inl (value_error ''SECURE_SSL_REDIRECT=True requires ENABLE_HTTPS=True.'')
     else case https_checked e s of Inl x \<Rightarrow> Inl x
      | Inr (redirect, hsts, subdomains, preload) \<Rightarrow>
     (case env_int e ''DB_CONN_MAX_AGE'' 600 of Inl x \<Rightarrow> Inl x
      | Inr max_age \<Rightarrow>
     case sentry_checked is_float e of Inl x \<Rightarrow> Inl x
      | Inr _ \<Rightarrow>
     let stripe = env_bool e ''STRIPE_ENABLED'' False; prov = prod_provider e s; https = env_bool e ''ENABLE_HTTPS'' False in
     if prov = ''stripe'' \<and> \<not> stripe
       then Inl (value_error ''DEFAULT_PAYMENT_PROVIDER=stripe requires STRIPE_ENABLED=True in production.'')
     else Inr (settings.extend
       (s\<lparr>DEBUG := False, CONN_MAX_AGE := max_age, MIDDLEWARE := prod_middleware e (MIDDLEWARE s),
          STRIPE_ENABLED := stripe, ZARINPAL_SANDBOX := env_bool e ''ZARINPAL_SANDBOX'' False,
          DEFAULT_PAYMENT_PROVIDER := prov\<rparr>)
       (production.fields redirect https https hsts subdomains preload True True ''Lax'' ''Lax'' True ''DENY''
         ''strict-origin-when-cross-origin'' (env_bool e ''USE_X_FORWARDED_HOST'' True) (env_bool e ''USE_X_FORWARDED_PORT'' True)
         (host_warnings @
          (if REDIS_URL s = [] then [''REDIS_URL is not set.''] else []) @
          (if env_str e ''CELERY_BROKER_URL'' [] = [] then [''CELERY_BROKER_URL is not set.''] else []) @
          (if stripe then [''STRIPE_ENABLED=True in production.''] else []))))))"

section \<open>Settings at work\<close>

definition with_settings :: "settings \<Rightarrow> env \<Rightarrow> env" where
  "with_settings s env = env\<lparr>
     cart_reservation_minutes := CART_RESERVATION_MINUTES s, online_payment_currency := ONLINE_PAYMENT_CURRENCY s,
     stripe_enabled := STRIPE_ENABLED s, stripe_secret_key := STRIPE_SECRET_KEY s,
     stripe_webhook_secret := STRIPE_WEBHOOK_SECRET s, zarinpal_merchant_id := ZARINPAL_MERCHANT_ID s,
     zarinpal_sandbox := ZARINPAL_SANDBOX s, zarinpal_callback_url := ZARINPAL_CALLBACK_URL s,
     payment_success_url := PAYMENT_SUCCESS_URL s, loyalty_gold_threshold := LOYALTY_GOLD_THRESHOLD s,
     loyalty_silver_threshold := LOYALTY_SILVER_THRESHOLD s, loyalty_points_per_1000 := LOYALTY_POINTS_PER_1000_TOMAN s,
     referral_reward_points := REFERRAL_REWARD_POINTS s, referral_onboarding_coupon := REFERRAL_ONBOARDING_COUPON s\<rparr>"

definition retention_settings_of :: "settings \<Rightarrow> retention_settings" where
  "retention_settings_of s =
     \<lparr>abandoned_cart_hours = ABANDONED_CART_HOURS s, abandoned_cart_step2_hours = ABANDONED_CART_STEP2_HOURS s,
      abandoned_cart_high_value = 100 * ABANDONED_CART_HIGH_VALUE_THRESHOLD s,
      abandoned_cart_max_reminders = ABANDONED_CART_MAX_REMINDERS s, site_url = SITE_URL s\<rparr>"

text \<open>
  C25: Production starts only with a secret key, without debugging, with a host that is not local
  unless a dry run is asked for, and with the payment provider Stripe only when Stripe is on. Cookies are secure
  and browsers are told to stay on TLS exactly when TLS is enabled, which needs an address with TLS and trusted
  origins; requests are redirected only then. The rate limiter is the last middleware and the security middleware
  the first.
\<close>

theorem production_is_guarded:
  assumes "prod_settings is_float e = Inr s"
  shows "SECRET_KEY s \<noteq> [] \<and> \<not> DEBUG s \<and> \<not> env_bool e ''DEBUG'' False \<and>
    (env_bool e ''LOCAL_PROD_DRY_RUN'' False \<or> (\<exists>h\<in>set (ALLOWED_HOSTS s). h \<notin> LOCAL_ALLOWED_HOSTS)) \<and>
    (DEFAULT_PAYMENT_PROVIDER s = ''stripe'' \<longrightarrow> STRIPE_ENABLED s) \<and>
    SESSION_COOKIE_SECURE s = env_bool e ''ENABLE_HTTPS'' False \<and>
    CSRF_COOKIE_SECURE s = env_bool e ''ENABLE_HTTPS'' False \<and>
    (0 < SECURE_HSTS_SECONDS s \<longleftrightarrow> env_bool e ''ENABLE_HTTPS'' False) \<and>
    (SECURE_SSL_REDIRECT s \<longrightarrow> env_bool e ''ENABLE_HTTPS'' False) \<and>
    (env_bool e ''ENABLE_HTTPS'' False \<longrightarrow> Guards.starts_with (SITE_URL s) ''https://'' \<and> CSRF_TRUSTED_ORIGINS s \<noteq> []) \<and>
    hd (MIDDLEWARE s) = ''SecurityMiddleware'' \<and> last (MIDDLEWARE s) = ''RateLimitMiddleware''"
proof -
  from assms obtain b ws red hsts sub pre age where
    b: "base_settings e = Inr b" and dbg: "\<not> env_bool e ''DEBUG'' False" and ws: "hosts_checked e b = Inr ws"
    and https: "https_checked e b = Inr (red, hsts, sub, pre)"
    and st: "prod_provider e b = ''stripe'' \<longrightarrow> env_bool e ''STRIPE_ENABLED'' False"
    and s: "SECRET_KEY s = SECRET_KEY b" "ALLOWED_HOSTS s = ALLOWED_HOSTS b" "DEBUG s = False" "SITE_URL s = SITE_URL b"
      "CSRF_TRUSTED_ORIGINS s = CSRF_TRUSTED_ORIGINS b" "MIDDLEWARE s = prod_middleware e (MIDDLEWARE b)"
      "STRIPE_ENABLED s = env_bool e ''STRIPE_ENABLED'' False" "DEFAULT_PAYMENT_PROVIDER s = prod_provider e b"
      "SECURE_SSL_REDIRECT s = red" "SESSION_COOKIE_SECURE s = env_bool e ''ENABLE_HTTPS'' False"
      "CSRF_COOKIE_SECURE s = env_bool e ''ENABLE_HTTPS'' False" "SECURE_HSTS_SECONDS s = hsts"
    by (auto simp: prod_settings_def Let_def settings.defs production.defs split: sum.splits if_splits prod.splits)
  have "SECRET_KEY b \<noteq> []" "MIDDLEWARE b = BASE_MIDDLEWARE"
    using b by (auto simp: base_settings_def build_settings_def split: if_splits sum.splits)
  moreover have "env_bool e ''LOCAL_PROD_DRY_RUN'' False \<or> (\<exists>h\<in>set (ALLOWED_HOSTS b). h \<notin> LOCAL_ALLOWED_HOSTS)"
    using ws by (auto simp: hosts_checked_def allowed_hosts_is_local_only_def split: if_splits)
  moreover have "(0 < hsts \<longleftrightarrow> env_bool e ''ENABLE_HTTPS'' False) \<and> (red \<longrightarrow> env_bool e ''ENABLE_HTTPS'' False) \<and>
      (env_bool e ''ENABLE_HTTPS'' False \<longrightarrow> Guards.starts_with (SITE_URL b) ''https://'' \<and> CSRF_TRUSTED_ORIGINS b \<noteq> [])"
    using https by (auto simp: https_checked_def split: if_splits sum.splits)
  moreover have "hd (prod_middleware e BASE_MIDDLEWARE) = ''SecurityMiddleware''"
    "last (prod_middleware e BASE_MIDDLEWARE) = ''RateLimitMiddleware''"
    by (simp_all add: prod_middleware_def insert_second_def BASE_MIDDLEWARE_def)
  ultimately show ?thesis using dbg st s by simp
qed

text \<open>The check for an empty list of hosts is never reached: a dry run starts without any host.\<close>

lemma no_hosts_pass:
  "ALLOWED_HOSTS s = [] \<Longrightarrow> env_bool e ''LOCAL_PROD_DRY_RUN'' False \<Longrightarrow>
    hosts_checked e s = Inr [''ALLOWED_HOSTS is localhost-only'']"
  "hosts_checked e s \<noteq> Inl (value_error ''ALLOWED_HOSTS must not be empty in production.'')"
  by (auto simp: hosts_checked_def allowed_hosts_is_local_only_def value_error_def)

definition demo_environ :: environ where
  "demo_environ = [''SECRET_KEY'' \<mapsto> ''k'', ''ALLOWED_HOSTS'' \<mapsto> ''crumbs.ir, www.crumbs.ir'', ''ENABLE_HTTPS'' \<mapsto> ''True'',
     ''SITE_URL'' \<mapsto> ''https://crumbs.ir'', ''CSRF_TRUSTED_ORIGINS'' \<mapsto> ''https://crumbs.ir'']"

lemma production_is_guarded_witness:
  "\<exists>s. prod_settings (\<lambda>s. True) demo_environ = Inr s \<and> \<not> DEBUG s \<and> SESSION_COOKIE_SECURE s"
proof -
  have "\<not> isl (prod_settings (\<lambda>s. True) demo_environ)" by code_simp
  then obtain s where s: "prod_settings (\<lambda>s. True) demo_environ = Inr s" by (cases "prod_settings (\<lambda>s. True) demo_environ") auto
  have "env_bool demo_environ ''ENABLE_HTTPS'' False" by code_simp
  with production_is_guarded [OF s] s show ?thesis by blast
qed

end
