(* ===== verification/Snapshots.thy ===== *)
theory Snapshots
  imports Reports Baking
begin

text \<open>
  The figures of the growth dashboard and the rows that keep them per day: the analytics snapshot
  (\<open>apps/growth/services.py\<close>), what campaigns brought in (\<open>attribution_service.py\<close>), the snapshots of
  revenue and conversions (\<open>revenue_analytics.py\<close>, \<open>tasks.py\<close>) and of the insights
  (\<open>apps/intelligence/insights_service.py\<close>). Times that the rows of the model do not carry and the names of
  segments are an argument.
\<close>

section \<open>Analytics\<close>

record stamps =
  attributed_at :: "attribution \<Rightarrow> timestamp"
  redeemed_at :: "redemption \<Rightarrow> timestamp"
  touched_at :: "tracker \<Rightarrow> timestamp"
  segment_name :: "nat \<Rightarrow> string"

text \<open>The rows of each key: how many, and the sum of a column\<close>

definition grouped :: "('a \<Rightarrow> 'k) \<Rightarrow> ('a \<Rightarrow> int) \<Rightarrow> 'a list \<Rightarrow> ('k \<times> int \<times> int) list" where
  "grouped key f xs = foldl (\<lambda>d x. dict_alter (key x) (\<lambda>(n, s). (n + 1, s + f x)) (0, 0) d) [] xs"

definition trackers_of :: "world \<Rightarrow> tracker list" where
  "trackers_of w = List.map_filter (\<lambda>c. g_trackers (growth w) (cart_id c)) (carts w)"

definition count_if :: "('a \<Rightarrow> bool) \<Rightarrow> 'a list \<Rightarrow> int" where
  "count_if P xs = int (length (filter P xs))"

definition top_products_since :: "timestamp \<Rightarrow> world \<Rightarrow> (string \<times> int \<times> money) list" where
  "top_products_since since w =
     take 10 (sort_key (\<lambda>(k, n, r). - r) (foldl (\<lambda>d (x, od). dict_alter (oi_product_name x)
       (\<lambda>(n, r). (n + oi_quantity x, r + oi_line_total x)) (0, 0) d) []
         (items_where (\<lambda>od. is_paid_order od \<and> since \<le> ord_created_at od) w)))"

text \<open>Usernames are unique, so that a customer is the id of the user.\<close>

definition top_customers_since :: "timestamp \<Rightarrow> world \<Rightarrow> (nat \<times> int \<times> money) list" where
  "top_customers_since since w =
     take 10 (sort_key (\<lambda>(u, n, r). - r)
       (grouped (\<lambda>od. the (ord_user od)) ord_total (filter (\<lambda>od. ord_user od \<noteq> None) (paid_since since w))))"

definition segment_counts :: "stamps \<Rightarrow> world \<Rightarrow> (string \<times> int) list" where
  "segment_counts st w =
     map (\<lambda>(k, n, _). (k, n)) (sort_key (\<lambda>(k, n, _). - n)
       (grouped (\<lambda>(u, s). segment_name st s) (\<lambda>_. 0) (g_memberships (growth w))))"

text \<open>By the text of the tier; \<open>us\<close> are the users.\<close>

definition loyalty_counts :: "nat list \<Rightarrow> world \<Rightarrow> (tier \<times> int) list" where
  "loyalty_counts us w =
     (let tiers = map la_tier (List.map_filter (g_accounts (growth w)) us) in
      filter (\<lambda>(t, n). n \<noteq> 0) (map (\<lambda>t. (t, count_if (\<lambda>x. x = t) tiers)) [TIER_GOLD, TIER_NORMAL, TIER_SILVER]))"

text \<open>\<open>money / count\<close> in the decimals of the context\<close>

definition average :: "money \<Rightarrow> int \<Rightarrow> rat" where
  "average m n = (if n \<noteq> 0 then decimal (of_int m / 100 / of_int n) else 0)"

record analytics =
  an_days :: int
  an_revenue :: money
  an_order_count :: int
  an_avg_order_value :: rat
  an_top_products :: "(string \<times> int \<times> money) list"
  an_top_customers :: "(nat \<times> int \<times> money) list"
  an_sms_sent :: int
  an_sms_failed :: int
  an_abandoned_active :: int
  an_abandoned_recovered :: int
  an_segment_counts :: "(string \<times> int) list"
  an_loyalty_counts :: "(tier \<times> int) list"

definition get_analytics_snapshot :: "env \<Rightarrow> stamps \<Rightarrow> nat list \<Rightarrow> int \<Rightarrow> world \<Rightarrow> analytics" where
  "get_analytics_snapshot env st us n w =
     (let since = now env - days n;
          paid = paid_since since w;
          revenue = sum_list (map ord_total paid);
          sms = (\<lambda>s. count_if (\<lambda>l. sl_status l = s \<and> since \<le> sl_created_at l) (sms_logs w))
      in \<lparr>an_days = n, an_revenue = revenue, an_order_count = int (length paid),
          an_avg_order_value = average revenue (int (length paid)),
          an_top_products = top_products_since since w, an_top_customers = top_customers_since since w,
          an_sms_sent = sms SMS_SENT, an_sms_failed = sms SMS_FAILED,
          an_abandoned_active = count_if (\<lambda>t. tr_status t \<in> {TR_ACTIVE, TR_REMINDED}) (trackers_of w),
          an_abandoned_recovered = count_if (\<lambda>t. tr_status t = TR_RECOVERED \<and> since \<le> touched_at st t) (trackers_of w),
          an_segment_counts = segment_counts st w, an_loyalty_counts = loyalty_counts us w\<rparr>)"

section \<open>Campaigns\<close>

definition coupon_performance :: "stamps \<Rightarrow> timestamp \<Rightarrow> world \<Rightarrow> (string \<times> int \<times> money) list" where
  "coupon_performance st since w =
     sort_key (\<lambda>(k, n, s). - s) (grouped at_label at_amount
       (filter (\<lambda>a. at_source a = SRC_COUPON \<and> since \<le> attributed_at st a) (g_attributions (growth w))))"

definition referral_leaderboard :: "nat \<Rightarrow> world \<Rightarrow> (nat \<times> int \<times> int) list" where
  "referral_leaderboard limit w =
     take limit (sort_key (\<lambda>(u, n, p). - n) (grouped rf_referrer rf_points
       (filter (\<lambda>r. rf_status r = RF_REWARDED) (g_referrals (growth w)))))"

section \<open>Revenue of a day\<close>

definition on_day :: "calendar \<Rightarrow> date \<Rightarrow> timestamp \<Rightarrow> bool" where
  "on_day cal d t \<longleftrightarrow> day_start cal d \<le> t \<and> t < day_start cal (d + 1)"

definition paid_on :: "calendar \<Rightarrow> date \<Rightarrow> world \<Rightarrow> order list" where
  "paid_on cal d w = filter (\<lambda>od. is_paid_order od \<and> on_day cal d (ord_created_at od)) (orders w)"

definition orders_per_customer :: "order list \<Rightarrow> (nat \<times> int \<times> int) list" where
  "orders_per_customer paid = grouped (\<lambda>od. the (ord_user od)) (\<lambda>_. 0) (filter (\<lambda>od. ord_user od \<noteq> None) paid)"

record revenue_report =
  rr_date :: date
  rr_gross :: money
  rr_discount :: money
  rr_net :: money
  rr_order_count :: int
  rr_avg_order_value :: rat
  rr_repeat_rate :: int
  rr_redemptions :: int
  rr_referrals :: int
  rr_sms_revenue :: money
  rr_coupons :: "(string \<times> int \<times> money) list"

definition build_daily_revenue_snapshot :: "calendar \<Rightarrow> stamps \<Rightarrow> world \<Rightarrow> date \<Rightarrow> revenue_report" where
  "build_daily_revenue_snapshot cal st w d =
     (let paid = paid_on cal d w;
          gross = sum_list (map ord_total paid);
          customers = orders_per_customer paid;
          g = growth w
      in \<lparr>rr_date = d, rr_gross = gross, rr_discount = sum_list (map ord_discount paid), rr_net = gross,
          rr_order_count = int (length paid), rr_avg_order_value = average gross (int (length paid)),
          rr_repeat_rate = round2 (rate (count_if (\<lambda>(u, n, _). 1 < n) customers) (int (length customers))),
          rr_redemptions = count_if (\<lambda>r. on_day cal d (redeemed_at st r)) (g_redemptions g),
          rr_referrals = count_if (\<lambda>r. rf_status r = RF_REWARDED \<and>
            (case rf_rewarded_at r of Some t \<Rightarrow> on_day cal d t | None \<Rightarrow> False)) (g_referrals g),
          rr_sms_revenue = sum_list (map at_amount
            (filter (\<lambda>a. at_source a = SRC_SMS \<and> on_day cal d (attributed_at st a)) (g_attributions g))),
          rr_coupons = coupon_performance st (day_start cal d) w\<rparr>)"

record funnel_report =
  fr_funnel :: funnel
  fr_abandoned_active :: int
  fr_abandoned_recovered :: int
  fr_date :: date

definition build_funnel_snapshot :: "env \<Rightarrow> calendar \<Rightarrow> stamps \<Rightarrow> nat list \<Rightarrow> world \<Rightarrow> date \<Rightarrow> funnel_report" where
  "build_funnel_snapshot env cal st us w d =
     (let base = get_analytics_snapshot env st us 1 w in
      \<lparr>fr_funnel = aggregate_funnel cal (day_start cal d) (Some (day_start cal (d + 1))) w,
       fr_abandoned_active = an_abandoned_active base, fr_abandoned_recovered = an_abandoned_recovered base,
       fr_date = d\<rparr>)"

section \<open>Stored snapshots\<close>

record snapshots =
  sn_analytics :: "(date \<times> analytics) list"
  sn_revenue :: "(date \<times> revenue_report) list"
  sn_funnel :: "(date \<times> funnel_report) list"
  sn_insights :: "(date \<times> insights) list"

type_synonym 'a N = "(snapshots, exn, 'a) prog"

text \<open>
  A payload is the dictionary that the code builds, with its keys. It goes into a \<open>JSONField\<close> without an
  encoder of its own: the encoder of the library takes numbers, texts, lists and dictionaries and raises
  \<open>TypeError\<close> at the first decimal, at any depth. A float is its hundredths, \<open>str(...)\<close> of a decimal or a date stands
  for its text, and the four names of a top customer for the user.
\<close>

datatype py =
    Py_Int int | Py_Float int | Py_Str string | Py_Str_Of rat | Py_Str_Of_Date date | Py_Decimal rat
  | Py_List "py list" | Py_Dict "(string \<times> py) list"

fun encodable :: "py \<Rightarrow> bool" where
  "encodable (Py_Decimal r) \<longleftrightarrow> False"
| "encodable (Py_List xs) \<longleftrightarrow> (\<forall>x\<in>set xs. encodable x)"
| "encodable (Py_Dict kvs) \<longleftrightarrow> (\<forall>kv\<in>set kvs. encodable (snd kv))"
| "encodable v \<longleftrightarrow> True"

definition not_serializable :: exn where
  "not_serializable = Exn TypeError (Text ''Object of type Decimal is not JSON serializable'')"

definition amount :: "money \<Rightarrow> rat" where
  "amount m = of_int m / 100"

fun tier_text :: "tier \<Rightarrow> string" where
  "tier_text TIER_NORMAL = ''normal''"
| "tier_text TIER_SILVER = ''silver''"
| "tier_text TIER_GOLD = ''gold''"

fun slot_text :: "slot \<Rightarrow> string" where
  "slot_text SLOT_HOME = ''home''"
| "slot_text SLOT_PRODUCT = ''product''"
| "slot_text SLOT_CART = ''cart''"
| "slot_text SLOT_CHECKOUT = ''checkout''"
| "slot_text SLOT_SMS = ''sms''"

definition analytics_payload :: "analytics \<Rightarrow> py" where
  "analytics_payload a = Py_Dict
     [(''days'', Py_Int (an_days a)), (''revenue'', Py_Decimal (amount (an_revenue a))),
      (''order_count'', Py_Int (an_order_count a)), (''avg_order_value'', Py_Decimal (an_avg_order_value a)),
      (''top_products'', Py_List (map (\<lambda>(k, n, r). Py_Dict [(''product_name'', Py_Str k), (''qty'', Py_Int n),
         (''revenue'', Py_Decimal (amount r))]) (an_top_products a))),
      (''top_customers'', Py_List (map (\<lambda>(u, n, r). Py_Dict [(''user'', Py_Int (int u)), (''orders'', Py_Int n),
         (''spent'', Py_Decimal (amount r))]) (an_top_customers a))),
      (''sms_sent'', Py_Int (an_sms_sent a)), (''sms_failed'', Py_Int (an_sms_failed a)),
      (''abandoned_active'', Py_Int (an_abandoned_active a)),
      (''abandoned_recovered'', Py_Int (an_abandoned_recovered a)),
      (''segment_counts'', Py_List (map (\<lambda>(k, n). Py_Dict [(''segment__name'', Py_Str k), (''count'', Py_Int n)])
         (an_segment_counts a))),
      (''loyalty_counts'', Py_List (map (\<lambda>(t, n). Py_Dict [(''tier'', Py_Str (tier_text t)), (''count'', Py_Int n)])
         (an_loyalty_counts a)))]"

definition coupon_rows :: "(string \<times> int \<times> money) list \<Rightarrow> py" where
  "coupon_rows cs = Py_List (map (\<lambda>(k, n, r). Py_Dict [(''source_label'', Py_Str k), (''orders'', Py_Int n),
     (''total_discount'', Py_Decimal (amount r))]) cs)"

definition revenue_payload :: "revenue_report \<Rightarrow> py" where
  "revenue_payload r = Py_Dict
     [(''report_date'', Py_Str_Of_Date (rr_date r)), (''gross_revenue'', Py_Str_Of (amount (rr_gross r))),
      (''discount_total'', Py_Str_Of (amount (rr_discount r))), (''net_revenue'', Py_Str_Of (amount (rr_net r))),
      (''order_count'', Py_Int (rr_order_count r)), (''avg_order_value'', Py_Str_Of (rr_avg_order_value r)),
      (''repeat_customer_rate'', Py_Float (rr_repeat_rate r)), (''coupon_redemptions'', Py_Int (rr_redemptions r)),
      (''referral_conversions'', Py_Int (rr_referrals r)),
      (''sms_attributed_revenue'', Py_Str_Of (amount (rr_sms_revenue r))),
      (''coupon_performance'', coupon_rows (rr_coupons r))]"

definition funnel_entries :: "funnel \<Rightarrow> (string \<times> py) list" where
  "funnel_entries f =
     [(''product_views'', Py_Int (fu_product_views f)), (''add_to_cart'', Py_Int (fu_add_to_cart f)),
      (''checkout_starts'', Py_Int (fu_checkout_starts f)), (''checkout_complete'', Py_Int (fu_checkout_complete f)),
      (''sms_sent'', Py_Int (fu_sms_sent f)), (''sms_conversions'', Py_Int (fu_sms_conversions f)),
      (''view_to_cart_rate'', Py_Float (fu_view_to_cart_rate f)),
      (''cart_to_checkout_rate'', Py_Float (fu_cart_to_checkout_rate f)),
      (''checkout_conversion_rate'', Py_Float (fu_checkout_conversion_rate f)),
      (''sms_conversion_rate'', Py_Float (fu_sms_conversion_rate f)),
      (''cart_abandonment_rate'', Py_Float (fu_cart_abandonment_rate f))]"

definition funnel_payload :: "funnel_report \<Rightarrow> py" where
  "funnel_payload r = Py_Dict (funnel_entries (fr_funnel r) @
     [(''abandoned_active'', Py_Int (fr_abandoned_active r)),
      (''abandoned_recovered'', Py_Int (fr_abandoned_recovered r)),
      (''report_date'', Py_Str_Of_Date (fr_date r))])"

definition product_rows :: "product_report list \<Rightarrow> py" where
  "product_rows rs = Py_List (map (\<lambda>r. Py_Dict [(''product_id'', Py_Int (int (pr_product r))),
     (''name'', Py_Str (pr_name r)), (''units'', Py_Int (pr_units r)),
     (''revenue'', Py_Str_Of (amount (pr_revenue r)))]) rs)"

definition insights_payload :: "date \<Rightarrow> insights \<Rightarrow> py" where
  "insights_payload d x = Py_Dict
     [(''report_date'', Py_Str_Of_Date d), (''revenue'', Py_Str_Of (amount (in_revenue x))),
      (''order_count'', Py_Int (in_order_count x)), (''best_products'', product_rows (in_best x)),
      (''worst_products'', product_rows (in_worst x)),
      (''highest_margin_products'', Py_List (map (\<lambda>p. Py_Dict [(''id'', Py_Int (int (prod_id p))),
         (''name'', Py_Str (prod_name p)), (''price'', Py_Decimal (amount (prod_price p)))]) (in_margin x))),
      (''conversion_funnel'', Py_Dict (funnel_entries (in_funnel x))),
      (''bottlenecks'', Py_List (map Py_Str (in_bottlenecks x))),
      (''upsell_impressions'', Py_Int (in_impressions x)), (''upsell_conversion_rate'', Py_Float (in_upsell_rate x)),
      (''recommendation_slots'', Py_Dict (map (\<lambda>(sl, n, c). (slot_text sl,
         Py_Dict [(''impressions'', Py_Int n), (''conversions'', Py_Int c)])) (in_slots x)))]"

text \<open>Saving a row with a payload\<close>

definition encode :: "py \<Rightarrow> unit N" where
  "encode v = raise_if (\<not> encodable v) not_serializable"

definition daily_sales_analytics_job :: "env \<Rightarrow> stamps \<Rightarrow> nat list \<Rightarrow> world \<Rightarrow> date N" where
  "daily_sales_analytics_job env st us w =
     (let payload = get_analytics_snapshot env st us 1 w in
      bnd (encode (analytics_payload payload)) (\<lambda>_.
      bnd (modifies (\<lambda>s. s\<lparr>sn_analytics := put_row fst (today env, payload) (sn_analytics s)\<rparr>)) (\<lambda>_.
      ret (today env))))"

definition persist_daily_revenue_snapshot :: "calendar \<Rightarrow> stamps \<Rightarrow> world \<Rightarrow> date \<Rightarrow> (date \<times> revenue_report) N" where
  "persist_daily_revenue_snapshot cal st w d =
     (let payload = build_daily_revenue_snapshot cal st w d in
      bnd (encode (revenue_payload payload)) (\<lambda>_.
      bnd (modifies (\<lambda>s. s\<lparr>sn_revenue := put_row fst (d, payload) (sn_revenue s)\<rparr>)) (\<lambda>_.
      ret (d, payload))))"

definition persist_funnel_snapshot ::
  "env \<Rightarrow> calendar \<Rightarrow> stamps \<Rightarrow> nat list \<Rightarrow> world \<Rightarrow> date \<Rightarrow> (date \<times> funnel_report) N" where
  "persist_funnel_snapshot env cal st us w d =
     (let payload = build_funnel_snapshot env cal st us w d in
      bnd (encode (funnel_payload payload)) (\<lambda>_.
      bnd (modifies (\<lambda>s. s\<lparr>sn_funnel := put_row fst (d, payload) (sn_funnel s)\<rparr>)) (\<lambda>_.
      ret (d, payload))))"

definition persist_snapshot ::
  "env \<Rightarrow> calendar \<Rightarrow> listing \<Rightarrow> world \<Rightarrow> intelligence \<Rightarrow> (date \<times> insights) N" where
  "persist_snapshot env cal ls w i =
     (let payload = build_daily_insights env cal ls w i in
      bnd (encode (insights_payload (today env) payload)) (\<lambda>_.
      bnd (modifies (\<lambda>s. s\<lparr>sn_insights := put_row fst (today env, payload) (sn_insights s)\<rparr>)) (\<lambda>_.
      ret (today env, payload))))"

definition daily_revenue_snapshot_job :: "env \<Rightarrow> calendar \<Rightarrow> stamps \<Rightarrow> world \<Rightarrow> date N" where
  "daily_revenue_snapshot_job env cal st w =
     bnd (persist_daily_revenue_snapshot cal st w (today env)) (\<lambda>row. ret (fst row))"

definition funnel_analytics_snapshot_job :: "env \<Rightarrow> calendar \<Rightarrow> stamps \<Rightarrow> nat list \<Rightarrow> world \<Rightarrow> date N" where
  "funnel_analytics_snapshot_job env cal st us w =
     bnd (persist_funnel_snapshot env cal st us w (today env)) (\<lambda>row. ret (fst row))"

definition intelligence_snapshot_task :: "env \<Rightarrow> calendar \<Rightarrow> listing \<Rightarrow> world \<Rightarrow> intelligence \<Rightarrow> date N" where
  "intelligence_snapshot_task env cal ls w i =
     bnd (persist_snapshot env cal ls w i) (\<lambda>row. ret (fst row))"

section \<open>Dashboards\<close>

definition latest_row :: "(date \<times> 'r) list \<Rightarrow> (date \<times> 'r) option" where
  "latest_row rows = (case sort_key (\<lambda>(d, _). - d) rows of r # _ \<Rightarrow> Some r | [] \<Rightarrow> None)"

record growth_dashboard =
  gd_base :: analytics
  gd_funnel :: funnel
  gd_coupons :: "(string \<times> int \<times> money) list"
  gd_leaderboard :: "(nat \<times> int \<times> int) list"
  gd_latest_revenue :: "revenue_report option"
  gd_latest_funnel :: "funnel_report option"

definition get_growth_dashboard_snapshot ::
  "env \<Rightarrow> calendar \<Rightarrow> stamps \<Rightarrow> nat list \<Rightarrow> int \<Rightarrow> world \<Rightarrow> snapshots \<Rightarrow> growth_dashboard" where
  "get_growth_dashboard_snapshot env cal st us n w s =
     (let since = now env - days n in
      \<lparr>gd_base = get_analytics_snapshot env st us n w, gd_funnel = aggregate_funnel cal since None w,
       gd_coupons = coupon_performance st since w, gd_leaderboard = referral_leaderboard 10 w,
       gd_latest_revenue = map_option snd (latest_row (sn_revenue s)),
       gd_latest_funnel = map_option snd (latest_row (sn_funnel s))\<rparr>)"

record dashboard_payload =
  dp_live :: insights
  dp_latest :: "insights option"
  dp_latest_date :: "date option"

definition get_dashboard_payload ::
  "env \<Rightarrow> calendar \<Rightarrow> listing \<Rightarrow> world \<Rightarrow> intelligence \<Rightarrow> snapshots \<Rightarrow> dashboard_payload" where
  "get_dashboard_payload env cal ls w i s =
     \<lparr>dp_live = build_daily_insights env cal ls w i, dp_latest = map_option snd (latest_row (sn_insights s)),
      dp_latest_date = map_option fst (latest_row (sn_insights s))\<rparr>"

record intelligence_page =
  ip_payload :: dashboard_payload
  ip_forecasts :: "forecast list"
  ip_bakes :: "bake list"
  ip_low_stock :: "bake list"
  ip_overstock :: "bake list"
  ip_weekdays :: "(nat \<times> string \<times> int \<times> money) list"

definition intelligence_dashboard ::
  "env \<Rightarrow> calendar \<Rightarrow> listing \<Rightarrow> world \<Rightarrow> intelligence \<Rightarrow> snapshots \<Rightarrow> intelligence_page" where
  "intelligence_dashboard env cal ls w i s =
     \<lparr>ip_payload = get_dashboard_payload env cal ls w i s,
      ip_forecasts = take 10 (sort_key (\<lambda>f. - fc_predicted f) (filter (\<lambda>f. fc_window f = 7) (i_forecasts i))),
      ip_bakes = take 15 (sort_key (\<lambda>b. - bk_suggested b) (filter (\<lambda>b. bk_date b = today env) (i_bakes i))),
      ip_low_stock = low_stock_warnings env i, ip_overstock = overstock_risks env i,
      ip_weekdays = weekday_patterns (today env) 30 i\<rparr>"

section \<open>What is stored\<close>

lemma by_margin_empty: "by_margin i xs = [] \<longleftrightarrow> xs = []"
proof -
  have "filter P ys = [] \<and> filter (\<lambda>x. \<not> P x) ys = [] \<longleftrightarrow> ys = []" for P and ys :: "product list"
    by (induction ys) auto
  moreover have "sort_key k ys = [] \<longleftrightarrow> ys = []" for k :: "product \<Rightarrow> int" and ys
    by (metis set_empty set_sort)
  ultimately show ?thesis by (simp only: by_margin_def Let_def append_is_Nil_conv)
qed

text \<open>What the encoder says of each payload: the decimals that the code leaves in it decide.\<close>

lemma analytics_not_encodable: "\<not> encodable (analytics_payload a)"
  by (simp add: analytics_payload_def)

lemma revenue_encodable: "encodable (revenue_payload r) \<longleftrightarrow> rr_coupons r = []"
  by (cases "rr_coupons r") (auto simp: revenue_payload_def coupon_rows_def split: prod.split)

lemma funnel_encodable: "encodable (funnel_payload r)"
  by (simp add: funnel_payload_def funnel_entries_def)

lemma insights_encodable: "encodable (insights_payload d x) \<longleftrightarrow> in_margin x = []"
  by (cases "in_margin x") (auto simp: insights_payload_def product_rows_def funnel_entries_def split: prod.split)

text \<open>
  The daily job of the analytics always fails. The insights are stored exactly when no product is for sale: as
  soon as one is available, the report lists its price. Both failures leave the stored reports as they were.
\<close>

lemma snapshots_are_not_stored:
  "daily_sales_analytics_job env st us w s = (Inl not_serializable, s)"
  "persist_snapshot env cal ls w i s =
     (if available_products (by_default ls) w = []
      then (Inr (today env, build_daily_insights env cal ls w i),
        s\<lparr>sn_insights := put_row fst (today env, build_daily_insights env cal ls w i) (sn_insights s)\<rparr>)
      else (Inl not_serializable, s))"
  by (simp_all add: daily_sales_analytics_job_def analytics_not_encodable persist_snapshot_def insights_encodable
      encode_def run build_daily_insights_def Let_def by_margin_empty)

lemma put_row_again: "k r = k r' \<Longrightarrow> put_row k r (put_row k r' rs) = put_row k r rs"
proof (cases "\<exists>x\<in>set rs. k x = k r")
  case True
  assume same: "k r = k r'"
  have "map (\<lambda>x. if k x = k r then r else x) (map (\<lambda>x. if k x = k r then r' else x) rs) =
      map (\<lambda>x. if k x = k r then r else x) rs"
    using same by simp
  moreover have "\<exists>x\<in>set (map (\<lambda>x. if k x = k r then r' else x) rs). k x = k r"
    using True same by auto
  ultimately show ?thesis using True same unfolding put_row_def by (simp only: if_True simp_thms)
next
  case False
  assume "k r = k r'"
  moreover have "map (\<lambda>x. if k x = k r then r else x) rs = rs"
    using False by (intro map_idI) auto
  ultimately show ?thesis using False by (simp add: put_row_def)
qed

lemma grouped_empty: "grouped key f xs = [] \<longleftrightarrow> xs = []"
proof -
  have step: "foldl (\<lambda>d x. dict_alter (key x) (\<lambda>(n, s). (n + 1, s + f x)) (0, 0) d) d ys \<noteq> []"
    if "d \<noteq> []" for d ys
    using that
  proof (induction ys arbitrary: d)
    case (Cons y ys)
    show ?case by (simp, rule Cons.IH) (cases d; auto split: if_splits)
  qed simp
  show ?thesis by (cases xs) (auto simp: grouped_def step)
qed

text \<open>
  Storing the revenue of a day fails, and leaves the rows as they were, exactly when a
  coupon was attributed since the day began. Otherwise the day has one row, with the figures of the last run,
  whatever an earlier run had stored for it, and the rows of other days stay.
\<close>

theorem revenue_row_is_the_last_run:
  assumes "distinct (map fst (sn_revenue s))"
  shows "if \<exists>a\<in>set (g_attributions (growth w)). at_source a = SRC_COUPON \<and> day_start cal d \<le> attributed_at st a
    then persist_daily_revenue_snapshot cal st w d s = (Inl not_serializable, s)
    else \<exists>s'. persist_daily_revenue_snapshot cal st w d s = (Inr (d, build_daily_revenue_snapshot cal st w d), s') \<and>
      distinct (map fst (sn_revenue s')) \<and>
      find (\<lambda>r. fst r = d) (sn_revenue s') = Some (d, build_daily_revenue_snapshot cal st w d) \<and>
      (\<forall>e. e \<noteq> d \<longrightarrow> find (\<lambda>r. fst r = e) (sn_revenue s') = find (\<lambda>r. fst r = e) (sn_revenue s)) \<and>
      (\<forall>v u. snd (persist_daily_revenue_snapshot cal st v d s) = u \<longrightarrow>
        persist_daily_revenue_snapshot cal st w d u = persist_daily_revenue_snapshot cal st w d s)"
proof -
  let ?r = "build_daily_revenue_snapshot cal st w d"
  have cp: "rr_coupons ?r = [] \<longleftrightarrow>
      \<not> (\<exists>a\<in>set (g_attributions (growth w)). at_source a = SRC_COUPON \<and> day_start cal d \<le> attributed_at st a)"
    unfolding build_daily_revenue_snapshot_def Let_def coupon_performance_def
    by (simp add: set_empty [symmetric] grouped_empty del: set_empty) (auto simp: grouped_empty filter_empty_conv)
  have run: "persist_daily_revenue_snapshot cal st x d t =
      (if rr_coupons (build_daily_revenue_snapshot cal st x d) \<noteq> [] then (Inl not_serializable, t)
       else (Inr (d, build_daily_revenue_snapshot cal st x d),
         t\<lparr>sn_revenue := put_row fst (d, build_daily_revenue_snapshot cal st x d) (sn_revenue t)\<rparr>))" for x t
    by (simp add: persist_daily_revenue_snapshot_def encode_def revenue_encodable run Let_def)
  show ?thesis
  proof (cases "rr_coupons ?r = []")
    case True
    then show ?thesis using assms
      by (simp add: cp run find_put_row distinct_put_row put_row_again)
  next
    case False
    then show ?thesis using cp by (simp add: run)
  qed
qed

text \<open>
  The shift summary and the revenue of the same day differ by the confirmed payments on delivery, which only the
  first counts, and by the paid orders that were cancelled or refunded, which only the second counts.
\<close>

lemma sum_filter_split:
  fixes f :: "'a \<Rightarrow> int"
  shows "sum_list (map f (filter P xs)) =
    sum_list (map f (filter (\<lambda>x. P x \<and> Q x) xs)) + sum_list (map f (filter (\<lambda>x. P x \<and> \<not> Q x) xs))"
  by (induction xs) auto

lemma shift_and_revenue_differ:
  "ss_total_sales (build_shift_summary cal by_name d w) +
     sum_list (map ord_total (filter (\<lambda>od. ord_status od \<in> {S_CANCELLED, S_REFUNDED}) (paid_on cal d w))) =
   rr_gross (build_daily_revenue_snapshot cal st w d) +
     sum_list (map ord_total (filter (\<lambda>od. ord_payment_status od = PS_COD_CONFIRMED) (paid_orders_for_shift cal d w)))"
proof -
  let ?day = "\<lambda>od. in_shift cal d od" and ?gone = "\<lambda>od. ord_status od \<in> {S_CANCELLED, S_REFUNDED}"
  have "sum_list (map ord_total (filter (\<lambda>od. ?day od \<and> ord_payment_status od \<in> SHIFT_PAID_STATUSES \<and> \<not> ?gone od) xs)) +
      sum_list (map ord_total (filter (\<lambda>od. ?day od \<and> is_paid_order od \<and> ?gone od) xs)) =
    sum_list (map ord_total (filter (\<lambda>od. ?day od \<and> is_paid_order od) xs)) +
      sum_list (map ord_total (filter (\<lambda>od. ?day od \<and> ord_payment_status od = PS_COD_CONFIRMED \<and> \<not> ?gone od) xs))" for xs
    by (induction xs) (auto simp: SHIFT_PAID_STATUSES_def is_paid_order_def PAID_PAYMENT_STATUSES_def)
  from this [of "orders w"] show ?thesis
    by (simp add: build_shift_summary_def build_daily_revenue_snapshot_def paid_on_def on_day_def in_shift_def
        paid_orders_for_shift_def orders_for_shift_date_def Let_def conj_ac SHIFT_PAID_STATUSES_def
        cong: filter_cong conj_cong)
qed

end
