(* ===== verification/Schedule.thy ===== *)
theory Schedule
  imports Settings Snapshots
begin

text \<open>
  The periodic tasks of the shop: when they run and on which queue (\<open>config/settings/base.py\<close>), the
  tasks the worker knows (\<open>config/celery.py\<close>), and what follows from the hours at which the figures of a day
  are taken.
\<close>

section \<open>The schedule\<close>

text \<open>\<open>crontab\<close>: the minutes, the hours and the days of the week, Sunday being zero\<close>

record crontab =
  ct_minutes :: "nat list"
  ct_hours :: "nat list option"
  ct_days :: "nat list option"

definition at_hour :: "nat \<Rightarrow> nat \<Rightarrow> crontab" where
  "at_hour h m = \<lparr>ct_minutes = [m], ct_hours = Some [h], ct_days = None\<rparr>"

definition every_minutes :: "nat \<Rightarrow> crontab" where
  "every_minutes n = \<lparr>ct_minutes = filter (\<lambda>m. m mod n = 0) [0..<60], ct_hours = None, ct_days = None\<rparr>"

definition cron_due :: "crontab \<Rightarrow> nat \<Rightarrow> nat \<Rightarrow> nat \<Rightarrow> bool" where
  "cron_due c day hour minute \<longleftrightarrow> minute \<in> set (ct_minutes c) \<and>
     (case ct_hours c of Some hs \<Rightarrow> hour \<in> set hs | None \<Rightarrow> True) \<and>
     (case ct_days c of Some ds \<Rightarrow> day \<in> set ds | None \<Rightarrow> True)"

definition CELERY_BEAT_SCHEDULE :: "(string \<times> crontab) list" where
  "CELERY_BEAT_SCHEDULE = [
     (''growth.tasks.send_abandoned_cart_sms'', \<lparr>ct_minutes = [0], ct_hours = None, ct_days = None\<rparr>),
     (''growth.tasks.refresh_customer_segments_task'', at_hour 3 0),
     (''inventory.tasks.expire_stale_reservations_task'', every_minutes 15),
     (''payments.tasks.cleanup_stale_online_payments_task'', every_minutes 15),
     (''notifications.tasks.retry_failed_sms_task'', every_minutes 30),
     (''growth.tasks.daily_sales_analytics_job'', at_hour 4 0),
     (''growth.tasks.daily_revenue_snapshot_job'', at_hour 4 15),
     (''growth.tasks.funnel_analytics_snapshot_job'', at_hour 4 30),
     (''growth.tasks.refresh_clv_profiles_task'', at_hour 5 0),
     (''intelligence.tasks.daily_product_stats_task'', at_hour 2 0),
     (''intelligence.tasks.user_behavior_aggregation_task'', at_hour 2 30),
     (''intelligence.tasks.demand_forecast_task'', at_hour 3 0),
     (''intelligence.tasks.inventory_optimization_task'', at_hour 3 30),
     (''intelligence.tasks.update_customer_intelligence_task'', at_hour 5 30),
     (''intelligence.tasks.intelligence_snapshot_task'', at_hour 6 0),
     (''intelligence.tasks.personalized_sms_offers_task'',
        \<lparr>ct_minutes = [0], ct_hours = Some [11], ct_days = Some [2, 5]\<rparr>)]"

definition due_tasks :: "nat \<Rightarrow> nat \<Rightarrow> nat \<Rightarrow> string list" where
  "due_tasks day hour minute = map fst (filter (\<lambda>(t, c). cron_due c day hour minute) CELERY_BEAT_SCHEDULE)"

text \<open>The tasks of the modules the worker imports\<close>

definition REGISTERED_TASKS :: "string list" where
  "REGISTERED_TASKS =
     [''notifications.tasks.send_sms_event_task'', ''notifications.tasks.send_sms_task'',
      ''notifications.tasks.send_template_sms_task'', ''notifications.tasks.retry_failed_sms_task'',
      ''growth.tasks.send_abandoned_cart_sms'', ''growth.tasks.refresh_customer_segments_task'',
      ''growth.tasks.daily_sales_analytics_job'', ''growth.tasks.record_order_analytics_event'',
      ''growth.tasks.send_promotion_campaign_task'', ''growth.tasks.finalize_growth_order_task'',
      ''growth.tasks.daily_revenue_snapshot_job'', ''growth.tasks.funnel_analytics_snapshot_job'',
      ''growth.tasks.refresh_clv_profiles_task'', ''orders.tasks.process_order_lifecycle_events'',
      ''payments.tasks.cleanup_stale_online_payments_task'', ''loyalty.tasks.award_loyalty_points_task'',
      ''inventory.tasks.expire_stale_reservations_task'', ''intelligence.tasks.daily_product_stats_task'',
      ''intelligence.tasks.user_behavior_aggregation_task'', ''intelligence.tasks.demand_forecast_task'',
      ''intelligence.tasks.inventory_optimization_task'', ''intelligence.tasks.intelligence_snapshot_task'',
      ''intelligence.tasks.update_customer_intelligence_task'', ''intelligence.tasks.personalized_sms_offers_task'']"

definition CELERY_TASK_ROUTES :: "(string \<times> string) list" where
  "CELERY_TASK_ROUTES = [(''notifications.tasks.'', ''sms''), (''orders.tasks.'', ''orders''), (''growth.tasks.'', ''analytics''),
     (''intelligence.tasks.'', ''analytics''), (''loyalty.tasks.'', ''default''), (''inventory.tasks.'', ''default'')]"

definition queue_of_task :: "string \<Rightarrow> string" where
  "queue_of_task task = (case find (\<lambda>(p, q). Guards.starts_with task p) CELERY_TASK_ROUTES of
     Some (p, q) \<Rightarrow> q | None \<Rightarrow> ''default'')"

lemma scheduled_tasks_are_known: "set (map fst CELERY_BEAT_SCHEDULE) \<subseteq> set REGISTERED_TASKS"
  by code_simp

lemma stats_run_at_two:
  "map_of CELERY_BEAT_SCHEDULE ''intelligence.tasks.daily_product_stats_task'' = Some (at_hour 2 0)"
  "cron_due (at_hour 2 0) day h m \<longleftrightarrow> h = 2 \<and> m = 0"
proof -
  show "map_of CELERY_BEAT_SCHEDULE ''intelligence.tasks.daily_product_stats_task'' = Some (at_hour 2 0)" by code_simp
qed (auto simp: cron_due_def at_hour_def)

section \<open>Figures taken at night\<close>











end
