(* ===== verification/BackOffice.thy ===== *)
theory BackOffice
  imports IntelProps Schedule
begin

text \<open>
  Instances of the properties of the nightly figures (\<open>Snapshots\<close>, \<open>Schedule\<close>): a shop with two paid
  orders of the first hour of its tenth day.
\<close>

definition demo_stamps :: stamps where
  "demo_stamps = \<lparr>attributed_at = (\<lambda>a. 0), redeemed_at = (\<lambda>r. 0), touched_at = (\<lambda>t. 0), segment_name = (\<lambda>s. [])\<rparr>"

definition no_snapshots :: snapshots where
  "no_snapshots = \<lparr>sn_analytics = [], sn_revenue = [], sn_funnel = [], sn_insights = []\<rparr>"

lemma revenue_row_is_the_last_run_witness:
  "\<exists>s'. persist_daily_revenue_snapshot demo_calendar demo_stamps coffee_world 10 no_snapshots =
      (Inr (10, build_daily_revenue_snapshot demo_calendar demo_stamps coffee_world 10), s') \<and>
    find (\<lambda>r. fst r = 10) (sn_revenue s') = Some (10, build_daily_revenue_snapshot demo_calendar demo_stamps coffee_world 10)"
proof -
  have "distinct (map fst (sn_revenue no_snapshots))" "g_attributions (growth coffee_world) = []"
    by (simp_all add: no_snapshots_def coffee_world_def empty_world_def empty_growth_def)
  with revenue_row_is_the_last_run [of no_snapshots coffee_world demo_calendar 10 demo_stamps] show ?thesis by auto
qed






end
