(* ===== verification/Catalog.thy ===== *)
theory Catalog
  imports Site StockProps
begin

text \<open>
  The product admin and the catalog cache it clears (\<open>apps/products/admin.py\<close>,
  \<open>apps/core/performance.py\<close>), and how they keep the menu of the shop in step with the products. The products
  are listed in the order of \<open>Product.Meta\<close>: \<open>rank\<close> is the collation of the database and \<open>ids\<close> are the
  primary keys in order of creation.
\<close>

section \<open>Saving in the admin\<close>

definition catalog_prefix :: string where
  "catalog_prefix = ''crumbs:catalog:products:''"

definition cache_delete :: "string list \<Rightarrow> unit V" where
  "cache_delete ks = modifies (\<lambda>s. s\<lparr>st_catalog := (\<lambda>k. if k \<in> set ks then None else st_catalog s k)\<rparr>)"

text \<open>\<open>slugs\<close> is what is cached as \<open>crumbs:category_slugs\<close>; no code stores it.\<close>

definition invalidate_catalog_cache :: "string list option \<Rightarrow> unit V" where
  "invalidate_catalog_cache slugs = cache_delete
     ([''crumbs:categories:all'', ''crumbs:home:featured'', ''crumbs:home:best_sellers'', ''crumbs:catalog:products:all''] @
      map (\<lambda>s. catalog_prefix @ s) (case slugs of Some ss \<Rightarrow> ss | None \<Rightarrow> []))"

definition invalidate_after_product :: "product \<Rightarrow> unit V" where
  "invalidate_after_product p =
     bnd (invalidate_catalog_cache None) (\<lambda>_.
     bnd (cache_delete [''crumbs:catalog:products:all'']) (\<lambda>_.
     bnd (gets (\<lambda>s. categories (st_world s) (prod_category p))) (\<lambda>c.
     case c of Some c \<Rightarrow> cache_delete [catalog_prefix @ cat_slug c] | None \<Rightarrow> ret ())))"

definition invalidate_after_category :: "category \<Rightarrow> unit V" where
  "invalidate_after_category c =
     bnd (invalidate_catalog_cache None) (\<lambda>_.
     bnd (cache_delete [''crumbs:catalog:products:all'']) (\<lambda>_.
     cache_delete [catalog_prefix @ cat_slug c]))"

definition save_product :: "product \<Rightarrow> unit V" where
  "save_product p =
     bnd (modifies (\<lambda>s. s\<lparr>st_world := (st_world s)\<lparr>products := (products (st_world s))(prod_id p \<mapsto> p)\<rparr>\<rparr>)) (\<lambda>_.
     invalidate_after_product p)"

definition save_category :: "nat \<Rightarrow> category \<Rightarrow> unit V" where
  "save_category k c =
     bnd (modifies (\<lambda>s. s\<lparr>st_world := (st_world s)\<lparr>categories := (categories (st_world s))(k \<mapsto> c)\<rparr>\<rparr>)) (\<lambda>_.
     invalidate_after_category c)"

text \<open>The columns of the list of products and the categories\<close>

datatype stock_text = No_Inventory | Unlimited | Available int

definition stock_summary :: "world \<Rightarrow> product \<Rightarrow> stock_text" where
  "stock_summary w p = (case inventories w (prod_id p) of
     None \<Rightarrow> No_Inventory
   | Some i \<Rightarrow> if inv_track_stock i then Available (available_quantity i) else Unlimited)"

definition product_count :: "nat list \<Rightarrow> world \<Rightarrow> nat \<Rightarrow> nat" where
  "product_count ids w k = length (filter (\<lambda>p. prod_category p = k) (List.map_filter (products w) ids))"

section \<open>The menu\<close>

text \<open>\<open>ordering = ["-is_featured", "name"]\<close>\<close>

definition menu_rows :: "(string \<Rightarrow> int) \<Rightarrow> nat list \<Rightarrow> world \<Rightarrow> product list" where
  "menu_rows rank ids w =
     sort_key (\<lambda>p. if prod_is_featured p then 0 else 1 :: int)
       (sort_key (\<lambda>p. rank (prod_name p)) (List.map_filter (products w) ids))"

definition menu_order :: "(string \<Rightarrow> int) \<Rightarrow> nat list \<Rightarrow> world \<Rightarrow> nat list" where
  "menu_order rank ids w = map prod_id (menu_rows rank ids w)"

text \<open>What a page of the menu should list: the products for sale, of a category or all\<close>

definition menu :: "(string \<Rightarrow> int) \<Rightarrow> nat list \<Rightarrow> string option \<Rightarrow> world \<Rightarrow> product list" where
  "menu rank ids slug w =
     filter (\<lambda>p. is_available p \<and> (case slug of Some sl \<Rightarrow> in_category sl w p | None \<Rightarrow> True)) (menu_rows rank ids w)"

definition featured :: "(string \<Rightarrow> int) \<Rightarrow> nat list \<Rightarrow> world \<Rightarrow> product list" where
  "featured rank ids w = take 4 (filter prod_is_featured (menu rank ids None w))"

definition keyed :: "world \<Rightarrow> bool" where
  "keyed w \<longleftrightarrow> (\<forall>k p. products w k = Some p \<longrightarrow> prod_id p = k)"

text \<open>
  The requests that touch the menu: pages are opened, products and categories are saved in the
  admin, and anything else happens that leaves both tables and the cache alone. A product keeps its category, a
  category its address.
\<close>

inductive step :: "(string \<Rightarrow> int) \<Rightarrow> nat list \<Rightarrow> site \<Rightarrow> site \<Rightarrow> bool" for rank ids where
  open_menu: "by_default ls = menu_order rank ids (st_world s) \<Longrightarrow> slug \<noteq> Some ''all'' \<Longrightarrow>
    step rank ids s (snd (product_list env timeout ls cats slug s))"
| open_home: "by_default ls = menu_order rank ids (st_world s) \<Longrightarrow>
    step rank ids s (snd (home env timeout ls us br s))"
| edit_product: "prod_id p \<in> set ids \<Longrightarrow> categories (st_world s) (prod_category p) = Some c \<Longrightarrow>
    (\<And>q. products (st_world s) (prod_id p) = Some q \<Longrightarrow> prod_category q = prod_category p) \<Longrightarrow>
    step rank ids s (snd (save_product p s))"
| edit_category: "(\<And>d. categories (st_world s) k = Some d \<Longrightarrow> cat_slug d = cat_slug c) \<Longrightarrow>
    step rank ids s (snd (save_category k c s))"
| elsewhere: "products (st_world t) = products (st_world s) \<Longrightarrow> categories (st_world t) = categories (st_world s) \<Longrightarrow>
    st_catalog t = st_catalog s \<Longrightarrow> step rank ids s t"

inductive_cases stepE: "step rank ids s t"

section \<open>The cache follows the tables\<close>

definition coherent :: "(string \<Rightarrow> int) \<Rightarrow> nat list \<Rightarrow> site \<Rightarrow> bool" where
  "coherent rank ids s \<longleftrightarrow>
     (\<forall>e xs. st_catalog s ''crumbs:home:featured'' = Some (e, xs) \<longrightarrow> xs = featured rank ids (st_world s)) \<and>
     (\<forall>e xs. st_catalog s (catalog_prefix @ ''all'') = Some (e, xs) \<longrightarrow> xs = menu rank ids None (st_world s)) \<and>
     (\<forall>sl e xs. sl \<noteq> [] \<and> sl \<noteq> ''all'' \<and> st_catalog s (catalog_prefix @ sl) = Some (e, xs) \<longrightarrow>
        xs = menu rank ids (Some sl) (st_world s))"

lemma map_filter_keyed:
  "keyed w \<Longrightarrow> (\<And>p. p \<in> set ps \<Longrightarrow> products w (prod_id p) = Some p) \<Longrightarrow>
    List.map_filter (products w) (map prod_id ps) = ps"
  by (induction ps) (simp_all add: List.map_filter_def)

lemma available_in_order:
  assumes "keyed w"
  shows "available_products (menu_order rank ids w) w = menu rank ids None w"
proof -
  have "products w (prod_id p) = Some p" if "p \<in> set (menu_rows rank ids w)" for p
    using that assms by (auto simp: menu_rows_def map_filter_def keyed_def)
  then show ?thesis
    by (simp add: available_products_def menu_order_def map_filter_keyed [OF assms] menu_def)
qed

lemma menu_of_category:
  "filter (in_category sl w) (menu rank ids None w) = menu rank ids (Some sl) w"
  by (simp add: menu_def conj_commute)

text \<open>The menu of a category is the same when rows outside of it change.\<close>

lemma menu_of_others:
  assumes "categories v = categories w"
    and "\<And>k. products v k \<noteq> products w k \<Longrightarrow>
      (\<forall>p. products v k = Some p \<or> products w k = Some p \<longrightarrow> \<not> in_category sl w p)"
  shows "menu rank ids (Some sl) v = menu rank ids (Some sl) w"
proof -
  let ?P = "\<lambda>p. is_available p \<and> in_category sl w p"
  have P: "in_category sl v = in_category sl w" using assms(1) by (simp add: in_category_def fun_eq_iff)
  have "filter ?P (List.map_filter (products v) ids) = filter ?P (List.map_filter (products w) ids)"
  proof (induction ids)
    case (Cons k ids)
    show ?case
    proof (cases "products v k = products w k")
      case False
      then show ?thesis using Cons assms(2) [OF False]
        by (auto simp: List.map_filter_def split: option.splits)
    qed (use Cons in \<open>simp add: List.map_filter_def\<close>)
  qed (simp add: List.map_filter_def)
  then show ?thesis by (simp add: menu_def menu_rows_def filter_sort P)
qed

lemma menu_frame:
  "products v = products w \<Longrightarrow> categories v = categories w \<Longrightarrow> menu rank ids slug v = menu rank ids slug w"
  by (simp add: menu_def menu_rows_def in_category_def cong: filter_cong split: option.split)

lemma cached_is_current:
  assumes "\<forall>e xs. st_catalog s key = Some (e, xs) \<longrightarrow> xs = f (st_world s)"
  shows "\<exists>c. cache_get_or_set env timeout key f s = (Inr (f (st_world s)), s\<lparr>st_catalog := c\<rparr>) \<and>
    (\<forall>k e xs. c k = Some (e, xs) \<longrightarrow> st_catalog s k = Some (e, xs) \<or> k = key \<and> xs = f (st_world s))"
proof (cases "\<exists>e xs. st_catalog s key = Some (e, xs) \<and> now env < e")
  case True
  then obtain e xs where "st_catalog s key = Some (e, xs)" "now env < e" by blast
  then show ?thesis using assms
    by (intro exI [of _ "st_catalog s"]) (auto simp: cache_get_or_set_def run)
next
  case False
  then have "cache_get_or_set env timeout key f s =
      (Inr (f (st_world s)), s\<lparr>st_catalog := (st_catalog s)(key \<mapsto> (now env + seconds timeout, f (st_world s)))\<rparr>)"
    by (auto simp: cache_get_or_set_def run split: option.split prod.split)
  then show ?thesis by (intro exI conjI) (assumption, auto split: if_splits)
qed

lemma coherent_entries:
  assumes "coherent rank ids s" and "st_world t = st_world s"
    and "\<And>k e xs. st_catalog t k = Some (e, xs) \<Longrightarrow> st_catalog s k = Some (e, xs) \<or>
      k = ''crumbs:home:featured'' \<and> xs = featured rank ids (st_world s) \<or>
      k = catalog_prefix @ ''all'' \<and> xs = menu rank ids None (st_world s) \<or>
      (\<exists>sl. sl \<noteq> [] \<and> sl \<noteq> ''all'' \<and> k = catalog_prefix @ sl \<and> xs = menu rank ids (Some sl) (st_world s))"
  shows "coherent rank ids t"
  using assms unfolding coherent_def by (fastforce simp: catalog_prefix_def)

definition page_slug :: "string option \<Rightarrow> string option" where
  "page_slug slug = (case slug of Some (c # sl) \<Rightarrow> Some (c # sl) | _ \<Rightarrow> None)"

definition known_page :: "nat list \<Rightarrow> world \<Rightarrow> string option \<Rightarrow> bool" where
  "known_page cats w slug \<longleftrightarrow> (case page_slug slug of
     Some sl \<Rightarrow> \<exists>k\<in>set cats. map_option cat_slug (categories w k) = Some sl | None \<Rightarrow> True)"

lemma menu_page:
  assumes "coherent rank ids s" "keyed (st_world s)" "by_default ls = menu_order rank ids (st_world s)" "slug \<noteq> Some ''all''"
  shows "\<exists>c. product_list env timeout ls cats slug s =
      (Inr (if known_page cats (st_world s) slug then Menu_Page (menu rank ids (page_slug slug) (st_world s)) else Http_404),
       s\<lparr>st_catalog := c\<rparr>) \<and> coherent rank ids (s\<lparr>st_catalog := c\<rparr>)"
proof -
  let ?w = "st_world s" and ?m = "menu rank ids (page_slug slug) (st_world s)"
  define key where "key = catalog_prefix @ (case page_slug slug of Some sl \<Rightarrow> sl | None \<Rightarrow> ''all'')"
  define f where "f = (\<lambda>w. filter (\<lambda>p. case slug of Some (x # xs) \<Rightarrow> in_category (x # xs) w p | _ \<Rightarrow> True)
                   (available_products (by_default ls) w))"
  have f: "f ?w = ?m"
    using menu_of_category [of _ ?w rank ids]
    by (auto simp: f_def page_slug_def assms(3) available_in_order [OF assms(2)] split: option.split list.split)
  have ps: "page_slug slug = None \<or> (\<exists>sl. page_slug slug = Some sl \<and> sl \<noteq> [] \<and> sl \<noteq> ''all'')"
    using assms(4) by (auto simp: page_slug_def split: option.splits list.splits)
  have old: "\<forall>e xs. st_catalog s key = Some (e, xs) \<longrightarrow> xs = f ?w"
    using assms(1) ps unfolding f key_def coherent_def by (elim disjE exE) auto
  obtain c where got: "cache_get_or_set env timeout key f s = (Inr (f ?w), s\<lparr>st_catalog := c\<rparr>)"
    and c: "\<And>k e xs. c k = Some (e, xs) \<Longrightarrow> st_catalog s k = Some (e, xs) \<or> k = key \<and> xs = f ?w"
    using cached_is_current [of s key f env timeout] old by blast
  have "product_list env timeout ls cats slug s =
      (Inr (if known_page cats ?w slug then Menu_Page (f ?w) else Http_404), s\<lparr>st_catalog := c\<rparr>)"
  proof -
    have "product_list env timeout ls cats slug = bnd (cache_get_or_set env timeout key f) (\<lambda>xs.
        bnd (gets (\<lambda>s. known_page cats (st_world s) slug)) (\<lambda>known. ret (if known then Menu_Page xs else Http_404)))"
      by (auto simp: product_list_def key_def f_def known_page_def page_slug_def catalog_prefix_def
          split: option.split list.split)
    then show ?thesis by (simp add: run got)
  qed
  moreover have "coherent rank ids (s\<lparr>st_catalog := c\<rparr>)"
    using assms(1)
  proof (rule coherent_entries)
    fix k e xs
    assume "st_catalog (s\<lparr>st_catalog := c\<rparr>) k = Some (e, xs)"
    then have entry: "st_catalog s k = Some (e, xs) \<or> k = key \<and> xs = ?m" using c unfolding f by simp
    show "st_catalog s k = Some (e, xs) \<or>
      k = ''crumbs:home:featured'' \<and> xs = featured rank ids ?w \<or>
      k = catalog_prefix @ ''all'' \<and> xs = menu rank ids None ?w \<or>
      (\<exists>sl. sl \<noteq> [] \<and> sl \<noteq> ''all'' \<and> k = catalog_prefix @ sl \<and> xs = menu rank ids (Some sl) ?w)"
      using ps
    proof (elim disjE exE conjE)
      assume ps: "page_slug slug = None"
      then have "key = catalog_prefix @ ''all''" by (simp add: key_def)
      with entry ps show ?thesis by metis
    next
      fix sl assume sl: "page_slug slug = Some sl" "sl \<noteq> []" "sl \<noteq> ''all''"
      then have "key = catalog_prefix @ sl" by (simp add: key_def)
      with entry sl show ?thesis by metis
    qed
  qed simp
  ultimately show ?thesis unfolding f by blast
qed

lemma home_page:
  assumes "coherent rank ids s" "keyed (st_world s)" "by_default ls = menu_order rank ids (st_world s)"
  shows "\<exists>c j r. home env timeout ls us br s = (r, s\<lparr>st_catalog := c, st_intel := j\<rparr>) \<and>
      coherent rank ids (s\<lparr>st_catalog := c, st_intel := j\<rparr>) \<and>
      (\<forall>fs best. r = Inr (Home_Page fs best) \<longrightarrow> fs = featured rank ids (st_world s))"
proof -
  define f where "f = (\<lambda>w. take 4 (filter prod_is_featured (available_products (by_default ls) w)))"
  have f: "f (st_world s) = featured rank ids (st_world s)"
    by (simp add: f_def featured_def assms(3) available_in_order [OF assms(2)])
  have old: "\<forall>e xs. st_catalog s ''crumbs:home:featured'' = Some (e, xs) \<longrightarrow> xs = f (st_world s)"
    using assms(1) unfolding f coherent_def by simp
  obtain c where got: "cache_get_or_set env timeout ''crumbs:home:featured'' f s = (Inr (f (st_world s)), s\<lparr>st_catalog := c\<rparr>)"
    and c: "\<And>k e xs. c k = Some (e, xs) \<Longrightarrow> st_catalog s k = Some (e, xs) \<or> k = ''crumbs:home:featured'' \<and> xs = f (st_world s)"
    using cached_is_current [of s "''crumbs:home:featured''" f env timeout] old by blast
  obtain r j where best: "for_home env ls us (st_world s) (vi_user br) 8 (st_intel s) = (r, j)" by fastforce
  have "home env timeout ls us br s =
      ((case r of Inl e \<Rightarrow> Inl e | Inr best \<Rightarrow> Inr (Home_Page (f (st_world s)) best)), s\<lparr>st_catalog := c, st_intel := j\<rparr>)"
    unfolding home_def f_def [symmetric] using got best
    by (simp add: run in_intel_def split: sum.split)
  moreover have "coherent rank ids (s\<lparr>st_catalog := c, st_intel := j\<rparr>)"
    using assms(1) by (rule coherent_entries) (use c f in auto)
  ultimately show ?thesis using f by (auto split: sum.split)
qed

lemma run_cache_delete [run]:
  "cache_delete ks s = (Inr (), s\<lparr>st_catalog := (\<lambda>k. if k \<in> set ks then None else st_catalog s k)\<rparr>)"
  by (simp add: cache_delete_def run)

lemma edited_product:
  assumes "coherent rank ids s" "keyed (st_world s)" "categories (st_world s) (prod_category p) = Some c"
    and kept: "\<And>q. products (st_world s) (prod_id p) = Some q \<Longrightarrow> prod_category q = prod_category p"
  shows "coherent rank ids (snd (save_product p s))" "keyed (st_world (snd (save_product p s)))"
proof -
  let ?w = "(st_world s)\<lparr>products := (products (st_world s))(prod_id p \<mapsto> p)\<rparr>"
  have world: "st_world (snd (save_product p s)) = ?w"
    using assms(3) by (simp add: save_product_def invalidate_after_product_def invalidate_catalog_cache_def run)
  show "keyed (st_world (snd (save_product p s)))" using assms(2) unfolding world by (simp add: keyed_def)
  have left: "st_catalog (snd (save_product p s)) k =
      (if k \<in> {''crumbs:categories:all'', ''crumbs:home:featured'', ''crumbs:home:best_sellers'', ''crumbs:catalog:products:all'',
          catalog_prefix @ cat_slug c} then None else st_catalog s k)" for k
    using assms(3) by (simp add: save_product_def invalidate_after_product_def invalidate_catalog_cache_def run)
  have others: "menu rank ids (Some sl) ?w = menu rank ids (Some sl) (st_world s)" if "sl \<noteq> cat_slug c" for sl
  proof (rule menu_of_others)
    fix k assume "products ?w k \<noteq> products (st_world s) k"
    then have "k = prod_id p" by (auto split: if_splits)
    then show "\<forall>q. products ?w k = Some q \<or> products (st_world s) k = Some q \<longrightarrow> \<not> in_category sl (st_world s) q"
      using kept assms(3) that by (auto simp: in_category_def)
  qed simp
  show "coherent rank ids (snd (save_product p s))"
    using assms(1) others unfolding coherent_def world left by (auto simp: catalog_prefix_def split: if_splits)
qed

lemma edited_category:
  assumes "coherent rank ids s" "keyed (st_world s)"
    and kept: "\<And>d. categories (st_world s) k = Some d \<Longrightarrow> cat_slug d = cat_slug c"
  shows "coherent rank ids (snd (save_category k c s))" "keyed (st_world (snd (save_category k c s)))"
proof -
  let ?w = "(st_world s)\<lparr>categories := (categories (st_world s))(k \<mapsto> c)\<rparr>"
  have world: "st_world (snd (save_category k c s)) = ?w"
    by (simp add: save_category_def invalidate_after_category_def invalidate_catalog_cache_def run)
  show "keyed (st_world (snd (save_category k c s)))" using assms(2) unfolding world by (simp add: keyed_def)
  have left: "st_catalog (snd (save_category k c s)) j =
      (if j \<in> {''crumbs:categories:all'', ''crumbs:home:featured'', ''crumbs:home:best_sellers'', ''crumbs:catalog:products:all'',
          catalog_prefix @ cat_slug c} then None else st_catalog s j)" for j
    by (simp add: save_category_def invalidate_after_category_def invalidate_catalog_cache_def run)
  have others: "menu rank ids (Some sl) ?w = menu rank ids (Some sl) (st_world s)" if "sl \<noteq> cat_slug c" for sl
  proof -
    have "in_category sl ?w = in_category sl (st_world s)"
      using kept that by (auto simp: in_category_def fun_eq_iff)
    then show ?thesis by (simp add: menu_def menu_rows_def)
  qed
  show "coherent rank ids (snd (save_category k c s))"
    using assms(1) others unfolding coherent_def world left by (auto simp: catalog_prefix_def split: if_splits)
qed

lemma step_coherent:
  "step rank ids s t \<Longrightarrow> coherent rank ids s \<Longrightarrow> keyed (st_world s) \<Longrightarrow> coherent rank ids t \<and> keyed (st_world t)"
proof (induction rule: step.induct)
  case (open_menu ls s slug env timeout cats)
  then show ?case using menu_page [of rank ids s ls slug env timeout cats] by auto
next
  case (open_home ls s env timeout us br)
  then show ?case using home_page [of rank ids s ls env timeout us br] by auto
next
  case (edit_product p s c)
  then show ?case using edited_product [of rank ids s p c] by auto
next
  case (edit_category s k c)
  then show ?case using edited_category [of rank ids s k c] by auto
next
  case (elsewhere t s)
  then show ?case
    by (simp add: coherent_def keyed_def featured_def menu_frame [of "st_world t" "st_world s"])
qed

lemma steps_coherent:
  "(step rank ids)\<^sup>*\<^sup>* s t \<Longrightarrow> coherent rank ids s \<Longrightarrow> keyed (st_world s) \<Longrightarrow> coherent rank ids t \<and> keyed (st_world t)"
  by (induction rule: rtranclp_induct) (auto dest: step_coherent)

lemma empty_coherent: "st_catalog s = Map.empty \<Longrightarrow> coherent rank ids s"
  by (simp add: coherent_def)

text \<open>
  C19: Starting with an empty cache, after any sequence of visits to the home page, the menu and the pages of
  categories other than one addressed as all,
  of products and categories saved in the admin with their category and address kept, and of anything else that
  leaves both tables alone, the menu lists exactly the products that are for sale now, with their present names and
  prices and in order: all of them, or those of the category asked for, which is not found exactly when it
  does not exist.
\<close>

theorem menu_is_current:
  assumes "st_catalog s\<^sub>0 = Map.empty" "keyed (st_world s\<^sub>0)" "(step rank ids)\<^sup>*\<^sup>* s\<^sub>0 s"
    and "by_default ls = menu_order rank ids (st_world s)" and "slug \<noteq> Some ''all''"
  shows "fst (product_list env timeout ls cats slug s) =
    Inr (if known_page cats (st_world s) slug then Menu_Page (menu rank ids (page_slug slug) (st_world s)) else Http_404)"
proof -
  have "coherent rank ids s \<and> keyed (st_world s)"
    using steps_coherent [OF assms(3)] empty_coherent [OF assms(1)] assms(2) by blast
  then show ?thesis using menu_page [of rank ids s ls slug env timeout cats] assms(4,5) by auto
qed

text \<open>
  C40: The page of a category that is called all shares its cache key with the whole menu. As
  long as nothing is cached for the menu, one request for the address of that category, which does not exist,
  answers not found and leaves the menu of the shop empty for everybody until the entry runs out.
\<close>

theorem unknown_category_empties_the_menu:
  assumes "case st_catalog s (catalog_prefix @ ''all'') of Some (e, _) \<Rightarrow> e \<le> now env | None \<Rightarrow> True"
    and "\<forall>k c. categories (st_world s) k = Some c \<longrightarrow> cat_slug c \<noteq> ''all''"
  shows "\<exists>t. product_list env timeout ls cats (Some ''all'') s = (Inr Http_404, t) \<and> st_world t = st_world s \<and>
    (\<forall>env'. now env' < now env + seconds timeout \<longrightarrow>
      fst (product_list env' timeout ls' cats' None t) = Inr (Menu_Page []))"
proof -
  let ?t = "s\<lparr>st_catalog := (st_catalog s)(catalog_prefix @ ''all'' \<mapsto> (now env + seconds timeout, []))\<rparr>"
  have none: "filter (in_category ''all'' (st_world s)) xs = []" for xs
    using assms(2) by (auto simp: in_category_def filter_empty_conv)
  have "product_list env timeout ls cats (Some ''all'') s = (Inr Http_404, ?t)"
    using assms none by (auto simp: product_list_def cache_get_or_set_def run catalog_prefix_def split: option.splits)
  moreover have "fst (product_list env' timeout ls' cats' None ?t) = Inr (Menu_Page [])"
    if "now env' < now env + seconds timeout" for env'
    using that by (simp add: product_list_def cache_get_or_set_def run catalog_prefix_def)
  ultimately show ?thesis by (intro exI [of _ ?t]) simp
qed

text \<open>A product that changes its category stays on the page of its old one while that is cached.\<close>

lemma moved_product_is_still_listed:
  assumes "st_catalog s (catalog_prefix @ sl) = Some (e, xs)" "now env < e" "sl \<noteq> []" "sl \<noteq> ''all''"
    and "categories (st_world s) (prod_category p) = Some c" "cat_slug c \<noteq> sl"
  shows "fst (product_list env timeout ls cats (Some sl) (snd (save_product p s))) =
    Inr (if known_page cats (st_world s) (Some sl) then Menu_Page xs else Http_404)"
  using assms by (cases sl)
    (auto simp: product_list_def cache_get_or_set_def save_product_def invalidate_after_product_def
      invalidate_catalog_cache_def known_page_def page_slug_def run catalog_prefix_def)

section \<open>Witnesses\<close>

definition blank_site :: "world \<Rightarrow> site" where
  "blank_site w = \<lparr>st_world = w,
     st_intel = \<lparr>i_meta = Map.empty, i_pairs = [], i_stats = [], i_forecasts = [], i_bakes = [], i_tastes = Map.empty,
       i_impressions = [], i_next = 0, i_cache = Map.empty\<rparr>,
     st_session = \<lparr>se_key = None, se_table = None, se_access = []\<rparr>, st_catalog = Map.empty, st_flashes = []\<rparr>"

definition walnut :: "money \<Rightarrow> product" where
  "walnut price = \<lparr>prod_id = 5, prod_category = 2, prod_name = ''walnut'', prod_price = price,
     prod_availability = AV_AVAILABLE, prod_is_featured = False\<rparr>"

definition walnut_world :: "money \<Rightarrow> world" where
  "walnut_world price = empty_world\<lparr>products := [5 \<mapsto> walnut price],
     categories := [2 \<mapsto> \<lparr>cat_name = ''Cookies'', cat_slug = ''cookies''\<rparr>]\<rparr>"

definition walnut_listing :: listing where
  "walnut_listing = \<lparr>by_default = [5], by_category = [5], by_change = [5]\<rparr>"

lemma walnut_rows: "menu_rows (\<lambda>_. 0) [5] (walnut_world x) = [walnut x]"
  by (simp add: menu_rows_def walnut_world_def List.map_filter_def)

lemma walnut_order: "menu_order (\<lambda>_. 0) [5] (walnut_world x) = [5]"
  unfolding menu_order_def walnut_rows by (simp add: walnut_def)

lemma walnut_menu: "menu (\<lambda>_. 0) [5] None (walnut_world x) = [walnut x]"
  unfolding menu_def walnut_rows by (simp add: walnut_def is_available_def)

lemma menu_is_current_witness:
  "fst (product_list demo_env 300 walnut_listing [2] None
     (snd (save_product (walnut 120) (snd (product_list demo_env 300 walnut_listing [2] None (blank_site (walnut_world 100)))))))
   = Inr (Menu_Page [walnut 120])"
proof -
  let ?s = "blank_site (walnut_world 100)"
  let ?t = "snd (product_list demo_env 300 walnut_listing [2] None ?s)"
  let ?u = "snd (save_product (walnut 120) ?t)"
  have k: "keyed (walnut_world 100)" by (simp add: keyed_def walnut_world_def walnut_def)
  have t: "st_world ?t = walnut_world 100"
    by (simp add: product_list_def cache_get_or_set_def run blank_site_def)
  have u: "st_world ?u = walnut_world 120"
    using t by (simp add: save_product_def invalidate_after_product_def invalidate_catalog_cache_def run
        walnut_world_def walnut_def)
  have "step (\<lambda>_. 0) [5] ?s ?t"
    by (rule step.open_menu) (simp_all add: walnut_listing_def blank_site_def walnut_order)
  moreover have "step (\<lambda>_. 0) [5] ?t ?u"
    by (rule step.edit_product [where c = "\<lparr>cat_name = ''Cookies'', cat_slug = ''cookies''\<rparr>"], unfold t)
      (auto simp: walnut_def walnut_world_def)
  ultimately have "(step (\<lambda>_. 0) [5])\<^sup>*\<^sup>* ?s ?u" by (meson converse_rtranclp_into_rtranclp r_into_rtranclp)
  from menu_is_current [OF _ _ this, of walnut_listing None demo_env 300 "[2]"] show ?thesis
    using k unfolding u by (simp add: blank_site_def walnut_listing_def walnut_order walnut_menu known_page_def page_slug_def)
qed

lemma unknown_category_empties_the_menu_witness:
  "\<exists>t. product_list demo_env 300 walnut_listing [2] (Some ''all'') (blank_site (walnut_world 100)) = (Inr Http_404, t) \<and>
    fst (product_list demo_env 300 walnut_listing [2] None t) = Inr (Menu_Page [])"
proof -
  have "\<exists>t. product_list demo_env 300 walnut_listing [2] (Some ''all'') (blank_site (walnut_world 100)) = (Inr Http_404, t) \<and>
    st_world t = st_world (blank_site (walnut_world 100)) \<and>
    (\<forall>env'. now env' < now demo_env + seconds 300 \<longrightarrow>
      fst (product_list env' 300 walnut_listing [2] None t) = Inr (Menu_Page []))"
    by (rule unknown_category_empties_the_menu) (simp_all add: blank_site_def walnut_world_def empty_world_def)
  moreover have "now demo_env < now demo_env + seconds 300" by (simp add: seconds_def)
  ultimately show ?thesis by blast
qed

end
