(* ===== verification/Observability.thy ===== *)
theory Observability
  imports Models
begin

text \<open>
  What leaves the shop in logs, error reports and the payment admin (\<open>apps/core/observability.py\<close>,
  \<open>apps/payments/admin.py\<close>): values as the code meets them, their text, the removal of sensitive
  entries and the fields of a log line. Characters are code points below 256.
\<close>

section \<open>Values and their text\<close>

text \<open>A float is kept as its text.\<close>

datatype pyval =
    VNone
  | VBool bool
  | VInt int
  | VFloat string
  | VStr string
  | VList "pyval list"
  | VDict "(string \<times> pyval) list"

type_synonym pydict = "(string \<times> pyval) list"

definition val_truthy :: "pyval \<Rightarrow> bool" where
  "val_truthy v = (case v of
     VNone \<Rightarrow> False | VBool b \<Rightarrow> b | VInt n \<Rightarrow> n \<noteq> 0 | VFloat s \<Rightarrow> s \<notin> {''0.0'', ''-0.0''}
   | VStr s \<Rightarrow> s \<noteq> [] | VList vs \<Rightarrow> vs \<noteq> [] | VDict d \<Rightarrow> d \<noteq> [])"

definition hex_digit :: "nat \<Rightarrow> char" where
  "hex_digit n = char_of (if n < 10 then 48 + n else 87 + n)"

definition esc_char :: "char \<Rightarrow> char \<Rightarrow> string" where
  "esc_char q c = (let n = of_char c :: nat in
     if c = q \<or> n = 92 then [CHR 0x5C, c]
     else if n = 10 then [CHR 0x5C, CHR ''n'']
     else if n = 13 then [CHR 0x5C, CHR ''r'']
     else if n = 9 then [CHR 0x5C, CHR ''t'']
     else if n < 32 \<or> 127 \<le> n \<and> n \<le> 160 \<or> n = 173
       then [CHR 0x5C, CHR ''x'', hex_digit (n div 16), hex_digit (n mod 16)]
     else [c])"

text \<open>\<open>repr(s)\<close>: single quotes unless the text has one and no double quote\<close>

definition repr_quote :: "string \<Rightarrow> char" where
  "repr_quote s = (if CHR 0x27 \<in> set s \<and> CHR 0x22 \<notin> set s then CHR 0x22 else CHR 0x27)"

definition repr_str :: "string \<Rightarrow> string" where
  "repr_str s = [repr_quote s] @ concat (map (esc_char (repr_quote s)) s) @ [repr_quote s]"

definition int_str :: "int \<Rightarrow> string" where
  "int_str n = (if n < 0 then CHR ''-'' # digits (nat (- n)) else digits (nat n))"

fun join :: "string \<Rightarrow> string list \<Rightarrow> string" where
  "join sep [] = []"
| "join sep [x] = x"
| "join sep (x # y # xs) = x @ sep @ join sep (y # xs)"

lemma size_of_entry [termination_simp]: "(k, v) \<in> set d \<Longrightarrow> size v < Suc (size_list (size_prod (\<lambda>x. 0) size) d)"
  by (induction d) auto

fun py_repr :: "pyval \<Rightarrow> string" where
  "py_repr VNone = ''None''"
| "py_repr (VBool b) = (if b then ''True'' else ''False'')"
| "py_repr (VInt n) = int_str n"
| "py_repr (VFloat s) = s"
| "py_repr (VStr s) = repr_str s"
| "py_repr (VList vs) = ''['' @ join '', '' (map py_repr vs) @ '']''"
| "py_repr (VDict d) = ''{'' @ join '', '' (map (\<lambda>(k, v). repr_str k @ '': '' @ py_repr v) d) @ ''}''"

definition py_str :: "pyval \<Rightarrow> string" where
  "py_str v = (case v of VStr s \<Rightarrow> s | _ \<Rightarrow> py_repr v)"

section \<open>Sensitive entries\<close>

fun contains :: "string \<Rightarrow> string \<Rightarrow> bool" where
  "contains w [] \<longleftrightarrow> w = []"
| "contains w (c # s) \<longleftrightarrow> take (length w) (c # s) = w \<or> contains w s"

definition SENSITIVE_WORDS :: "string list" where
  "SENSITIVE_WORDS = [''password'', ''secret'', ''token'', ''authorization'', ''cookie'', ''resume'', ''email'',
     ''phone'', ''address'', ''postal'', ''cvv'', ''card'', ''ssn'', ''body'', ''payload'']"

text \<open>\<open>_SENSITIVE_KEY_RE.search(s)\<close>, without regard to case\<close>

definition sensitive :: "string \<Rightarrow> bool" where
  "sensitive s \<longleftrightarrow> list_ex (\<lambda>w. contains w (str_lower s)) SENSITIVE_WORDS"

definition filtered :: pyval where
  "filtered = VStr ''[Filtered]''"

function scrub_mapping :: "nat \<Rightarrow> pydict \<Rightarrow> pydict" where
  "scrub_mapping depth data =
     (if 6 < depth then [(''truncated'', VBool True)]
      else map (\<lambda>(k, v). (k,
        if sensitive k then filtered
        else case v of
          VDict d \<Rightarrow> VDict (scrub_mapping (Suc depth) d)
        | VList vs \<Rightarrow> VList (map (\<lambda>item. case item of
              VDict d \<Rightarrow> VDict (scrub_mapping (Suc depth) d)
            | _ \<Rightarrow> if sensitive (py_str item) then filtered else item) (take 20 vs))
        | _ \<Rightarrow> v)) data)"
  by pat_completeness auto
termination by (relation "measure (\<lambda>(n, d). 7 - n)") auto

declare scrub_mapping.simps [simp del]

section \<open>Error reports\<close>

definition key_pop :: "string \<Rightarrow> pydict \<Rightarrow> pydict" where
  "key_pop k d = filter (\<lambda>(j, v). j \<noteq> k) d"

text \<open>\<open>d[k] = v\<close> for a key that is there\<close>

definition key_put :: "string \<Rightarrow> pyval \<Rightarrow> pydict \<Rightarrow> pydict" where
  "key_put k v d = map (\<lambda>(j, u). (j, if j = k then v else u)) d"

definition strip_headers :: "pydict \<Rightarrow> pydict" where
  "strip_headers r = (case map_of r ''headers'' of
     Some (VDict h) \<Rightarrow> key_put ''headers'' (VDict (fold key_pop [''Authorization'', ''Cookie'', ''X-CSRFToken''] h)) r
   | _ \<Rightarrow> r)"

definition scrub_request :: "pydict \<Rightarrow> pydict" where
  "scrub_request r = scrub_mapping 0 (strip_headers (key_pop ''cookies'' (key_pop ''data'' r)))"

text \<open>\<open>scrub_mapping(crumb.get("data") or {})\<close> fails on a value without \<open>items\<close>.\<close>

definition scrub_crumb :: "pyval \<Rightarrow> exn + pyval" where
  "scrub_crumb crumb = (case crumb of
     VDict c \<Rightarrow> (case map_of c ''data'' of
         None \<Rightarrow> Inr crumb
       | Some v \<Rightarrow> if val_truthy v
           then (case v of VDict d \<Rightarrow> Inr (VDict (key_put ''data'' (VDict (scrub_mapping 0 d)) c))
                 | _ \<Rightarrow> Inl (Exn AttributeError (Text ''items'')))
           else Inr (VDict (key_put ''data'' (VDict (scrub_mapping 0 [])) c)))
   | _ \<Rightarrow> Inr crumb)"

fun scrub_crumbs :: "pyval list \<Rightarrow> exn + pyval list" where
  "scrub_crumbs [] = Inr []"
| "scrub_crumbs (c # cs) = (case scrub_crumb c of Inl e \<Rightarrow> Inl e
     | Inr c' \<Rightarrow> (case scrub_crumbs cs of Inl e \<Rightarrow> Inl e | Inr cs' \<Rightarrow> Inr (c' # cs')))"

definition on_dict :: "string \<Rightarrow> (pydict \<Rightarrow> pydict) \<Rightarrow> pydict \<Rightarrow> pydict" where
  "on_dict k f ev = (case map_of ev k of Some (VDict d) \<Rightarrow> key_put k (VDict (f d)) ev | _ \<Rightarrow> ev)"

definition sentry_before_send :: "pydict \<Rightarrow> exn + pydict" where
  "sentry_before_send event =
     (let ev = on_dict ''extra'' (scrub_mapping 0) (on_dict ''request'' scrub_request event) in
      case map_of ev ''breadcrumbs'' of
        Some (VDict b) \<Rightarrow> (case map_of b ''values'' of
            Some (VList cs) \<Rightarrow> (case scrub_crumbs cs of
                Inl e \<Rightarrow> Inl e
              | Inr cs' \<Rightarrow> Inr (key_put ''breadcrumbs'' (VDict (key_put ''values'' (VList cs') b)) ev))
          | _ \<Rightarrow> Inr ev)
      | _ \<Rightarrow> Inr ev)"

section \<open>Log lines\<close>

definition OPS_LOG_FIELDS :: "string list" where
  "OPS_LOG_FIELDS = [''event'', ''request_path'', ''order_id'', ''payment_id'', ''provider'', ''status'', ''outcome'',
     ''task_id'', ''task_name'', ''examined'', ''cleaned'', ''skipped'', ''errors'', ''timeout_minutes'', ''report_date'',
     ''sent'', ''updated'', ''kwargs_keys'', ''retries'', ''dead_letter'', ''idempotency_key'']"

record log_record =
  lr_level :: string
  lr_time :: string
  lr_logger :: string
  lr_message :: string
  lr_extra :: "string \<rightharpoonup> pyval"
  lr_exception :: "string option"

text \<open>The payload of a JSON line; the fields come in no particular order.\<close>

definition json_format :: "log_record \<Rightarrow> string \<rightharpoonup> pyval" where
  "json_format r = (\<lambda>k.
     if k = ''exception'' \<and> lr_exception r \<noteq> None then map_option VStr (lr_exception r)
     else if k \<in> set OPS_LOG_FIELDS \<and> lr_extra r k \<noteq> None then lr_extra r k
     else map_of [(''level'', VStr (lr_level r)), (''time'', VStr (lr_time r)),
       (''logger'', VStr (lr_logger r)), (''message'', VStr (lr_message r))] k)"

text \<open>\<open>RequestPathLogFilter\<close>: the path of the current request, unless the record has one\<close>

definition request_path_filter :: "string option \<Rightarrow> log_record \<Rightarrow> log_record" where
  "request_path_filter path r =
     (if (case lr_extra r ''request_path'' of Some v \<Rightarrow> val_truthy v | None \<Rightarrow> False) then r
      else case path of
        Some (c # p) \<Rightarrow> r\<lparr>lr_extra := (lr_extra r)(''request_path'' \<mapsto> VStr (c # p))\<rparr>
      | _ \<Rightarrow> r)"

definition if_given :: "string \<Rightarrow> string option \<Rightarrow> (string \<rightharpoonup> pyval) \<Rightarrow> string \<rightharpoonup> pyval" where
  "if_given k v m = (case v of Some (c # s) \<Rightarrow> m(k \<mapsto> VStr (c # s)) | _ \<Rightarrow> m)"

definition payment_extra :: "string \<Rightarrow> int option \<Rightarrow> int option \<Rightarrow> string option \<Rightarrow> string option \<Rightarrow>
    string option \<Rightarrow> string option \<Rightarrow> string \<rightharpoonup> pyval" where
  "payment_extra event order_id payment_id prov status request_path outcome =
     (let e = [''event'' \<mapsto> VStr event];
          e = (case order_id of Some n \<Rightarrow> e(''order_id'' \<mapsto> VInt n) | None \<Rightarrow> e);
          e = (case payment_id of Some n \<Rightarrow> e(''payment_id'' \<mapsto> VInt n) | None \<Rightarrow> e)
      in if_given ''outcome'' outcome (if_given ''request_path'' request_path
           (if_given ''status'' status (if_given ''provider'' prov e))))"

definition order_extra :: "string \<Rightarrow> int \<Rightarrow> string option \<Rightarrow> string option \<Rightarrow> string \<rightharpoonup> pyval" where
  "order_extra event order_id status outcome =
     if_given ''outcome'' outcome (if_given ''status'' status
       [''event'' \<mapsto> VStr event, ''order_id'' \<mapsto> VInt order_id])"

definition log_payment_event :: "string \<Rightarrow> string \<Rightarrow> int option \<Rightarrow> int option \<Rightarrow> string option \<Rightarrow> string option \<Rightarrow>
    string option \<Rightarrow> string option \<Rightarrow> log_record" where
  "log_payment_event t event order_id payment_id prov status request_path outcome =
     \<lparr>lr_level = ''INFO'', lr_time = t, lr_logger = ''crumbs.payments'', lr_message = event,
      lr_extra = payment_extra event order_id payment_id prov status request_path outcome, lr_exception = None\<rparr>"

definition log_order_event :: "string \<Rightarrow> string \<Rightarrow> int \<Rightarrow> string option \<Rightarrow> string option \<Rightarrow> log_record" where
  "log_order_event t event order_id status outcome =
     \<lparr>lr_level = ''INFO'', lr_time = t, lr_logger = ''crumbs.orders'', lr_message = event,
      lr_extra = order_extra event order_id status outcome, lr_exception = None\<rparr>"

text \<open>\<open>[^\s@]+@[^\s@]+\.[^\s@]+\<close>: after the at sign, a run with a dot inside it\<close>

definition plain :: "char \<Rightarrow> bool" where
  "plain c \<longleftrightarrow> \<not> is_space c \<and> c \<noteq> CHR ''@''"

definition dot_inside :: "string \<Rightarrow> bool" where
  "dot_inside s \<longleftrightarrow> CHR ''.'' \<in> set (butlast (tl s))"

fun has_email :: "string \<Rightarrow> bool" where
  "has_email (c # d # s) \<longleftrightarrow> plain c \<and> d = CHR ''@'' \<and> dot_inside (takeWhile plain s) \<or> has_email (d # s)"
| "has_email s \<longleftrightarrow> False"

definition message_contains_pii :: "string \<Rightarrow> bool" where
  "message_contains_pii msg \<longleftrightarrow> has_email msg \<or>
     list_ex (\<lambda>w. contains w (str_lower msg)) [''password='', ''resume_file'', ''authorization:'', ''streetaddress'']"

section \<open>The payment admin\<close>

fun val_of_json :: "json \<Rightarrow> pyval" where
  "val_of_json JNull = VNone"
| "val_of_json (JBool b) = VBool b"
| "val_of_json (JInt n) = VInt n"
| "val_of_json (JStr s) = VStr s"
| "val_of_json (JList vs) = VList (map val_of_json vs)"
| "val_of_json (JObj d) = VDict (map (\<lambda>(k, v). (k, val_of_json v)) d)"

text \<open>What the page shows of the metadata of a payment and of the payload of an event, if anything\<close>

definition safe_display :: "dict \<Rightarrow> pydict option" where
  "safe_display d = (if d = [] then None else Some (scrub_mapping 0 (map (\<lambda>(k, v). (k, val_of_json v)) d)))"

definition metadata_safe :: "payment \<Rightarrow> pydict option" where
  "metadata_safe p = safe_display (pay_metadata p)"

definition payload_safe :: "payment_event \<Rightarrow> pydict option" where
  "payload_safe e = safe_display (ev_payload e)"

section \<open>What scrubbing hides\<close>

text \<open>
  Values that agree on everything but what is stored under sensitive keys, at any depth.
\<close>

inductive similar :: "pyval \<Rightarrow> pyval \<Rightarrow> bool" where
  same: "similar v v"
| lists: "list_all2 similar vs us \<Longrightarrow> similar (VList vs) (VList us)"
| dicts: "list_all2 (\<lambda>a b. fst a = fst b \<and> (sensitive (fst a) \<or> similar (snd a) (snd b))) d e \<Longrightarrow>
    similar (VDict d) (VDict e)"
monos list_all2_mono conj_mono disj_mono

abbreviation similar_entries :: "pydict \<Rightarrow> pydict \<Rightarrow> bool" where
  "similar_entries \<equiv> list_all2 (\<lambda>a b. fst a = fst b \<and> (sensitive (fst a) \<or> similar (snd a) (snd b)))"

inductive_cases similar_dictE: "similar (VDict d) v"

lemma contains_iff: "contains w s \<longleftrightarrow> (\<exists>x y. s = x @ w @ y)"
proof (induction s)
  case (Cons c s)
  have "take (length w) (c # s) = w \<longleftrightarrow> (\<exists>y. c # s = w @ y)"
    by (metis append_eq_conv_conj append_take_drop_id)
  moreover have "(\<exists>x y. c # s = x @ w @ y) \<longleftrightarrow> (\<exists>y. c # s = w @ y) \<or> (\<exists>x y. s = x @ w @ y)"
    by (auto simp: Cons_eq_append_conv)
  ultimately show ?case using Cons by simp
qed auto

lemma sensitive_iff:
  "sensitive s \<longleftrightarrow> (\<exists>x y z. s = x @ y @ z \<and> str_lower y \<in> set SENSITIVE_WORDS)"
proof -
  have "contains w (str_lower s) \<longleftrightarrow> (\<exists>x y z. s = x @ y @ z \<and> str_lower y = w)" for w
    unfolding contains_iff str_lower_def by (metis map_append map_eq_append_conv)
  then show ?thesis by (auto simp: sensitive_def list_ex_iff)
qed

lemma sensitive_infix: "sensitive s \<Longrightarrow> sensitive (x @ s @ y)"
  unfolding sensitive_iff by (metis append.assoc)

lemma words_are_letters:
  "w \<in> set SENSITIVE_WORDS \<Longrightarrow> c \<in> set w \<Longrightarrow> 97 \<le> (of_char c :: nat) \<and> (of_char c :: nat) \<le> 122"
  by (auto simp: SENSITIVE_WORDS_def)

lemma letter_of_lower:
  assumes "97 \<le> (of_char (lower_char c) :: nat)" "(of_char (lower_char c) :: nat) \<le> 122"
  shows "65 \<le> (of_char c :: nat)" "(of_char c :: nat) \<le> 122" "(of_char c :: nat) \<noteq> 92"
  using assms by (auto simp: lower_char_def Let_def split: if_splits)

lemma letters_stay:
  assumes "\<forall>c\<in>set s. 65 \<le> (of_char c :: nat) \<and> (of_char c :: nat) \<le> 122 \<and> (of_char c :: nat) \<noteq> 92"
    and "(of_char q :: nat) < 65"
  shows "concat (map (esc_char q) s) = s"
proof -
  have "esc_char q c = [c]" if "c \<in> set s" for c
  proof -
    have "c \<noteq> q" using assms(2) bspec [OF assms(1) that] by auto
    then show ?thesis using bspec [OF assms(1) that] by (simp add: esc_char_def Let_def)
  qed
  then show ?thesis by (induction s) auto
qed

lemma sensitive_repr_str: "sensitive s \<Longrightarrow> sensitive (repr_str s)"
proof -
  assume "sensitive s"
  then obtain x y z where s: "s = x @ y @ z" and y: "str_lower y \<in> set SENSITIVE_WORDS"
    by (auto simp: sensitive_iff)
  let ?f = "\<lambda>t. concat (map (esc_char (repr_quote s)) t)"
  have "97 \<le> (of_char (lower_char c) :: nat) \<and> (of_char (lower_char c) :: nat) \<le> 122" if "c \<in> set y" for c
    using words_are_letters [OF y] that by (auto simp: str_lower_def)
  then have "\<forall>c\<in>set y. 65 \<le> (of_char c :: nat) \<and> (of_char c :: nat) \<le> 122 \<and> (of_char c :: nat) \<noteq> 92"
    using letter_of_lower by blast
  moreover have "(of_char (repr_quote s) :: nat) < 65" by (simp add: repr_quote_def)
  ultimately have "?f y = y" by (rule letters_stay)
  moreover have "sensitive y" using y unfolding sensitive_iff by (metis append.right_neutral append_Nil)
  moreover have "repr_str s = (repr_quote s # ?f x) @ ?f y @ ?f z @ [repr_quote s]"
    by (simp add: repr_str_def s)
  ultimately show ?thesis by (metis sensitive_infix)
qed

lemma sensitive_join: "s \<in> set ss \<Longrightarrow> sensitive s \<Longrightarrow> sensitive (join sep ss)"
proof (induction sep ss rule: join.induct)
  case (3 sep x y xs)
  then show ?case
    using sensitive_infix [of x "[]" "sep @ join sep (y # xs)"]
      sensitive_infix [of "join sep (y # xs)" "x @ sep" "[]"] by auto
qed auto

lemma sensitive_part:
  "u \<in> set vs \<Longrightarrow> sensitive (py_repr u) \<Longrightarrow> sensitive (py_repr (VList vs))"
  "(k, u) \<in> set d \<Longrightarrow> sensitive k \<or> sensitive (py_repr u) \<Longrightarrow> sensitive (py_repr (VDict d))"
proof -
  assume "u \<in> set vs" "sensitive (py_repr u)"
  then have "sensitive (join '', '' (map py_repr vs))" by (intro sensitive_join) auto
  then show "sensitive (py_repr (VList vs))" using sensitive_infix [of _ "''[''" "'']''"] by simp
next
  let ?t = "\<lambda>(k, v). repr_str k @ '': '' @ py_repr v"
  assume m: "(k, u) \<in> set d" and "sensitive k \<or> sensitive (py_repr u)"
  then have "sensitive (?t (k, u))"
    using sensitive_infix [of "repr_str k" "[]" "'': '' @ py_repr u"]
      sensitive_infix [of "py_repr u" "repr_str k @ '': ''" "[]"] sensitive_repr_str by auto
  then have "sensitive (join '', '' (map ?t d))" using m by (intro sensitive_join) (auto intro!: image_eqI)
  then show "sensitive (py_repr (VDict d))" using sensitive_infix [of _ "''{''" "''}''"] by simp
qed

text \<open>Values that differ but for sensitive entries have such entries, and their text shows it.\<close>

lemma similar_text: "similar v u \<Longrightarrow> v = u \<or> sensitive (py_repr v) \<and> sensitive (py_repr u)"
proof (induction rule: similar.induct)
  case (lists vs us)
  show ?case
  proof (cases "vs = us")
    case False
    then obtain i where "i < length vs" "vs ! i \<noteq> us ! i"
      using lists list_all2_lengthD nth_equalityI by blast
    moreover have "length us = length vs" using list_all2_lengthD [OF lists] by simp
    ultimately show ?thesis
      using list_all2_nthD [OF lists, of i] sensitive_part(1) [OF nth_mem, of i vs] sensitive_part(1) [OF nth_mem, of i us]
      by simp
  qed simp
next
  case (dicts d e)
  show ?case
  proof (cases "d = e")
    case False
    then obtain i where i: "i < length d" "d ! i \<noteq> e ! i"
      using dicts list_all2_lengthD nth_equalityI by blast
    have l: "length e = length d" using list_all2_lengthD [OF dicts] by simp
    obtain k v j u where kv: "d ! i = (k, v)" "e ! i = (j, u)" by (metis surj_pair)
    have "(k, v) \<in> set d" "(j, u) \<in> set e" using nth_mem [of i d] nth_mem [of i e] i(1) l kv by auto
    moreover have "k = j" "sensitive k \<or> v = u \<or> sensitive (py_repr v) \<and> sensitive (py_repr u)"
      using list_all2_nthD [OF dicts i(1)] kv by auto
    moreover have "v \<noteq> u" using i(2) kv \<open>k = j\<close> by simp
    ultimately show ?thesis using sensitive_part(2) [of k v d] sensitive_part(2) [of j u e] by blast
  qed simp
qed simp

lemma similar_scalar:
  "similar v u \<Longrightarrow> \<forall>d. v \<noteq> VDict d \<Longrightarrow> \<forall>vs. v \<noteq> VList vs \<Longrightarrow> v = u"
  by (erule similar.cases) auto

lemma map_eq_if_all2:
  "list_all2 P xs ys \<Longrightarrow> (\<And>a b. P a b \<Longrightarrow> f a = g b) \<Longrightarrow> map f xs = map g ys"
  by (induction rule: list_all2_induct) auto

lemma all2_entriesD:
  "similar_entries d e \<Longrightarrow> similar (VDict d) (VDict e)"
  by (rule similar.dicts)

lemma similar_entries_refl: "similar_entries d d"
  by (rule list_all2_refl) (simp add: similar.same)

lemma similar_dictD: "similar (VDict d) v \<Longrightarrow> \<exists>e. v = VDict e \<and> similar_entries d e"
  by (erule similar_dictE) (auto simp: similar_entries_refl)

text \<open>Scrubbing maps similar mappings to the same mapping.\<close>

lemma scrub_similar: "similar_entries d e \<Longrightarrow> scrub_mapping n d = scrub_mapping n e"
proof (induction "7 - n" arbitrary: n d e rule: less_induct)
  case less
  show ?case
  proof (cases "6 < n")
    case False
    have deeper: "scrub_mapping (Suc n) d' = scrub_mapping (Suc n) e'" if "similar_entries d' e'" for d' e'
      using less.hyps [OF _ that] False by simp
    let ?item = "\<lambda>item. case item of VDict d \<Rightarrow> VDict (scrub_mapping (Suc n) d)
            | _ \<Rightarrow> if sensitive (py_str item) then filtered else item"
    let ?val = "\<lambda>v. case v of VDict d \<Rightarrow> VDict (scrub_mapping (Suc n) d)
        | VList vs \<Rightarrow> VList (map ?item (take 20 vs)) | _ \<Rightarrow> v"
    have item: "?item v = ?item u" if "similar v u" for v u
      using that
    proof cases
      case (lists vs us)
      then show ?thesis using similar_text [OF that] by (auto simp: py_str_def)
    next
      case (dicts d e)
      then show ?thesis using deeper by simp
    qed auto
    have val: "?val v = ?val u" if "similar v u" for v u
      using that
    proof cases
      case (lists vs us)
      then have "map ?item (take 20 vs) = map ?item (take 20 us)"
        by (intro map_eq_if_all2 [OF list_all2_takeI] item)
      with lists show ?thesis by simp
    next
      case (dicts d e)
      then show ?thesis using deeper by simp
    qed auto
    have "map (\<lambda>(k, v). (k, if sensitive k then filtered else ?val v)) d =
        map (\<lambda>(k, v). (k, if sensitive k then filtered else ?val v)) e"
      using less.prems by (rule map_eq_if_all2) (auto dest: val split: prod.splits)
    with False show ?thesis by (simp add: scrub_mapping.simps [of n])
  qed (simp add: scrub_mapping.simps [of n])
qed

lemma similar_key_pop: "similar_entries d e \<Longrightarrow> similar_entries (key_pop k d) (key_pop k e)"
  by (induction rule: list_all2_induct) (auto simp: key_pop_def split: prod.splits)

lemma similar_key_put:
  "similar_entries d e \<Longrightarrow> similar v u \<Longrightarrow> similar_entries (key_put k v d) (key_put k u e)"
  by (induction rule: list_all2_induct) (auto simp: key_put_def split: prod.splits)

lemma similar_map_of:
  assumes "similar_entries d e"
  shows "(case (map_of d k, map_of e k) of (Some v, Some u) \<Rightarrow> sensitive k \<or> similar v u
    | (None, None) \<Rightarrow> True | _ \<Rightarrow> False)"
  using assms by (induction rule: list_all2_induct) (auto split: option.splits prod.splits)

lemma similar_strip_headers:
  assumes "similar_entries d e"
  shows "similar_entries (strip_headers d) (strip_headers e)"
proof -
  have "\<not> sensitive ''headers''" by code_simp
  then consider "map_of d ''headers'' = None" "map_of e ''headers'' = None"
    | v u where "map_of d ''headers'' = Some v" "map_of e ''headers'' = Some u" "similar v u"
    using similar_map_of [OF assms, of "''headers''"] by (auto split: option.splits)
  then show ?thesis
  proof cases
    case (2 v u)
    show ?thesis
    proof (cases "\<exists>h. v = VDict h")
      case True
      then obtain h h' where h: "v = VDict h" "u = VDict h'" "similar_entries h h'"
        using similar_dictD 2(3) by blast
      then show ?thesis using 2 assms
        by (simp add: strip_headers_def similar_key_put similar.dicts similar_key_pop)
    next
      case False
      then have "\<forall>h. u \<noteq> VDict h" using 2(3) by (auto elim: similar.cases)
      with False 2 assms show ?thesis
        by (cases v; cases u) (simp_all add: strip_headers_def)
    qed
  qed (simp add: strip_headers_def assms)
qed

lemma key_pop_commute: "key_pop a (key_pop b d) = key_pop b (key_pop a d)"
  unfolding key_pop_def by (simp add: conj_commute)

lemma map_of_key_put: "map_of (key_put k v d) j = (if j = k \<and> map_of d k \<noteq> None then Some v else map_of d j)"
  by (induction d) (auto simp: key_put_def)

lemma key_put_twice: "key_put k v (key_put k u d) = key_put k v d"
  by (simp add: key_put_def split_def)

lemma key_put_absent: "map_of d k = None \<Longrightarrow> key_put k v d = d"
  by (induction d) (auto simp: key_put_def split: if_splits)

lemma key_put_swap: "j \<noteq> k \<Longrightarrow> key_put j v (key_put k u d) = key_put k u (key_put j v d)"
  by (simp add: key_put_def split_def)

lemma on_dict_put: "on_dict k f (key_put k (VDict d) ev) = key_put k (VDict (f d)) ev"
  by (auto simp: on_dict_def map_of_key_put key_put_twice key_put_absent)

lemma on_dict_other:
  "j \<noteq> k \<Longrightarrow> on_dict k f (key_put j v ev) = key_put j v (on_dict k f ev)"
  by (auto simp: on_dict_def map_of_key_put key_put_swap split: option.split pyval.split)

text \<open>
  C26: An error report does not depend on what it must not carry. Two reports whose requests agree
  up to their body and up to the values stored under sensitive keys at any depth, and whose extra data agree up
  to such values, are sent as the same report.
\<close>

theorem reports_hide_secrets:
  assumes "similar_entries (key_pop ''data'' r) (key_pop ''data'' r')"
    and "similar_entries x x'"
  shows "sentry_before_send (key_put ''request'' (VDict r) (key_put ''extra'' (VDict x) ev)) =
    sentry_before_send (key_put ''request'' (VDict r') (key_put ''extra'' (VDict x') ev))"
proof -
  have "scrub_request r = scrub_request r'"
    unfolding scrub_request_def
    by (intro scrub_similar similar_strip_headers similar_key_pop assms(1))
  moreover have "scrub_mapping 0 x = scrub_mapping 0 x'" by (rule scrub_similar [OF assms(2)])
  ultimately show ?thesis
    by (simp add: sentry_before_send_def on_dict_put on_dict_other)
qed

lemma reports_hide_secrets_witness:
  "sentry_before_send (key_put ''request'' (VDict [(''url'', VStr ''/''), (''data'', VStr ''card 1'')])
      (key_put ''extra'' (VDict [(''user'', VList [VDict [(''Phone'', VInt 1)]])])
        [(''request'', VNone), (''extra'', VNone)])) =
   sentry_before_send (key_put ''request'' (VDict [(''url'', VStr ''/''), (''data'', VStr ''card 2'')])
      (key_put ''extra'' (VDict [(''user'', VList [VDict [(''Phone'', VInt 2)]])])
        [(''request'', VNone), (''extra'', VNone)]))"
proof (rule reports_hide_secrets)
  show "similar_entries (key_pop ''data'' [(''url'', VStr ''/''), (''data'', VStr ''card 1'')])
      (key_pop ''data'' [(''url'', VStr ''/''), (''data'', VStr ''card 2'')])"
    by (simp add: key_pop_def similar.same)
  have "sensitive ''Phone''" by code_simp
  then have "similar (VDict [(''Phone'', VInt 1)]) (VDict [(''Phone'', VInt 2)])"
    by (intro similar.dicts) simp
  then have "similar (VList [VDict [(''Phone'', VInt 1)]]) (VList [VDict [(''Phone'', VInt 2)]])"
    by (intro similar.lists) simp
  then show "similar_entries [(''user'', VList [VDict [(''Phone'', VInt 1)]])] [(''user'', VList [VDict [(''Phone'', VInt 2)]])]"
    by simp
qed

text \<open>A line about a payment or an order has the four fields of every line and those its event may carry.\<close>

lemma dom_if_given: "dom (if_given k v m) \<subseteq> insert k (dom m)"
  by (auto simp: if_given_def split: option.splits list.splits if_splits)

lemma payment_line_fields:
  "dom (json_format (request_path_filter path (log_payment_event t event oid pid prov status req outcome))) \<subseteq>
     {''level'', ''time'', ''logger'', ''message'', ''event'', ''order_id'', ''payment_id'', ''provider'', ''status'',
      ''request_path'', ''outcome''}"
proof -
  have "dom (payment_extra event oid pid prov status req outcome) \<subseteq>
      {''event'', ''order_id'', ''payment_id'', ''provider'', ''status'', ''request_path'', ''outcome''}"
    unfolding payment_extra_def Let_def
    by (intro order.trans [OF dom_if_given] insert_subsetI) (auto split: option.splits)
  then have "dom (lr_extra (request_path_filter path (log_payment_event t event oid pid prov status req outcome))) \<subseteq>
      {''event'', ''order_id'', ''payment_id'', ''provider'', ''status'', ''request_path'', ''outcome''}"
    by (auto simp: request_path_filter_def log_payment_event_def split: option.splits list.splits if_splits)
  moreover have "lr_exception (request_path_filter path (log_payment_event t event oid pid prov status req outcome)) = None"
    by (auto simp: request_path_filter_def log_payment_event_def split: option.splits list.splits if_splits)
  ultimately show ?thesis
    by (auto simp: json_format_def subset_iff dom_def split: if_splits)
qed

end
