(* ===== verification/Redaction.thy ===== *)
theory Redaction
  imports Observability
begin

text \<open>
  What the client of Zarinpal keeps of an answer for logs and errors
  (\<open>apps/payments/providers/zarinpal.py\<close>): secrets are removed from JSON by their keys and from other texts
  by searching for the merchant id.
\<close>

section \<open>JSON\<close>

definition SENSITIVE_JSON_KEYS :: "string list" where
  "SENSITIVE_JSON_KEYS = [''merchant_id'', ''merchant'', ''authorization'', ''password'', ''secret'', ''api_key'',
     ''access_token'', ''refresh_token'']"

definition stars :: string where
  "stars = ''***''"

fun sanitize_json :: "pyval \<Rightarrow> pyval" where
  "sanitize_json (VDict d) = VDict (map (\<lambda>(k, v).
     (k, if str_lower k \<in> set SENSITIVE_JSON_KEYS then VStr stars else sanitize_json v)) d)"
| "sanitize_json (VList vs) = VList (map sanitize_json vs)"
| "sanitize_json v = v"

text \<open>\<open>json.dumps(value, ensure_ascii=False)\<close>\<close>

definition json_char :: "char \<Rightarrow> string" where
  "json_char c = (let n = of_char c :: nat in
     if n = 34 \<or> n = 92 then [CHR 0x5C, c]
     else if n = 10 then [CHR 0x5C, CHR ''n'']
     else if n = 13 then [CHR 0x5C, CHR ''r'']
     else if n = 9 then [CHR 0x5C, CHR ''t'']
     else if n = 8 then [CHR 0x5C, CHR ''b'']
     else if n = 12 then [CHR 0x5C, CHR ''f'']
     else if n < 32 then [CHR 0x5C, CHR ''u'', CHR ''0'', CHR ''0'', hex_digit (n div 16), hex_digit (n mod 16)]
     else [c])"

definition dumps_str :: "string \<Rightarrow> string" where
  "dumps_str s = [CHR 0x22] @ concat (map json_char s) @ [CHR 0x22]"

fun json_dumps :: "pyval \<Rightarrow> string" where
  "json_dumps VNone = ''null''"
| "json_dumps (VBool b) = (if b then ''true'' else ''false'')"
| "json_dumps (VInt n) = int_str n"
| "json_dumps (VFloat s) = s"
| "json_dumps (VStr s) = dumps_str s"
| "json_dumps (VList vs) = ''['' @ join '', '' (map json_dumps vs) @ '']''"
| "json_dumps (VDict d) = ''{'' @ join '', '' (map (\<lambda>(k, v). dumps_str k @ '': '' @ json_dumps v) d) @ ''}''"

section \<open>Other texts\<close>

text \<open>\<open>text.replace(old, "***")\<close> for a text that is not empty\<close>

function replace :: "string \<Rightarrow> string \<Rightarrow> string" where
  "replace old s =
     (if old = [] then s
      else case s of [] \<Rightarrow> []
      | c # t \<Rightarrow> if take (length old) s = old then stars @ replace old (drop (length old) s) else c # replace old t)"
  by pat_completeness auto
termination by (relation "measure (\<lambda>(old, s). length s)") auto

declare replace.simps [simp del]

lemma replace_Nil: "replace m [] = []"
  by (subst replace.simps) simp

lemma replace_Cons:
  "m \<noteq> [] \<Longrightarrow> replace m (c # t) =
    (if take (length m) (c # t) = m then stars @ replace m (drop (length m) (c # t)) else c # replace m t)"
  by (subst replace.simps) simp

text \<open>
  The expression for \<open>"merchant_id" : "..."\<close> in any case: at the start of a text, the part up to
  the opening quote and what follows the closing one
\<close>

definition id_label :: string where
  "id_label = CHR 0x22 # ''merchant_id'' @ [CHR 0x22]"

definition match_id :: "string \<Rightarrow> (string \<times> string) option" where
  "match_id s =
     (let label = take 13 s; r1 = drop 13 s; sp1 = takeWhile is_space r1; r2 = dropWhile is_space r1 in
      if str_lower label \<noteq> id_label \<or> take 1 r2 \<noteq> '':'' then None
      else let r3 = drop 1 r2; sp2 = takeWhile is_space r3; r4 = dropWhile is_space r3 in
        if take 1 r4 \<noteq> [CHR 0x22] then None
        else let r5 = dropWhile (\<lambda>c. c \<noteq> CHR 0x22) (drop 1 r4) in
          if r5 = [] then None else Some (label @ sp1 @ '':'' @ sp2 @ [CHR 0x22], drop 1 r5))"

lemma length_dropWhile_drop: "length (dropWhile P (drop n xs)) \<le> length xs - n"
  by (metis length_drop length_dropWhile_le)

lemma match_id_shorter: "match_id s = Some (g, rest) \<Longrightarrow> length rest < length s"
proof -
  assume m: "match_id s = Some (g, rest)"
  define r2 where "r2 = dropWhile is_space (drop 13 s)"
  define r4 where "r4 = dropWhile is_space (drop 1 r2)"
  define r5 where "r5 = dropWhile (\<lambda>c. c \<noteq> CHR 0x22) (drop 1 r4)"
  have "rest = drop 1 r5" "r5 \<noteq> []"
    using m by (auto simp: match_id_def Let_def r2_def r4_def r5_def split: if_splits)
  then have "length rest < length r5" by (cases r5) auto
  moreover have "length r5 \<le> length r4 - 1" unfolding r5_def by (rule length_dropWhile_drop)
  moreover have "length r4 \<le> length r2 - 1" unfolding r4_def by (rule length_dropWhile_drop)
  moreover have "length r2 \<le> length s - 13" unfolding r2_def by (rule length_dropWhile_drop)
  ultimately show ?thesis by arith
qed

function mask_ids :: "string \<Rightarrow> string" where
  "mask_ids s = (case match_id s of
     Some (g, rest) \<Rightarrow> g @ stars @ CHR 0x22 # mask_ids rest
   | None \<Rightarrow> (case s of [] \<Rightarrow> [] | c # t \<Rightarrow> c # mask_ids t))"
  by pat_completeness auto
termination by (relation "measure length") (auto dest: match_id_shorter)

declare mask_ids.simps [simp del]

lemma mask_Some: "match_id s = Some (g, rest) \<Longrightarrow> mask_ids s = g @ stars @ CHR 0x22 # mask_ids rest"
  by (subst mask_ids.simps) simp

lemma mask_None: "match_id (c # t) = None \<Longrightarrow> mask_ids (c # t) = c # mask_ids t"
  by (subst mask_ids.simps) simp

lemma mask_Nil: "mask_ids [] = []"
  by (subst mask_ids.simps) (simp add: match_id_def str_lower_def id_label_def)

definition redact_secrets_in_text :: "string \<Rightarrow> string \<Rightarrow> string" where
  "redact_secrets_in_text merchant_id text = mask_ids (if merchant_id \<noteq> [] then replace merchant_id text else text)"

record http_answer =
  rp_content_type :: "string option"
  rp_json :: "pyval option"
  rp_text :: string

definition RESPONSE_BODY_MAX_LENGTH :: nat where
  "RESPONSE_BODY_MAX_LENGTH = 2000"

definition read_response_body :: "string \<Rightarrow> nat \<Rightarrow> http_answer \<Rightarrow> string" where
  "read_response_body merchant_id max_length r =
     (let plain = redact_secrets_in_text merchant_id (str_strip (rp_text r));
          text = (if contains ''json'' (str_lower (case rp_content_type r of Some t \<Rightarrow> t | None \<Rightarrow> []))
                  then case rp_json r of Some v \<Rightarrow> json_dumps (sanitize_json v) | None \<Rightarrow> plain
                  else plain)
      in if text = [] then ''(empty response body)''
         else if max_length < length text then take max_length text @ ''...'' else text)"

section \<open>The merchant id is gone\<close>

text \<open>A part of the result without a star is a part of the text it was made from.\<close>

lemma no_star_prefix:
  assumes "CHR ''*'' \<notin> set y" and "a @ stars @ b = y @ z"
  shows "\<exists>x. a = y @ x"
proof -
  obtain us where "a = y @ us \<and> us @ stars @ b = z \<or> a @ us = y \<and> stars @ b = us @ z"
    using iffD1 [OF append_eq_append_conv2 assms(2)] by blast
  then show ?thesis
  proof
    assume "a @ us = y \<and> stars @ b = us @ z"
    moreover have "us = []" using calculation assms(1) by (cases us) (auto simp: stars_def)
    ultimately show ?thesis by auto
  qed auto
qed

lemma no_star_infix:
  assumes "CHR ''*'' \<notin> set y" and "y \<noteq> []" and "contains y (a @ stars @ b)"
  shows "contains y a \<or> contains y b"
proof -
  obtain u z where u: "a @ stars @ b = u @ y @ z" using assms(3) by (auto simp: contains_iff)
  obtain us where "a = u @ us \<and> us @ stars @ b = y @ z \<or> a @ us = u \<and> stars @ b = us @ y @ z"
    using iffD1 [OF append_eq_append_conv2 u] by blast
  then show ?thesis
  proof
    assume "a = u @ us \<and> us @ stars @ b = y @ z"
    moreover from this obtain x where "us = y @ x" using no_star_prefix [OF assms(1)] by blast
    ultimately have "a = u @ y @ x" by simp
    then show ?thesis unfolding contains_iff by blast
  next
    assume us: "a @ us = u \<and> stars @ b = us @ y @ z"
    obtain vs where "stars = us @ vs \<and> vs @ b = y @ z \<or> stars @ vs = us \<and> b = vs @ y @ z"
      using iffD1 [OF append_eq_append_conv2 conjunct2 [OF us]] by blast
    then show ?thesis
    proof
      assume v: "stars = us @ vs \<and> vs @ b = y @ z"
      then have "set stars = set us \<union> set vs" by (metis set_append)
      then have "set vs \<subseteq> set stars" by blast
      then have "vs = []" using v assms(1,2) by (cases vs; cases y) (auto simp: stars_def)
      then have "b = [] @ y @ z" using v by simp
      then show ?thesis unfolding contains_iff by blast
    qed (auto simp: contains_iff)
  qed
qed

text \<open>After the replacement the id is gone: what is left of the text before each star is too short to hold it.\<close>

lemma replace_prefix:
  assumes "m \<noteq> []" "CHR ''*'' \<notin> set y" "replace m s = y @ z"
  shows "\<exists>x. s = y @ x"
  using assms(2,3)
proof (induction s arbitrary: y rule: measure_induct_rule [of length])
  case (less s)
  show ?case
  proof (cases s)
    case Nil
    then show ?thesis using less.prems by (simp add: replace_Nil)
  next
    case (Cons c t)
    show ?thesis
    proof (cases "take (length m) s = m")
      case True
      then have "[] @ stars @ replace m (drop (length m) s) = y @ z"
        using less.prems(2) Cons by (simp add: replace_Cons [OF assms(1)])
      from no_star_prefix [OF less.prems(1) this] show ?thesis by simp
    next
      case False
      then have r: "c # replace m t = y @ z" using less.prems(2) Cons by (simp add: replace_Cons [OF assms(1)])
      show ?thesis
      proof (cases y)
        case (Cons d y')
        then show ?thesis using less.IH [of t y'] less.prems(1) r \<open>s = c # t\<close> by auto
      qed simp
    qed
  qed
qed

lemma replace_removes:
  assumes "m \<noteq> []" "CHR ''*'' \<notin> set m"
  shows "\<not> contains m (replace m s)"
proof (induction s rule: measure_induct_rule [of length])
  case (less s)
  show ?case
  proof (cases s)
    case Nil
    then show ?thesis using assms(1) by (simp add: replace_Nil)
  next
    case (Cons c t)
    show ?thesis
    proof (cases "take (length m) s = m")
      case True
      have "length (drop (length m) s) < length s" using Cons assms(1) by (cases m) auto
      then have "\<not> contains m (replace m (drop (length m) s))" by (rule less.IH)
      moreover have "replace m s = [] @ stars @ replace m (drop (length m) s)"
        using True Cons by (simp add: replace_Cons [OF assms(1)])
      ultimately show ?thesis using no_star_infix [OF assms(2,1), of "[]"] assms(1) by auto
    next
      case False
      have r: "replace m s = c # replace m t" using False Cons by (simp add: replace_Cons [OF assms(1)])
      have "take (length m) (replace m s) \<noteq> m"
      proof
        assume "take (length m) (replace m s) = m"
        then have "replace m s = m @ drop (length m) (replace m s)" by (metis append_take_drop_id)
        from replace_prefix [OF assms this] False show False by (metis append_eq_conv_conj)
      qed
      moreover have "\<not> contains m (replace m t)" using less.IH [of t] Cons by simp
      ultimately show ?thesis unfolding r by simp
    qed
  qed
qed

lemma unless_None: "(if b then None else x) = Some y \<longleftrightarrow> \<not> b \<and> x = Some y"
  by simp

lemma match_id_parts: "match_id s = Some (g, rest) \<Longrightarrow> \<exists>v. s = g @ v @ CHR 0x22 # rest"
proof -
  assume m: "match_id s = Some (g, rest)"
  define r1 where "r1 = drop 13 s"
  define r2 where "r2 = dropWhile is_space r1"
  define r3 where "r3 = drop 1 r2"
  define r4 where "r4 = dropWhile is_space r3"
  define v where "v = takeWhile (\<lambda>c. c \<noteq> CHR 0x22) (drop 1 r4)"
  define r5 where "r5 = dropWhile (\<lambda>c. c \<noteq> CHR 0x22) (drop 1 r4)"
  have m': "(if str_lower (take 13 s) \<noteq> id_label \<or> take 1 r2 \<noteq> '':'' then None
      else if take 1 r4 \<noteq> [CHR 0x22] then None else if r5 = [] then None
      else Some (take 13 s @ takeWhile is_space r1 @ '':'' @ takeWhile is_space r3 @ [CHR 0x22], drop 1 r5)) = Some (g, rest)"
    using m unfolding match_id_def Let_def r5_def r4_def r3_def r2_def r1_def .
  have g: "g = take 13 s @ takeWhile is_space r1 @ '':'' @ takeWhile is_space r3 @ [CHR 0x22]"
    and rest: "rest = drop 1 r5" "r5 \<noteq> []" and c: "take 1 r2 = '':''" "take 1 r4 = [CHR 0x22]"
    using m' unfolding unless_None option.inject prod.inject by simp_all
  have "hd r5 = CHR 0x22" using rest(2) hd_dropWhile [of "\<lambda>c. c \<noteq> CHR 0x22" "drop 1 r4"] unfolding r5_def by blast
  then have "r5 = CHR 0x22 # rest" using rest by (cases r5) auto
  then have 5: "drop 1 r4 = v @ CHR 0x22 # rest" unfolding v_def r5_def by (metis takeWhile_dropWhile_id)
  define w1 where "w1 = takeWhile is_space r1"
  define w3 where "w3 = takeWhile is_space r3"
  have 4: "r4 = CHR 0x22 # v @ CHR 0x22 # rest" using c(2) 5 by (cases r4) auto
  have 3: "r3 = w3 @ r4" unfolding r4_def w3_def by simp
  have 2: "r2 = CHR '':'' # r3" unfolding r3_def using c(1) by (cases r2) auto
  have 1: "r1 = w1 @ r2" unfolding r2_def w1_def by simp
  have "s = take 13 s @ r1" by (simp add: r1_def)
  also have "r1 = w1 @ CHR '':'' # w3 @ CHR 0x22 # v @ CHR 0x22 # rest" by (simp add: 1 2 3 4)
  finally have "s = take 13 s @ w1 @ CHR '':'' # w3 @ CHR 0x22 # v @ CHR 0x22 # rest" .
  then show ?thesis unfolding g w1_def [symmetric] w3_def [symmetric] by (intro exI [of _ v]) simp
qed

lemma mask_prefix:
  assumes "CHR ''*'' \<notin> set y" "mask_ids s = y @ z"
  shows "\<exists>x. s = y @ x"
  using assms
proof (induction s arbitrary: y rule: mask_ids.induct)
  case (1 s)
  show ?case
  proof (cases "match_id s")
    case (Some gr)
    obtain g rest where gr: "gr = (g, rest)" by fastforce
    then have "g @ stars @ CHR 0x22 # mask_ids rest = y @ z" using 1(4) Some by (simp add: mask_Some)
    from no_star_prefix [OF 1(3) this] obtain x where "g = y @ x" by blast
    then show ?thesis using match_id_parts [of s g rest] Some gr by auto
  next
    case None
    show ?thesis
    proof (cases s)
      case Nil
      then show ?thesis using 1(4) by (simp add: mask_Nil)
    next
      case (Cons c t)
      then have r: "c # mask_ids t = y @ z" using 1(4) None by (simp add: mask_None)
      show ?thesis
      proof (cases y)
        case (Cons d y')
        then show ?thesis using 1(1) [OF None \<open>s = c # t\<close>, of y'] 1(3) r \<open>s = c # t\<close> by auto
      qed simp
    qed
  qed
qed

lemma mask_infix:
  assumes "CHR ''*'' \<notin> set y" "y \<noteq> []" "contains y (mask_ids s)"
  shows "contains y s"
  using assms(3)
proof (induction s rule: mask_ids.induct)
  case (1 s)
  show ?case
  proof (cases "match_id s")
    case (Some gr)
    obtain g rest where gr: "gr = (g, rest)" by fastforce
    obtain v where s: "s = g @ v @ CHR 0x22 # rest" using match_id_parts Some gr by blast
    have "contains y (g @ stars @ CHR 0x22 # mask_ids rest)" using 1(3) Some gr by (simp add: mask_Some)
    then consider "contains y g" | "take (length y) (CHR 0x22 # mask_ids rest) = y" | "contains y (mask_ids rest)"
      using no_star_infix [OF assms(1,2)] by fastforce
    then show ?thesis
    proof cases
      case 1
      then show ?thesis unfolding s contains_iff by (metis append.assoc)
    next
      case 2
      then obtain y' where y: "y = CHR 0x22 # y'" "take (length y') (mask_ids rest) = y'"
        using assms(2) by (cases y) auto
      have "mask_ids rest = y' @ drop (length y') (mask_ids rest)" using y(2) by (metis append_take_drop_id)
      then obtain x where "rest = y' @ x" using mask_prefix [of y' rest] assms(1) y(1) by auto
      then have "s = (g @ v) @ y @ x" using s y(1) by simp
      then show ?thesis unfolding contains_iff by blast
    next
      case 3
      then have "contains y rest" using 1(2) [OF Some gr [symmetric]] by blast
      then show ?thesis unfolding s contains_iff by (metis append.assoc append_Cons)
    qed
  next
    case None
    show ?thesis
    proof (cases s)
      case Nil
      then show ?thesis using 1(3) by (simp add: mask_Nil)
    next
      case (Cons c t)
      have m: "mask_ids s = c # mask_ids t" using Cons None by (simp add: mask_None)
      show ?thesis
      proof (cases "take (length y) (mask_ids s) = y")
        case True
        then have "mask_ids s = y @ drop (length y) (mask_ids s)" by (metis append_take_drop_id)
        from mask_prefix [OF assms(1) this] show ?thesis by (auto simp: contains_iff)
      next
        case False
        then have "contains y (mask_ids t)" using 1(3) m by simp
        then show ?thesis using 1(1) [OF None Cons] Cons by simp
      qed
    qed
  qed
qed

lemma redacted: "m \<noteq> [] \<Longrightarrow> CHR ''*'' \<notin> set m \<Longrightarrow> \<not> contains m (redact_secrets_in_text m s)"
  using mask_infix replace_removes by (auto simp: redact_secrets_in_text_def)

lemma contains_length: "contains w s \<Longrightarrow> length w \<le> length s"
  by (auto simp: contains_iff)

lemma contains_before_dots:
  assumes "CHR ''.'' \<notin> set m" "m \<noteq> []" "contains m (x @ ''...'')"
  shows "contains m x"
proof -
  obtain u z where u: "x @ ''...'' = u @ m @ z" using assms(3) by (auto simp: contains_iff)
  obtain us where "x = u @ us \<and> us @ ''...'' = m @ z \<or> x @ us = u \<and> ''...'' = us @ m @ z"
    using iffD1 [OF append_eq_append_conv2 u] by blast
  then show ?thesis
  proof
    assume us: "x = u @ us \<and> us @ ''...'' = m @ z"
    obtain vs where "us = m @ vs \<and> vs @ ''...'' = z \<or> us @ vs = m \<and> ''...'' = vs @ z"
      using iffD1 [OF append_eq_append_conv2 conjunct2 [OF us]] by blast
    then show ?thesis
    proof
      assume v: "us @ vs = m \<and> ''...'' = vs @ z"
      have "set ''...'' = set vs \<union> set z" using v by (metis set_append)
      then have "set vs \<subseteq> {CHR ''.''}" by auto
      then have "vs = []" using v assms(1) by (cases vs) auto
      then have "x = u @ m @ []" using us v by simp
      then show ?thesis unfolding contains_iff by blast
    next
      assume "us = m @ vs \<and> vs @ ''...'' = z"
      then have "x = u @ m @ vs" using us by simp
      then show ?thesis unfolding contains_iff by blast
    qed
  next
    assume "x @ us = u \<and> ''...'' = us @ m @ z"
    then have "set ''...'' = set us \<union> set m \<union> set z" by (metis set_append sup_assoc)
    then have "set m \<subseteq> {CHR ''.''}" by auto
    then show ?thesis using assms(1,2) by (cases m) auto
  qed
qed

text \<open>
  C27: Whatever the gateway answers, the text that is kept of an answer that is not JSON does not
  contain the merchant id, also when it is cut off. The id has thirty-six characters, none of them a star or a dot.
\<close>

theorem merchant_id_is_redacted:
  assumes "length m = 36" "CHR ''*'' \<notin> set m" "CHR ''.'' \<notin> set m"
    and "rp_json r = None \<or> \<not> contains ''json'' (str_lower (case rp_content_type r of Some t \<Rightarrow> t | None \<Rightarrow> []))"
  shows "\<not> contains m (read_response_body m n r)"
proof -
  let ?t = "redact_secrets_in_text m (str_strip (rp_text r))"
  have m: "m \<noteq> []" using assms(1) by auto
  have t: "\<not> contains m ?t" by (rule redacted [OF m assms(2)])
  have "\<not> contains m (take n ?t)"
  proof
    assume "contains m (take n ?t)"
    then obtain x y where "take n ?t = x @ m @ y" by (auto simp: contains_iff)
    then have "?t = x @ m @ (y @ drop n ?t)" by (metis append.assoc append_take_drop_id)
    then show False using t unfolding contains_iff by blast
  qed
  then have cut: "\<not> contains m (take n ?t @ ''...'')" using contains_before_dots [OF assms(3) m] by blast
  have "\<not> contains m ''(empty response body)''"
  proof
    assume "contains m ''(empty response body)''"
    from contains_length [OF this] show False using assms(1) by simp
  qed
  moreover have "read_response_body m n r = (if ?t = [] then ''(empty response body)''
      else if n < length ?t then take n ?t @ ''...'' else ?t)"
  proof -
    have "(if contains ''json'' (str_lower (case rp_content_type r of Some t \<Rightarrow> t | None \<Rightarrow> []))
        then case rp_json r of Some v \<Rightarrow> json_dumps (sanitize_json v) | None \<Rightarrow> ?t else ?t) = ?t"
      using assms(4) by (metis option.case(1))
    then show ?thesis unfolding read_response_body_def Let_def by (simp only:)
  qed
  ultimately show ?thesis using t cut by presburger
qed

definition demo_merchant :: string where
  "demo_merchant = ''1344b5d4-0048-11e8-94db-005056a205be''"

lemma merchant_id_is_redacted_witness:
  "\<not> contains demo_merchant (read_response_body demo_merchant 2000
     \<lparr>rp_content_type = None, rp_json = None, rp_text = ''bad id '' @ demo_merchant\<rparr>)"
  by (rule merchant_id_is_redacted) (simp_all add: demo_merchant_def)

text \<open>In an answer with JSON only the values of some keys are masked; the id in a message is kept.\<close>

lemma json_message_keeps_id:
  "contains demo_merchant (read_response_body demo_merchant 2000
     \<lparr>rp_content_type = Some ''application/json'', rp_json = Some (VDict [(''message'', VStr demo_merchant)]), rp_text = []\<rparr>)"
proof -
  let ?v = "VDict [(''message'', VStr demo_merchant)]"
  have "sanitize_json ?v = ?v" by (simp add: SENSITIVE_JSON_KEYS_def str_lower_def lower_char_def)
  moreover have "dumps_str demo_merchant = CHR 0x22 # demo_merchant @ [CHR 0x22]" by code_simp
  ultimately have d: "json_dumps (sanitize_json ?v) =
      ''{'' @ (dumps_str ''message'' @ '': '' @ [CHR 0x22]) @ demo_merchant @ [CHR 0x22] @ ''}''"
    by simp
  have l: "length (json_dumps (sanitize_json ?v)) \<le> 2000" "json_dumps (sanitize_json ?v) \<noteq> []"
    unfolding d by code_simp+
  have j: "contains ''json'' (str_lower ''application/json'')" by code_simp
  have "read_response_body demo_merchant 2000
     \<lparr>rp_content_type = Some ''application/json'', rp_json = Some ?v, rp_text = []\<rparr> = json_dumps (sanitize_json ?v)"
    unfolding read_response_body_def Let_def http_answer.simps option.case if_P [OF j] using l
    by (simp only: if_False not_less [symmetric] simp_thms)
  then show ?thesis unfolding d contains_iff
    by (intro exI [of _ "''{'' @ (dumps_str ''message'' @ '': '' @ [CHR 0x22])"] exI [of _ "[CHR 0x22] @ ''}''"]) (simp only: append.assoc)
qed

end
