(* ===== verification/Careers.thy ===== *)
theory Careers
  imports Observability
begin

text \<open>
  Applications for a job (\<open>apps/careers/\<close>): the form and its checks, the row that is stored and the
  log line about it. The field types of Django are arguments: which texts are addresses of e-mail and how a number
  is read.
\<close>

section \<open>The form\<close>

datatype position =
    BARISTA | CASHIER | COLD_BAR | WAITER | KITCHEN_STAFF | BAKER | PASTRY_ASSISTANT | SHIFT_SUPERVISOR | CLEANER

datatype employment = FULL_TIME | PART_TIME

datatype application_status = APP_NEW | APP_REVIEWING | APP_INTERVIEW | APP_REJECTED | APP_HIRED

definition position_value :: "(string \<times> position) list" where
  "position_value = [(''barista'', BARISTA), (''cashier'', CASHIER), (''cold_bar'', COLD_BAR), (''waiter'', WAITER),
     (''kitchen_staff'', KITCHEN_STAFF), (''baker'', BAKER), (''pastry_assistant'', PASTRY_ASSISTANT),
     (''shift_supervisor'', SHIFT_SUPERVISOR), (''cleaner'', CLEANER)]"

definition employment_value :: "(string \<times> employment) list" where
  "employment_value = [(''full_time'', FULL_TIME), (''part_time'', PART_TIME)]"

definition MAX_RESUME_SIZE_BYTES :: nat where
  "MAX_RESUME_SIZE_BYTES = 5 * 1024 * 1024"

definition MIN_AGE :: int where
  "MIN_AGE = 16"

definition MAX_AGE :: int where
  "MAX_AGE = 80"

definition PDF_MAGIC :: string where
  "PDF_MAGIC = ''%PDF-''"

definition HR_QUESTIONS :: "string list" where
  "HR_QUESTIONS = [''why_crumbs'', ''cafe_experience'', ''start_timing'']"

text \<open>An uploaded file: its name and its bytes\<close>

record upload =
  up_name :: string
  up_bytes :: string

record raw_application =
  ra_full_name :: string
  ra_phone :: string
  ra_email :: string
  ra_age :: string
  ra_residential_area :: string
  ra_desired_position :: string
  ra_employment_type :: string
  ra_years_of_experience :: string
  ra_relevant_experience :: string
  ra_resume_file :: "upload option"
  ra_hr :: "string \<rightharpoonup> string"

record application =
  app_id :: nat
  app_full_name :: string
  app_phone :: string
  app_email :: string
  app_age :: int
  app_residential_area :: string
  app_desired_position :: position
  app_employment_type :: employment
  app_years_of_experience :: int
  app_relevant_experience :: string
  app_hr_answers :: "(string \<times> string) list"
  app_resume_file :: "upload option"
  app_status :: application_status

datatype form_error =
    Required_Field | Too_Long | Null_Character | Bad_Email | Bad_Number | Age_Range | Out_Of_Range | Bad_Choice
  | File_Empty | File_Size | Pdf_Only | Invalid_Pdf

text \<open>A field that was refused has the errors of all its validators.\<close>

type_synonym 'a checked = "form_error list + 'a"

text \<open>
  \<open>CharField\<close>: the text is stripped, an empty one is missed before any validator runs, and the validators
  (those of the field, the length, no null character) report together; then the \<open>clean_\<close> methods strip once more.
\<close>

definition text_errors :: "nat option \<Rightarrow> string \<Rightarrow> form_error list" where
  "text_errors limit t =
     (case limit of Some n \<Rightarrow> if n < length t then [Too_Long] else [] | None \<Rightarrow> []) @
     (if List.member t (CHR 0x00) then [Null_Character] else [])"

definition validated :: "(string \<Rightarrow> form_error list) \<Rightarrow> string \<Rightarrow> string checked" where
  "validated errors s =
     (let t = str_strip s in
      if t = [] then Inl [Required_Field]
      else if errors t \<noteq> [] then Inl (errors t) else Inr (str_strip t))"

definition clean_text :: "nat option \<Rightarrow> string \<Rightarrow> string checked" where
  "clean_text limit s = validated (text_errors limit) s"

definition clean_email :: "(string \<Rightarrow> bool) \<Rightarrow> string \<Rightarrow> string checked" where
  "clean_email valid_email s =
     validated (\<lambda>t. (if valid_email t then [] else [Bad_Email]) @ text_errors (Some 254) t) s"

definition clean_number :: "(string \<Rightarrow> int option) \<Rightarrow> (int \<Rightarrow> form_error option) \<Rightarrow> string \<Rightarrow> int checked" where
  "clean_number read check s =
     (if s = [] then Inl [Required_Field]
      else case read s of None \<Rightarrow> Inl [Bad_Number]
      | Some n \<Rightarrow> (case check n of Some e \<Rightarrow> Inl [e] | None \<Rightarrow> Inr n))"

definition check_age :: "int \<Rightarrow> form_error option" where
  "check_age n = (if MIN_AGE \<le> n \<and> n \<le> MAX_AGE then None else Some Age_Range)"

definition check_years :: "int \<Rightarrow> form_error option" where
  "check_years n = (if 0 \<le> n \<and> n \<le> 32767 then None else Some Out_Of_Range)"

definition clean_choice :: "(string \<times> 'a) list \<Rightarrow> string \<Rightarrow> 'a checked" where
  "clean_choice values s =
     (if s = [] then Inl [Required_Field]
      else case map_of values s of Some v \<Rightarrow> Inr v | None \<Rightarrow> Inl [Bad_Choice])"

text \<open>
  The file field, \<open>clean_resume_file\<close> and then \<open>FileExtensionValidator\<close> of the model, for which a
  name that is only an extension has none.
\<close>

definition ends_in :: "string \<Rightarrow> string \<Rightarrow> bool" where
  "ends_in s p \<longleftrightarrow> length p \<le> length s \<and> drop (length s - length p) s = p"

definition clean_resume_file :: "upload option \<Rightarrow> upload option checked" where
  "clean_resume_file f =
     (case f of
        None \<Rightarrow> Inr None
      | Some u \<Rightarrow>
          if 100 < length (up_name u) then Inl [Too_Long]
          else if up_bytes u = [] then Inl [File_Empty]
          else if MAX_RESUME_SIZE_BYTES < length (up_bytes u) then Inl [File_Size]
          else if \<not> ends_in (str_lower (up_name u)) ''.pdf'' then Inl [Pdf_Only]
          else if take (length PDF_MAGIC) (up_bytes u) \<noteq> PDF_MAGIC then Inl [Invalid_Pdf]
          else if length (up_name u) \<le> 4 then Inl [Pdf_Only]
          else Inr (Some u))"

definition clean_hr :: "(string \<rightharpoonup> string) \<Rightarrow> string \<Rightarrow> string checked" where
  "clean_hr hr key = clean_text None (case hr key of Some s \<Rightarrow> s | None \<Rightarrow> [])"

definition error_of :: "string \<Rightarrow> 'a checked \<Rightarrow> (string \<times> form_error) list" where
  "error_of field r = (case r of Inl es \<Rightarrow> map (Pair field) es | Inr _ \<Rightarrow> [])"

text \<open>
  The errors of a form by field; \<open>clean\<close> adds an error to each question without a cleaned answer, also to
  one that its validators refused.
\<close>

definition form_errors :: "(string \<Rightarrow> bool) \<Rightarrow> (string \<Rightarrow> int option) \<Rightarrow> raw_application \<Rightarrow> (string \<times> form_error) list" where
  "form_errors valid_email read r =
     error_of ''full_name'' (clean_text (Some 120) (ra_full_name r)) @
     error_of ''phone'' (clean_text (Some 30) (ra_phone r)) @
     error_of ''email'' (clean_email valid_email (ra_email r)) @
     error_of ''age'' (clean_number read check_age (ra_age r)) @
     error_of ''residential_area'' (clean_text (Some 120) (ra_residential_area r)) @
     error_of ''desired_position'' (clean_choice position_value (ra_desired_position r)) @
     error_of ''employment_type'' (clean_choice employment_value (ra_employment_type r)) @
     error_of ''years_of_experience'' (clean_number read check_years (ra_years_of_experience r)) @
     error_of ''relevant_experience'' (clean_text None (ra_relevant_experience r)) @
     error_of ''resume_file'' (clean_resume_file (ra_resume_file r)) @
     concat (map (\<lambda>k. let es = error_of (''hr_'' @ k) (clean_hr (ra_hr r) k) in
       if es = [] then [] else es @ [(''hr_'' @ k, Required_Field)]) HR_QUESTIONS)"

definition cleaned :: "'a checked \<Rightarrow> 'a" where
  "cleaned r = projr r"

definition application_of :: "(string \<Rightarrow> bool) \<Rightarrow> (string \<Rightarrow> int option) \<Rightarrow> nat \<Rightarrow> raw_application \<Rightarrow> application" where
  "application_of valid_email read k r =
     \<lparr>app_id = k, app_full_name = cleaned (clean_text (Some 120) (ra_full_name r)),
      app_phone = cleaned (clean_text (Some 30) (ra_phone r)), app_email = cleaned (clean_email valid_email (ra_email r)),
      app_age = cleaned (clean_number read check_age (ra_age r)),
      app_residential_area = cleaned (clean_text (Some 120) (ra_residential_area r)),
      app_desired_position = cleaned (clean_choice position_value (ra_desired_position r)),
      app_employment_type = cleaned (clean_choice employment_value (ra_employment_type r)),
      app_years_of_experience = cleaned (clean_number read check_years (ra_years_of_experience r)),
      app_relevant_experience = cleaned (clean_text None (ra_relevant_experience r)),
      app_hr_answers = map (\<lambda>k. (k, cleaned (clean_hr (ra_hr r) k))) HR_QUESTIONS,
      app_resume_file = cleaned (clean_resume_file (ra_resume_file r)), app_status = APP_NEW\<rparr>"

section \<open>The page\<close>

record careers_state =
  cs_applications :: "application list"
  cs_next :: nat
  cs_log :: "log_record list"

datatype careers_reply = Careers_Form "(string \<times> form_error) list" | Careers_Done

text \<open>\<open>log_new_career_application\<close>; the position is shown by its label.\<close>

definition log_new_career_application :: "string \<Rightarrow> (position \<Rightarrow> string) \<Rightarrow> application \<Rightarrow> log_record" where
  "log_new_career_application t label a =
     \<lparr>lr_level = ''INFO'', lr_time = t, lr_logger = ''careers.notifications'',
      lr_message = ''New career application #'' @ digits (app_id a) @ '' from '' @ app_full_name a @ '' ('' @ app_phone a @
        '') for '' @ label (app_desired_position a),
      lr_extra = Map.empty, lr_exception = None\<rparr>"

definition careers_page :: "string \<Rightarrow> (position \<Rightarrow> string) \<Rightarrow> (string \<Rightarrow> bool) \<Rightarrow> (string \<Rightarrow> int option) \<Rightarrow>
    raw_application option \<Rightarrow> careers_state \<Rightarrow> careers_reply \<times> careers_state" where
  "careers_page t label valid_email read post s =
     (case post of
        None \<Rightarrow> (Careers_Form [], s)
      | Some r \<Rightarrow>
          if form_errors valid_email read r \<noteq> [] then (Careers_Form (form_errors valid_email read r), s)
          else let a = application_of valid_email read (cs_next s) r in
            (Careers_Done, s\<lparr>cs_applications := cs_applications s @ [a], cs_next := Suc (cs_next s),
               cs_log := cs_log s @ [log_new_career_application t label a]\<rparr>))"

text \<open>
  The actions of the admin on the selected applications, \<open>mark_reviewing\<close> to \<open>mark_hired\<close>, with the
  number they report
\<close>

definition mark_applications :: "application_status \<Rightarrow> nat list \<Rightarrow> careers_state \<Rightarrow> int \<times> careers_state" where
  "mark_applications st ks s =
     (int (length (filter (\<lambda>a. app_id a \<in> set ks) (cs_applications s))),
      s\<lparr>cs_applications := upd_rows (\<lambda>a. app_id a \<in> set ks) (\<lambda>a. a\<lparr>app_status := st\<rparr>) (cs_applications s)\<rparr>)"

section \<open>What is stored\<close>

text \<open>The conditions on an application, as the page states them\<close>

definition stripped :: "nat option \<Rightarrow> string \<Rightarrow> bool" where
  "stripped limit s \<longleftrightarrow> s \<noteq> [] \<and> str_strip s = s \<and> (case limit of Some n \<Rightarrow> length s \<le> n | None \<Rightarrow> True)"

definition resume_ok :: "upload \<Rightarrow> bool" where
  "resume_ok u \<longleftrightarrow> length (up_bytes u) \<le> MAX_RESUME_SIZE_BYTES \<and> take 5 (up_bytes u) = PDF_MAGIC \<and>
     (\<exists>stem. stem \<noteq> [] \<and> str_lower (up_name u) = stem @ ''.pdf'')"

definition application_ok :: "(string \<Rightarrow> bool) \<Rightarrow> application \<Rightarrow> bool" where
  "application_ok valid_email a \<longleftrightarrow>
     stripped (Some 120) (app_full_name a) \<and> stripped (Some 30) (app_phone a) \<and>
     stripped (Some 254) (app_email a) \<and> valid_email (app_email a) \<and> 16 \<le> app_age a \<and> app_age a \<le> 80 \<and>
     stripped (Some 120) (app_residential_area a) \<and> 0 \<le> app_years_of_experience a \<and>
     stripped None (app_relevant_experience a) \<and> map fst (app_hr_answers a) = HR_QUESTIONS \<and>
     (\<forall>q\<in>set (app_hr_answers a). stripped None (snd q)) \<and>
     (case app_resume_file a of Some u \<Rightarrow> resume_ok u | None \<Rightarrow> True)"

lemma strip_idle:
  assumes "dropWhile P t = t"
  shows "dropWhile P (rev (dropWhile P (rev t))) = rev (dropWhile P (rev t))"
proof (cases "dropWhile P (rev t)")
  case (Cons c cs)
  let ?u = "rev (dropWhile P (rev t))"
  have nonempty: "?u \<noteq> []" using Cons by simp
  have "t = ?u @ rev (takeWhile P (rev t))"
    by (metis rev_append rev_rev_ident takeWhile_dropWhile_id)
  then have same: "hd t = hd ?u" using nonempty by (metis hd_append2)
  have "t \<noteq> []" using nonempty by auto
  then have "\<not> P (hd t)" using assms by (metis hd_dropWhile)
  then show ?thesis using same nonempty by (simp add: dropWhile_eq_self_iff)
next
  case Nil
  then show ?thesis by (simp only: rev.simps dropWhile.simps)
qed

lemma dropWhile_idem: "dropWhile P (dropWhile P xs) = dropWhile P xs"
  by (induction xs) auto

lemma strip_strip: "str_strip (str_strip s) = str_strip s"
  unfolding str_strip_def by (simp add: strip_idle dropWhile_idem)

lemma validated_ok: "validated errors s = Inr t \<Longrightarrow> t \<noteq> [] \<and> str_strip t = t \<and> errors t = []"
  by (auto simp: validated_def Let_def strip_strip split: if_splits)

lemma text_errors_none: "text_errors limit t = [] \<Longrightarrow> (case limit of Some n \<Rightarrow> length t \<le> n | None \<Rightarrow> True)"
  by (auto simp: text_errors_def split: option.splits if_splits)

lemma clean_text_ok: "clean_text limit s = Inr t \<Longrightarrow> stripped limit t"
  using validated_ok text_errors_none unfolding clean_text_def stripped_def by blast

lemma clean_email_ok: "clean_email v s = Inr t \<Longrightarrow> stripped (Some 254) t \<and> v t"
  using validated_ok [of _ s t] text_errors_none [of "Some 254" t]
  by (fastforce simp: clean_email_def stripped_def split: if_splits)

lemma clean_age_ok: "clean_number read check_age s = Inr n \<Longrightarrow> 16 \<le> n \<and> n \<le> 80"
  by (auto simp: clean_number_def check_age_def MIN_AGE_def MAX_AGE_def split: if_splits option.splits)

lemma clean_years_ok: "clean_number read check_years s = Inr n \<Longrightarrow> 0 \<le> n"
  by (auto simp: clean_number_def check_years_def split: if_splits option.splits)

lemma ends_in_stem: "ends_in s p \<Longrightarrow> length p < length s \<Longrightarrow> \<exists>stem. stem \<noteq> [] \<and> s = stem @ p"
  unfolding ends_in_def
  by (intro exI [of _ "take (length s - length p) s"]) (metis append_take_drop_id length_0_conv length_take min.absorb2
      diff_le_self diff_is_0_eq not_le)

lemma clean_resume_ok: "clean_resume_file f = Inr (Some u) \<Longrightarrow> resume_ok u"
  using ends_in_stem [of "str_lower (up_name u)" "''.pdf''"]
  by (auto simp: clean_resume_file_def resume_ok_def PDF_MAGIC_def str_lower_def eval_nat_numeral
      split: if_splits option.splits)

text \<open>No check refuses a field without an error.\<close>

lemma checks_tell:
  "clean_text limit s \<noteq> Inl []" "clean_email v s \<noteq> Inl []" "clean_number read check s \<noteq> Inl []"
  "clean_choice values s \<noteq> Inl []" "clean_resume_file f \<noteq> Inl []" "clean_hr hr k \<noteq> Inl []"
  by (auto simp: clean_text_def clean_email_def validated_def clean_number_def clean_choice_def clean_resume_file_def
      clean_hr_def Let_def split: option.splits)

lemma error_of_none: "r \<noteq> Inl [] \<Longrightarrow> error_of f r = [] \<longleftrightarrow> \<not> isl r"
  by (cases r) (simp_all add: error_of_def)

lemmas errors_of_checks [simp] = checks_tell [THEN error_of_none]

lemma accepted_cleaned: "\<not> isl r \<Longrightarrow> r = Inr (cleaned r)"
  by (cases r) (simp_all add: cleaned_def)

lemmas field_ok =
  clean_text_ok [OF accepted_cleaned] clean_email_ok [OF accepted_cleaned] clean_age_ok [OF accepted_cleaned]
  clean_years_ok [OF accepted_cleaned]

lemma resume_field_ok:
  "\<not> isl (clean_resume_file f) \<Longrightarrow>
   case cleaned (clean_resume_file f) of Some u \<Rightarrow> resume_ok u | None \<Rightarrow> True"
  using accepted_cleaned clean_resume_ok by (fastforce split: option.split)

lemma hr_field_ok: "\<not> isl (clean_hr hr k) \<Longrightarrow> stripped None (cleaned (clean_hr hr k))"
  unfolding clean_hr_def by (rule clean_text_ok [OF accepted_cleaned])

lemma accepted_form:
  assumes "form_errors v read r = []"
  shows "application_ok v (application_of v read k r)"
proof -
  have "\<forall>q\<in>set HR_QUESTIONS. \<not> isl (clean_hr (ra_hr r) q)"
    using assms by (auto simp: form_errors_def Let_def)
  with assms show ?thesis
    by (auto simp: application_ok_def application_of_def form_errors_def field_ok hr_field_ok resume_field_ok comp_def)
qed

lemma marked_is_ok: "application_ok v (a\<lparr>app_status := st\<rparr>) = application_ok v a"
  by (simp add: application_ok_def)

text \<open>Visits of the page and actions of the admin\<close>

datatype careers_request = Visit_Careers "raw_application option" | Mark application_status "nat list"

definition careers_step :: "string \<Rightarrow> (position \<Rightarrow> string) \<Rightarrow> (string \<Rightarrow> bool) \<Rightarrow> (string \<Rightarrow> int option) \<Rightarrow>
    careers_request \<Rightarrow> careers_state \<Rightarrow> careers_state" where
  "careers_step t label valid_email read q s = (case q of
     Visit_Careers post \<Rightarrow> snd (careers_page t label valid_email read post s)
   | Mark st ks \<Rightarrow> snd (mark_applications st ks s))"

definition careers_run :: "string \<Rightarrow> (position \<Rightarrow> string) \<Rightarrow> (string \<Rightarrow> bool) \<Rightarrow> (string \<Rightarrow> int option) \<Rightarrow>
    careers_request list \<Rightarrow> careers_state \<Rightarrow> careers_state" where
  "careers_run t label valid_email read = fold (careers_step t label valid_email read)"

lemma careers_step_keeps:
  assumes "\<forall>a\<in>set (cs_applications s). application_ok v a"
  shows "\<forall>a\<in>set (cs_applications (careers_step t label v read q s)). application_ok v a"
proof (cases q)
  case (Visit_Careers post)
  then show ?thesis using assms by (cases post) (simp_all add: careers_step_def careers_page_def Let_def accepted_form)
next
  case (Mark st ks)
  then show ?thesis using assms
    by (auto simp add: careers_step_def mark_applications_def upd_rows_def marked_is_ok)
qed

text \<open>
  C28: Whatever the requests to the page and the actions of the admin, every stored application keeps the
  conditions of the page: the texts are stripped, not empty and within their columns, the address is one, the age is
  16 to 80, each question is answered and a file that came with it is a PDF by its name and its first bytes of at
  most five megabytes. A form is stored exactly when it has no error, and one with an error changes nothing.
\<close>
theorem stored_applications_are_complete:
  assumes "\<forall>a\<in>set (cs_applications s). application_ok v a"
  shows "(\<forall>a\<in>set (cs_applications (careers_run t label v read qs s)). application_ok v a) \<and>
         (\<forall>r. let (reply, s') = careers_page t label v read (Some r) (careers_run t label v read qs s) in
            if form_errors v read r = []
            then reply = Careers_Done \<and> (\<exists>a. cs_applications s' = cs_applications (careers_run t label v read qs s) @ [a])
            else reply = Careers_Form (form_errors v read r) \<and> s' = careers_run t label v read qs s)"
proof -
  have "\<forall>a\<in>set (cs_applications (careers_run t label v read qs s)). application_ok v a" using assms
  proof (induction qs arbitrary: s)
    case (Cons q qs)
    from Cons.IH [OF careers_step_keeps [OF Cons.prems]] show ?case by (simp add: careers_run_def)
  qed (simp add: careers_run_def)
  then show ?thesis by (simp add: careers_page_def Let_def)
qed

definition some_application :: raw_application where
  "some_application =
     \<lparr>ra_full_name = '' Sara '', ra_phone = ''0912'', ra_email = ''s@x.ir'', ra_age = ''30'',
      ra_residential_area = ''Tehran'', ra_desired_position = ''baker'', ra_employment_type = ''part_time'',
      ra_years_of_experience = ''2'', ra_relevant_experience = ''bread'',
      ra_resume_file = Some \<lparr>up_name = ''cv.PDF'', up_bytes = ''%PDF-1.7''\<rparr>, ra_hr = (\<lambda>k. Some ''yes'')\<rparr>"

definition no_applications :: careers_state where
  "no_applications = \<lparr>cs_applications = [], cs_next = 1, cs_log = []\<rparr>"

definition reads_numbers :: "string \<Rightarrow> int option" where
  "reads_numbers s = (if s = ''30'' then Some 30 else if s = ''2'' then Some 2 else None)"

definition has_at :: "string \<Rightarrow> bool" where
  "has_at s = List.member s CHR ''@''"

lemma lower_pdf: "str_lower ''cv.PDF'' = ''cv.pdf''"
  by code_simp

lemma some_resume_is_kept: "clean_resume_file (ra_resume_file some_application) = Inr (ra_resume_file some_application)"
  by (simp add: some_application_def clean_resume_file_def MAX_RESUME_SIZE_BYTES_def ends_in_def PDF_MAGIC_def
      lower_pdf)

lemma some_application_has_no_error: "form_errors has_at reads_numbers some_application = []"
  unfolding form_errors_def some_resume_is_kept by code_simp

lemma stored_applications_are_complete_witness:
  "fst (careers_page [] (\<lambda>p. ''baker'') has_at reads_numbers (Some some_application) no_applications) = Careers_Done"
  using stored_applications_are_complete
      [of no_applications has_at "[]" "\<lambda>p. ''baker''" reads_numbers "[]"]
    some_application_has_no_error
  by (simp add: no_applications_def careers_run_def split_beta)

end
