(* ===== verification/Formats.thy ===== *)
theory Formats
  imports Settings Observability
begin

text \<open>
  What templates are given: the filters of the shop (\<open>apps/core/templatetags/crumbs_extras.py\<close>), which write
  amounts in Persian digits, labels, the number of an order and whether a product is on a wish list, and the context of
  every page (\<open>apps/core/context_processors.py\<close>). A Persian text is the list of its code points; labels are
  transliterated.
\<close>

section \<open>Numbers\<close>

type_synonym persian_text = "nat list"

definition persian_digit :: "char \<Rightarrow> nat" where
  "persian_digit c = (if is_digit c then 0x06F0 + (of_char c - 48) else of_char c)"

definition fa_num :: "string \<Rightarrow> persian_text" where
  "fa_num s = map persian_digit s"

text \<open>\<open>quantize(Decimal("1"), rounding=ROUND_HALF_UP)\<close> of hundredths; it raises beyond 28 digits.\<close>

definition half_up :: "money \<Rightarrow> int" where
  "half_up m = sgn m * ((\<bar>m\<bar> + 50) div 100)"

fun grouped_digits :: "string \<Rightarrow> string" where
  "grouped_digits (a # b # c # d # s) = a # b # c # CHR '','' # grouped_digits (d # s)"
| "grouped_digits s = s"

text \<open>The format \<open>:,\<close>, which counts from the right\<close>

definition int_commas :: "int \<Rightarrow> string" where
  "int_commas n = (if n < 0 then ''-'' else []) @ rev (grouped_digits (rev (digits (nat \<bar>n\<bar>))))"

definition TOMAN_SUFFIX :: persian_text where
  "TOMAN_SUFFIX = [0x20, 0x062A, 0x0648, 0x0645, 0x0627, 0x0646]"

definition persian_comma :: "char \<Rightarrow> nat" where
  "persian_comma c = (if c = CHR '','' then 0x060C else persian_digit c)"

definition toman :: "money \<Rightarrow> persian_text option" where
  "toman m = (if 10 ^ 28 \<le> \<bar>half_up m\<bar> then None
     else Some (map persian_comma (int_commas (half_up m)) @ TOMAN_SUFFIX))"

section \<open>Orders\<close>

definition order_display_number :: "order \<Rightarrow> string" where
  "order_display_number od = (case ord_daily_sequence od of
     Some n \<Rightarrow> if n \<noteq> 0 then ''#'' @ int_str n else [] | None \<Rightarrow> [])"

text \<open>\<open>order_status_fa\<close> by the value of the status; the last five are statuses of an earlier release.\<close>

definition ORDER_STATUS_FA :: "string \<rightharpoonup> string" where
  "ORDER_STATUS_FA = map_of
     [(''pending_payment'', ''waiting for the online payment''), (''awaiting_payment'', ''waiting for the payment at the desk''),
      (''paid'', ''paid''), (''confirmed_by_shop'', ''confirmed by the shop''), (''preparing'', ''in preparation''),
      (''packaged'', ''ready at the counter''), (''out_for_delivery'', ''ready at the counter''), (''delivered'', ''delivered''),
      (''cancelled'', ''cancelled''), (''refunded'', ''refunded''), (''pending'', ''waiting''), (''confirmed'', ''confirmed''),
      (''processing'', ''in preparation''), (''ready'', ''ready at the counter''), (''completed'', ''delivered'')]"

definition fa_order_status :: "(order_status \<Rightarrow> string) \<Rightarrow> order \<Rightarrow> string" where
  "fa_order_status display od = (case ORDER_STATUS_FA (status_value (ord_status od)) of
     Some l \<Rightarrow> l | None \<Rightarrow> display (ord_status od))"

definition PAYMENT_METHOD_FA :: "string \<rightharpoonup> string" where
  "PAYMENT_METHOD_FA = map_of [(''online'', ''online payment''), (''cash'', ''payment in person''),
     (''counter_card'', ''payment in person''), (''cod'', ''payment on delivery (old)'')]"

definition fa_payment_method :: "(payment_method \<Rightarrow> string) \<Rightarrow> order \<Rightarrow> string" where
  "fa_payment_method display od = (case PAYMENT_METHOD_FA (method_value (ord_payment_method od)) of
     Some l \<Rightarrow> l | None \<Rightarrow> display (ord_payment_method od))"

fun fa_fulfillment_type :: "fulfillment_type \<Rightarrow> string" where
  "fa_fulfillment_type FT_PICKUP = ''counter pickup''"
| "fa_fulfillment_type FT_COURIER = ''courier (old)''"
| "fa_fulfillment_type FT_EXPRESS = ''express (old)''"
| "fa_fulfillment_type FT_COD = ''COD (old)''"

fun fa_payment_status :: "order_payment_status \<Rightarrow> string" where
  "fa_payment_status PS_PENDING_PAYMENT = ''waiting for the payment''"
| "fa_payment_status PS_PAID = ''paid''"
| "fa_payment_status PS_COD_PENDING = ''waiting for confirmation''"
| "fa_payment_status PS_COD_CONFIRMED = ''confirmed''"
| "fa_payment_status PS_CASH_RECEIVED = ''received''"
| "fa_payment_status PS_FAILED = ''failed''"
| "fa_payment_status PS_REFUND_REQUESTED = ''refund asked for''"
| "fa_payment_status PS_REFUND_PROCESSED = ''refunded''"

fun fa_payment_record_status :: "payment_state \<Rightarrow> string" where
  "fa_payment_record_status P_PENDING = ''waiting''"
| "fa_payment_record_status P_PROCESSING = ''in process''"
| "fa_payment_record_status P_SUCCEEDED = ''successful''"
| "fa_payment_record_status P_FAILED = ''failed''"
| "fa_payment_record_status P_CANCELLED = ''cancelled''"
| "fa_payment_record_status P_REFUNDED = ''money returned''"

fun fa_availability :: "availability \<Rightarrow> string" where
  "fa_availability AV_AVAILABLE = ''available''"
| "fa_availability AV_OUT_OF_STOCK = ''not available''"
| "fa_availability AV_COMING_SOON = ''soon''"

section \<open>Wish lists\<close>

text \<open>A value of a template, and what \<open>int(value)\<close> makes of it\<close>

definition normalize_product_id :: "pyval \<Rightarrow> int option" where
  "normalize_product_id v = (case v of
     VInt n \<Rightarrow> Some n | VBool b \<Rightarrow> Some (if b then 1 else 0) | VStr s \<Rightarrow> py_int s | _ \<Rightarrow> None)"

definition normalize_wishlist_product_ids :: "pyval \<Rightarrow> int list" where
  "normalize_wishlist_product_ids v = (case v of
     VNone \<Rightarrow> []
   | VStr s \<Rightarrow> if str_strip s = [] then []
       else List.map_filter (\<lambda>p. normalize_product_id (VStr (str_strip p))) (split_on CHR '','' s)
   | VList vs \<Rightarrow> List.map_filter normalize_product_id vs
   | VDict d \<Rightarrow> List.map_filter (\<lambda>(k, _). normalize_product_id (VStr k)) d
   | _ \<Rightarrow> (case normalize_product_id v of Some n \<Rightarrow> [n] | None \<Rightarrow> []))"

definition in_wishlist :: "pyval \<Rightarrow> pyval \<Rightarrow> bool" where
  "in_wishlist ids p = (case normalize_product_id p of
     None \<Rightarrow> False | Some n \<Rightarrow> n \<in> set (normalize_wishlist_product_ids ids))"

section \<open>The context of every page\<close>

text \<open>Every page that is rendered gives its visitor a session and a cart.\<close>

definition cart_context :: "env \<Rightarrow> browser \<Rightarrow> (int \<times> money) V" where
  "cart_context env br =
     bnd (cart_of_visitor env br) (\<lambda>c.
     gets (\<lambda>s. (total_items (st_world s) (cart_id c), get_subtotal (st_world s) (cart_id c))))"

definition table_session_context :: "session \<Rightarrow> string" where
  "table_session_context s = get_table_from_session s"

text \<open>The titles and descriptions of the pages by their view name, transliterated\<close>

definition static_titles :: "string \<rightharpoonup> string" where
  "static_titles = map_of
     [(''core:home'', ''home''), (''core:about'', ''our story''), (''core:contact'', ''contact''),
      (''products:product_list'', ''menu''), (''careers:careers'', ''work with us''), (''core:cart'', ''cart''),
      (''core:checkout'', ''order''), (''accounts:login'', ''sign in''), (''accounts:register'', ''register''),
      (''accounts:profile'', ''account''), (''accounts:order_list'', ''my orders'')]"

definition static_descriptions :: "string \<rightharpoonup> string" where
  "static_descriptions = map_of
     [(''core:home'', ''cookies and coffee by hand, from real ingredients, in small batches''),
      (''core:about'', ''the story of CRUMBS''), (''core:contact'', ''questions, orders and cooperation''),
      (''products:product_list'', ''the menu of CRUMBS: cookies, coffee, food, salads and drinks''),
      (''careers:careers'', ''apply for a job at Crumbs''), (''core:cart'', ''the items of the cart''),
      (''core:checkout'', ''order in person, pay online or at the desk, pick up at the counter''),
      (''accounts:login'', ''sign in to see orders and the profile''), (''accounts:register'', ''create an account''),
      (''accounts:profile'', ''orders and personal data''), (''accounts:order_list'', ''the history of orders'')]"

record seo_page =
  sp_site_url :: string
  sp_canonical_url :: string
  sp_title :: string
  sp_description :: string

definition rstrip_slash :: "string \<Rightarrow> string" where
  "rstrip_slash s = rev (dropWhile (\<lambda>c. c = CHR ''/'') (rev s))"

definition seo_context :: "settings \<Rightarrow> string \<Rightarrow> string \<Rightarrow> string option \<Rightarrow> string \<Rightarrow> seo_page" where
  "seo_context s site_name default_description view_name uri =
     \<lparr>sp_site_url = rstrip_slash (SITE_URL s), sp_canonical_url = uri,
      sp_title = (case Option.bind view_name static_titles of
          Some t \<Rightarrow> if t \<noteq> [] then t @ '' | '' @ site_name else site_name | None \<Rightarrow> site_name),
      sp_description = (case Option.bind view_name static_descriptions of Some d \<Rightarrow> d | None \<Rightarrow> default_description)\<rparr>"

lemma titled_pages_are_described: "static_titles v \<noteq> None \<longleftrightarrow> static_descriptions v \<noteq> None"
  by (simp add: static_titles_def static_descriptions_def)

section \<open>Reading back\<close>

definition plain_char :: "nat \<Rightarrow> char" where
  "plain_char k = char_of (if 0x06F0 \<le> k \<and> k \<le> 0x06F9 then k - 0x06F0 + 48 else k)"

definition read_toman :: "persian_text \<Rightarrow> int option" where
  "read_toman t = py_int (map plain_char (filter (\<lambda>k. k \<noteq> 0x060C) (take (length t - length TOMAN_SUFFIX) t)))"

lemma plain_persian [simp]: "plain_char (persian_digit c) = c"
proof (cases "is_digit c")
  case True
  then have "48 \<le> (of_char c :: nat)" "(of_char c :: nat) \<le> 57" by (simp_all add: is_digit_def)
  moreover from this have "0x06F0 + (of_char c - 48) - 0x06F0 + 48 = (of_char c :: nat)" by simp
  ultimately show ?thesis using True by (simp add: plain_char_def persian_digit_def del: char_of_def)
next
  case False
  have "(of_char c :: nat) < 256" by simp
  then have "\<not> 0x06F0 \<le> (of_char c :: nat)" by linarith
  then show ?thesis using False by (simp add: plain_char_def persian_digit_def)
qed

lemma persian_is_no_comma: "persian_digit c \<noteq> 0x060C"
proof -
  have "(of_char c :: nat) < 256" by simp
  then have "(of_char c :: nat) \<noteq> 0x060C" by linarith
  then show ?thesis by (auto simp: persian_digit_def is_digit_def)
qed

lemma read_commas: "map plain_char (filter (\<lambda>k. k \<noteq> 0x060C) (map persian_comma s)) = filter (\<lambda>c. c \<noteq> CHR '','') s"
  by (induction s) (auto simp: persian_comma_def persian_is_no_comma)

lemma filter_grouped: "filter (\<lambda>c. c \<noteq> CHR '','') (grouped_digits s) = filter (\<lambda>c. c \<noteq> CHR '','') s"
  by (induction s rule: grouped_digits.induct) auto

lemma digit_facts: "is_digit c \<Longrightarrow> \<not> is_space c \<and> c \<noteq> CHR ''-'' \<and> c \<noteq> CHR ''+'' \<and> c \<noteq> CHR ''_'' \<and> c \<noteq> CHR '',''"
proof -
  assume d: "is_digit c"
  then have "\<not> is_space c" unfolding is_digit_def is_space_def Let_def by linarith
  moreover have "\<not> is_digit CHR ''-''" "\<not> is_digit CHR ''+''" "\<not> is_digit CHR ''_''" "\<not> is_digit CHR '',''"
    by (simp_all add: is_digit_def)
  ultimately show ?thesis using d by metis
qed

lemma digits_chars: "c \<in> set (digits n) \<Longrightarrow> is_digit c"
  using digits_all [of n] by (simp add: list_all_iff)

lemma filter_digits: "(\<And>c. is_digit c \<Longrightarrow> P c) \<Longrightarrow> filter P (digits n) = digits n"
  using digits_chars by (simp add: filter_id_conv)

lemma strip_plain: "(\<And>c. c \<in> set s \<Longrightarrow> \<not> is_space c) \<Longrightarrow> str_strip s = s"
proof (cases "s = []")
  assume plain: "\<And>c. c \<in> set s \<Longrightarrow> \<not> is_space c"
  case False
  then have "\<not> is_space (hd s)" "\<not> is_space (hd (rev s))"
    using plain hd_in_set [of s] last_in_set [of s] by (simp_all add: hd_rev)
  then have "dropWhile is_space s = s" "dropWhile is_space (rev s) = rev s"
    by (simp_all only: dropWhile_eq_self_iff simp_thms)
  then show ?thesis by (simp only: str_strip_def rev_rev_ident)
qed (simp add: str_strip_def)

lemma no_underscores: "CHR ''_'' \<notin> set s \<Longrightarrow> s \<noteq> [] \<Longrightarrow> underscores_ok s"
  by (induction s rule: underscores_ok.induct) auto

lemma py_int_int_str: "py_int (int_str n) = Some n"
proof -
  let ?d = "digits (nat \<bar>n\<bar>)"
  have chars: "\<not> is_space c" "c \<noteq> CHR ''_''" "c \<noteq> CHR ''-''" "c \<noteq> CHR ''+''" if "c \<in> set ?d" for c
    using digit_facts [OF digits_chars [OF that]] by simp_all
  have ok: "underscores_ok ?d" "hd ?d \<noteq> CHR ''_''" "hd ?d \<noteq> CHR ''-''" "hd ?d \<noteq> CHR ''+''"
    using chars(2-4) [OF hd_in_set [OF digits_ne]] chars(2) by (auto intro!: no_underscores)
  have strip: "str_strip (int_str n) = int_str n"
    using chars(1) by (intro strip_plain) (auto simp: int_str_def is_space_def split: if_splits)
  have all: "filter (\<lambda>c. c \<noteq> CHR ''_'') ?d = ?d" by (intro filter_digits) (simp add: digit_facts)
  show ?thesis unfolding py_int_def strip Let_def
    using ok all by (auto simp: int_str_def abs_if)
qed

lemma read_int_commas: "filter (\<lambda>c. c \<noteq> CHR '','') (int_commas n) = int_str n"
proof -
  have "filter (\<lambda>c. c \<noteq> CHR '','') (digits k) = digits k" for k by (intro filter_digits) (simp add: digit_facts)
  then show ?thesis
    by (simp add: int_commas_def filter_grouped int_str_def abs_if rev_filter [symmetric] del: rev_filter)
qed

lemma half_up_near: "\<bar>100 * half_up m - m\<bar> \<le> 50"
proof -
  let ?q = "(\<bar>m\<bar> + 50) div 100"
  have "\<bar>100 * ?q - \<bar>m\<bar>\<bar> \<le> 50" by presburger
  then show ?thesis by (auto simp: half_up_def sgn_if abs_if split: if_splits)
qed

text \<open>
  C33: What a customer reads as an amount in toman is the amount of the order to half a toman: taking the word,
  the separators and the Persian digits away gives the whole number nearest to it, ties going away from zero.
\<close>
theorem toman_reads_back:
  assumes "toman m = Some t"
  shows "read_toman t = Some (half_up m) \<and> \<bar>100 * half_up m - m\<bar> \<le> 50 \<and> (\<bar>m\<bar> mod 100 = 50 \<longrightarrow> \<bar>m\<bar> < 100 * \<bar>half_up m\<bar>)"
proof -
  have t: "t = map persian_comma (int_commas (half_up m)) @ TOMAN_SUFFIX"
    using assms by (simp add: toman_def split: if_splits)
  have "read_toman t = Some (half_up m)"
    by (simp add: read_toman_def t read_commas read_int_commas py_int_int_str)
  moreover have "\<bar>m\<bar> < 100 * \<bar>half_up m\<bar>" if "\<bar>m\<bar> mod 100 = 50"
  proof -
    have "m \<noteq> 0" using that by auto
    then have "\<bar>half_up m\<bar> = (\<bar>m\<bar> + 50) div 100" by (simp add: half_up_def abs_mult)
    moreover have "\<bar>m\<bar> = 100 * (\<bar>m\<bar> div 100) + 50" using that mult_div_mod_eq [of 100 "\<bar>m\<bar>"] by simp
    then have "(\<bar>m\<bar> + 50) div 100 = \<bar>m\<bar> div 100 + 1" by linarith
    ultimately show ?thesis using \<open>\<bar>m\<bar> = 100 * (\<bar>m\<bar> div 100) + 50\<close> by linarith
  qed
  ultimately show ?thesis using half_up_near by blast
qed

lemma toman_reads_back_witness:
  "\<exists>t. toman 123456750 = Some t \<and> read_toman t = Some 1234568"
  using toman_reads_back [of 123456750] by (auto simp: toman_def half_up_def)

text \<open>Every status of an order has a label; the wish list of a page is not set, so that no product is on it.\<close>

lemma every_status_is_labelled: "ORDER_STATUS_FA (status_value st) \<noteq> None"
  by (cases st) (simp_all add: ORDER_STATUS_FA_def)

lemma unset_wishlist_is_empty: "\<not> in_wishlist (VStr []) p" "\<not> in_wishlist VNone p"
  by (auto simp: in_wishlist_def normalize_wishlist_product_ids_def str_strip_def split: option.split)

lemma ids_in_wishlist: "in_wishlist (VList (map VInt ns)) (VInt n) \<longleftrightarrow> n \<in> set ns"
  by (induction ns) (auto simp: in_wishlist_def normalize_wishlist_product_ids_def normalize_product_id_def List.map_filter_def)

end
