(* ===== verification/Health.thy ===== *)
theory Health
  imports Settings Observability
begin

text \<open>
  The health endpoints (\<open>apps/core/health_views.py\<close>) and the check of the migration history
  (\<open>apps/core/migration_history_checks.py\<close> and its command). What a service answers, and when, is an argument.
\<close>

section \<open>Probes\<close>

text \<open>
  A call of a service ends after some milliseconds, with or without an exception, or never. Checks run one after the
  other: a value comes with the time it took, and \<open>None\<close> is a call that does not return.
\<close>

datatype probe = Ends nat bool | Hangs

type_synonym 'a timed = "('a \<times> nat) option"

definition CHECK_TIMEOUT_MS :: nat where
  "CHECK_TIMEOUT_MS = 1000"

text \<open>
  \<open>_run_with_timeout\<close>: the result is awaited for a second, but leaving the block of the executor waits for its
  thread, whatever it takes. The value tells whether there was no exception.
\<close>

definition run_with_timeout :: "nat \<Rightarrow> probe \<Rightarrow> bool timed" where
  "run_with_timeout timeout p = (case p of Hangs \<Rightarrow> None | Ends t fine \<Rightarrow> Some (fine \<and> t \<le> timeout, t))"

type_synonym check = "string \<times> bool"

definition status_of :: "bool \<Rightarrow> check" where
  "status_of fine = (if fine then (''ok'', True) else (''error'', False))"

definition check_database :: "probe \<Rightarrow> check timed" where
  "check_database p = map_option (\<lambda>(fine, t). (status_of fine, t)) (run_with_timeout CHECK_TIMEOUT_MS p)"

text \<open>\<open>_check_redis\<close> and \<open>_check_celery_broker\<close> are skipped without an address.\<close>

definition check_service :: "string \<Rightarrow> probe \<Rightarrow> check timed" where
  "check_service url p =
     (if url = [] then Some ((''skipped'', True), 0)
      else map_option (\<lambda>(fine, t). (status_of fine, t)) (run_with_timeout CHECK_TIMEOUT_MS p))"

text \<open>The plan of migrations, which is not timed: \<open>Inr pending\<close>, or an exception\<close>

datatype plan_probe = Plan_After nat "unit + bool" | Plan_Hangs

definition check_migrations :: "plan_probe \<Rightarrow> check timed" where
  "check_migrations p = (case p of
     Plan_Hangs \<Rightarrow> None
   | Plan_After t (Inl _) \<Rightarrow> Some ((''error'', False), t)
   | Plan_After t (Inr pending) \<Rightarrow> Some (if pending then (''pending'', False) else (''ok'', True), t))"

record services =
  sv_database :: probe
  sv_redis :: probe
  sv_broker :: probe
  sv_migrations :: plan_probe

definition then_check :: "'a timed \<Rightarrow> ('a \<Rightarrow> 'b timed) \<Rightarrow> 'b timed" where
  "then_check x f = (case x of None \<Rightarrow> None | Some (a, t) \<Rightarrow>
     (case f a of None \<Rightarrow> None | Some (b, u) \<Rightarrow> Some (b, t + u)))"

definition collect_readiness_checks :: "settings \<Rightarrow> services \<Rightarrow> ((string \<times> string) list \<times> bool) timed" where
  "collect_readiness_checks s v =
     then_check (check_database (sv_database v)) (\<lambda>(db, db_ok).
     then_check (check_service (REDIS_URL s) (sv_redis v)) (\<lambda>(redis, redis_ok).
     then_check (check_service (CELERY_BROKER_URL s) (sv_broker v)) (\<lambda>(celery, celery_ok).
     then_check (check_migrations (sv_migrations v)) (\<lambda>(migrations, migrations_ok).
     Some (([(''database'', db), (''redis'', redis), (''celery_broker'', celery), (''migrations'', migrations)],
       db_ok \<and> redis_ok \<and> celery_ok \<and> migrations_ok), 0)))))"

section \<open>Answers\<close>

record json_answer =
  ja_status :: nat
  ja_body :: pydict

definition checks_json :: "(string \<times> string) list \<Rightarrow> pyval" where
  "checks_json cs = VDict (map (\<lambda>(k, v). (k, VStr v)) cs)"

definition health_check :: json_answer where
  "health_check = \<lparr>ja_status = 200,
     ja_body = [(''status'', VStr ''ok''), (''service'', VStr ''crumbs''), (''type'', VStr ''liveness'')]\<rparr>"

definition readiness_check :: "settings \<Rightarrow> services \<Rightarrow> json_answer timed" where
  "readiness_check s v = map_option (\<lambda>((checks, ready), t).
     (\<lparr>ja_status = if ready then 200 else 503,
       ja_body = [(''status'', VStr (if ready then ''ready'' else ''not_ready'')), (''type'', VStr ''readiness''),
         (''service'', VStr ''crumbs''), (''ready'', VBool ready), (''checks'', checks_json checks)]\<rparr>, t))
     (collect_readiness_checks s v)"

definition health_full_enabled :: "environ \<Rightarrow> settings \<Rightarrow> bool" where
  "health_full_enabled e s \<longleftrightarrow> DEBUG s \<or> str_lower (env_str e ''HEALTH_FULL_ENABLED'' []) \<in> {''1'', ''true'', ''yes''}"

text \<open>No setting \<open>APP_VERSION\<close> is defined; \<open>vendor\<close> is the name of the database.\<close>

definition health_full :: "environ \<Rightarrow> string \<Rightarrow> settings \<Rightarrow> services \<Rightarrow> json_answer timed" where
  "health_full e vendor s v =
     (if \<not> health_full_enabled e s then Some (\<lparr>ja_status = 404, ja_body = [(''detail'', VStr ''Not found.'')]\<rparr>, 0)
      else map_option (\<lambda>((checks, ready), t).
        (\<lparr>ja_status = if ready then 200 else 503,
          ja_body = [(''status'', VStr (if ready then ''ok'' else ''degraded'')), (''service'', VStr ''crumbs''),
            (''type'', VStr ''full''), (''environment'', VStr (env_str e ''DJANGO_SETTINGS_MODULE'' ''unknown'')),
            (''debug'', VBool (DEBUG s)), (''database_vendor'', VStr vendor), (''checks'', checks_json checks)] @
            (if env_str e ''APP_VERSION'' [] \<noteq> [] then [(''version'', VStr (env_str e ''APP_VERSION'' []))] else [])\<rparr>, t))
        (collect_readiness_checks s v))"

section \<open>Migration history\<close>

definition EXPECTED_CORE_MIGRATIONS :: "string list" where
  "EXPECTED_CORE_MIGRATIONS = [''0001_background_tasks'', ''0002_career_application'', ''0003_delete_careerapplication'',
     ''0004_persian_verbose_names'']"

definition EXPECTED_CAREERS_MIGRATIONS :: "string list" where
  "EXPECTED_CAREERS_MIGRATIONS = [''0001_initial'', ''0002_remove_social_urls'', ''0003_cafe_hiring_fields'',
     ''0004_persian_positions'', ''0005_cafe_hiring_form_update'', ''0006_align_model_verbose_names'',
     ''0007_positions_and_required_email'']"

text \<open>The registry of models, the files of migrations and the migrations of the graph\<close>

record history =
  hi_core_has_model :: bool
  hi_careers_table :: "string option"
  hi_is_file :: "string \<Rightarrow> bool"
  hi_in_graph :: "string \<times> string \<Rightarrow> bool"

definition verify_model_registry :: "history \<Rightarrow> string list" where
  "verify_model_registry h =
     (if hi_core_has_model h then [''core.CareerApplication must not be registered in the current model registry.''] else []) @
     (case hi_careers_table h of
        None \<Rightarrow> [''careers.CareerApplication is missing from the model registry.'']
      | Some table \<Rightarrow> if table \<noteq> ''careers_careerapplication''
          then [''careers.CareerApplication uses unexpected db_table '' @ repr_str table @
            '' (expected '' @ repr_str ''careers_careerapplication'' @ '').''] else [])"

definition missing_files :: "string \<Rightarrow> string list \<Rightarrow> history \<Rightarrow> string list" where
  "missing_files app names h = map (\<lambda>n. ''Missing migration file: '' @ app @ ''/migrations/'' @ n @ ''.py'')
     (filter (\<lambda>n. \<not> hi_is_file h (app @ ''/migrations/'' @ n @ ''.py'')) names)"

definition verify_migration_files :: "history \<Rightarrow> string list" where
  "verify_migration_files h = missing_files ''core'' EXPECTED_CORE_MIGRATIONS h @
     missing_files ''careers'' EXPECTED_CAREERS_MIGRATIONS h"

definition missing_nodes :: "string \<Rightarrow> string list \<Rightarrow> history \<Rightarrow> string list" where
  "missing_nodes app names h = map (\<lambda>n. ''Migration graph missing '' @ app @ ''.'' @ n)
     (filter (\<lambda>n. \<not> hi_in_graph h (app, n)) names)"

definition verify_migration_graph :: "history \<Rightarrow> string list" where
  "verify_migration_graph h = missing_nodes ''core'' EXPECTED_CORE_MIGRATIONS h @
     missing_nodes ''careers'' EXPECTED_CAREERS_MIGRATIONS h"

definition run_migration_history_checks :: "history \<Rightarrow> string list" where
  "run_migration_history_checks h = verify_model_registry h @ verify_migration_files h @ verify_migration_graph h"

text \<open>The command prints the errors and fails when there is one.\<close>

definition check_migration_history :: "history \<Rightarrow> string list + string list" where
  "check_migration_history h =
     (let errors = run_migration_history_checks h in
      if errors \<noteq> [] then Inl (errors @ [''Migration history check failed ('' @ digits (length errors) @ '' issue(s)).''])
      else Inr [''Migration history OK''])"

lemma history_is_complete:
  "(\<exists>out. check_migration_history h = Inr out) \<longleftrightarrow>
     \<not> hi_core_has_model h \<and> hi_careers_table h = Some ''careers_careerapplication'' \<and>
     (\<forall>(app, names)\<in>{(''core'', EXPECTED_CORE_MIGRATIONS), (''careers'', EXPECTED_CAREERS_MIGRATIONS)}. \<forall>n\<in>set names.
        hi_is_file h (app @ ''/migrations/'' @ n @ ''.py'') \<and> hi_in_graph h (app, n))"
  by (auto simp: check_migration_history_def Let_def run_migration_history_checks_def verify_model_registry_def
      verify_migration_files_def verify_migration_graph_def missing_files_def missing_nodes_def filter_empty_conv
      split: option.splits)

section \<open>Readiness\<close>

definition prompt :: "probe \<Rightarrow> bool" where
  "prompt p \<longleftrightarrow> (case p of Ends t fine \<Rightarrow> fine \<and> t \<le> CHECK_TIMEOUT_MS | Hangs \<Rightarrow> False)"

definition probe_time :: "probe \<Rightarrow> nat" where
  "probe_time p = (case p of Ends t _ \<Rightarrow> t | Hangs \<Rightarrow> 0)"

lemmas readiness_defs = readiness_check_def collect_readiness_checks_def check_database_def check_service_def
  check_migrations_def run_with_timeout_def then_check_def status_of_def

text \<open>
  C37: The readiness endpoint answers 200 exactly when the database and every configured service are in order within
  a second each and no migration is pending, and 503 otherwise; but it answers only after every probe has come back, whatever the
  timeout: its answer takes at least as long as each of them, and a probe that hangs hangs the endpoint.
\<close>
theorem readiness_waits_for_probes:
  "case readiness_check s v of
     None \<Rightarrow> sv_database v = Hangs \<or> REDIS_URL s \<noteq> [] \<and> sv_redis v = Hangs \<or>
       CELERY_BROKER_URL s \<noteq> [] \<and> sv_broker v = Hangs \<or> sv_migrations v = Plan_Hangs
   | Some (a, t) \<Rightarrow>
       sv_database v \<noteq> Hangs \<and> probe_time (sv_database v) \<le> t \<and>
       (REDIS_URL s = [] \<or> sv_redis v \<noteq> Hangs \<and> probe_time (sv_redis v) \<le> t) \<and>
       (CELERY_BROKER_URL s = [] \<or> sv_broker v \<noteq> Hangs \<and> probe_time (sv_broker v) \<le> t) \<and>
       ja_status a = (if prompt (sv_database v) \<and> (REDIS_URL s = [] \<or> prompt (sv_redis v)) \<and>
           (CELERY_BROKER_URL s = [] \<or> prompt (sv_broker v)) \<and> (\<exists>u. sv_migrations v = Plan_After u (Inr False))
         then 200 else 503)"
  by (cases "sv_database v"; cases "sv_redis v"; cases "sv_broker v"; cases "sv_migrations v")
    (auto simp: readiness_defs prompt_def probe_time_def split: sum.splits)

text \<open>A database that takes ten seconds to refuse, as with the connection timeout of the settings\<close>

definition slow_services :: services where
  "slow_services = \<lparr>sv_database = Ends 10000 False, sv_redis = Ends 1 True, sv_broker = Ends 1 True,
     sv_migrations = Plan_After 10000 (Inl ())\<rparr>"

lemma readiness_waits_for_probes_witness:
  "\<exists>a t. readiness_check (projr (base_settings demo_environ)) slow_services = Some (a, t) \<and> ja_status a = 503 \<and> 10000 \<le> t"
  using readiness_waits_for_probes [where s = "projr (base_settings demo_environ)" and v = slow_services]
  by (cases "readiness_check (projr (base_settings demo_environ)) slow_services")
    (auto simp: slow_services_def prompt_def probe_time_def CHECK_TIMEOUT_MS_def)

end
