(* ===== verification/Seeds.thy ===== *)
theory Seeds
  imports Affinity StateMachine Settings
begin

text \<open>
  The commands that fill a new shop: the defaults of \<open>growth/management/commands/seed_growth_defaults.py\<close>,
  \<open>delivery/management/commands/seed_iran_defaults.py\<close> and
  \<open>intelligence/management/commands/seed_intelligence_defaults.py\<close>. The bodies of the messages are
  transliterated. A command is no transaction.
\<close>

section \<open>The data of the module\<close>

text \<open>A key that was taken out of a dictionary, or was never there, is \<open>None\<close>.\<close>

record coupon_data =
  cd_code :: "string option"
  cd_discount_type :: discount_type
  cd_value :: money
  cd_campaign :: campaign_type
  cd_limit_per_user :: int
  cd_limit_global :: "int option"

record rule_data =
  rl_name :: "string option"
  rl_type :: rule_type
  rl_config :: rule_config
  rl_priority :: int

definition no_config :: rule_config where
  "no_config = \<lparr>cfg_weekdays = None, cfg_percent = None, cfg_tiers = None, cfg_category_slugs = None,
     cfg_buy_qty = None, cfg_buy_category_slugs = None, cfg_free_item_value = None\<rparr>"

definition DEFAULT_SEGMENTS :: "segment_code list" where
  "DEFAULT_SEGMENTS = [SEG_NEW, SEG_ACTIVE, SEG_VIP, SEG_AT_RISK, SEG_DORMANT]"

definition DEFAULT_SMS_TEMPLATES :: "(string \<times> sms_category \<times> string) list" where
  "DEFAULT_SMS_TEMPLATES = [
     (''order_created'', CAT_ORDER, ''order {{ order_number }} was placed, {{ total }} toman, thank you {{ name }}''),
     (''payment_success'', CAT_PAYMENT, ''order {{ order_number }} was paid, {{ total }} toman''),
     (''payment_failed'', CAT_PAYMENT, ''the payment of order {{ order_number }} failed''),
     (''order_confirmed_by_shop'', CAT_ORDER, ''order {{ order_number }} was confirmed by the shop''),
     (''order_preparing'', CAT_ORDER, ''order {{ order_number }} is in preparation''),
     (''order_packaged'', CAT_ORDER, ''order {{ order_number }} was packaged''),
     (''order_out_for_delivery'', CAT_ORDER, ''order {{ order_number }} is on its way''),
     (''delivered'', CAT_ORDER, ''order {{ order_number }} was delivered''),
     (''order_cancelled'', CAT_ORDER, ''order {{ order_number }} was cancelled''),
     (''refund_processed'', CAT_ORDER, ''order {{ order_number }} was refunded, {{ total }} toman''),
     (''abandoned_cart'', CAT_ABANDONED_CART, ''{{ name }}, {{ item_count }} products, {{ subtotal }} toman, {{ shop_url }}''),
     (''abandoned_cart_step2'', CAT_ABANDONED_CART, ''{{ name }}, still {{ item_count }} products, {{ shop_url }}''),
     (''abandoned_cart_discount'', CAT_ABANDONED_CART,
        ''{{ name }}, code {{ coupon_code }} for {{ discount }}% of {{ subtotal }} toman, {{ shop_url }}''),
     (''cod_reminder'', CAT_PAYMENT, ''order {{ order_number }} is on its way, {{ total }} toman in cash''),
     (''promotion'', CAT_MARKETING, ''{{ message }}'')]"

definition DEFAULT_COUPONS :: "coupon_data list" where
  "DEFAULT_COUPONS =
     [\<lparr>cd_code = Some ''WELCOME10'', cd_discount_type = DT_PERCENTAGE, cd_value = 1000, cd_campaign = CT_FIRST_ORDER,
       cd_limit_per_user = 1, cd_limit_global = None\<rparr>,
      \<lparr>cd_code = Some ''CARTSAVE15'', cd_discount_type = DT_PERCENTAGE, cd_value = 1500, cd_campaign = CT_ABANDONED_CART,
       cd_limit_per_user = 1, cd_limit_global = Some 500\<rparr>]"

definition DEFAULT_PROMOTION_RULES :: "rule_data list" where
  "DEFAULT_PROMOTION_RULES =
     [\<lparr>rl_name = Some ''Weekend cookie discount'', rl_type = RT_WEEKEND_DISCOUNT,
       rl_config = no_config\<lparr>cfg_percent := Some 1000, cfg_weekdays := Some [3, 4]\<rparr>, rl_priority = 10\<rparr>,
      \<lparr>rl_name = Some ''VIP extra 10%'', rl_type = RT_VIP_DISCOUNT,
       rl_config = no_config\<lparr>cfg_percent := Some 1000, cfg_tiers := Some [TIER_GOLD]\<rparr>, rl_priority = 20\<rparr>]"

text \<open>The lists of the module, which live as long as the process, and the tables\<close>

record seeding =
  sd_coupons :: "coupon_data list"
  sd_rules :: "rule_data list"
  sd_world :: world

type_synonym 'a S = "(seeding, exn, 'a) prog"

definition on_tables :: "'a P \<Rightarrow> 'a S" where
  "on_tables m = (\<lambda>s. case m (sd_world s) of (r, w) \<Rightarrow> (r, s\<lparr>sd_world := w\<rparr>))"

definition on_growth :: "(growth \<Rightarrow> growth) \<Rightarrow> unit P" where
  "on_growth f = modifies (\<lambda>w. w\<lparr>growth := f (growth w)\<rparr>)"

section \<open>Rows by key\<close>

definition seed_segment :: "segment_code \<Rightarrow> unit P" where
  "seed_segment c =
     bnd (gets (\<lambda>w. find (\<lambda>s. seg_code s = c) (g_segments (growth w)))) (\<lambda>row. case row of
       Some s \<Rightarrow> on_growth (\<lambda>g. g\<lparr>g_segments := upd_rows (\<lambda>s. seg_code s = c) (\<lambda>s. s\<lparr>seg_is_active := True\<rparr>) (g_segments g)\<rparr>)
     | None \<Rightarrow> bnd fresh_pk (\<lambda>k. on_growth (\<lambda>g. g\<lparr>g_segments := g_segments g @
         [\<lparr>seg_id = k, seg_code = c, seg_is_active = True\<rparr>]\<rparr>)))"

definition seed_template :: "string \<times> sms_category \<times> string \<Rightarrow> unit P" where
  "seed_template t = (case t of (code, category, body) \<Rightarrow>
     modifies (\<lambda>w. w\<lparr>sms_templates := (sms_templates w)
       (code \<mapsto> \<lparr>tpl_category = category, tpl_body = body, tpl_is_active = True\<rparr>)\<rparr>))"

definition new_coupon :: "nat \<Rightarrow> string \<Rightarrow> coupon" where
  "new_coupon k code = \<lparr>cpn_id = k, cpn_code = code, cpn_discount_type = DT_PERCENTAGE, cpn_value = 0,
     cpn_campaign = CT_GENERAL, cpn_min_order = 0, cpn_max_discount = None, cpn_limit_global = None,
     cpn_limit_per_user = 1, cpn_usage_count = 0, cpn_valid_from = None, cpn_valid_until = None, cpn_is_active = True\<rparr>"

definition with_coupon_data :: "coupon_data \<Rightarrow> coupon \<Rightarrow> coupon" where
  "with_coupon_data d c = c\<lparr>cpn_discount_type := cd_discount_type d, cpn_value := cd_value d, cpn_campaign := cd_campaign d,
     cpn_limit_per_user := cd_limit_per_user d,
     cpn_limit_global := (case cd_limit_global d of Some n \<Rightarrow> Some n | None \<Rightarrow> cpn_limit_global c), cpn_is_active := True\<rparr>"

definition put_coupon :: "string \<Rightarrow> coupon_data \<Rightarrow> unit P" where
  "put_coupon code d =
     bnd (gets (\<lambda>w. find (\<lambda>c. cpn_code c = code) (g_coupons (growth w)))) (\<lambda>row. case row of
       Some c \<Rightarrow> on_growth (\<lambda>g. g\<lparr>g_coupons := upd_rows (\<lambda>c. cpn_code c = code) (with_coupon_data d) (g_coupons g)\<rparr>)
     | None \<Rightarrow> bnd fresh_pk (\<lambda>k. on_growth (\<lambda>g. g\<lparr>g_coupons := g_coupons g @ [with_coupon_data d (new_coupon k code)]\<rparr>)))"

text \<open>Names of rules are not unique, so that \<open>update_or_create\<close> may find several.\<close>

definition put_rule :: "string \<Rightarrow> rule_data \<Rightarrow> unit P" where
  "put_rule name d =
     bnd (gets (\<lambda>w. filter (\<lambda>r. pr_name r = name) (g_rules (growth w)))) (\<lambda>rows. case rows of
       [] \<Rightarrow> bnd fresh_pk (\<lambda>k. on_growth (\<lambda>g. g\<lparr>g_rules := g_rules g @
         [\<lparr>pr_id = k, pr_name = name, pr_type = rl_type d, pr_config = rl_config d, pr_priority = rl_priority d,
           pr_valid_from = None, pr_valid_until = None, pr_is_active = True\<rparr>]\<rparr>))
     | [r] \<Rightarrow> on_growth (\<lambda>g. g\<lparr>g_rules := upd_rows (\<lambda>r. pr_name r = name) (\<lambda>r. r\<lparr>pr_type := rl_type d,
         pr_config := rl_config d, pr_priority := rl_priority d, pr_is_active := True\<rparr>) (g_rules g)\<rparr>)
     | _ \<Rightarrow> raise (Exn MultipleObjectsReturned (Text ''PromotionRule'')))"

section \<open>The commands\<close>

text \<open>\<open>pop\<close> takes the code out of the dictionary of the module, which keeps only the rest.\<close>

definition seed_coupon :: "nat \<Rightarrow> unit S" where
  "seed_coupon i =
     bnd (gets (\<lambda>s. sd_coupons s ! i)) (\<lambda>d. case cd_code d of
       None \<Rightarrow> raise (Exn KeyError (Text ''code''))
     | Some code \<Rightarrow>
         bnd (modifies (\<lambda>s. s\<lparr>sd_coupons := (sd_coupons s)[i := d\<lparr>cd_code := None\<rparr>]\<rparr>)) (\<lambda>_.
         on_tables (put_coupon code d)))"

definition seed_rule :: "nat \<Rightarrow> unit S" where
  "seed_rule i =
     bnd (gets (\<lambda>s. sd_rules s ! i)) (\<lambda>d. case rl_name d of
       None \<Rightarrow> raise (Exn KeyError (Text ''name''))
     | Some name \<Rightarrow>
         bnd (modifies (\<lambda>s. s\<lparr>sd_rules := (sd_rules s)[i := d\<lparr>rl_name := None\<rparr>]\<rparr>)) (\<lambda>_.
         on_tables (put_rule name d)))"

definition seed_growth_defaults :: "unit S" where
  "seed_growth_defaults =
     bnd (on_tables (for_each DEFAULT_SEGMENTS seed_segment)) (\<lambda>_.
     bnd (on_tables (for_each DEFAULT_SMS_TEMPLATES seed_template)) (\<lambda>_.
     bnd (gets (\<lambda>s. [0..<length (sd_coupons s)])) (\<lambda>cs.
     bnd (for_each cs seed_coupon) (\<lambda>_.
     bnd (gets (\<lambda>s. [0..<length (sd_rules s)])) (\<lambda>rs.
     for_each rs seed_rule)))))"

definition fresh_process :: "world \<Rightarrow> seeding" where
  "fresh_process w = \<lparr>sd_coupons = DEFAULT_COUPONS, sd_rules = DEFAULT_PROMOTION_RULES, sd_world = w\<rparr>"

text \<open>The stock of products that have none yet\<close>

definition seeded_inventory :: inventory where
  "seeded_inventory = \<lparr>inv_track_stock = True, inv_stock = 100, inv_reserved = 0, inv_low_stock_threshold = 10,
     inv_allow_preorder = True\<rparr>"

definition seed_inventories :: "nat list \<Rightarrow> unit P" where
  "seed_inventories ids = for_each ids (\<lambda>p.
     bnd (gets (\<lambda>w. inventories w p)) (\<lambda>row. case row of
       Some i \<Rightarrow> ret ()
     | None \<Rightarrow> modifies (\<lambda>w. w\<lparr>inventories := (inventories w)(p \<mapsto> seeded_inventory)\<rparr>)))"

definition INTEL_TEMPLATES :: "(string \<times> sms_category \<times> string) list" where
  "INTEL_TEMPLATES =
     [(''intel_cookie_offer'', CAT_MARKETING, ''{{ name }}, try the new {{ product_name }}! {{ shop_url }}''),
      (''intel_vip_offer'', CAT_MARKETING, ''{{ name }}, as a VIP: {{ product_name }} is for you. {{ shop_url }}'')]"

definition seed_intelligence_defaults :: "nat list \<Rightarrow> world \<Rightarrow> intelligence \<Rightarrow> (exn + int) \<times> world \<times> intelligence" where
  "seed_intelligence_defaults ps w i =
     (let v = snd (for_each INTEL_TEMPLATES seed_template w) in
      case sync_product_intelligence_meta ps v i of (r, j) \<Rightarrow> (r, v, j))"

section \<open>What is seeded\<close>

definition seeded :: "world \<Rightarrow> bool" where
  "seeded w \<longleftrightarrow>
     (\<forall>c. \<exists>s\<in>set (g_segments (growth w)). seg_code s = c \<and> seg_is_active s) \<and>
     (\<forall>(code, category, body)\<in>set DEFAULT_SMS_TEMPLATES.
        sms_templates w code = Some \<lparr>tpl_category = category, tpl_body = body, tpl_is_active = True\<rparr>) \<and>
     (\<forall>d\<in>set DEFAULT_COUPONS. \<exists>c\<in>set (g_coupons (growth w)). Some (cpn_code c) = cd_code d \<and> cpn_is_active c \<and>
        cpn_value c = cd_value d) \<and>
     (\<forall>d\<in>set DEFAULT_PROMOTION_RULES. \<exists>r\<in>set (g_rules (growth w)). Some (pr_name r) = rl_name d \<and> pr_is_active r)"

lemmas seed_run = run on_tables_def on_growth_def

lemma updated_row: "r \<in> set rs \<Longrightarrow> P r \<Longrightarrow> f r \<in> set (upd_rows P f rs)"
  by (force simp: upd_rows_def)

lemma other_row: "r \<in> set rs \<Longrightarrow> \<not> P r \<Longrightarrow> r \<in> set (upd_rows P f rs)"
  by (force simp: upd_rows_def)

lemma segments_seeded:
  "\<exists>X n. for_each cs seed_segment w = (Inr (), w\<lparr>growth := (growth w)\<lparr>g_segments := X\<rparr>, next_pk := n\<rparr>) \<and>
     (\<forall>c. c \<in> set cs \<or> (\<exists>s\<in>set (g_segments (growth w)). seg_code s = c \<and> seg_is_active s) \<longrightarrow>
        (\<exists>s\<in>set X. seg_code s = c \<and> seg_is_active s))"
proof (induction cs arbitrary: w)
  case Nil
  show ?case by (intro exI [of _ "g_segments (growth w)"] exI [of _ "next_pk w"]) (simp add: run)
next
  case (Cons c cs)
  let ?old = "g_segments (growth w)"
  obtain Y m where first: "seed_segment c w = (Inr (), w\<lparr>growth := (growth w)\<lparr>g_segments := Y\<rparr>, next_pk := m\<rparr>)"
    and Y: "\<exists>s\<in>set Y. seg_code s = c \<and> seg_is_active s"
      "\<forall>s\<in>set ?old. seg_is_active s \<longrightarrow> (\<exists>s'\<in>set Y. seg_code s' = seg_code s \<and> seg_is_active s')"
  proof (cases "find (\<lambda>s. seg_code s = c) ?old")
    case None
    then show thesis
      by (intro that [where Y = "?old @ [\<lparr>seg_id = next_pk w, seg_code = c, seg_is_active = True\<rparr>]" and m = "Suc (next_pk w)"])
        (auto simp: seed_segment_def seed_run)
  next
    case (Some s)
    let ?f = "\<lambda>s. s\<lparr>seg_is_active := True\<rparr>" and ?P = "\<lambda>s. seg_code s = c"
    have "s \<in> set ?old" "seg_code s = c" using Some by (auto simp: find_Some_iff)
    then have s: "?f s \<in> set (upd_rows ?P ?f ?old)" "seg_code s = c"
      using updated_row [of s ?old ?P ?f] by simp_all
    show thesis
    proof (rule that [where Y = "upd_rows ?P ?f ?old" and m = "next_pk w"])
      show "seed_segment c w = (Inr (), w\<lparr>growth := (growth w)\<lparr>g_segments := upd_rows ?P ?f ?old\<rparr>, next_pk := next_pk w\<rparr>)"
        by (simp add: seed_segment_def seed_run Some)
      show "\<exists>s\<in>set (upd_rows ?P ?f ?old). seg_code s = c \<and> seg_is_active s"
        using s by (intro bexI [of _ "?f s"]) simp_all
      show "\<forall>x\<in>set ?old. seg_is_active x \<longrightarrow> (\<exists>y\<in>set (upd_rows ?P ?f ?old). seg_code y = seg_code x \<and> seg_is_active y)"
      proof (intro ballI impI)
        fix x assume "x \<in> set ?old" "seg_is_active x"
        then show "\<exists>y\<in>set (upd_rows ?P ?f ?old). seg_code y = seg_code x \<and> seg_is_active y"
          using s other_row [of x ?old ?P ?f] by (cases "seg_code x = c") (auto intro: bexI [of _ "?f s"])
      qed
    qed
  qed
  obtain X n where rest: "for_each cs seed_segment (w\<lparr>growth := (growth w)\<lparr>g_segments := Y\<rparr>, next_pk := m\<rparr>) =
      (Inr (), w\<lparr>growth := (growth w)\<lparr>g_segments := X\<rparr>, next_pk := n\<rparr>)"
    and X: "\<forall>c. c \<in> set cs \<or> (\<exists>s\<in>set Y. seg_code s = c \<and> seg_is_active s) \<longrightarrow>
        (\<exists>s\<in>set X. seg_code s = c \<and> seg_is_active s)"
    using Cons.IH [of "w\<lparr>growth := (growth w)\<lparr>g_segments := Y\<rparr>, next_pk := m\<rparr>"] by auto
  show ?case
  proof (intro exI conjI)
    show "for_each (c # cs) seed_segment w = (Inr (), w\<lparr>growth := (growth w)\<lparr>g_segments := X\<rparr>, next_pk := n\<rparr>)"
      by (simp add: run first rest)
    show "\<forall>d. d \<in> set (c # cs) \<or> (\<exists>s\<in>set ?old. seg_code s = d \<and> seg_is_active s) \<longrightarrow>
        (\<exists>s\<in>set X. seg_code s = d \<and> seg_is_active s)"
      using X Y by (metis set_ConsD)
  qed
qed

definition template_row :: "string \<times> sms_category \<times> string \<Rightarrow> string \<times> sms_template" where
  "template_row t = (case t of (code, category, body) \<Rightarrow>
     (code, \<lparr>tpl_category = category, tpl_body = body, tpl_is_active = True\<rparr>))"

lemma templates_seeded:
  "for_each ts seed_template w =
     (Inr (), w\<lparr>sms_templates := fold (\<lambda>t m. m(fst (template_row t) \<mapsto> snd (template_row t))) ts (sms_templates w)\<rparr>)"
  by (induction ts arbitrary: w) (auto simp: run seed_template_def template_row_def split: prod.split)

lemma template_stays:
  "k \<notin> (\<lambda>t. fst (template_row t)) ` set ts \<Longrightarrow> fold (\<lambda>t m. m(fst (template_row t) \<mapsto> snd (template_row t))) ts m k = m k"
  by (induction ts arbitrary: m) auto

lemma template_stored:
  "distinct (map (\<lambda>t. fst (template_row t)) ts) \<Longrightarrow> t \<in> set ts \<Longrightarrow>
   fold (\<lambda>t m. m(fst (template_row t) \<mapsto> snd (template_row t))) ts m (fst (template_row t)) = Some (snd (template_row t))"
  by (induction ts arbitrary: m) (auto simp: template_stays)

lemma coupon_seeded:
  "\<exists>X n. put_coupon code d w = (Inr (), w\<lparr>growth := (growth w)\<lparr>g_coupons := X\<rparr>, next_pk := n\<rparr>) \<and>
     (\<exists>c\<in>set X. cpn_code c = code \<and> cpn_is_active c \<and> cpn_value c = cd_value d) \<and>
     {c \<in> set (g_coupons (growth w)). cpn_code c \<noteq> code} \<subseteq> set X"
proof (cases "find (\<lambda>c. cpn_code c = code) (g_coupons (growth w))")
  case None
  then show ?thesis
    by (intro exI [of _ "g_coupons (growth w) @ [with_coupon_data d (new_coupon (next_pk w) code)]"] exI [of _ "Suc (next_pk w)"])
      (auto simp: put_coupon_def seed_run with_coupon_data_def new_coupon_def)
next
  case (Some c)
  let ?X = "upd_rows (\<lambda>c. cpn_code c = code) (with_coupon_data d) (g_coupons (growth w))"
  have "c \<in> set (g_coupons (growth w))" "cpn_code c = code" using Some by (auto simp: find_Some_iff)
  then have "with_coupon_data d c \<in> set ?X" "cpn_code (with_coupon_data d c) = code"
    "cpn_is_active (with_coupon_data d c)" "cpn_value (with_coupon_data d c) = cd_value d"
    using updated_row [of c _ "\<lambda>c. cpn_code c = code" "with_coupon_data d"] by (simp_all add: with_coupon_data_def)
  with Some show ?thesis
    by (intro exI [of _ ?X] exI [of _ "next_pk w"]) (auto simp: put_coupon_def seed_run intro: other_row)
qed

definition rules_named :: "string \<Rightarrow> growth \<Rightarrow> promotion_rule list" where
  "rules_named name g = filter (\<lambda>r. pr_name r = name) (g_rules g)"

lemma rule_seeded:
  assumes "length (rules_named name (growth w)) \<le> 1"
  shows "\<exists>X n. put_rule name d w = (Inr (), w\<lparr>growth := (growth w)\<lparr>g_rules := X\<rparr>, next_pk := n\<rparr>) \<and>
     (\<exists>r\<in>set X. pr_name r = name \<and> pr_is_active r) \<and>
     (\<forall>other. other \<noteq> name \<longrightarrow> filter (\<lambda>r. pr_name r = other) X = rules_named other (growth w))"
proof (cases "rules_named name (growth w)")
  case Nil
  then show ?thesis
    by (intro exI [of _ "g_rules (growth w) @ [\<lparr>pr_id = next_pk w, pr_name = name, pr_type = rl_type d, pr_config = rl_config d,
        pr_priority = rl_priority d, pr_valid_from = None, pr_valid_until = None, pr_is_active = True\<rparr>]"] exI [of _ "Suc (next_pk w)"])
      (auto simp: put_rule_def seed_run rules_named_def)
next
  case (Cons r rs)
  then have one: "filter (\<lambda>r. pr_name r = name) (g_rules (growth w)) = [r]"
    using assms by (simp add: rules_named_def)
  let ?f = "\<lambda>r. r\<lparr>pr_type := rl_type d, pr_config := rl_config d, pr_priority := rl_priority d, pr_is_active := True\<rparr>"
  have r: "r \<in> set (g_rules (growth w))" "pr_name r = name"
    using arg_cong [OF one, of set] by auto
  have same: "filter (\<lambda>r. pr_name r = other) (upd_rows (\<lambda>r. pr_name r = name) ?f rs) = filter (\<lambda>r. pr_name r = other) rs"
    if "other \<noteq> name" for other rs
    using that by (induction rs) (auto simp: upd_rows_def)
  show ?thesis
  proof (intro exI conjI)
    show "put_rule name d w = (Inr (), w\<lparr>growth := (growth w)\<lparr>g_rules := upd_rows (\<lambda>r. pr_name r = name) ?f (g_rules (growth w))\<rparr>,
        next_pk := next_pk w\<rparr>)"
      by (simp add: put_rule_def seed_run one)
    show "\<exists>r\<in>set (upd_rows (\<lambda>r. pr_name r = name) ?f (g_rules (growth w))). pr_name r = name \<and> pr_is_active r"
      using updated_row [of r "g_rules (growth w)" "\<lambda>r. pr_name r = name" ?f] r by (intro bexI [of _ "?f r"]) simp_all
  qed (simp add: same rules_named_def)
qed

lemma default_template_codes: "distinct (map (\<lambda>t. fst (template_row t)) DEFAULT_SMS_TEMPLATES)"
  by code_simp

lemma events_have_templates: "STATUS_TO_SMS_EVENT st = Some e \<Longrightarrow> e \<in> fst ` set DEFAULT_SMS_TEMPLATES"
  by (cases st) (auto simp: DEFAULT_SMS_TEMPLATES_def)

text \<open>The data of the module after a run\<close>

definition used_up :: "seeding \<Rightarrow> bool" where
  "used_up s \<longleftrightarrow> map cd_code (sd_coupons s) = [None, None] \<and> map rl_name (sd_rules s) = [None, None]"

lemma used_up_fails:
  assumes "used_up s"
  shows "fst (seed_growth_defaults s) = Inl (Exn KeyError (Text ''code''))"
proof -
  obtain X n where segs: "for_each DEFAULT_SEGMENTS seed_segment (sd_world s) =
      (Inr (), (sd_world s)\<lparr>growth := (growth (sd_world s))\<lparr>g_segments := X\<rparr>, next_pk := n\<rparr>)"
    using segments_seeded by blast
  obtain c d where two: "sd_coupons s = [c, d]" "cd_code c = None"
    using assms by (auto simp: used_up_def map_eq_Cons_conv)
  then show ?thesis
    by (simp add: seed_growth_defaults_def seed_run segs templates_seeded seed_coupon_def upt_rec)
qed

text \<open>The state after a step on the coupons, and after one on the rules\<close>

definition coupons_to :: "coupon_data list \<Rightarrow> coupon list \<Rightarrow> nat \<Rightarrow> seeding \<Rightarrow> seeding" where
  "coupons_to cs X n s = s\<lparr>sd_coupons := cs, sd_world := (sd_world s)\<lparr>growth := (growth (sd_world s))\<lparr>g_coupons := X\<rparr>, next_pk := n\<rparr>\<rparr>"

definition rules_to :: "rule_data list \<Rightarrow> promotion_rule list \<Rightarrow> nat \<Rightarrow> seeding \<Rightarrow> seeding" where
  "rules_to rs X n s = s\<lparr>sd_rules := rs, sd_world := (sd_world s)\<lparr>growth := (growth (sd_world s))\<lparr>g_rules := X\<rparr>, next_pk := n\<rparr>\<rparr>"

lemma coupons_to_simps [simp]:
  "sd_coupons (coupons_to cs X n s) = cs" "sd_rules (coupons_to cs X n s) = sd_rules s"
  "sd_world (coupons_to cs X n s) = (sd_world s)\<lparr>growth := (growth (sd_world s))\<lparr>g_coupons := X\<rparr>, next_pk := n\<rparr>"
  "coupons_to ds Y m (coupons_to cs X n s) = coupons_to ds Y m s"
  by (simp_all add: coupons_to_def)

lemma rules_to_simps [simp]:
  "sd_rules (rules_to rs X n s) = rs" "sd_coupons (rules_to rs X n s) = sd_coupons s"
  "sd_world (rules_to rs X n s) = (sd_world s)\<lparr>growth := (growth (sd_world s))\<lparr>g_rules := X\<rparr>, next_pk := n\<rparr>"
  "rules_to ds Y m (rules_to rs X n s) = rules_to ds Y m s"
  by (simp_all add: rules_to_def)

lemma coupon_step:
  assumes "cd_code (sd_coupons s ! i) = Some code"
  shows "\<exists>X n. seed_coupon i s = (Inr (), coupons_to ((sd_coupons s)[i := (sd_coupons s ! i)\<lparr>cd_code := None\<rparr>]) X n s) \<and>
     (\<exists>c\<in>set X. cpn_code c = code \<and> cpn_is_active c \<and> cpn_value c = cd_value (sd_coupons s ! i)) \<and>
     {c \<in> set (g_coupons (growth (sd_world s))). cpn_code c \<noteq> code} \<subseteq> set X"
proof -
  obtain X n where "put_coupon code (sd_coupons s ! i) (sd_world s) =
      (Inr (), (sd_world s)\<lparr>growth := (growth (sd_world s))\<lparr>g_coupons := X\<rparr>, next_pk := n\<rparr>)"
    "(\<exists>c\<in>set X. cpn_code c = code \<and> cpn_is_active c \<and> cpn_value c = cd_value (sd_coupons s ! i)) \<and>
     {c \<in> set (g_coupons (growth (sd_world s))). cpn_code c \<noteq> code} \<subseteq> set X"
    using coupon_seeded [of code "sd_coupons s ! i" "sd_world s"] by blast
  then show ?thesis using assms
    by (intro exI [of _ X] exI [of _ n]) (simp add: seed_coupon_def seed_run coupons_to_def)
qed

lemma rule_step:
  assumes "rl_name (sd_rules s ! i) = Some name" and "length (rules_named name (growth (sd_world s))) \<le> 1"
  shows "\<exists>X n. seed_rule i s = (Inr (), rules_to ((sd_rules s)[i := (sd_rules s ! i)\<lparr>rl_name := None\<rparr>]) X n s) \<and>
     (\<exists>r\<in>set X. pr_name r = name \<and> pr_is_active r) \<and>
     (\<forall>other. other \<noteq> name \<longrightarrow> filter (\<lambda>r. pr_name r = other) X = rules_named other (growth (sd_world s)))"
proof -
  obtain X n where "put_rule name (sd_rules s ! i) (sd_world s) =
      (Inr (), (sd_world s)\<lparr>growth := (growth (sd_world s))\<lparr>g_rules := X\<rparr>, next_pk := n\<rparr>)"
    "(\<exists>r\<in>set X. pr_name r = name \<and> pr_is_active r) \<and>
     (\<forall>other. other \<noteq> name \<longrightarrow> filter (\<lambda>r. pr_name r = other) X = rules_named other (growth (sd_world s)))"
    using rule_seeded [OF assms(2), of "sd_rules s ! i"] by blast
  then show ?thesis using assms
    by (intro exI [of _ X] exI [of _ n]) (simp add: seed_rule_def seed_run rules_to_def)
qed

lemma default_coupons_done:
  assumes "sd_coupons s = DEFAULT_COUPONS"
  shows "\<exists>D n. for_each [0, 1] seed_coupon s = (Inr (), coupons_to (map (\<lambda>d. d\<lparr>cd_code := None\<rparr>) DEFAULT_COUPONS) D n s) \<and>
     (\<forall>d\<in>set DEFAULT_COUPONS. \<exists>c\<in>set D. Some (cpn_code c) = cd_code d \<and> cpn_is_active c \<and> cpn_value c = cd_value d)"
proof -
  let ?hello = "''WELCOME10''" and ?save = "''CARTSAVE15''"
  have codes: "cd_code (sd_coupons s ! 0) = Some ?hello" using assms by (simp add: DEFAULT_COUPONS_def)
  obtain C n where c1: "seed_coupon 0 s = (Inr (), coupons_to ((sd_coupons s)[0 := (sd_coupons s ! 0)\<lparr>cd_code := None\<rparr>]) C n s)"
    and C: "\<exists>c\<in>set C. cpn_code c = ?hello \<and> cpn_is_active c \<and> cpn_value c = cd_value (sd_coupons s ! 0)"
    using coupon_step [OF codes] by blast
  define t where "t = coupons_to ((sd_coupons s)[0 := (sd_coupons s ! 0)\<lparr>cd_code := None\<rparr>]) C n s"
  have code: "cd_code (sd_coupons t ! 1) = Some ?save" using assms by (simp add: t_def DEFAULT_COUPONS_def)
  obtain D m where c2: "seed_coupon 1 t = (Inr (), coupons_to ((sd_coupons t)[1 := (sd_coupons t ! 1)\<lparr>cd_code := None\<rparr>]) D m t)"
    and D: "\<exists>c\<in>set D. cpn_code c = ?save \<and> cpn_is_active c \<and> cpn_value c = cd_value (sd_coupons t ! 1)"
      "{c \<in> set (g_coupons (growth (sd_world t))). cpn_code c \<noteq> ?save} \<subseteq> set D"
    using coupon_step [OF code] by blast
  have "{c \<in> set C. cpn_code c \<noteq> ?save} \<subseteq> set D" using D(2) by (simp add: t_def)
  with C have "\<exists>c\<in>set D. cpn_code c = ?hello \<and> cpn_is_active c \<and> cpn_value c = cd_value (sd_coupons s ! 0)" by force
  then have all: "\<forall>d\<in>set DEFAULT_COUPONS. \<exists>c\<in>set D. Some (cpn_code c) = cd_code d \<and> cpn_is_active c \<and> cpn_value c = cd_value d"
    using D(1) assms by (simp add: t_def DEFAULT_COUPONS_def)
  have "for_each [0, 1] seed_coupon s = (Inr (), coupons_to ((sd_coupons t)[1 := (sd_coupons t ! 1)\<lparr>cd_code := None\<rparr>]) D m t)"
    by (simp add: run_bnd c1 t_def [symmetric] c2 [simplified])
  also have "coupons_to ((sd_coupons t)[1 := (sd_coupons t ! 1)\<lparr>cd_code := None\<rparr>]) D m t =
      coupons_to (map (\<lambda>d. d\<lparr>cd_code := None\<rparr>) DEFAULT_COUPONS) D m s"
    using assms by (simp add: t_def) (simp add: DEFAULT_COUPONS_def)
  finally show ?thesis using all by blast
qed

lemma default_rules_done:
  assumes "sd_rules s = DEFAULT_PROMOTION_RULES"
    and one: "\<forall>name\<in>{''Weekend cookie discount'', ''VIP extra 10%''}. length (rules_named name (growth (sd_world s))) \<le> 1"
  shows "\<exists>D n. for_each [0, 1] seed_rule s = (Inr (), rules_to (map (\<lambda>d. d\<lparr>rl_name := None\<rparr>) DEFAULT_PROMOTION_RULES) D n s) \<and>
     (\<forall>d\<in>set DEFAULT_PROMOTION_RULES. \<exists>r\<in>set D. Some (pr_name r) = rl_name d \<and> pr_is_active r)"
proof -
  let ?weekend = "''Weekend cookie discount''" and ?vip = "''VIP extra 10%''"
  have names: "rl_name (sd_rules s ! 0) = Some ?weekend" using assms by (simp add: DEFAULT_PROMOTION_RULES_def)
  have "length (rules_named ?weekend (growth (sd_world s))) \<le> 1" using one by blast
  then obtain C n where c1: "seed_rule 0 s = (Inr (), rules_to ((sd_rules s)[0 := (sd_rules s ! 0)\<lparr>rl_name := None\<rparr>]) C n s)"
    and C: "\<exists>r\<in>set C. pr_name r = ?weekend \<and> pr_is_active r"
      "\<forall>other. other \<noteq> ?weekend \<longrightarrow> filter (\<lambda>r. pr_name r = other) C = rules_named other (growth (sd_world s))"
    using rule_step [OF names] by blast
  define t where "t = rules_to ((sd_rules s)[0 := (sd_rules s ! 0)\<lparr>rl_name := None\<rparr>]) C n s"
  have name: "rl_name (sd_rules t ! 1) = Some ?vip" using assms(1) by (simp add: t_def DEFAULT_PROMOTION_RULES_def)
  have "length (rules_named ?vip (growth (sd_world t))) \<le> 1" using C(2) one by (simp add: rules_named_def t_def)
  then obtain D m where c2: "seed_rule 1 t = (Inr (), rules_to ((sd_rules t)[1 := (sd_rules t ! 1)\<lparr>rl_name := None\<rparr>]) D m t)"
    and D: "\<exists>r\<in>set D. pr_name r = ?vip \<and> pr_is_active r"
      "\<forall>other. other \<noteq> ?vip \<longrightarrow> filter (\<lambda>r. pr_name r = other) D = rules_named other (growth (sd_world t))"
    using rule_step [OF name] by blast
  have "filter (\<lambda>r. pr_name r = ?weekend) D = filter (\<lambda>r. pr_name r = ?weekend) C"
    using D(2) by (simp add: t_def rules_named_def)
  then have same: "{r \<in> set D. pr_name r = ?weekend} = {r \<in> set C. pr_name r = ?weekend}"
    by (metis set_filter)
  obtain r where "r \<in> {r \<in> set C. pr_name r = ?weekend}" "pr_is_active r" using C(1) by blast
  then have "\<exists>r\<in>set D. pr_name r = ?weekend \<and> pr_is_active r" unfolding same [symmetric] by blast
  then have all: "\<forall>d\<in>set DEFAULT_PROMOTION_RULES. \<exists>r\<in>set D. Some (pr_name r) = rl_name d \<and> pr_is_active r"
    using D(1) by (simp add: DEFAULT_PROMOTION_RULES_def)
  have "for_each [0, 1] seed_rule s = (Inr (), rules_to ((sd_rules t)[1 := (sd_rules t ! 1)\<lparr>rl_name := None\<rparr>]) D m t)"
    by (simp add: run_bnd c1 t_def [symmetric] c2 [simplified])
  also have "rules_to ((sd_rules t)[1 := (sd_rules t ! 1)\<lparr>rl_name := None\<rparr>]) D m t =
      rules_to (map (\<lambda>d. d\<lparr>rl_name := None\<rparr>) DEFAULT_PROMOTION_RULES) D m s"
    using assms(1) by (simp add: t_def) (simp add: DEFAULT_PROMOTION_RULES_def)
  finally show ?thesis using all by blast
qed

lemma segment_codes: "c \<in> set DEFAULT_SEGMENTS"
  by (cases c) (simp_all add: DEFAULT_SEGMENTS_def)

text \<open>
  C35: In a new process the command that fills the tables of growth completes when no default rule exists twice:
  every segment, message, coupon and rule of the defaults is then active with its value, so that every status of an
  order that sends a message has one, and orders and stock are as before. The command takes its codes and names
  out of its own data: a second run in the same process, whatever the tables hold, fails with a \<open>KeyError\<close>.
\<close>
theorem growth_defaults_seed_once:
  assumes "\<forall>name\<in>{''Weekend cookie discount'', ''VIP extra 10%''}. length (rules_named name (growth w)) \<le> 1"
  shows "\<exists>s. seed_growth_defaults (fresh_process w) = (Inr (), s) \<and> seeded (sd_world s) \<and>
    (\<forall>st e. STATUS_TO_SMS_EVENT st = Some e \<longrightarrow> (\<exists>t. sms_templates (sd_world s) e = Some t \<and> tpl_is_active t)) \<and>
    orders (sd_world s) = orders w \<and> inventories (sd_world s) = inventories w \<and>
    (\<forall>v. fst (seed_growth_defaults (s\<lparr>sd_world := v\<rparr>)) = Inl (Exn KeyError (Text ''code'')))"
proof -
  obtain S n1 where segs: "for_each DEFAULT_SEGMENTS seed_segment w =
      (Inr (), w\<lparr>growth := (growth w)\<lparr>g_segments := S\<rparr>, next_pk := n1\<rparr>)"
    and S: "\<forall>c. \<exists>s\<in>set S. seg_code s = c \<and> seg_is_active s"
    using segments_seeded [of DEFAULT_SEGMENTS w] segment_codes by blast
  define T where "T = fold (\<lambda>t m. m(fst (template_row t) \<mapsto> snd (template_row t))) DEFAULT_SMS_TEMPLATES (sms_templates w)"
  have T: "\<forall>(code, category, body)\<in>set DEFAULT_SMS_TEMPLATES.
      T code = Some \<lparr>tpl_category = category, tpl_body = body, tpl_is_active = True\<rparr>"
    using template_stored [OF default_template_codes] by (fastforce simp: T_def template_row_def)
  define s1 where "s1 = (fresh_process w)\<lparr>sd_world := w\<lparr>growth := (growth w)\<lparr>g_segments := S\<rparr>, next_pk := n1, sms_templates := T\<rparr>\<rparr>"
  have s1: "sd_coupons s1 = DEFAULT_COUPONS" "sd_rules s1 = DEFAULT_PROMOTION_RULES"
    "sd_world s1 = w\<lparr>growth := (growth w)\<lparr>g_segments := S\<rparr>, next_pk := n1, sms_templates := T\<rparr>"
    by (simp_all add: s1_def fresh_process_def)
  obtain D n2 where coupons: "for_each [0, 1] seed_coupon s1 =
      (Inr (), coupons_to (map (\<lambda>d. d\<lparr>cd_code := None\<rparr>) DEFAULT_COUPONS) D n2 s1)"
    and D: "\<forall>d\<in>set DEFAULT_COUPONS. \<exists>c\<in>set D. Some (cpn_code c) = cd_code d \<and> cpn_is_active c \<and> cpn_value c = cd_value d"
    using default_coupons_done [OF s1(1)] by blast
  let ?s2 = "coupons_to (map (\<lambda>d. d\<lparr>cd_code := None\<rparr>) DEFAULT_COUPONS) D n2 s1"
  have "\<forall>name\<in>{''Weekend cookie discount'', ''VIP extra 10%''}. length (rules_named name (growth (sd_world ?s2))) \<le> 1"
    using assms by (simp add: rules_named_def s1)
  then obtain R n3 where rules: "for_each [0, 1] seed_rule ?s2 =
      (Inr (), rules_to (map (\<lambda>d. d\<lparr>rl_name := None\<rparr>) DEFAULT_PROMOTION_RULES) R n3 ?s2)"
    and R: "\<forall>d\<in>set DEFAULT_PROMOTION_RULES. \<exists>r\<in>set R. Some (pr_name r) = rl_name d \<and> pr_is_active r"
    using default_rules_done [of ?s2] s1(2) by auto
  let ?s3 = "rules_to (map (\<lambda>d. d\<lparr>rl_name := None\<rparr>) DEFAULT_PROMOTION_RULES) R n3 ?s2"
  have first: "on_tables (for_each DEFAULT_SEGMENTS seed_segment) (fresh_process w) =
      (Inr (), (fresh_process w)\<lparr>sd_world := w\<lparr>growth := (growth w)\<lparr>g_segments := S\<rparr>, next_pk := n1\<rparr>\<rparr>)"
    by (simp add: on_tables_def fresh_process_def segs)
  have second: "on_tables (for_each DEFAULT_SMS_TEMPLATES seed_template)
      ((fresh_process w)\<lparr>sd_world := w\<lparr>growth := (growth w)\<lparr>g_segments := S\<rparr>, next_pk := n1\<rparr>\<rparr>) = (Inr (), s1)"
    by (simp add: on_tables_def templates_seeded T_def s1_def)
  have two: "[0..<length (sd_coupons s1)] = [0, 1]" "[0..<length (sd_rules ?s2)] = [0, 1]"
    by (simp_all add: s1 DEFAULT_COUPONS_def DEFAULT_PROMOTION_RULES_def upt_rec)
  have complete: "seed_growth_defaults (fresh_process w) = (Inr (), ?s3)"
    unfolding seed_growth_defaults_def
    by (simp only: run_bnd first second run_gets two coupons rules prod.case sum.case)
  have tables: "sd_world ?s3 = w\<lparr>growth := (growth w)\<lparr>g_segments := S, g_coupons := D, g_rules := R\<rparr>, next_pk := n3, sms_templates := T\<rparr>"
    by (simp add: s1)
  have again: "fst (seed_growth_defaults (?s3\<lparr>sd_world := v\<rparr>)) = Inl (Exn KeyError (Text ''code''))" for v
    by (rule used_up_fails) (simp add: used_up_def DEFAULT_COUPONS_def DEFAULT_PROMOTION_RULES_def)
  have "seeded (sd_world ?s3)" unfolding tables using S T D R by (simp add: seeded_def)
  moreover have "\<exists>t. T e = Some t \<and> tpl_is_active t" if "STATUS_TO_SMS_EVENT st = Some e" for st e
    using T events_have_templates [OF that] by fastforce
  ultimately show ?thesis using again complete by (intro exI [of _ ?s3]) (simp add: tables s1)
qed

lemma growth_defaults_seed_once_witness:
  "\<exists>s. seed_growth_defaults (fresh_process empty_world) = (Inr (), s) \<and> seeded (sd_world s) \<and>
     fst (seed_growth_defaults s) = Inl (Exn KeyError (Text ''code''))"
proof -
  have "\<forall>name\<in>{''Weekend cookie discount'', ''VIP extra 10%''}. length (rules_named name (growth empty_world)) \<le> 1"
    by (simp add: rules_named_def empty_world_def empty_growth_def)
  from growth_defaults_seed_once [OF this] obtain s where
    s: "seed_growth_defaults (fresh_process empty_world) = (Inr (), s)" "seeded (sd_world s)"
      "\<forall>v. fst (seed_growth_defaults (s\<lparr>sd_world := v\<rparr>)) = Inl (Exn KeyError (Text ''code''))" by blast
  then show ?thesis using s(3) [rule_format, of "sd_world s"] by (intro exI [of _ s]) simp
qed

text \<open>Stock that is there stays as it is, products without one get the default, and a second run changes nothing.\<close>

lemma seed_inventories_run:
  "seed_inventories ids w = (Inr (), w\<lparr>inventories := (\<lambda>p. if p \<in> set ids \<and> inventories w p = None
     then Some seeded_inventory else inventories w p)\<rparr>)"
proof (induction ids arbitrary: w)
  case (Cons p ids)
  have same: "w\<lparr>inventories := f\<rparr> = w" if "f = inventories w" for f using that by simp
  show ?case
    by (cases "inventories w p")
      (auto simp: seed_inventories_def run Cons.IH [unfolded seed_inventories_def] fun_eq_iff
        intro!: arg_cong [of _ _ "\<lambda>f. w\<lparr>inventories := f\<rparr>"])
qed (simp add: seed_inventories_def run)

end
