(* ===== verification/Spec2Isabelle.thy ===== *)
theory Spec2Isabelle
  imports SiteProps SmsProps RetentionProps ReservationProps IntelProps Reports BackOffice Catalog Redaction Careers
    Formats Health Seeds
begin

text \<open>
  \<^bold>\<open>A verification library of the CRUMBS shop\<close>

  CRUMBS is a Django shop for baked goods. Customers fill a cart, whose items hold units of stock for a
  while; a checkout turns the cart into an order with a price, reserves stock and a production day for
  it and starts a payment; the gateway's callback, a cashier or a courier settles the payment; the shop
  moves the order through its lifecycle; every change of an order sends a background task, from which
  messages, loyalty points, coupons, referrals and attribution follow. Periodic jobs expire holds, clean
  up stale payments, retry messages, remind abandoned carts and refresh segments.

  \<^bold>\<open>How the code is modelled\<close>

  A service function is a program: a function from the state to a result and the state it leaves
  behind, where \<open>Inl\<close> is the exception that was raised and \<open>Inr\<close> the value that was returned
  (\<open>Prelude\<close>). The state \<open>world\<close> (\<open>Models\<close>, \<open>GrowthModels\<close>) has one field per table, with
  a list of rows or a map, and the messages handed to the broker. \<open>atomic\<close> is
  \<open>@transaction.atomic\<close>: an exception gives the tables back as they were, but messages stay sent.
  A model instance held by the code is a record that is passed along and may be stale, as in the code;
  \<open>save(update_fields=...)\<close> copies only the named fields onto the row. Signals are part of the save
  that triggers them. Settings, the clock and the answers of the gateways are the argument \<open>env\<close>, those
  of the SMS service, the mail backend and the template engine \<open>sms_settings\<close>; the thresholds of the
  reminder job are \<open>retention_settings\<close>.

  Python integers are \<open>int\<close>; money is an integer of hundredths, as \<open>Decimal(2)\<close> is, and
  percentages round half to even; times are microseconds and dates day numbers. Persian texts are named
  or transliterated. Exceptions carry their class and their message.

  \<^bold>\<open>Theories\<close>

  \<^item> \<open>Prelude\<close>: programs, the logic of \<open>valid\<close>, \<open>keeps\<close>, \<open>settles\<close> and
    \<open>fails\<close> with one rule per construct, rows, money. \<open>Models\<close>, \<open>GrowthModels\<close>: the tables.
  \<^item> \<open>StateMachine\<close> (\<open>delivery/state_machine.py\<close>), \<open>OrderEvents\<close> (\<open>orders/events.py\<close>,
    \<open>growth/signals.py\<close>, \<open>core/tasks/\<close>): the table of status changes, the events of a change and
    their idempotent dispatch.
  \<^item> \<open>Inventory\<close> (\<open>inventory/services.py\<close>): holds on stock and on production days.
    \<open>StockLedger\<close> gives the contracts \<open>stock_tables\<close> and \<open>stock_ops\<close> of the stock operations
    and discharges them for the invariant \<open>stock_ok\<close>: every live reservation is counted once, nothing is
    reserved beyond stock or capacity. \<open>StockProps\<close>, \<open>ReservationProps\<close>: what each operation does,
    idempotence, the fulfilment date, and the round trip of a cart's hold.
  \<^item> \<open>OrderService\<close> (\<open>orders/services/order_service.py\<close>, \<open>pickup_completion.py\<close>) with the
    contract \<open>order_ops\<close>; \<open>AuditTrail\<close> the invariant of the status log; \<open>LifecycleProps\<close> the
    abstract lifecycle that orders implement.
  \<^item> \<open>Payments\<close>, \<open>Providers\<close> (\<open>payments/services.py\<close>, \<open>providers/\<close>, \<open>views.py\<close>),
    \<open>StaleCleanup\<close> (\<open>stale_cleanup.py\<close>); \<open>Frames\<close> what these operations leave alone;
    \<open>Webhooks\<close> the contract of a gateway; \<open>PaymentProps\<close>, \<open>CleanupProps\<close> their properties.
  \<^item> \<open>Cart\<close> (\<open>cart/\<close>), \<open>Loyalty\<close> (\<open>loyalty/\<close>), \<open>Growth\<close> (coupons, promotion rules,
    referrals, attribution and customer value of \<open>growth/\<close>), \<open>Checkout\<close>
    (\<open>growth/checkout_integration.py\<close>, \<open>orders/services/\<close>, \<open>orders/daily_sequence.py\<close>,
    \<open>delivery/services.py\<close>). \<open>GrowthFrame\<close> is the contract of what growth services do not touch,
    \<open>ShopLedger\<close> the contract \<open>shop_ops\<close> of the whole shop; \<open>GrowthTask\<close>, \<open>GrowthProps\<close>,
    \<open>CheckoutProps\<close>, \<open>ShopProps\<close> hold the properties and \<open>Examples\<close> the instances.
  \<^item> \<open>Notifications\<close> (\<open>notifications/\<close>), \<open>Tasks\<close> (\<open>notifications/dispatch.py\<close>, the
    tasks of \<open>notifications\<close> and \<open>orders\<close>, the worker of \<open>core/tasks\<close>), \<open>Retention\<close> (the
    jobs of \<open>growth/services.py\<close> and \<open>growth/tasks.py\<close>); \<open>NotifyProps\<close>, \<open>SmsProps\<close>,
    \<open>RetentionProps\<close> their properties.
  \<^item> \<open>Rounding\<close>: decimals of 28 digits and floating point numbers of 53 bits as rationals;
    \<open>IntelModels\<close> the tables of \<open>intelligence/models.py\<close>, which the services of that package read
    and write beside the shop's; \<open>Demand\<close> (\<open>demand_service.py\<close>: statistics of sales and forecasts),
    \<open>Baking\<close> (\<open>inventory_optimization_service.py\<close>), \<open>Affinity\<close> (\<open>aggregation_service.py\<close>),
    \<open>Taste\<close> (\<open>customer_intelligence_service.py\<close>), \<open>Recommend\<close> (\<open>recommendation_service.py\<close>),
    \<open>Upsell\<close> (\<open>upsell_service.py\<close>, \<open>personalization_service.py\<close>, \<open>tasks.py\<close>);
    \<open>IntelProps\<close> their properties.
  \<^item> \<open>Staff\<close> (\<open>core/kitchen_views.py\<close>, \<open>pickup_views.py\<close>, \<open>order_lookup.py\<close>,
    \<open>orders/customer_status.py\<close>) and \<open>OrderAdmin\<close> (\<open>orders/admin.py\<close>): the screens of the staff
    and the actions of the order admin, with lemmas in the contract \<open>order_ops\<close>; \<open>StaffProps\<close> the
    lifecycle with the staff at work.
  \<^item> \<open>Guards\<close> (\<open>core/middleware/rate_limit.py\<close>, \<open>table_session.py\<close>,
    \<open>checkout_access.py\<close>), \<open>Accounts\<close> (\<open>accounts/\<close>, \<open>wishlist/\<close>), \<open>Site\<close>
    (\<open>core/views.py\<close>, \<open>core/forms.py\<close>): requests of visitors, whose state \<open>site\<close> is the tables, the
    intelligence tables, the session, the catalog cache and the messages shown; \<open>SiteProps\<close> the
    theorems about the shop as a whole.
  \<^item> \<open>Reports\<close> (\<open>core/shift_summary.py\<close>, \<open>core/admin_views.py\<close>, the funnel of
    \<open>growth/conversion_service.py\<close> and \<open>intelligence/insights_service.py\<close>): what the staff are shown
    of sales, stock, payments and conversions. \<open>Snapshots\<close> (\<open>get_analytics_snapshot\<close>,
    \<open>growth/revenue_analytics.py\<close>, \<open>growth/tasks.py\<close>, \<open>intelligence/admin_views.py\<close>): the figures
    kept per day, in a record \<open>snapshots\<close> of their own.
  \<^item> \<open>Catalog\<close> (\<open>products/admin.py\<close>, \<open>core/performance.py\<close>): products and categories saved in the
    admin and the catalog cache, with the step relation \<open>step\<close> of visits and changes.
  \<^item> \<open>Settings\<close> (\<open>config/settings/base.py\<close>, \<open>prod.py\<close>): settings as functions of the environment;
    \<open>with_settings\<close> gives the fields of \<open>env\<close>. \<open>Schedule\<close> (the schedule and queues of \<open>base.py\<close>,
    \<open>config/celery.py\<close>) and what follows for the figures taken at night; \<open>BackOffice\<close> holds instances.
    \<open>Seeds\<close>: the commands that fill a new shop. \<open>Health\<close> (\<open>core/health_views.py\<close>,
    \<open>core/migration_history_checks.py\<close>): probes with their time.
  \<^item> \<open>Observability\<close> (\<open>core/observability.py\<close>, \<open>payments/admin.py\<close>): log lines and error reports over
    the values \<open>pyval\<close> of Python; \<open>Redaction\<close> (the answers kept by \<open>providers/zarinpal.py\<close>);
    \<open>Careers\<close> (\<open>careers/\<close>): applications for a job; \<open>Formats\<close>
    (\<open>core/templatetags/crumbs_extras.py\<close>, \<open>core/context_processors.py\<close>): what templates are given.

  \<^bold>\<open>What the theorems show\<close>

  Stock: no sequence of page requests, gateway and task calls and staff actions overbooks a day or oversells a
  product that tracks its stock and takes no preorders, and a fulfilment date is the earliest day that has room;
  the merge of two carts, which signing in never reaches, leaks, and how much is computed. Payments: an
  order is paid only when the gateway verified its amount, a received payment stays received unless Stripe
  reports its refund, callbacks and Zarinpal payments can be repeated, stale checkouts are closed. Orders: histories are runs of the transition
  table, whoever calls the services, the screens and the lists of the admin, final orders stay final (but for the
  legacy placement of cash on delivery), daily numbers are assigned. Prices: discounts stay between
  zero and the subtotal, the promotion loop equals a reference, a payment is started for exactly the order's
  total. Growth: points, usage counts and attribution are booked once. Messages: lifecycle messages are
  settled by their first delivery, an order's SMS goes out once per template unless the retry job repeats a failed
  one, reminders end. Intelligence:
  affinities are exact, statistics account for the sales, though of the first hours of a day only, forecasts are
  weekday averages, recommendations cover the demand, suggestions are new. Site: the rate limiter bounds every
  window, a checkout at the counter is confirmed, one address is the default, the cached menu is current, amounts
  can be read back. Operation: production is guarded, secrets stay out of reports and of the answers kept,
  applications for a job are complete, the defaults are seeded, readiness follows its probes. Several theorems state what the code does against its
  intention; they are kept with the others and are listed as findings of the manifest.

  \<^bold>\<open>Bounds and fuel\<close>

  Loops over rows recurse on the list of rows. The two loops the code bounds keep its bound:
  \<open>find_fulfillment_date\<close> looks at \<open>max_days\<close>, fourteen days, and the daily sequence tries
  \<open>allocate_sequence\<close> the code's five times, of which the first is shown to succeed. Recursive
  definitions are structural, so all programs terminate; that they return is a theorem where it is
  claimed. After a violation of the unique constraint the next attempt of \<open>allocate_sequence\<close> meets a broken
  transaction, as in Django.

  \<^bold>\<open>Not modelled\<close>

  Failures of the broker: it takes every message, so that the \<open>except\<close> clause of
  \<open>emit_order_lifecycle_events\<close> is never entered. Callbacks of Zarinpal whose authority is JSON but not a
  text: the page sends a text, and the model refuses others as missing. Of the scheduled jobs only the retry of
  messages goes through \<open>execute_message\<close>; the others are functions of their own. Concurrent requests: operations run one after the other, as under the row locks the code takes, and
  the clock does not advance within one. Overflow of 32-bit columns and \<open>max_digits\<close>, \<open>updated_at\<close>,
  the logging of services (the log lines of payments and applications are modelled) and the metadata of growth rows. The
  repeated counts of the dashboards; the configuration of Django's admin (columns, filters, labels) and the form that
  adds an order; templates, the static pages and their forms; the delivery zones of the seed command; the deletion of
  products and their slugs; the lists of applications, languages, files and logging handlers of the settings;
  migrations. Django itself, its sessions and validators are arguments. The merge of carts is modelled, but is not
  among the calls of the shop's ledger. Orders are written with another status than the table allows at
  three places, the placement of cash on delivery, the checkout and the form of the order admin, so that
  the lifecycle theorems start with the order placed and leave out the form and \<open>finalize_cod_placement\<close> of the
  order in question, which nothing in the repository calls.
\<close>

end
